(* ===== verification/Prelude.thy ===== *)
theory Prelude
  imports Complex_Main "HOL-Library.List_Lexorder" "HOL-Library.Char_ord" "HOL-Library.Multiset"
begin

text \<open>
  What every component shares: the names of the basic types, the shape of an effectful Go
  function (a state transformer that returns an error value or a result), the environment that
  answers \<^verbatim>\<open>uuid.New\<close>, \<^verbatim>\<open>time.Now\<close> and decides whether a database
  round trip fails, SQL tables as lists of rows, database transactions, wrapped Go errors, and the
  rules by which an operation is shown to keep a predicate or to leave a part of the state alone.
\<close>

section \<open>Basic types\<close>

text \<open>
  A \<^verbatim>\<open>uuid.UUID\<close> is the number its sixteen bytes denote, so \<^verbatim>\<open>uuid.Nil\<close>
  is 0 and byte order is the order of numbers. A \<^verbatim>\<open>time.Time\<close> is a count of seconds of
  UTC since 1970. A \<^verbatim>\<open>decimal.Decimal\<close> is exact, hence a rational number.
\<close>

type_synonym uuid = nat
type_synonym time = int
type_synonym decimal = rat

abbreviation (input) uuid_Nil :: uuid where
  "uuid_Nil \<equiv> 0"

section \<open>Rule collections\<close>

named_theorems keeps_intros \<open>rules that show that an operation keeps a predicate\<close>
named_theorems same_intros \<open>rules that show that an operation leaves a view of the state alone\<close>
named_theorems atomic_intros \<open>rules that show that a failing operation leaves a view alone\<close>
named_theorems op_defs \<open>definitions of the primitive state transformers\<close>

section \<open>Go errors\<close>

text \<open>
  \<^verbatim>\<open>pgx.ErrNoRows\<close>, an error of the server with its SQLSTATE, or a failure of the
  connection.
\<close>

datatype db_error = ErrNoRows | PgError string | ConnError

text \<open>
  An error value: a sentinel of the package, an error of the database driver, an error with a text
  only (\<^verbatim>\<open>errors.New\<close> or \<^verbatim>\<open>fmt.Errorf\<close> without \<^verbatim>\<open>%w\<close>), or
  an error wrapped by \<^verbatim>\<open>fmt.Errorf("...: %w", ..., err)\<close>. Only the constant head of a
  message is kept: no code of the program reads the text of an error.
\<close>

datatype 's goerr = Sentinel 's | DbErr db_error | Opaque string | Wrap string "'s goerr"

text \<open>\<^verbatim>\<open>errors.Is(err, sentinel)\<close> looks through the wrapping.\<close>

fun errors_Is :: "'s goerr \<Rightarrow> 's \<Rightarrow> bool" where
  "errors_Is (Sentinel s) t = (s = t)"
| "errors_Is (DbErr d) t = False"
| "errors_Is (Opaque m) t = False"
| "errors_Is (Wrap m e) t = errors_Is e t"

text \<open>The sentinel an error carries, if it carries one.\<close>

fun sentinel_of :: "'s goerr \<Rightarrow> 's option" where
  "sentinel_of (Sentinel s) = Some s"
| "sentinel_of (DbErr d) = None"
| "sentinel_of (Opaque m) = None"
| "sentinel_of (Wrap m e) = sentinel_of e"

lemma errors_Is_iff: "errors_Is e s \<longleftrightarrow> sentinel_of e = Some s"
  by (induction e) auto

text \<open>What a call ended with: nothing for success, else the sentinel that the error carries.\<close>

definition outcome :: "'s goerr + 'a \<Rightarrow> 's option option" where
  "outcome r = (case r of Inr _ \<Rightarrow> None | Inl e \<Rightarrow> Some (sentinel_of e))"

section \<open>Operations: state transformers with an error result\<close>

type_synonym ('w, 'e, 'a) op = "'w \<Rightarrow> ('e + 'a) \<times> 'w"

definition ret :: "'a \<Rightarrow> ('w, 'e, 'a) op" where
  "ret x w = (Inr x, w)"

definition fail :: "'e \<Rightarrow> ('w, 'e, 'a) op" where
  "fail e w = (Inl e, w)"

text \<open>\<^verbatim>\<open>x, err := m(); if err != nil { return err }; k(x)\<close>\<close>

definition andThen :: "('w, 'e, 'a) op \<Rightarrow> ('a \<Rightarrow> ('w, 'e, 'b) op) \<Rightarrow> ('w, 'e, 'b) op" where
  "andThen m k w = (case m w of (Inl e, w') \<Rightarrow> (Inl e, w') | (Inr x, w') \<Rightarrow> k x w')"

text \<open>\<^verbatim>\<open>if err := m(); err != nil { return f(err) }\<close>\<close>

definition onErr :: "('e \<Rightarrow> 'f) \<Rightarrow> ('w, 'e, 'a) op \<Rightarrow> ('w, 'f, 'a) op" where
  "onErr f m w = (case m w of (Inl e, w') \<Rightarrow> (Inl (f e), w') | (Inr x, w') \<Rightarrow> (Inr x, w'))"

text \<open>Both outcomes of a call inspected by the caller.\<close>

definition inspect :: "('w, 'e, 'a) op \<Rightarrow> ('e + 'a \<Rightarrow> ('w, 'f, 'b) op) \<Rightarrow> ('w, 'f, 'b) op" where
  "inspect m k w = (case m w of (r, w') \<Rightarrow> k r w')"

definition gets :: "('w \<Rightarrow> 'a) \<Rightarrow> ('w, 'e, 'a) op" where
  "gets f w = (Inr (f w), w)"

definition modify :: "('w \<Rightarrow> 'w) \<Rightarrow> ('w, 'e, unit) op" where
  "modify f w = (Inr (), f w)"

text \<open>A result that needs no state.\<close>

definition liftR :: "'e + 'a \<Rightarrow> ('w, 'e, 'a) op" where
  "liftR r w = (r, w)"

text \<open>A conversion to \<^verbatim>\<open>int32\<close>.\<close>

definition int32 :: "int \<Rightarrow> int" where
  "int32 n = (n + 2 ^ 31) mod 2 ^ 32 - 2 ^ 31"

text \<open>A loop over a slice: the results are collected, the first error ends it.\<close>

fun forEach :: "('a \<Rightarrow> ('w, 'e, 'b) op) \<Rightarrow> 'a list \<Rightarrow> ('w, 'e, 'b list) op" where
  "forEach f [] = ret []"
| "forEach f (x # xs) = andThen (f x) (\<lambda>y. andThen (forEach f xs) (\<lambda>ys. ret (y # ys)))"

lemmas [op_defs] = ret_def fail_def andThen_def onErr_def inspect_def gets_def modify_def

lemma op_simps [simp]:
  "ret x w = (Inr x, w)" "fail e w = (Inl e, w)" "gets f w = (Inr (f w), w)"
  "modify h w = (Inr (), h w)"
  by (simp_all add: op_defs)

lemma andThen_Inr: "m w = (Inr x, w') \<Longrightarrow> andThen m k w = k x w'"
  by (simp add: andThen_def)

lemma andThen_Inl: "m w = (Inl e, w') \<Longrightarrow> andThen m k w = (Inl e, w')"
  by (simp add: andThen_def)

lemma andThen_InrE:
  assumes "andThen m k w = (Inr y, w'')"
  obtains x w' where "m w = (Inr x, w')" and "k x w' = (Inr y, w'')"
  using assms by (auto simp: andThen_def split: prod.splits sum.splits)

lemma andThen_onErr_Inr: "m w = (Inr x, w') \<Longrightarrow> andThen (onErr f m) k w = k x w'"
  by (simp add: andThen_def onErr_def)

lemma andThen_ret [simp]: "andThen (ret x) k = k x"
  by (simp add: andThen_def fun_eq_iff)

lemma andThen_fail [simp]: "andThen (fail e) k = fail e"
  by (simp add: andThen_def fun_eq_iff)

lemma onErr_InrD: "onErr f m w = (Inr x, w') \<longleftrightarrow> m w = (Inr x, w')"
  by (auto simp: onErr_def split: prod.splits sum.splits)

lemmas step_simps = andThen_Inr andThen_onErr_Inr onErr_InrD

lemma onErr_InlE:
  assumes "onErr f m w = (Inl e, w')"
  obtains e' where "m w = (Inl e', w')" and "e = f e'"
  using assms by (auto simp: onErr_def split: prod.splits sum.splits)

lemma snd_onErr [simp]: "snd (onErr f m w) = snd (m w)"
  by (simp add: onErr_def split: prod.split sum.split)

lemma snd_andThen:
  "snd (andThen m k w) =
     (case fst (m w) of Inl e \<Rightarrow> snd (m w) | Inr x \<Rightarrow> snd (k x (snd (m w))))"
  by (simp add: andThen_def split: prod.split sum.split)

lemma snd_inspect: "snd (inspect m k w) = snd (k (fst (m w)) (snd (m w)))"
  by (simp add: inspect_def split: prod.split)

section \<open>Keeping a predicate, leaving a view alone\<close>

definition keeps :: "('w \<Rightarrow> bool) \<Rightarrow> ('w, 'e, 'a) op \<Rightarrow> bool" where
  "keeps P m \<longleftrightarrow> (\<forall>w. P w \<longrightarrow> P (snd (m w)))"

definition same :: "('w \<Rightarrow> 'v) \<Rightarrow> ('w, 'e, 'a) op \<Rightarrow> bool" where
  "same f m \<longleftrightarrow> (\<forall>w. f (snd (m w)) = f w)"

lemma keepsI: "(\<And>w. P w \<Longrightarrow> P (snd (m w))) \<Longrightarrow> keeps P m"
  by (simp add: keeps_def)

lemma keepsD: "keeps P m \<Longrightarrow> P w \<Longrightarrow> P (snd (m w))"
  by (simp add: keeps_def)

lemma sameD: "same f m \<Longrightarrow> f (snd (m w)) = f w"
  by (simp add: same_def)

lemma same_keeps: "same f m \<Longrightarrow> (\<And>w w'. f w = f w' \<Longrightarrow> P w = P w') \<Longrightarrow> keeps P m"
  unfolding same_def keeps_def by metis

lemma same_comp: "same f m \<Longrightarrow> same (\<lambda>w. g (f w)) m"
  by (simp add: same_def)

lemma keeps_ret [keeps_intros]: "keeps P (ret x)"
  by (simp add: keeps_def)

lemma keeps_fail [keeps_intros]: "keeps P (fail e)"
  by (simp add: keeps_def)

lemma keeps_gets [keeps_intros]: "keeps P (gets f)"
  by (simp add: keeps_def)

lemma keeps_liftR [keeps_intros]: "keeps P (liftR r)"
  by (simp add: keeps_def liftR_def)

lemma keeps_andThen [keeps_intros]:
  "keeps P m \<Longrightarrow> (\<And>x. keeps P (k x)) \<Longrightarrow> keeps P (andThen m k)"
  by (simp add: keeps_def snd_andThen split: sum.split)

lemma keeps_onErr [keeps_intros]: "keeps P m \<Longrightarrow> keeps P (onErr f m)"
  by (simp add: keeps_def)

lemma keeps_inspect [keeps_intros]:
  "keeps P m \<Longrightarrow> (\<And>r. keeps P (k r)) \<Longrightarrow> keeps P (inspect m k)"
  by (simp add: keeps_def snd_inspect)

lemma keeps_if [keeps_intros]: "keeps P m \<Longrightarrow> keeps P n \<Longrightarrow> keeps P (if b then m else n)"
  by simp

lemma keeps_case_option [keeps_intros]:
  "keeps P m \<Longrightarrow> (\<And>x. keeps P (k x)) \<Longrightarrow>
    keeps P (case r of None \<Rightarrow> m | Some x \<Rightarrow> k x)"
  by (cases r) auto

lemma keeps_case_sum [keeps_intros]:
  "(\<And>e. keeps P (m e)) \<Longrightarrow> (\<And>x. keeps P (k x)) \<Longrightarrow>
    keeps P (case r of Inl e \<Rightarrow> m e | Inr x \<Rightarrow> k x)"
  by (cases r) auto

lemma keeps_forEach [keeps_intros]: "(\<And>x. keeps P (f x)) \<Longrightarrow> keeps P (forEach f xs)"
  by (induction xs) (auto intro!: keeps_intros)

lemma same_ret [same_intros]: "same f (ret x)"
  by (simp add: same_def)

lemma same_fail [same_intros]: "same f (fail e)"
  by (simp add: same_def)

lemma same_liftR [same_intros]: "same f (liftR r)"
  by (simp add: same_def liftR_def)

lemma same_gets [same_intros]: "same f (gets g)"
  by (simp add: same_def)

lemma same_andThen [same_intros]:
  "same f m \<Longrightarrow> (\<And>x. same f (k x)) \<Longrightarrow> same f (andThen m k)"
  by (simp add: same_def snd_andThen split: sum.split)

text \<open>The same with what is known of the first result.\<close>

lemma same_andThen_result:
  "same f m \<Longrightarrow> (\<And>x w w'. m w = (Inr x, w') \<Longrightarrow> same f (k x)) \<Longrightarrow> same f (andThen m k)"
  unfolding same_def andThen_def by (auto split: prod.split sum.split) (metis snd_conv)+

lemma same_onErr [same_intros]: "same f m \<Longrightarrow> same f (onErr g m)"
  by (simp add: same_def)

lemma same_inspect [same_intros]:
  "same f m \<Longrightarrow> (\<And>r. same f (k r)) \<Longrightarrow> same f (inspect m k)"
  by (simp add: same_def snd_inspect)

lemma same_if [same_intros]: "same f m \<Longrightarrow> same f n \<Longrightarrow> same f (if b then m else n)"
  by simp

lemma same_case_option [same_intros]:
  "same f m \<Longrightarrow> (\<And>x. same f (k x)) \<Longrightarrow> same f (case r of None \<Rightarrow> m | Some x \<Rightarrow> k x)"
  by (cases r) auto

lemma same_case_sum [same_intros]:
  "(\<And>e. same f (m e)) \<Longrightarrow> (\<And>x. same f (k x)) \<Longrightarrow>
    same f (case r of Inl e \<Rightarrow> m e | Inr x \<Rightarrow> k x)"
  by (cases r) auto

lemma same_forEach [same_intros]: "(\<And>x. same f (g x)) \<Longrightarrow> same f (forEach g xs)"
  by (induction xs) (auto intro!: same_intros)

section \<open>Failing without an effect\<close>

text \<open>An operation that, when it returns an error, has left a view of the state as it was.\<close>

definition atomic :: "('w \<Rightarrow> 'v) \<Rightarrow> ('w, 'e, 'a) op \<Rightarrow> bool" where
  "atomic V m \<longleftrightarrow> (\<forall>w e w'. m w = (Inl e, w') \<longrightarrow> V w' = V w)"

lemma atomicD: "atomic V m \<Longrightarrow> m w = (Inl e, w') \<Longrightarrow> V w' = V w"
  by (simp add: atomic_def)

lemma atomic_ret [atomic_intros]: "atomic V (ret x)"
  by (simp add: atomic_def)

lemma atomic_fail [atomic_intros]: "atomic V (fail e)"
  by (simp add: atomic_def)

lemma same_atomic: "same V m \<Longrightarrow> atomic V m"
  unfolding same_def atomic_def by (metis snd_conv)

lemma atomic_seq: "same V m \<Longrightarrow> (\<And>x. atomic V (k x)) \<Longrightarrow> atomic V (andThen m k)"
  unfolding same_def atomic_def andThen_def
  by (auto split: prod.splits sum.splits) (metis snd_conv)+

lemma atomic_last:
  "atomic V m \<Longrightarrow> (\<And>x w. \<exists>y w'. k x w = (Inr y, w')) \<Longrightarrow> atomic V (andThen m k)"
  unfolding atomic_def andThen_def by (auto split: prod.splits sum.splits) (metis Pair_inject sum.simps(4))

lemma atomic_onErr [atomic_intros]: "atomic V m \<Longrightarrow> atomic V (onErr f m)"
  by (auto simp: atomic_def elim!: onErr_InlE)

lemma atomic_if [atomic_intros]: "atomic V m \<Longrightarrow> atomic V n \<Longrightarrow> atomic V (if b then m else n)"
  by simp

lemma atomic_case_option [atomic_intros]:
  "atomic V m \<Longrightarrow> (\<And>x. atomic V (k x)) \<Longrightarrow> atomic V (case r of None \<Rightarrow> m | Some x \<Rightarrow> k x)"
  by (cases r) auto

lemma atomic_case_sum [atomic_intros]:
  "(\<And>e. atomic V (m e)) \<Longrightarrow> (\<And>x. atomic V (k x)) \<Longrightarrow>
    atomic V (case r of Inl e \<Rightarrow> m e | Inr x \<Rightarrow> k x)"
  by (cases r) auto

section \<open>The environment\<close>

text \<open>
  Every effect that the outside world answers advances a tick of the state; the environment
  says what \<^verbatim>\<open>uuid.New\<close> and \<^verbatim>\<open>time.Now\<close> (or SQL \<^verbatim>\<open>now()\<close>)
  return at a tick and whether a database round trip fails there.
\<close>

record env =
  env_uuid :: "nat \<Rightarrow> uuid"
  env_now :: "nat \<Rightarrow> time"
  env_fail :: "nat \<Rightarrow> bool"

record io =
  tick :: nat

definition uuid_New :: "env \<Rightarrow> ('r io_scheme, 'e, uuid) op" where
  "uuid_New en w = (Inr (env_uuid en (tick w)), w\<lparr>tick := Suc (tick w)\<rparr>)"

text \<open>\<^verbatim>\<open>if id == uuid.Nil { id = uuid.New() }\<close>\<close>

definition id_or_New :: "env \<Rightarrow> uuid \<Rightarrow> ('r io_scheme, 'e, uuid) op" where
  "id_or_New en i = (if i = uuid_Nil then uuid_New en else ret i)"

definition time_Now :: "env \<Rightarrow> ('r io_scheme, 'e, time) op" where
  "time_Now en w = (Inr (env_now en (tick w)), w\<lparr>tick := Suc (tick w)\<rparr>)"

text \<open>
  One round trip: it fails without an effect, or the statement runs with the server's clock. That a
  statement or a commit takes effect and only its acknowledgement is lost is outside the model; a
  theorem that says what a failed call leaves behind is to be read with this proviso.
\<close>

definition query ::
  "env \<Rightarrow> (time \<Rightarrow> ('r io_scheme, db_error, 'a) op) \<Rightarrow> ('r io_scheme, db_error, 'a) op" where
  "query en q w =
     (let w' = w\<lparr>tick := Suc (tick w)\<rparr>
      in if env_fail en (tick w) then (Inl ConnError, w') else q (env_now en (tick w)) w')"

text \<open>
  \<^verbatim>\<open>tx, err := pool.Begin(); defer tx.Rollback(); body; tx.Commit()\<close>: an error of the body or
  of the commit puts every table back. The two functions wrap the errors of begin and commit.
\<close>

definition transact ::
  "env \<Rightarrow> (db_error \<Rightarrow> 'e) \<Rightarrow> (db_error \<Rightarrow> 'e) \<Rightarrow> ('r io_scheme, 'e, 'a) op \<Rightarrow> ('r io_scheme, 'e, 'a) op" where
  "transact en ebegin ecommit body w =
     (case query en (\<lambda>_. ret ()) w of
        (Inl e, w0) \<Rightarrow> (Inl (ebegin e), w0)
      | (Inr _, w0) \<Rightarrow>
          (case body w0 of
             (Inl e, w1) \<Rightarrow> (Inl e, w0\<lparr>tick := tick w1\<rparr>)
           | (Inr x, w1) \<Rightarrow>
               (case query en (\<lambda>_. ret ()) w1 of
                  (Inl e, w2) \<Rightarrow> (Inl (ecommit e), w0\<lparr>tick := tick w2\<rparr>)
                | (Inr _, w2) \<Rightarrow> (Inr x, w2))))"

text \<open>The environment in which no round trip fails.\<close>

definition calm :: "env \<Rightarrow> bool" where
  "calm en \<longleftrightarrow> (\<forall>n. \<not> env_fail en n)"

text \<open>
  \<^verbatim>\<open>uuid.New\<close> returns version-4 identifiers, whose version bits are never all zero.
\<close>

definition proper_uuids :: "env \<Rightarrow> bool" where
  "proper_uuids en \<longleftrightarrow> (\<forall>n. env_uuid en n \<noteq> uuid_Nil)"

definition untick :: "'r io_scheme \<Rightarrow> 'r io_scheme" where
  "untick w = w\<lparr>tick := 0\<rparr>"

lemma untick_tick [simp]: "untick (w\<lparr>tick := n\<rparr>) = untick w"
  by (simp add: untick_def)

lemma same_uuid_New [same_intros]: "same untick (uuid_New en)"
  by (simp add: same_def uuid_New_def)

lemma same_time_Now [same_intros]: "same untick (time_Now en)"
  by (simp add: same_def time_Now_def)

lemma same_id_or_New [same_intros]: "same untick (id_or_New en i)"
  unfolding id_or_New_def by (intro same_intros)

lemma same_query [same_intros]: "(\<And>t. same untick (q t)) \<Longrightarrow> same untick (query en q)"
  by (simp add: same_def query_def Let_def)

lemma query_calm: "calm en \<Longrightarrow>
    query en q w = q (env_now en (tick w)) (w\<lparr>tick := Suc (tick w)\<rparr>)"
  by (simp add: query_def calm_def Let_def)

lemma query_InrE:
  assumes "query en q w = (Inr x, w')"
  obtains "q (env_now en (tick w)) (w\<lparr>tick := Suc (tick w)\<rparr>) = (Inr x, w')"
    and "\<not> env_fail en (tick w)"
  using assms by (auto simp: query_def Let_def split: if_splits)

text \<open>A predicate that does not read the tick.\<close>

definition tickless :: "('r io_scheme \<Rightarrow> bool) \<Rightarrow> bool" where
  "tickless P \<longleftrightarrow> (\<forall>w n. P (w\<lparr>tick := n\<rparr>) = P w)"

lemma ticklessD: "tickless P \<Longrightarrow> P (w\<lparr>tick := n\<rparr>) = P w"
  by (simp add: tickless_def)

lemma keeps_query: "tickless P \<Longrightarrow> (\<And>t. keeps P (q t)) \<Longrightarrow> keeps P (query en q)"
  by (simp add: keeps_def query_def Let_def ticklessD)

lemma keeps_uuid_New: "tickless P \<Longrightarrow> keeps P (uuid_New en)"
  by (simp add: keeps_def uuid_New_def ticklessD)

lemma keeps_time_Now: "tickless P \<Longrightarrow> keeps P (time_Now en)"
  by (simp add: keeps_def time_Now_def ticklessD)

lemma keeps_same_untick: "tickless P \<Longrightarrow> same untick m \<Longrightarrow> keeps P m"
  unfolding keeps_def same_def untick_def tickless_def by metis

text \<open>A view of the state that does not show the tick.\<close>

definition tickless_view :: "('r io_scheme \<Rightarrow> 'v) \<Rightarrow> bool" where
  "tickless_view f \<longleftrightarrow> (\<forall>w n. f (w\<lparr>tick := n\<rparr>) = f w)"

lemma tickless_viewD: "tickless_view f \<Longrightarrow> f (w\<lparr>tick := n\<rparr>) = f w"
  by (simp add: tickless_view_def)

lemma tickless_view_untick: "tickless_view f \<Longrightarrow> untick w = untick w' \<Longrightarrow> f w = f w'"
  unfolding tickless_view_def untick_def by metis

lemma same_of_untick: "tickless_view f \<Longrightarrow> same untick m \<Longrightarrow> same f m"
  unfolding same_def by (metis tickless_view_untick)

lemma same_query_view: "tickless_view f \<Longrightarrow> (\<And>t. same f (q t)) \<Longrightarrow> same f (query en q)"
  by (simp add: same_def query_def Let_def tickless_viewD)

lemma same_transact_view: "tickless_view f \<Longrightarrow> same f body \<Longrightarrow> same f (transact en eb ec body)"
  unfolding same_def transact_def query_def Let_def
  by (auto simp: tickless_viewD split: prod.splits sum.splits) (metis snd_conv tickless_viewD)+

text \<open>An operation that fails without an effect leaves a view alone when its successes do.\<close>

lemma same_of_atomic:
  assumes "tickless_view f" and "atomic untick m" and "\<And>w x w'. m w = (Inr x, w') \<Longrightarrow> f w' = f w"
  shows "same f m"
  unfolding same_def
proof
  fix w
  obtain r w' where run: "m w = (r, w')" by fastforce
  have "f w' = f w"
  proof (cases r)
    case (Inl e)
    then show ?thesis using assms(1,2) run by (blast dest: atomicD tickless_view_untick)
  qed (use assms(3) run in simp)
  then show "f (snd (m w)) = f w" using run by simp
qed

lemma untick_query [simp]: "untick (snd (query en (\<lambda>_. ret ()) w)) = untick w"
  by (simp add: query_def Let_def)

text \<open>Atomicity: a transaction that fails leaves every table as it was.\<close>

lemma transact_Inl:
  assumes "transact en eb ec body w = (Inl e, w')"
  shows "untick w' = untick w"
  using assms by (auto simp: transact_def query_def Let_def split: prod.splits sum.splits if_splits)

lemma atomic_transact [atomic_intros]: "atomic untick (transact en eb ec body)"
  by (auto simp: atomic_def dest: transact_Inl)

lemma transact_InrE:
  assumes "transact en eb ec body w = (Inr x, w')"
  obtains w0 w1 where "untick w0 = untick w" and "body w0 = (Inr x, w1)" and "untick w' = untick w1"
  using assms
  by (auto simp: transact_def query_def Let_def split: prod.splits sum.splits if_splits)
    (metis untick_tick)

lemma keeps_transact: "tickless P \<Longrightarrow> keeps P body \<Longrightarrow> keeps P (transact en eb ec body)"
  unfolding keeps_def transact_def query_def Let_def
  by (auto simp: ticklessD split: prod.splits sum.splits) (metis snd_conv ticklessD)+

text \<open>An operation that keeps a predicate when it fails.\<close>

definition keeps_failing :: "('w \<Rightarrow> bool) \<Rightarrow> ('w, 'e, 'a) op \<Rightarrow> bool" where
  "keeps_failing P m \<longleftrightarrow> (\<forall>w e w'. P w \<longrightarrow> m w = (Inl e, w') \<longrightarrow> P w')"

lemma keeps_failingD: "keeps_failing P m \<Longrightarrow> P w \<Longrightarrow> m w = (Inl e, w') \<Longrightarrow> P w'"
  by (simp add: keeps_failing_def)

lemma keeps_failing_keeps: "keeps P m \<Longrightarrow> keeps_failing P m"
  unfolding keeps_def keeps_failing_def by (metis snd_conv)

lemma keeps_failing_andThen:
  "keeps P m \<Longrightarrow> (\<And>x. keeps_failing P (k x)) \<Longrightarrow> keeps_failing P (andThen m k)"
  unfolding keeps_def keeps_failing_def andThen_def
  by (fastforce split: prod.splits sum.splits)

lemma keeps_failing_if: "keeps_failing P m \<Longrightarrow> keeps_failing P n \<Longrightarrow> keeps_failing P (if b then m else n)"
  by simp

lemma keeps_failing_atomic: "tickless P \<Longrightarrow> atomic untick m \<Longrightarrow> keeps_failing P m"
  unfolding keeps_failing_def atomic_def tickless_def untick_def by metis

section \<open>Tables\<close>

text \<open>
  A table is the list of its rows in insertion order. \<open>row_by\<close> is
  \<^verbatim>\<open>SELECT ... WHERE p\<close> of a query that expects at most one row;
  \<open>update_rows\<close> is \<^verbatim>\<open>UPDATE ... SET f WHERE p\<close>. Texts are ordered by their bytes, as in a
  database with the C collation.
\<close>

definition row_by :: "('r \<Rightarrow> bool) \<Rightarrow> 'r list \<Rightarrow> db_error + 'r" where
  "row_by p rs = (case List.find p rs of None \<Rightarrow> Inl ErrNoRows | Some r \<Rightarrow> Inr r)"

definition update_rows :: "('r \<Rightarrow> bool) \<Rightarrow> ('r \<Rightarrow> 'r) \<Rightarrow> 'r list \<Rightarrow> 'r list" where
  "update_rows p f = map (\<lambda>r. if p r then f r else r)"

text \<open>\<^verbatim>\<open>LIMIT l OFFSET o\<close>; the server rejects a negative count.\<close>

definition page :: "int \<Rightarrow> int \<Rightarrow> 'r list \<Rightarrow> db_error + 'r list" where
  "page l ofs rs =
     (if l < 0 then Inl (PgError ''2201W'') else if ofs < 0 then Inl (PgError ''2201X'')
      else Inr (take (nat l) (drop (nat ofs) rs)))"

abbreviation unique_violation :: db_error where
  "unique_violation \<equiv> PgError ''23505''"

abbreviation fk_violation :: db_error where
  "fk_violation \<equiv> PgError ''23503''"

abbreviation check_violation :: db_error where
  "check_violation \<equiv> PgError ''23514''"

abbreviation numeric_overflow :: db_error where
  "numeric_overflow \<equiv> PgError ''22003''"

text \<open>A value stored in a column \<^verbatim>\<open>NUMERIC(14,2)\<close>: rounded half away from zero, below 10^12.\<close>

definition round2 :: "decimal \<Rightarrow> decimal" where
  "round2 x = sgn x * of_int \<lfloor>\<bar>x\<bar> * 100 + 1/2\<rfloor> / 100"

definition numeric_14_2 :: "decimal \<Rightarrow> db_error + decimal" where
  "numeric_14_2 x = (if \<bar>round2 x\<bar> < 10 ^ 12 then Inr (round2 x) else Inl numeric_overflow)"

lemma row_by_Inr: "row_by p rs = Inr r \<Longrightarrow> r \<in> set rs \<and> p r"
  by (auto simp: row_by_def find_Some_iff split: option.splits)

lemma row_by_Inl: "row_by p rs = Inl e \<Longrightarrow> e = ErrNoRows \<and> (\<forall>r \<in> set rs. \<not> p r)"
  by (auto simp: row_by_def find_None_iff split: option.splits)

lemma map_update_rows:
  "(\<And>r. k (f r) = k r) \<Longrightarrow> map k (update_rows p f rs) = map k rs"
  by (simp add: update_rows_def)

lemma set_update_rows:
  "r \<in> set (update_rows p f rs) \<longleftrightarrow>
     (r \<in> set rs \<and> \<not> p r) \<or> (\<exists>r' \<in> set rs. p r' \<and> r = f r')"
  by (auto simp: update_rows_def)

lemma image_update_rows: "(\<And>r. k (f r) = k r) \<Longrightarrow> k ` set (update_rows p f rs) = k ` set rs"
  by (metis list.set_map map_update_rows)

lemma updated_row: "r \<in> set rs \<Longrightarrow> (if p r then f r else r) \<in> set (update_rows p f rs)"
  by (simp add: update_rows_def)

lemma update_rows_Cons: "update_rows p f (r # rs) = (if p r then f r else r) # update_rows p f rs"
  by (simp add: update_rows_def)

lemma update_rows_append: "update_rows p f (rs @ rs') = update_rows p f rs @ update_rows p f rs'"
  by (simp add: update_rows_def)

lemma update_rows_none: "(\<And>r. r \<in> set rs \<Longrightarrow> \<not> p r) \<Longrightarrow> update_rows p f rs = rs"
  by (simp add: update_rows_def map_idI)

lemma length_update_rows [simp]: "length (update_rows p f rs) = length rs"
  by (simp add: update_rows_def)

lemma distinct_key_unique:
  "distinct (map k rs) \<Longrightarrow> r \<in> set rs \<Longrightarrow> r' \<in> set rs \<Longrightarrow> k r = k r' \<Longrightarrow> r = r'"
  by (meson distinct_map inj_onD)

lemma row_by_unique:
  assumes "distinct (map k rs)" and "r \<in> set rs" and "p r" and "\<And>r'. p r' \<Longrightarrow> k r' = k r"
  shows "row_by p rs = Inr r"
proof (cases "row_by p rs")
  case (Inl e)
  with assms(2,3) show ?thesis by (auto dest: row_by_Inl)
next
  case (Inr r')
  then have "r' \<in> set rs" "p r'" by (auto dest: row_by_Inr)
  with assms have "r' = r" by (metis distinct_key_unique)
  with Inr show ?thesis by simp
qed

lemma round2_nonneg: "0 \<le> x \<Longrightarrow> 0 \<le> round2 x"
  by (cases "x = 0") (auto simp: round2_def)

lemma round2_0 [simp]: "round2 0 = 0"
  by (simp add: round2_def)

lemma round2_uminus: "round2 (- x) = - round2 x"
  by (simp add: round2_def)

lemma round2_of_nonneg: "0 \<le> x \<Longrightarrow> round2 x = of_int \<lfloor>x * 100 + 1/2\<rfloor> / 100"
  by (cases "x = 0") (simp_all add: round2_def floor_eq_iff)

lemma round2_mono: "x \<le> y \<Longrightarrow> round2 x \<le> round2 y"
proof -
  have nonneg: "round2 a \<le> round2 b" if "0 \<le> a" "a \<le> b" for a b
  proof -
    have "\<lfloor>a * 100 + 1/2\<rfloor> \<le> \<lfloor>b * 100 + 1/2\<rfloor>" using that by (intro floor_mono) simp
    then show ?thesis using that by (simp add: round2_of_nonneg divide_right_mono)
  qed
  assume le: "x \<le> y"
  consider "0 \<le> x" | "y \<le> 0" | "x < 0" "0 < y" by linarith
  then show ?thesis
  proof cases
    case 2
    then show ?thesis using nonneg [of "- y" "- x"] le by (simp add: round2_uminus)
  next
    case 3
    then show ?thesis using round2_nonneg [of "- x"] round2_nonneg [of y] by (simp add: round2_uminus)
  qed (simp add: nonneg le)
qed

lemma round2_cents: "round2 (of_int k / 100) = of_int k / 100"
proof -
  have "\<bar>of_int k / 100 :: rat\<bar> * 100 + 1/2 = of_int \<bar>k\<bar> + 1/2"
    by simp
  then have "\<lfloor>\<bar>of_int k / 100 :: rat\<bar> * 100 + 1/2\<rfloor> = \<bar>k\<bar>"
    by (intro floor_unique) linarith+
  then have "round2 (of_int k / 100) = sgn (of_int k / 100) * of_int \<bar>k\<bar> / 100"
    by (simp only: round2_def)
  also have "\<dots> = of_int k / 100"
    by (cases k "0::int" rule: linorder_cases) (simp_all add: sgn_if)
  finally show ?thesis .
qed

lemma round2_is_cents: "\<exists>k. round2 x = of_int k / 100"
proof -
  have "round2 x = of_int (\<lfloor>\<bar>x\<bar> * 100 + 1/2\<rfloor> * (if x = 0 then 0 else if 0 < x then 1 else -1)) / 100"
    by (simp add: round2_def sgn_if)
  then show ?thesis by blast
qed

lemma round2_idem [simp]: "round2 (round2 x) = round2 x"
  using round2_is_cents [of x] round2_cents by metis

lemma numeric_14_2_Inr: "numeric_14_2 x = Inr y \<Longrightarrow> y = round2 x"
  by (auto simp: numeric_14_2_def split: if_splits)

section \<open>Lists\<close>

lemma fold_keeps: "(\<And>r w. P w \<Longrightarrow> P (f r w)) \<Longrightarrow> P w \<Longrightarrow> P (fold f rs w)"
  by (induction rs arbitrary: w) simp_all

lemma sum_list_sort_key [simp]:
  fixes f :: "'a \<Rightarrow> 'b::comm_monoid_add"
  shows "(\<Sum>x \<leftarrow> sort_key k xs. f x) = (\<Sum>x \<leftarrow> xs. f x)"
  by (metis mset_map mset_sort sum_mset_sum_list)

lemma distinct_map_filter_filter:
  assumes "distinct (map k (filter P xs))"
  shows "distinct (map k (filter P (filter Q xs)))"
proof -
  have "filter P (filter Q xs) = filter Q (filter P xs)" by (simp add: conj_commute)
  with assms show ?thesis by (metis distinct_map_filter)
qed

lemma list_all2_member: "list_all2 R xs ys \<Longrightarrow> x \<in> set xs \<Longrightarrow> \<exists>y \<in> set ys. R x y"
  by (metis in_set_conv_nth list_all2_conv_all_nth)

lemma map_of_rev_distinct:
  assumes "distinct (map fst xs)"
  shows "map_of (rev xs) = map_of xs"
proof
  fix k
  have "map_of (rev xs) k = Some v \<longleftrightarrow> map_of xs k = Some v" for v
    using assms by (simp add: map_of_eq_Some_iff rev_map [symmetric])
  then show "map_of (rev xs) k = map_of xs k" by (metis not_Some_eq)
qed

lemma find_append_new: "(\<forall>x \<in> set xs. \<not> p x) \<Longrightarrow> List.find p (xs @ ys) = List.find p ys"
  by (induction xs) auto

lemma filter_none: "(\<And>x. x \<in> set xs \<Longrightarrow> \<not> p x) \<Longrightarrow> filter p xs = []"
  by (simp add: filter_empty_conv)

lemma filter_update_rows:
  "(\<And>r. p r \<Longrightarrow> \<not> s r \<and> \<not> s (f r)) \<Longrightarrow> filter s (update_rows p f rs) = filter s rs"
  by (induction rs) (auto simp: update_rows_def)

lemma distinct_update_const:
  "distinct (map k rs) \<Longrightarrow> distinct (map i rs) \<Longrightarrow> (\<And>x. p x \<Longrightarrow> i x = j) \<Longrightarrow>
     (\<forall>x \<in> set rs. \<not> p x \<longrightarrow> k x \<noteq> k r) \<Longrightarrow> distinct (map k (update_rows p (\<lambda>_. r) rs))"
proof (induction rs)
  case (Cons y ys)
  then have "distinct (map k (update_rows p (\<lambda>_. r) ys))" by simp
  moreover have "k (if p y then r else y) \<notin> k ` set (update_rows p (\<lambda>_. r) ys)"
  proof (cases "p y")
    case True
    then have "\<not> p x" if "x \<in> set ys" for x using that Cons.prems(2,3) by (metis distinct.simps(2) image_eqI list.set_map list.simps(9))
    then show ?thesis using True Cons.prems(4) by (auto simp: set_update_rows)
  next
    case False
    then show ?thesis using Cons.prems(1,4) by (auto simp: set_update_rows)
  qed
  ultimately show ?case by (simp add: update_rows_Cons split del: if_split)
qed (simp add: update_rows_def)

section \<open>Statements on one table\<close>

text \<open>
  \<^verbatim>\<open>UPDATE ... WHERE id = $1 AND tenant_id = $2 RETURNING ...\<close> on one row, with the
  \<^verbatim>\<open>CHECK\<close> of the table on the new row.
\<close>

definition update_one ::
  "('r \<Rightarrow> bool) \<Rightarrow> ('r \<Rightarrow> 'r) \<Rightarrow> ('r \<Rightarrow> bool) \<Rightarrow> ('w \<Rightarrow> 'r list) \<Rightarrow> ('r list \<Rightarrow> 'w \<Rightarrow> 'w)
    \<Rightarrow> ('w, db_error, 'r) op" where
  "update_one p f ok tab put w =
     (case row_by p (tab w) of
        Inl e \<Rightarrow> (Inl e, w)
      | Inr r \<Rightarrow> if \<not> ok (f r) then (Inl check_violation, w)
                else (Inr (f r), put (update_rows p f (tab w)) w))"

text \<open>A filter that a null parameter switches off.\<close>

definition opt_filter :: "uuid option \<Rightarrow> uuid \<Rightarrow> bool" where
  "opt_filter p x = (case p of None \<Rightarrow> True | Some i \<Rightarrow> x = i)"

lemma atomic_query [atomic_intros]: "(\<And>n. atomic untick (q n)) \<Longrightarrow> atomic untick (query en q)"
  by (auto simp: atomic_def query_def Let_def split: if_splits)

lemma atomic_update_one [atomic_intros]: "atomic V (update_one p f ok tab put)"
  by (auto simp: atomic_def update_one_def split: sum.splits if_splits)

lemma atomic_then_ret [atomic_intros]: "atomic V m \<Longrightarrow> atomic V (andThen m (\<lambda>x. ret (f x)))"
  by (rule atomic_last) auto

lemma update_one_Inr:
  "update_one p f ok tab put w = (Inr r, w') \<longleftrightarrow>
     (\<exists>r0. row_by p (tab w) = Inr r0 \<and> ok (f r0) \<and> r = f r0 \<and> w' = put (update_rows p f (tab w)) w)"
  by (auto simp: update_one_def split: sum.split)

lemma update_other:
  "distinct (map k rs) \<Longrightarrow> r \<in> set rs \<Longrightarrow> p r \<Longrightarrow> (\<And>x. p x \<Longrightarrow> k x = k r) \<Longrightarrow> y \<in> set rs \<Longrightarrow> y \<noteq> r \<Longrightarrow>
     y \<in> set (update_rows p f rs)"
  by (metis distinct_key_unique set_update_rows)

lemma page_Inr: "page l ofs rs = Inr xs \<Longrightarrow> set xs \<subseteq> set rs \<and> length xs \<le> nat l"
  by (auto simp: page_def dest!: in_set_takeD in_set_dropD split: if_splits)

lemma int32_small: "0 \<le> n \<Longrightarrow> n \<le> 100 \<Longrightarrow> int32 n = n"
  by (simp add: int32_def)

section \<open>Operations that make one step\<close>

text \<open>A run from one state to another is a step of a relation, or none, whatever the ticks are.\<close>

definition moves :: "('r io_scheme \<Rightarrow> 'r io_scheme \<Rightarrow> bool) \<Rightarrow> 'r io_scheme \<Rightarrow> 'r io_scheme \<Rightarrow> bool" where
  "moves R w w' \<longleftrightarrow> untick w' = untick w \<or> (\<exists>w1. R w w1 \<and> untick w' = untick w1)"

lemma moves_op:
  assumes "atomic untick m" and "\<And>x w'. m w = (Inr x, w') \<Longrightarrow> \<exists>w1. R w w1 \<and> untick w' = untick w1"
  shows "moves R w (snd (m w))"
proof (cases "m w")
  case (Pair r w')
  then show ?thesis using assms by (cases r) (auto simp: moves_def dest: atomicD)
qed

lemma moves_read: "same untick m \<Longrightarrow> moves R w (snd (m w))"
  by (simp add: moves_def same_def)

lemma moves_elim:
  assumes "moves R w w'"
  obtains "untick w' = untick w" | w1 where "R w w1" and "untick w' = untick w1"
  using assms unfolding moves_def by blast

lemma untick_eq: "untick w' = untick w \<Longrightarrow> w' = w\<lparr>tick := tick w'\<rparr>"
  by (cases w; cases w') (simp add: untick_def)

text \<open>Such steps compose with reads before them when the relation does not look at the tick.\<close>

definition tick_stable :: "('r io_scheme \<Rightarrow> 'r io_scheme \<Rightarrow> bool) \<Rightarrow> bool" where
  "tick_stable R \<longleftrightarrow> (\<forall>w w' n. R (w\<lparr>tick := n\<rparr>) w' \<longrightarrow> (\<exists>w1. R w w1 \<and> untick w1 = untick w'))"

lemma moves_then:
  assumes "same untick m" and "tick_stable R"
    and "\<And>x n. m w = (Inr x, w\<lparr>tick := n\<rparr>) \<Longrightarrow> moves R (w\<lparr>tick := n\<rparr>) (snd (k x (w\<lparr>tick := n\<rparr>)))"
  shows "moves R w (snd (andThen m k w))"
proof -
  obtain r w1 where run: "m w = (r, w1)" by fastforce
  then have w1: "w1 = w\<lparr>tick := tick w1\<rparr>" "untick w1 = untick w" using sameD [OF assms(1), of w] by (auto intro: untick_eq)
  show ?thesis
  proof (cases r)
    case (Inl e)
    then show ?thesis using run w1 by (simp add: moves_def andThen_def)
  next
    case (Inr x)
    with run w1 have "moves R w1 (snd (k x w1))" using assms(3) [of x "tick w1"] by simp
    then show ?thesis using assms(2) run Inr w1 unfolding moves_def tick_stable_def
      by (auto simp: andThen_def) (metis w1(1))+
  qed
qed

lemma moves_onErr: "moves R w (snd (m w)) \<Longrightarrow> moves R w (snd (onErr f m w))"
  by simp

lemma moves_fail: "moves R w (snd (fail e w))"
  by (simp add: moves_def)

text \<open>The end of a method: its effect, and what it says to the caller.\<close>

lemma moves_ret:
  assumes "moves R w (snd (m w))"
  shows "moves R w (snd (andThen m (\<lambda>x. ret (f x)) w))"
  using assms by (simp add: snd_andThen split: sum.split)

section \<open>Errors of a repository\<close>

text \<open>An error of the driver wrapped; an absent row is the sentinel, any other error is wrapped.\<close>

definition wrapDb :: "string \<Rightarrow> db_error \<Rightarrow> 's goerr" where
  "wrapDb msg err = Wrap msg (DbErr err)"

definition noRows :: "'s \<Rightarrow> string \<Rightarrow> db_error \<Rightarrow> 's goerr" where
  "noRows s msg err = (if err = ErrNoRows then Sentinel s else Wrap msg (DbErr err))"

section \<open>Operations that make several steps\<close>


lemma tick_stableD:
  assumes "tick_stable R" and "R w w'" and "untick v = untick w"
  shows "\<exists>v'. R v v' \<and> untick v' = untick w'"
proof -
  have "w = v\<lparr>tick := tick w\<rparr>" using untick_eq [OF assms(3) [symmetric]] .
  with assms show ?thesis unfolding tick_stable_def by metis
qed

lemma tick_stable_rtranclp:
  assumes "tick_stable R"
  shows "tick_stable R\<^sup>*\<^sup>*"
  unfolding tick_stable_def
proof (intro allI impI)
  fix w w' :: "'a io_scheme" and n
  assume "R\<^sup>*\<^sup>* (w\<lparr>tick := n\<rparr>) w'"
  then show "\<exists>w1. R\<^sup>*\<^sup>* w w1 \<and> untick w1 = untick w'"
  proof (induction rule: rtranclp_induct)
    case (step y z)
    then obtain v where "R\<^sup>*\<^sup>* w v" "untick v = untick y" by blast
    with tick_stableD [OF assms step(2)] show ?case by (metis rtranclp.rtrancl_into_rtrancl)
  qed (auto intro: exI [of _ w])
qed

lemma moves_trans:
  assumes st: "tick_stable R" and "moves R\<^sup>*\<^sup>* w w1" and "moves R\<^sup>*\<^sup>* w1 w2"
  shows "moves R\<^sup>*\<^sup>* w w2"
proof -
  obtain v where v: "R\<^sup>*\<^sup>* w v" "untick v = untick w1" using assms(2) unfolding moves_def by (metis rtranclp.rtrancl_refl)
  obtain v2 where v2: "R\<^sup>*\<^sup>* w1 v2" "untick w2 = untick v2" using assms(3) unfolding moves_def by (metis rtranclp.rtrancl_refl)
  from tick_stableD [OF tick_stable_rtranclp [OF st] v2(1) v(2)] show ?thesis
    unfolding moves_def using v(1) v2(2) by (metis rtranclp_trans)
qed

lemma moves_once: "moves R w w' \<Longrightarrow> moves R\<^sup>*\<^sup>* w w'"
  unfolding moves_def by blast

lemma moves_seq:
  assumes "tick_stable R" and "\<And>w. moves R\<^sup>*\<^sup>* w (snd (m w))" and "\<And>x w. moves R\<^sup>*\<^sup>* w (snd (k x w))"
  shows "moves R\<^sup>*\<^sup>* w (snd (andThen m k w))"
  using moves_trans [OF assms(1) assms(2) assms(3)] assms(2)
  by (auto simp: snd_andThen split: sum.split)

lemma moves_refl [simp]: "moves R w w"
  by (simp add: moves_def)

lemma moves_rtranclp_stays: "moves R w (snd (ret x w))" "moves R w (snd (fail e w))"
  by simp_all

text \<open>A round trip makes a step when its body does.\<close>

lemma moves_query:
  assumes "tick_stable R" and "\<And>now v. untick v = untick w \<Longrightarrow> snd (q now v) = v \<or> R v (snd (q now v))"
  shows "moves R w (snd (query en q w))"
proof (cases "env_fail en (tick w)")
  case False
  let ?v = "w\<lparr>tick := Suc (tick w)\<rparr>"
  have run: "query en q w = q (env_now en (tick w)) ?v" using False by (simp add: query_def)
  have "snd (q (env_now en (tick w)) ?v) = ?v \<or> R ?v (snd (q (env_now en (tick w)) ?v))" by (rule assms(2)) simp
  then show ?thesis
  proof
    assume "R ?v (snd (q (env_now en (tick w)) ?v))"
    from tick_stableD [OF assms(1) this, of w] show ?thesis unfolding moves_def run by auto
  qed (simp add: run moves_def)
qed (simp add: query_def moves_def)

lemma id_or_New_total: "\<exists>i n. id_or_New en j w = (Inr i, w\<lparr>tick := n\<rparr>)"
proof (cases "j = uuid_Nil")
  case False
  then have "id_or_New en j w = (Inr j, w\<lparr>tick := tick w\<rparr>)" by (simp add: id_or_New_def)
  then show ?thesis by blast
qed (auto simp: id_or_New_def uuid_New_def)

lemma id_or_New_ticks: "id_or_New en j w = (Inr i, w') \<Longrightarrow> \<exists>n. w' = w\<lparr>tick := n\<rparr>"
  by (cases "j = uuid_Nil") (auto simp: id_or_New_def uuid_New_def intro: exI [of _ "tick w"])

end
