(* ===== verification/GoText.thy ===== *)
theory GoText
  imports Prelude
begin

text \<open>
  The parts of Go's standard library for text and calendar months that the services call:
  \<^verbatim>\<open>strings.TrimSpace\<close>, \<^verbatim>\<open>strings.ToUpper\<close>,
  \<^verbatim>\<open>utf8.RuneCountInString\<close>, \<^verbatim>\<open>strconv.Itoa\<close>, zero-padded
  verbs of \<^verbatim>\<open>fmt.Sprintf\<close>, and \<^verbatim>\<open>time.Parse\<close> /
  \<^verbatim>\<open>Time.Format\<close> with the layout \<^verbatim>\<open>2006-01\<close>. A Go string is its
  list of bytes.
\<close>

section \<open>White space\<close>

text \<open>The UTF-8 encodings of the runes for which \<^verbatim>\<open>unicode.IsSpace\<close> holds.\<close>

definition utf8_spaces :: "string list" where
  "utf8_spaces =
     [[CHR 0x09], [CHR 0x0A], [CHR 0x0B], [CHR 0x0C], [CHR 0x0D], [CHR 0x20],
      [CHR 0xC2, CHR 0x85], [CHR 0xC2, CHR 0xA0], [CHR 0xE1, CHR 0x9A, CHR 0x80],
      [CHR 0xE2, CHR 0x80, CHR 0x80], [CHR 0xE2, CHR 0x80, CHR 0x81],
      [CHR 0xE2, CHR 0x80, CHR 0x82], [CHR 0xE2, CHR 0x80, CHR 0x83],
      [CHR 0xE2, CHR 0x80, CHR 0x84], [CHR 0xE2, CHR 0x80, CHR 0x85],
      [CHR 0xE2, CHR 0x80, CHR 0x86], [CHR 0xE2, CHR 0x80, CHR 0x87],
      [CHR 0xE2, CHR 0x80, CHR 0x88], [CHR 0xE2, CHR 0x80, CHR 0x89],
      [CHR 0xE2, CHR 0x80, CHR 0x8A], [CHR 0xE2, CHR 0x80, CHR 0xA8],
      [CHR 0xE2, CHR 0x80, CHR 0xA9], [CHR 0xE2, CHR 0x80, CHR 0xAF],
      [CHR 0xE2, CHR 0x81, CHR 0x9F], [CHR 0xE3, CHR 0x80, CHR 0x80]]"

text \<open>The first of some non-empty words that the text starts with.\<close>

definition head_word :: "'a list list \<Rightarrow> 'a list \<Rightarrow> 'a list option" where
  "head_word ps s = List.find (\<lambda>p. p \<noteq> [] \<and> take (length p) s = p) ps"

lemma head_word_Some: "head_word ps s = Some p \<Longrightarrow> p \<noteq> [] \<and> take (length p) s = p"
  by (auto simp: head_word_def find_Some_iff)

lemma head_word_length: "head_word ps s = Some p \<Longrightarrow> 0 < length p \<and> length p \<le> length s"
  by (auto dest!: head_word_Some) (metis length_take min.cobounded1)

function strip :: "'a list list \<Rightarrow> 'a list \<Rightarrow> 'a list" where
  "strip ps s = (case head_word ps s of None \<Rightarrow> s | Some p \<Rightarrow> strip ps (drop (length p) s))"
  by pat_completeness auto
termination
  by (relation "measure (\<lambda>(ps, s). length s)") (auto dest!: head_word_length intro: diff_less)

declare strip.simps [simp del]

definition trim_left :: "string \<Rightarrow> string" where
  "trim_left s = strip utf8_spaces s"

definition trim_right :: "string \<Rightarrow> string" where
  "trim_right s = rev (strip (map rev utf8_spaces) (rev s))"

definition TrimSpace :: "string \<Rightarrow> string" where
  "TrimSpace s = trim_right (trim_left s)"

lemma strip_no_head: "head_word ps (strip ps s) = None"
proof (induction ps s rule: strip.induct)
  case (1 ps s)
  then show ?case by (cases "head_word ps s") (auto simp: strip.simps [of ps s])
qed

lemma strip_fix: "head_word ps s = None \<Longrightarrow> strip ps s = s"
  by (simp add: strip.simps [of ps s])

lemma strip_suffix: "\<exists>n. strip ps s = drop n s"
proof (induction ps s rule: strip.induct)
  case (1 ps s)
  show ?case
  proof (cases "head_word ps s")
    case None
    then have "strip ps s = drop 0 s" by (simp add: strip_fix)
    then show ?thesis ..
  next
    case (Some p)
    with 1 obtain n where "strip ps (drop (length p) s) = drop n (drop (length p) s)" by blast
    with Some have "strip ps s = drop (n + length p) s" by (simp add: strip.simps [of ps s])
    then show ?thesis ..
  qed
qed

lemma trim_right_prefix: "\<exists>n. trim_right s = take n s"
proof -
  obtain n where "strip (map rev utf8_spaces) (rev s) = drop n (rev s)"
    using strip_suffix by blast
  then have "trim_right s = take (length s - n) s"
    by (simp add: trim_right_def rev_drop)
  then show ?thesis ..
qed

lemma head_word_take:
  assumes "head_word ps s = None"
  shows "head_word ps (take n s) = None"
proof -
  have "take (length p) s \<noteq> p" if "p \<in> set ps" "p \<noteq> []" for p
    using assms that by (auto simp: head_word_def find_None_iff)
  then have "take (length p) (take n s) \<noteq> p" if "p \<in> set ps" "p \<noteq> []" for p
    using that by (metis length_take min.cobounded2 min.absorb1 take_take)
  then show ?thesis by (auto simp: head_word_def find_None_iff)
qed

text \<open>Trimming twice is trimming once.\<close>

lemma TrimSpace_idem [simp]: "TrimSpace (TrimSpace s) = TrimSpace s"
proof -
  let ?l = "trim_left s"
  let ?t = "TrimSpace s"
  have "head_word utf8_spaces ?l = None" by (simp add: trim_left_def strip_no_head)
  moreover obtain n where "trim_right ?l = take n ?l" using trim_right_prefix by blast
  ultimately have "head_word utf8_spaces ?t = None" by (simp add: TrimSpace_def head_word_take)
  then have "trim_left ?t = ?t" by (simp add: trim_left_def strip_fix)
  moreover have "trim_right ?t = ?t"
    by (simp add: TrimSpace_def trim_right_def strip_fix strip_no_head)
  ultimately show ?thesis by (simp add: TrimSpace_def)
qed

section \<open>Runes\<close>

text \<open>The number of bytes of the first rune; an invalid byte is a rune of its own.\<close>

definition is_cont :: "nat \<Rightarrow> nat \<Rightarrow> nat \<Rightarrow> bool" where
  "is_cont lo hi b \<longleftrightarrow> lo \<le> b \<and> b \<le> hi"

fun rune_width :: "nat list \<Rightarrow> nat" where
  "rune_width (b0 # b1 # b2 # b3 # _) =
     (let lo = (if b0 = 0xE0 then 0xA0 else if b0 = 0xF0 then 0x90 else 0x80);
          hi = (if b0 = 0xED then 0x9F else if b0 = 0xF4 then 0x8F else 0xBF)
      in if 0xC2 \<le> b0 \<and> b0 \<le> 0xDF \<and> is_cont lo hi b1 then 2
         else if 0xE0 \<le> b0 \<and> b0 \<le> 0xEF \<and> is_cont lo hi b1 \<and> is_cont 0x80 0xBF b2 then 3
         else if 0xF0 \<le> b0 \<and> b0 \<le> 0xF4 \<and> is_cont lo hi b1 \<and> is_cont 0x80 0xBF b2
           \<and> is_cont 0x80 0xBF b3 then 4
         else 1)"
| "rune_width _ = 1"

text \<open>Three zero bytes after the text stand for its end: they continue no rune.\<close>

function rune_count :: "string \<Rightarrow> nat" where
  "rune_count s =
     (if s = [] then 0
      else Suc (rune_count (drop (rune_width (map of_char s @ [0, 0, 0])) s)))"
  by pat_completeness auto
termination
proof (relation "measure length")
  fix s :: string
  assume "s \<noteq> []"
  moreover have "0 < rune_width bs" for bs
    by (cases bs rule: rune_width.cases) (auto simp: Let_def)
  ultimately show "(drop (rune_width (map of_char s @ [0, 0, 0])) s, s) \<in> measure length"
    by simp
qed simp

declare rune_count.simps [simp del]

text \<open>
  \<^verbatim>\<open>strings.ToUpper\<close> on ASCII letters and on the two runes outside ASCII whose upper case
  is an ASCII letter (dotless i and long s). Every other rune stays outside ASCII, which is all
  that the checks for three letters A to Z depend on.
\<close>

fun ToUpper :: "string \<Rightarrow> string" where
  "ToUpper [] = []"
| "ToUpper (c # cs) =
     (if c = CHR 0xC4 \<and> cs \<noteq> [] \<and> hd cs = CHR 0xB1 then CHR ''I'' # ToUpper (tl cs)
      else if c = CHR 0xC5 \<and> cs \<noteq> [] \<and> hd cs = CHR 0xBF then CHR ''S'' # ToUpper (tl cs)
      else if CHR ''a'' \<le> c \<and> c \<le> CHR ''z'' then char_of ((of_char c :: nat) - 32) # ToUpper cs
      else c # ToUpper cs)"

definition is_upper :: "char \<Rightarrow> bool" where
  "is_upper c \<longleftrightarrow> CHR ''A'' \<le> c \<and> c \<le> CHR ''Z''"

text \<open>The regular expression \<^verbatim>\<open>^[A-Z]{3}$\<close>.\<close>

definition three_letters :: "string \<Rightarrow> bool" where
  "three_letters s \<longleftrightarrow> length s = 3 \<and> (\<forall>c \<in> set s. is_upper c)"

lemma ToUpper_upper: "\<forall>c \<in> set s. is_upper c \<Longrightarrow> ToUpper s = s"
proof (induction s)
  case (Cons c s)
  then have c: "is_upper c" by simp
  then have "\<not> CHR ''a'' \<le> c" by (auto simp: is_upper_def less_eq_char_def)
  moreover from c have "c \<noteq> CHR 0xC4" "c \<noteq> CHR 0xC5"
    by (auto simp: is_upper_def less_eq_char_def)
  ultimately show ?case using Cons by simp
qed simp

lemma upper_not_space: "is_upper c \<Longrightarrow> [c] \<notin> set utf8_spaces"
  by (auto simp: utf8_spaces_def is_upper_def less_eq_char_def)

lemma upper_head_word:
  assumes "\<forall>c \<in> set s. is_upper c" and "\<And>p. p \<in> set ps \<Longrightarrow> \<forall>c \<in> set p. \<not> is_upper c"
  shows "head_word ps s = None"
proof -
  have "take (length p) s \<noteq> p" if "p \<in> set ps" "p \<noteq> []" for p
    using assms that by (metis in_set_takeD last_in_set)
  then show ?thesis by (auto simp: head_word_def find_None_iff)
qed

lemma spaces_not_upper: "p \<in> set utf8_spaces \<Longrightarrow> \<forall>c \<in> set p. \<not> is_upper c"
  by (auto simp: utf8_spaces_def is_upper_def less_eq_char_def)

lemma TrimSpace_upper: "\<forall>c \<in> set s. is_upper c \<Longrightarrow> TrimSpace s = s"
proof -
  assume up: "\<forall>c \<in> set s. is_upper c"
  have "strip utf8_spaces s = s"
    using up by (intro strip_fix upper_head_word spaces_not_upper)
  moreover have "\<forall>c \<in> set p. \<not> is_upper c" if "p \<in> set (map rev utf8_spaces)" for p
    using that spaces_not_upper by auto
  then have "strip (map rev utf8_spaces) (rev s) = rev s"
    using up by (intro strip_fix upper_head_word) simp_all
  ultimately show ?thesis by (simp add: TrimSpace_def trim_left_def trim_right_def)
qed

lemma ToUpper_TrimSpace_three_letters:
  "three_letters s \<Longrightarrow> ToUpper (TrimSpace s) = s"
  by (simp add: three_letters_def TrimSpace_upper ToUpper_upper)

section \<open>Numbers\<close>

definition digit :: "nat \<Rightarrow> char" where
  "digit n = char_of (48 + n)"

definition is_digit :: "char \<Rightarrow> bool" where
  "is_digit c \<longleftrightarrow> CHR ''0'' \<le> c \<and> c \<le> CHR ''9''"

definition digit_val :: "char \<Rightarrow> nat" where
  "digit_val c = of_char c - 48"

fun itoa :: "nat \<Rightarrow> string" where
  "itoa n = (if n < 10 then [digit n] else itoa (n div 10) @ [digit (n mod 10)])"

declare itoa.simps [simp del]

definition atoi :: "string \<Rightarrow> nat" where
  "atoi s = foldl (\<lambda>a c. 10 * a + digit_val c) 0 s"

text \<open>A verb such as \<^verbatim>\<open>%05d\<close>.\<close>

definition pad :: "nat \<Rightarrow> string \<Rightarrow> string" where
  "pad k s = replicate (k - length s) (CHR ''0'') @ s"

lemma digit_val_digit [simp]: "n < 10 \<Longrightarrow> digit_val (digit n) = n"
  by (simp add: digit_val_def digit_def)

lemma is_digit_digit [simp]: "n < 10 \<Longrightarrow> is_digit (digit n)"
  by (simp add: is_digit_def digit_def less_eq_char_def)

lemma digit_val_less: "is_digit c \<Longrightarrow> digit_val c < 10"
  by (auto simp: is_digit_def digit_val_def less_eq_char_def)

lemma digit_digit_val: "is_digit c \<Longrightarrow> digit (digit_val c) = c"
  by (auto simp: is_digit_def digit_val_def digit_def less_eq_char_def)

lemma atoi_append_digit: "atoi (s @ [c]) = 10 * atoi s + digit_val c"
  by (simp add: atoi_def)

lemma atoi_itoa [simp]: "atoi (itoa n) = n"
proof (induction n rule: itoa.induct)
  case (1 n)
  show ?case
  proof (cases "n < 10")
    case True
    then show ?thesis by (simp add: itoa.simps [of n] atoi_def)
  next
    case False
    with 1 show ?thesis by (simp add: itoa.simps [of n] atoi_append_digit)
  qed
qed

lemma set_itoa: "c \<in> set (itoa n) \<Longrightarrow> is_digit c"
proof (induction n rule: itoa.induct)
  case (1 n)
  then show ?case by (subst (asm) itoa.simps) (auto split: if_splits)
qed

lemma atoi_zeros: "atoi (replicate k (CHR ''0'') @ s) = atoi s"
  by (induction k) (simp_all add: atoi_def digit_val_def)

lemma atoi_pad [simp]: "atoi (pad k s) = atoi s"
  by (simp add: pad_def atoi_zeros)

lemma set_pad: "c \<in> set (pad k s) \<Longrightarrow> (\<And>d. d \<in> set s \<Longrightarrow> is_digit d) \<Longrightarrow> is_digit c"
  by (auto simp: pad_def is_digit_def)

lemma itoa_inj: "itoa m = itoa n \<Longrightarrow> m = n"
  by (metis atoi_itoa)

lemma itoa_nonempty [simp]: "itoa n \<noteq> []"
  by (subst itoa.simps) simp

lemma length_itoa: "0 < k \<Longrightarrow> n < 10 ^ k \<Longrightarrow> length (itoa n) \<le> k"
proof (induction n arbitrary: k rule: itoa.induct)
  case (1 n)
  show ?case
  proof (cases "n < 10")
    case True
    with 1 show ?thesis by (simp add: itoa.simps [of n])
  next
    case False
    with "1.prems" have k: "1 < k" by (cases "k = 1") auto
    with "1.prems" have "n div 10 < 10 ^ (k - 1)"
      by (metis One_nat_def less_mult_imp_div_less mult.commute power_Suc Suc_diff_1 "1.prems"(1))
    with 1 False k have "length (itoa (n div 10)) \<le> k - 1" by simp
    with False k show ?thesis by (simp add: itoa.simps [of n])
  qed
qed

lemma length_pad: "length s \<le> k \<Longrightarrow> length (pad k s) = k"
  by (simp add: pad_def)

section \<open>Months\<close>

text \<open>Year and month of the Gregorian calendar for a day counted from 1970-01-01.\<close>

definition civil :: "int \<Rightarrow> int \<times> int" where
  "civil day =
     (let z = day + 719468;
          era = z div 146097;
          doe = z mod 146097;
          yoe = (doe - doe div 1460 + doe div 36524 - doe div 146096) div 365;
          doy = doe - (365 * yoe + yoe div 4 - yoe div 100);
          mp = (5 * doy + 2) div 153;
          m = (if mp < 10 then mp + 3 else mp - 9)
      in (yoe + era * 400 + (if m \<le> 2 then 1 else 0), m))"

text \<open>The year of a time; the local time zone of the server is taken to be UTC.\<close>

definition year_of :: "time \<Rightarrow> int" where
  "year_of t = fst (civil (t div 86400))"

text \<open>Day of the month, by the same computation.\<close>

definition civil_day :: "int \<Rightarrow> int" where
  "civil_day day =
     (let doe = (day + 719468) mod 146097;
          yoe = (doe - doe div 1460 + doe div 36524 - doe div 146096) div 365;
          doy = doe - (365 * yoe + yoe div 4 - yoe div 100)
      in doy - (153 * ((5 * doy + 2) div 153) + 2) div 5 + 1)"

text \<open>\<^verbatim>\<open>t.UTC().Format(time.RFC3339)\<close>\<close>

definition format_RFC3339 :: "time \<Rightarrow> string" where
  "format_RFC3339 t =
     (let d = t div 86400; s = t mod 86400; two = (\<lambda>n. pad 2 (itoa (nat n)))
      in pad 4 (itoa (nat (fst (civil d)))) @ ''-'' @ two (snd (civil d)) @ ''-'' @ two (civil_day d) @ ''T''
         @ two (s div 3600) @ '':'' @ two (s div 60 mod 60) @ '':'' @ two (s mod 60) @ ''Z'')"

text \<open>\<^verbatim>\<open>to_char(t AT TIME ZONE 'UTC', 'YYYY-MM')\<close> and \<^verbatim>\<open>t.Format("2006-01")\<close>.\<close>

definition format_month :: "int \<times> int \<Rightarrow> string" where
  "format_month ym = pad 4 (itoa (nat (fst ym))) @ ''-'' @ pad 2 (itoa (nat (snd ym)))"

definition month_key :: "time \<Rightarrow> string" where
  "month_key t = format_month (civil (t div 86400))"

text \<open>\<^verbatim>\<open>time.Parse("2006-01", s)\<close>: four digits, a hyphen, two digits from 01 to 12.\<close>

definition parse_month :: "string \<Rightarrow> (int \<times> int) option" where
  "parse_month s =
     (if length s = 7 \<and> (\<forall>c \<in> set (take 4 s). is_digit c) \<and> s ! 4 = CHR ''-''
         \<and> (\<forall>c \<in> set (drop 5 s). is_digit c)
         \<and> 1 \<le> atoi (drop 5 s) \<and> atoi (drop 5 s) \<le> 12
      then Some (int (atoi (take 4 s)), int (atoi (drop 5 s))) else None)"

text \<open>\<^verbatim>\<open>m.AddDate(0, 1, 0)\<close> on the first of a month.\<close>

definition next_month :: "int \<times> int \<Rightarrow> int \<times> int" where
  "next_month ym = (if snd ym = 12 then (fst ym + 1, 1) else (fst ym, snd ym + 1))"

text \<open>The number of a month on one line, used to compare months and to count them.\<close>

definition month_index :: "int \<times> int \<Rightarrow> int" where
  "month_index ym = 12 * fst ym + snd ym - 1"

lemma month_index_next: "month_index (next_month ym) = month_index ym + 1"
  by (cases ym) (auto simp: month_index_def next_month_def)

lemma parse_format_month:
  assumes "0 \<le> y" "y \<le> 9999" "1 \<le> m" "m \<le> 12"
  shows "parse_month (format_month (y, m)) = Some (y, m)"
proof -
  let ?y = "pad 4 (itoa (nat y))" and ?m = "pad 2 (itoa (nat m))"
  have ly: "length ?y = 4" using assms by (intro length_pad length_itoa) auto
  have lm: "length ?m = 2" using assms by (intro length_pad length_itoa) auto
  have t: "take 4 (format_month (y, m)) = ?y" and d: "drop 5 (format_month (y, m)) = ?m"
    and n: "format_month (y, m) ! 4 = CHR ''-''"
    using ly by (simp_all add: format_month_def nth_append)
  have "is_digit c" if "c \<in> set ?y \<or> c \<in> set ?m" for c
    using that set_pad [of c _ "itoa _"] set_itoa by blast
  then show ?thesis using assms ly lm
    by (simp add: parse_month_def t d n) (auto simp: format_month_def)
qed

lemma parse_month_range:
  "parse_month s = Some (y, m) \<Longrightarrow> 0 \<le> y \<and> 1 \<le> m \<and> m \<le> 12"
  by (auto simp: parse_month_def split: if_splits)

end
