(* ===== verification/Vertical.thy ===== *)
theory Vertical
  imports Prelude "HOL-Library.Finite_Map"
begin

text \<open>
  The configuration of a tenant's line of business (\<^verbatim>\<open>pkg/vertical/types.go\<close>,
  \<^verbatim>\<open>pkg/vertical/helpers.go\<close>): entity labels, phases, budget, expense and inventory
  categories, the approval workflow, reports and the default chart of accounts, with the look-ups
  the services make in it. The lemmas say what each look-up returns.
\<close>

section \<open>The configuration\<close>

record EntityLabels =
  el_Project :: string
  el_ProjectPlural :: string
  el_Phase :: string
  el_PhasePlural :: string
  el_TeamMember :: string
  el_TeamMemberPlural :: string
  el_RateLabel :: string
  el_RateUnit :: string

record PhaseType =
  ph_ID :: string
  ph_Label :: string
  ph_Order :: int
  ph_IsBillable :: bool
  ph_AllowedTransitions :: "string list"

record BudgetCategory =
  bc_ID :: string
  bc_Label :: string
  bc_Description :: string
  bc_DefaultAccountCode :: string

record TemplateLineItem =
  tl_CategoryID :: string
  tl_Description :: string
  tl_AccountCode :: string
  tl_DefaultAmount :: decimal
  tl_IsRequired :: bool

record BudgetTemplate =
  bt_Name :: string
  bt_Description :: string
  bt_LineItems :: "TemplateLineItem list"

record ExpenseCategory =
  ec_ID :: string
  ec_Label :: string
  ec_TaxTreatment :: string
  ec_DefaultAccountCode :: string
  ec_RequiresPO :: bool

record ApprovalLimit =
  al_Role :: string
  al_MaxAmount :: decimal

record ApprovalWorkflow =
  aw_Limits :: "ApprovalLimit list"
  aw_DualApprovalAbove :: decimal

record InventoryCategory =
  ic_ID :: string
  ic_Label :: string
  ic_IsTrackable :: bool
  ic_DepreciationYears :: "int option"

record ReportDefinition =
  rd_ID :: string
  rd_Name :: string
  rd_Description :: string
  rd_DataSources :: "string list"
  rd_DefaultColumns :: "string list"

record CustomField =
  cf_Key :: string
  cf_Label :: string
  cf_Type :: string
  cf_Options :: "string list"
  cf_Required :: bool

record CustomFields =
  cf_Project :: "CustomField list"
  cf_Expense :: "CustomField list"

record ChartOfAccountEntry =
  coa_Code :: string
  coa_Name :: string
  coa_AccountType :: string
  coa_ParentCode :: "string option"

record Config =
  vc_ID :: string
  vc_Name :: string
  vc_Version :: string
  vc_Description :: string
  vc_EntityLabels :: EntityLabels
  vc_PhaseTypes :: "PhaseType list"
  vc_BudgetCategories :: "BudgetCategory list"
  vc_BudgetTemplates :: "BudgetTemplate list"
  vc_ExpenseCategories :: "ExpenseCategory list"
  vc_ApprovalWorkflow :: ApprovalWorkflow
  vc_InventoryCategories :: "InventoryCategory list"
  vc_ReportDefinitions :: "ReportDefinition list"
  vc_CustomFields :: CustomFields
  vc_DefaultChartOfAccounts :: "ChartOfAccountEntry list"
  vc_RoleLabels :: "(string, string) fmap"

section \<open>Look-ups\<close>

text \<open>The loop that the five \<^verbatim>\<open>Find\<close> functions share: the first item with the key.\<close>

fun find_by :: "('a \<Rightarrow> string) \<Rightarrow> string \<Rightarrow> 'a list \<Rightarrow> 'a option" where
  "find_by key k [] = None"
| "find_by key k (x # xs) = (if key x = k then Some x else find_by key k xs)"

definition FindBudgetCategory :: "Config \<Rightarrow> string \<Rightarrow> BudgetCategory option" where
  "FindBudgetCategory c i = find_by bc_ID i (vc_BudgetCategories c)"

definition FindPhaseType :: "Config \<Rightarrow> string \<Rightarrow> PhaseType option" where
  "FindPhaseType c i = find_by ph_ID i (vc_PhaseTypes c)"

definition FindExpenseCategory :: "Config \<Rightarrow> string \<Rightarrow> ExpenseCategory option" where
  "FindExpenseCategory c i = find_by ec_ID i (vc_ExpenseCategories c)"

definition FindBudgetTemplate :: "Config \<Rightarrow> string \<Rightarrow> BudgetTemplate option" where
  "FindBudgetTemplate c name = find_by bt_Name name (vc_BudgetTemplates c)"

definition FindInventoryCategory :: "Config \<Rightarrow> string \<Rightarrow> InventoryCategory option" where
  "FindInventoryCategory c i = find_by ic_ID i (vc_InventoryCategories c)"

definition FindReportDefinition :: "Config \<Rightarrow> string \<Rightarrow> ReportDefinition option" where
  "FindReportDefinition c i = find_by rd_ID i (vc_ReportDefinitions c)"

text \<open>\<^verbatim>\<open>strings.Join\<close>.\<close>

fun strings_Join :: "string list \<Rightarrow> string \<Rightarrow> string" where
  "strings_Join [] sep = ''''"
| "strings_Join [s] sep = s"
| "strings_Join (s # ss) sep = s @ sep @ strings_Join ss sep"

definition BudgetCategoryIDs :: "Config \<Rightarrow> string" where
  "BudgetCategoryIDs c = strings_Join (map bc_ID (vc_BudgetCategories c)) '', ''"

fun transition_loop :: "string list \<Rightarrow> string \<Rightarrow> bool" where
  "transition_loop [] targetID = False"
| "transition_loop (t # ts) targetID = (if t = targetID then True else transition_loop ts targetID)"

definition CanTransitionTo :: "PhaseType \<Rightarrow> string \<Rightarrow> bool" where
  "CanTransitionTo p targetID = transition_loop (ph_AllowedTransitions p) targetID"

fun limit_loop :: "ApprovalLimit list \<Rightarrow> string \<Rightarrow> decimal option" where
  "limit_loop [] role = None"
| "limit_loop (l # ls) role = (if al_Role l = role then Some (al_MaxAmount l) else limit_loop ls role)"

definition LimitForRole :: "ApprovalWorkflow \<Rightarrow> string \<Rightarrow> decimal option" where
  "LimitForRole a role = limit_loop (aw_Limits a) role"

text \<open>The loop of \<^verbatim>\<open>MaxLimitForRoles\<close> with its running maximum.\<close>

fun max_loop :: "ApprovalWorkflow \<Rightarrow> decimal option \<Rightarrow> string list \<Rightarrow> decimal option" where
  "max_loop a mx [] = mx"
| "max_loop a mx (r # rs) =
     (case LimitForRole a r of
        None \<Rightarrow> max_loop a mx rs
      | Some limit \<Rightarrow>
          max_loop a (case mx of None \<Rightarrow> Some limit | Some m \<Rightarrow> if limit > m then Some limit else mx) rs)"

definition MaxLimitForRoles :: "ApprovalWorkflow \<Rightarrow> string list \<Rightarrow> decimal option" where
  "MaxLimitForRoles a roles = max_loop a None roles"

definition RoleLabelFor :: "Config \<Rightarrow> string \<Rightarrow> string" where
  "RoleLabelFor c role =
     (case fmlookup (vc_RoleLabels c) role of
        Some label \<Rightarrow> if label \<noteq> '''' then label else role
      | None \<Rightarrow> role)"

section \<open>What the look-ups return\<close>

lemma find_by_Some: "find_by key k xs = Some x \<Longrightarrow> x \<in> set xs \<and> key x = k"
  by (induction xs) (auto split: if_splits)

lemma find_by_None: "find_by key k xs = None \<longleftrightarrow> k \<notin> key ` set xs"
  by (induction xs) auto

lemma find_by_unique: "distinct (map key xs) \<Longrightarrow> x \<in> set xs \<Longrightarrow> find_by key (key x) xs = Some x"
  by (induction xs) auto

lemma CanTransitionTo_iff: "CanTransitionTo p t \<longleftrightarrow> t \<in> set (ph_AllowedTransitions p)"
proof -
  have "transition_loop ts t \<longleftrightarrow> t \<in> set ts" for ts by (induction ts) auto
  then show ?thesis by (simp add: CanTransitionTo_def)
qed

text \<open>The limits that a list of roles has.\<close>

definition limits_of :: "ApprovalWorkflow \<Rightarrow> string list \<Rightarrow> decimal set" where
  "limits_of a roles = {l. \<exists>r \<in> set roles. LimitForRole a r = Some l}"

lemma limits_of_Cons:
  "limits_of a (r # rs) = (case LimitForRole a r of None \<Rightarrow> {} | Some l \<Rightarrow> {l}) \<union> limits_of a rs"
  by (auto simp: limits_of_def split: option.splits)

lemma limits_of_Nil [simp]: "limits_of a [] = {}"
  by (simp add: limits_of_def)

lemma finite_limits_of [simp]: "finite (limits_of a roles)"
  by (induction roles) (auto simp: limits_of_Cons split: option.split)

lemma max_loop_Max:
  "max_loop a mx roles = (let s = set_option mx \<union> limits_of a roles in if s = {} then None else Some (Max s))"
proof (induction roles arbitrary: mx)
  case Nil
  then show ?case by (cases mx) simp_all
next
  case (Cons r rs)
  show ?case
  proof (cases "LimitForRole a r")
    case None
    then show ?thesis by (simp add: Cons.IH limits_of_Cons)
  next
    case (Some limit)
    show ?thesis
    proof (cases mx)
      case None
      with Some show ?thesis by (simp add: Cons.IH limits_of_Cons)
    next
      case m: (Some m)
      have "max_loop a mx (r # rs) = max_loop a (Some (max m limit)) rs"
        using Some m by (auto simp: max_def)
      also have "\<dots> = Some (Max (insert (max m limit) (limits_of a rs)))"
        by (simp add: Cons.IH)
      also have "Max (insert (max m limit) (limits_of a rs)) = Max (insert m (insert limit (limits_of a rs)))"
        by (cases "limits_of a rs = {}") (simp_all add: max.assoc)
      finally show ?thesis using Some m by (simp add: limits_of_Cons insert_commute)
    qed
  qed
qed

lemma MaxLimitForRoles_Max:
  "MaxLimitForRoles a roles = (if limits_of a roles = {} then None else Some (Max (limits_of a roles)))"
  by (simp add: MaxLimitForRoles_def max_loop_Max Let_def)

text \<open>An amount is within the highest limit exactly when some role's limit covers it.\<close>

lemma MaxLimitForRoles_covers:
  "(\<exists>l. MaxLimitForRoles a roles = Some l \<and> x \<le> l)
     \<longleftrightarrow> (\<exists>r \<in> set roles. \<exists>l. LimitForRole a r = Some l \<and> x \<le> l)"
  by (auto simp: MaxLimitForRoles_Max Max_ge_iff) (auto simp: limits_of_def)

end
