(* ===== verification/Interceptor.thy ===== *)
theory Interceptor
  imports GoText Vertical
begin

text \<open>
  The request boundary every service shares (\<^verbatim>\<open>pkg/interceptor\<close>,
  \<^verbatim>\<open>pkg/tenant\<close>): the gRPC status a call ends with, the caller derived from a verified
  access token, and the checks that handlers make on it (tenant, actor, role, permission). The
  token verifier, \<^verbatim>\<open>uuid.Parse\<close> and the IAM permission service are arguments.
\<close>

section \<open>Status codes, callers, contexts\<close>

datatype code = Unauthenticated | PermissionDenied | InvalidArgument | NotFound | AlreadyExists
  | FailedPrecondition | Internal | Unimplemented

datatype status = Status code string

fun status_code :: "status \<Rightarrow> code" where
  "status_code (Status c m) = c"

record CallerInfo =
  UserID :: uuid
  TenantID :: uuid
  ProjectID :: uuid
  Email :: string
  Roles :: "string list"
  Permissions :: "string list"
  IP :: string

text \<open>gRPC metadata: the values of each (lower-case) key.\<close>

type_synonym md = "string \<Rightarrow> string list"

record ActorInfo =
  actor_user :: uuid
  actor_email :: string
  actor_ip :: string

record ctx =
  ctx_caller :: "CallerInfo option"
  ctx_tenant :: "uuid option"
  ctx_actor :: "ActorInfo option"
  ctx_vertical :: "Config option"
  ctx_incoming :: md
  ctx_outgoing :: md

definition RolePlatformAdmin :: string where "RolePlatformAdmin = ''platform_admin''"
definition RoleTenantAdmin :: string where "RoleTenantAdmin = ''tenant_admin''"
definition RoleMember :: string where "RoleMember = ''member''"

fun HasRole_loop :: "string list \<Rightarrow> string \<Rightarrow> bool" where
  "HasRole_loop [] role = False"
| "HasRole_loop (r # rs) role = (if r = role then True else HasRole_loop rs role)"

definition HasRole :: "CallerInfo \<Rightarrow> string \<Rightarrow> bool" where
  "HasRole c role = HasRole_loop (Roles c) role"

definition WithCaller :: "ctx \<Rightarrow> CallerInfo \<Rightarrow> ctx" where
  "WithCaller ctx c = ctx\<lparr>ctx_caller := Some c\<rparr>"

definition CallerFromContext :: "ctx \<Rightarrow> CallerInfo option" where
  "CallerFromContext ctx = ctx_caller ctx"

definition WithID :: "ctx \<Rightarrow> uuid \<Rightarrow> ctx" where
  "WithID ctx i = ctx\<lparr>ctx_tenant := Some i\<rparr>"

definition IDFromContext :: "ctx \<Rightarrow> uuid option" where
  "IDFromContext ctx = ctx_tenant ctx"

definition firstMD :: "md \<Rightarrow> string \<Rightarrow> string" where
  "firstMD m key = (case m key of [] \<Rightarrow> '''' | v # _ \<Rightarrow> v)"

definition uuidFromMD :: "(string \<Rightarrow> uuid option) \<Rightarrow> md \<Rightarrow> string \<Rightarrow> uuid" where
  "uuidFromMD uuid_Parse m key =
     (let s = firstMD m key
      in if s = '''' then uuid_Nil
         else (case uuid_Parse s of None \<Rightarrow> uuid_Nil | Some i \<Rightarrow> i))"

section \<open>Role, tenant, actor and permission checks\<close>

definition RequireRole :: "ctx \<Rightarrow> string \<Rightarrow> status + unit" where
  "RequireRole ctx required =
     (case CallerFromContext ctx of
        None \<Rightarrow> Inl (Status PermissionDenied ''caller identity not present in context'')
      | Some caller \<Rightarrow>
          if \<not> HasRole caller required then Inl (Status PermissionDenied ''requires role'')
          else Inr ())"

definition TenantFromRequest :: "(string \<Rightarrow> uuid option) \<Rightarrow> ctx \<Rightarrow> string \<Rightarrow> status + uuid" where
  "TenantFromRequest uuid_Parse ctx reqTenantID =
     (case CallerFromContext ctx of
        None \<Rightarrow> Inl (Status Unauthenticated ''caller identity not present in context'')
      | Some caller \<Rightarrow>
          if TenantID caller = uuid_Nil then Inl (Status Unauthenticated ''token carries no tenant'')
          else if reqTenantID = '''' then Inr (TenantID caller)
          else (case uuid_Parse reqTenantID of
                  None \<Rightarrow> Inl (Status InvalidArgument ''invalid tenant_id'')
                | Some reqID \<Rightarrow>
                    if reqID \<noteq> TenantID caller
                    then Inl (Status PermissionDenied
                           ''tenant_id does not match the authenticated tenant'')
                    else Inr (TenantID caller)))"

definition ActorFromRequest :: "(string \<Rightarrow> uuid option) \<Rightarrow> ctx \<Rightarrow> string \<Rightarrow> status + uuid" where
  "ActorFromRequest uuid_Parse ctx reqActorID =
     (case CallerFromContext ctx of
        None \<Rightarrow> Inl (Status Unauthenticated ''caller identity not present in context'')
      | Some caller \<Rightarrow>
          if UserID caller = uuid_Nil then Inl (Status Unauthenticated ''token carries no subject'')
          else if reqActorID = '''' then Inr (UserID caller)
          else (case uuid_Parse reqActorID of
                  None \<Rightarrow> Inl (Status InvalidArgument ''invalid actor id'')
                | Some reqID \<Rightarrow>
                    if reqID \<noteq> UserID caller
                    then Inl (Status PermissionDenied
                           ''actor does not match the authenticated caller'')
                    else Inr (UserID caller)))"

text \<open>
  The IAM service answers a check for a user, a permission and an optional project, or fails. A nil
  checker is \<^term>\<open>None\<close>. The flag is \<^verbatim>\<open>PROJECT_SCOPED_RBAC\<close>, read once per process.
\<close>

type_synonym checker = "uuid \<Rightarrow> string \<Rightarrow> uuid option \<Rightarrow> unit + bool"

definition ProjectScopedRBACEnabled :: "string \<Rightarrow> bool" where
  "ProjectScopedRBACEnabled v \<longleftrightarrow> v = ''true'' \<or> v = ''1''"

definition RequirePermission :: "string \<Rightarrow> ctx \<Rightarrow> checker option \<Rightarrow> string \<Rightarrow> status + unit" where
  "RequirePermission flag ctx checker permission =
     (case CallerFromContext ctx of
        None \<Rightarrow> Inl (Status Unauthenticated ''caller identity not present in context'')
      | Some caller \<Rightarrow>
          if UserID caller = uuid_Nil
          then Inl (Status Unauthenticated ''caller identity not present in context'')
          else (case checker of
                  None \<Rightarrow> Inl (Status Internal ''permission checker unavailable'')
                | Some check \<Rightarrow>
                    let projectID =
                      (if ProjectScopedRBACEnabled flag \<and> ProjectID caller \<noteq> uuid_Nil
                       then Some (ProjectID caller) else None)
                    in (case check (UserID caller) permission projectID of
                          Inl _ \<Rightarrow> Inl (Status Internal ''permission check failed'')
                        | Inr allowed \<Rightarrow>
                            if \<not> allowed
                            then Inl (Status PermissionDenied ''missing required permission'')
                            else Inr ())))"

section \<open>Authentication\<close>

text \<open>The claims of a verified access token; the verifier is an argument.\<close>

record Claims =
  Subject :: uuid
  ClaimsTenantID :: uuid
  ClaimsEmail :: string
  ClaimsRoles :: "string list"
  ClaimsPermissions :: "string list"

datatype auth_error = ErrTokenExpired | ErrTokenInvalid

definition bearerPrefix :: string where
  "bearerPrefix = ''bearer ''"

text \<open>\<^verbatim>\<open>strings.EqualFold\<close> against an ASCII word without the letters k and s.\<close>

definition ascii_lower :: "char \<Rightarrow> char" where
  "ascii_lower c = (if CHR ''A'' \<le> c \<and> c \<le> CHR ''Z'' then char_of ((of_char c :: nat) + 32) else c)"

definition EqualFold :: "string \<Rightarrow> string \<Rightarrow> bool" where
  "EqualFold s t \<longleftrightarrow> map ascii_lower s = map ascii_lower t"

definition authenticate ::
  "(string \<Rightarrow> uuid option) \<Rightarrow> ctx \<Rightarrow> string \<Rightarrow> (string \<Rightarrow> auth_error + Claims) \<Rightarrow> string list \<Rightarrow> status + ctx" where
  "authenticate uuid_Parse ctx method verify public =
     (if method \<in> set public then Inr ctx
      else
        let raw = firstMD (ctx_incoming ctx) ''authorization''
        in if raw = '''' then Inl (Status Unauthenticated ''missing authorization token'')
           else if length raw \<le> length bearerPrefix
                \<or> \<not> EqualFold (take (length bearerPrefix) raw) bearerPrefix
           then Inl (Status Unauthenticated ''authorization must be a Bearer token'')
           else (case verify (drop (length bearerPrefix) raw) of
                   Inl err \<Rightarrow>
                     if err = ErrTokenExpired then Inl (Status Unauthenticated ''token expired'')
                     else Inl (Status Unauthenticated ''token invalid'')
                 | Inr claims \<Rightarrow>
                     let caller =
                           \<lparr>UserID = Subject claims, TenantID = ClaimsTenantID claims,
                            ProjectID = uuidFromMD uuid_Parse (ctx_incoming ctx) ''x-project-id'',
                            Email = ClaimsEmail claims, Roles = ClaimsRoles claims,
                            Permissions = ClaimsPermissions claims,
                            IP = firstMD (ctx_incoming ctx) ''x-forwarded-for''\<rparr>;
                         ctx1 = WithCaller ctx caller;
                         ctx2 = (if TenantID caller \<noteq> uuid_Nil
                                 then WithID ctx1 (TenantID caller) else ctx1)
                     in Inr (ctx2\<lparr>ctx_actor := Some \<lparr>actor_user = UserID caller,
                                actor_email = Email caller, actor_ip = IP caller\<rparr>\<rparr>)))"

text \<open>The interceptor runs the handler only with an authenticated context.\<close>

definition UnaryAuthInterceptor ::
  "(string \<Rightarrow> uuid option) \<Rightarrow> (string \<Rightarrow> auth_error + Claims) \<Rightarrow> string list \<Rightarrow> ctx \<Rightarrow> string
    \<Rightarrow> (ctx \<Rightarrow> ('w, status, 'a) op) \<Rightarrow> ('w, status, 'a) op" where
  "UnaryAuthInterceptor uuid_Parse verify public ctx method handler =
     (case authenticate uuid_Parse ctx method verify public of
        Inl e \<Rightarrow> fail e
      | Inr authCtx \<Rightarrow> handler authCtx)"

text \<open>
  The methods callable without a token: the three of \<^verbatim>\<open>IAMService\<close> whose names the
  generated constants hold, and reflection.
\<close>

definition PublicMethods :: "string list" where
  "PublicMethods =
     [''/thittam.iam.v1.IAMService/Login'', ''/thittam.iam.v1.IAMService/RefreshToken'',
      ''/thittam.iam.v1.IAMService/AcceptInvitation'',
      ''/grpc.reflection.v1.ServerReflection/ServerReflectionInfo'',
      ''/grpc.reflection.v1alpha.ServerReflection/ServerReflectionInfo'']"

text \<open>
  The client interceptor for calls to another service: it copies the token and the client address
  from the incoming call unless the outgoing call already carries them.
\<close>

definition append_md :: "md \<Rightarrow> string \<Rightarrow> string \<Rightarrow> md" where
  "append_md m k v = m(k := m k @ [v])"

definition ForwardAuth :: "ctx \<Rightarrow> ctx" where
  "ForwardAuth ctx =
     (let inn = ctx_incoming ctx;
          out = ctx_outgoing ctx;
          authz = firstMD inn ''authorization'';
          ctx1 = (if authz \<noteq> '''' \<and> out ''authorization'' = []
                  then ctx\<lparr>ctx_outgoing := append_md (ctx_outgoing ctx) ''authorization'' authz\<rparr>
                  else ctx);
          xff = firstMD inn ''x-forwarded-for''
      in if xff \<noteq> '''' \<and> out ''x-forwarded-for'' = []
         then ctx1\<lparr>ctx_outgoing := append_md (ctx_outgoing ctx1) ''x-forwarded-for'' xff\<rparr>
         else ctx1)"

section \<open>Lemmas\<close>

lemma HasRole_loop_iff: "HasRole_loop rs role \<longleftrightarrow> role \<in> set rs"
  by (induction rs) auto

lemma HasRole_iff: "HasRole c role \<longleftrightarrow> role \<in> set (Roles c)"
  by (simp add: HasRole_def HasRole_loop_iff)

lemma RequirePermission_Inr_iff:
  "RequirePermission flag ctx chk p = Inr u \<longleftrightarrow>
     (\<exists>caller check. ctx_caller ctx = Some caller \<and> UserID caller \<noteq> uuid_Nil \<and> chk = Some check
        \<and> check (UserID caller) p
            (if ProjectScopedRBACEnabled flag \<and> ProjectID caller \<noteq> uuid_Nil
             then Some (ProjectID caller) else None) = Inr True)"
  by (auto simp: RequirePermission_def CallerFromContext_def Let_def
      split: option.splits if_splits sum.splits)

text \<open>A status is returned on exactly the same contexts for a nil checker and for a refusal.\<close>

lemma RequirePermission_nil: "RequirePermission flag ctx None p \<noteq> Inr u"
  by (simp add: RequirePermission_Inr_iff)

lemma TenantFromRequest_InrD:
  "TenantFromRequest up ctx r = Inr t \<Longrightarrow>
     \<exists>caller. ctx_caller ctx = Some caller \<and> t = TenantID caller \<and> t \<noteq> uuid_Nil"
  by (auto simp: TenantFromRequest_def CallerFromContext_def split: option.splits if_splits)

lemma ActorFromRequest_InrD:
  "ActorFromRequest up ctx r = Inr t \<Longrightarrow>
     \<exists>caller. ctx_caller ctx = Some caller \<and> t = UserID caller \<and> t \<noteq> uuid_Nil"
  by (auto simp: ActorFromRequest_def CallerFromContext_def split: option.splits if_splits)

section \<open>The configuration of the tenant\<close>

text \<open>
  A panic for want of a configuration unwinds to the recovery interceptor of
  \<^verbatim>\<open>pkg/server/server.go\<close>, which answers with the status that the error mapping gives to an
  error without a sentinel; it is represented by such an error.
\<close>

definition MustFromContext :: "ctx \<Rightarrow> ('w, 's goerr, Config) op" where
  "MustFromContext ctx = (case ctx_vertical ctx of
     None \<Rightarrow> fail (Opaque ''vertical: MustFromContext called without vertical config in context'')
   | Some cfg \<Rightarrow> ret cfg)"

lemma same_MustFromContext [same_intros]: "same f (MustFromContext ctx)"
  unfolding MustFromContext_def by (intro same_intros)

lemma MustFromContext_Inr: "MustFromContext ctx w = (Inr v, w') \<longleftrightarrow> w' = w \<and> ctx_vertical ctx = Some v"
  by (auto simp: MustFromContext_def split: option.split)

end
