(* ===== verification/LedgerDb.thy ===== *)
theory LedgerDb
  imports Interceptor
begin

text \<open>
  The general-ledger database: the tables of \<^verbatim>\<open>migrations/ledger\<close> with their constraints,
  the statements of \<^verbatim>\<open>services/ledger/db/queries.sql.go\<close> (\<open>q_...\<close>) and the repository
  methods of \<^verbatim>\<open>services/ledger/db/postgres.go\<close> (\<open>pg_...\<close>) over them. A nullable
  column is an option; a row set with \<^verbatim>\<open>ORDER BY\<close> on text is ordered by bytes.
\<close>

section \<open>Domain types\<close>

record Account =
  acc_ID :: uuid
  acc_TenantID :: uuid
  acc_Code :: string
  acc_Name :: string
  acc_AccountType :: string
  acc_ParentID :: "uuid option"
  acc_IsActive :: bool
  acc_BankName :: string
  acc_AccountLast4 :: string
  acc_CostBehavior :: string
  acc_BankCurrency :: string

record AccountingPeriod =
  per_ID :: uuid
  per_TenantID :: uuid
  per_Year :: int
  per_Month :: int
  per_Status :: string
  per_ClosedBy :: "uuid option"
  per_ClosedAt :: "time option"

record JournalLine =
  jl_ID :: uuid
  jl_JournalID :: uuid
  jl_AccountID :: uuid
  jl_DebitAmount :: decimal
  jl_CreditAmount :: decimal
  jl_Currency :: string
  jl_Description :: string
  jl_PartyID :: "uuid option"

record JournalEntry =
  je_ID :: uuid
  je_TenantID :: uuid
  je_ProductionID :: "uuid option"
  je_PeriodID :: uuid
  je_EntryNumber :: string
  je_Reference :: string
  je_Narration :: string
  je_Status :: string
  je_Lines :: "JournalLine list"
  je_PostedBy :: "uuid option"
  je_PostedAt :: "time option"
  je_CreatedAt :: time

record TrialBalanceEntry =
  tb_AccountID :: uuid
  tb_Code :: string
  tb_Name :: string
  tb_AccountType :: string
  tb_Debit :: decimal
  tb_Credit :: decimal
  tb_Balance :: decimal

record MonthlyCostBehaviorRow =
  mc_Month :: string
  mc_Fixed :: decimal
  mc_Variable :: decimal
  mc_Unclassified :: decimal
  mc_Total :: decimal

record PartyContact =
  pc_ID :: uuid
  pc_PartyID :: uuid
  pc_Name :: string
  pc_Designation :: string
  pc_Email :: string
  pc_Phone :: string
  pc_IsPrimary :: bool

record Party =
  pt_ID :: uuid
  pt_TenantID :: uuid
  pt_Name :: string
  pt_PartyType :: string
  pt_Email :: string
  pt_Phone :: string
  pt_TaxID :: string
  pt_Address :: string
  pt_DefaultCurrency :: string
  pt_IsActive :: bool
  pt_Contacts :: "PartyContact list"

record PartyLedgerLine =
  pl_EntryID :: uuid
  pl_EntryNumber :: string
  pl_EntryDate :: time
  pl_Narration :: string
  pl_AccountCode :: string
  pl_AccountName :: string
  pl_DebitAmount :: decimal
  pl_CreditAmount :: decimal
  pl_Currency :: string
  pl_Description :: string

datatype ledger_sentinel =
  ErrAccountNotFound | ErrAccountInactive | ErrAccountCodeExists | ErrInvalidAccountType
| ErrBankNameInvalid | ErrAccountNumberInvalid | ErrBankCurrencyInvalid | ErrNoBankCodeAvailable
| ErrBankAccountNotAsset | ErrPartyNotFound | ErrPartyNameExists | ErrPartyNameInvalid
| ErrPartyTypeInvalid | ErrPartyEmailInvalid | ErrPartyFieldTooLong | ErrPartyCurrencyInvalid
| ErrContactInvalid | ErrPeriodNotFound | ErrPeriodClosed | ErrPeriodAlreadyExists
| ErrJournalNotFound | ErrJournalAlreadyPosted | ErrJournalVoid | ErrJournalNotBalanced
| ErrJournalTooFewLines | ErrCostBehaviorInvalid | ErrCostBehaviorNotExpense | ErrMonthRangeInvalid

type_synonym ledger_err = "ledger_sentinel goerr"

section \<open>Rows and tables\<close>

record account_row =
  ar_id :: uuid
  ar_tenant :: uuid
  ar_code :: string
  ar_name :: string
  ar_type :: string
  ar_parent :: "uuid option"
  ar_active :: bool
  ar_bank :: "string option"
  ar_last4 :: "string option"
  ar_currency :: "string option"
  ar_behavior :: "string option"

record period_row =
  pr_id :: uuid
  pr_tenant :: uuid
  pr_year :: int
  pr_month :: int
  pr_status :: string
  pr_closed_by :: "uuid option"
  pr_closed_at :: "time option"

record entry_row =
  er_id :: uuid
  er_tenant :: uuid
  er_production :: "uuid option"
  er_period :: uuid
  er_number :: string
  er_reference :: "string option"
  er_narration :: string
  er_status :: string
  er_posted_by :: "uuid option"
  er_posted_at :: "time option"
  er_created :: time

record line_row =
  lr_id :: uuid
  lr_journal :: uuid
  lr_account :: uuid
  lr_debit :: decimal
  lr_credit :: decimal
  lr_currency :: string
  lr_description :: "string option"
  lr_party :: "uuid option"

record party_row =
  yr_id :: uuid
  yr_tenant :: uuid
  yr_name :: string
  yr_type :: string
  yr_email :: string
  yr_phone :: string
  yr_tax :: string
  yr_address :: string
  yr_currency :: "string option"
  yr_active :: bool

record contact_row =
  kr_id :: uuid
  kr_tenant :: uuid
  kr_party :: uuid
  kr_name :: string
  kr_designation :: string
  kr_email :: string
  kr_phone :: string
  kr_primary :: bool
  kr_position :: int

text \<open>
  The database of the service and the events it has published. The counters table is keyed by
  tenant and year.
\<close>

record ledger = io +
  accounts :: "account_row list"
  periods :: "period_row list"
  entries :: "entry_row list"
  jlines :: "line_row list"
  counters :: "uuid \<times> int \<Rightarrow> int option"
  parties :: "party_row list"
  contacts :: "contact_row list"
  published :: "JournalEntry list"

definition empty_ledger :: ledger where
  "empty_ledger = \<lparr>tick = 0, accounts = [], periods = [], entries = [], jlines = [],
     counters = Map.empty, parties = [], contacts = [], published = []\<rparr>"

section \<open>Conversions\<close>

definition pgTextFromString :: "string \<Rightarrow> string option" where
  "pgTextFromString s = (if s \<noteq> '''' then Some s else None)"

definition stringFromPgText :: "string option \<Rightarrow> string" where
  "stringFromPgText t = (case t of Some s \<Rightarrow> s | None \<Rightarrow> '''')"

definition nullableUUID :: "uuid \<Rightarrow> uuid option" where
  "nullableUUID i = (if i = uuid_Nil then None else Some i)"

definition isUniqueViolation :: "db_error \<Rightarrow> bool" where
  "isUniqueViolation e = (case e of PgError c \<Rightarrow> c = ''23505'' | _ \<Rightarrow> False)"

definition accountFromDB :: "account_row \<Rightarrow> Account" where
  "accountFromDB r =
     \<lparr>acc_ID = ar_id r, acc_TenantID = ar_tenant r, acc_Code = ar_code r, acc_Name = ar_name r,
      acc_AccountType = ar_type r, acc_ParentID = ar_parent r, acc_IsActive = ar_active r,
      acc_BankName = stringFromPgText (ar_bank r), acc_AccountLast4 = stringFromPgText (ar_last4 r),
      acc_CostBehavior = stringFromPgText (ar_behavior r),
      acc_BankCurrency = stringFromPgText (ar_currency r)\<rparr>"

definition periodFromDB :: "period_row \<Rightarrow> AccountingPeriod" where
  "periodFromDB r =
     \<lparr>per_ID = pr_id r, per_TenantID = pr_tenant r, per_Year = pr_year r, per_Month = pr_month r,
      per_Status = pr_status r, per_ClosedBy = pr_closed_by r, per_ClosedAt = pr_closed_at r\<rparr>"

definition journalLineFromDB :: "line_row \<Rightarrow> JournalLine" where
  "journalLineFromDB r =
     \<lparr>jl_ID = lr_id r, jl_JournalID = lr_journal r, jl_AccountID = lr_account r,
      jl_DebitAmount = lr_debit r, jl_CreditAmount = lr_credit r, jl_Currency = lr_currency r,
      jl_Description = stringFromPgText (lr_description r), jl_PartyID = lr_party r\<rparr>"

definition journalEntryFromDB :: "entry_row \<Rightarrow> JournalEntry" where
  "journalEntryFromDB r =
     \<lparr>je_ID = er_id r, je_TenantID = er_tenant r, je_ProductionID = er_production r,
      je_PeriodID = er_period r, je_EntryNumber = er_number r,
      je_Reference = stringFromPgText (er_reference r), je_Narration = er_narration r,
      je_Status = er_status r, je_Lines = [], je_PostedBy = er_posted_by r,
      je_PostedAt = er_posted_at r, je_CreatedAt = er_created r\<rparr>"

definition contactFromDB :: "contact_row \<Rightarrow> PartyContact" where
  "contactFromDB r =
     \<lparr>pc_ID = kr_id r, pc_PartyID = kr_party r, pc_Name = kr_name r,
      pc_Designation = kr_designation r, pc_Email = kr_email r, pc_Phone = kr_phone r,
      pc_IsPrimary = kr_primary r\<rparr>"

definition contactsFromDB :: "contact_row list \<Rightarrow> PartyContact list" where
  "contactsFromDB rows = map contactFromDB rows"

definition partyFromDB :: "party_row \<Rightarrow> Party" where
  "partyFromDB r =
     \<lparr>pt_ID = yr_id r, pt_TenantID = yr_tenant r, pt_Name = yr_name r, pt_PartyType = yr_type r,
      pt_Email = yr_email r, pt_Phone = yr_phone r, pt_TaxID = yr_tax r, pt_Address = yr_address r,
      pt_DefaultCurrency = stringFromPgText (yr_currency r), pt_IsActive = yr_active r,
      pt_Contacts = []\<rparr>"

section \<open>Statements\<close>

subsection \<open>Accounts\<close>

definition account_types :: "string list" where
  "account_types = [''asset'', ''liability'', ''equity'', ''revenue'', ''expense'']"

definition four_digits :: "string \<Rightarrow> bool" where
  "four_digits s \<longleftrightarrow> length s = 4 \<and> (\<forall>c \<in> set s. is_digit c)"

text \<open>The \<^verbatim>\<open>CHECK\<close> constraints of the table.\<close>

definition account_checks :: "account_row \<Rightarrow> bool" where
  "account_checks r \<longleftrightarrow>
     ar_type r \<in> set account_types
   \<and> (case ar_last4 r of None \<Rightarrow> True | Some s \<Rightarrow> four_digits s)
   \<and> (case ar_currency r of None \<Rightarrow> True | Some s \<Rightarrow> three_letters s)
   \<and> (ar_bank r = None) = (ar_last4 r = None) \<and> (ar_bank r = None) = (ar_currency r = None)
   \<and> (case ar_behavior r of None \<Rightarrow> True | Some s \<Rightarrow> s = ''fixed'' \<or> s = ''variable'')"

text \<open>
  \<^verbatim>\<open>INSERT ... ON CONFLICT (tenant_id, code) DO NOTHING RETURNING ...\<close>: on a conflict with the
  named key the statement returns no row, which the driver reports as \<^const>\<open>ErrNoRows\<close>; any other
  unique key raises.
\<close>

definition q_CreateAccount :: "env \<Rightarrow> account_row \<Rightarrow> (ledger, db_error, account_row) op" where
  "q_CreateAccount en r0 = query en (\<lambda>_ w.
     let r = r0\<lparr>ar_behavior := None\<rparr> in
     if \<not> account_checks r then (Inl check_violation, w)
     else if \<exists>a \<in> set (accounts w). ar_tenant a = ar_tenant r \<and> ar_code a = ar_code r
     then (Inl ErrNoRows, w)
     else if \<exists>a \<in> set (accounts w). ar_id a = ar_id r then (Inl unique_violation, w)
     else if (case ar_parent r of None \<Rightarrow> False
              | Some p \<Rightarrow> p \<noteq> ar_id r \<and> (\<forall>a \<in> set (accounts w). ar_id a \<noteq> p))
     then (Inl fk_violation, w)
     else (Inr r, w\<lparr>accounts := accounts w @ [r]\<rparr>))"

definition is_bank_code :: "string \<Rightarrow> bool" where
  "is_bank_code s \<longleftrightarrow> length s = 4 \<and> s ! 0 = CHR ''1'' \<and> (\<forall>c \<in> set s. is_digit c)"

definition q_NextBankAccountCode :: "env \<Rightarrow> uuid \<Rightarrow> (ledger, db_error, int) op" where
  "q_NextBankAccountCode en t = query en (\<lambda>_. gets (\<lambda>w.
     int (foldr max (map (\<lambda>a. atoi (ar_code a)) (filter (\<lambda>a. ar_tenant a = t
            \<and> is_bank_code (ar_code a)) (accounts w))) 0)))"

definition q_GetAccount :: "env \<Rightarrow> uuid \<Rightarrow> uuid \<Rightarrow> (ledger, db_error, account_row) op" where
  "q_GetAccount en i t = query en (\<lambda>_ w.
     (row_by (\<lambda>a. ar_id a = i \<and> ar_tenant a = t) (accounts w), w))"

definition q_GetAccountByCode :: "env \<Rightarrow> string \<Rightarrow> uuid \<Rightarrow> (ledger, db_error, account_row) op" where
  "q_GetAccountByCode en c t = query en (\<lambda>_ w.
     (row_by (\<lambda>a. ar_code a = c \<and> ar_tenant a = t) (accounts w), w))"

definition q_ListAccounts ::
  "env \<Rightarrow> uuid \<Rightarrow> string \<Rightarrow> int \<Rightarrow> int \<Rightarrow> (ledger, db_error, account_row list) op" where
  "q_ListAccounts en t typ l ofs = query en (\<lambda>_ w.
     (page l ofs (sort_key ar_code (filter (\<lambda>a. ar_tenant a = t
        \<and> (typ = '''' \<or> ar_type a = typ) \<and> ar_active a) (accounts w))), w))"

definition q_SetAccountCostBehavior ::
  "env \<Rightarrow> uuid \<Rightarrow> uuid \<Rightarrow> string option \<Rightarrow> (ledger, db_error, account_row) op" where
  "q_SetAccountCostBehavior en i t cb = query en (\<lambda>_ w.
     let p = (\<lambda>a. ar_id a = i \<and> ar_tenant a = t) in
     case row_by p (accounts w) of
       Inl e \<Rightarrow> (Inl e, w)
     | Inr a \<Rightarrow>
         if \<not> account_checks (a\<lparr>ar_behavior := cb\<rparr>) then (Inl check_violation, w)
         else (Inr (a\<lparr>ar_behavior := cb\<rparr>),
               w\<lparr>accounts := update_rows p (\<lambda>a. a\<lparr>ar_behavior := cb\<rparr>) (accounts w)\<rparr>))"

subsection \<open>Accounting periods\<close>

definition q_CreateAccountingPeriod :: "env \<Rightarrow> period_row \<Rightarrow> (ledger, db_error, period_row) op" where
  "q_CreateAccountingPeriod en r0 = query en (\<lambda>_ w.
     let r = r0\<lparr>pr_closed_by := None, pr_closed_at := None\<rparr> in
     if \<not> (2000 \<le> pr_year r \<and> 1 \<le> pr_month r \<and> pr_month r \<le> 12
           \<and> (pr_status r = ''open'' \<or> pr_status r = ''closed'')) then (Inl check_violation, w)
     else if \<exists>p \<in> set (periods w). pr_id p = pr_id r then (Inl ErrNoRows, w)
     else if \<exists>p \<in> set (periods w). pr_tenant p = pr_tenant r \<and> pr_year p = pr_year r
               \<and> pr_month p = pr_month r then (Inl unique_violation, w)
     else (Inr r, w\<lparr>periods := periods w @ [r]\<rparr>))"

definition period_order :: "period_row \<Rightarrow> int list" where
  "period_order p = [- pr_year p, - pr_month p]"

definition q_GetOpenPeriod :: "env \<Rightarrow> uuid \<Rightarrow> (ledger, db_error, period_row) op" where
  "q_GetOpenPeriod en t = query en (\<lambda>_ w.
     (row_by (\<lambda>_. True) (sort_key period_order
        (filter (\<lambda>p. pr_tenant p = t \<and> pr_status p = ''open'') (periods w))), w))"

definition q_GetAccountingPeriod :: "env \<Rightarrow> uuid \<Rightarrow> uuid \<Rightarrow> (ledger, db_error, period_row) op" where
  "q_GetAccountingPeriod en i t = query en (\<lambda>_ w.
     (row_by (\<lambda>p. pr_id p = i \<and> pr_tenant p = t) (periods w), w))"

definition q_ListAccountingPeriods :: "env \<Rightarrow> uuid \<Rightarrow> (ledger, db_error, period_row list) op" where
  "q_ListAccountingPeriods en t = query en (\<lambda>_. gets (\<lambda>w.
     sort_key period_order (filter (\<lambda>p. pr_tenant p = t) (periods w))))"

definition q_CloseAccountingPeriod ::
  "env \<Rightarrow> uuid \<Rightarrow> uuid \<Rightarrow> uuid \<Rightarrow> (ledger, db_error, period_row) op" where
  "q_CloseAccountingPeriod en i t closedBy = query en (\<lambda>now w.
     let p = (\<lambda>r. pr_id r = i \<and> pr_tenant r = t);
         f = (\<lambda>r. r\<lparr>pr_status := ''closed'', pr_closed_at := Some now, pr_closed_by := Some closedBy\<rparr>)
     in case row_by p (periods w) of
          Inl e \<Rightarrow> (Inl e, w)
        | Inr r \<Rightarrow> (Inr (f r), w\<lparr>periods := update_rows p f (periods w)\<rparr>))"

subsection \<open>Journal entries and lines\<close>

definition q_NextJournalEntrySeq :: "env \<Rightarrow> uuid \<Rightarrow> int \<Rightarrow> (ledger, db_error, int) op" where
  "q_NextJournalEntrySeq en t y = query en (\<lambda>_ w.
     let n = (case counters w (t, y) of None \<Rightarrow> 1 | Some k \<Rightarrow> k + 1)
     in if n > 2147483647 then (Inl numeric_overflow, w)
        else (Inr n, w\<lparr>counters := (counters w)((t, y) \<mapsto> n)\<rparr>))"

definition entry_statuses :: "string list" where
  "entry_statuses = [''draft'', ''posted'', ''void'']"

definition q_CreateJournalEntry :: "env \<Rightarrow> entry_row \<Rightarrow> (ledger, db_error, entry_row) op" where
  "q_CreateJournalEntry en r0 = query en (\<lambda>now w.
     let r = r0\<lparr>er_posted_by := None, er_posted_at := None, er_created := now\<rparr> in
     if er_status r \<notin> set entry_statuses then (Inl check_violation, w)
     else if \<exists>e \<in> set (entries w). er_id e = er_id r then (Inl ErrNoRows, w)
     else if \<exists>e \<in> set (entries w). er_number e = er_number r then (Inl unique_violation, w)
     else if \<forall>p \<in> set (periods w). pr_id p \<noteq> er_period r then (Inl fk_violation, w)
     else (Inr r, w\<lparr>entries := entries w @ [r]\<rparr>))"

definition q_GetJournalEntry :: "env \<Rightarrow> uuid \<Rightarrow> uuid \<Rightarrow> (ledger, db_error, entry_row) op" where
  "q_GetJournalEntry en i t = query en (\<lambda>_ w.
     (row_by (\<lambda>e. er_id e = i \<and> er_tenant e = t) (entries w), w))"

definition q_PostJournalEntry ::
  "env \<Rightarrow> uuid \<Rightarrow> uuid \<Rightarrow> uuid \<Rightarrow> (ledger, db_error, entry_row) op" where
  "q_PostJournalEntry en i t postedBy = query en (\<lambda>now w.
     let p = (\<lambda>e. er_id e = i \<and> er_tenant e = t \<and> er_status e = ''draft'');
         f = (\<lambda>e. e\<lparr>er_status := ''posted'', er_posted_by := Some postedBy, er_posted_at := Some now\<rparr>)
     in case row_by p (entries w) of
          Inl e \<Rightarrow> (Inl e, w)
        | Inr r \<Rightarrow> (Inr (f r), w\<lparr>entries := update_rows p f (entries w)\<rparr>))"

definition q_VoidJournalEntry :: "env \<Rightarrow> uuid \<Rightarrow> uuid \<Rightarrow> (ledger, db_error, entry_row) op" where
  "q_VoidJournalEntry en i t = query en (\<lambda>_ w.
     let p = (\<lambda>e. er_id e = i \<and> er_tenant e = t \<and> er_status e = ''posted'');
         f = (\<lambda>e. e\<lparr>er_status := ''void''\<rparr>)
     in case row_by p (entries w) of
          Inl e \<Rightarrow> (Inl e, w)
        | Inr r \<Rightarrow> (Inr (f r), w\<lparr>entries := update_rows p f (entries w)\<rparr>))"

definition q_ListJournalEntries ::
  "env \<Rightarrow> uuid \<Rightarrow> uuid option \<Rightarrow> string \<Rightarrow> int \<Rightarrow> int \<Rightarrow> (ledger, db_error, entry_row list) op" where
  "q_ListJournalEntries en t period st l ofs = query en (\<lambda>_ w.
     (page l ofs (sort_key (\<lambda>e. - er_created e) (filter (\<lambda>e. er_tenant e = t
        \<and> (case period of None \<Rightarrow> True | Some p \<Rightarrow> er_period e = p)
        \<and> (st = '''' \<or> er_status e = st)) (entries w))), w))"

text \<open>The constraint \<^verbatim>\<open>dr_or_cr\<close>, on the rounded amounts.\<close>

definition dr_or_cr :: "decimal \<Rightarrow> decimal \<Rightarrow> bool" where
  "dr_or_cr d c \<longleftrightarrow> (d > 0 \<and> c = 0) \<or> (c > 0 \<and> d = 0)"

text \<open>The statement does not name the column \<^verbatim>\<open>currency\<close>, so its default is stored.\<close>

definition q_CreateJournalLine :: "env \<Rightarrow> line_row \<Rightarrow> (ledger, db_error, line_row) op" where
  "q_CreateJournalLine en r0 = query en (\<lambda>_ w.
     case numeric_14_2 (lr_debit r0) of
       Inl e \<Rightarrow> (Inl e, w)
     | Inr d \<Rightarrow>
         (case numeric_14_2 (lr_credit r0) of
            Inl e \<Rightarrow> (Inl e, w)
          | Inr c \<Rightarrow>
              let r = r0\<lparr>lr_debit := d, lr_credit := c, lr_currency := ''INR''\<rparr> in
              if \<not> dr_or_cr d c then (Inl check_violation, w)
              else if \<exists>x \<in> set (jlines w). lr_id x = lr_id r then (Inl ErrNoRows, w)
              else if (\<forall>e \<in> set (entries w). er_id e \<noteq> lr_journal r)
                    \<or> (\<forall>a \<in> set (accounts w). ar_id a \<noteq> lr_account r)
                    \<or> (case lr_party r of None \<Rightarrow> False
                       | Some y \<Rightarrow> \<forall>x \<in> set (parties w). yr_id x \<noteq> y)
              then (Inl fk_violation, w)
              else (Inr r, w\<lparr>jlines := jlines w @ [r]\<rparr>)))"

definition q_ListJournalLines :: "env \<Rightarrow> uuid \<Rightarrow> uuid \<Rightarrow> (ledger, db_error, line_row list) op" where
  "q_ListJournalLines en journal t = query en (\<lambda>_. gets (\<lambda>w.
     sort_key lr_id (filter (\<lambda>l. lr_journal l = journal
       \<and> (\<exists>e \<in> set (entries w). er_id e = lr_journal l \<and> er_tenant e = t)) (jlines w))))"

definition inner_join :: "('a \<Rightarrow> 'b \<Rightarrow> bool) \<Rightarrow> 'a list \<Rightarrow> 'b list \<Rightarrow> ('a \<times> 'b) list" where
  "inner_join on xs ys = [(x, y). x \<leftarrow> xs, y \<leftarrow> ys, on x y]"

definition left_join :: "('a \<Rightarrow> 'b \<Rightarrow> bool) \<Rightarrow> 'a list \<Rightarrow> 'b list \<Rightarrow> ('a \<times> 'b option) list" where
  "left_join on xs ys = concat (map (\<lambda>x.
     (case filter (on x) ys of [] \<Rightarrow> [(x, None)] | zs \<Rightarrow> map (\<lambda>z. (x, Some z)) zs)) xs)"

definition q_ListPartyLedgerLines ::
  "env \<Rightarrow> uuid \<Rightarrow> uuid \<Rightarrow> (ledger, db_error, ((line_row \<times> entry_row) \<times> account_row) list) op" where
  "q_ListPartyLedgerLines en t party = query en (\<lambda>_. gets (\<lambda>w.
     sort_key (\<lambda>((jl, je), a). er_created je) (sort_key (\<lambda>((jl, je), a). er_number je)
       (sort_key (\<lambda>((jl, je), a). lr_id jl)
         (filter (\<lambda>((jl, je), a). er_tenant je = t \<and> lr_party jl = Some party
                     \<and> er_status je = ''posted'')
           (inner_join (\<lambda>(jl, je) a. ar_id a = lr_account jl)
             (inner_join (\<lambda>jl je. er_id je = lr_journal jl) (jlines w) (entries w))
             (accounts w)))))))"

subsection \<open>Parties and contacts\<close>

text \<open>\<^verbatim>\<open>lower(name)\<close> of the unique index, on ASCII letters.\<close>

definition sql_lower :: "string \<Rightarrow> string" where
  "sql_lower s = map ascii_lower s"

definition party_types :: "string list" where
  "party_types = [''customer'', ''supplier'', ''both'']"

definition party_checks :: "party_row \<Rightarrow> bool" where
  "party_checks r \<longleftrightarrow> 1 \<le> rune_count (yr_name r) \<and> rune_count (yr_name r) \<le> 200
     \<and> yr_type r \<in> set party_types
     \<and> (case yr_currency r of None \<Rightarrow> True | Some c \<Rightarrow> three_letters c)"

definition q_CreateParty :: "env \<Rightarrow> party_row \<Rightarrow> (ledger, db_error, party_row) op" where
  "q_CreateParty en r0 = query en (\<lambda>_ w.
     let r = r0\<lparr>yr_active := True\<rparr> in
     if \<not> party_checks r then (Inl check_violation, w)
     else if \<exists>y \<in> set (parties w). yr_id y = yr_id r then (Inl unique_violation, w)
     else if \<exists>y \<in> set (parties w). yr_tenant y = yr_tenant r
               \<and> sql_lower (yr_name y) = sql_lower (yr_name r) then (Inl unique_violation, w)
     else (Inr r, w\<lparr>parties := parties w @ [r]\<rparr>))"

definition q_GetParty :: "env \<Rightarrow> uuid \<Rightarrow> uuid \<Rightarrow> (ledger, db_error, party_row) op" where
  "q_GetParty en i t = query en (\<lambda>_ w.
     (row_by (\<lambda>y. yr_id y = i \<and> yr_tenant y = t) (parties w), w))"

definition q_ListParties ::
  "env \<Rightarrow> uuid \<Rightarrow> string \<Rightarrow> bool \<Rightarrow> (ledger, db_error, party_row list) op" where
  "q_ListParties en t typ inactive = query en (\<lambda>_. gets (\<lambda>w.
     sort_key (\<lambda>y. sql_lower (yr_name y)) (filter (\<lambda>y. yr_tenant y = t
       \<and> (typ = '''' \<or> yr_type y = typ \<or> yr_type y = ''both'')
       \<and> (yr_active y \<or> inactive)) (parties w))))"

definition q_UpdateParty :: "env \<Rightarrow> party_row \<Rightarrow> (ledger, db_error, party_row) op" where
  "q_UpdateParty en r = query en (\<lambda>_ w.
     let p = (\<lambda>y. yr_id y = yr_id r \<and> yr_tenant y = yr_tenant r) in
     case row_by p (parties w) of
       Inl e \<Rightarrow> (Inl e, w)
     | Inr y \<Rightarrow>
         if \<not> party_checks r then (Inl check_violation, w)
         else if \<exists>x \<in> set (parties w). \<not> p x \<and> yr_tenant x = yr_tenant r
                   \<and> sql_lower (yr_name x) = sql_lower (yr_name r) then (Inl unique_violation, w)
         else (Inr r, w\<lparr>parties := update_rows p (\<lambda>_. r) (parties w)\<rparr>))"

definition q_CreatePartyContact :: "env \<Rightarrow> contact_row \<Rightarrow> (ledger, db_error, contact_row) op" where
  "q_CreatePartyContact en r = query en (\<lambda>_ w.
     if \<not> (1 \<le> rune_count (kr_name r) \<and> rune_count (kr_name r) \<le> 200
           \<and> rune_count (kr_designation r) \<le> 100 \<and> rune_count (kr_email r) \<le> 254
           \<and> rune_count (kr_phone r) \<le> 30 \<and> 0 \<le> kr_position r) then (Inl check_violation, w)
     else if \<exists>k \<in> set (contacts w). kr_id k = kr_id r then (Inl unique_violation, w)
     else if kr_primary r \<and> (\<exists>k \<in> set (contacts w). kr_party k = kr_party r \<and> kr_primary k)
     then (Inl unique_violation, w)
     else if \<forall>y \<in> set (parties w). yr_id y \<noteq> kr_party r then (Inl fk_violation, w)
     else (Inr r, w\<lparr>contacts := contacts w @ [r]\<rparr>))"

definition q_ListPartyContacts :: "env \<Rightarrow> uuid \<Rightarrow> uuid \<Rightarrow> (ledger, db_error, contact_row list) op" where
  "q_ListPartyContacts en t party = query en (\<lambda>_. gets (\<lambda>w.
     sort_key kr_position (filter (\<lambda>k. kr_tenant k = t \<and> kr_party k = party) (contacts w))))"

definition q_ListPartyContactsByTenant :: "env \<Rightarrow> uuid \<Rightarrow> (ledger, db_error, contact_row list) op" where
  "q_ListPartyContactsByTenant en t = query en (\<lambda>_. gets (\<lambda>w.
     sort_key kr_party (sort_key kr_position (filter (\<lambda>k. kr_tenant k = t) (contacts w)))))"

definition q_DeletePartyContacts :: "env \<Rightarrow> uuid \<Rightarrow> uuid \<Rightarrow> (ledger, db_error, unit) op" where
  "q_DeletePartyContacts en t party = query en (\<lambda>_. modify (\<lambda>w.
     w\<lparr>contacts := filter (\<lambda>k. \<not> (kr_tenant k = t \<and> kr_party k = party)) (contacts w)\<rparr>))"

end
