(* ===== verification/LedgerRepo.thy ===== *)
theory LedgerRepo
  imports LedgerDb
begin

text \<open>
  The repository of the general ledger (\<^verbatim>\<open>services/ledger/db/postgres.go\<close>): each method
  runs its statements and turns driver errors into the sentinels of the package or wraps them.
\<close>

section \<open>Accounts\<close>

definition pg_CreateAccount :: "env \<Rightarrow> Account \<Rightarrow> (ledger, ledger_err, Account) op" where
  "pg_CreateAccount en account =
     andThen
       (onErr (\<lambda>err. if isUniqueViolation err then Sentinel ErrAccountCodeExists
                     else Wrap ''ledger: create account'' (DbErr err))
         (q_CreateAccount en
           \<lparr>ar_id = acc_ID account, ar_tenant = acc_TenantID account, ar_code = acc_Code account,
            ar_name = acc_Name account, ar_type = acc_AccountType account,
            ar_parent = acc_ParentID account, ar_active = acc_IsActive account,
            ar_bank = pgTextFromString (acc_BankName account),
            ar_last4 = pgTextFromString (acc_AccountLast4 account),
            ar_currency = pgTextFromString (acc_BankCurrency account), ar_behavior = None\<rparr>))
       (\<lambda>row. if ar_id row = uuid_Nil then fail (Sentinel ErrAccountCodeExists)
              else ret (account\<lparr>acc_ID := ar_id row, acc_IsActive := ar_active row\<rparr>))"

definition pg_NextBankAccountCode :: "env \<Rightarrow> uuid \<Rightarrow> (ledger, ledger_err, int) op" where
  "pg_NextBankAccountCode en t =
     onErr (\<lambda>err. Wrap ''ledger: next bank account code'' (DbErr err)) (q_NextBankAccountCode en t)"

definition pg_GetAccountByID :: "env \<Rightarrow> uuid \<Rightarrow> uuid \<Rightarrow> (ledger, ledger_err, Account) op" where
  "pg_GetAccountByID en t i =
     andThen (onErr (\<lambda>err. if err = ErrNoRows then Sentinel ErrAccountNotFound
                           else Wrap ''ledger: get account by ID'' (DbErr err)) (q_GetAccount en i t))
       (\<lambda>row. ret (accountFromDB row))"

definition pg_GetAccountByCode :: "env \<Rightarrow> uuid \<Rightarrow> string \<Rightarrow> (ledger, ledger_err, Account) op" where
  "pg_GetAccountByCode en t c =
     andThen (onErr (\<lambda>err. if err = ErrNoRows then Sentinel ErrAccountNotFound
                           else Wrap ''ledger: get account by code'' (DbErr err))
               (q_GetAccountByCode en c t))
       (\<lambda>row. ret (accountFromDB row))"

definition pg_ListAccounts :: "env \<Rightarrow> uuid \<Rightarrow> int \<Rightarrow> int \<Rightarrow> (ledger, ledger_err, Account list) op" where
  "pg_ListAccounts en t limit ofs =
     andThen (onErr (\<lambda>err. Wrap ''ledger: list accounts'' (DbErr err))
               (q_ListAccounts en t '''' limit ofs))
       (\<lambda>rows. ret (map accountFromDB rows))"

definition pg_SetAccountCostBehavior ::
  "env \<Rightarrow> uuid \<Rightarrow> uuid \<Rightarrow> string \<Rightarrow> (ledger, ledger_err, Account) op" where
  "pg_SetAccountCostBehavior en t i costBehavior =
     andThen (onErr (\<lambda>err. if err = ErrNoRows then Sentinel ErrAccountNotFound
                           else Wrap ''ledger: set cost behavior'' (DbErr err))
               (q_SetAccountCostBehavior en i t (pgTextFromString costBehavior)))
       (\<lambda>row. ret (accountFromDB row))"

section \<open>The monthly cost-behavior report\<close>

text \<open>
  The statement of the report: posted expense lines of the tenant joined with their entry and
  account, grouped by posting month and cost behavior.
\<close>

definition cost_lines :: "uuid \<Rightarrow> string \<Rightarrow> string \<Rightarrow> ledger \<Rightarrow> ((line_row \<times> entry_row) \<times> account_row) list" where
  "cost_lines t fromMonth toMonth w =
     filter (\<lambda>((jl, je), a). er_tenant je = t \<and> ar_tenant a = t \<and> er_status je = ''posted''
               \<and> ar_type a = ''expense''
               \<and> (case er_posted_at je of None \<Rightarrow> False
                  | Some pa \<Rightarrow> fromMonth \<le> month_key pa \<and> month_key pa \<le> toMonth))
       (inner_join (\<lambda>(jl, je) a. ar_id a = lr_account jl)
         (inner_join (\<lambda>jl je. er_id je = lr_journal jl) (jlines w) (entries w)) (accounts w))"

definition cost_key :: "(line_row \<times> entry_row) \<times> account_row \<Rightarrow> string \<times> string" where
  "cost_key = (\<lambda>((jl, je), a). (month_key (the (er_posted_at je)),
     (case ar_behavior a of None \<Rightarrow> ''unclassified'' | Some b \<Rightarrow> b)))"

definition cost_net :: "(line_row \<times> entry_row) \<times> account_row \<Rightarrow> decimal" where
  "cost_net = (\<lambda>((jl, je), a). lr_debit jl - lr_credit jl)"

definition cost_rows :: "((line_row \<times> entry_row) \<times> account_row) list \<Rightarrow> (string \<times> string \<times> decimal) list" where
  "cost_rows ls = map (\<lambda>k. (fst k, snd k, (\<Sum>l \<leftarrow> filter (\<lambda>l. cost_key l = k) ls. cost_net l)))
     (sort_key fst (remdups (map cost_key ls)))"

definition q_MonthlyCostBehavior ::
  "env \<Rightarrow> uuid \<Rightarrow> string \<Rightarrow> string \<Rightarrow> (ledger, db_error, (string \<times> string \<times> decimal) list) op" where
  "q_MonthlyCostBehavior en t fromMonth toMonth = query en (\<lambda>_. gets (\<lambda>w.
     cost_rows (cost_lines t fromMonth toMonth w)))"

definition zero_month :: "string \<Rightarrow> MonthlyCostBehaviorRow" where
  "zero_month m = \<lparr>mc_Month = m, mc_Fixed = 0, mc_Variable = 0, mc_Unclassified = 0, mc_Total = 0\<rparr>"

definition add_cost :: "string \<Rightarrow> decimal \<Rightarrow> MonthlyCostBehaviorRow \<Rightarrow> MonthlyCostBehaviorRow" where
  "add_cost behavior amt r =
     (let r' = (if behavior = ''fixed'' then r\<lparr>mc_Fixed := mc_Fixed r + amt\<rparr>
                else if behavior = ''variable'' then r\<lparr>mc_Variable := mc_Variable r + amt\<rparr>
                else r\<lparr>mc_Unclassified := mc_Unclassified r + amt\<rparr>)
      in r'\<lparr>mc_Total := mc_Total r' + amt\<rparr>)"

text \<open>The loop over the rows: a month is appended when first seen and then added to.\<close>

fun collect_costs ::
  "MonthlyCostBehaviorRow list \<Rightarrow> (string \<times> string \<times> decimal) list \<Rightarrow> MonthlyCostBehaviorRow list" where
  "collect_costs out [] = out"
| "collect_costs out ((m, b, amt) # rows) =
     (let out' = (if m \<in> mc_Month ` set out then out else out @ [zero_month m])
      in collect_costs (update_rows (\<lambda>r. mc_Month r = m) (add_cost b amt) out') rows)"

definition pg_GetMonthlyCostBehavior ::
  "env \<Rightarrow> uuid \<Rightarrow> string \<Rightarrow> string \<Rightarrow> (ledger, ledger_err, MonthlyCostBehaviorRow list) op" where
  "pg_GetMonthlyCostBehavior en t fromMonth toMonth =
     andThen (onErr (\<lambda>err. Wrap ''ledger: monthly cost behavior'' (DbErr err))
               (q_MonthlyCostBehavior en t fromMonth toMonth))
       (\<lambda>rows. ret (collect_costs [] rows))"

section \<open>Parties\<close>

definition insertPartyContact ::
  "env \<Rightarrow> uuid \<Rightarrow> nat \<times> PartyContact \<Rightarrow> (ledger, ledger_err, unit) op" where
  "insertPartyContact en t pc =
     andThen (onErr (\<lambda>err. Wrap ''ledger: insert party contact'' (DbErr err))
       (q_CreatePartyContact en
         \<lparr>kr_id = pc_ID (snd pc), kr_tenant = t, kr_party = pc_PartyID (snd pc),
          kr_name = pc_Name (snd pc), kr_designation = pc_Designation (snd pc),
          kr_email = pc_Email (snd pc), kr_phone = pc_Phone (snd pc),
          kr_primary = pc_IsPrimary (snd pc), kr_position = int (fst pc)\<rparr>))
     (\<lambda>_. ret ())"

definition party_row_of :: "Party \<Rightarrow> party_row" where
  "party_row_of p =
     \<lparr>yr_id = pt_ID p, yr_tenant = pt_TenantID p, yr_name = pt_Name p, yr_type = pt_PartyType p,
      yr_email = pt_Email p, yr_phone = pt_Phone p, yr_tax = pt_TaxID p, yr_address = pt_Address p,
      yr_currency = pgTextFromString (pt_DefaultCurrency p), yr_active = pt_IsActive p\<rparr>"

definition pg_CreateParty :: "env \<Rightarrow> Party \<Rightarrow> (ledger, ledger_err, Party) op" where
  "pg_CreateParty en party =
     transact en (\<lambda>err. Wrap ''ledger: begin transaction'' (DbErr err))
       (\<lambda>err. Wrap ''ledger: commit party'' (DbErr err))
       (andThen
         (onErr (\<lambda>err. if isUniqueViolation err then Sentinel ErrPartyNameExists
                       else Wrap ''ledger: create party'' (DbErr err))
           (q_CreateParty en (party_row_of party)))
         (\<lambda>row. andThen
           (forEach (insertPartyContact en (pt_TenantID party)) (enumerate 0 (pt_Contacts party)))
           (\<lambda>_. ret (party\<lparr>pt_IsActive := yr_active row\<rparr>))))"

definition pg_GetPartyByID :: "env \<Rightarrow> uuid \<Rightarrow> uuid \<Rightarrow> (ledger, ledger_err, Party) op" where
  "pg_GetPartyByID en t i =
     andThen (onErr (\<lambda>err. if err = ErrNoRows then Sentinel ErrPartyNotFound
                           else Wrap ''ledger: get party'' (DbErr err)) (q_GetParty en i t))
       (\<lambda>row. andThen (onErr (\<lambda>err. Wrap ''ledger: list party contacts'' (DbErr err))
                        (q_ListPartyContacts en t i))
         (\<lambda>cs. ret ((partyFromDB row)\<lparr>pt_Contacts := contactsFromDB cs\<rparr>)))"

definition pg_ListParties ::
  "env \<Rightarrow> uuid \<Rightarrow> string \<Rightarrow> bool \<Rightarrow> (ledger, ledger_err, Party list) op" where
  "pg_ListParties en t partyType includeInactive =
     andThen (onErr (\<lambda>err. Wrap ''ledger: list parties'' (DbErr err))
               (q_ListParties en t partyType includeInactive))
       (\<lambda>rows. andThen (onErr (\<lambda>err. Wrap ''ledger: list party contacts'' (DbErr err))
                         (q_ListPartyContactsByTenant en t))
         (\<lambda>contactRows.
            let byParty = (\<lambda>i. map contactFromDB (filter (\<lambda>k. kr_party k = i) contactRows))
            in ret (map (\<lambda>r. (partyFromDB r)\<lparr>pt_Contacts := byParty (yr_id r)\<rparr>) rows)))"

definition pg_ListPartyLedgerLines ::
  "env \<Rightarrow> uuid \<Rightarrow> uuid \<Rightarrow> (ledger, ledger_err, PartyLedgerLine list) op" where
  "pg_ListPartyLedgerLines en t party =
     andThen (onErr (\<lambda>err. Wrap ''ledger: list party ledger lines'' (DbErr err))
               (q_ListPartyLedgerLines en t party))
       (\<lambda>rows. ret (map (\<lambda>((jl, je), a).
          \<lparr>pl_EntryID = er_id je, pl_EntryNumber = er_number je, pl_EntryDate = er_created je,
           pl_Narration = er_narration je, pl_AccountCode = ar_code a, pl_AccountName = ar_name a,
           pl_DebitAmount = lr_debit jl, pl_CreditAmount = lr_credit jl,
           pl_Currency = lr_currency jl, pl_Description = stringFromPgText (lr_description jl)\<rparr>) rows))"

definition pg_UpdateParty :: "env \<Rightarrow> Party \<Rightarrow> (ledger, ledger_err, Party) op" where
  "pg_UpdateParty en party =
     transact en (\<lambda>err. Wrap ''ledger: begin transaction'' (DbErr err))
       (\<lambda>err. Wrap ''ledger: commit party update'' (DbErr err))
       (andThen
         (onErr (\<lambda>err. if err = ErrNoRows then Sentinel ErrPartyNotFound
                       else if isUniqueViolation err then Sentinel ErrPartyNameExists
                       else Wrap ''ledger: update party'' (DbErr err))
           (q_UpdateParty en (party_row_of party)))
         (\<lambda>row. andThen
           (onErr (\<lambda>err. Wrap ''ledger: clear party contacts'' (DbErr err))
             (q_DeletePartyContacts en (pt_TenantID party) (pt_ID party)))
           (\<lambda>_. andThen
             (forEach (insertPartyContact en (pt_TenantID party)) (enumerate 0 (pt_Contacts party)))
             (\<lambda>_. ret (party\<lparr>pt_IsActive := yr_active row\<rparr>)))))"

section \<open>Accounting periods\<close>

definition pg_CreatePeriod :: "env \<Rightarrow> AccountingPeriod \<Rightarrow> (ledger, ledger_err, unit) op" where
  "pg_CreatePeriod en p =
     andThen (onErr (\<lambda>err. if isUniqueViolation err then Sentinel ErrPeriodAlreadyExists
                           else Wrap ''ledger: create accounting period'' (DbErr err))
       (q_CreateAccountingPeriod en
         \<lparr>pr_id = per_ID p, pr_tenant = per_TenantID p, pr_year = per_Year p,
          pr_month = per_Month p, pr_status = per_Status p, pr_closed_by = None,
          pr_closed_at = None\<rparr>))
     (\<lambda>_. ret ())"

definition pg_GetPeriodByID :: "env \<Rightarrow> uuid \<Rightarrow> uuid \<Rightarrow> (ledger, ledger_err, AccountingPeriod) op" where
  "pg_GetPeriodByID en t i =
     andThen (onErr (\<lambda>err. if err = ErrNoRows then Sentinel ErrPeriodNotFound
                           else Wrap ''ledger: get period by ID'' (DbErr err))
               (q_GetAccountingPeriod en i t))
       (\<lambda>row. ret (periodFromDB row))"

definition pg_ListPeriods :: "env \<Rightarrow> uuid \<Rightarrow> (ledger, ledger_err, AccountingPeriod list) op" where
  "pg_ListPeriods en t =
     andThen (onErr (\<lambda>err. Wrap ''ledger: list periods'' (DbErr err)) (q_ListAccountingPeriods en t))
       (\<lambda>rows. ret (map periodFromDB rows))"

text \<open>The year and the month of the interface are not used.\<close>

definition pg_GetOpenPeriod ::
  "env \<Rightarrow> uuid \<Rightarrow> int \<Rightarrow> int \<Rightarrow> (ledger, ledger_err, AccountingPeriod) op" where
  "pg_GetOpenPeriod en t y m =
     andThen (onErr (\<lambda>err. if err = ErrNoRows then Sentinel ErrPeriodNotFound
                           else Wrap ''ledger: get open period'' (DbErr err)) (q_GetOpenPeriod en t))
       (\<lambda>row. ret (periodFromDB row))"

definition pg_ClosePeriod ::
  "env \<Rightarrow> uuid \<Rightarrow> uuid \<Rightarrow> uuid \<Rightarrow> time \<Rightarrow> (ledger, ledger_err, unit) op" where
  "pg_ClosePeriod en t periodID closedBy tm =
     andThen (onErr (\<lambda>err. if err = ErrNoRows then Sentinel ErrPeriodNotFound
                           else Wrap ''ledger: close period'' (DbErr err))
               (q_CloseAccountingPeriod en periodID t closedBy))
       (\<lambda>_. ret ())"

section \<open>Journal entries\<close>

text \<open>\<^verbatim>\<open>fmt.Sprintf("JE-%d-%05d", year, seq)\<close> for a year and a number that are not negative.\<close>

definition entry_number :: "int \<Rightarrow> int \<Rightarrow> string" where
  "entry_number y n = ''JE-'' @ itoa (nat y) @ ''-'' @ pad 5 (itoa (nat n))"

definition pg_AllocateEntryNumber :: "env \<Rightarrow> uuid \<Rightarrow> int \<Rightarrow> (ledger, ledger_err, string) op" where
  "pg_AllocateEntryNumber en t y =
     andThen (onErr (\<lambda>err. Wrap ''ledger: allocate entry number'' (DbErr err))
               (q_NextJournalEntrySeq en t y))
       (\<lambda>n. ret (entry_number y n))"

definition insert_line :: "env \<Rightarrow> uuid \<Rightarrow> JournalLine \<Rightarrow> (ledger, ledger_err, unit) op" where
  "insert_line en journal l =
     andThen (onErr (\<lambda>err. Wrap ''ledger: insert journal line'' (DbErr err))
       (q_CreateJournalLine en
         \<lparr>lr_id = jl_ID l, lr_journal = journal, lr_account = jl_AccountID l,
          lr_debit = jl_DebitAmount l, lr_credit = jl_CreditAmount l, lr_currency = '''',
          lr_description = pgTextFromString (jl_Description l), lr_party = jl_PartyID l\<rparr>))
     (\<lambda>_. ret ())"

definition pg_CreateJournalEntry :: "env \<Rightarrow> JournalEntry \<Rightarrow> (ledger, ledger_err, unit) op" where
  "pg_CreateJournalEntry en je =
     transact en (\<lambda>err. Wrap ''ledger: begin transaction'' (DbErr err)) DbErr
       (andThen
         (onErr (\<lambda>err. Wrap ''ledger: insert journal entry header'' (DbErr err))
           (q_CreateJournalEntry en
             \<lparr>er_id = je_ID je, er_tenant = je_TenantID je, er_production = je_ProductionID je,
              er_period = je_PeriodID je, er_number = je_EntryNumber je,
              er_reference = pgTextFromString (je_Reference je), er_narration = je_Narration je,
              er_status = je_Status je, er_posted_by = None, er_posted_at = None, er_created = 0\<rparr>))
         (\<lambda>_. andThen (forEach (insert_line en (je_ID je)) (je_Lines je)) (\<lambda>_. ret ())))"

definition pg_GetJournalEntry :: "env \<Rightarrow> uuid \<Rightarrow> uuid \<Rightarrow> (ledger, ledger_err, JournalEntry) op" where
  "pg_GetJournalEntry en t i =
     andThen (onErr (\<lambda>err. if err = ErrNoRows then Sentinel ErrJournalNotFound
                           else Wrap ''ledger: get journal entry'' (DbErr err))
               (q_GetJournalEntry en i t))
       (\<lambda>row. andThen (onErr (\<lambda>err. Wrap ''ledger: list journal lines'' (DbErr err))
                        (q_ListJournalLines en (er_id row) t))
         (\<lambda>lineRows. ret ((journalEntryFromDB row)\<lparr>je_Lines := map journalLineFromDB lineRows\<rparr>)))"

definition pg_ListJournalEntries ::
  "env \<Rightarrow> uuid \<Rightarrow> uuid option \<Rightarrow> string \<Rightarrow> int \<Rightarrow> int \<Rightarrow> (ledger, ledger_err, JournalEntry list) op" where
  "pg_ListJournalEntries en t periodID st limit ofs =
     (let period = (case periodID of None \<Rightarrow> uuid_Nil | Some p \<Rightarrow> p) in
      andThen (onErr (\<lambda>err. Wrap ''ledger: list journal entries'' (DbErr err))
                (q_ListJournalEntries en t (nullableUUID period) st limit ofs))
        (\<lambda>rows. ret (map journalEntryFromDB rows)))"

definition pg_UpdateJournalStatus ::
  "env \<Rightarrow> uuid \<Rightarrow> uuid \<Rightarrow> string \<Rightarrow> uuid \<Rightarrow> time \<Rightarrow> (ledger, ledger_err, unit) op" where
  "pg_UpdateJournalStatus en t i st actor tm =
     (if st = ''posted'' then
        andThen (onErr (\<lambda>err. if err = ErrNoRows then Sentinel ErrJournalNotFound
                              else Wrap ''ledger: post journal entry'' (DbErr err))
                  (q_PostJournalEntry en i t actor)) (\<lambda>_. ret ())
      else if st = ''void'' then
        andThen (onErr (\<lambda>err. if err = ErrNoRows then Sentinel ErrJournalNotFound
                              else Wrap ''ledger: void journal entry'' (DbErr err))
                  (q_VoidJournalEntry en i t)) (\<lambda>_. ret ())
      else fail (Opaque ''ledger: unsupported journal status''))"

section \<open>The trial balance\<close>

text \<open>
  The statement of the trial balance, join by join: accounts with their lines, then each line with
  its entry when that entry is posted and not newer than the given time.
\<close>

definition trial_join ::
  "time \<Rightarrow> ledger \<Rightarrow> account_row \<Rightarrow> ((account_row \<times> line_row option) \<times> entry_row option) list" where
  "trial_join asOf w a =
     left_join (\<lambda>(a, jl) je. (case jl of None \<Rightarrow> False | Some l \<Rightarrow> er_id je = lr_journal l)
                  \<and> er_status je = ''posted'' \<and> er_created je \<le> asOf)
       (left_join (\<lambda>a jl. lr_account jl = ar_id a) [a] (jlines w)) (entries w)"

definition col_sum :: "(line_row \<Rightarrow> decimal) \<Rightarrow> ((account_row \<times> line_row option) \<times> entry_row option) list \<Rightarrow> decimal" where
  "col_sum f rows = (\<Sum>r \<leftarrow> rows. case snd (fst r) of None \<Rightarrow> 0 | Some l \<Rightarrow> f l)"

definition trial_row :: "time \<Rightarrow> ledger \<Rightarrow> account_row \<Rightarrow> TrialBalanceEntry" where
  "trial_row asOf w a =
     (let rows = trial_join asOf w a; debit = col_sum lr_debit rows; credit = col_sum lr_credit rows
      in \<lparr>tb_AccountID = ar_id a, tb_Code = ar_code a, tb_Name = ar_name a,
          tb_AccountType = ar_type a, tb_Debit = debit, tb_Credit = credit,
          tb_Balance = debit - credit\<rparr>)"

definition pg_GetTrialBalance ::
  "env \<Rightarrow> uuid \<Rightarrow> time \<Rightarrow> (ledger, ledger_err, TrialBalanceEntry list) op" where
  "pg_GetTrialBalance en t asOf =
     onErr (\<lambda>err. Wrap ''ledger: get trial balance'' (DbErr err))
       (query en (\<lambda>_. gets (\<lambda>w. map (trial_row asOf w)
          (sort_key ar_code (filter (\<lambda>a. ar_tenant a = t \<and> ar_active a) (accounts w))))))"

end
