(* ===== verification/LedgerService.thy ===== *)
theory LedgerService
  imports LedgerRepo Vertical
begin

text \<open>
  The business logic of the general ledger: \<^verbatim>\<open>services/ledger/service.go\<close>,
  \<^verbatim>\<open>bank_account.go\<close> and \<^verbatim>\<open>party.go\<close>. Every function is the service method of the
  same name over the repository of \<^verbatim>\<open>LedgerRepo\<close>.
\<close>

section \<open>Accounts\<close>

fun isValidAccountType :: "string \<Rightarrow> bool" where
  "isValidAccountType t \<longleftrightarrow>
     t = ''asset'' \<or> t = ''liability'' \<or> t = ''equity'' \<or> t = ''revenue'' \<or> t = ''expense''"

definition svc_CreateAccount :: "env \<Rightarrow> Account \<Rightarrow> (ledger, ledger_err, Account) op" where
  "svc_CreateAccount en account =
     (if \<not> isValidAccountType (acc_AccountType account) then fail (Sentinel ErrInvalidAccountType)
      else andThen (id_or_New en (acc_ID account))
        (\<lambda>i. onErr (Wrap ''ledger: create account'')
               (pg_CreateAccount en (account\<lparr>acc_ID := i, acc_IsActive := True\<rparr>))))"

definition svc_GetAccount :: "env \<Rightarrow> uuid \<Rightarrow> uuid \<Rightarrow> (ledger, ledger_err, Account) op" where
  "svc_GetAccount en t i = onErr (Wrap ''ledger: get account'') (pg_GetAccountByID en t i)"

definition svc_ListAccounts :: "env \<Rightarrow> uuid \<Rightarrow> int \<Rightarrow> int \<Rightarrow> (ledger, ledger_err, Account list) op" where
  "svc_ListAccounts en t limit ofs =
     (let limit' = (if limit \<le> 0 \<or> limit > 500 then 200 else limit)
      in onErr (Wrap ''ledger: list accounts'') (pg_ListAccounts en t limit' ofs))"

definition svc_ListAccountingPeriods ::
  "env \<Rightarrow> uuid \<Rightarrow> (ledger, ledger_err, AccountingPeriod list) op" where
  "svc_ListAccountingPeriods en t =
     onErr (Wrap ''ledger: list accounting periods'') (pg_ListPeriods en t)"

definition isAccountCodeExists :: "ledger_err \<Rightarrow> bool" where
  "isAccountCodeExists err \<longleftrightarrow> err = Sentinel ErrAccountCodeExists"

definition isPeriodAlreadyExists :: "ledger_err \<Rightarrow> bool" where
  "isPeriodAlreadyExists err \<longleftrightarrow> err = Sentinel ErrPeriodAlreadyExists"

definition seed_entry :: "env \<Rightarrow> uuid \<Rightarrow> ChartOfAccountEntry \<Rightarrow> (ledger, ledger_err, unit) op" where
  "seed_entry en t entry =
     andThen
       (case coa_ParentCode entry of
          None \<Rightarrow> ret None
        | Some pc \<Rightarrow> andThen (onErr (Wrap ''ledger: seed CoA - resolve parent code'')
                              (pg_GetAccountByCode en t pc))
                      (\<lambda>parent. ret (Some (acc_ID parent))))
       (\<lambda>parentID. andThen (uuid_New en)
         (\<lambda>i. inspect
           (pg_CreateAccount en
             \<lparr>acc_ID = i, acc_TenantID = t, acc_Code = coa_Code entry, acc_Name = coa_Name entry,
              acc_AccountType = coa_AccountType entry, acc_ParentID = parentID,
              acc_IsActive = True, acc_BankName = '''', acc_AccountLast4 = '''',
              acc_CostBehavior = '''', acc_BankCurrency = ''''\<rparr>)
           (\<lambda>r. case r of
                  Inr _ \<Rightarrow> ret ()
                | Inl err \<Rightarrow> if isAccountCodeExists err then ret ()
                    else fail (Wrap ''ledger: seed CoA - create account'' err))))"

definition svc_SeedChartOfAccounts ::
  "env \<Rightarrow> uuid \<Rightarrow> ChartOfAccountEntry list \<Rightarrow> (ledger, ledger_err, unit) op" where
  "svc_SeedChartOfAccounts en t es = andThen (forEach (seed_entry en t) es) (\<lambda>_. ret ())"

definition svc_SetAccountCostBehavior ::
  "env \<Rightarrow> uuid \<Rightarrow> uuid \<Rightarrow> string \<Rightarrow> (ledger, ledger_err, Account) op" where
  "svc_SetAccountCostBehavior en t i costBehavior =
     (if \<not> (costBehavior = '''' \<or> costBehavior = ''fixed'' \<or> costBehavior = ''variable'')
      then fail (Sentinel ErrCostBehaviorInvalid)
      else andThen (onErr (Wrap ''ledger: set cost behavior'') (pg_GetAccountByID en t i))
        (\<lambda>acct. if acc_AccountType acct \<noteq> ''expense'' then fail (Sentinel ErrCostBehaviorNotExpense)
                else onErr (Wrap ''ledger: set cost behavior'')
                       (pg_SetAccountCostBehavior en t i costBehavior)))"

section \<open>Bank accounts\<close>

record BankAccountInput =
  bi_BankName :: string
  bi_AccountNumber :: string
  bi_Currency :: string

definition nextBankCode :: "int \<Rightarrow> ledger_err + string" where
  "nextBankCode highest =
     (let nxt = (if highest > 0 then highest + 10 else 1000)
      in if nxt > 1999 then Inl (Sentinel ErrNoBankCodeAvailable) else Inr (itoa (nat nxt)))"

definition bank_account :: "uuid \<Rightarrow> uuid \<Rightarrow> string \<Rightarrow> string \<Rightarrow> string \<Rightarrow> string \<Rightarrow> Account" where
  "bank_account i t c bankName last4 currency =
     \<lparr>acc_ID = i, acc_TenantID = t, acc_Code = c,
      acc_Name = bankName @ '' (ending '' @ last4 @ '')'', acc_AccountType = ''asset'',
      acc_ParentID = None, acc_IsActive = True, acc_BankName = bankName,
      acc_AccountLast4 = last4, acc_CostBehavior = '''', acc_BankCurrency = currency\<rparr>"

text \<open>The retry loop, on the number of attempts left.\<close>

fun bank_attempts ::
  "env \<Rightarrow> uuid \<Rightarrow> string \<Rightarrow> string \<Rightarrow> string \<Rightarrow> nat \<Rightarrow> ledger_err \<Rightarrow> (ledger, ledger_err, Account) op" where
  "bank_attempts en t bankName last4 currency 0 lastErr = fail lastErr"
| "bank_attempts en t bankName last4 currency (Suc n) lastErr =
     andThen (onErr (Wrap ''ledger: next bank code'') (pg_NextBankAccountCode en t))
       (\<lambda>highest. case nextBankCode highest of
          Inl err \<Rightarrow> fail err
        | Inr c \<Rightarrow> andThen (uuid_New en)
            (\<lambda>i. inspect (pg_CreateAccount en (bank_account i t c bankName last4 currency))
              (\<lambda>r. case r of
                     Inr account \<Rightarrow> ret account
                   | Inl err \<Rightarrow>
                       if \<not> errors_Is err ErrAccountCodeExists
                       then fail (Wrap ''ledger: create bank account'' err)
                       else bank_attempts en t bankName last4 currency n err)))"

definition bank_digits :: "string \<Rightarrow> string" where
  "bank_digits s = filter (\<lambda>c. c \<noteq> CHR '' '' \<and> c \<noteq> CHR ''-'') s"

definition svc_CreateBankAccount ::
  "env \<Rightarrow> uuid \<Rightarrow> BankAccountInput \<Rightarrow> (ledger, ledger_err, Account) op" where
  "svc_CreateBankAccount en t inp =
     (let bankName = TrimSpace (bi_BankName inp);
          digits = bank_digits (bi_AccountNumber inp);
          currency = ToUpper (TrimSpace (bi_Currency inp))
      in if bankName = '''' \<or> length bankName > 100 then fail (Sentinel ErrBankNameInvalid)
         else if \<not> (4 \<le> length digits \<and> (\<forall>c \<in> set digits. is_digit c))
         then fail (Sentinel ErrAccountNumberInvalid)
         else if \<not> three_letters currency then fail (Sentinel ErrBankCurrencyInvalid)
         else bank_attempts en t bankName (drop (length digits - 4) digits) currency 3 (Opaque ''''))"

section \<open>Accounting periods\<close>

definition svc_OpenAccountingPeriod ::
  "env \<Rightarrow> uuid \<Rightarrow> int \<Rightarrow> int \<Rightarrow> (ledger, ledger_err, unit) op" where
  "svc_OpenAccountingPeriod en t year month =
     andThen (uuid_New en)
       (\<lambda>i. inspect
         (pg_CreatePeriod en \<lparr>per_ID = i, per_TenantID = t, per_Year = year, per_Month = month,
            per_Status = ''open'', per_ClosedBy = None, per_ClosedAt = None\<rparr>)
         (\<lambda>r. case r of
                Inr _ \<Rightarrow> ret ()
              | Inl err \<Rightarrow> if isPeriodAlreadyExists err then ret ()
                  else fail (Wrap ''ledger: open accounting period'' err)))"

definition svc_CloseAccountingPeriod ::
  "env \<Rightarrow> uuid \<Rightarrow> uuid \<Rightarrow> uuid \<Rightarrow> (ledger, ledger_err, AccountingPeriod) op" where
  "svc_CloseAccountingPeriod en t periodID closedBy =
     andThen (onErr (Wrap ''ledger: get period'') (pg_GetPeriodByID en t periodID))
       (\<lambda>period. if per_Status period = ''closed'' then ret period
          else andThen (time_Now en)
            (\<lambda>now. andThen (onErr (Wrap ''ledger: close period'')
                             (pg_ClosePeriod en t periodID closedBy now))
              (\<lambda>_. ret (period\<lparr>per_Status := ''closed'', per_ClosedBy := Some closedBy,
                         per_ClosedAt := Some now\<rparr>))))"

section \<open>Journal entries\<close>

definition validateBalance :: "JournalLine list \<Rightarrow> ledger_err + unit" where
  "validateBalance ls =
     (let (totalDebit, totalCredit) =
        foldl (\<lambda>(d, c) l. (d + jl_DebitAmount l, c + jl_CreditAmount l)) (0, 0) ls
      in if totalDebit \<noteq> totalCredit
         then Inl (Wrap ''debit= credit='' (Sentinel ErrJournalNotBalanced)) else Inr ())"

text \<open>The body of the loop over the lines of a new entry.\<close>

definition check_line :: "env \<Rightarrow> uuid \<Rightarrow> JournalLine \<Rightarrow> (ledger, ledger_err, JournalLine) op" where
  "check_line en t l =
     andThen (onErr (\<lambda>_. Wrap ''ledger: line'' (Sentinel ErrAccountNotFound))
               (pg_GetAccountByID en t (jl_AccountID l)))
       (\<lambda>acct. if \<not> acc_IsActive acct then fail (Wrap ''ledger: line account'' (Sentinel ErrAccountInactive))
          else andThen
            (case jl_PartyID l of
               None \<Rightarrow> ret ()
             | Some p \<Rightarrow> andThen (onErr (\<lambda>_. Wrap ''ledger: line party'' (Sentinel ErrPartyNotFound))
                                  (pg_GetPartyByID en t p)) (\<lambda>_. ret ()))
            (\<lambda>_. andThen (id_or_New en (jl_ID l)) (\<lambda>i. ret (l\<lparr>jl_ID := i\<rparr>))))"

definition svc_CreateJournalEntry :: "env \<Rightarrow> JournalEntry \<Rightarrow> (ledger, ledger_err, JournalEntry) op" where
  "svc_CreateJournalEntry en je =
     (if length (je_Lines je) < 2 then fail (Sentinel ErrJournalTooFewLines)
      else andThen (forEach (check_line en (je_TenantID je)) (je_Lines je))
        (\<lambda>ls. andThen (id_or_New en (je_ID je))
          (\<lambda>i. andThen (time_Now en)
            (\<lambda>now. andThen (onErr (Wrap ''ledger: allocate entry number'')
                             (pg_AllocateEntryNumber en (je_TenantID je) (year_of now)))
              (\<lambda>num. let je' = je\<lparr>je_Lines := ls, je_ID := i, je_Status := ''draft'',
                                  je_EntryNumber := num\<rparr>
                in andThen (onErr (Wrap ''ledger: create journal entry'')
                             (pg_CreateJournalEntry en je'))
                     (\<lambda>_. ret je'))))))"

text \<open>\<^verbatim>\<open>s.publish\<close>: hands the entry to the publisher when one is configured.\<close>

definition publish :: "bool \<Rightarrow> JournalEntry \<Rightarrow> (ledger, ledger_err, unit) op" where
  "publish pub je = (if pub then modify (\<lambda>w. w\<lparr>published := published w @ [je]\<rparr>) else ret ())"

text \<open>The fields that posting sets on the entry in memory.\<close>

definition as_posted :: "JournalEntry \<Rightarrow> uuid \<Rightarrow> time \<Rightarrow> JournalEntry" where
  "as_posted je postedBy now =
     je\<lparr>je_Status := ''posted'', je_PostedBy := Some postedBy, je_PostedAt := Some now\<rparr>"

definition svc_PostJournalEntry ::
  "env \<Rightarrow> bool \<Rightarrow> uuid \<Rightarrow> uuid \<Rightarrow> uuid \<Rightarrow> (ledger, ledger_err, JournalEntry) op" where
  "svc_PostJournalEntry en pub t i postedBy =
     andThen (onErr (Wrap ''ledger: get journal entry'') (pg_GetJournalEntry en t i))
       (\<lambda>je. if je_Status je = ''posted'' then fail (Sentinel ErrJournalAlreadyPosted)
          else if je_Status je = ''void'' then fail (Sentinel ErrJournalVoid)
          else andThen (onErr (Wrap ''ledger: get period for posting'')
                         (pg_GetPeriodByID en t (je_PeriodID je)))
            (\<lambda>period. if per_Status period = ''closed'' then fail (Sentinel ErrPeriodClosed)
               else (case validateBalance (je_Lines je) of
                       Inl err \<Rightarrow> fail err
                     | Inr _ \<Rightarrow>
                         andThen (time_Now en)
                           (\<lambda>now. andThen (onErr (Wrap ''ledger: post journal entry'')
                                     (pg_UpdateJournalStatus en t i ''posted'' postedBy now))
                             (\<lambda>_. let je' = as_posted je postedBy now in andThen (publish pub je') (\<lambda>_. ret je'))))))"

definition svc_GetJournalEntry :: "env \<Rightarrow> uuid \<Rightarrow> uuid \<Rightarrow> (ledger, ledger_err, JournalEntry) op" where
  "svc_GetJournalEntry en t i = onErr (Wrap ''ledger: get journal entry'') (pg_GetJournalEntry en t i)"

definition svc_ListJournalEntries ::
  "env \<Rightarrow> uuid \<Rightarrow> uuid option \<Rightarrow> string \<Rightarrow> int \<Rightarrow> int \<Rightarrow> (ledger, ledger_err, JournalEntry list) op" where
  "svc_ListJournalEntries en t periodID st limit ofs =
     (let limit' = (if limit \<le> 0 then 20 else if limit > 100 then 100 else limit)
      in onErr (Wrap ''ledger: list journal entries'')
           (pg_ListJournalEntries en t periodID st limit' ofs))"

text \<open>A line of the reversing entry: debit and credit swapped, the party dropped.\<close>

definition reverse_line :: "env \<Rightarrow> JournalLine \<Rightarrow> (ledger, ledger_err, JournalLine) op" where
  "reverse_line en l = andThen (uuid_New en) (\<lambda>i.
     ret \<lparr>jl_ID = i, jl_JournalID = uuid_Nil, jl_AccountID = jl_AccountID l,
          jl_DebitAmount = jl_CreditAmount l, jl_CreditAmount = jl_DebitAmount l,
          jl_Currency = jl_Currency l, jl_Description = ''REVERSAL: '' @ jl_Description l,
          jl_PartyID = None\<rparr>)"

definition reversing_entry :: "uuid \<Rightarrow> JournalEntry \<Rightarrow> JournalLine list \<Rightarrow> JournalEntry" where
  "reversing_entry t original ls =
     \<lparr>je_ID = uuid_Nil, je_TenantID = t, je_ProductionID = je_ProductionID original,
      je_PeriodID = je_PeriodID original, je_EntryNumber = '''',
      je_Reference = je_EntryNumber original,
      je_Narration = ''REVERSAL OF '' @ je_EntryNumber original @ '': '' @ je_Narration original,
      je_Status = '''', je_Lines = ls, je_PostedBy = None, je_PostedAt = None, je_CreatedAt = 0\<rparr>"

definition svc_VoidJournalEntry ::
  "env \<Rightarrow> bool \<Rightarrow> uuid \<Rightarrow> uuid \<Rightarrow> uuid \<Rightarrow> (ledger, ledger_err, JournalEntry) op" where
  "svc_VoidJournalEntry en pub t i voidedBy =
     andThen (onErr (Wrap ''ledger: get journal entry for void'') (pg_GetJournalEntry en t i))
       (\<lambda>original. if je_Status original = ''void'' then fail (Sentinel ErrJournalVoid)
          else if je_Status original \<noteq> ''posted''
          then fail (Opaque ''ledger: only posted entries can be voided'')
          else andThen (forEach (reverse_line en) (je_Lines original))
            (\<lambda>ls. andThen (onErr (Wrap ''ledger: create reversing entry'')
                            (svc_CreateJournalEntry en (reversing_entry t original ls)))
              (\<lambda>created. andThen (onErr (Wrap ''ledger: post reversing entry'')
                                   (svc_PostJournalEntry en pub t (je_ID created) voidedBy))
                (\<lambda>posted. andThen (time_Now en)
                  (\<lambda>now. andThen (onErr (Wrap ''ledger: mark entry void'')
                                   (pg_UpdateJournalStatus en t i ''void'' voidedBy now))
                    (\<lambda>_. ret posted))))))"

section \<open>Reports\<close>

definition svc_GetTrialBalance ::
  "env \<Rightarrow> uuid \<Rightarrow> time \<Rightarrow> (ledger, ledger_err, TrialBalanceEntry list) op" where
  "svc_GetTrialBalance en t asOf = onErr (Wrap ''ledger: get trial balance'') (pg_GetTrialBalance en t asOf)"

text \<open>The loop over the months of the range.\<close>

function month_loop ::
  "(string \<rightharpoonup> MonthlyCostBehaviorRow) \<Rightarrow> int \<times> int \<Rightarrow> int \<times> int \<Rightarrow> MonthlyCostBehaviorRow list" where
  "month_loop byMonth m to =
     (if month_index m > month_index to then []
      else (case byMonth (format_month m) of
              None \<Rightarrow> zero_month (format_month m)
            | Some r \<Rightarrow> r) # month_loop byMonth (next_month m) to)"
  by pat_completeness auto
termination
  by (relation "measure (\<lambda>(b, m, to). nat (month_index to + 1 - month_index m))")
    (auto simp: month_index_next)

declare month_loop.simps [simp del]

definition svc_GetMonthlyCostBehavior ::
  "env \<Rightarrow> uuid \<Rightarrow> string \<Rightarrow> string \<Rightarrow> (ledger, ledger_err, MonthlyCostBehaviorRow list) op" where
  "svc_GetMonthlyCostBehavior en t fromMonth toMonth =
     (case (parse_month fromMonth, parse_month toMonth) of
        (Some from, Some to) \<Rightarrow>
          if month_index from > month_index to then fail (Sentinel ErrMonthRangeInvalid)
          else if (fst to - fst from) * 12 + (snd to - snd from) + 1 > 36
          then fail (Sentinel ErrMonthRangeInvalid)
          else andThen (onErr (Wrap ''ledger: monthly cost behavior'')
                         (pg_GetMonthlyCostBehavior en t fromMonth toMonth))
                 (\<lambda>rows. ret (month_loop (map_of (rev (map (\<lambda>r. (mc_Month r, r)) rows))) from to))
      | _ \<Rightarrow> fail (Sentinel ErrMonthRangeInvalid))"

section \<open>Parties\<close>

text \<open>
  \<^verbatim>\<open>addr, err := mail.ParseAddress(s)\<close> accepts the text as it is; the parser, which yields the
  bare address or nothing, is an argument. Lengths are counted in bytes for e-mail and in runes
  elsewhere.
\<close>

definition email_ok :: "(string \<Rightarrow> string option) \<Rightarrow> string \<Rightarrow> bool" where
  "email_ok mail_Parse s \<longleftrightarrow> mail_Parse s = Some s \<and> length s \<le> 254"

definition trim_contact :: "PartyContact \<Rightarrow> PartyContact" where
  "trim_contact c = c\<lparr>pc_Name := TrimSpace (pc_Name c), pc_Designation := TrimSpace (pc_Designation c),
     pc_Email := TrimSpace (pc_Email c), pc_Phone := TrimSpace (pc_Phone c)\<rparr>"

definition contact_ok :: "(string \<Rightarrow> string option) \<Rightarrow> PartyContact \<Rightarrow> bool" where
  "contact_ok mail_Parse c \<longleftrightarrow>
     \<not> (pc_Name c = '''' \<or> rune_count (pc_Name c) > 200)
   \<and> \<not> rune_count (pc_Designation c) > 100
   \<and> \<not> rune_count (pc_Phone c) > 30
   \<and> \<not> (pc_Email c = '''' \<and> pc_Phone c = '''')
   \<and> (pc_Email c \<noteq> '''' \<longrightarrow> email_ok mail_Parse (pc_Email c))"

fun make_first_primary :: "PartyContact list \<Rightarrow> PartyContact list" where
  "make_first_primary [] = []"
| "make_first_primary (c # cs) = c\<lparr>pc_IsPrimary := True\<rparr> # cs"

definition normalizeContacts ::
  "(string \<Rightarrow> string option) \<Rightarrow> PartyContact list \<Rightarrow> ledger_err + PartyContact list" where
  "normalizeContacts mail_Parse cs0 =
     (if length cs0 > 20 then Inl (Wrap ''at most 20 contacts per party'' (Sentinel ErrContactInvalid))
      else let cs = map trim_contact cs0;
               primaries = length (filter pc_IsPrimary cs)
           in if \<not> list_all (contact_ok mail_Parse) cs
              then Inl (Wrap ''contact'' (Sentinel ErrContactInvalid))
              else if primaries > 1
              then Inl (Wrap ''only one contact can be primary'' (Sentinel ErrContactInvalid))
              else if length cs > 0 \<and> primaries = 0 then Inr (make_first_primary cs)
              else Inr cs)"

definition normalizeParty :: "(string \<Rightarrow> string option) \<Rightarrow> Party \<Rightarrow> ledger_err + Party" where
  "normalizeParty mail_Parse p =
     (let name = TrimSpace (pt_Name p); email = TrimSpace (pt_Email p);
          phone = TrimSpace (pt_Phone p); taxID = TrimSpace (pt_TaxID p);
          address = TrimSpace (pt_Address p);
          currency = ToUpper (TrimSpace (pt_DefaultCurrency p))
      in if name = '''' \<or> rune_count name > 200 then Inl (Sentinel ErrPartyNameInvalid)
         else if \<not> (pt_PartyType p = ''customer'' \<or> pt_PartyType p = ''supplier''
                    \<or> pt_PartyType p = ''both'') then Inl (Sentinel ErrPartyTypeInvalid)
         else if email \<noteq> '''' \<and> \<not> email_ok mail_Parse email then Inl (Sentinel ErrPartyEmailInvalid)
         else if rune_count phone > 30 then Inl (Sentinel ErrPartyFieldTooLong)
         else if rune_count taxID > 50 then Inl (Sentinel ErrPartyFieldTooLong)
         else if rune_count address > 500 then Inl (Sentinel ErrPartyFieldTooLong)
         else if currency \<noteq> '''' \<and> \<not> three_letters currency then Inl (Sentinel ErrPartyCurrencyInvalid)
         else (case normalizeContacts mail_Parse (pt_Contacts p) of
                 Inl e \<Rightarrow> Inl e
               | Inr cs \<Rightarrow> Inr (p\<lparr>pt_Name := name, pt_Email := email, pt_Phone := phone,
                   pt_TaxID := taxID, pt_Address := address, pt_DefaultCurrency := currency,
                   pt_Contacts := cs\<rparr>)))"

definition assignContactIDs :: "env \<Rightarrow> Party \<Rightarrow> (ledger, ledger_err, Party) op" where
  "assignContactIDs en p =
     andThen (forEach (\<lambda>c. andThen (uuid_New en) (\<lambda>i. ret (c\<lparr>pc_ID := i, pc_PartyID := pt_ID p\<rparr>)))
               (pt_Contacts p))
       (\<lambda>cs. ret (p\<lparr>pt_Contacts := cs\<rparr>))"

definition svc_CreateParty ::
  "env \<Rightarrow> (string \<Rightarrow> string option) \<Rightarrow> Party \<Rightarrow> (ledger, ledger_err, Party) op" where
  "svc_CreateParty en mail_Parse p0 =
     (case normalizeParty mail_Parse p0 of
        Inl err \<Rightarrow> fail err
      | Inr p \<Rightarrow> andThen (uuid_New en)
          (\<lambda>i. andThen (assignContactIDs en (p\<lparr>pt_ID := i, pt_IsActive := True\<rparr>))
            (\<lambda>p'. onErr (Wrap ''ledger: create party'') (pg_CreateParty en p'))))"

definition svc_GetParty :: "env \<Rightarrow> uuid \<Rightarrow> uuid \<Rightarrow> (ledger, ledger_err, Party) op" where
  "svc_GetParty en t i = onErr (Wrap ''ledger: get party'') (pg_GetPartyByID en t i)"

definition svc_ListParties ::
  "env \<Rightarrow> uuid \<Rightarrow> string \<Rightarrow> bool \<Rightarrow> (ledger, ledger_err, Party list) op" where
  "svc_ListParties en t partyType includeInactive =
     (if partyType \<noteq> '''' \<and> partyType \<noteq> ''customer'' \<and> partyType \<noteq> ''supplier''
      then fail (Sentinel ErrPartyTypeInvalid)
      else onErr (Wrap ''ledger: list parties'') (pg_ListParties en t partyType includeInactive))"

definition svc_UpdateParty ::
  "env \<Rightarrow> (string \<Rightarrow> string option) \<Rightarrow> Party \<Rightarrow> (ledger, ledger_err, Party) op" where
  "svc_UpdateParty en mail_Parse p0 =
     (case normalizeParty mail_Parse p0 of
        Inl err \<Rightarrow> fail err
      | Inr p \<Rightarrow> andThen (assignContactIDs en p)
          (\<lambda>p'. onErr (Wrap ''ledger: update party'') (pg_UpdateParty en p')))"

record PartyTransactions =
  px_Lines :: "PartyLedgerLine list"
  px_TotalDebit :: decimal
  px_TotalCredit :: decimal

definition svc_ListPartyTransactions ::
  "env \<Rightarrow> uuid \<Rightarrow> uuid \<Rightarrow> (ledger, ledger_err, PartyTransactions) op" where
  "svc_ListPartyTransactions en t partyID =
     andThen (onErr (Wrap ''ledger: party transactions'') (pg_GetPartyByID en t partyID))
       (\<lambda>_. andThen (onErr (Wrap ''ledger: list party ledger lines'')
                      (pg_ListPartyLedgerLines en t partyID))
         (\<lambda>ls. let (d, c) = foldl (\<lambda>(d, c) l. (d + pl_DebitAmount l, c + pl_CreditAmount l)) (0, 0) ls
               in ret \<lparr>px_Lines = ls, px_TotalDebit = d, px_TotalCredit = c\<rparr>))"

end
