(* ===== verification/Service_Spec.thy ===== *)
theory Service_Spec
  imports Prelude
begin

text \<open>
  The contracts that the services promise, as locales: a service whose requests keep an invariant
  (\<open>service\<close>), one whose requests leave the rows of other tenants alone
  (\<open>tenant_service\<close>), and a surface of remote calls in front of it that does nothing without
  permission and otherwise issues one request for the tenant of the caller (\<open>guarded_service\<close>). Where
  requests are steps of a relation, \<open>step_service\<close> gives a tenant service and \<open>call_service\<close> its calls.
  A request is executed to its end before the next one starts; the environment of the run decides which
  database round trips fail.
\<close>

locale service =
  fixes exec :: "'req \<Rightarrow> 'w \<Rightarrow> 'w"
    and inv :: "'w \<Rightarrow> bool"
    and init :: "'w"
  assumes inv_init: "inv init"
    and inv_exec: "inv w \<Longrightarrow> inv (exec r w)"
begin

lemma inv_fold: "inv w \<Longrightarrow> inv (fold exec rs w)"
  by (rule fold_keeps [where P = inv]) (rule inv_exec)

lemma inv_run: "inv (fold exec rs init)"
  by (rule inv_fold [OF inv_init])

end

locale tenant_service = service +
  fixes tenant_of :: "'req \<Rightarrow> uuid"
    and part :: "uuid \<Rightarrow> 'w \<Rightarrow> 'v"
  assumes frame: "inv w \<Longrightarrow> u \<noteq> tenant_of r \<Longrightarrow> part u (exec r w) = part u w"
begin

lemma isolation:
  "inv w \<Longrightarrow> (\<And>r. r \<in> set rs \<Longrightarrow> tenant_of r \<noteq> u) \<Longrightarrow> part u (fold exec rs w) = part u w"
proof (induction rs arbitrary: w)
  case (Cons r rs)
  then have "part u (fold exec rs (exec r w)) = part u (exec r w)"
    by (simp add: inv_exec)
  also have "\<dots> = part u w" using Cons.prems by (intro frame) auto
  finally show ?case by simp
qed simp

text \<open>A read by a tenant's own rows sees the same before and after the others' requests.\<close>

lemma stable_view:
  assumes "inv w" and "\<And>r. r \<in> set rs \<Longrightarrow> tenant_of r \<noteq> u"
    and "\<And>w w'. part u w = part u w' \<Longrightarrow> view w = view w'"
  shows "view (fold exec rs w) = view w"
  using isolation [OF assms(1,2)] assms(3) by blast

end


locale guarded_service = tenant_service +
  fixes handle :: "'ctx \<Rightarrow> 'rpc \<Rightarrow> 'w \<Rightarrow> 'w"
    and allowed :: "'ctx \<Rightarrow> 'rpc \<Rightarrow> bool"
    and caller_tenant :: "'ctx \<Rightarrow> uuid"
  assumes handle_cases: "handle c m w = w \<or> (allowed c m \<and> (\<exists>r w1. inv w1 = inv w
      \<and> (\<forall>u. part u w1 = part u w) \<and> tenant_of r = caller_tenant c \<and> handle c m w = exec r w1))"
begin

lemma denied: "\<not> allowed c m \<Longrightarrow> handle c m w = w"
  using handle_cases by blast

lemma handle_inv: "inv w \<Longrightarrow> inv (handle c m w)"
  using handle_cases [of c m w] inv_exec by auto

lemma handle_frame:
  assumes "inv w" and "u \<noteq> caller_tenant c"
  shows "part u (handle c m w) = part u w"
  using handle_cases [of c m w] assms frame by metis

end

text \<open>The surface is itself a service whose requests are calls with their contexts.\<close>

sublocale guarded_service \<subseteq> calls: tenant_service "\<lambda>(c, m). handle c m" inv init "\<lambda>(c, m). caller_tenant c" part
  by unfold_locales (auto intro: inv_init handle_inv handle_frame)

text \<open>
  A service each of whose requests makes at most one step of a relation. The laws are those of one
  step; the runs, the frame and the calls in front of the service follow.
\<close>

locale step_service =
  fixes exec :: "'req \<Rightarrow> 'r io_scheme \<Rightarrow> 'r io_scheme"
    and inv :: "'r io_scheme \<Rightarrow> bool"
    and init :: "'r io_scheme"
    and tenant_of :: "'req \<Rightarrow> uuid"
    and part :: "uuid \<Rightarrow> 'r io_scheme \<Rightarrow> 'v"
    and step :: "uuid \<Rightarrow> 'r io_scheme \<Rightarrow> 'r io_scheme \<Rightarrow> bool"
  assumes step_init: "inv init"
    and exec_moves: "moves (step (tenant_of r)) w (exec r w)"
    and inv_step: "step t w w' \<Longrightarrow> inv w \<Longrightarrow> inv w'"
    and frame_step: "step t w w' \<Longrightarrow> u \<noteq> t \<Longrightarrow> part u w' = part u w"
    and inv_untick: "untick w = untick w' \<Longrightarrow> inv w = inv w'"
    and part_untick: "untick w = untick w' \<Longrightarrow> part u w = part u w'"
begin

lemma moves_inv: "moves (step t) w w' \<Longrightarrow> inv w \<Longrightarrow> inv w'"
  by (metis inv_step inv_untick moves_def)

lemma moves_frame: "moves (step t) w w' \<Longrightarrow> u \<noteq> t \<Longrightarrow> part u w' = part u w"
  by (metis frame_step part_untick moves_def)

text \<open>The invariant together with the rows of one tenant, as operations of other tenants keep them.\<close>

definition sealed :: "uuid \<Rightarrow> 'v \<Rightarrow> 'r io_scheme \<Rightarrow> bool" where
  "sealed u v w \<longleftrightarrow> inv w \<and> part u w = v"

lemma keeps_sealed_read: "same untick m \<Longrightarrow> keeps (sealed u v) m"
  unfolding sealed_def by (erule same_keeps) (metis inv_untick part_untick)

lemma keeps_sealed_write: "(\<And>w. moves (step t) w (snd (m w))) \<Longrightarrow> u \<noteq> t \<Longrightarrow> keeps (sealed u v) m"
  unfolding keeps_def sealed_def by (metis moves_frame moves_inv)

text \<open>A relation between states that every step is in holds over runs, if it is a preorder.\<close>

lemma run_rel:
  assumes "\<And>w w'. untick w' = untick w \<Longrightarrow> R w w'"
    and "\<And>w w1 w2. R w w1 \<Longrightarrow> R w1 w2 \<Longrightarrow> R w w2"
    and "\<And>t w w'. step t w w' \<Longrightarrow> inv w \<Longrightarrow> R w w'"
  shows "inv w \<Longrightarrow> R w (fold exec rs w)"
proof (induction rs arbitrary: w)
  case Nil
  then show ?case using assms(1) by simp
next
  case (Cons r rs)
  have "R w (exec r w)"
    using exec_moves [of r w] assms Cons.prems unfolding moves_def by metis
  moreover have "R (exec r w) (fold exec rs (exec r w))"
    using Cons moves_inv [OF exec_moves] by blast
  ultimately show ?case using assms(2) by (metis fold_simps(2))
qed

end

sublocale step_service \<subseteq> tenant_service exec inv init tenant_of part
  by unfold_locales (blast intro: step_init moves_inv [OF exec_moves] moves_frame [OF exec_moves])+

text \<open>
  Calls in front of such a service: a call in the context of another tenant keeps the rows of a
  tenant.
\<close>

locale call_service = step_service exec inv init tenant_of part step
  for exec :: "'req \<Rightarrow> 'r io_scheme \<Rightarrow> 'r io_scheme"
    and inv :: "'r io_scheme \<Rightarrow> bool"
    and init :: "'r io_scheme"
    and tenant_of :: "'req \<Rightarrow> uuid"
    and part :: "uuid \<Rightarrow> 'r io_scheme \<Rightarrow> 'v"
    and step :: "uuid \<Rightarrow> 'r io_scheme \<Rightarrow> 'r io_scheme \<Rightarrow> bool" +
  fixes call :: "'ctx \<Rightarrow> 'rpc \<Rightarrow> 'r io_scheme \<Rightarrow> 'r io_scheme"
    and ctx_of :: "'ctx \<Rightarrow> uuid"
  assumes call_sealed: "u \<noteq> ctx_of c \<Longrightarrow> sealed u v w \<Longrightarrow> sealed u v (call c m w)"
begin

lemma call_inv: "inv w \<Longrightarrow> inv (call c m w)"
  using call_sealed [of "Suc (ctx_of c)" c "part (Suc (ctx_of c)) w" w m] by (simp add: sealed_def)

lemma call_frame: "inv w \<Longrightarrow> u \<noteq> ctx_of c \<Longrightarrow> part u (call c m w) = part u w"
  using call_sealed [of u c "part u w" w m] by (simp add: sealed_def)

end

sublocale call_service \<subseteq> calls: tenant_service "\<lambda>(c, m). call c m" inv init "\<lambda>(c, m). ctx_of c" part
  by unfold_locales (auto intro: step_init call_inv call_frame)

end
