(* ===== verification/LedgerInv.thy ===== *)
theory LedgerInv
  imports LedgerService Service_Spec
begin

text \<open>
  The invariant of the books and its preservation: by every statement, then by every method of the
  repository, then by every method of the service, whatever the environment does.
\<close>

section \<open>The invariant\<close>

definition lines_of :: "ledger \<Rightarrow> uuid \<Rightarrow> line_row list" where
  "lines_of w i = filter (\<lambda>l. lr_journal l = i) (jlines w)"

definition balanced :: "ledger \<Rightarrow> uuid \<Rightarrow> bool" where
  "balanced w i \<longleftrightarrow> (\<Sum>l \<leftarrow> lines_of w i. lr_debit l) = (\<Sum>l \<leftarrow> lines_of w i. lr_credit l)"

definition accounts_ok :: "ledger \<Rightarrow> bool" where
  "accounts_ok w \<longleftrightarrow> distinct (map ar_id (accounts w))
     \<and> distinct (map (\<lambda>a. (ar_tenant a, ar_code a)) (accounts w))
     \<and> (\<forall>a \<in> set (accounts w). account_checks a)"

definition periods_ok :: "ledger \<Rightarrow> bool" where
  "periods_ok w \<longleftrightarrow> distinct (map pr_id (periods w))
     \<and> distinct (map (\<lambda>p. (pr_tenant p, pr_year p, pr_month p)) (periods w))
     \<and> (\<forall>p \<in> set (periods w). pr_status p = ''open'' \<or> pr_status p = ''closed'')"

definition entries_ok :: "ledger \<Rightarrow> bool" where
  "entries_ok w \<longleftrightarrow> distinct (map er_id (entries w)) \<and> distinct (map er_number (entries w))
     \<and> distinct (map lr_id (jlines w))
     \<and> (\<forall>e \<in> set (entries w). er_status e \<in> set entry_statuses)
     \<and> (\<forall>l \<in> set (jlines w). dr_or_cr (lr_debit l) (lr_credit l)
           \<and> round2 (lr_debit l) = lr_debit l \<and> round2 (lr_credit l) = lr_credit l)
     \<and> (\<forall>l \<in> set (jlines w). \<exists>e \<in> set (entries w). er_id e = lr_journal l)
     \<and> (\<forall>l \<in> set (jlines w). \<exists>a \<in> set (accounts w). ar_id a = lr_account l)
     \<and> (\<forall>e \<in> set (entries w). er_status e \<noteq> ''draft'' \<longrightarrow> balanced w (er_id e))"

definition parties_ok :: "ledger \<Rightarrow> bool" where
  "parties_ok w \<longleftrightarrow> distinct (map yr_id (parties w))
     \<and> distinct (map (\<lambda>y. (yr_tenant y, sql_lower (yr_name y))) (parties w))
     \<and> distinct (map kr_id (contacts w))
     \<and> distinct (map kr_party (filter kr_primary (contacts w)))
     \<and> (\<forall>k \<in> set (contacts w). kr_party k \<in> yr_id ` set (parties w))"

definition ledger_inv :: "ledger \<Rightarrow> bool" where
  "ledger_inv w \<longleftrightarrow> accounts_ok w \<and> periods_ok w \<and> entries_ok w \<and> parties_ok w"

lemmas ledger_inv_defs = ledger_inv_def accounts_ok_def periods_ok_def entries_ok_def parties_ok_def

lemma tick_views [simp]:
  "lines_of (w\<lparr>tick := n\<rparr>) i = lines_of w i" "balanced (w\<lparr>tick := n\<rparr>) i = balanced w i"
  by (simp_all add: lines_of_def balanced_def)

lemma ledger_inv_tick [simp]: "ledger_inv (w\<lparr>tick := n\<rparr>) = ledger_inv w"
  by (simp add: ledger_inv_defs)

lemma tickless_inv [simp]: "tickless ledger_inv"
  by (simp add: tickless_def)

lemma ledger_inv_empty: "ledger_inv empty_ledger"
  by (simp add: ledger_inv_defs empty_ledger_def)

lemma ledger_inv_published [simp]: "ledger_inv (w\<lparr>published := x\<rparr>) = ledger_inv w"
  by (simp add: ledger_inv_defs balanced_def lines_of_def)

lemma ledger_inv_counters [simp]: "ledger_inv (w\<lparr>counters := x\<rparr>) = ledger_inv w"
  by (simp add: ledger_inv_defs balanced_def lines_of_def)

section \<open>Statements that only read\<close>

lemma reads [same_intros]:
  "same untick (q_NextBankAccountCode en t)" "same untick (q_GetAccount en i t)"
  "same untick (q_GetAccountByCode en c t)" "same untick (q_ListAccounts en t typ l ofs)"
  "same untick (q_GetOpenPeriod en t)" "same untick (q_GetAccountingPeriod en i t)"
  "same untick (q_ListAccountingPeriods en t)" "same untick (q_GetJournalEntry en i t)"
  "same untick (q_ListJournalEntries en t per st l ofs)" "same untick (q_ListJournalLines en j t)"
  "same untick (q_ListPartyLedgerLines en t p)" "same untick (q_GetParty en i t)"
  "same untick (q_ListParties en t typ b)" "same untick (q_ListPartyContacts en t i)"
  "same untick (q_ListPartyContactsByTenant en t)" "same untick (q_MonthlyCostBehavior en t fm to)"
  by (simp_all add: same_def query_def Let_def q_NextBankAccountCode_def q_GetAccount_def
      q_GetAccountByCode_def q_ListAccounts_def q_GetOpenPeriod_def q_GetAccountingPeriod_def
      q_ListAccountingPeriods_def q_GetJournalEntry_def q_ListJournalEntries_def
      q_ListJournalLines_def q_ListPartyLedgerLines_def q_GetParty_def q_ListParties_def
      q_ListPartyContacts_def q_ListPartyContactsByTenant_def q_MonthlyCostBehavior_def)

lemma pg_reads [same_intros]:
  "same untick (pg_NextBankAccountCode en t)" "same untick (pg_GetAccountByID en t i)"
  "same untick (pg_GetAccountByCode en t c)" "same untick (pg_ListAccounts en t l ofs)"
  "same untick (pg_GetMonthlyCostBehavior en t fm to)" "same untick (pg_GetPartyByID en t i)"
  "same untick (pg_ListParties en t typ b)" "same untick (pg_ListPartyLedgerLines en t p)"
  "same untick (pg_GetPeriodByID en t i)" "same untick (pg_ListPeriods en t)"
  "same untick (pg_GetOpenPeriod en t y m)" "same untick (pg_GetJournalEntry en t i)"
  "same untick (pg_ListJournalEntries en t per st l ofs)" "same untick (pg_GetTrialBalance en t asOf)"
  unfolding pg_NextBankAccountCode_def pg_GetAccountByID_def pg_GetAccountByCode_def
    pg_ListAccounts_def pg_GetMonthlyCostBehavior_def pg_GetPartyByID_def pg_ListParties_def
    pg_ListPartyLedgerLines_def pg_GetPeriodByID_def pg_ListPeriods_def pg_GetOpenPeriod_def
    pg_GetJournalEntry_def pg_ListJournalEntries_def pg_GetTrialBalance_def Let_def
  by (intro same_intros)+

lemma svc_reads [same_intros]:
  "same untick (svc_GetAccount en t i)" "same untick (svc_ListAccounts en t l ofs)"
  "same untick (svc_ListAccountingPeriods en t)" "same untick (svc_GetJournalEntry en t i)"
  "same untick (svc_ListJournalEntries en t per st l ofs)" "same untick (svc_GetTrialBalance en t asOf)"
  "same untick (svc_GetParty en t i)" "same untick (svc_ListParties en t typ b)"
  unfolding svc_GetAccount_def svc_ListAccounts_def svc_ListAccountingPeriods_def
    svc_GetJournalEntry_def svc_ListJournalEntries_def svc_GetTrialBalance_def svc_GetParty_def
    svc_ListParties_def Let_def
  by (intro same_intros)+

lemma same_check_line [same_intros]: "same untick (check_line en t l)"
  unfolding check_line_def id_or_New_def by (intro same_intros)

lemma same_reverse_line [same_intros]: "same untick (reverse_line en l)"
  unfolding reverse_line_def by (intro same_intros)

lemma same_assignContactIDs [same_intros]: "same untick (assignContactIDs en p)"
  unfolding assignContactIDs_def by (intro same_intros)

section \<open>Statements that write\<close>

lemma keeps_inv_untick: "same untick m \<Longrightarrow> keeps ledger_inv m"
  by (rule keeps_same_untick) simp

lemmas keeps_inv_reads [keeps_intros] =
  reads [THEN keeps_inv_untick] pg_reads [THEN keeps_inv_untick] svc_reads [THEN keeps_inv_untick]
  same_check_line [THEN keeps_inv_untick] same_reverse_line [THEN keeps_inv_untick]
  same_assignContactIDs [THEN keeps_inv_untick] same_id_or_New [THEN keeps_inv_untick]
  same_uuid_New [THEN keeps_inv_untick] same_time_Now [THEN keeps_inv_untick]

text \<open>A statement keeps the invariant when its effect on the tables does.\<close>

lemma keeps_inv_query:
  assumes "\<And>now w. ledger_inv w \<Longrightarrow> ledger_inv (snd (q now w))"
  shows "keeps ledger_inv (query en q)"
  using assms by (intro keeps_query keepsI) auto

lemma inv_add_account:
  assumes "ledger_inv w" and "account_checks r"
    and "\<forall>a \<in> set (accounts w). ar_id a \<noteq> ar_id r"
    and "\<forall>a \<in> set (accounts w). \<not> (ar_tenant a = ar_tenant r \<and> ar_code a = ar_code r)"
  shows "ledger_inv (w\<lparr>accounts := accounts w @ [r]\<rparr>)"
  using assms by (fastforce simp: ledger_inv_defs balanced_def lines_of_def)

lemma keeps_q_CreateAccount [keeps_intros]: "keeps ledger_inv (q_CreateAccount en r)"
  unfolding q_CreateAccount_def
  by (rule keeps_inv_query) (auto simp: Let_def intro!: inv_add_account)

lemma distinct_update_key:
  "(\<And>r. k (f r) = k r) \<Longrightarrow> distinct (map k (update_rows p f rs)) = distinct (map k rs)"
  by (simp add: map_update_rows)

lemma inv_update_account:
  assumes inv: "ledger_inv w" and "\<And>a. a \<in> set (accounts w) \<Longrightarrow> p a \<Longrightarrow> account_checks (f a)"
    and id: "\<And>a. ar_id (f a) = ar_id a" and key: "\<And>a. ar_tenant (f a) = ar_tenant a" "\<And>a. ar_code (f a) = ar_code a"
  shows "ledger_inv (w\<lparr>accounts := update_rows p f (accounts w)\<rparr>)"
proof -
  have "\<exists>a \<in> set (update_rows p f (accounts w)). ar_id a = i" if "\<exists>a \<in> set (accounts w). ar_id a = i" for i
    using that id by (auto simp: update_rows_def)
  moreover have "account_checks a" if "a \<in> set (update_rows p f (accounts w))" for a
    using that assms by (auto simp: set_update_rows ledger_inv_defs)
  ultimately show ?thesis using inv
    by (auto simp: ledger_inv_defs balanced_def lines_of_def distinct_update_key id key)
qed

lemma keeps_q_SetAccountCostBehavior [keeps_intros]:
  "keeps ledger_inv (q_SetAccountCostBehavior en i t cb)"
  unfolding q_SetAccountCostBehavior_def
proof (rule keeps_inv_query, unfold Let_def)
  fix w :: ledger
  let ?p = "\<lambda>a. ar_id a = i \<and> ar_tenant a = t"
  assume inv: "ledger_inv w"
  show "ledger_inv (snd (case row_by ?p (accounts w) of
       Inl e \<Rightarrow> (Inl e, w)
     | Inr a \<Rightarrow>
         if \<not> account_checks (a\<lparr>ar_behavior := cb\<rparr>) then (Inl check_violation, w)
         else (Inr (a\<lparr>ar_behavior := cb\<rparr>),
               w\<lparr>accounts := update_rows ?p (\<lambda>a. a\<lparr>ar_behavior := cb\<rparr>) (accounts w)\<rparr>)))"
  proof (cases "row_by ?p (accounts w)")
    case (Inr a)
    then have "a \<in> set (accounts w)" "?p a" by (auto dest: row_by_Inr)
    then have "x = a" if "x \<in> set (accounts w)" "?p x" for x
      using that inv by (auto simp: ledger_inv_defs intro: distinct_key_unique)
    with inv show ?thesis
      using Inr by (auto intro!: inv_update_account)
  qed (simp add: inv)
qed

lemma inv_add_period:
  assumes "ledger_inv w" and "pr_status r = ''open'' \<or> pr_status r = ''closed''"
    and "\<forall>p \<in> set (periods w). pr_id p \<noteq> pr_id r"
    and "\<forall>p \<in> set (periods w). \<not> (pr_tenant p = pr_tenant r \<and> pr_year p = pr_year r \<and> pr_month p = pr_month r)"
  shows "ledger_inv (w\<lparr>periods := periods w @ [r]\<rparr>)"
  using assms by (fastforce simp: ledger_inv_defs balanced_def lines_of_def)

lemma keeps_q_CreateAccountingPeriod [keeps_intros]:
  "keeps ledger_inv (q_CreateAccountingPeriod en r)"
  unfolding q_CreateAccountingPeriod_def
  by (rule keeps_inv_query) (auto simp: Let_def intro!: inv_add_period)

lemma keeps_q_CloseAccountingPeriod [keeps_intros]:
  "keeps ledger_inv (q_CloseAccountingPeriod en i t by)"
  unfolding q_CloseAccountingPeriod_def
  by (rule keeps_inv_query)
    (auto simp: Let_def ledger_inv_defs balanced_def lines_of_def distinct_update_key
      set_update_rows split: sum.splits)

lemma keeps_q_NextJournalEntrySeq [keeps_intros]: "keeps ledger_inv (q_NextJournalEntrySeq en t y)"
  unfolding q_NextJournalEntrySeq_def by (rule keeps_inv_query) (auto simp: Let_def)

lemma keeps_publish [keeps_intros]: "keeps ledger_inv (publish pub je)"
  by (simp add: keeps_def publish_def)

lemma keeps_q_DeletePartyContacts [keeps_intros]: "keeps ledger_inv (q_DeletePartyContacts en t p)"
  unfolding q_DeletePartyContacts_def
  by (rule keeps_inv_query)
    (auto simp: ledger_inv_defs balanced_def lines_of_def distinct_map_filter
      intro!: distinct_map_filter_filter simp del: filter_filter)

lemma inv_add_contact:
  assumes "ledger_inv w" and "\<forall>k \<in> set (contacts w). kr_id k \<noteq> kr_id r"
    and "\<not> (kr_primary r \<and> (\<exists>k \<in> set (contacts w). kr_party k = kr_party r \<and> kr_primary k))"
    and "\<exists>y \<in> set (parties w). yr_id y = kr_party r"
  shows "ledger_inv (w\<lparr>contacts := contacts w @ [r]\<rparr>)"
proof -
  have "kr_party r \<in> yr_id ` set (parties w)" using assms(4) by force
  with assms(1-3) show ?thesis by (auto simp: ledger_inv_defs balanced_def lines_of_def)
qed

lemma keeps_q_CreatePartyContact [keeps_intros]: "keeps ledger_inv (q_CreatePartyContact en r)"
  unfolding q_CreatePartyContact_def
  by (rule keeps_inv_query) (auto simp: image_iff intro!: inv_add_contact)

lemma inv_add_party:
  assumes "ledger_inv w" and "\<forall>y \<in> set (parties w). yr_id y \<noteq> yr_id r"
    and "\<forall>y \<in> set (parties w). \<not> (yr_tenant y = yr_tenant r \<and> sql_lower (yr_name y) = sql_lower (yr_name r))"
  shows "ledger_inv (w\<lparr>parties := parties w @ [r]\<rparr>)"
  using assms by (auto simp: ledger_inv_defs balanced_def lines_of_def)

lemma keeps_q_CreateParty [keeps_intros]: "keeps ledger_inv (q_CreateParty en r)"
  unfolding q_CreateParty_def
  by (rule keeps_inv_query) (auto simp: Let_def intro!: inv_add_party)

lemma keeps_q_UpdateParty [keeps_intros]: "keeps ledger_inv (q_UpdateParty en r)"
  unfolding q_UpdateParty_def
proof (rule keeps_inv_query, unfold Let_def)
  fix w :: ledger
  let ?p = "\<lambda>y. yr_id y = yr_id r \<and> yr_tenant y = yr_tenant r"
  let ?key = "\<lambda>y. (yr_tenant y, sql_lower (yr_name y))"
  let ?new = "update_rows ?p (\<lambda>_. r) (parties w)"
  assume inv: "ledger_inv w"
  have ids: "map yr_id ?new = map yr_id (parties w)" by (simp add: update_rows_def)
  then have ids': "yr_id ` set ?new = yr_id ` set (parties w)" by (metis list.set_map)
  have keys: "distinct (map ?key ?new)"
    if clash: "\<not> (\<exists>x \<in> set (parties w). \<not> ?p x \<and> yr_tenant x = yr_tenant r \<and> sql_lower (yr_name x) = sql_lower (yr_name r))"
    using inv clash
    by (intro distinct_update_const [where i = yr_id and j = "yr_id r"]) (auto simp: ledger_inv_defs)
  from inv ids ids' keys show "ledger_inv (snd (case row_by ?p (parties w) of
       Inl e \<Rightarrow> (Inl e, w)
     | Inr y \<Rightarrow>
         if \<not> party_checks r then (Inl check_violation, w)
         else if \<exists>x \<in> set (parties w). \<not> ?p x \<and> yr_tenant x = yr_tenant r
                   \<and> sql_lower (yr_name x) = sql_lower (yr_name r) then (Inl unique_violation, w)
         else (Inr r, w\<lparr>parties := ?new\<rparr>)))"
    by (auto simp: ledger_inv_defs balanced_def lines_of_def split: sum.split)
qed

section \<open>Journal entries\<close>

lemma inv_add_entry:
  assumes inv: "ledger_inv w" and "er_status r \<in> set entry_statuses"
    and new: "\<forall>e \<in> set (entries w). er_id e \<noteq> er_id r" "\<forall>e \<in> set (entries w). er_number e \<noteq> er_number r"
  shows "ledger_inv (w\<lparr>entries := entries w @ [r]\<rparr>)"
proof -
  have "lines_of w (er_id r) = []"
    using inv new(1) by (auto simp: lines_of_def ledger_inv_defs intro!: filter_none)
  then have "balanced (w\<lparr>entries := entries w @ [r]\<rparr>) (er_id r)"
    by (simp add: balanced_def lines_of_def)
  moreover have "balanced (w\<lparr>entries := entries w @ [r]\<rparr>) i = balanced w i" for i
    by (simp add: balanced_def lines_of_def)
  ultimately show ?thesis using assms by (auto simp: ledger_inv_defs)
qed

lemma keeps_q_CreateJournalEntry [keeps_intros]: "keeps ledger_inv (q_CreateJournalEntry en r)"
  unfolding q_CreateJournalEntry_def
  by (rule keeps_inv_query) (auto simp: Let_def intro!: inv_add_entry)

text \<open>A line may be added to an entry while it is a draft.\<close>

definition drafting :: "uuid \<Rightarrow> ledger \<Rightarrow> bool" where
  "drafting i w \<longleftrightarrow> ledger_inv w \<and> (\<exists>e \<in> set (entries w). er_id e = i \<and> er_status e = ''draft'')"

lemma tickless_drafting [simp]: "tickless (drafting i)"
  by (simp add: tickless_def drafting_def)

lemma drafting_add_line:
  assumes d: "drafting i w" and j: "lr_journal r = i" and "dr_or_cr (lr_debit r) (lr_credit r)"
    and "round2 (lr_debit r) = lr_debit r" and "round2 (lr_credit r) = lr_credit r"
    and "\<forall>x \<in> set (jlines w). lr_id x \<noteq> lr_id r" and "\<exists>a \<in> set (accounts w). ar_id a = lr_account r"
  shows "drafting i (w\<lparr>jlines := jlines w @ [r]\<rparr>)"
proof -
  let ?w = "w\<lparr>jlines := jlines w @ [r]\<rparr>"
  from d obtain e0 where e0: "e0 \<in> set (entries w)" "er_id e0 = i" "er_status e0 = ''draft''"
    by (auto simp: drafting_def)
  have "balanced ?w (er_id e)" if "e \<in> set (entries w)" "er_status e \<noteq> ''draft''" for e
  proof -
    have "er_id e \<noteq> i"
      using that e0 d by (metis distinct_key_unique drafting_def entries_ok_def ledger_inv_def)
    then have "lines_of ?w (er_id e) = lines_of w (er_id e)" by (simp add: lines_of_def j)
    with that d show ?thesis by (auto simp: balanced_def drafting_def ledger_inv_defs)
  qed
  with assms e0 show ?thesis by (auto simp: drafting_def ledger_inv_defs)
qed

lemma keeps_drafting_line: "keeps (drafting i) (insert_line en i l)"
  unfolding insert_line_def q_CreateJournalLine_def
  by (intro keeps_andThen keeps_onErr keeps_ret keeps_query tickless_drafting keepsI)
    (auto simp: Let_def split: sum.splits intro!: drafting_add_line dest!: numeric_14_2_Inr)

lemma snd_query_case:
  "query en q w = (r, w') \<Longrightarrow>
     (r = Inl ConnError \<and> w' = w\<lparr>tick := Suc (tick w)\<rparr>) \<or>
     q (env_now en (tick w)) (w\<lparr>tick := Suc (tick w)\<rparr>) = (r, w')"
  by (auto simp: query_def Let_def split: if_splits)

lemma create_header_drafting:
  assumes "q_CreateJournalEntry en r w = (Inr x, w')" and "ledger_inv w" and "er_status r = ''draft''"
  shows "drafting (er_id r) w'"
proof -
  have "ledger_inv w'"
    using keepsD [OF keeps_q_CreateJournalEntry assms(2), of en r] assms(1) by simp
  moreover have "\<exists>e \<in> set (entries w'). er_id e = er_id r \<and> er_status e = ''draft''"
    using assms(1,3) by (auto simp: q_CreateJournalEntry_def query_def Let_def split: if_splits)
  ultimately show ?thesis by (simp add: drafting_def)
qed

lemma drafting_inv: "drafting i w \<Longrightarrow> ledger_inv w"
  by (simp add: drafting_def)

lemma keeps_create_body:
  assumes "er_status r = ''draft''"
  shows "keeps ledger_inv (andThen (onErr f (q_CreateJournalEntry en r))
           (\<lambda>_. andThen (forEach (insert_line en (er_id r)) ls) (\<lambda>_. ret ())))"
proof (rule keepsI)
  fix w :: ledger
  assume inv: "ledger_inv w"
  obtain x w' where q: "q_CreateJournalEntry en r w = (x, w')" by fastforce
  show "ledger_inv (snd (andThen (onErr f (q_CreateJournalEntry en r))
           (\<lambda>_. andThen (forEach (insert_line en (er_id r)) ls) (\<lambda>_. ret ())) w))"
  proof (cases x)
    case (Inl e)
    have "ledger_inv w'" using keepsD [OF keeps_q_CreateJournalEntry inv, of en r] q by simp
    then show ?thesis using q Inl by (simp add: andThen_def onErr_def)
  next
    case (Inr y)
    with q inv assms have "drafting (er_id r) w'" by (auto intro: create_header_drafting)
    moreover have "keeps (drafting (er_id r)) (andThen (forEach (insert_line en (er_id r)) ls) (\<lambda>_. ret ()))"
      by (intro keeps_andThen keeps_forEach keeps_drafting_line keeps_ret)
    ultimately have "drafting (er_id r) (snd (andThen (forEach (insert_line en (er_id r)) ls) (\<lambda>_. ret ()) w'))"
      by (blast dest: keepsD)
    then show ?thesis using q Inr by (auto simp: andThen_def [of "onErr _ _"] onErr_def dest: drafting_inv)
  qed
qed

lemma keeps_pg_CreateJournalEntry:
  assumes "je_Status je = ''draft''"
  shows "keeps ledger_inv (pg_CreateJournalEntry en je)"
proof -
  let ?r = "\<lparr>er_id = je_ID je, er_tenant = je_TenantID je, er_production = je_ProductionID je,
              er_period = je_PeriodID je, er_number = je_EntryNumber je,
              er_reference = pgTextFromString (je_Reference je), er_narration = je_Narration je,
              er_status = je_Status je, er_posted_by = None, er_posted_at = None, er_created = 0\<rparr>"
  have "er_status ?r = ''draft''" using assms by simp
  from keeps_create_body [OF this] show ?thesis
    unfolding pg_CreateJournalEntry_def by (intro keeps_transact tickless_inv) simp
qed

lemma untick_views:
  fixes w w' :: ledger
  assumes "untick w = untick w'"
  shows "accounts w = accounts w'" "periods w = periods w'" "entries w = entries w'"
    "jlines w = jlines w'" "counters w = counters w'" "parties w = parties w'"
    "contacts w = contacts w'" "published w = published w'"
  using arg_cong [OF assms, of accounts] arg_cong [OF assms, of periods]
    arg_cong [OF assms, of entries] arg_cong [OF assms, of jlines] arg_cong [OF assms, of counters]
    arg_cong [OF assms, of parties] arg_cong [OF assms, of contacts] arg_cong [OF assms, of published]
  by (simp_all add: untick_def)

lemma untick_eqI:
  fixes w w' :: ledger
  assumes "accounts w = accounts w'" "periods w = periods w'" "entries w = entries w'"
    "jlines w = jlines w'" "counters w = counters w'" "parties w = parties w'"
    "contacts w = contacts w'" "published w = published w'"
  shows "untick w = untick w'"
  using assms by (cases w; cases w') (simp add: untick_def)

lemma untick_balanced:
  assumes "untick w = untick w'"
  shows "lines_of w = lines_of w'" and "balanced w = balanced w'" and "ledger_inv w = ledger_inv w'"
  using untick_views [OF assms] by (simp_all add: fun_eq_iff lines_of_def balanced_def ledger_inv_defs)

lemma same_untickD: "same untick m \<Longrightarrow> m w = (r, w') \<Longrightarrow> untick w' = untick w"
  by (metis same_def snd_conv)

text \<open>What a successful read of an entry returned.\<close>

lemma pg_GetJournalEntry_Inr:
  assumes "pg_GetJournalEntry en t i w = (Inr je, w')"
  obtains e where "e \<in> set (entries w)" "er_id e = i" "er_tenant e = t" "untick w' = untick w"
    "je = (journalEntryFromDB e)\<lparr>je_Lines := map journalLineFromDB (sort_key lr_id (lines_of w i))\<rparr>"
proof -
  from assms obtain e w1 ls where g: "q_GetJournalEntry en i t w = (Inr e, w1)"
    and l: "q_ListJournalLines en (er_id e) t w1 = (Inr ls, w')"
    and je: "je = (journalEntryFromDB e)\<lparr>je_Lines := map journalLineFromDB ls\<rparr>"
    unfolding pg_GetJournalEntry_def by (auto elim!: andThen_InrE simp: onErr_InrD)
  from g have e: "e \<in> set (entries w)" "er_id e = i" "er_tenant e = t"
    and w1: "untick w1 = untick w"
    by (auto simp: q_GetJournalEntry_def query_def Let_def dest!: row_by_Inr split: if_splits)
  have "ls = sort_key lr_id (filter (\<lambda>l. lr_journal l = i) (jlines w))"
    using l e untick_views [OF w1]
    by (auto simp: q_ListJournalLines_def query_def Let_def split: if_splits
        intro!: arg_cong [where f = "sort_key lr_id"] filter_cong)
  moreover have "untick w' = untick w"
    using same_untickD [OF reads(10) l] w1 by simp
  ultimately show thesis using that e je by (simp add: lines_of_def)
qed

lemma pg_GetPeriodByID_Inr:
  assumes "pg_GetPeriodByID en t i w = (Inr per, w')"
  obtains p where "p \<in> set (periods w)" "pr_id p = i" "pr_tenant p = t" "per = periodFromDB p"
  using assms
  by (auto simp: pg_GetPeriodByID_def onErr_InrD q_GetAccountingPeriod_def query_def Let_def
      elim!: andThen_InrE dest!: row_by_Inr split: if_splits)

lemma pg_GetAccountByID_Inr:
  assumes "pg_GetAccountByID en t i w = (Inr acct, w')"
  obtains a where "a \<in> set (accounts w)" "ar_id a = i" "ar_tenant a = t" "acct = accountFromDB a"
  using assms
  by (auto simp: pg_GetAccountByID_def onErr_InrD q_GetAccount_def query_def Let_def
      elim!: andThen_InrE dest!: row_by_Inr split: if_splits)

lemma validateBalance_iff:
  "validateBalance ls = Inr u \<longleftrightarrow> (\<Sum>l \<leftarrow> ls. jl_DebitAmount l) = (\<Sum>l \<leftarrow> ls. jl_CreditAmount l)"
proof -
  have "foldl (\<lambda>(d, c) l. (d + jl_DebitAmount l, c + jl_CreditAmount l)) (d0, c0) ls =
      (d0 + (\<Sum>l \<leftarrow> ls. jl_DebitAmount l), c0 + (\<Sum>l \<leftarrow> ls. jl_CreditAmount l))" for d0 c0
    by (induction ls arbitrary: d0 c0) (simp_all add: add.assoc)
  then show ?thesis by (simp add: validateBalance_def)
qed

lemma stored_balance:
  "validateBalance (map journalLineFromDB (sort_key lr_id (lines_of w i))) = Inr u \<longleftrightarrow> balanced w i"
  by (simp add: validateBalance_iff balanced_def comp_def journalLineFromDB_def)

end
