(* ===== verification/LedgerEffects.thy ===== *)
theory LedgerEffects
  imports LedgerInv
begin

text \<open>
  What the writing methods of the ledger do when they succeed, as equations between the states
  before and after, and that a failed call has no effect. On these rest the invariant for posting
  and voiding and the properties of the ledger.
\<close>

section \<open>Posting\<close>

lemma inv_mark_entries:
  assumes inv: "ledger_inv w"
    and bal: "\<And>e. e \<in> set (entries w) \<Longrightarrow> p e \<Longrightarrow> balanced w (er_id e)"
    and f: "\<And>e. er_id (f e) = er_id e" "\<And>e. er_number (f e) = er_number e"
      "\<And>e. er_status (f e) \<in> set entry_statuses"
  shows "ledger_inv (w\<lparr>entries := update_rows p f (entries w)\<rparr>)"
proof -
  have ids: "er_id ` set (update_rows p f (entries w)) = er_id ` set (entries w)"
    by (metis f(1) list.set_map map_update_rows)
  have "\<exists>e \<in> set (update_rows p f (entries w)). er_id e = j" if "\<exists>e \<in> set (entries w). er_id e = j" for j
    using that ids by (metis image_iff)
  moreover have "balanced (w\<lparr>entries := x\<rparr>) j = balanced w j" for x j
    by (simp add: balanced_def lines_of_def)
  ultimately show ?thesis using inv bal f
    by (auto simp: ledger_inv_defs distinct_update_key set_update_rows)
qed

definition postable :: "uuid \<Rightarrow> uuid \<Rightarrow> entry_row \<Rightarrow> bool" where
  "postable t i e \<longleftrightarrow> er_id e = i \<and> er_tenant e = t \<and> er_status e = ''draft''"

definition mark_posted :: "uuid \<Rightarrow> time \<Rightarrow> entry_row \<Rightarrow> entry_row" where
  "mark_posted actor now e =
     e\<lparr>er_status := ''posted'', er_posted_by := Some actor, er_posted_at := Some now\<rparr>"

definition voidable :: "uuid \<Rightarrow> uuid \<Rightarrow> entry_row \<Rightarrow> bool" where
  "voidable t i e \<longleftrightarrow> er_id e = i \<and> er_tenant e = t \<and> er_status e = ''posted''"

lemma pg_UpdateJournalStatus_posted:
  assumes "pg_UpdateJournalStatus en t i ''posted'' actor tm w = (Inr u, w')"
  shows "untick w' = untick (w\<lparr>entries :=
      update_rows (postable t i) (mark_posted actor (env_now en (tick w))) (entries w)\<rparr>)"
    and "\<exists>e \<in> set (entries w). postable t i e"
  using assms
  by (auto simp: pg_UpdateJournalStatus_def q_PostJournalEntry_def query_def Let_def onErr_InrD
      postable_def [abs_def] mark_posted_def [abs_def] untick_def
      elim!: andThen_InrE dest!: row_by_Inr split: if_splits sum.splits)

lemma pg_UpdateJournalStatus_void:
  assumes "pg_UpdateJournalStatus en t i ''void'' actor tm w = (Inr u, w')"
  shows "untick w' = untick (w\<lparr>entries := update_rows (voidable t i) (er_status_update (\<lambda>_. ''void'')) (entries w)\<rparr>)"
    and "\<exists>e \<in> set (entries w). voidable t i e"
  using assms
  by (auto simp: pg_UpdateJournalStatus_def q_VoidJournalEntry_def query_def Let_def onErr_InrD
      voidable_def [abs_def] untick_def
      elim!: andThen_InrE dest!: row_by_Inr split: if_splits sum.splits)

lemma atomic_pg_UpdateJournalStatus [atomic_intros]:
  "atomic untick (pg_UpdateJournalStatus en t i st actor tm)"
  unfolding pg_UpdateJournalStatus_def
  by (intro atomic_intros atomic_last)
    (auto simp: atomic_def q_PostJournalEntry_def q_VoidJournalEntry_def query_def Let_def
      split: sum.splits if_splits)

text \<open>A call to post an entry that fails leaves every table and the published events alone.\<close>

lemma atomic_svc_PostJournalEntry [atomic_intros]:
  "atomic untick (svc_PostJournalEntry en pub t i actor)"
  unfolding svc_PostJournalEntry_def Let_def
  by (intro atomic_seq atomic_intros same_intros atomic_last)
    (simp_all add: publish_def andThen_def)

definition posting_ok :: "ledger \<Rightarrow> uuid \<Rightarrow> uuid \<Rightarrow> entry_row \<Rightarrow> bool" where
  "posting_ok w t i e \<longleftrightarrow> e \<in> set (entries w) \<and> postable t i e \<and> balanced w i
     \<and> (\<exists>p \<in> set (periods w). pr_id p = er_period e \<and> pr_tenant p = t \<and> pr_status p \<noteq> ''closed'')"

lemma svc_PostJournalEntry_Inr:
  assumes ok: "svc_PostJournalEntry en pub t i actor w = (Inr je, w')" and inv: "ledger_inv w"
  obtains e now where "posting_ok w t i e"
    and "untick w' = untick (w\<lparr>entries := update_rows (postable t i) (mark_posted actor now) (entries w),
                               published := published w @ (if pub then [je] else [])\<rparr>)"
    and "je_ID je = i" and "je_TenantID je = t" and "je_Status je = ''posted''" and "je_PostedBy je = Some actor"
    and "je_Lines je = map journalLineFromDB (sort_key lr_id (lines_of w i))"
proof -
  note run = ok [unfolded svc_PostJournalEntry_def Let_def]
  obtain je0 w1 where g: "pg_GetJournalEntry en t i w = (Inr je0, w1)"
    using run by (auto simp: onErr_InrD elim!: andThen_InrE)
  have st: "je_Status je0 \<noteq> ''posted''" "je_Status je0 \<noteq> ''void''"
    using run g by (auto simp: step_simps)
  obtain per w2 where p: "pg_GetPeriodByID en t (je_PeriodID je0) w1 = (Inr per, w2)"
    using run g st by (auto simp: step_simps elim!: andThen_InrE)
  have pst: "per_Status per \<noteq> ''closed''" and val: "validateBalance (je_Lines je0) = Inr ()"
    using run g st p by (auto simp: step_simps split: if_splits sum.splits)
  obtain now w3 where n: "(time_Now en :: (ledger, ledger_err, time) op) w2 = (Inr now, w3)" by (simp add: time_Now_def)
  obtain w4 where u: "pg_UpdateJournalStatus en t i ''posted'' actor now w3 = (Inr (), w4)"
    using run g st p pst val n by (auto simp: step_simps elim!: andThen_InrE)
  have je: "je = as_posted je0 actor now"
    and w': "w' = (if pub then w4\<lparr>published := published w4 @ [je]\<rparr> else w4)"
    using run g st p pst val n u by (auto simp: step_simps publish_def split: if_splits)
  from g obtain e where e: "e \<in> set (entries w)" "er_id e = i" "er_tenant e = t"
    and w1: "untick w1 = untick w"
    and je0: "je0 = (journalEntryFromDB e)\<lparr>je_Lines := map journalLineFromDB (sort_key lr_id (lines_of w i))\<rparr>"
    by (rule pg_GetJournalEntry_Inr)
  have w2: "untick w2 = untick w" using same_untickD [OF pg_reads(9) p] w1 by simp
  have w3: "untick w3 = untick w" using n w2 by (auto simp: time_Now_def)
  have "er_status e \<in> set entry_statuses" using e inv by (auto simp: ledger_inv_defs)
  with st je0 have draft: "er_status e = ''draft''" by (auto simp: journalEntryFromDB_def entry_statuses_def)
  have bal: "balanced w i" using val stored_balance [of w i "()"] by (simp add: je0)
  have "\<exists>p \<in> set (periods w). pr_id p = er_period e \<and> pr_tenant p = t \<and> pr_status p \<noteq> ''closed''"
    using p
  proof (rule pg_GetPeriodByID_Inr)
    fix r
    assume "r \<in> set (periods w1)" "pr_id r = je_PeriodID je0" "pr_tenant r = t" "per = periodFromDB r"
    with pst untick_views [OF w1] show ?thesis
      by (intro bexI [of _ r]) (auto simp: je0 journalEntryFromDB_def periodFromDB_def)
  qed
  then have okp: "posting_ok w t i e" using e draft bal by (simp add: posting_ok_def postable_def)
  let ?now' = "env_now en (tick w3)"
  note w4 = pg_UpdateJournalStatus_posted(1) [OF u]
  have "untick w' = untick (w\<lparr>entries := update_rows (postable t i) (mark_posted actor ?now') (entries w),
                               published := published w @ (if pub then [je] else [])\<rparr>)"
    using untick_views [OF w4] untick_views [OF w3] w' by (intro untick_eqI) auto
  then show thesis using that okp je e je0 by (auto simp: journalEntryFromDB_def as_posted_def)
qed


lemma keeps_svc_PostJournalEntry [keeps_intros]:
  "keeps ledger_inv (svc_PostJournalEntry en pub t i actor)"
proof (rule keepsI)
  fix w assume inv: "ledger_inv w"
  obtain r w' where run: "svc_PostJournalEntry en pub t i actor w = (r, w')" by fastforce
  have "ledger_inv w'"
  proof (cases r)
    case (Inl e)
    then have "untick w' = untick w" using run atomicD [OF atomic_svc_PostJournalEntry] by blast
    then show ?thesis using inv untick_balanced(3) by blast
  next
    case (Inr je)
    then obtain e now where e: "posting_ok w t i e" and w': "untick w' = untick (w\<lparr>entries :=
        update_rows (postable t i) (mark_posted actor now) (entries w),
        published := published w @ (if pub then [je] else [])\<rparr>)"
      using run inv by (auto elim: svc_PostJournalEntry_Inr)
    have "ledger_inv (w\<lparr>entries := update_rows (postable t i) (mark_posted actor now) (entries w)\<rparr>)"
      using inv e by (intro inv_mark_entries) (auto simp: posting_ok_def postable_def mark_posted_def entry_statuses_def)
    then show ?thesis using untick_balanced(3) [OF w'] by simp
  qed
  then show "ledger_inv (snd (svc_PostJournalEntry en pub t i actor w))" using run by simp
qed

lemma keeps_pg_void [keeps_intros]: "keeps ledger_inv (pg_UpdateJournalStatus en t i ''void'' actor tm)"
proof (rule keepsI)
  fix w assume inv: "ledger_inv w"
  obtain r w' where run: "pg_UpdateJournalStatus en t i ''void'' actor tm w = (r, w')" by fastforce
  have "ledger_inv w'"
  proof (cases r)
    case (Inl e)
    then have "untick w' = untick w" using run atomicD [OF atomic_pg_UpdateJournalStatus] by blast
    then show ?thesis using inv untick_balanced(3) by blast
  next
    case (Inr u)
    note w' = pg_UpdateJournalStatus_void(1) [OF run [unfolded Inr]]
    have "ledger_inv (w\<lparr>entries := update_rows (voidable t i) (er_status_update (\<lambda>_. ''void'')) (entries w)\<rparr>)"
      using inv by (intro inv_mark_entries) (auto simp: voidable_def entry_statuses_def ledger_inv_defs)
    then show ?thesis using untick_balanced(3) [OF w'] by simp
  qed
  then show "ledger_inv (snd (pg_UpdateJournalStatus en t i ''void'' actor tm w))" using run by simp
qed

section \<open>Creating\<close>

text \<open>The row that a line of an entry becomes: amounts rounded to cents, the default currency.\<close>

definition stored_line :: "uuid \<Rightarrow> JournalLine \<Rightarrow> line_row" where
  "stored_line j l = \<lparr>lr_id = jl_ID l, lr_journal = j, lr_account = jl_AccountID l,
     lr_debit = round2 (jl_DebitAmount l), lr_credit = round2 (jl_CreditAmount l),
     lr_currency = ''INR'', lr_description = pgTextFromString (jl_Description l),
     lr_party = jl_PartyID l\<rparr>"

definition draft_row :: "JournalEntry \<Rightarrow> time \<Rightarrow> entry_row" where
  "draft_row je now = \<lparr>er_id = je_ID je, er_tenant = je_TenantID je, er_production = je_ProductionID je,
     er_period = je_PeriodID je, er_number = je_EntryNumber je,
     er_reference = pgTextFromString (je_Reference je), er_narration = je_Narration je,
     er_status = je_Status je, er_posted_by = None, er_posted_at = None, er_created = now\<rparr>"

lemma insert_line_Inr:
  assumes "insert_line en j l w = (Inr u, w')"
  shows "untick w' = untick (w\<lparr>jlines := jlines w @ [stored_line j l]\<rparr>)"
  using assms
  by (auto simp: insert_line_def q_CreateJournalLine_def query_def Let_def onErr_InrD stored_line_def
      untick_def elim!: andThen_InrE dest!: numeric_14_2_Inr split: if_splits sum.splits)

lemma insert_lines_Inr:
  "forEach (insert_line en j) ls w = (Inr us, w') \<Longrightarrow>
     untick w' = untick (w\<lparr>jlines := jlines w @ map (stored_line j) ls\<rparr>)"
proof (induction ls arbitrary: us w)
  case (Cons l ls)
  then obtain w1 vs where one: "insert_line en j l w = (Inr (), w1)"
    and rest: "forEach (insert_line en j) ls w1 = (Inr vs, w')"
    by (auto elim!: andThen_InrE)
  show ?case
    using untick_views [OF insert_line_Inr [OF one]] untick_views [OF Cons.IH [OF rest]]
    by (intro untick_eqI) auto
qed (simp add: untick_def)

lemma pg_CreateJournalEntry_Inr:
  assumes "pg_CreateJournalEntry en je w = (Inr u, w')"
  obtains now where "untick w' = untick (w\<lparr>entries := entries w @ [draft_row je now],
                        jlines := jlines w @ map (stored_line (je_ID je)) (je_Lines je)\<rparr>)"
    and "\<forall>e \<in> set (entries w). er_id e \<noteq> je_ID je" "\<forall>e \<in> set (entries w). er_number e \<noteq> je_EntryNumber je"
proof -
  obtain w0 w1 w2 x vs where w0: "untick w0 = untick w" and w': "untick w' = untick w2"
    and hd: "q_CreateJournalEntry en \<lparr>er_id = je_ID je, er_tenant = je_TenantID je, er_production = je_ProductionID je,
              er_period = je_PeriodID je, er_number = je_EntryNumber je,
              er_reference = pgTextFromString (je_Reference je), er_narration = je_Narration je,
              er_status = je_Status je, er_posted_by = None, er_posted_at = None, er_created = 0\<rparr> w0 = (Inr x, w1)"
    and ls: "forEach (insert_line en (je_ID je)) (je_Lines je) w1 = (Inr vs, w2)"
    using assms unfolding pg_CreateJournalEntry_def
    by (auto elim!: transact_InrE andThen_InrE simp: onErr_InrD)
  from hd have w1: "untick w1 = untick (w0\<lparr>entries := entries w0 @ [draft_row je (env_now en (tick w0))]\<rparr>)"
    and new: "\<forall>e \<in> set (entries w0). er_id e \<noteq> je_ID je" "\<forall>e \<in> set (entries w0). er_number e \<noteq> je_EntryNumber je"
    by (auto simp: q_CreateJournalEntry_def query_def Let_def draft_row_def untick_def split: if_splits)
  have "untick w' = untick (w\<lparr>entries := entries w @ [draft_row je (env_now en (tick w0))],
                        jlines := jlines w @ map (stored_line (je_ID je)) (je_Lines je)\<rparr>)"
    using untick_views [OF w0] untick_views [OF w1] untick_views [OF w'] untick_views [OF insert_lines_Inr [OF ls]]
    by (intro untick_eqI) auto
  then show thesis using that new untick_views [OF w0] by simp
qed


definition checked_line :: "ledger \<Rightarrow> uuid \<Rightarrow> JournalLine \<Rightarrow> JournalLine \<Rightarrow> bool" where
  "checked_line w t l l' \<longleftrightarrow> l' = l\<lparr>jl_ID := jl_ID l'\<rparr> \<and> (jl_ID l \<noteq> uuid_Nil \<longrightarrow> l' = l)
     \<and> (\<exists>a \<in> set (accounts w). ar_id a = jl_AccountID l \<and> ar_tenant a = t \<and> ar_active a)"

lemma check_line_Inr:
  assumes "check_line en t l w = (Inr l', w')"
  shows "checked_line w t l l'"
proof -
  note run = assms [unfolded check_line_def]
  obtain acct w1 where a: "pg_GetAccountByID en t (jl_AccountID l) w = (Inr acct, w1)"
    using run by (auto simp: onErr_InrD elim!: andThen_InrE)
  have act: "acc_IsActive acct" using run a by (auto simp: step_simps split: if_splits)
  obtain w2 where i: "(id_or_New en (jl_ID l) :: (ledger, ledger_err, uuid) op) w2 = (Inr (jl_ID l'), w')" and l': "l' = l\<lparr>jl_ID := jl_ID l'\<rparr>"
    using run a act by (auto simp: step_simps elim!: andThen_InrE split: if_splits)
  have "l' = l" if "jl_ID l \<noteq> uuid_Nil"
    using that i l' by (simp add: id_or_New_def) (metis JournalLine.surjective JournalLine.update_convs(1))
  moreover have "\<exists>a \<in> set (accounts w). ar_id a = jl_AccountID l \<and> ar_tenant a = t \<and> ar_active a"
    using a by (rule pg_GetAccountByID_Inr) (use act in \<open>auto simp: accountFromDB_def\<close>)
  ultimately show ?thesis using l' by (simp add: checked_line_def)
qed

lemma checked_line_untick: "untick w1 = untick w \<Longrightarrow> checked_line w1 t = checked_line w t"
  using untick_views [of w1 w] by (simp add: fun_eq_iff checked_line_def)

lemma check_lines_Inr:
  "forEach (check_line en t) ls w = (Inr ls', w') \<Longrightarrow> list_all2 (checked_line w t) ls ls'"
proof (induction ls arbitrary: ls' w)
  case (Cons l ls)
  then obtain l1 w1 ls1 where one: "check_line en t l w = (Inr l1, w1)"
    and rest: "forEach (check_line en t) ls w1 = (Inr ls1, w')" and ls': "ls' = l1 # ls1"
    by (auto elim!: andThen_InrE)
  have "checked_line w1 t = checked_line w t"
    by (rule checked_line_untick [OF same_untickD [OF same_check_line one]])
  then show ?case using Cons.IH [OF rest] check_line_Inr [OF one] ls' by simp
qed simp

lemma pg_AllocateEntryNumber_Inr:
  assumes "pg_AllocateEntryNumber en t y w = (Inr num, w')"
  obtains n where "num = entry_number y n" and "n = (case counters w (t, y) of None \<Rightarrow> 1 | Some k \<Rightarrow> k + 1)"
    and "n \<le> 2147483647" and "untick w' = untick (w\<lparr>counters := (counters w)((t, y) \<mapsto> n)\<rparr>)"
  using assms
  by (auto simp: pg_AllocateEntryNumber_def onErr_InrD q_NextJournalEntrySeq_def query_def Let_def untick_def
      elim!: andThen_InrE split: if_splits)

lemma svc_CreateJournalEntry_Inr:
  assumes ok: "svc_CreateJournalEntry en je w = (Inr je', w')"
  obtains ls i y n now where "je' = je\<lparr>je_Lines := ls, je_ID := i, je_Status := ''draft'', je_EntryNumber := entry_number y n\<rparr>"
    and "2 \<le> length ls" and "list_all2 (checked_line w (je_TenantID je)) (je_Lines je) ls"
    and "n = (case counters w (je_TenantID je, y) of None \<Rightarrow> 1 | Some k \<Rightarrow> k + 1)"
    and "untick w' = untick (w\<lparr>counters := (counters w)((je_TenantID je, y) \<mapsto> n),
           entries := entries w @ [draft_row je' now], jlines := jlines w @ map (stored_line i) ls\<rparr>)"
    and "\<forall>e \<in> set (entries w). er_id e \<noteq> i" and "je_ID je \<noteq> uuid_Nil \<Longrightarrow> i = je_ID je"
proof -
  note run = ok [unfolded svc_CreateJournalEntry_def Let_def]
  have len: "2 \<le> length (je_Lines je)" using run by (auto split: if_splits)
  obtain ls w1 where c: "forEach (check_line en (je_TenantID je)) (je_Lines je) w = (Inr ls, w1)"
    using run by (auto split: if_splits elim!: andThen_InrE)
  obtain i w2 where i: "(id_or_New en (je_ID je) :: (ledger, ledger_err, uuid) op) w1 = (Inr i, w2)"
    by (cases "je_ID je = uuid_Nil") (simp_all add: id_or_New_def uuid_New_def)
  obtain now w3 where n: "(time_Now en :: (ledger, ledger_err, time) op) w2 = (Inr now, w3)" by (simp add: time_Now_def)
  obtain num w4 where a: "pg_AllocateEntryNumber en (je_TenantID je) (year_of now) w3 = (Inr num, w4)"
    using run len c i n by (auto simp: step_simps elim!: andThen_InrE)
  have cr: "pg_CreateJournalEntry en je' w4 = (Inr (), w')"
    and je': "je' = je\<lparr>je_Lines := ls, je_ID := i, je_Status := ''draft'', je_EntryNumber := num\<rparr>"
    using run len c i n a by (auto simp: step_simps elim!: andThen_InrE)
  have w1: "untick w1 = untick w" by (rule same_untickD [OF same_forEach [OF same_check_line] c])
  have w2: "untick w2 = untick w" using same_untickD [OF same_id_or_New i] w1 by simp
  have w3: "untick w3 = untick w" using same_untickD [OF same_time_Now n] w2 by simp
  from a obtain k where k: "num = entry_number (year_of now) k" "k = (case counters w3 (je_TenantID je, year_of now) of None \<Rightarrow> 1 | Some k \<Rightarrow> k + 1)"
    and w4: "untick w4 = untick (w3\<lparr>counters := (counters w3)((je_TenantID je, year_of now) \<mapsto> k)\<rparr>)"
    by (rule pg_AllocateEntryNumber_Inr)
  from cr obtain now' where w': "untick w' = untick (w4\<lparr>entries := entries w4 @ [draft_row je' now'],
      jlines := jlines w4 @ map (stored_line (je_ID je')) (je_Lines je')\<rparr>)"
    and new: "\<forall>e \<in> set (entries w4). er_id e \<noteq> je_ID je'"
    by (rule pg_CreateJournalEntry_Inr)
  note views = untick_views [OF w3] untick_views [OF w4]
  show thesis
  proof (rule that)
    show "je' = je\<lparr>je_Lines := ls, je_ID := i, je_Status := ''draft'', je_EntryNumber := entry_number (year_of now) k\<rparr>"
      using je' k(1) by simp
    show ck: "list_all2 (checked_line w (je_TenantID je)) (je_Lines je) ls" using c by (rule check_lines_Inr)
    then show "2 \<le> length ls" using len by (simp add: list_all2_lengthD)
    show "k = (case counters w (je_TenantID je, year_of now) of None \<Rightarrow> 1 | Some k \<Rightarrow> k + 1)"
      using k(2) views by simp
    show "untick w' = untick (w\<lparr>counters := (counters w)((je_TenantID je, year_of now) \<mapsto> k),
           entries := entries w @ [draft_row je' now'], jlines := jlines w @ map (stored_line i) ls\<rparr>)"
      using untick_views [OF w'] views je' by (intro untick_eqI) auto
    show "\<forall>e \<in> set (entries w). er_id e \<noteq> i" using new views je' by simp
    show "i = je_ID je" if "je_ID je \<noteq> uuid_Nil" using that i by (simp add: id_or_New_def)
  qed
qed


lemma keeps_svc_CreateJournalEntry [keeps_intros]: "keeps ledger_inv (svc_CreateJournalEntry en je)"
  unfolding svc_CreateJournalEntry_def Let_def pg_AllocateEntryNumber_def
  by (intro keeps_intros keeps_pg_CreateJournalEntry) simp

section \<open>Voiding\<close>

text \<open>The content of a line: account, debit, credit; and the same with the two amounts swapped.\<close>

definition amounts :: "line_row \<Rightarrow> uuid \<times> decimal \<times> decimal" where
  "amounts l = (lr_account l, lr_debit l, lr_credit l)"

definition swapped :: "line_row \<Rightarrow> uuid \<times> decimal \<times> decimal" where
  "swapped l = (lr_account l, lr_credit l, lr_debit l)"

lemma reverse_lines_Inr:
  "forEach (reverse_line en) ls w = (Inr ls', w') \<Longrightarrow>
     map (\<lambda>l. (jl_AccountID l, jl_DebitAmount l, jl_CreditAmount l)) ls' =
     map (\<lambda>l. (jl_AccountID l, jl_CreditAmount l, jl_DebitAmount l)) ls"
  by (induction ls arbitrary: ls' w) (auto simp: reverse_line_def elim!: andThen_InrE)

lemma checked_lines_amounts:
  "list_all2 (checked_line w t) ls ls' \<Longrightarrow>
     map (\<lambda>l. (jl_AccountID l, jl_DebitAmount l, jl_CreditAmount l)) ls' =
     map (\<lambda>l. (jl_AccountID l, jl_DebitAmount l, jl_CreditAmount l)) ls"
proof (induction rule: list_all2_induct)
  case (Cons l ls l' ls')
  then have "l' = l\<lparr>jl_ID := jl_ID l'\<rparr>" by (simp add: checked_line_def)
  then have "jl_AccountID l' = jl_AccountID l \<and> jl_DebitAmount l' = jl_DebitAmount l \<and> jl_CreditAmount l' = jl_CreditAmount l"
    by (metis JournalLine.select_convs(3-5) JournalLine.surjective JournalLine.update_convs(1))
  with Cons show ?case by simp
qed simp

text \<open>A stored line read back and stored again swapped keeps its amounts: they are whole cents.\<close>

lemma stored_reversal:
  assumes "map (\<lambda>l. (jl_AccountID l, jl_DebitAmount l, jl_CreditAmount l)) ls =
      map (\<lambda>l. (jl_AccountID l, jl_CreditAmount l, jl_DebitAmount l)) (map journalLineFromDB rs)"
    and "\<forall>r \<in> set rs. round2 (lr_debit r) = lr_debit r \<and> round2 (lr_credit r) = lr_credit r"
  shows "map amounts (map (stored_line j) ls) = map swapped rs"
  using assms
proof (induction ls arbitrary: rs)
  case (Cons l ls)
  then obtain r rs' where "rs = r # rs'" by (cases rs) auto
  with Cons show ?case by (auto simp: amounts_def swapped_def stored_line_def journalLineFromDB_def)
qed simp


lemma lines_of_new:
  assumes "ledger_inv w" and "\<forall>e \<in> set (entries w). er_id e \<noteq> j"
    and "jlines w' = jlines w @ map (stored_line j) ls"
  shows "lines_of w' j = map (stored_line j) ls" and "i \<noteq> j \<Longrightarrow> lines_of w' i = lines_of w i"
proof -
  have "filter (\<lambda>l. lr_journal l = j) (jlines w) = []"
    using assms(1,2) by (auto simp: ledger_inv_defs intro!: filter_none)
  then show "lines_of w' j = map (stored_line j) ls"
    using assms(3) by (auto simp: lines_of_def stored_line_def intro!: filter_True)
  show "i \<noteq> j \<Longrightarrow> lines_of w' i = lines_of w i"
    using assms(3) by (auto simp: lines_of_def stored_line_def intro!: filter_none)
qed

lemma svc_VoidJournalEntry_Inr:
  assumes ok: "svc_VoidJournalEntry en pub t i actor w = (Inr je, w')" and inv: "ledger_inv w"
  obtains e r where "e \<in> set (entries w)" and "voidable t i e"
    and "entries w' = update_rows (voidable t i) (er_status_update (\<lambda>_. ''void'')) (entries w) @ [r]"
    and "er_id r = je_ID je" and "er_tenant r = t" and "er_status r = ''posted''" and "er_period r = er_period e"
    and "er_reference r = pgTextFromString (er_number e)" and "\<exists>now. er_posted_at r = Some now"
    and "\<forall>e \<in> set (entries w). er_id e \<noteq> je_ID je"
    and "map amounts (lines_of w' (je_ID je)) = map swapped (sort_key lr_id (lines_of w i))"
    and "\<forall>k. k \<noteq> je_ID je \<longrightarrow> lines_of w' k = lines_of w k"
    and "je_Status je = ''posted''" and "accounts w' = accounts w" and "periods w' = periods w"
    and "\<exists>p \<in> set (periods w). pr_id p = er_period e \<and> pr_status p \<noteq> ''closed''"
    and "\<exists>ls. jlines w' = jlines w @ ls \<and> (\<forall>l \<in> set ls. lr_journal l = je_ID je)"
    and "\<exists>y k. counters w' = (counters w)((t, y) \<mapsto> k)" and "parties w' = parties w" and "contacts w' = contacts w"
    and "published w' = published w @ (if pub then [je] else [])"
proof -
  note run = ok [unfolded svc_VoidJournalEntry_def]
  obtain org w1 where g: "pg_GetJournalEntry en t i w = (Inr org, w1)"
    using run by (auto simp: onErr_InrD elim!: andThen_InrE)
  have st: "je_Status org = ''posted''" using run g by (auto simp: step_simps split: if_splits)
  obtain ls w2 where rl: "forEach (reverse_line en) (je_Lines org) w1 = (Inr ls, w2)"
    using run g st by (auto simp: step_simps elim!: andThen_InrE)
  obtain cr w3 where c: "svc_CreateJournalEntry en (reversing_entry t org ls) w2 = (Inr cr, w3)"
    using run g st rl by (auto simp: step_simps elim!: andThen_InrE)
  obtain w4 where p: "svc_PostJournalEntry en pub t (je_ID cr) actor w3 = (Inr je, w4)"
    using run g st rl c by (auto simp: step_simps elim!: andThen_InrE)
  obtain now w5 where n: "(time_Now en :: (ledger, ledger_err, time) op) w4 = (Inr now, w5)" by (simp add: time_Now_def)
  have v: "pg_UpdateJournalStatus en t i ''void'' actor now w5 = (Inr (), w')"
    using run g st rl c p n by (auto simp: step_simps elim!: andThen_InrE)
  from g obtain e where e: "e \<in> set (entries w)" "er_id e = i" "er_tenant e = t"
    and w1: "untick w1 = untick w"
    and org: "org = (journalEntryFromDB e)\<lparr>je_Lines := map journalLineFromDB (sort_key lr_id (lines_of w i))\<rparr>"
    by (rule pg_GetJournalEntry_Inr)
  have w2: "untick w2 = untick w"
    using same_untickD [OF same_forEach [OF same_reverse_line] rl] w1 by simp
  from c obtain ls' j y k now1 where cr: "cr = (reversing_entry t org ls)\<lparr>je_Lines := ls', je_ID := j,
        je_Status := ''draft'', je_EntryNumber := entry_number y k\<rparr>"
    and ck: "list_all2 (checked_line w2 (je_TenantID (reversing_entry t org ls))) (je_Lines (reversing_entry t org ls)) ls'"
    and w3: "untick w3 = untick (w2\<lparr>counters := (counters w2)((je_TenantID (reversing_entry t org ls), y) \<mapsto> k),
           entries := entries w2 @ [draft_row cr now1], jlines := jlines w2 @ map (stored_line j) ls'\<rparr>)"
    and new: "\<forall>e \<in> set (entries w2). er_id e \<noteq> j"
    by (rule svc_CreateJournalEntry_Inr)
  have inv3: "ledger_inv w3"
    using keepsD [OF keeps_svc_CreateJournalEntry, of w2 en "reversing_entry t org ls"] c inv untick_balanced(3) [OF w2] by simp
  have jcr: "je_ID cr = j" using cr by simp
  from p inv3 obtain e1 now2 where e1: "posting_ok w3 t (je_ID cr) e1" and w4: "untick w4 = untick (w3\<lparr>entries := update_rows (postable t (je_ID cr)) (mark_posted actor now2) (entries w3),
        published := published w3 @ (if pub then [je] else [])\<rparr>)"
    and je: "je_ID je = je_ID cr" "je_Status je = ''posted''"
    by (rule svc_PostJournalEntry_Inr)
  have w5: "untick w5 = untick w4" by (rule same_untickD [OF same_time_Now n])
  note w' = pg_UpdateJournalStatus_void(1) [OF v]
  note views = untick_views [OF w2] untick_views [OF w3] untick_views [OF w4] untick_views [OF w5] untick_views [OF w']
  let ?r = "mark_posted actor now2 (draft_row cr now1)"
  have newj: "\<forall>e \<in> set (entries w). er_id e \<noteq> j" using new views by simp
  have ij: "i \<noteq> j" using newj e by auto
  have cr_ok: "postable t j (draft_row cr now1)" by (simp add: postable_def draft_row_def cr reversing_entry_def)
  have e4: "entries w4 = entries w @ [?r]"
  proof -
    have "update_rows (postable t j) (mark_posted actor now2) (entries w) = entries w"
      by (rule update_rows_none) (use newj in \<open>auto simp: postable_def\<close>)
    moreover have "entries w4 = update_rows (postable t j) (mark_posted actor now2) (entries w @ [draft_row cr now1])"
      using views(3,11,19) by (simp add: jcr)
    moreover have "update_rows (postable t j) (mark_posted actor now2) [draft_row cr now1] = [?r]"
      using cr_ok by (simp add: update_rows_def)
    ultimately show ?thesis by (simp only: update_rows_append)
  qed
  have e': "entries w' = update_rows (voidable t i) (er_status_update (\<lambda>_. ''void'')) (entries w) @ [?r]"
  proof -
    have "entries w' = update_rows (voidable t i) (er_status_update (\<lambda>_. ''void'')) (entries w @ [?r])"
      using views(27,35) e4 by simp
    moreover have "update_rows (voidable t i) (er_status_update (\<lambda>_. ''void'')) [?r] = [?r]"
      using ij by (simp add: update_rows_def voidable_def mark_posted_def draft_row_def cr)
    ultimately show ?thesis by (simp only: update_rows_append)
  qed
  have jl: "jlines w' = jlines w @ map (stored_line j) ls'" using views by simp
  have "e1 = draft_row cr now1"
    using e1 newj jcr views(3,11) by (auto simp: posting_ok_def postable_def)
  then have open_per: "\<exists>p \<in> set (periods w). pr_id p = er_period e \<and> pr_status p \<noteq> ''closed''"
    using e1 views(2,10) by (auto simp: posting_ok_def draft_row_def cr reversing_entry_def org journalEntryFromDB_def)
  have "map amounts (map (stored_line j) ls') = map swapped (sort_key lr_id (lines_of w i))"
  proof (rule stored_reversal)
    show "map (\<lambda>l. (jl_AccountID l, jl_DebitAmount l, jl_CreditAmount l)) ls' =
      map (\<lambda>l. (jl_AccountID l, jl_CreditAmount l, jl_DebitAmount l)) (map journalLineFromDB (sort_key lr_id (lines_of w i)))"
      using checked_lines_amounts [OF ck] reverse_lines_Inr [OF rl] by (simp add: reversing_entry_def org)
    show "\<forall>r \<in> set (sort_key lr_id (lines_of w i)). round2 (lr_debit r) = lr_debit r \<and> round2 (lr_credit r) = lr_credit r"
      using inv by (auto simp: lines_of_def ledger_inv_defs)
  qed
  then have lj: "map amounts (lines_of w' j) = map swapped (sort_key lr_id (lines_of w i))"
    using lines_of_new(1) [OF inv newj jl] by simp
  show thesis
  proof (rule that [of e ?r])
    show "voidable t i e" using e st org by (simp add: voidable_def journalEntryFromDB_def)
    show "er_id ?r = je_ID je" "er_tenant ?r = t" "er_status ?r = ''posted''" "er_period ?r = er_period e"
      "er_reference ?r = pgTextFromString (er_number e)" "\<exists>now. er_posted_at ?r = Some now"
      using je jcr by (simp_all add: mark_posted_def draft_row_def cr reversing_entry_def org journalEntryFromDB_def)
    show "\<exists>ls. jlines w' = jlines w @ ls \<and> (\<forall>l \<in> set ls. lr_journal l = je_ID je)"
      using jl je jcr by (intro exI [of _ "map (stored_line j) ls'"]) (auto simp: stored_line_def)
    show "\<exists>y k. counters w' = (counters w)((t, y) \<mapsto> k)"
      using views by (intro exI [of _ y] exI [of _ k]) (simp add: reversing_entry_def)
  qed (use e e' newj je jcr lj open_per lines_of_new(2) [OF inv newj jl] views in simp_all)
qed

lemma keeps_svc_VoidJournalEntry [keeps_intros]: "keeps ledger_inv (svc_VoidJournalEntry en pub t i actor)"
  unfolding svc_VoidJournalEntry_def by (intro keeps_intros)

end
