(* ===== verification/LedgerRun.thy ===== *)
theory LedgerRun
  imports LedgerEffects
begin

text \<open>
  Runs of the ledger service: a request for every method of \<^verbatim>\<open>service.go\<close>,
  \<^verbatim>\<open>bank_account.go\<close> and \<^verbatim>\<open>party.go\<close>, the state after it, and the two contracts of
  \<open>Service_Spec\<close> interpreted on it: every run keeps the invariant of the books, and a request of
  one tenant leaves the rows of every other tenant alone.
\<close>

section \<open>Requests\<close>

datatype ledger_req =
  CreateAccount Account | GetAccount uuid uuid | ListAccounts uuid int int
| SeedChartOfAccounts uuid "ChartOfAccountEntry list" | SetAccountCostBehavior uuid uuid string
| CreateBankAccount uuid BankAccountInput
| OpenAccountingPeriod uuid int int | ListAccountingPeriods uuid
| CloseAccountingPeriod uuid uuid uuid
| CreateJournalEntry JournalEntry | PostJournalEntry uuid uuid uuid
| GetJournalEntry uuid uuid | ListJournalEntries uuid "uuid option" string int int
| VoidJournalEntry uuid uuid uuid | GetTrialBalance uuid time
| GetMonthlyCostBehavior uuid string string
| CreateParty Party | GetParty uuid uuid | ListParties uuid string bool | UpdateParty Party
| ListPartyTransactions uuid uuid

fun req_tenant :: "ledger_req \<Rightarrow> uuid" where
  "req_tenant (CreateAccount a) = acc_TenantID a"
| "req_tenant (GetAccount t _) = t"
| "req_tenant (ListAccounts t _ _) = t"
| "req_tenant (SeedChartOfAccounts t _) = t"
| "req_tenant (SetAccountCostBehavior t _ _) = t"
| "req_tenant (CreateBankAccount t _) = t"
| "req_tenant (OpenAccountingPeriod t _ _) = t"
| "req_tenant (ListAccountingPeriods t) = t"
| "req_tenant (CloseAccountingPeriod t _ _) = t"
| "req_tenant (CreateJournalEntry je) = je_TenantID je"
| "req_tenant (PostJournalEntry t _ _) = t"
| "req_tenant (GetJournalEntry t _) = t"
| "req_tenant (ListJournalEntries t _ _ _ _) = t"
| "req_tenant (VoidJournalEntry t _ _) = t"
| "req_tenant (GetTrialBalance t _) = t"
| "req_tenant (GetMonthlyCostBehavior t _ _) = t"
| "req_tenant (CreateParty p) = pt_TenantID p"
| "req_tenant (GetParty t _) = t"
| "req_tenant (ListParties t _ _) = t"
| "req_tenant (UpdateParty p) = pt_TenantID p"
| "req_tenant (ListPartyTransactions t _) = t"

text \<open>The state after a request, whatever it returned.\<close>

fun exec_ledger ::
  "env \<Rightarrow> bool \<Rightarrow> (string \<Rightarrow> string option) \<Rightarrow> ledger_req \<Rightarrow> ledger \<Rightarrow> ledger" where
  "exec_ledger en pub mail (CreateAccount a) w = snd (svc_CreateAccount en a w)"
| "exec_ledger en pub mail (GetAccount t i) w = snd (svc_GetAccount en t i w)"
| "exec_ledger en pub mail (ListAccounts t l ofs) w = snd (svc_ListAccounts en t l ofs w)"
| "exec_ledger en pub mail (SeedChartOfAccounts t es) w = snd (svc_SeedChartOfAccounts en t es w)"
| "exec_ledger en pub mail (SetAccountCostBehavior t i cb) w = snd (svc_SetAccountCostBehavior en t i cb w)"
| "exec_ledger en pub mail (CreateBankAccount t inp) w = snd (svc_CreateBankAccount en t inp w)"
| "exec_ledger en pub mail (OpenAccountingPeriod t y m) w = snd (svc_OpenAccountingPeriod en t y m w)"
| "exec_ledger en pub mail (ListAccountingPeriods t) w = snd (svc_ListAccountingPeriods en t w)"
| "exec_ledger en pub mail (CloseAccountingPeriod t i a) w = snd (svc_CloseAccountingPeriod en t i a w)"
| "exec_ledger en pub mail (CreateJournalEntry je) w = snd (svc_CreateJournalEntry en je w)"
| "exec_ledger en pub mail (PostJournalEntry t i a) w = snd (svc_PostJournalEntry en pub t i a w)"
| "exec_ledger en pub mail (GetJournalEntry t i) w = snd (svc_GetJournalEntry en t i w)"
| "exec_ledger en pub mail (ListJournalEntries t p st l ofs) w = snd (svc_ListJournalEntries en t p st l ofs w)"
| "exec_ledger en pub mail (VoidJournalEntry t i a) w = snd (svc_VoidJournalEntry en pub t i a w)"
| "exec_ledger en pub mail (GetTrialBalance t asOf) w = snd (svc_GetTrialBalance en t asOf w)"
| "exec_ledger en pub mail (GetMonthlyCostBehavior t fm to) w = snd (svc_GetMonthlyCostBehavior en t fm to w)"
| "exec_ledger en pub mail (CreateParty p) w = snd (svc_CreateParty en mail p w)"
| "exec_ledger en pub mail (GetParty t i) w = snd (svc_GetParty en t i w)"
| "exec_ledger en pub mail (ListParties t typ b) w = snd (svc_ListParties en t typ b w)"
| "exec_ledger en pub mail (UpdateParty p) w = snd (svc_UpdateParty en mail p w)"
| "exec_ledger en pub mail (ListPartyTransactions t i) w = snd (svc_ListPartyTransactions en t i w)"

section \<open>Every request keeps the invariant\<close>

lemma svc_more_reads [same_intros]:
  "same untick (svc_GetMonthlyCostBehavior en t fm to)" "same untick (svc_ListPartyTransactions en t i)"
  unfolding svc_GetMonthlyCostBehavior_def svc_ListPartyTransactions_def Let_def case_prod_unfold
  by (intro same_intros)+

lemma keeps_pg_CreateAccount [keeps_intros]: "keeps ledger_inv (pg_CreateAccount en a)"
  unfolding pg_CreateAccount_def by (intro keeps_intros)

lemma keeps_seed_entry [keeps_intros]: "keeps ledger_inv (seed_entry en t e)"
  unfolding seed_entry_def by (intro keeps_intros)

lemma keeps_bank_attempts [keeps_intros]: "keeps ledger_inv (bank_attempts en t b l c n err)"
  by (induction n arbitrary: err) (auto intro!: keeps_intros)

lemma keeps_pg_CreateParty [keeps_intros]: "keeps ledger_inv (pg_CreateParty en p)"
  unfolding pg_CreateParty_def insertPartyContact_def by (intro keeps_transact tickless_inv keeps_intros)

lemma keeps_pg_UpdateParty [keeps_intros]: "keeps ledger_inv (pg_UpdateParty en p)"
  unfolding pg_UpdateParty_def insertPartyContact_def by (intro keeps_transact tickless_inv keeps_intros)

lemma keeps_svc_writes [keeps_intros]:
  "keeps ledger_inv (svc_CreateAccount en a)" "keeps ledger_inv (svc_SeedChartOfAccounts en t es)"
  "keeps ledger_inv (svc_SetAccountCostBehavior en t i cb)" "keeps ledger_inv (svc_CreateBankAccount en t inp)"
  "keeps ledger_inv (svc_OpenAccountingPeriod en t y m)" "keeps ledger_inv (svc_CloseAccountingPeriod en t i actor)"
  "keeps ledger_inv (svc_CreateParty en mail p)" "keeps ledger_inv (svc_UpdateParty en mail p)"
  unfolding svc_CreateAccount_def svc_SeedChartOfAccounts_def svc_SetAccountCostBehavior_def
    svc_CreateBankAccount_def svc_OpenAccountingPeriod_def svc_CloseAccountingPeriod_def
    svc_CreateParty_def svc_UpdateParty_def pg_SetAccountCostBehavior_def pg_CreatePeriod_def
    pg_ClosePeriod_def Let_def
  by (intro keeps_intros)+

lemma exec_ledger_inv: "ledger_inv w \<Longrightarrow> ledger_inv (exec_ledger en pub mail r w)"
  by (cases r) (auto intro!: keepsD [where P = ledger_inv] keeps_intros svc_more_reads [THEN keeps_inv_untick])

interpretation books: service "exec_ledger en pub mail" ledger_inv empty_ledger for en pub mail
  by unfold_locales (rule ledger_inv_empty, rule exec_ledger_inv)


section \<open>The rows of a tenant\<close>

definition own_lines :: "uuid \<Rightarrow> ledger \<Rightarrow> line_row list" where
  "own_lines u w =
     (let own = map er_id (filter (\<lambda>e. er_tenant e = u) (entries w))
      in filter (\<lambda>l. lr_journal l \<in> set own) (jlines w))"

record tenant_view =
  tv_accounts :: "account_row list"
  tv_periods :: "period_row list"
  tv_entries :: "entry_row list"
  tv_lines :: "line_row list"
  tv_counters :: "int \<Rightarrow> int option"
  tv_parties :: "party_row list"
  tv_contacts :: "contact_row list"
  tv_published :: "JournalEntry list"

definition tenant_part :: "uuid \<Rightarrow> ledger \<Rightarrow> tenant_view" where
  "tenant_part u w =
     \<lparr>tv_accounts = filter (\<lambda>a. ar_tenant a = u) (accounts w),
      tv_periods = filter (\<lambda>p. pr_tenant p = u) (periods w),
      tv_entries = filter (\<lambda>e. er_tenant e = u) (entries w),
      tv_lines = own_lines u w, tv_counters = (\<lambda>y. counters w (u, y)),
      tv_parties = filter (\<lambda>y. yr_tenant y = u) (parties w),
      tv_contacts = filter (\<lambda>k. kr_tenant k = u) (contacts w),
      tv_published = filter (\<lambda>je. je_TenantID je = u) (published w)\<rparr>"

lemma tenant_part_tickless [simp]: "tickless_view (tenant_part u)"
  by (simp add: tickless_view_def tenant_part_def own_lines_def)

lemma same_part_untick: "same untick m \<Longrightarrow> same (tenant_part u) m"
  by (rule same_of_untick) simp_all

lemmas same_part_reads [same_intros] =
  reads [THEN same_part_untick] pg_reads [THEN same_part_untick] svc_reads [THEN same_part_untick]
  svc_more_reads [THEN same_part_untick]
  same_check_line [THEN same_part_untick] same_reverse_line [THEN same_part_untick]
  same_assignContactIDs [THEN same_part_untick] same_id_or_New [THEN same_part_untick]
  same_uuid_New [THEN same_part_untick] same_time_Now [THEN same_part_untick]

lemma same_part_query:
  "(\<And>now w. tenant_part u (snd (q now w)) = tenant_part u w) \<Longrightarrow> same (tenant_part u) (query en q)"
  by (rule same_query_view) (simp_all add: same_def)

lemma part_table:
  "filter (\<lambda>a. ar_tenant a = u) xs = filter (\<lambda>a. ar_tenant a = u) (accounts w) \<Longrightarrow> tenant_part u (w\<lparr>accounts := xs\<rparr>) = tenant_part u w"
  "filter (\<lambda>p. pr_tenant p = u) ps = filter (\<lambda>p. pr_tenant p = u) (periods w) \<Longrightarrow> tenant_part u (w\<lparr>periods := ps\<rparr>) = tenant_part u w"
  "filter (\<lambda>e. er_tenant e = u) es = filter (\<lambda>e. er_tenant e = u) (entries w) \<Longrightarrow> tenant_part u (w\<lparr>entries := es\<rparr>) = tenant_part u w"
  "filter (\<lambda>y. yr_tenant y = u) ys = filter (\<lambda>y. yr_tenant y = u) (parties w) \<Longrightarrow> tenant_part u (w\<lparr>parties := ys\<rparr>) = tenant_part u w"
  "filter (\<lambda>k. kr_tenant k = u) ks = filter (\<lambda>k. kr_tenant k = u) (contacts w) \<Longrightarrow> tenant_part u (w\<lparr>contacts := ks\<rparr>) = tenant_part u w"
  "t \<noteq> u \<Longrightarrow> tenant_part u (w\<lparr>counters := (counters w)((t, y) \<mapsto> n)\<rparr>) = tenant_part u w"
  by (simp_all add: tenant_part_def own_lines_def)

lemma same_part_writes:
  "ar_tenant a \<noteq> u \<Longrightarrow> same (tenant_part u) (q_CreateAccount en a)"
  "t \<noteq> u \<Longrightarrow> same (tenant_part u) (q_SetAccountCostBehavior en i t cb)"
  "pr_tenant p \<noteq> u \<Longrightarrow> same (tenant_part u) (q_CreateAccountingPeriod en p)"
  "t \<noteq> u \<Longrightarrow> same (tenant_part u) (q_CloseAccountingPeriod en i t by)"
  "t \<noteq> u \<Longrightarrow> same (tenant_part u) (q_NextJournalEntrySeq en t y)"
  "yr_tenant q \<noteq> u \<Longrightarrow> same (tenant_part u) (q_CreateParty en q)"
  "yr_tenant q \<noteq> u \<Longrightarrow> same (tenant_part u) (q_UpdateParty en q)"
  "kr_tenant k \<noteq> u \<Longrightarrow> same (tenant_part u) (q_CreatePartyContact en k)"
  unfolding q_CreateAccount_def q_SetAccountCostBehavior_def q_CreateAccountingPeriod_def
    q_CloseAccountingPeriod_def q_NextJournalEntrySeq_def q_CreateParty_def q_UpdateParty_def
    q_CreatePartyContact_def
  by (rule same_part_query;
      auto simp: Let_def intro!: part_table filter_update_rows split: sum.split)+


lemma same_part_DeletePartyContacts: "t \<noteq> u \<Longrightarrow> same (tenant_part u) (q_DeletePartyContacts en t j)"
  unfolding q_DeletePartyContacts_def
  by (rule same_part_query) (auto simp: tenant_part_def own_lines_def cong: filter_cong intro: arg_cong2 [where f = filter])

lemma same_part_CreateJournalEntry:
  assumes "je_TenantID je \<noteq> u"
  shows "same (tenant_part u) (pg_CreateJournalEntry en je)"
proof (rule same_of_atomic)
  show "atomic untick (pg_CreateJournalEntry en je)"
    unfolding pg_CreateJournalEntry_def by (rule atomic_transact)
  fix w x w' assume "pg_CreateJournalEntry en je w = (Inr x, w')"
  then obtain now where w': "untick w' = untick (w\<lparr>entries := entries w @ [draft_row je now],
                        jlines := jlines w @ map (stored_line (je_ID je)) (je_Lines je)\<rparr>)"
    and new: "\<forall>e \<in> set (entries w). er_id e \<noteq> je_ID je"
    by (rule pg_CreateJournalEntry_Inr)
  have "tenant_part u (w\<lparr>entries := entries w @ [draft_row je now],
                        jlines := jlines w @ map (stored_line (je_ID je)) (je_Lines je)\<rparr>) = tenant_part u w"
    using assms new
    by (auto simp: tenant_part_def own_lines_def draft_row_def stored_line_def filter_empty_conv)
  then show "tenant_part u w' = tenant_part u w"
    using tickless_view_untick [OF tenant_part_tickless w'] by simp
qed simp

lemma same_part_void:
  assumes "t \<noteq> u"
  shows "same (tenant_part u) (pg_UpdateJournalStatus en t i ''void'' actor tm)"
proof (rule same_of_atomic)
  fix w x w' assume run: "pg_UpdateJournalStatus en t i ''void'' actor tm w = (Inr x, w')"
  have "tenant_part u (w\<lparr>entries := update_rows (voidable t i) (er_status_update (\<lambda>_. ''void'')) (entries w)\<rparr>) = tenant_part u w"
    using assms by (auto simp: voidable_def intro!: part_table filter_update_rows)
  then show "tenant_part u w' = tenant_part u w"
    using tickless_view_untick [OF tenant_part_tickless pg_UpdateJournalStatus_void(1) [OF run]] by simp
qed (simp_all add: atomic_pg_UpdateJournalStatus)

text \<open>
  The invariant and the rows of another tenant, kept together: posting needs the invariant to know
  whose entry it publishes.
\<close>

definition framed :: "uuid \<Rightarrow> tenant_view \<Rightarrow> ledger \<Rightarrow> bool" where
  "framed u v w \<longleftrightarrow> ledger_inv w \<and> tenant_part u w = v"

lemma keeps_framed: "keeps ledger_inv m \<Longrightarrow> same (tenant_part u) m \<Longrightarrow> keeps (framed u v) m"
  by (simp add: keeps_def same_def framed_def)

lemma keeps_framed_reads: "same untick m \<Longrightarrow> keeps (framed u v) m"
  by (intro keeps_framed keeps_inv_untick same_part_untick)

lemma keeps_framed_post:
  assumes "t \<noteq> u"
  shows "keeps (framed u v) (svc_PostJournalEntry en pub t i actor)"
proof (rule keepsI)
  fix w assume f: "framed u v w"
  obtain r w' where run: "svc_PostJournalEntry en pub t i actor w = (r, w')" by fastforce
  have inv: "ledger_inv w" using f by (simp add: framed_def)
  have "tenant_part u w' = tenant_part u w"
  proof (cases r)
    case (Inl e)
    then have "untick w' = untick w" using run atomicD [OF atomic_svc_PostJournalEntry] by blast
    then show ?thesis by (rule tickless_view_untick [OF tenant_part_tickless])
  next
    case (Inr je)
    then obtain now where w': "untick w' = untick (w\<lparr>entries := update_rows (postable t i) (mark_posted actor now) (entries w),
                               published := published w @ (if pub then [je] else [])\<rparr>)"
      and t: "je_TenantID je = t"
      using run inv by (auto elim: svc_PostJournalEntry_Inr)
    have "tenant_part u (w\<lparr>entries := update_rows (postable t i) (mark_posted actor now) (entries w)\<rparr>) = tenant_part u w"
      using assms by (auto simp: postable_def mark_posted_def intro!: part_table filter_update_rows)
    then have "tenant_part u (w\<lparr>entries := update_rows (postable t i) (mark_posted actor now) (entries w),
                               published := published w @ (if pub then [je] else [])\<rparr>) = tenant_part u w"
      using t assms by (simp add: tenant_part_def own_lines_def)
    then show ?thesis using tickless_view_untick [OF tenant_part_tickless w'] by simp
  qed
  then show "framed u v (snd (svc_PostJournalEntry en pub t i actor w))"
    using f run keepsD [OF keeps_svc_PostJournalEntry inv, of en pub t i actor] by (simp add: framed_def)
qed


lemma same_part_pg_CreateAccount: "acc_TenantID a \<noteq> u \<Longrightarrow> same (tenant_part u) (pg_CreateAccount en a)"
  unfolding pg_CreateAccount_def by (intro same_intros same_part_writes) simp

lemma same_part_seed_entry: "t \<noteq> u \<Longrightarrow> same (tenant_part u) (seed_entry en t e)"
  unfolding seed_entry_def by (intro same_intros same_part_pg_CreateAccount) simp

lemma same_part_bank: "t \<noteq> u \<Longrightarrow> same (tenant_part u) (bank_attempts en t b l c n err)"
  by (induction n arbitrary: err) (auto simp: bank_account_def intro!: same_intros same_part_pg_CreateAccount)

lemma same_part_contact: "t \<noteq> u \<Longrightarrow> same (tenant_part u) (insertPartyContact en t k)"
  unfolding insertPartyContact_def by (intro same_intros same_part_writes) simp

lemma same_part_pg_CreateParty: "pt_TenantID p \<noteq> u \<Longrightarrow> same (tenant_part u) (pg_CreateParty en p)"
  unfolding pg_CreateParty_def
  by (intro same_transact_view tenant_part_tickless same_intros same_part_writes same_part_contact)
    (simp_all add: party_row_of_def)

lemma same_part_pg_UpdateParty: "pt_TenantID p \<noteq> u \<Longrightarrow> same (tenant_part u) (pg_UpdateParty en p)"
  unfolding pg_UpdateParty_def
  by (intro same_transact_view tenant_part_tickless same_intros same_part_writes same_part_contact
      same_part_DeletePartyContacts) (simp_all add: party_row_of_def)

lemma normalizeParty_tenant: "normalizeParty mail p = Inr p' \<Longrightarrow> pt_TenantID p' = pt_TenantID p"
  by (auto simp: normalizeParty_def Let_def split: if_splits sum.splits)


lemma assignContactIDs_tenant: "assignContactIDs en p w = (Inr p', w') \<Longrightarrow> pt_TenantID p' = pt_TenantID p"
  by (auto simp: assignContactIDs_def elim!: andThen_InrE)

lemma same_part_party_writes:
  "pt_TenantID p \<noteq> u \<Longrightarrow> same (tenant_part u) (svc_CreateParty en mail p)"
  "pt_TenantID p \<noteq> u \<Longrightarrow> same (tenant_part u) (svc_UpdateParty en mail p)"
  unfolding svc_CreateParty_def svc_UpdateParty_def
  by (cases "normalizeParty mail p";
      auto intro!: same_intros same_part_pg_CreateParty same_part_pg_UpdateParty
        same_andThen_result [where m = "assignContactIDs _ _"]
      dest!: assignContactIDs_tenant normalizeParty_tenant)+

lemma same_part_svc_writes:
  "acc_TenantID a \<noteq> u \<Longrightarrow> same (tenant_part u) (svc_CreateAccount en a)"
  "t \<noteq> u \<Longrightarrow> same (tenant_part u) (svc_SeedChartOfAccounts en t es)"
  "t \<noteq> u \<Longrightarrow> same (tenant_part u) (svc_SetAccountCostBehavior en t i cb)"
  "t \<noteq> u \<Longrightarrow> same (tenant_part u) (svc_CreateBankAccount en t inp)"
  "t \<noteq> u \<Longrightarrow> same (tenant_part u) (svc_OpenAccountingPeriod en t y m)"
  "t \<noteq> u \<Longrightarrow> same (tenant_part u) (svc_CloseAccountingPeriod en t i actor)"
  "je_TenantID je \<noteq> u \<Longrightarrow> same (tenant_part u) (svc_CreateJournalEntry en je)"
  unfolding svc_CreateAccount_def svc_SeedChartOfAccounts_def svc_SetAccountCostBehavior_def
    svc_CreateBankAccount_def svc_OpenAccountingPeriod_def svc_CloseAccountingPeriod_def
    svc_CreateJournalEntry_def pg_SetAccountCostBehavior_def pg_CreatePeriod_def pg_ClosePeriod_def
    pg_AllocateEntryNumber_def Let_def
  by (intro same_intros same_part_writes same_part_pg_CreateAccount same_part_seed_entry same_part_bank
      same_part_CreateJournalEntry; simp)+

lemma keeps_framed_void:
  assumes "t \<noteq> u"
  shows "keeps (framed u v) (svc_VoidJournalEntry en pub t i actor)"
  unfolding svc_VoidJournalEntry_def
  by (intro keeps_andThen keeps_onErr keeps_if keeps_fail keeps_ret keeps_framed_post assms
      keeps_framed_reads pg_reads same_forEach same_reverse_line same_time_Now
      keeps_framed [OF keeps_svc_CreateJournalEntry same_part_svc_writes(7)]
      keeps_framed [OF keeps_pg_void same_part_void]) (simp add: reversing_entry_def assms)

lemma exec_ledger_part:
  assumes "ledger_inv w" and "u \<noteq> req_tenant r"
  shows "tenant_part u (exec_ledger en pub mail r w) = tenant_part u w"
proof -
  have f: "framed u (tenant_part u w) w" using assms(1) by (simp add: framed_def)
  have post: "tenant_part u (snd (svc_PostJournalEntry en pub t i actor w)) = tenant_part u w" if "t \<noteq> u" for t i actor
    using keepsD [OF keeps_framed_post [OF that] f] by (simp add: framed_def)
  have void: "tenant_part u (snd (svc_VoidJournalEntry en pub t i actor w)) = tenant_part u w" if "t \<noteq> u" for t i actor
    using keepsD [OF keeps_framed_void [OF that] f] by (simp add: framed_def)
  show ?thesis using assms(2)
    by (cases r) (auto simp: post void intro!: sameD [where f = "tenant_part u"] same_intros
        same_part_svc_writes same_part_party_writes)
qed

interpretation books: tenant_service "exec_ledger en pub mail" ledger_inv empty_ledger req_tenant tenant_part
  for en pub mail
  by unfold_locales (rule exec_ledger_part)

end
