(* ===== verification/LedgerDemo.thy ===== *)
theory LedgerDemo
  imports LedgerRun
begin

text \<open>
  A small concrete run of the ledger on which the properties are shown to apply: a tenant with a
  cash and a rent account and an open period books, posts and voids an entry.
\<close>

definition demo_env :: env where
  "demo_env = \<lparr>env_uuid = (\<lambda>n. 30 + n), env_now = (\<lambda>n. 1772000000 + int n), env_fail = (\<lambda>_. False)\<rparr>"

definition no_mail :: "string \<Rightarrow> string option" where
  "no_mail s = None"

definition demo_account :: "uuid \<Rightarrow> string \<Rightarrow> string \<Rightarrow> Account" where
  "demo_account i c typ = \<lparr>acc_ID = i, acc_TenantID = 7, acc_Code = c, acc_Name = ''A'', acc_AccountType = typ,
     acc_ParentID = None, acc_IsActive = True, acc_BankName = '''', acc_AccountLast4 = '''',
     acc_CostBehavior = '''', acc_BankCurrency = ''''\<rparr>"

definition demo_line :: "uuid \<Rightarrow> uuid \<Rightarrow> decimal \<Rightarrow> decimal \<Rightarrow> JournalLine" where
  "demo_line i a d c = \<lparr>jl_ID = i, jl_JournalID = 0, jl_AccountID = a, jl_DebitAmount = d, jl_CreditAmount = c,
     jl_Currency = ''USD'', jl_Description = '''', jl_PartyID = None\<rparr>"

definition demo_entry :: "uuid \<Rightarrow> uuid \<Rightarrow> JournalLine list \<Rightarrow> JournalEntry" where
  "demo_entry i per ls = \<lparr>je_ID = i, je_TenantID = 7, je_ProductionID = None, je_PeriodID = per,
     je_EntryNumber = '''', je_Reference = '''', je_Narration = ''rent'', je_Status = '''', je_Lines = ls,
     je_PostedBy = None, je_PostedAt = None, je_CreatedAt = 0\<rparr>"

definition demo_setup :: "ledger_req list" where
  "demo_setup = [CreateAccount (demo_account 1 ''1000'' ''asset''), CreateAccount (demo_account 2 ''5000'' ''expense''),
     OpenAccountingPeriod 7 2026 2]"

definition demo_run :: "ledger_req list \<Rightarrow> ledger" where
  "demo_run rs = fold (exec_ledger demo_env True no_mail) rs empty_ledger"

definition demo_rent :: JournalEntry where
  "demo_rent = demo_entry 11 32 [demo_line 21 2 100 0, demo_line 22 1 0 100]"

definition demo_draft :: "ledger_req list" where
  "demo_draft = demo_setup @ [CreateJournalEntry demo_rent]"

definition demo_posted :: "ledger_req list" where
  "demo_posted = demo_draft @ [PostJournalEntry 7 11 9]"


lemma demo_calm: "calm demo_env"
  by (simp add: calm_def demo_env_def)

lemma demo_uuids: "proper_uuids demo_env"
  by (simp add: proper_uuids_def demo_env_def)

lemma demo_inv: "ledger_inv (demo_run rs)"
  unfolding demo_run_def by (rule books.inv_run)

lemma demo_run_more: "demo_run (rs @ rs') = fold (exec_ledger demo_env True no_mail) rs' (demo_run rs)"
  by (simp add: demo_run_def)


text \<open>The calls that the properties are applied to succeed.\<close>

lemma ran: "\<not> isl (fst p) \<Longrightarrow> \<exists>x. p = (Inr x, snd p)"
  by (metis prod.collapse isl_def sum.exhaust)

lemma demo_creates:
  "\<exists>je. svc_CreateJournalEntry demo_env demo_rent (demo_run demo_setup)
     = (Inr je, snd (svc_CreateJournalEntry demo_env demo_rent (demo_run demo_setup)))"
  by (rule ran) code_simp

lemma demo_posts:
  "\<exists>je. svc_PostJournalEntry demo_env True 7 11 9 (demo_run demo_draft)
     = (Inr je, snd (svc_PostJournalEntry demo_env True 7 11 9 (demo_run demo_draft)))"
  by (rule ran) code_simp

lemma demo_voids:
  "\<exists>je. svc_VoidJournalEntry demo_env True 7 11 9 (demo_run demo_posted)
     = (Inr je, snd (svc_VoidJournalEntry demo_env True 7 11 9 (demo_run demo_posted)))"
  by (rule ran) code_simp

end
