(* ===== verification/LedgerAccounts.thy ===== *)
theory LedgerAccounts
  imports LedgerDemo
begin

text \<open>
  Properties of accounts: what a created bank account holds, and what happens when a code is
  already taken.
\<close>

section \<open>Codes that are taken\<close>

definition row_of_account :: "Account \<Rightarrow> account_row" where
  "row_of_account a = \<lparr>ar_id = acc_ID a, ar_tenant = acc_TenantID a, ar_code = acc_Code a, ar_name = acc_Name a,
     ar_type = acc_AccountType a, ar_parent = acc_ParentID a, ar_active = acc_IsActive a,
     ar_bank = pgTextFromString (acc_BankName a), ar_last4 = pgTextFromString (acc_AccountLast4 a),
     ar_currency = pgTextFromString (acc_BankCurrency a), ar_behavior = None\<rparr>"

definition code_taken :: "ledger \<Rightarrow> uuid \<Rightarrow> string \<Rightarrow> bool" where
  "code_taken w t c \<longleftrightarrow> (\<exists>a \<in> set (accounts w). ar_tenant a = t \<and> ar_code a = c)"

lemma pg_CreateAccount_taken:
  assumes "calm en" and "account_checks (row_of_account a)" and "code_taken w (acc_TenantID a) (acc_Code a)"
  shows "pg_CreateAccount en a w = (Inl (Wrap ''ledger: create account'' (DbErr ErrNoRows)), w\<lparr>tick := Suc (tick w)\<rparr>)"
  using assms
  by (auto simp: pg_CreateAccount_def q_CreateAccount_def query_calm Let_def andThen_def onErr_def
      isUniqueViolation_def row_of_account_def code_taken_def)

text \<open>
  Creating an account under a code that the tenant already uses returns an error that
  wraps the driver's no-rows error: the sentinel for a taken code is not returned.
\<close>

lemma CreateAccount_taken_code:
  assumes "calm en" and "isValidAccountType (acc_AccountType a)" and "acc_ID a \<noteq> uuid_Nil"
    and "account_checks (row_of_account a)" and "code_taken w (acc_TenantID a) (acc_Code a)"
  shows "fst (svc_CreateAccount en a w) =
    Inl (Wrap ''ledger: create account'' (Wrap ''ledger: create account'' (DbErr ErrNoRows)))"
proof -
  let ?a = "a\<lparr>acc_IsActive := True\<rparr>"
  have "account_checks (row_of_account ?a)" using assms(4) by (auto simp: account_checks_def row_of_account_def)
  from pg_CreateAccount_taken [OF assms(1) this] assms show ?thesis
    by (simp add: svc_CreateAccount_def id_or_New_def onErr_def del: isValidAccountType.simps)
qed

definition seed_account :: "uuid \<Rightarrow> uuid \<Rightarrow> ChartOfAccountEntry \<Rightarrow> Account" where
  "seed_account i t entry = \<lparr>acc_ID = i, acc_TenantID = t, acc_Code = coa_Code entry, acc_Name = coa_Name entry,
     acc_AccountType = coa_AccountType entry, acc_ParentID = None, acc_IsActive = True, acc_BankName = '''',
     acc_AccountLast4 = '''', acc_CostBehavior = '''', acc_BankCurrency = ''''\<rparr>"

text \<open>
  Seeding a chart of accounts whose first entry is a top-level account that exists
  already stops there with an error, and none of the remaining entries is created.
\<close>

lemma SeedChartOfAccounts_existing_entry:
  assumes "calm en" and "coa_ParentCode entry = None" and "isValidAccountType (coa_AccountType entry)"
    and "code_taken w t (coa_Code entry)"
  shows "outcome (fst (svc_SeedChartOfAccounts en t (entry # es) w)) = Some None
     \<and> accounts (snd (svc_SeedChartOfAccounts en t (entry # es) w)) = accounts w"
proof -
  let ?a = "seed_account (env_uuid en (tick w)) t entry"
  have "account_checks (row_of_account ?a)"
    using assms(3) by (auto simp: account_checks_def row_of_account_def seed_account_def pgTextFromString_def account_types_def)
  moreover have "code_taken (w\<lparr>tick := n\<rparr>) (acc_TenantID ?a) (acc_Code ?a)" for n
    using assms(4) by (simp add: code_taken_def seed_account_def)
  ultimately have "pg_CreateAccount en ?a (w\<lparr>tick := Suc (tick w)\<rparr>) =
      (Inl (Wrap ''ledger: create account'' (DbErr ErrNoRows)), w\<lparr>tick := Suc (Suc (tick w))\<rparr>)"
    using pg_CreateAccount_taken [OF assms(1)] by simp
  then show ?thesis using assms(2)
    by (simp add: svc_SeedChartOfAccounts_def seed_entry_def andThen_def inspect_def uuid_New_def seed_account_def
        isAccountCodeExists_def outcome_def)
qed

definition demo_seed :: ChartOfAccountEntry where
  "demo_seed = \<lparr>coa_Code = ''1000'', coa_Name = ''Cash'', coa_AccountType = ''asset'', coa_ParentCode = None\<rparr>"

section \<open>Bank accounts\<close>

lemma atoi_four: "atoi [a, b, c, d] = 1000 * digit_val a + 100 * digit_val b + 10 * digit_val c + digit_val d"
  by (simp add: atoi_def)

lemma bank_code_range: "is_bank_code s \<Longrightarrow> 1000 \<le> atoi s \<and> atoi s \<le> 1999"
proof -
  assume b: "is_bank_code s"
  then have "length s = 4" by (simp add: is_bank_code_def)
  then obtain a c d e where s: "s = [a, c, d, e]"
    by (auto simp: length_Suc_conv eval_nat_numeral)
  have one: "digit_val (CHR ''1'') = 1" by code_simp
  from b s have "a = CHR ''1''" and "digit_val c < 10" "digit_val d < 10" "digit_val e < 10"
    by (auto simp: is_bank_code_def intro: digit_val_less)
  then show ?thesis by (simp add: s atoi_four one)
qed

lemma foldr_max_range: "(\<And>x. x \<in> set xs \<Longrightarrow> lo \<le> x \<and> x \<le> hi) \<Longrightarrow> foldr max xs (0::nat) = 0 \<or> (lo \<le> foldr max xs 0 \<and> foldr max xs 0 \<le> hi)"
  by (induction xs) (auto simp: max_def)

lemma next_bank_code:
  assumes "pg_NextBankAccountCode en t w = (Inr h, w')" and "nextBankCode h = Inr c"
  shows "\<exists>n. c = itoa n \<and> 1000 \<le> n \<and> n \<le> 1999"
proof -
  let ?cs = "map (\<lambda>a. atoi (ar_code a)) (filter (\<lambda>a. ar_tenant a = t \<and> is_bank_code (ar_code a)) (accounts w))"
  have "foldr max ?cs 0 = 0 \<or> (1000 \<le> foldr max ?cs 0 \<and> foldr max ?cs 0 \<le> 1999)"
    by (rule foldr_max_range) (auto dest: bank_code_range)
  moreover have "h = int (foldr max ?cs 0)"
    using assms(1) by (auto simp: pg_NextBankAccountCode_def onErr_InrD q_NextBankAccountCode_def query_def Let_def split: if_splits)
  ultimately have "h = 0 \<or> (1000 \<le> h \<and> h \<le> 1999)" by linarith
  then show ?thesis
  proof
    assume "h = 0"
    then have "c = itoa 1000" using assms(2) by (simp add: nextBankCode_def del: itoa.simps)
    then show ?thesis by (intro exI [of _ 1000]) simp
  next
    assume "1000 \<le> h \<and> h \<le> 1999"
    then have "c = itoa (nat (h + 10)) \<and> nat (h + 10) \<le> 1999 \<and> 1000 \<le> nat (h + 10)"
      using assms(2) by (auto simp: nextBankCode_def Let_def simp del: itoa.simps split: if_splits)
    then show ?thesis by blast
  qed
qed

lemma pg_CreateAccount_Inr:
  assumes "pg_CreateAccount en a w = (Inr a', w')"
  shows "untick w' = untick (w\<lparr>accounts := accounts w @ [row_of_account a]\<rparr>)" "a' = a"
    "\<not> code_taken w (acc_TenantID a) (acc_Code a)" "account_checks (row_of_account a)"
  using assms
  by (auto simp: pg_CreateAccount_def q_CreateAccount_def query_def Let_def onErr_InrD row_of_account_def code_taken_def untick_def
      elim!: andThen_InrE split: if_splits)

lemma pg_CreateAccount_Inl:
  assumes "pg_CreateAccount en a w = (Inl e, w')" and "acc_ID a \<noteq> uuid_Nil"
  shows "untick w' = untick w"
  using assms
  by (auto simp: pg_CreateAccount_def q_CreateAccount_def query_def Let_def andThen_def onErr_def
      split: prod.splits sum.splits if_splits)

lemma bank_attempts_Inr:
  assumes ids: "proper_uuids en"
  shows "bank_attempts en t b l c n err w = (Inr a, w') \<Longrightarrow>
     \<exists>i k. a = bank_account i t (itoa k) b l c \<and> 1000 \<le> k \<and> k \<le> 1999 \<and> \<not> code_taken w t (itoa k)
       \<and> untick w' = untick (w\<lparr>accounts := accounts w @ [row_of_account a]\<rparr>)"
proof (induction n arbitrary: err w)
  case (Suc n)
  obtain h w1 where h: "pg_NextBankAccountCode en t w = (Inr h, w1)"
    using Suc.prems by (auto simp: onErr_InrD elim!: andThen_InrE)
  obtain cd where cd: "nextBankCode h = Inr cd" using Suc.prems h by (auto simp: step_simps split: sum.splits)
  obtain i w2 where i: "(uuid_New en :: (ledger, ledger_err, uuid) op) w1 = (Inr i, w2)" by (simp add: uuid_New_def)
  have "untick w1 = untick w" by (rule same_untickD [OF pg_reads(1) h])
  then have w2: "untick w2 = untick w" using same_untickD [OF same_uuid_New i] by simp
  obtain r w3 where r: "pg_CreateAccount en (bank_account i t cd b l c) w2 = (r, w3)" by fastforce
  show ?case
  proof (cases r)
    case (Inl e)
    have "i \<noteq> uuid_Nil" using ids i by (auto simp: proper_uuids_def uuid_New_def)
    then have u: "untick w3 = untick w2"
      by (intro pg_CreateAccount_Inl [OF r [unfolded Inl]]) (simp add: bank_account_def)
    have "bank_attempts en t b l c n e w3 = (Inr a, w')"
      using Suc.prems h cd i r Inl by (auto simp: step_simps inspect_def split: if_splits)
    from Suc.IH [OF this] obtain j k where "a = bank_account j t (itoa k) b l c" "1000 \<le> k" "k \<le> 1999"
      "\<not> code_taken w3 t (itoa k)" and w': "untick w' = untick (w3\<lparr>accounts := accounts w3 @ [row_of_account a]\<rparr>)" by blast
    moreover have "untick w' = untick (w\<lparr>accounts := accounts w @ [row_of_account a]\<rparr>)"
      using untick_views [OF w'] untick_views [OF u] untick_views [OF w2] by (intro untick_eqI) simp_all
    ultimately show ?thesis using untick_views [OF u] untick_views [OF w2] by (auto simp: code_taken_def)
  next
    case (Inr a')
    have a: "a = a'" "w' = w3" using Suc.prems h cd i r Inr by (auto simp: step_simps inspect_def)
    note eff = pg_CreateAccount_Inr [OF r [unfolded Inr]]
    obtain k where "cd = itoa k" "1000 \<le> k" "k \<le> 1999" using next_bank_code [OF h cd] by blast
    moreover have "untick w' = untick (w\<lparr>accounts := accounts w @ [row_of_account a]\<rparr>)"
      using untick_views [OF eff(1)] untick_views [OF w2] a eff(2) by (intro untick_eqI) simp_all
    ultimately show ?thesis using eff a untick_views [OF w2] by (auto simp: code_taken_def bank_account_def)
  qed
qed simp

text \<open>Two account numbers are admissible alike and end in the same four digits.\<close>

definition same_ending :: "string \<Rightarrow> string \<Rightarrow> bool" where
  "same_ending n n' \<longleftrightarrow> (let ds = bank_digits n; ds' = bank_digits n' in
     4 \<le> length ds' \<and> (\<forall>c \<in> set ds'. is_digit c) \<and> drop (length ds - 4) ds = drop (length ds' - 4) ds')"

text \<open>
  C16: a created bank account is one new active asset account of the tenant under an unused code from
  1000 to 1999. Every field of the stored row is fixed: its name is that of the bank with the last four
  digits of the account number, its currency a three-letter code, the texts not named are empty, and no
  other table changes. Of the account number nothing but the last four digits has any influence: for
  another number that is admissible and ends in the same four digits, the call gives the same answer and
  leaves the same state.
\<close>

theorem CreateBankAccount_effect:
  assumes ids: "proper_uuids en" and ok: "svc_CreateBankAccount en t inp w = (Inr a, w')"
  shows "\<exists>i k last4. a = \<lparr>acc_ID = i, acc_TenantID = t, acc_Code = itoa k,
         acc_Name = TrimSpace (bi_BankName inp) @ '' (ending '' @ last4 @ '')'', acc_AccountType = ''asset'', acc_ParentID = None,
         acc_IsActive = True, acc_BankName = TrimSpace (bi_BankName inp), acc_AccountLast4 = last4, acc_CostBehavior = '''',
         acc_BankCurrency = ToUpper (TrimSpace (bi_Currency inp))\<rparr>
     \<and> 1000 \<le> k \<and> k \<le> 1999 \<and> \<not> code_taken w t (itoa k)
     \<and> (\<exists>pre. bank_digits (bi_AccountNumber inp) = pre @ last4) \<and> four_digits last4 \<and> three_letters (acc_BankCurrency a)
     \<and> untick w' = untick (w\<lparr>accounts := accounts w @ [row_of_account a]\<rparr>)
     \<and> (\<forall>number. same_ending (bi_AccountNumber inp) number
           \<longrightarrow> svc_CreateBankAccount en t (inp\<lparr>bi_AccountNumber := number\<rparr>) w = (Inr a, w'))"
proof -
  let ?ds = "bank_digits (bi_AccountNumber inp)"
  have ds: "4 \<le> length ?ds" "\<forall>c \<in> set ?ds. is_digit c" "three_letters (ToUpper (TrimSpace (bi_Currency inp)))"
    and name: "TrimSpace (bi_BankName inp) \<noteq> ''''" "\<not> 100 < length (TrimSpace (bi_BankName inp))"
    and run: "bank_attempts en t (TrimSpace (bi_BankName inp)) (drop (length ?ds - 4) ?ds)
        (ToUpper (TrimSpace (bi_Currency inp))) 3 (Opaque '''') w = (Inr a, w')"
    using ok by (auto simp: svc_CreateBankAccount_def Let_def split: if_splits)
  from bank_attempts_Inr [OF ids run] obtain i k where a: "a = bank_account i t (itoa k) (TrimSpace (bi_BankName inp))
        (drop (length ?ds - 4) ?ds) (ToUpper (TrimSpace (bi_Currency inp)))"
    and k: "1000 \<le> k" "k \<le> 1999" "\<not> code_taken w t (itoa k)"
    and w': "untick w' = untick (w\<lparr>accounts := accounts w @ [row_of_account a]\<rparr>)" by blast
  have "four_digits (drop (length ?ds - 4) ?ds)" using ds by (auto simp: four_digits_def dest: in_set_dropD)
  moreover have "\<exists>pre. ?ds = pre @ drop (length ?ds - 4) ?ds" by (metis append_take_drop_id)
  moreover have "svc_CreateBankAccount en t (inp\<lparr>bi_AccountNumber := number\<rparr>) w = (Inr a, w')"
    if "same_ending (bi_AccountNumber inp) number" for number
    using that run ds name by (simp add: svc_CreateBankAccount_def same_ending_def Let_def)
  ultimately show ?thesis using k w' ds(3) a unfolding bank_account_def
    by (intro exI [of _ i] exI [of _ k] exI [of _ "drop (length ?ds - 4) ?ds"]) (simp del: itoa.simps)
qed

definition demo_bank :: BankAccountInput where
  "demo_bank = \<lparr>bi_BankName = ''SBI'', bi_AccountNumber = ''12-345 678'', bi_Currency = ''inr''\<rparr>"

theorem CreateBankAccount_effect_witness:
  "\<exists>a. fst (svc_CreateBankAccount demo_env 7 demo_bank empty_ledger) = Inr a \<and> four_digits (acc_AccountLast4 a)"
proof -
  have "\<not> isl (fst (svc_CreateBankAccount demo_env 7 demo_bank empty_ledger))" by code_simp
  then obtain a where a: "svc_CreateBankAccount demo_env 7 demo_bank empty_ledger
      = (Inr a, snd (svc_CreateBankAccount demo_env 7 demo_bank empty_ledger))" using ran by blast
  from CreateBankAccount_effect [OF demo_uuids this] have "four_digits (acc_AccountLast4 a)" by force
  then show ?thesis using a by (metis fst_conv)
qed

end
