(* ===== verification/LedgerJournal.thy ===== *)
theory LedgerJournal
  imports LedgerRun
begin

text \<open>
  The journal as a state machine: an entry goes from draft to posted to void and never back, its
  identity and its lines never change, and entries and lines are only ever added. Shown for every
  request of the service, with the invariant at hand.
\<close>

inductive entry_step :: "string \<Rightarrow> string \<Rightarrow> bool" where
  post: "entry_step ''draft'' ''posted''"
| void: "entry_step ''posted'' ''void''"

inductive_cases entry_step_voidE: "entry_step ''void'' s"

definition entry_moves :: "entry_row \<Rightarrow> entry_row \<Rightarrow> bool" where
  "entry_moves e e' \<longleftrightarrow> e' = e\<lparr>er_status := er_status e', er_posted_by := er_posted_by e', er_posted_at := er_posted_at e'\<rparr>
     \<and> entry_step\<^sup>*\<^sup>* (er_status e) (er_status e')"

text \<open>Every entry is still there, moved along; new entries and their lines follow.\<close>

definition append_only :: "ledger \<Rightarrow> ledger \<Rightarrow> bool" where
  "append_only w w' \<longleftrightarrow>
     (\<exists>es. list_all2 entry_moves (entries w) es \<and> (\<exists>new. entries w' = es @ new))
   \<and> (\<exists>ls. jlines w' = jlines w @ ls \<and> (\<forall>l \<in> set ls. lr_journal l \<notin> er_id ` set (entries w)))"

lemma entry_moves_refl [simp]: "entry_moves e e"
  by (simp add: entry_moves_def)

lemma entry_moves_trans: "entry_moves e1 e2 \<Longrightarrow> entry_moves e2 e3 \<Longrightarrow> entry_moves e1 e3"
  unfolding entry_moves_def
  by (cases e1; cases e2; cases e3) (auto intro: rtranclp_trans)

lemma entry_moves_id: "entry_moves e e' \<Longrightarrow> er_id e' = er_id e"
  by (cases e; cases e') (simp add: entry_moves_def)

lemma append_only_refl [simp]: "append_only w w"
  unfolding append_only_def
  by (intro conjI exI [of _ "entries w"] exI [of _ "[]"] list_all2_refl) auto

lemma moved_ids: "list_all2 entry_moves xs ys \<Longrightarrow> map er_id ys = map er_id xs"
  by (induction rule: list_all2_induct) (auto simp: entry_moves_id)

lemma append_only_trans:
  assumes "append_only w1 w2" and "append_only w2 w3"
  shows "append_only w1 w3"
proof -
  obtain es2 n2 ls2 where 2: "list_all2 entry_moves (entries w1) es2" "entries w2 = es2 @ n2"
    "jlines w2 = jlines w1 @ ls2" "\<forall>l \<in> set ls2. lr_journal l \<notin> er_id ` set (entries w1)"
    using assms(1) by (auto simp: append_only_def)
  obtain es3 n3 ls3 where 3: "list_all2 entry_moves (entries w2) es3" "entries w3 = es3 @ n3"
    "jlines w3 = jlines w2 @ ls3" "\<forall>l \<in> set ls3. lr_journal l \<notin> er_id ` set (entries w2)"
    using assms(2) by (auto simp: append_only_def)
  obtain xs ys where s: "es3 = xs @ ys" "list_all2 entry_moves es2 xs"
    using 2(2) 3(1) by (auto simp: list_all2_append1)
  have "list_all2 entry_moves (entries w1) xs"
    by (rule list_all2_trans [OF entry_moves_trans 2(1) s(2)])
  moreover have "er_id ` set (entries w1) \<subseteq> er_id ` set (entries w2)"
    using moved_ids [OF 2(1)] 2(2) by (metis image_mono list.set_map set_append sup_ge1)
  ultimately show ?thesis using 2 3 s unfolding append_only_def
    by (intro conjI exI [of _ xs] exI [of _ "ys @ n3"] exI [of _ "ls2 @ ls3"]) auto
qed

lemma append_only_untick:
  "untick w1 = untick w1' \<Longrightarrow> append_only w w1 = append_only w w1'"
  using untick_views [of w1 w1'] by (simp add: append_only_def)

text \<open>What an operation has to keep.\<close>

definition journaled :: "ledger \<Rightarrow> ledger \<Rightarrow> bool" where
  "journaled w0 w \<longleftrightarrow> ledger_inv w \<and> append_only w0 w"

definition journal_view :: "ledger \<Rightarrow> entry_row list \<times> line_row list" where
  "journal_view w = (entries w, jlines w)"

lemma journal_view_tickless [simp]: "tickless_view journal_view"
  by (simp add: tickless_view_def journal_view_def)

lemma append_only_view: "journal_view w1 = journal_view w2 \<Longrightarrow> append_only w0 w1 = append_only w0 w2"
  by (simp add: journal_view_def append_only_def)

lemma keeps_journaled:
  assumes "keeps ledger_inv m" and "same journal_view m"
  shows "keeps (journaled w0) m"
proof (rule keepsI)
  fix w assume "journaled w0 w"
  then have "ledger_inv (snd (m w))" and "append_only w0 w"
    using keepsD [OF assms(1), of w] by (simp_all only: journaled_def)
  moreover have "append_only w0 (snd (m w)) = append_only w0 w"
    by (rule append_only_view [OF sameD [OF assms(2)]])
  ultimately show "journaled w0 (snd (m w))" by (simp only: journaled_def)
qed

lemma same_journal_untick: "same untick m \<Longrightarrow> same journal_view m"
  by (rule same_of_untick) simp_all

lemma keeps_journaled_reads: "same untick m \<Longrightarrow> keeps (journaled w0) m"
  by (rule keeps_journaled [OF keeps_inv_untick same_journal_untick])

lemmas same_journal_reads [same_intros] =
  reads [THEN same_journal_untick] pg_reads [THEN same_journal_untick] svc_reads [THEN same_journal_untick]
  svc_more_reads [THEN same_journal_untick] same_assignContactIDs [THEN same_journal_untick]
  same_id_or_New [THEN same_journal_untick] same_uuid_New [THEN same_journal_untick]
  same_time_Now [THEN same_journal_untick]

lemma same_journal_writes [same_intros]:
  "same journal_view (q_CreateAccount en a)" "same journal_view (q_SetAccountCostBehavior en i t cb)"
  "same journal_view (q_CreateAccountingPeriod en p)" "same journal_view (q_CloseAccountingPeriod en i t by)"
  "same journal_view (q_NextJournalEntrySeq en t y)" "same journal_view (q_CreateParty en q)"
  "same journal_view (q_UpdateParty en q)" "same journal_view (q_CreatePartyContact en k)"
  "same journal_view (q_DeletePartyContacts en t j)"
  unfolding q_CreateAccount_def q_SetAccountCostBehavior_def q_CreateAccountingPeriod_def
    q_CloseAccountingPeriod_def q_NextJournalEntrySeq_def q_CreateParty_def q_UpdateParty_def
    q_CreatePartyContact_def q_DeletePartyContacts_def
  by (rule same_query_view [OF journal_view_tickless];
      auto simp: same_def Let_def journal_view_def split: sum.split)+

lemma same_journal_bank [same_intros]: "same journal_view (bank_attempts en t b l c n err)"
  by (induction n arbitrary: err) (auto simp: pg_CreateAccount_def intro!: same_intros)

lemma same_journal_svc [same_intros]:
  "same journal_view (svc_CreateAccount en a)" "same journal_view (svc_SeedChartOfAccounts en t es)"
  "same journal_view (svc_SetAccountCostBehavior en t i cb)" "same journal_view (svc_CreateBankAccount en t inp)"
  "same journal_view (svc_OpenAccountingPeriod en t y m)" "same journal_view (svc_CloseAccountingPeriod en t i actor)"
  "same journal_view (svc_CreateParty en mail p)" "same journal_view (svc_UpdateParty en mail p)"
  unfolding svc_CreateAccount_def svc_SeedChartOfAccounts_def svc_SetAccountCostBehavior_def seed_entry_def
    svc_CreateBankAccount_def svc_OpenAccountingPeriod_def svc_CloseAccountingPeriod_def
    svc_CreateParty_def svc_UpdateParty_def pg_SetAccountCostBehavior_def pg_CreatePeriod_def
    pg_ClosePeriod_def pg_CreateAccount_def pg_CreateParty_def pg_UpdateParty_def insertPartyContact_def Let_def
  by (intro same_intros same_transact_view journal_view_tickless)+

lemma append_only_mark:
  assumes "append_only w0 w" and "\<And>e. p e \<Longrightarrow> entry_moves e (f e)"
  shows "append_only w0 (w\<lparr>entries := update_rows p f (entries w)\<rparr>)"
proof (rule append_only_trans [OF assms(1)])
  have "list_all2 entry_moves (entries w) (update_rows p f (entries w))"
    using assms(2) by (auto simp: update_rows_def list_all2_map2 intro!: list_all2_refl)
  then show "append_only w (w\<lparr>entries := update_rows p f (entries w)\<rparr>)"
    by (auto simp: append_only_def)
qed


lemma append_only_add:
  assumes "append_only w0 w" and "\<forall>e \<in> set (entries w). er_id e \<noteq> er_id r" and "\<forall>l \<in> set ls. lr_journal l = er_id r"
  shows "append_only w0 (w\<lparr>entries := entries w @ [r], jlines := jlines w @ ls\<rparr>)"
proof (rule append_only_trans [OF assms(1)])
  show "append_only w (w\<lparr>entries := entries w @ [r], jlines := jlines w @ ls\<rparr>)"
    unfolding append_only_def using assms(2,3)
    by (intro conjI exI [of _ "entries w"] exI [of _ "[r]"] exI [of _ ls] list_all2_refl) auto
qed

text \<open>Rule for an operation whose failures have no effect on the tables.\<close>

lemma keeps_journaled_atomic:
  assumes "keeps ledger_inv m" and "atomic untick m"
    and "\<And>w x w'. ledger_inv w \<Longrightarrow> append_only w0 w \<Longrightarrow> m w = (Inr x, w') \<Longrightarrow> append_only w0 w'"
  shows "keeps (journaled w0) m"
proof (rule keepsI)
  fix w assume j: "journaled w0 w"
  obtain r w' where run: "m w = (r, w')" by fastforce
  have "append_only w0 w'"
  proof (cases r)
    case (Inl e)
    then have "untick w' = untick w" using assms(2) run by (auto dest: atomicD)
    from append_only_untick [OF this, of w0] show ?thesis using j by (simp add: journaled_def)
  qed (use assms(3) [of w] run j in \<open>auto simp: journaled_def\<close>)
  moreover have "ledger_inv w'" using keepsD [OF assms(1), of w] run j by (simp add: journaled_def)
  ultimately show "journaled w0 (snd (m w))" using run by (simp add: journaled_def)
qed

lemma entry_moves_posted: "postable t i e \<Longrightarrow> entry_moves e (mark_posted actor now e)"
  by (auto simp: entry_moves_def postable_def mark_posted_def intro: entry_step.post)

lemma entry_moves_void: "voidable t i e \<Longrightarrow> entry_moves e (e\<lparr>er_status := ''void''\<rparr>)"
  by (auto simp: entry_moves_def voidable_def intro: entry_step.void)

lemma journaled_create: "je_Status je = ''draft'' \<Longrightarrow> keeps (journaled w0) (pg_CreateJournalEntry en je)"
proof (rule keeps_journaled_atomic)
  show "atomic untick (pg_CreateJournalEntry en je)"
    unfolding pg_CreateJournalEntry_def by (rule atomic_transact)
  fix w x w' assume a: "append_only w0 w" and run: "pg_CreateJournalEntry en je w = (Inr x, w')"
  from run obtain now where w': "untick w' = untick (w\<lparr>entries := entries w @ [draft_row je now],
                        jlines := jlines w @ map (stored_line (je_ID je)) (je_Lines je)\<rparr>)"
    and new: "\<forall>e \<in> set (entries w). er_id e \<noteq> je_ID je" by (rule pg_CreateJournalEntry_Inr)
  show "append_only w0 w'"
    unfolding append_only_untick [OF w']
    using a new by (intro append_only_add) (auto simp: draft_row_def stored_line_def)
qed (rule keeps_pg_CreateJournalEntry)

lemma journaled_post: "keeps (journaled w0) (svc_PostJournalEntry en pub t i actor)"
proof (rule keeps_journaled_atomic [OF keeps_svc_PostJournalEntry atomic_svc_PostJournalEntry])
  fix w x w' assume a: "append_only w0 w" and inv: "ledger_inv w"
    and run: "svc_PostJournalEntry en pub t i actor w = (Inr x, w')"
  from run inv obtain e now where w': "untick w' = untick (w\<lparr>entries := update_rows (postable t i) (mark_posted actor now) (entries w),
                               published := published w @ (if pub then [x] else [])\<rparr>)"
    by (rule svc_PostJournalEntry_Inr)
  have "append_only w0 (w\<lparr>entries := update_rows (postable t i) (mark_posted actor now) (entries w)\<rparr>)"
    using a by (rule append_only_mark) (rule entry_moves_posted)
  then show "append_only w0 w'" unfolding append_only_untick [OF w'] by (simp add: append_only_def)
qed

lemma journaled_void: "keeps (journaled w0) (pg_UpdateJournalStatus en t i ''void'' actor tm)"
proof (rule keeps_journaled_atomic [OF keeps_pg_void atomic_pg_UpdateJournalStatus])
  fix w x w' assume a: "append_only w0 w"
    and run: "pg_UpdateJournalStatus en t i ''void'' actor tm w = (Inr x, w')"
  show "append_only w0 w'"
    unfolding append_only_untick [OF pg_UpdateJournalStatus_void(1) [OF run]]
    by (rule append_only_mark [OF a]) (rule entry_moves_void)
qed

lemma journaled_svc_CreateJournalEntry: "keeps (journaled w0) (svc_CreateJournalEntry en je)"
  unfolding svc_CreateJournalEntry_def Let_def pg_AllocateEntryNumber_def
  by (intro keeps_andThen keeps_onErr keeps_if keeps_fail keeps_ret keeps_journaled_reads same_intros
      journaled_create keeps_journaled [OF keeps_q_NextJournalEntrySeq]) simp

lemma journaled_svc_VoidJournalEntry: "keeps (journaled w0) (svc_VoidJournalEntry en pub t i actor)"
  unfolding svc_VoidJournalEntry_def
  by (intro keeps_andThen keeps_onErr keeps_if keeps_fail keeps_ret keeps_journaled_reads same_intros
      journaled_svc_CreateJournalEntry journaled_post journaled_void)

lemma exec_ledger_journaled: "journaled w0 w \<Longrightarrow> journaled w0 (exec_ledger en pub mail r w)"
  by (cases r) (auto intro!: keepsD [where P = "journaled w0"] journaled_svc_CreateJournalEntry
      journaled_svc_VoidJournalEntry journaled_post keeps_journaled_reads svc_reads svc_more_reads
      keeps_journaled [OF keeps_svc_writes(1)] keeps_journaled [OF keeps_svc_writes(2)]
      keeps_journaled [OF keeps_svc_writes(3)] keeps_journaled [OF keeps_svc_writes(4)]
      keeps_journaled [OF keeps_svc_writes(5)] keeps_journaled [OF keeps_svc_writes(6)]
      keeps_journaled [OF keeps_svc_writes(7)] keeps_journaled [OF keeps_svc_writes(8)] same_intros)

lemma append_only_run:
  assumes "ledger_inv w"
  shows "append_only w (fold (exec_ledger en pub mail) rs w)"
proof -
  have "journaled w (fold (exec_ledger en pub mail) rs w)"
    by (rule fold_keeps [where P = "journaled w"]) (auto simp: assms journaled_def [of w w] intro: exec_ledger_journaled)
  then show ?thesis by (simp add: journaled_def)
qed

end
