(* ===== verification/LedgerProps.thy ===== *)
theory LedgerProps
  imports LedgerDemo LedgerJournal
begin

text \<open>
  The properties of the general ledger: abstract specifications of what its methods promise and the
  theorems that the model of the code meets them, each with an application to the run of
  \<open>LedgerDemo\<close>.
\<close>

section \<open>Reads in an environment without failures\<close>

lemma pg_GetJournalEntry_calm:
  assumes "calm en"
  shows "pg_GetJournalEntry en t i w =
    (case row_by (\<lambda>e. er_id e = i \<and> er_tenant e = t) (entries w) of
       Inl _ \<Rightarrow> (Inl (Sentinel ErrJournalNotFound), w\<lparr>tick := Suc (tick w)\<rparr>)
     | Inr e \<Rightarrow> (Inr ((journalEntryFromDB e)\<lparr>je_Lines := map journalLineFromDB (sort_key lr_id (lines_of w i))\<rparr>),
                 w\<lparr>tick := Suc (Suc (tick w))\<rparr>))"
proof (cases "row_by (\<lambda>e. er_id e = i \<and> er_tenant e = t) (entries w)")
  case (Inl a)
  then show ?thesis using assms
    by (auto simp: pg_GetJournalEntry_def q_GetJournalEntry_def query_calm andThen_def onErr_def dest: row_by_Inl)
next
  case (Inr e)
  then have e: "e \<in> set (entries w)" "er_id e = i" "er_tenant e = t" by (auto dest: row_by_Inr)
  then have "filter (\<lambda>l. lr_journal l = i \<and> (\<exists>e \<in> set (entries w). er_id e = lr_journal l \<and> er_tenant e = t)) (jlines w) = lines_of w i"
    by (auto simp: lines_of_def intro!: filter_cong)
  with Inr e assms show ?thesis
    by (simp add: pg_GetJournalEntry_def q_GetJournalEntry_def q_ListJournalLines_def query_calm andThen_def onErr_def)
qed

lemma pg_GetPeriodByID_calm:
  assumes "calm en"
  shows "pg_GetPeriodByID en t i w =
    (case row_by (\<lambda>p. pr_id p = i \<and> pr_tenant p = t) (periods w) of
       Inl _ \<Rightarrow> Inl (Sentinel ErrPeriodNotFound) | Inr p \<Rightarrow> Inr (periodFromDB p), w\<lparr>tick := Suc (tick w)\<rparr>)"
  using assms
  by (cases "row_by (\<lambda>p. pr_id p = i \<and> pr_tenant p = t) (periods w)")
    (auto simp: pg_GetPeriodByID_def q_GetAccountingPeriod_def query_calm andThen_def onErr_def dest: row_by_Inl)

lemma pg_post_calm:
  assumes "calm en" and "e \<in> set (entries w)" and "postable t i e"
  shows "\<exists>w'. pg_UpdateJournalStatus en t i ''posted'' actor tm w = (Inr (), w')"
proof (cases "row_by (postable t i) (entries w)")
  case (Inl a)
  with assms show ?thesis by (auto dest: row_by_Inl)
next
  case (Inr a)
  with assms(1) show ?thesis
    by (simp add: pg_UpdateJournalStatus_def q_PostJournalEntry_def query_calm andThen_def onErr_def
        postable_def [abs_def] Let_def)
qed

section \<open>Posting\<close>

text \<open>When an entry may be posted, and the error otherwise, in the order of precedence.\<close>

definition post_spec :: "ledger \<Rightarrow> uuid \<Rightarrow> uuid \<Rightarrow> ledger_sentinel option" where
  "post_spec w t i =
     (case row_by (\<lambda>e. er_id e = i \<and> er_tenant e = t) (entries w) of
        Inl _ \<Rightarrow> Some ErrJournalNotFound
      | Inr e \<Rightarrow>
          if er_status e = ''posted'' then Some ErrJournalAlreadyPosted
          else if er_status e = ''void'' then Some ErrJournalVoid
          else (case row_by (\<lambda>p. pr_id p = er_period e \<and> pr_tenant p = t) (periods w) of
                  Inl _ \<Rightarrow> Some ErrPeriodNotFound
                | Inr p \<Rightarrow>
                    if pr_status p = ''closed'' then Some ErrPeriodClosed
                    else if \<not> balanced w i then Some ErrJournalNotBalanced
                    else None))"

lemma validateBalance_stored:
  "validateBalance (map journalLineFromDB (sort_key lr_id (lines_of w i))) =
     (if balanced w i then Inr () else Inl (Wrap ''debit= credit='' (Sentinel ErrJournalNotBalanced)))"
proof -
  have "validateBalance ls = Inr () \<or> validateBalance ls = Inl (Wrap ''debit= credit='' (Sentinel ErrJournalNotBalanced))" for ls
    by (simp add: validateBalance_def case_prod_unfold Let_def)
  then show ?thesis using stored_balance [of w i "()"] by auto
qed

lemmas post_simps = svc_PostJournalEntry_def pg_GetJournalEntry_calm pg_GetPeriodByID_calm
  andThen_Inr andThen_onErr_Inr andThen_def [of "onErr _ (pg_GetPeriodByID _ _ _)"]
  andThen_def [of "onErr _ (pg_GetJournalEntry _ _ _)"] onErr_def [of _ "pg_GetPeriodByID _ _ _"]
  onErr_def [of _ "pg_GetJournalEntry _ _ _"] outcome_def post_spec_def journalEntryFromDB_def
  periodFromDB_def validateBalance_stored time_Now_def Let_def

text \<open>
  C2: in an environment without failures, posting succeeds exactly on a draft entry of the
  tenant whose lines balance and whose period is not closed; otherwise it returns the error of the
  first failed condition.
\<close>

theorem PostJournalEntry_meets_spec:
  assumes calm: "calm en" and inv: "ledger_inv w"
  shows "outcome (fst (svc_PostJournalEntry en pub t i actor w)) = map_option Some (post_spec w t i)"
proof (cases "row_by (\<lambda>e. er_id e = i \<and> er_tenant e = t) (entries w)")
  case (Inl a)
  then show ?thesis
    by (simp add: svc_PostJournalEntry_def pg_GetJournalEntry_calm [OF calm] andThen_def onErr_def outcome_def post_spec_def)
next
  case (Inr e)
  then have e: "e \<in> set (entries w)" "er_id e = i" "er_tenant e = t" by (auto dest: row_by_Inr)
  then have "er_status e \<in> set entry_statuses" using inv by (auto simp: ledger_inv_defs)
  then consider "er_status e = ''posted''" | "er_status e = ''void''" | "er_status e = ''draft''"
    by (auto simp: entry_statuses_def)
  then show ?thesis
  proof cases
    case 3
    then have "fst (andThen (onErr (Wrap ''ledger: post journal entry'') (pg_UpdateJournalStatus en t i ''posted'' actor tm))
        (\<lambda>_. andThen (publish pub je) (\<lambda>_. ret je)) w1) = Inr je" if "entries w1 = entries w" for je tm w1
      using pg_post_calm [OF calm, of e w1 t i actor tm] e that
      by (auto simp: publish_def andThen_def onErr_def postable_def)
    with Inr 3 show ?thesis
      by (auto simp: post_simps calm split: sum.split)
  qed (use Inr in \<open>simp_all add: post_simps calm\<close>)
qed

theorem PostJournalEntry_meets_spec_witness:
  "post_spec (demo_run demo_draft) 7 11 = None
   \<and> outcome (fst (svc_PostJournalEntry demo_env True 7 11 9 (demo_run demo_draft))) = None
   \<and> post_spec (demo_run (demo_draft @ [CloseAccountingPeriod 7 32 9])) 7 11 = Some ErrPeriodClosed
   \<and> outcome (fst (svc_PostJournalEntry demo_env True 7 11 9 (demo_run (demo_draft @ [CloseAccountingPeriod 7 32 9]))))
       = Some (Some ErrPeriodClosed)"
proof -
  have spec: "post_spec (demo_run demo_draft) 7 11 = None"
    "post_spec (demo_run (demo_draft @ [CloseAccountingPeriod 7 32 9])) 7 11 = Some ErrPeriodClosed"
    by code_simp+
  show ?thesis
    using PostJournalEntry_meets_spec [OF demo_calm demo_inv [of demo_draft], of True 7 11 9] spec(1)
      PostJournalEntry_meets_spec [OF demo_calm demo_inv [of "demo_draft @ [CloseAccountingPeriod 7 32 9]"], of True 7 11 9] spec(2)
    by simp
qed

text \<open>
  A call that posts an entry changes exactly that entry, from draft to posted with the
  actor and a time; no other row of the journal changes, the entry returned holds the stored lines,
  and it is handed to the publisher once if there is one.
\<close>

lemma PostJournalEntry_effect:
  assumes "ledger_inv w" and "svc_PostJournalEntry en pub t i actor w = (Inr je, w')"
  shows "\<exists>now. entries w' = update_rows (postable t i) (mark_posted actor now) (entries w)
     \<and> (\<exists>!e. e \<in> set (entries w) \<and> postable t i e)
     \<and> jlines w' = jlines w \<and> accounts w' = accounts w \<and> periods w' = periods w
     \<and> published w' = published w @ (if pub then [je] else [])
     \<and> je_ID je = i \<and> je_TenantID je = t \<and> je_Status je = ''posted'' \<and> je_PostedBy je = Some actor
     \<and> je_Lines je = map journalLineFromDB (sort_key lr_id (lines_of w i))"
proof -
  from assms(2,1) obtain e now where e: "posting_ok w t i e"
    and w': "untick w' = untick (w\<lparr>entries := update_rows (postable t i) (mark_posted actor now) (entries w),
                               published := published w @ (if pub then [je] else [])\<rparr>)"
    and je: "je_ID je = i" "je_TenantID je = t" "je_Status je = ''posted''" "je_PostedBy je = Some actor"
      "je_Lines je = map journalLineFromDB (sort_key lr_id (lines_of w i))"
    by (rule svc_PostJournalEntry_Inr)
  have "\<exists>!e. e \<in> set (entries w) \<and> postable t i e"
  proof (rule ex1I [of _ e])
    fix x assume "x \<in> set (entries w) \<and> postable t i x"
    then show "x = e" using e assms(1)
      by (auto simp: posting_ok_def postable_def ledger_inv_defs intro: distinct_key_unique)
  qed (use e in \<open>simp add: posting_ok_def\<close>)
  then show ?thesis using untick_views [OF w'] je by (intro exI [of _ now]) simp
qed

text \<open>
  A call to post an entry that returns an error, whatever failed, has changed no table
  and published nothing.
\<close>

lemma PostJournalEntry_atomic:
  assumes "svc_PostJournalEntry en pub t i actor w = (Inl err, w')"
  shows "untick w' = untick w"
  using atomicD [OF atomic_svc_PostJournalEntry assms] .

section \<open>The books balance\<close>

text \<open>
  C1: after any sequence of requests, with any failures of the database, the lines of every
  entry that is posted or void have equal totals of debits and credits.
\<close>

theorem posted_entries_balance:
  assumes "e \<in> set (entries (fold (exec_ledger en pub mail) rs empty_ledger))"
    and "er_status e \<noteq> ''draft''"
  shows "(\<Sum>l \<leftarrow> lines_of (fold (exec_ledger en pub mail) rs empty_ledger) (er_id e). lr_debit l)
       = (\<Sum>l \<leftarrow> lines_of (fold (exec_ledger en pub mail) rs empty_ledger) (er_id e). lr_credit l)"
proof -
  have "ledger_inv (fold (exec_ledger en pub mail) rs empty_ledger)" by (rule books.inv_run)
  with assms have "balanced (fold (exec_ledger en pub mail) rs empty_ledger) (er_id e)"
    by (auto simp: ledger_inv_defs)
  then show ?thesis by (simp add: balanced_def)
qed

theorem posted_entries_balance_witness:
  "er_id (hd (entries (demo_run demo_posted))) = 11
   \<and> er_status (hd (entries (demo_run demo_posted))) = ''posted''
   \<and> (\<Sum>l \<leftarrow> lines_of (demo_run demo_posted) (er_id (hd (entries (demo_run demo_posted)))). lr_debit l)
     = (\<Sum>l \<leftarrow> lines_of (demo_run demo_posted) (er_id (hd (entries (demo_run demo_posted)))). lr_credit l)"
proof -
  have h: "er_id (hd (entries (demo_run demo_posted))) = 11" "er_status (hd (entries (demo_run demo_posted))) = ''posted''"
    "entries (demo_run demo_posted) \<noteq> []"
    by code_simp+
  then have "hd (entries (demo_run demo_posted)) \<in> set (entries (demo_run demo_posted))" by simp
  from posted_entries_balance [OF this [unfolded demo_run_def [of demo_posted]]] h show ?thesis
    by (simp add: demo_run_def)
qed

section \<open>Voiding\<close>

definition account_net :: "uuid \<Rightarrow> (uuid \<times> decimal \<times> decimal) list \<Rightarrow> decimal" where
  "account_net a xs = (\<Sum>(b, d, c) \<leftarrow> xs. if b = a then d - c else 0)"

lemma account_net_swapped: "account_net a (map swapped ls) = - account_net a (map amounts ls)"
  by (induction ls) (auto simp: account_net_def swapped_def amounts_def)

lemma account_net_sort: "account_net a (map amounts (sort_key k ls)) = account_net a (map amounts ls)"
proof -
  have "(\<Sum>l \<leftarrow> sort_key k ls. case amounts l of (b, d, c) \<Rightarrow> if b = a then d - c else 0)
      = (\<Sum>l \<leftarrow> ls. case amounts l of (b, d, c) \<Rightarrow> if b = a then d - c else 0)"
    by (rule sum_list_sort_key)
  then show ?thesis by (simp add: account_net_def comp_def)
qed

text \<open>
  C6: a call that voids an entry posts a reversal in the same period that refers to the
  original by number: its lines are the lines of the original with debit and credit swapped, so
  that the two entries cancel on every account; the original is marked void. Nothing else changes:
  every other entry, every line that was there, the accounts, periods, parties and contacts stay as
  they are, the one counter that moves is of the same tenant, and at most the reversal is published.
\<close>

theorem VoidJournalEntry_reverses:
  assumes "ledger_inv w" and "svc_VoidJournalEntry en pub t i actor w = (Inr je, w')"
  shows "\<exists>e r. e \<in> set (entries w) \<and> voidable t i e
     \<and> entries w' = update_rows (voidable t i) (er_status_update (\<lambda>_. ''void'')) (entries w) @ [r]
     \<and> er_id r = je_ID je \<and> er_tenant r = t \<and> er_status r = ''posted''
     \<and> er_period r = er_period e \<and> er_reference r = pgTextFromString (er_number e)
     \<and> map amounts (lines_of w' (je_ID je)) = map swapped (sort_key lr_id (lines_of w i))
     \<and> lines_of w' i = lines_of w i
     \<and> (\<forall>a. account_net a (map amounts (lines_of w' i)) + account_net a (map amounts (lines_of w' (je_ID je))) = 0)
     \<and> (\<exists>ls. jlines w' = jlines w @ ls \<and> lr_journal ` set ls \<subseteq> {je_ID je})
     \<and> accounts w' = accounts w \<and> periods w' = periods w \<and> parties w' = parties w \<and> contacts w' = contacts w
     \<and> (\<exists>y k. counters w' = (counters w)((t, y) \<mapsto> k)) \<and> published w' = published w @ (if pub then [je] else [])"
proof -
  from assms(2,1) obtain e r where e: "e \<in> set (entries w)" "voidable t i e"
    and r: "entries w' = update_rows (voidable t i) (er_status_update (\<lambda>_. ''void'')) (entries w) @ [r]"
      "er_id r = je_ID je" "er_tenant r = t" "er_status r = ''posted''" "er_period r = er_period e"
      "er_reference r = pgTextFromString (er_number e)"
    and new: "\<forall>e \<in> set (entries w). er_id e \<noteq> je_ID je"
    and lines: "map amounts (lines_of w' (je_ID je)) = map swapped (sort_key lr_id (lines_of w i))"
    and old: "\<forall>k. k \<noteq> je_ID je \<longrightarrow> lines_of w' k = lines_of w k"
    and "\<exists>ls. jlines w' = jlines w @ ls \<and> (\<forall>l \<in> set ls. lr_journal l = je_ID je)"
    and rest: "accounts w' = accounts w" "periods w' = periods w" "parties w' = parties w" "contacts w' = contacts w"
      "\<exists>y k. counters w' = (counters w)((t, y) \<mapsto> k)" "published w' = published w @ (if pub then [je] else [])"
    by (rule svc_VoidJournalEntry_Inr)
  then have "\<exists>ls. jlines w' = jlines w @ ls \<and> lr_journal ` set ls \<subseteq> {je_ID je}" by blast
  moreover have "lines_of w' i = lines_of w i" using old new e by (auto simp: voidable_def)
  ultimately show ?thesis using e r lines rest
    by (intro exI [of _ e] exI [of _ r]) (simp add: account_net_swapped account_net_sort)
qed

theorem VoidJournalEntry_reverses_witness:
  "\<exists>e r. e \<in> set (entries (demo_run demo_posted)) \<and> voidable 7 11 e
     \<and> entries (snd (svc_VoidJournalEntry demo_env True 7 11 9 (demo_run demo_posted)))
       = update_rows (voidable 7 11) (er_status_update (\<lambda>_. ''void'')) (entries (demo_run demo_posted)) @ [r]
     \<and> er_status r = ''posted''"
  using demo_voids VoidJournalEntry_reverses [OF demo_inv] by blast

section \<open>The journal only grows\<close>

text \<open>
  C8: over any run, every entry stays in the journal with its identity, number, period and
  text, and its status only moves from draft to posted to void; the lines of an existing entry are
  neither changed nor removed, nor are lines added to it.
\<close>

theorem journal_append_only:
  assumes "ledger_inv w" and "e \<in> set (entries w)"
  shows "\<exists>e'. e' \<in> set (entries (fold (exec_ledger en pub mail) rs w)) \<and> entry_moves e e'
     \<and> lines_of (fold (exec_ledger en pub mail) rs w) (er_id e) = lines_of w (er_id e)"
proof -
  let ?w = "fold (exec_ledger en pub mail) rs w"
  have "append_only w ?w" using assms(1) by (rule append_only_run)
  then obtain es new ls where es: "list_all2 entry_moves (entries w) es" "entries ?w = es @ new"
    and ls: "jlines ?w = jlines w @ ls" "\<forall>l \<in> set ls. lr_journal l \<notin> er_id ` set (entries w)"
    by (auto simp: append_only_def)
  obtain e' where "e' \<in> set es" "entry_moves e e'" using list_all2_member [OF es(1) assms(2)] by blast
  moreover have "filter (\<lambda>l. lr_journal l = er_id e) ls = []"
    by (rule filter_none) (use ls(2) assms(2) in force)
  ultimately show ?thesis using es(2) ls(1) by (intro exI [of _ e']) (simp add: lines_of_def)
qed

theorem journal_append_only_witness:
  "\<exists>e'. e' \<in> set (entries (fold (exec_ledger demo_env True no_mail) [VoidJournalEntry 7 11 9] (demo_run demo_posted)))
     \<and> entry_moves (hd (entries (demo_run demo_posted))) e'"
proof -
  have "entries (demo_run demo_posted) \<noteq> []" by code_simp
  then have "hd (entries (demo_run demo_posted)) \<in> set (entries (demo_run demo_posted))" by simp
  from journal_append_only [OF demo_inv this] show ?thesis by blast
qed

section \<open>Creating entries\<close>

text \<open>
  C14: a call that creates an entry appends one draft entry and its lines, at least two, each
  on an active account of the tenant, with amounts rounded to cents; its number is the next of the
  tenant and year.
\<close>

theorem CreateJournalEntry_effect:
  assumes "svc_CreateJournalEntry en je w = (Inr je', w')"
  shows "\<exists>now y n. entries w' = entries w @ [draft_row je' now]
     \<and> jlines w' = jlines w @ map (stored_line (je_ID je')) (je_Lines je')
     \<and> je_Status je' = ''draft'' \<and> je_TenantID je' = je_TenantID je \<and> 2 \<le> length (je_Lines je')
     \<and> list_all2 (checked_line w (je_TenantID je)) (je_Lines je) (je_Lines je')
     \<and> je_EntryNumber je' = entry_number y n \<and> counters w' (je_TenantID je, y) = Some n
     \<and> n = (case counters w (je_TenantID je, y) of None \<Rightarrow> 1 | Some k \<Rightarrow> k + 1)"
proof -
  from assms obtain ls i y n now where
    je': "je' = je\<lparr>je_Lines := ls, je_ID := i, je_Status := ''draft'', je_EntryNumber := entry_number y n\<rparr>"
    and ls: "2 \<le> length ls" "list_all2 (checked_line w (je_TenantID je)) (je_Lines je) ls"
    and n: "n = (case counters w (je_TenantID je, y) of None \<Rightarrow> 1 | Some k \<Rightarrow> k + 1)"
    and w': "untick w' = untick (w\<lparr>counters := (counters w)((je_TenantID je, y) \<mapsto> n),
           entries := entries w @ [draft_row je' now], jlines := jlines w @ map (stored_line i) ls\<rparr>)"
    by (rule svc_CreateJournalEntry_Inr)
  show ?thesis using untick_views [OF w'] je' ls n
    by (intro exI [of _ now] exI [of _ y] exI [of _ n]) simp
qed

theorem CreateJournalEntry_effect_witness:
  "\<exists>je' now. entries (snd (svc_CreateJournalEntry demo_env demo_rent (demo_run demo_setup)))
     = entries (demo_run demo_setup) @ [draft_row je' now] \<and> 2 \<le> length (je_Lines je')"
  using demo_creates CreateJournalEntry_effect by blast

definition no_counters :: "ledger \<Rightarrow> ledger" where
  "no_counters w = untick (w\<lparr>counters := Map.empty\<rparr>)"

lemma no_counters_tickless [simp]: "tickless_view no_counters"
  by (simp add: tickless_view_def no_counters_def untick_def)

lemma atomic_view: "tickless_view V \<Longrightarrow> atomic untick m \<Longrightarrow> atomic V m"
  unfolding atomic_def by (blast intro: tickless_view_untick)

lemma same_no_counters: "same no_counters (q_NextJournalEntrySeq en t y)"
  unfolding q_NextJournalEntrySeq_def
  by (rule same_query_view) (auto simp: same_def Let_def no_counters_def)

text \<open>
  A call that fails to create an entry leaves every table alone but the counter of entry
  numbers, which may have advanced: a number is never handed out twice.
\<close>

lemma CreateJournalEntry_failure:
  assumes "svc_CreateJournalEntry en je w = (Inl err, w')"
  shows "no_counters w' = no_counters w"
proof -
  have "atomic no_counters (svc_CreateJournalEntry en je)"
    unfolding svc_CreateJournalEntry_def Let_def pg_AllocateEntryNumber_def
    by (intro atomic_intros atomic_seq atomic_last atomic_view [OF no_counters_tickless] same_of_untick [OF no_counters_tickless]
        same_forEach same_check_line same_id_or_New same_time_Now same_andThen same_onErr same_no_counters same_ret)
      (auto simp: pg_CreateJournalEntry_def intro: atomic_transact)
  then show ?thesis using assms by (rule atomicD)
qed

section \<open>Entry numbers\<close>

lemma digits_dash:
  assumes "(\<And>c. c \<in> set xs \<Longrightarrow> is_digit c)" "(\<And>c. c \<in> set ys \<Longrightarrow> is_digit c)"
    and "xs @ CHR ''-'' # us = ys @ CHR ''-'' # vs"
  shows "xs = ys \<and> us = vs"
proof -
  have d: "\<not> is_digit (CHR ''-'')" by (simp add: is_digit_def less_eq_char_def)
  have "takeWhile is_digit (xs @ CHR ''-'' # us) = xs" "takeWhile is_digit (ys @ CHR ''-'' # vs) = ys"
    using assms(1,2) d by simp_all
  then show ?thesis using assms(3) by auto
qed

text \<open>
  The printed form of an entry number determines the year and the position in it, also
  beyond the five digits to which the position is padded.
\<close>

lemma entry_number_inj:
  assumes "0 \<le> y" "0 \<le> y'" "0 \<le> n" "0 \<le> n'"
  shows "entry_number y n = entry_number y' n' \<longleftrightarrow> y = y' \<and> n = n'"
proof
  assume eq: "entry_number y n = entry_number y' n'"
  have "itoa (nat y) = itoa (nat y') \<and> pad 5 (itoa (nat n)) = pad 5 (itoa (nat n'))"
    using eq by (intro digits_dash) (auto simp: entry_number_def intro: set_itoa)
  then have "nat y = nat y'" "atoi (pad 5 (itoa (nat n))) = atoi (pad 5 (itoa (nat n')))"
    using itoa_inj by auto
  with assms show "y = y' \<and> n = n'" by (simp add: eq_nat_nat_iff)
qed simp

end
