(* ===== verification/LedgerReports.thy ===== *)
theory LedgerReports
  imports LedgerDemo
begin

text \<open>
  The two reports of the ledger against reference definitions: the trial balance and the monthly
  cost-behavior report.
\<close>

section \<open>The trial balance\<close>

lemma join_entry:
  assumes "distinct (map er_id es)"
  shows "\<exists>x. (case filter (\<lambda>je. er_id je = j \<and> q je) es of [] \<Rightarrow> [(r, None)] | zs \<Rightarrow> map (\<lambda>z. (r, Some z)) zs) = [(r, x)]"
proof (cases "filter (\<lambda>je. er_id je = j \<and> q je) es")
  case (Cons z zs)
  have d: "distinct (map er_id (z # zs))" using assms by (metis Cons distinct_map_filter)
  have "zs = []"
  proof (rule ccontr)
    assume "zs \<noteq> []"
    then have "hd zs \<in> set (z # zs)" "hd zs \<in> set zs" by simp_all
    moreover have "\<forall>x \<in> set (z # zs). er_id x = j" by (simp add: Cons [symmetric])
    ultimately have "er_id (hd zs) = er_id z" by simp
    with d \<open>hd zs \<in> set zs\<close> show False by (metis distinct.simps(2) image_eqI list.set_map list.simps(9))
  qed
  with Cons show ?thesis by simp
qed simp

lemma trial_join_lines:
  assumes "distinct (map er_id (entries w))"
  shows "col_sum f (trial_join asOf w a) = (\<Sum>l \<leftarrow> filter (\<lambda>l. lr_account l = ar_id a) (jlines w). f l)"
proof (cases "filter (\<lambda>l. lr_account l = ar_id a) (jlines w)")
  case Nil
  then show ?thesis by (simp add: trial_join_def left_join_def col_sum_def)
next
  case (Cons l0 ls0)
  have one: "(\<Sum>r \<leftarrow> (case filter (\<lambda>je. er_id je = lr_journal l \<and> er_status je = ''posted'' \<and> er_created je \<le> asOf) (entries w) of
        [] \<Rightarrow> [((a, Some l), None)] | zs \<Rightarrow> map (\<lambda>z. ((a, Some l), Some z)) zs). case snd (fst r) of None \<Rightarrow> 0 | Some l \<Rightarrow> f l) = f l" for l
    using join_entry [OF assms, where j = "lr_journal l" and q = "\<lambda>je. er_status je = ''posted'' \<and> er_created je \<le> asOf"
        and r = "(a, Some l)"] by auto
  have "col_sum f (left_join (\<lambda>(a, jl) je. (case jl of None \<Rightarrow> False | Some l \<Rightarrow> er_id je = lr_journal l)
                  \<and> er_status je = ''posted'' \<and> er_created je \<le> asOf) (map (\<lambda>z. (a, Some z)) ls) (entries w)) = (\<Sum>l \<leftarrow> ls. f l)" for ls
    by (induction ls) (simp_all add: left_join_def col_sum_def one)
  from this [of "l0 # ls0"] Cons show ?thesis by (simp add: trial_join_def left_join_def [of _ "[a]"])
qed

text \<open>
  C17: the row of an account in the trial balance sums every line on the account, whatever
  the status of its entry and whatever the reporting time: drafts and void entries count, and the
  condition on status and time in the outer join removes nothing.
\<close>

theorem trial_balance_counts_every_line:
  assumes "ledger_inv w"
  shows "trial_row asOf w a =
     (let ls = filter (\<lambda>l. lr_account l = ar_id a) (jlines w);
          d = (\<Sum>l \<leftarrow> ls. lr_debit l); c = (\<Sum>l \<leftarrow> ls. lr_credit l)
      in \<lparr>tb_AccountID = ar_id a, tb_Code = ar_code a, tb_Name = ar_name a, tb_AccountType = ar_type a,
          tb_Debit = d, tb_Credit = c, tb_Balance = d - c\<rparr>)"
proof -
  have "distinct (map er_id (entries w))" using assms by (simp add: ledger_inv_defs)
  then show ?thesis by (simp add: trial_row_def Let_def trial_join_lines)
qed

theorem trial_balance_counts_every_line_witness:
  "er_status (hd (entries (demo_run demo_draft))) = ''draft''
   \<and> tb_Debit (trial_row 0 (demo_run demo_draft) (accounts (demo_run demo_draft) ! 1)) = 100"
proof -
  have "er_status (hd (entries (demo_run demo_draft))) = ''draft''"
    "(\<Sum>l \<leftarrow> filter (\<lambda>l. lr_account l = ar_id (accounts (demo_run demo_draft) ! 1)) (jlines (demo_run demo_draft)). lr_debit l) = 100"
    by code_simp+
  then show ?thesis
    using trial_balance_counts_every_line [OF demo_inv [of demo_draft], of 0 "accounts (demo_run demo_draft) ! 1"]
    by (simp add: Let_def)
qed

section \<open>The monthly report\<close>

text \<open>Reference definition: one row per month of the range, each from the cost lines of the month.\<close>

definition months_between :: "int \<times> int \<Rightarrow> int \<times> int \<Rightarrow> (int \<times> int) list" where
  "months_between f g = map (\<lambda>k. (next_month ^^ k) f) [0..<nat (month_index g + 1 - month_index f)]"

definition bucket :: "((line_row \<times> entry_row) \<times> account_row) list \<Rightarrow> (string \<times> string \<Rightarrow> bool) \<Rightarrow> decimal" where
  "bucket ls p = (\<Sum>l \<leftarrow> filter (\<lambda>l. p (cost_key l)) ls. cost_net l)"

definition report_row :: "((line_row \<times> entry_row) \<times> account_row) list \<Rightarrow> string \<Rightarrow> MonthlyCostBehaviorRow" where
  "report_row ls m =
     \<lparr>mc_Month = m, mc_Fixed = bucket ls (\<lambda>k. fst k = m \<and> snd k = ''fixed''),
      mc_Variable = bucket ls (\<lambda>k. fst k = m \<and> snd k = ''variable''),
      mc_Unclassified = bucket ls (\<lambda>k. fst k = m \<and> snd k \<noteq> ''fixed'' \<and> snd k \<noteq> ''variable''),
      mc_Total = bucket ls (\<lambda>k. fst k = m)\<rparr>"

subsection \<open>Grouping in the statement\<close>

lemma group_sum:
  fixes f :: "'a \<Rightarrow> 'b::comm_monoid_add"
  assumes "distinct ks"
  shows "(\<Sum>k \<leftarrow> ks. \<Sum>l \<leftarrow> filter (\<lambda>l. key l = k) ls. f l) = (\<Sum>l \<leftarrow> filter (\<lambda>l. key l \<in> set ks) ls. f l)"
  using assms
proof (induction ks)
  case (Cons k ks)
  have "(\<Sum>l \<leftarrow> filter (\<lambda>l. key l \<in> set (k # ks)) ls. f l) =
      (\<Sum>l \<leftarrow> filter (\<lambda>l. key l = k) ls. f l) + (\<Sum>l \<leftarrow> filter (\<lambda>l. key l \<in> set ks) ls. f l)"
    using Cons.prems by (induction ls) (auto simp: ac_simps)
  with Cons show ?case by simp
qed simp

lemma group_bucket:
  assumes "distinct ks" and "set ks = cost_key ` set ls"
  shows "(\<Sum>k \<leftarrow> filter p ks. \<Sum>l \<leftarrow> filter (\<lambda>l. cost_key l = k) ls. cost_net l) = bucket ls p"
proof -
  have "filter (\<lambda>l. cost_key l \<in> set (filter p ks)) ls = filter (\<lambda>l. p (cost_key l)) ls"
    using assms(2) by (intro filter_cong) auto
  then show ?thesis using group_sum [where ks = "filter p ks" and key = cost_key and f = cost_net and ls = ls] assms(1) by (simp add: bucket_def)
qed

subsection \<open>The loop over the rows\<close>

definition month_row :: "MonthlyCostBehaviorRow list \<Rightarrow> string \<Rightarrow> MonthlyCostBehaviorRow" where
  "month_row out m = (case map_of (map (\<lambda>r. (mc_Month r, r)) out) m of None \<Rightarrow> zero_month m | Some r \<Rightarrow> r)"

lemma mc_Month_add_cost [simp]: "mc_Month (add_cost b amt r) = mc_Month r"
  by (simp add: add_cost_def Let_def)

lemma months_update: "map mc_Month (update_rows p (add_cost b amt) out) = map mc_Month out"
  by (rule map_update_rows) simp

lemma month_row_other:
  "m' \<noteq> m \<Longrightarrow> month_row (update_rows (\<lambda>r. mc_Month r = m) (add_cost b amt) out) m' = month_row out m'"
  by (induction out) (auto simp: month_row_def update_rows_def)

lemma month_row_update:
  "m \<in> mc_Month ` set out \<Longrightarrow>
     month_row (update_rows (\<lambda>r. mc_Month r = m) (add_cost b amt) out) m' =
       (if m' = m then add_cost b amt (month_row out m) else month_row out m')"
proof (cases "m' = m")
  case True
  show "m \<in> mc_Month ` set out \<Longrightarrow> ?thesis"
    unfolding True by (induction out) (auto simp: month_row_def update_rows_def)
qed (simp add: month_row_other)

lemma month_row_new: "m \<notin> mc_Month ` set out \<Longrightarrow> month_row (out @ [zero_month m]) m' = month_row out m'"
  by (induction out) (auto simp: month_row_def zero_month_def)

lemma collect_costs_row:
  "month_row (collect_costs out rows) m =
     foldl (\<lambda>r (m', b, amt). if m' = m then add_cost b amt r else r) (month_row out m) rows"
proof (induction out rows rule: collect_costs.induct)
  case (2 out m' b amt rows)
  let ?out = "if m' \<in> mc_Month ` set out then out else out @ [zero_month m']"
  let ?new = "update_rows (\<lambda>r. mc_Month r = m') (add_cost b amt) ?out"
  have "m' \<in> mc_Month ` set ?out" by (simp add: zero_month_def)
  then have "month_row ?new m = (if m = m' then add_cost b amt (month_row ?out m') else month_row ?out m)"
    by (rule month_row_update)
  also have "\<dots> = (if m = m' then add_cost b amt (month_row out m') else month_row out m)"
    by (cases "m' \<in> mc_Month ` set out") (simp_all add: month_row_new)
  finally show ?case using 2 [OF refl] by (auto simp: Let_def)
qed simp

lemma collect_costs_distinct:
  "distinct (map mc_Month out) \<Longrightarrow> distinct (map mc_Month (collect_costs out rows))"
proof (induction out rows rule: collect_costs.induct)
  case (2 out m b amt rows)
  let ?out = "if m \<in> mc_Month ` set out then out else out @ [zero_month m]"
  have "distinct (map mc_Month ?out)" using "2.prems" by (auto simp: zero_month_def)
  then show ?case using "2.IH" [OF refl] by (simp add: Let_def months_update)
qed simp

lemma foldl_field:
  assumes "\<And>b amt r. g (add_cost b amt r) = g r + (if q b then amt else (0::decimal))"
  shows "g (foldl (\<lambda>r (m', b, amt). if m' = m then add_cost b amt r else r) r rows) =
     g r + (\<Sum>x \<leftarrow> filter (\<lambda>(m', b, amt). m' = m \<and> q b) rows. snd (snd x))"
  by (induction rows arbitrary: r) (auto simp: assms split: if_splits)

lemma foldl_month:
  "mc_Month (foldl (\<lambda>r (m', b, amt). if m' = m then add_cost b amt r else r) r rows) = mc_Month r"
  by (induction rows arbitrary: r) (auto split: if_splits)

text \<open>The rows of the statement, and what the loop makes of them.\<close>

lemma cost_rows_bucket:
  "(\<Sum>x \<leftarrow> filter (\<lambda>(m', b, amt). m' = m \<and> q b) (cost_rows ls). snd (snd x)) = bucket ls (\<lambda>k. fst k = m \<and> q (snd k))"
proof -
  let ?ks = "sort_key fst (remdups (map cost_key ls))"
  have "(\<Sum>x \<leftarrow> filter (\<lambda>(m', b, amt). m' = m \<and> q b) (cost_rows ls). snd (snd x)) =
      (\<Sum>k \<leftarrow> filter (\<lambda>k. fst k = m \<and> q (snd k)) ?ks. \<Sum>l \<leftarrow> filter (\<lambda>l. cost_key l = k) ls. cost_net l)"
    by (simp add: cost_rows_def filter_map comp_def case_prod_unfold)
  also have "\<dots> = bucket ls (\<lambda>k. fst k = m \<and> q (snd k))" by (rule group_bucket) auto
  finally show ?thesis .
qed

lemma collect_report_row: "month_row (collect_costs [] (cost_rows ls)) m = report_row ls m"
proof -
  note f = foldl_field [where m = m and r = "zero_month m" and rows = "cost_rows ls", unfolded cost_rows_bucket]
  show ?thesis
    unfolding collect_costs_row
    using f [of mc_Fixed "\<lambda>b. b = ''fixed''"] f [of mc_Variable "\<lambda>b. b = ''variable''"]
      f [of mc_Unclassified "\<lambda>b. b \<noteq> ''fixed'' \<and> b \<noteq> ''variable''"] f [of mc_Total "\<lambda>b. True"]
      foldl_month [of m "zero_month m" "cost_rows ls"]
    by (intro MonthlyCostBehaviorRow.equality)
      (simp_all add: report_row_def month_row_def [of "[]"] add_cost_def Let_def zero_month_def)
qed

subsection \<open>The loop over the months\<close>

lemma month_loop_rows:
  assumes "\<And>m. (case by m of None \<Rightarrow> zero_month m | Some r \<Rightarrow> r) = row m"
  shows "month_loop by f g = map (\<lambda>ym. row (format_month ym)) (months_between f g)"
proof (induction "nat (month_index g + 1 - month_index f)" arbitrary: f)
  case 0
  then show ?case by (subst month_loop.simps) (simp add: months_between_def)
next
  case (Suc n)
  then have n: "nat (month_index g + 1 - month_index (next_month f)) = n" "\<not> month_index f > month_index g"
    by (simp_all add: month_index_next)
  have "months_between f g = f # months_between (next_month f) g"
    unfolding months_between_def n(1) Suc(2) [symmetric]
    by (simp add: upt_conv_Cons map_Suc_upt [symmetric] funpow_swap1 comp_def del: upt_Suc)
  then show ?case using Suc(1) [OF n(1) [symmetric]] n(2) by (subst month_loop.simps) (simp add: assms)
qed

text \<open>
  C13: a report that is returned has one row for each month of the range, in order and at
  most 36; each row holds the sums over the posted expense lines of that month by cost behavior,
  zeros when there are none.
\<close>

theorem monthly_report_meets_spec:
  assumes "svc_GetMonthlyCostBehavior en t fromMonth toMonth w = (Inr rows, w')"
  shows "\<exists>f g. parse_month fromMonth = Some f \<and> parse_month toMonth = Some g
     \<and> rows = map (\<lambda>ym. report_row (cost_lines t fromMonth toMonth w) (format_month ym)) (months_between f g)
     \<and> 1 \<le> length rows \<and> length rows \<le> 36"
proof -
  let ?ls = "cost_lines t fromMonth toMonth w"
  obtain f g where p: "parse_month fromMonth = Some f" "parse_month toMonth = Some g"
    and r: "\<not> month_index f > month_index g" "\<not> (fst g - fst f) * 12 + (snd g - snd f) + 1 > 36"
    using assms by (auto simp: svc_GetMonthlyCostBehavior_def split: option.splits if_splits)
  have q: "pg_GetMonthlyCostBehavior en t fromMonth toMonth w = (Inr cs, w1) \<Longrightarrow> cs = collect_costs [] (cost_rows ?ls)" for cs w1
    by (auto simp: pg_GetMonthlyCostBehavior_def q_MonthlyCostBehavior_def cost_rows_def onErr_InrD query_def Let_def
        cost_lines_def elim!: andThen_InrE split: if_splits)
  have d: "distinct (map mc_Month (collect_costs [] (cost_rows ?ls)))" by (rule collect_costs_distinct) simp
  have rows: "rows = month_loop (map_of (rev (map (\<lambda>r. (mc_Month r, r)) (collect_costs [] (cost_rows ?ls))))) f g"
    using assms p r q by (auto simp: svc_GetMonthlyCostBehavior_def onErr_InrD elim!: andThen_InrE)
  have "map_of (rev (map (\<lambda>r. (mc_Month r, r)) (collect_costs [] (cost_rows ?ls)))) = map_of (map (\<lambda>r. (mc_Month r, r)) (collect_costs [] (cost_rows ?ls)))"
    using d by (intro map_of_rev_distinct) (simp add: comp_def)
  then have "rows = map (\<lambda>ym. report_row ?ls (format_month ym)) (months_between f g)"
    unfolding rows by (intro month_loop_rows) (simp add: month_row_def [symmetric] collect_report_row)
  moreover have "length (months_between f g) \<le> 36" "1 \<le> length (months_between f g)"
    using r by (auto simp: months_between_def month_index_def)
  ultimately show ?thesis using p by auto
qed

theorem monthly_report_meets_spec_witness:
  "\<exists>rows f g. fst (svc_GetMonthlyCostBehavior demo_env 7 ''2026-01'' ''2026-03'' (demo_run demo_draft)) = Inr rows
     \<and> parse_month ''2026-01'' = Some f \<and> parse_month ''2026-03'' = Some g
     \<and> rows = map (\<lambda>ym. report_row (cost_lines 7 ''2026-01'' ''2026-03'' (demo_run demo_draft)) (format_month ym)) (months_between f g)"
proof -
  have "isl (fst (svc_GetMonthlyCostBehavior demo_env 7 ''2026-01'' ''2026-03'' (demo_run demo_draft))) = False" by code_simp
  then obtain rows where "svc_GetMonthlyCostBehavior demo_env 7 ''2026-01'' ''2026-03'' (demo_run demo_draft)
      = (Inr rows, snd (svc_GetMonthlyCostBehavior demo_env 7 ''2026-01'' ''2026-03'' (demo_run demo_draft)))"
    by (metis prod.collapse isl_def sum.exhaust)
  from monthly_report_meets_spec [OF this] this show ?thesis by (metis fst_conv)
qed

lemma cost_lines_iff:
  "((l, e), a) \<in> set (cost_lines t fromMonth toMonth w) \<longleftrightarrow>
     l \<in> set (jlines w) \<and> e \<in> set (entries w) \<and> a \<in> set (accounts w) \<and> er_id e = lr_journal l \<and> ar_id a = lr_account l
   \<and> er_tenant e = t \<and> ar_tenant a = t \<and> er_status e = ''posted'' \<and> ar_type a = ''expense''
   \<and> (\<exists>pa. er_posted_at e = Some pa \<and> fromMonth \<le> month_key pa \<and> month_key pa \<le> toMonth)"
  by (auto simp: cost_lines_def inner_join_def split: option.splits)

text \<open>
  After an entry is voided its lines no longer count in the monthly report, but the
  lines of its reversal do: the report holds the negated amounts where the two should cancel.
\<close>

lemma monthly_report_after_void:
  assumes inv: "ledger_inv w" and run: "svc_VoidJournalEntry en pub t i actor w = (Inr je, w')"
  shows "(\<forall>l e a. ((l, e), a) \<in> set (cost_lines u fromMonth toMonth w') \<longrightarrow> lr_journal l \<noteq> i)
     \<and> (\<exists>r now. er_id r = je_ID je \<and> er_posted_at r = Some now
         \<and> (\<forall>l a. l \<in> set (lines_of w' (je_ID je)) \<and> a \<in> set (accounts w') \<and> ar_id a = lr_account l \<and> ar_tenant a = t
               \<and> ar_type a = ''expense'' \<and> fromMonth \<le> month_key now \<and> month_key now \<le> toMonth
               \<longrightarrow> ((l, r), a) \<in> set (cost_lines t fromMonth toMonth w')))"
proof -
  from run inv obtain e r where e: "e \<in> set (entries w)" "voidable t i e"
    and w': "entries w' = update_rows (voidable t i) (er_status_update (\<lambda>_. ''void'')) (entries w) @ [r]"
    and r: "er_id r = je_ID je" "er_tenant r = t" "er_status r = ''posted''" "\<exists>now. er_posted_at r = Some now"
    and new: "\<forall>e \<in> set (entries w). er_id e \<noteq> je_ID je"
    by (rule svc_VoidJournalEntry_Inr)
  have "er_status x = ''void''" if x: "x \<in> set (entries w')" "er_id x = i" for x
  proof -
    have "x \<noteq> r" using x e new r by (auto simp: voidable_def)
    then obtain y where y: "y \<in> set (entries w)" "er_id y = i" "x = (if voidable t i y then y\<lparr>er_status := ''void''\<rparr> else y)"
      using x w' by (auto simp: update_rows_def split: if_splits)
    then have "y = e" using e inv by (auto simp: voidable_def ledger_inv_defs intro: distinct_key_unique)
    then show ?thesis using y e by simp
  qed
  then have "lr_journal l \<noteq> i" if "((l, x), a) \<in> set (cost_lines u fromMonth toMonth w')" for l x a
    using that by (auto simp: cost_lines_iff)
  moreover obtain now where "er_posted_at r = Some now" using r(4) by blast
  moreover have "r \<in> set (entries w')" using w' by simp
  ultimately show ?thesis using r
    by (intro conjI exI [of _ r] exI [of _ now]) (auto simp: cost_lines_iff lines_of_def)
qed


end
