(* ===== verification/LedgerPeriods.thy ===== *)
theory LedgerPeriods
  imports LedgerDemo
begin

text \<open>
  Closing an accounting period freezes its entries: whatever requests follow, every entry of the
  period stays exactly as it is, since posting and voiding are refused.
\<close>

definition frozen :: "entry_row \<Rightarrow> ledger \<Rightarrow> bool" where
  "frozen e w \<longleftrightarrow> ledger_inv w \<and> e \<in> set (entries w)
     \<and> (\<exists>p \<in> set (periods w). pr_id p = er_period e \<and> pr_status p = ''closed'')"

lemma tickless_frozen [simp]: "tickless (frozen e)"
  by (simp add: tickless_def frozen_def)

definition frozen_view :: "ledger \<Rightarrow> entry_row list \<times> period_row list" where
  "frozen_view w = (entries w, periods w)"

lemma frozen_view_tickless [simp]: "tickless_view frozen_view"
  by (simp add: tickless_view_def frozen_view_def)

lemma keeps_frozen:
  assumes "keeps ledger_inv m" and "same frozen_view m"
  shows "keeps (frozen e) m"
proof (rule keepsI)
  fix w assume f: "frozen e w"
  then have "ledger_inv (snd (m w))" using keepsD [OF assms(1)] by (simp add: frozen_def)
  then show "frozen e (snd (m w))" using f sameD [OF assms(2), of w] by (simp add: frozen_def frozen_view_def)
qed

lemma same_frozen_untick: "same untick m \<Longrightarrow> same frozen_view m"
  by (rule same_of_untick) simp_all

lemma keeps_frozen_reads: "same untick m \<Longrightarrow> keeps (frozen e) m"
  by (rule keeps_frozen [OF keeps_inv_untick same_frozen_untick])

lemmas same_frozen_reads [same_intros] =
  reads [THEN same_frozen_untick] pg_reads [THEN same_frozen_untick] same_assignContactIDs [THEN same_frozen_untick]
  same_id_or_New [THEN same_frozen_untick] same_uuid_New [THEN same_frozen_untick] same_time_Now [THEN same_frozen_untick]

lemma same_frozen_writes [same_intros]:
  "same frozen_view (q_CreateAccount en a)" "same frozen_view (q_SetAccountCostBehavior en i t cb)"
  "same frozen_view (q_NextJournalEntrySeq en t y)" "same frozen_view (q_CreateParty en q)"
  "same frozen_view (q_UpdateParty en q)" "same frozen_view (q_CreatePartyContact en k)"
  "same frozen_view (q_DeletePartyContacts en t j)"
  unfolding q_CreateAccount_def q_SetAccountCostBehavior_def q_NextJournalEntrySeq_def q_CreateParty_def
    q_UpdateParty_def q_CreatePartyContact_def q_DeletePartyContacts_def
  by (rule same_query_view [OF frozen_view_tickless];
      auto simp: same_def Let_def frozen_view_def split: sum.split)+

lemma same_frozen_bank [same_intros]: "same frozen_view (bank_attempts en t b l c n err)"
  by (induction n arbitrary: err) (auto simp: pg_CreateAccount_def intro!: same_intros)

lemma same_frozen_svc [same_intros]:
  "same frozen_view (svc_CreateAccount en a)" "same frozen_view (svc_SeedChartOfAccounts en t es)"
  "same frozen_view (svc_SetAccountCostBehavior en t i cb)" "same frozen_view (svc_CreateBankAccount en t inp)"
  "same frozen_view (svc_CreateParty en mail p)" "same frozen_view (svc_UpdateParty en mail p)"
  unfolding svc_CreateAccount_def svc_SeedChartOfAccounts_def svc_SetAccountCostBehavior_def seed_entry_def
    svc_CreateBankAccount_def svc_CreateParty_def svc_UpdateParty_def pg_SetAccountCostBehavior_def
    pg_CreateAccount_def pg_CreateParty_def pg_UpdateParty_def insertPartyContact_def Let_def
  by (intro same_intros same_transact_view frozen_view_tickless)+

lemma closed_update:
  assumes "p \<in> set ps" "pr_id p = i" "pr_status p = ''closed''"
    and "\<And>p. pr_id (f p) = pr_id p" "\<And>p. pr_status (f p) = ''closed''"
  shows "\<exists>p \<in> set (update_rows q f ps). pr_id p = i \<and> pr_status p = ''closed''"
  using assms by (intro bexI [of _ "if q p then f p else p"]) (auto simp: set_update_rows)

lemma frozen_q_periods:
  "keeps (frozen e) (q_CreateAccountingPeriod en p)" "keeps (frozen e) (q_CloseAccountingPeriod en i t by)"
proof -
  have "keeps (frozen e) m" if inv: "keeps ledger_inv m"
    and "\<And>w. entries (snd (m w)) = entries w \<and>
      ((\<exists>p \<in> set (periods w). pr_id p = er_period e \<and> pr_status p = ''closed'') \<longrightarrow>
       (\<exists>p \<in> set (periods (snd (m w))). pr_id p = er_period e \<and> pr_status p = ''closed''))" for m :: "(ledger, db_error, period_row) op"
    using that keepsD [OF inv] by (auto simp: keeps_def frozen_def)
  note rule = this
  show "keeps (frozen e) (q_CreateAccountingPeriod en p)"
    by (rule rule [OF keeps_q_CreateAccountingPeriod])
      (auto simp: q_CreateAccountingPeriod_def query_def Let_def)
  show "keeps (frozen e) (q_CloseAccountingPeriod en i t by)"
    by (rule rule [OF keeps_q_CloseAccountingPeriod])
      (auto simp: q_CloseAccountingPeriod_def query_def Let_def intro: closed_update split: sum.split)
qed

lemma frozen_periods:
  "keeps (frozen e) (svc_OpenAccountingPeriod en t y m)" "keeps (frozen e) (svc_CloseAccountingPeriod en t i actor)"
  unfolding svc_OpenAccountingPeriod_def svc_CloseAccountingPeriod_def pg_CreatePeriod_def pg_ClosePeriod_def
  by (intro keeps_andThen keeps_onErr keeps_if keeps_fail keeps_ret keeps_inspect keeps_case_sum frozen_q_periods
      keeps_frozen_reads pg_reads same_uuid_New same_time_Now)+

lemma frozen_create: "keeps (frozen e) (svc_CreateJournalEntry en je)"
proof (rule keepsI)
  fix w assume f: "frozen e w"
  obtain r w' where run: "svc_CreateJournalEntry en je w = (r, w')" by fastforce
  have "ledger_inv w'" using keepsD [OF keeps_svc_CreateJournalEntry, of w en je] f run by (simp add: frozen_def)
  moreover have "set (entries w) \<subseteq> set (entries w') \<and> periods w' = periods w"
  proof (cases r)
    case (Inl err)
    have "atomic frozen_view (svc_CreateJournalEntry en je)"
      unfolding svc_CreateJournalEntry_def Let_def pg_AllocateEntryNumber_def pg_CreateJournalEntry_def
      by (intro atomic_intros atomic_seq atomic_last same_intros same_frozen_untick same_check_line)
        (auto simp: atomic_def intro: tickless_view_untick [OF frozen_view_tickless] dest: transact_Inl)
    then show ?thesis using run Inl by (auto simp: frozen_view_def dest!: atomicD)
  next
    case (Inr je')
    from run [unfolded Inr] obtain ls i y n now where "untick w' = untick (w\<lparr>counters := (counters w)((je_TenantID je, y) \<mapsto> n),
           entries := entries w @ [draft_row je' now], jlines := jlines w @ map (stored_line i) ls\<rparr>)"
      by (rule svc_CreateJournalEntry_Inr)
    from untick_views [OF this] show ?thesis by auto
  qed
  ultimately show "frozen e (snd (svc_CreateJournalEntry en je w))" using f run by (auto simp: frozen_def)
qed


text \<open>Two rows of a frozen entry's identifier are the same row, and its period has one row.\<close>

lemma frozen_unique:
  assumes "frozen e w" and "x \<in> set (entries w)" and "er_id x = er_id e"
  shows "x = e"
  using assms by (auto simp: frozen_def ledger_inv_defs intro: distinct_key_unique)

lemma frozen_period:
  assumes "frozen e w" and "p \<in> set (periods w)" and "pr_id p = er_period e"
  shows "pr_status p = ''closed''"
proof -
  from assms(1) obtain q where q: "q \<in> set (periods w)" "pr_id q = er_period e" "pr_status q = ''closed''"
    by (auto simp: frozen_def)
  have "distinct (map pr_id (periods w))" using assms(1) by (simp add: frozen_def ledger_inv_defs)
  then have "p = q" by (rule distinct_key_unique) (use assms q in auto)
  with q show ?thesis by simp
qed

lemma frozen_post: "keeps (frozen e) (svc_PostJournalEntry en pub t i actor)"
proof (rule keepsI)
  fix w assume f: "frozen e w"
  obtain r w' where run: "svc_PostJournalEntry en pub t i actor w = (r, w')" by fastforce
  have inv: "ledger_inv w" using f by (simp add: frozen_def)
  have "frozen e w'"
  proof (cases r)
    case (Inl err)
    then show ?thesis using run f keeps_failing_atomic [OF tickless_frozen atomic_svc_PostJournalEntry]
      by (blast dest: keeps_failingD)
  next
    case (Inr je)
    from run [unfolded Inr] inv obtain x now where x: "posting_ok w t i x"
      and w': "untick w' = untick (w\<lparr>entries := update_rows (postable t i) (mark_posted actor now) (entries w),
                               published := published w @ (if pub then [je] else [])\<rparr>)"
      by (rule svc_PostJournalEntry_Inr)
    have "\<not> postable t i e"
    proof
      assume "postable t i e"
      then have "x = e" using x f by (intro frozen_unique) (auto simp: posting_ok_def postable_def)
      then show False using x frozen_period [OF f] by (auto simp: posting_ok_def)
    qed
    then have "e \<in> set (entries w')" using f untick_views [OF w'] by (auto simp: frozen_def set_update_rows)
    moreover have "ledger_inv w'" using keepsD [OF keeps_svc_PostJournalEntry inv, of en pub t i actor] run by simp
    ultimately show ?thesis using f untick_views [OF w'] by (simp add: frozen_def)
  qed
  then show "frozen e (snd (svc_PostJournalEntry en pub t i actor w))" using run by simp
qed

lemma frozen_void: "keeps (frozen e) (svc_VoidJournalEntry en pub t i actor)"
proof (rule keepsI)
  fix w assume f: "frozen e w"
  obtain r w' where run: "svc_VoidJournalEntry en pub t i actor w = (r, w')" by fastforce
  have inv: "ledger_inv w" using f by (simp add: frozen_def)
  have "frozen e w'"
  proof (cases r)
    case (Inl err)
    have "keeps_failing (frozen e) (svc_VoidJournalEntry en pub t i actor)"
      unfolding svc_VoidJournalEntry_def
      by (intro keeps_failing_andThen keeps_failing_if keeps_onErr frozen_create frozen_post keeps_frozen_reads pg_reads
          same_forEach same_reverse_line same_time_Now keeps_failing_keeps [OF keeps_fail]
          keeps_failing_atomic tickless_frozen atomic_last atomic_onErr atomic_pg_UpdateJournalStatus) simp
    then show ?thesis using run Inl f by (blast dest: keeps_failingD)
  next
    case (Inr je)
    from run [unfolded Inr] inv obtain x r where x: "x \<in> set (entries w)" "voidable t i x"
      and es: "entries w' = update_rows (voidable t i) (er_status_update (\<lambda>_. ''void'')) (entries w) @ [r]"
      and ps: "periods w' = periods w" "\<exists>p \<in> set (periods w). pr_id p = er_period x \<and> pr_status p \<noteq> ''closed''"
      by (rule svc_VoidJournalEntry_Inr)
    have "\<not> voidable t i e"
    proof
      assume "voidable t i e"
      then have "x = e" using x f by (intro frozen_unique) (auto simp: voidable_def)
      then show False using ps frozen_period [OF f] by auto
    qed
    then have "e \<in> set (entries w')" using f es by (auto simp: frozen_def set_update_rows)
    moreover have "ledger_inv w'" using keepsD [OF keeps_svc_VoidJournalEntry inv, of en pub t i actor] run by simp
    ultimately show ?thesis using f ps by (simp add: frozen_def)
  qed
  then show "frozen e (snd (svc_VoidJournalEntry en pub t i actor w))" using run by simp
qed

lemma exec_ledger_frozen: "frozen e w \<Longrightarrow> frozen e (exec_ledger en pub mail r w)"
  by (cases r) (auto intro!: keepsD [where P = "frozen e"] frozen_create frozen_post frozen_void frozen_periods
      keeps_frozen_reads svc_reads svc_more_reads
      keeps_frozen [OF keeps_svc_writes(1)] keeps_frozen [OF keeps_svc_writes(2)]
      keeps_frozen [OF keeps_svc_writes(3)] keeps_frozen [OF keeps_svc_writes(4)]
      keeps_frozen [OF keeps_svc_writes(7)] keeps_frozen [OF keeps_svc_writes(8)] same_intros)

text \<open>
  C7: once the period of an entry is closed, no sequence of requests changes the entry: a
  draft stays a draft, a posted entry can no longer be voided.
\<close>

theorem closed_period_freezes_entries:
  assumes "ledger_inv w" and "e \<in> set (entries w)" and "p \<in> set (periods w)" and "pr_id p = er_period e"
    and "pr_status p = ''closed''"
  shows "e \<in> set (entries (fold (exec_ledger en pub mail) rs w))"
proof -
  have "frozen e w" using assms by (auto simp: frozen_def)
  then have "frozen e (fold (exec_ledger en pub mail) rs w)"
    by (rule fold_keeps [where P = "frozen e", rotated]) (rule exec_ledger_frozen)
  then show ?thesis by (simp add: frozen_def)
qed


definition demo_closed :: "ledger_req list" where
  "demo_closed = demo_draft @ [CloseAccountingPeriod 7 32 9]"

theorem closed_period_freezes_entries_witness:
  "hd (entries (demo_run demo_closed)) \<in> set (entries (fold (exec_ledger demo_env True no_mail)
     [PostJournalEntry 7 11 9] (demo_run demo_closed)))"
proof -
  have h: "entries (demo_run demo_closed) \<noteq> []" "periods (demo_run demo_closed) \<noteq> []"
    "pr_id (hd (periods (demo_run demo_closed))) = er_period (hd (entries (demo_run demo_closed)))"
    "pr_status (hd (periods (demo_run demo_closed))) = ''closed''"
    by code_simp+
  show ?thesis
    using closed_period_freezes_entries [OF demo_inv hd_in_set [OF h(1)] hd_in_set [OF h(2)] h(3,4)] .
qed

text \<open>
  Voiding is not atomic: on an entry of a closed period it returns an error after it has
  stored the reversing entry, which stays behind as a draft.
\<close>

lemma void_in_closed_period_leaves_draft:
  "map er_status (entries (demo_run (demo_posted @ [CloseAccountingPeriod 7 32 9]))) = [''posted'']
   \<and> map er_status (entries (demo_run (demo_posted @ [CloseAccountingPeriod 7 32 9, VoidJournalEntry 7 11 9]))) = [''posted'', ''draft'']"
  by code_simp

definition other_tenant :: "ledger_req list" where
  "other_tenant = [CreateAccount ((demo_account 3 ''1000'' ''asset'')\<lparr>acc_TenantID := 8\<rparr>),
     CreateAccount ((demo_account 4 ''5000'' ''expense'')\<lparr>acc_TenantID := 8\<rparr>), OpenAccountingPeriod 8 2026 2]"

definition other_rent :: "uuid \<Rightarrow> JournalEntry" where
  "other_rent per = (demo_entry 12 per [demo_line 23 4 100 0, demo_line 24 3 0 100])\<lparr>je_TenantID := 8\<rparr>"

text \<open>
  The counters of entry numbers belong to a tenant, but the numbers must be unique over
  all tenants: the first entry of a second tenant in a year is refused and nothing is stored.
\<close>

lemma second_tenant_number_collides:
  "map pr_tenant (periods (demo_run (demo_draft @ other_tenant))) = [7, 8]
   \<and> outcome (fst (svc_CreateJournalEntry demo_env (other_rent (pr_id (periods (demo_run (demo_draft @ other_tenant)) ! 1)))
        (demo_run (demo_draft @ other_tenant)))) = Some None
   \<and> outcome (fst (svc_CreateJournalEntry demo_env (other_rent 32) (demo_run other_tenant))) = None"
  by code_simp

end
