(* ===== verification/LedgerParties.thy ===== *)
theory LedgerParties
  imports LedgerDemo
begin

text \<open>
  Properties of accounts, bank accounts and parties: what a created bank account holds, the
  normal form of a party, and that a stored party reads back as it was.
\<close>

section \<open>Normal form of a party\<close>

lemma trim_contact_idem [simp]: "trim_contact (trim_contact c) = trim_contact c"
  by (simp add: trim_contact_def)

lemma trim_contact_primary [simp]: "pc_IsPrimary (trim_contact c) = pc_IsPrimary c"
  by (simp add: trim_contact_def)

lemma contact_ok_primary [simp]: "contact_ok mp (c\<lparr>pc_IsPrimary := b\<rparr>) = contact_ok mp c"
  by (simp add: contact_ok_def)

lemma trim_contact_set_primary: "trim_contact (c\<lparr>pc_IsPrimary := b\<rparr>) = (trim_contact c)\<lparr>pc_IsPrimary := b\<rparr>"
  by (simp add: trim_contact_def)

lemma make_first_primary_props:
  "length (make_first_primary cs) = length cs"
  "list_all (contact_ok mp) (make_first_primary cs) = list_all (contact_ok mp) cs"
  "map trim_contact (make_first_primary cs) = make_first_primary (map trim_contact cs)"
  by (cases cs; simp add: trim_contact_set_primary)+

lemma make_first_primary_one:
  "cs \<noteq> [] \<Longrightarrow> filter pc_IsPrimary cs = [] \<Longrightarrow> length (filter pc_IsPrimary (make_first_primary cs)) = 1"
  by (cases cs) (auto split: if_splits)

lemma normalizeContacts_InrD:
  assumes "normalizeContacts mail_Parse cs = Inr cs'"
  shows "length cs' = length cs" "length cs \<le> 20" "list_all (contact_ok mail_Parse) cs'" "map trim_contact cs' = cs'"
    "map (pc_IsPrimary_update (\<lambda>_. False)) cs' = map (pc_IsPrimary_update (\<lambda>_. False)) (map trim_contact cs)"
    "length (filter pc_IsPrimary cs') = (if cs = [] then 0 else 1)"
proof -
  define ts where "ts = map trim_contact cs"
  have len: "length ts = length cs" "ts = [] \<longleftrightarrow> cs = []" "map trim_contact ts = ts" by (simp_all add: ts_def comp_def)
  have ok: "length cs \<le> 20" "list_all (contact_ok mail_Parse) ts" "length (filter pc_IsPrimary ts) \<le> 1"
    and cs': "cs' = (if 0 < length ts \<and> length (filter pc_IsPrimary ts) = 0 then make_first_primary ts else ts)"
    using assms by (auto simp: normalizeContacts_def Let_def ts_def [symmetric] split: if_splits)
  have "map (pc_IsPrimary_update (\<lambda>_. False)) (make_first_primary ts) = map (pc_IsPrimary_update (\<lambda>_. False)) ts"
    by (cases ts) simp_all
  then show "map (pc_IsPrimary_update (\<lambda>_. False)) cs' = map (pc_IsPrimary_update (\<lambda>_. False)) (map trim_contact cs)"
    using cs' by (simp add: ts_def)
  show "length (filter pc_IsPrimary cs') = (if cs = [] then 0 else 1)"
    using cs' ok(3) len make_first_primary_one [of ts] by (cases "filter pc_IsPrimary ts") auto
qed (use assms in \<open>auto simp: normalizeContacts_def Let_def make_first_primary_props comp_def split: if_splits\<close>)

text \<open>
  Accepted contacts are the given ones, trimmed and valid, at most twenty, and exactly
  one of them is primary when there are any.
\<close>

lemma normalizeContacts_one_primary:
  assumes "normalizeContacts mail_Parse cs = Inr cs'"
  shows "length cs' = length cs \<and> length cs \<le> 20 \<and> list_all (contact_ok mail_Parse) cs'
     \<and> map (pc_IsPrimary_update (\<lambda>_. False)) cs' = map (pc_IsPrimary_update (\<lambda>_. False)) (map trim_contact cs)
     \<and> length (filter pc_IsPrimary cs') = (if cs = [] then 0 else 1)"
  using normalizeContacts_InrD [OF assms] by blast

definition demo_contact :: PartyContact where
  "demo_contact = \<lparr>pc_ID = 0, pc_PartyID = 0, pc_Name = '' Ravi '', pc_Designation = '''', pc_Email = '''',
     pc_Phone = ''98'', pc_IsPrimary = False\<rparr>"

lemma normalizeContacts_idem:
  assumes "normalizeContacts mail_Parse cs = Inr cs'"
  shows "normalizeContacts mail_Parse cs' = Inr cs'"
  using normalizeContacts_InrD [OF assms] by (auto simp: normalizeContacts_def)

text \<open>
  Normalising a party that was normalised before changes nothing.
\<close>

lemma normalizeParty_idem:
  assumes "normalizeParty mail_Parse p = Inr p'"
  shows "normalizeParty mail_Parse p' = Inr p'"
proof -
  let ?cur = "ToUpper (TrimSpace (pt_DefaultCurrency p))"
  obtain cs where cs: "normalizeContacts mail_Parse (pt_Contacts p) = Inr cs"
    and p': "p' = p\<lparr>pt_Name := TrimSpace (pt_Name p), pt_Email := TrimSpace (pt_Email p), pt_Phone := TrimSpace (pt_Phone p),
        pt_TaxID := TrimSpace (pt_TaxID p), pt_Address := TrimSpace (pt_Address p), pt_DefaultCurrency := ?cur, pt_Contacts := cs\<rparr>"
    and cur: "?cur = '''' \<or> three_letters ?cur"
    using assms by (auto simp: normalizeParty_def Let_def split: if_splits sum.splits)
  have "ToUpper (TrimSpace ?cur) = ?cur" using cur
  proof
    assume "?cur = ''''"
    moreover have "TrimSpace '''' = ''''" by code_simp
    ultimately show ?thesis by simp
  qed (rule ToUpper_TrimSpace_three_letters)
  then show ?thesis using assms normalizeContacts_idem [OF cs]
    unfolding p' by (auto simp: normalizeParty_def Let_def cs split: if_splits)
qed

definition demo_party :: Party where
  "demo_party = \<lparr>pt_ID = 0, pt_TenantID = 7, pt_Name = '' Acme '', pt_PartyType = ''supplier'', pt_Email = '''',
     pt_Phone = '''', pt_TaxID = '''', pt_Address = '''', pt_DefaultCurrency = ''usd'', pt_IsActive = False,
     pt_Contacts = [demo_contact]\<rparr>"

section \<open>Storing a party and reading it back\<close>

definition contact_row_of :: "uuid \<Rightarrow> nat \<times> PartyContact \<Rightarrow> contact_row" where
  "contact_row_of t pc = \<lparr>kr_id = pc_ID (snd pc), kr_tenant = t, kr_party = pc_PartyID (snd pc),
     kr_name = pc_Name (snd pc), kr_designation = pc_Designation (snd pc), kr_email = pc_Email (snd pc),
     kr_phone = pc_Phone (snd pc), kr_primary = pc_IsPrimary (snd pc), kr_position = int (fst pc)\<rparr>"

lemma insertPartyContact_Inr:
  assumes "insertPartyContact en t pc w = (Inr u, w')"
  shows "untick w' = untick (w\<lparr>contacts := contacts w @ [contact_row_of t pc]\<rparr>)"
  using assms
  by (auto simp: insertPartyContact_def q_CreatePartyContact_def query_def Let_def onErr_InrD contact_row_of_def untick_def
      elim!: andThen_InrE split: if_splits)

lemma insert_contacts_Inr:
  "forEach (insertPartyContact en t) pcs w = (Inr us, w') \<Longrightarrow>
     untick w' = untick (w\<lparr>contacts := contacts w @ map (contact_row_of t) pcs\<rparr>)"
proof (induction pcs arbitrary: us w)
  case (Cons pc pcs)
  then obtain w1 vs where one: "insertPartyContact en t pc w = (Inr (), w1)"
    and rest: "forEach (insertPartyContact en t) pcs w1 = (Inr vs, w')"
    by (auto elim!: andThen_InrE)
  show ?case
    using untick_views [OF insertPartyContact_Inr [OF one]] untick_views [OF Cons.IH [OF rest]]
    by (intro untick_eqI) auto
qed (simp add: untick_def)

lemma pg_CreateParty_Inr:
  assumes "pg_CreateParty en p w = (Inr p', w')"
  shows "p' = p\<lparr>pt_IsActive := True\<rparr>" and "\<forall>y \<in> set (parties w). yr_id y \<noteq> pt_ID p"
    and "untick w' = untick (w\<lparr>parties := parties w @ [(party_row_of p)\<lparr>yr_active := True\<rparr>],
           contacts := contacts w @ map (contact_row_of (pt_TenantID p)) (enumerate 0 (pt_Contacts p))\<rparr>)"
proof -
  obtain w0 w1 w2 x vs where w0: "untick w0 = untick w" and w': "untick w' = untick w2"
    and hd: "q_CreateParty en (party_row_of p) w0 = (Inr x, w1)"
    and cs: "forEach (insertPartyContact en (pt_TenantID p)) (enumerate 0 (pt_Contacts p)) w1 = (Inr vs, w2)"
    and p': "p' = p\<lparr>pt_IsActive := yr_active x\<rparr>"
    using assms unfolding pg_CreateParty_def
    by (auto elim!: transact_InrE andThen_InrE simp: onErr_InrD)
  from hd have w1: "untick w1 = untick (w0\<lparr>parties := parties w0 @ [(party_row_of p)\<lparr>yr_active := True\<rparr>]\<rparr>)"
    and x: "yr_active x" "\<forall>y \<in> set (parties w0). yr_id y \<noteq> pt_ID p"
    by (auto simp: q_CreateParty_def query_def Let_def party_row_of_def untick_def split: if_splits)
  show "p' = p\<lparr>pt_IsActive := True\<rparr>" using p' x by simp
  show "\<forall>y \<in> set (parties w). yr_id y \<noteq> pt_ID p" using x untick_views [OF w0] by simp
  show "untick w' = untick (w\<lparr>parties := parties w @ [(party_row_of p)\<lparr>yr_active := True\<rparr>],
           contacts := contacts w @ map (contact_row_of (pt_TenantID p)) (enumerate 0 (pt_Contacts p))\<rparr>)"
    using untick_views [OF w0] untick_views [OF w1] untick_views [OF w'] untick_views [OF insert_contacts_Inr [OF cs]]
    by (intro untick_eqI) auto
qed

lemma text_roundtrip [simp]: "stringFromPgText (pgTextFromString s) = s"
  by (simp add: stringFromPgText_def pgTextFromString_def)

lemma contactFromDB_row: "contactFromDB (contact_row_of t pc) = snd pc"
  by (simp add: contactFromDB_def contact_row_of_def)

lemma sorted_map_int_upt: "sorted (map int [m..<n])"
  by (simp add: sorted_map)

lemma stored_contacts:
  assumes "\<forall>c \<in> set cs. pc_PartyID c = i" and "\<forall>k \<in> set ks. kr_party k \<noteq> i"
  shows "map contactFromDB (sort_key kr_position (filter (\<lambda>k. kr_tenant k = t \<and> kr_party k = i)
           (ks @ map (contact_row_of t) (enumerate 0 cs)))) = cs"
proof -
  let ?new = "map (contact_row_of t) (enumerate 0 cs)"
  have cong: "filter (\<lambda>k. kr_tenant k = t \<and> kr_party k = i) ks = []" using assms(2) by (auto intro: filter_none)
  have "filter (\<lambda>k. kr_tenant k = t \<and> kr_party k = i) ?new = ?new"
    using assms(1) by (auto intro!: filter_True simp: contact_row_of_def in_set_enumerate_eq)
  with cong have "filter (\<lambda>k. kr_tenant k = t \<and> kr_party k = i) (ks @ ?new) = ?new" by simp
  moreover have "map kr_position ?new = map int (map fst (enumerate 0 cs))"
    by (simp add: contact_row_of_def comp_def del: map_fst_enumerate)
  then have "sort_key kr_position ?new = ?new"
    by (intro sort_key_id_if_sorted) (simp only: map_fst_enumerate sorted_map_int_upt)
  moreover have "map contactFromDB ?new = cs"
    by (simp add: comp_def contactFromDB_row)
  ultimately show ?thesis by simp
qed

lemma assign_loop_Inr:
  "forEach (\<lambda>c. andThen (uuid_New en) (\<lambda>i. ret (c\<lparr>pc_ID := i, pc_PartyID := j\<rparr>))) cs w = (Inr cs', w') \<Longrightarrow>
     \<forall>c \<in> set cs'. pc_PartyID c = j"
  by (induction cs arbitrary: w cs') (auto elim!: andThen_InrE)

lemma assignContactIDs_Inr:
  assumes "assignContactIDs en p w = (Inr p', w')"
  shows "pt_ID p' = pt_ID p" "\<forall>c \<in> set (pt_Contacts p'). pc_PartyID c = pt_ID p'"
  using assms by (auto simp: assignContactIDs_def elim!: andThen_InrE dest!: assign_loop_Inr)

lemma svc_CreateParty_InrE:
  assumes "svc_CreateParty en mail p w = (Inr p', w')"
  obtains q v where "pg_CreateParty en q v = (Inr p', w')" and "untick v = untick w"
    and "\<forall>c \<in> set (pt_Contacts q). pc_PartyID c = pt_ID q"
proof -
  obtain n where n: "normalizeParty mail p = Inr n"
    using assms by (auto simp: svc_CreateParty_def split: sum.splits)
  obtain i w1 where i: "(uuid_New en :: (ledger, ledger_err, uuid) op) w = (Inr i, w1)" by (simp add: uuid_New_def)
  obtain q v where q: "assignContactIDs en (n\<lparr>pt_ID := i, pt_IsActive := True\<rparr>) w1 = (Inr q, v)"
    and c: "pg_CreateParty en q v = (Inr p', w')"
    using assms n i by (auto simp: svc_CreateParty_def step_simps elim!: andThen_InrE)
  have "untick w1 = untick w" by (rule same_untickD [OF same_uuid_New i])
  then have "untick v = untick w" using same_untickD [OF same_assignContactIDs q] by simp
  then show thesis using that c assignContactIDs_Inr(2) [OF q] by blast
qed

text \<open>
  C15: a party that was created reads back exactly as it was returned, with its contacts in
  the order they were given.
\<close>

theorem CreateParty_then_GetParty:
  assumes calm: "calm en" and inv: "ledger_inv w" and ok: "svc_CreateParty en mail p w = (Inr p', w')"
  shows "fst (svc_GetParty en (pt_TenantID p') (pt_ID p') w') = Inr p'"
proof -
  from ok obtain q v where q: "pg_CreateParty en q v = (Inr p', w')" and v: "untick v = untick w"
    and cs: "\<forall>c \<in> set (pt_Contacts q). pc_PartyID c = pt_ID q"
    by (rule svc_CreateParty_InrE)
  note p' = pg_CreateParty_Inr(1) [OF q] and new = pg_CreateParty_Inr(2) [OF q] and w' = untick_views [OF pg_CreateParty_Inr(3) [OF q]]
  let ?r = "(party_row_of q)\<lparr>yr_active := True\<rparr>"
  have "row_by (\<lambda>y. yr_id y = pt_ID q \<and> yr_tenant y = pt_TenantID q) (parties w') = Inr ?r"
    using w' new by (auto simp: row_by_def party_row_of_def find_append_new)
  moreover have "\<forall>k \<in> set (contacts v). kr_party k \<noteq> pt_ID q"
    using inv new untick_views [OF v] by (fastforce simp: ledger_inv_defs)
  from stored_contacts [OF cs this] w'
  have "map contactFromDB (sort_key kr_position (filter (\<lambda>k. kr_tenant k = pt_TenantID q \<and> kr_party k = pt_ID q) (contacts w'))) = pt_Contacts q"
    by simp
  ultimately show ?thesis using calm
    by (simp add: svc_GetParty_def pg_GetPartyByID_def q_GetParty_def q_ListPartyContacts_def query_calm andThen_def onErr_def
        contactsFromDB_def p' partyFromDB_def party_row_of_def)
qed

theorem CreateParty_then_GetParty_witness:
  "\<exists>p' w'. svc_CreateParty demo_env no_mail demo_party empty_ledger = (Inr p', w')
     \<and> fst (svc_GetParty demo_env (pt_TenantID p') (pt_ID p') w') = Inr p'"
proof -
  have "\<not> isl (fst (svc_CreateParty demo_env no_mail demo_party empty_ledger))" by code_simp
  then obtain p' where "svc_CreateParty demo_env no_mail demo_party empty_ledger
      = (Inr p', snd (svc_CreateParty demo_env no_mail demo_party empty_ledger))" using ran by blast
  with CreateParty_then_GetParty [OF demo_calm ledger_inv_empty this] show ?thesis by blast
qed

end
