(* ===== verification/Rpc.thy ===== *)
theory Rpc
  imports Interceptor
begin

text \<open>
  What the gRPC handlers of the services share: the record of a handler with its permission
  checker, its environment and the functions of packages outside the repository
  (\<^verbatim>\<open>uuid.Parse\<close>, \<^verbatim>\<open>UUID.String\<close>, \<^verbatim>\<open>decimal.NewFromString\<close>,
  \<^verbatim>\<open>Decimal.StringFixed(2)\<close>, \<^verbatim>\<open>pgtype.Date.Scan\<close>,
  \<^verbatim>\<open>mail.ParseAddress\<close>), the checks at the head of
  an RPC and the parsing of identifiers and amounts.
\<close>

section \<open>The handler and its library functions\<close>

record handler =
  h_env :: env
  h_pub :: bool
  h_mail :: "string \<Rightarrow> string option"
  h_perm :: "checker option"
  h_flag :: string
  uuid_Parse :: "string \<Rightarrow> uuid option"
  uuid_String :: "uuid \<Rightarrow> string"
  decimal_Parse :: "string \<Rightarrow> decimal option"
  StringFixed2 :: "decimal \<Rightarrow> string"
  date_Scan :: "string \<Rightarrow> string option"

text \<open>The two checks at the head of every RPC.\<close>

definition guard :: "handler \<Rightarrow> ctx \<Rightarrow> string \<Rightarrow> string \<Rightarrow> ('w, status, uuid) op" where
  "guard h ctx reqTenant perm =
     andThen (liftR (TenantFromRequest (uuid_Parse h) ctx reqTenant))
       (\<lambda>tenantID. andThen (liftR (RequirePermission (h_flag h) ctx (h_perm h) perm)) (\<lambda>_. ret tenantID))"

definition parse_id :: "handler \<Rightarrow> string \<Rightarrow> string \<Rightarrow> ('w, status, uuid) op" where
  "parse_id h s msg =
     liftR (case uuid_Parse h s of None \<Rightarrow> Inl (Status InvalidArgument msg) | Some i \<Rightarrow> Inr i)"

text \<open>An optional identifier: the empty text is absent.\<close>

definition parse_opt_id :: "handler \<Rightarrow> string \<Rightarrow> string \<Rightarrow> ('w, status, uuid option) op" where
  "parse_opt_id h s msg =
     (if s \<noteq> '''' then andThen (parse_id h s msg) (\<lambda>i. ret (Some i)) else ret None)"

definition parse_decimal :: "handler \<Rightarrow> string \<Rightarrow> string \<Rightarrow> ('w, status, decimal) op" where
  "parse_decimal h s msg =
     liftR (case decimal_Parse h s of None \<Rightarrow> Inl (Status InvalidArgument msg) | Some d \<Rightarrow> Inr d)"

definition actor :: "handler \<Rightarrow> ctx \<Rightarrow> string \<Rightarrow> ('w, status, uuid) op" where
  "actor h ctx s = liftR (ActorFromRequest (uuid_Parse h) ctx s)"

section \<open>Who may call\<close>

definition granted :: "handler \<Rightarrow> ctx \<Rightarrow> string \<Rightarrow> bool" where
  "granted h ctx perm \<longleftrightarrow> (case ctx_caller ctx of None \<Rightarrow> False
     | Some caller \<Rightarrow> TenantID caller \<noteq> uuid_Nil \<and> UserID caller \<noteq> uuid_Nil
         \<and> (case h_perm h of None \<Rightarrow> False
            | Some check \<Rightarrow> check (UserID caller) perm
                (if ProjectScopedRBACEnabled (h_flag h) \<and> ProjectID caller \<noteq> uuid_Nil
                 then Some (ProjectID caller) else None) = Inr True))"

definition tenant_of_caller :: "ctx \<Rightarrow> uuid" where
  "tenant_of_caller ctx = (case ctx_caller ctx of None \<Rightarrow> uuid_Nil | Some caller \<Rightarrow> TenantID caller)"

lemma guard_Inr:
  assumes "guard h ctx t perm w = (Inr tenantID, w')"
  shows "w' = w" "tenantID = tenant_of_caller ctx" "granted h ctx perm"
  using assms
  by (auto simp: guard_def liftR_def tenant_of_caller_def granted_def RequirePermission_Inr_iff
      elim!: andThen_InrE dest!: TenantFromRequest_InrD)

lemma guard_state [simp]: "snd (guard h ctx t perm w) = w"
  by (simp add: guard_def liftR_def andThen_def split: sum.split)

section \<open>The tenant and the caller of the context\<close>

definition ctxTenant :: "ctx \<Rightarrow> ('w, status, uuid) op" where
  "ctxTenant ctx = liftR (case IDFromContext ctx of
     None \<Rightarrow> Inl (Status Unauthenticated ''tenant ID not found in context'') | Some t \<Rightarrow> Inr t)"

definition ctxCaller :: "ctx \<Rightarrow> ('w, status, CallerInfo) op" where
  "ctxCaller ctx = liftR (case CallerFromContext ctx of
     None \<Rightarrow> Inl (Status Unauthenticated ''caller identity not found in context'') | Some c \<Rightarrow> Inr c)"

definition permit :: "handler \<Rightarrow> ctx \<Rightarrow> string \<Rightarrow> ('w, status, unit) op" where
  "permit h ctx p = liftR (RequirePermission (h_flag h) ctx (h_perm h) p)"

definition tenant_of_ctx :: "ctx \<Rightarrow> uuid" where
  "tenant_of_ctx ctx = (case ctx_tenant ctx of None \<Rightarrow> uuid_Nil | Some t \<Rightarrow> t)"

lemma keeps_then_tenant:
  assumes "\<And>t. ctx_tenant ctx = Some t \<Longrightarrow> keeps P (k t)"
  shows "keeps P (andThen (ctxTenant ctx) k)"
  using assms unfolding keeps_def ctxTenant_def liftR_def IDFromContext_def
  by (auto simp: andThen_def split: option.splits)

lemma keeps_handler_steps [keeps_intros]:
  "keeps P (ctxCaller ctx)" "keeps P (permit h ctx p)" "keeps P (parse_id h s msg)" "keeps P (parse_opt_id h s msg)"
  "keeps P (parse_decimal h s msg)" "keeps P (actor h ctx s)"
  unfolding ctxCaller_def permit_def parse_id_def parse_opt_id_def parse_decimal_def actor_def
  by (intro keeps_intros)+

lemma ctxTenant_Inr: "ctxTenant ctx w = (Inr t, w') \<longleftrightarrow> w' = w \<and> ctx_tenant ctx = Some t"
  by (auto simp: ctxTenant_def liftR_def IDFromContext_def split: option.split)

lemma ctxCaller_Inr: "ctxCaller ctx w = (Inr c, w') \<longleftrightarrow> w' = w \<and> ctx_caller ctx = Some c"
  by (auto simp: ctxCaller_def liftR_def CallerFromContext_def split: option.split)

lemma permit_Inr: "permit h ctx p w = (Inr u, w') \<longleftrightarrow> w' = w \<and> RequirePermission (h_flag h) ctx (h_perm h) p = Inr u"
  by (auto simp: permit_def liftR_def)

text \<open>Both checks at the head of an RPC that takes its tenant from the context.\<close>

definition rpcHead :: "handler \<Rightarrow> ctx \<Rightarrow> string \<Rightarrow> ('w, status, uuid) op" where
  "rpcHead h ctx perm = andThen (ctxTenant ctx) (\<lambda>t. andThen (permit h ctx perm) (\<lambda>_. ret t))"

lemma rpcHead_Inr:
  "rpcHead h ctx p w = (Inr t, w') \<longleftrightarrow> w' = w \<and> ctx_tenant ctx = Some t \<and> RequirePermission (h_flag h) ctx (h_perm h) p = Inr ()"
  by (auto simp: rpcHead_def andThen_def ctxTenant_def IDFromContext_def permit_def liftR_def split: option.split sum.split)

lemma keeps_then_rpcHead:
  assumes "\<And>t. ctx_tenant ctx = Some t \<Longrightarrow> keeps P (k t)"
  shows "keeps P (andThen (rpcHead h ctx p) k)"
  using assms unfolding keeps_def rpcHead_def ctxTenant_def permit_def liftR_def IDFromContext_def
  by (auto simp: andThen_def split: option.splits sum.splits)

text \<open>Without the permission an RPC that begins so does nothing.\<close>

lemma rpcHead_denied:
  assumes "RequirePermission (h_flag h) ctx (h_perm h) p \<noteq> Inr ()"
  shows "snd (andThen (rpcHead h ctx p) k w) = w"
  using assms by (auto simp: rpcHead_def andThen_def ctxTenant_def IDFromContext_def permit_def liftR_def split: option.split sum.split)

end
