(* ===== verification/LedgerHandler.thy ===== *)
theory LedgerHandler
  imports LedgerRun Rpc
begin

text \<open>
  The gRPC surface of the general ledger (\<^verbatim>\<open>services/ledger/handler.go\<close>): every RPC
  takes the tenant from the verified caller, asks for a permission, parses the request, calls the
  service and maps its errors to a status. Messages of the generated code are records, or arguments
  where a request has few fields.
\<close>

section \<open>Permissions\<close>

definition permLedgerRead :: string where "permLedgerRead = ''ledger:read''"
definition permLedgerWrite :: string where "permLedgerWrite = ''ledger:write''"
definition permLedgerPost :: string where "permLedgerPost = ''ledger:post''"
definition permLedgerAdmin :: string where "permLedgerAdmin = ''ledger:admin''"

section \<open>Error mapping\<close>

text \<open>
  The text of a sentinel where a status carries \<^verbatim>\<open>err.Error()\<close>; what wrapping adds to the
  text is not kept.
\<close>

fun sentinel_text :: "ledger_sentinel \<Rightarrow> string" where
  "sentinel_text ErrAccountNotFound = ''ledger: account not found''"
| "sentinel_text ErrAccountInactive = ''ledger: account is inactive''"
| "sentinel_text ErrAccountCodeExists = ''ledger: account code already exists for tenant''"
| "sentinel_text ErrInvalidAccountType = ''ledger: invalid account type; must be asset, liability, equity, revenue, or expense''"
| "sentinel_text ErrBankNameInvalid = ''ledger: bank name is required and must be at most 100 characters''"
| "sentinel_text ErrAccountNumberInvalid = ''ledger: account number must be at least 4 digits''"
| "sentinel_text ErrBankCurrencyInvalid = ''ledger: bank currency must be a 3-letter ISO 4217 code''"
| "sentinel_text ErrNoBankCodeAvailable = ''ledger: no free bank account code left in the 1000-1999 range''"
| "sentinel_text ErrBankAccountNotAsset = ''ledger: bank accounts must be asset accounts without a parent or code''"
| "sentinel_text ErrPartyNotFound = ''ledger: party not found''"
| "sentinel_text ErrPartyNameExists = ''ledger: a party with this name already exists''"
| "sentinel_text ErrPartyNameInvalid = ''ledger: party name is required and must be at most 200 characters''"
| "sentinel_text ErrPartyTypeInvalid = ''ledger: party type must be customer, supplier, or both''"
| "sentinel_text ErrPartyEmailInvalid = ''ledger: party email is not a valid address''"
| "sentinel_text ErrPartyFieldTooLong = ''ledger: a party field is longer than allowed''"
| "sentinel_text ErrPartyCurrencyInvalid = ''ledger: party currency must be a 3-letter ISO 4217 code''"
| "sentinel_text ErrContactInvalid = ''ledger: invalid party contact''"
| "sentinel_text ErrPeriodNotFound = ''ledger: accounting period not found''"
| "sentinel_text ErrPeriodClosed = ''ledger: accounting period is closed''"
| "sentinel_text ErrPeriodAlreadyExists = ''ledger: accounting period already exists''"
| "sentinel_text ErrJournalNotFound = ''ledger: journal entry not found''"
| "sentinel_text ErrJournalAlreadyPosted = ''ledger: journal entry is already posted''"
| "sentinel_text ErrJournalVoid = ''ledger: journal entry is void''"
| "sentinel_text ErrJournalNotBalanced = ''ledger: journal entry is not balanced: sum(debit) '' @ [CHR 0xE2, CHR 0x89, CHR 0xA0] @ '' sum(credit)''"
| "sentinel_text ErrJournalTooFewLines = ''ledger: journal entry must have at least two lines''"
| "sentinel_text ErrCostBehaviorInvalid = ''ledger: cost behavior must be fixed, variable, or empty to clear''"
| "sentinel_text ErrCostBehaviorNotExpense = ''ledger: cost behavior applies only to expense accounts''"
| "sentinel_text ErrMonthRangeInvalid = ''ledger: months must be YYYY-MM and from_month must not be after to_month''"

definition grpcErr :: "ledger_err \<Rightarrow> status" where
  "grpcErr err =
     (let text = (\<lambda>c. Status c (case sentinel_of err of None \<Rightarrow> '''' | Some s \<Rightarrow> sentinel_text s)) in
      if errors_Is err ErrAccountNotFound then Status NotFound ''account not found''
      else if errors_Is err ErrAccountInactive then Status FailedPrecondition ''account is inactive''
      else if errors_Is err ErrAccountCodeExists then Status AlreadyExists ''account code already exists for tenant''
      else if errors_Is err ErrInvalidAccountType then Status InvalidArgument ''invalid account type''
      else if errors_Is err ErrBankNameInvalid \<or> errors_Is err ErrAccountNumberInvalid
           \<or> errors_Is err ErrBankCurrencyInvalid \<or> errors_Is err ErrBankAccountNotAsset then text InvalidArgument
      else if errors_Is err ErrCostBehaviorInvalid \<or> errors_Is err ErrCostBehaviorNotExpense
           \<or> errors_Is err ErrMonthRangeInvalid then text InvalidArgument
      else if errors_Is err ErrNoBankCodeAvailable then text FailedPrecondition
      else if errors_Is err ErrPartyNotFound then Status NotFound ''party not found''
      else if errors_Is err ErrPartyNameExists then text AlreadyExists
      else if errors_Is err ErrPartyNameInvalid \<or> errors_Is err ErrPartyTypeInvalid
           \<or> errors_Is err ErrPartyEmailInvalid \<or> errors_Is err ErrPartyFieldTooLong
           \<or> errors_Is err ErrPartyCurrencyInvalid \<or> errors_Is err ErrContactInvalid then text InvalidArgument
      else if errors_Is err ErrPeriodNotFound then Status NotFound ''accounting period not found''
      else if errors_Is err ErrPeriodClosed then Status FailedPrecondition ''accounting period is closed''
      else if errors_Is err ErrPeriodAlreadyExists then Status AlreadyExists ''accounting period already exists''
      else if errors_Is err ErrJournalNotFound then Status NotFound ''journal entry not found''
      else if errors_Is err ErrJournalAlreadyPosted then Status FailedPrecondition ''journal entry is already posted''
      else if errors_Is err ErrJournalVoid then Status FailedPrecondition ''journal entry is void''
      else if errors_Is err ErrJournalNotBalanced then Status InvalidArgument ''journal entry is not balanced''
      else if errors_Is err ErrJournalTooFewLines
      then Status InvalidArgument ''journal entry must have at least two lines''
      else Status Internal ''internal error'')"

section \<open>Messages\<close>

record pbAccount =
  apb_Id :: string
  apb_TenantId :: string
  apb_Code :: string
  apb_Name :: string
  apb_AccountType :: string
  apb_ParentId :: string
  apb_IsActive :: bool
  apb_BankName :: string
  apb_AccountLast4 :: string
  apb_BankCurrency :: string
  apb_CostBehavior :: string

record pbAccountingPeriod =
  ppb_Id :: string
  ppb_TenantId :: string
  ppb_Year :: int
  ppb_Month :: int
  ppb_Status :: string
  ppb_ClosedBy :: string
  ppb_ClosedAt :: "time option"

record pbJournalLine =
  lpb_Id :: string
  lpb_JournalId :: string
  lpb_AccountId :: string
  lpb_DebitAmount :: string
  lpb_CreditAmount :: string
  lpb_Currency :: string
  lpb_Description :: string
  lpb_PartyId :: string

record pbJournalEntry =
  epb_Id :: string
  epb_TenantId :: string
  epb_ProductionId :: string
  epb_PeriodId :: string
  epb_EntryNumber :: string
  epb_Reference :: string
  epb_Narration :: string
  epb_Status :: string
  epb_Lines :: "pbJournalLine list"
  epb_PostedBy :: string
  epb_PostedAt :: "time option"
  epb_CreatedAt :: time

record pbPartyContact =
  cpb_Id :: string
  cpb_PartyId :: string
  cpb_Name :: string
  cpb_Designation :: string
  cpb_Email :: string
  cpb_Phone :: string
  cpb_IsPrimary :: bool

record pbParty =
  ypb_Id :: string
  ypb_TenantId :: string
  ypb_Name :: string
  ypb_PartyType :: string
  ypb_Email :: string
  ypb_Phone :: string
  ypb_TaxId :: string
  ypb_Address :: string
  ypb_DefaultCurrency :: string
  ypb_IsActive :: bool
  ypb_Contacts :: "pbPartyContact list"

definition accountToProto :: "handler \<Rightarrow> Account \<Rightarrow> pbAccount" where
  "accountToProto h a =
     \<lparr>apb_Id = uuid_String h (acc_ID a), apb_TenantId = uuid_String h (acc_TenantID a),
      apb_Code = acc_Code a, apb_Name = acc_Name a, apb_AccountType = acc_AccountType a,
      apb_ParentId = (case acc_ParentID a of None \<Rightarrow> '''' | Some p \<Rightarrow> uuid_String h p),
      apb_IsActive = acc_IsActive a, apb_BankName = acc_BankName a,
      apb_AccountLast4 = acc_AccountLast4 a, apb_BankCurrency = acc_BankCurrency a,
      apb_CostBehavior = acc_CostBehavior a\<rparr>"

definition periodToProto :: "handler \<Rightarrow> AccountingPeriod \<Rightarrow> pbAccountingPeriod" where
  "periodToProto h p =
     \<lparr>ppb_Id = uuid_String h (per_ID p), ppb_TenantId = uuid_String h (per_TenantID p),
      ppb_Year = int32 (per_Year p), ppb_Month = int32 (per_Month p), ppb_Status = per_Status p,
      ppb_ClosedBy = (case per_ClosedBy p of None \<Rightarrow> '''' | Some u \<Rightarrow> uuid_String h u),
      ppb_ClosedAt = per_ClosedAt p\<rparr>"

definition partyIDString :: "handler \<Rightarrow> uuid option \<Rightarrow> string" where
  "partyIDString h i = (case i of None \<Rightarrow> '''' | Some u \<Rightarrow> uuid_String h u)"

definition lineToProto :: "handler \<Rightarrow> JournalLine \<Rightarrow> pbJournalLine" where
  "lineToProto h l =
     \<lparr>lpb_Id = uuid_String h (jl_ID l), lpb_JournalId = uuid_String h (jl_JournalID l),
      lpb_AccountId = uuid_String h (jl_AccountID l),
      lpb_DebitAmount = StringFixed2 h (jl_DebitAmount l),
      lpb_CreditAmount = StringFixed2 h (jl_CreditAmount l), lpb_Currency = jl_Currency l,
      lpb_Description = jl_Description l, lpb_PartyId = partyIDString h (jl_PartyID l)\<rparr>"

definition journalEntryToProto :: "handler \<Rightarrow> JournalEntry \<Rightarrow> pbJournalEntry" where
  "journalEntryToProto h je =
     \<lparr>epb_Id = uuid_String h (je_ID je), epb_TenantId = uuid_String h (je_TenantID je),
      epb_ProductionId = (case je_ProductionID je of None \<Rightarrow> '''' | Some u \<Rightarrow> uuid_String h u),
      epb_PeriodId = uuid_String h (je_PeriodID je), epb_EntryNumber = je_EntryNumber je,
      epb_Reference = je_Reference je, epb_Narration = je_Narration je, epb_Status = je_Status je,
      epb_Lines = map (lineToProto h) (je_Lines je),
      epb_PostedBy = (case je_PostedBy je of None \<Rightarrow> '''' | Some u \<Rightarrow> uuid_String h u),
      epb_PostedAt = je_PostedAt je, epb_CreatedAt = je_CreatedAt je\<rparr>"

definition contactsFromProto :: "pbPartyContact list \<Rightarrow> PartyContact list" where
  "contactsFromProto cs = map (\<lambda>c.
     \<lparr>pc_ID = uuid_Nil, pc_PartyID = uuid_Nil, pc_Name = cpb_Name c,
      pc_Designation = cpb_Designation c, pc_Email = cpb_Email c, pc_Phone = cpb_Phone c,
      pc_IsPrimary = cpb_IsPrimary c\<rparr>) cs"

definition contactsToProto :: "handler \<Rightarrow> PartyContact list \<Rightarrow> pbPartyContact list" where
  "contactsToProto h cs = map (\<lambda>c.
     \<lparr>cpb_Id = uuid_String h (pc_ID c), cpb_PartyId = uuid_String h (pc_PartyID c),
      cpb_Name = pc_Name c, cpb_Designation = pc_Designation c, cpb_Email = pc_Email c,
      cpb_Phone = pc_Phone c, cpb_IsPrimary = pc_IsPrimary c\<rparr>) cs"

definition partyToProto :: "handler \<Rightarrow> Party \<Rightarrow> pbParty" where
  "partyToProto h p =
     \<lparr>ypb_Id = uuid_String h (pt_ID p), ypb_TenantId = uuid_String h (pt_TenantID p),
      ypb_Name = pt_Name p, ypb_PartyType = pt_PartyType p, ypb_Email = pt_Email p,
      ypb_Phone = pt_Phone p, ypb_TaxId = pt_TaxID p, ypb_Address = pt_Address p,
      ypb_DefaultCurrency = pt_DefaultCurrency p, ypb_IsActive = pt_IsActive p,
      ypb_Contacts = contactsToProto h (pt_Contacts p)\<rparr>"

section \<open>Accounts\<close>

record CreateAccountRequest =
  ca_TenantId :: string
  ca_Code :: string
  ca_Name :: string
  ca_AccountType :: string
  ca_ParentId :: string
  ca_BankName :: string
  ca_AccountNumber :: string
  ca_BankCurrency :: string

definition rpc_CreateAccount :: "handler \<Rightarrow> ctx \<Rightarrow> CreateAccountRequest \<Rightarrow> (ledger, status, pbAccount) op" where
  "rpc_CreateAccount h ctx req =
     andThen (guard h ctx (ca_TenantId req) permLedgerWrite)
       (\<lambda>tenantID.
          if ca_BankName req \<noteq> '''' \<or> ca_AccountNumber req \<noteq> '''' \<or> ca_BankCurrency req \<noteq> '''' then
            (if ca_Code req \<noteq> '''' \<or> ca_ParentId req \<noteq> ''''
                \<or> (ca_AccountType req \<noteq> '''' \<and> ca_AccountType req \<noteq> ''asset'')
             then fail (grpcErr (Sentinel ErrBankAccountNotAsset))
             else andThen (onErr grpcErr (svc_CreateBankAccount (h_env h) tenantID
                     \<lparr>bi_BankName = ca_BankName req, bi_AccountNumber = ca_AccountNumber req,
                      bi_Currency = ca_BankCurrency req\<rparr>))
                   (\<lambda>out. ret (accountToProto h out)))
          else andThen (parse_opt_id h (ca_ParentId req) ''invalid parent_id'')
            (\<lambda>parent. andThen (onErr grpcErr (svc_CreateAccount (h_env h)
                 \<lparr>acc_ID = uuid_Nil, acc_TenantID = tenantID, acc_Code = ca_Code req,
                  acc_Name = ca_Name req, acc_AccountType = ca_AccountType req,
                  acc_ParentID = parent, acc_IsActive = False, acc_BankName = '''',
                  acc_AccountLast4 = '''', acc_CostBehavior = '''', acc_BankCurrency = ''''\<rparr>))
               (\<lambda>out. ret (accountToProto h out))))"

definition rpc_GetAccount :: "handler \<Rightarrow> ctx \<Rightarrow> string \<Rightarrow> string \<Rightarrow> (ledger, status, pbAccount) op" where
  "rpc_GetAccount h ctx tenantId reqId =
     andThen (guard h ctx tenantId permLedgerRead)
       (\<lambda>tenantID. andThen (parse_id h reqId ''invalid account ID'')
         (\<lambda>i. andThen (onErr grpcErr (svc_GetAccount (h_env h) tenantID i))
           (\<lambda>account. ret (accountToProto h account))))"

definition rpc_ListAccounts :: "handler \<Rightarrow> ctx \<Rightarrow> string \<Rightarrow> (ledger, status, pbAccount list) op" where
  "rpc_ListAccounts h ctx tenantId =
     andThen (guard h ctx tenantId permLedgerRead)
       (\<lambda>tenantID. andThen (onErr grpcErr (svc_ListAccounts (h_env h) tenantID 200 0))
         (\<lambda>accounts. ret (map (accountToProto h) accounts)))"

definition rpc_ListAccountingPeriods ::
  "handler \<Rightarrow> ctx \<Rightarrow> string \<Rightarrow> (ledger, status, pbAccountingPeriod list) op" where
  "rpc_ListAccountingPeriods h ctx tenantId =
     andThen (guard h ctx tenantId permLedgerRead)
       (\<lambda>tenantID. andThen (onErr grpcErr (svc_ListAccountingPeriods (h_env h) tenantID))
         (\<lambda>periods. ret (map (periodToProto h) periods)))"

text \<open>An entry of the request: code, name, account type, parent code. The answer: created, skipped.\<close>

definition rpc_SeedChartOfAccounts ::
  "handler \<Rightarrow> ctx \<Rightarrow> string \<Rightarrow> (string \<times> string \<times> string \<times> string) list \<Rightarrow> (ledger, status, int \<times> int) op" where
  "rpc_SeedChartOfAccounts h ctx tenantId protoEntries =
     andThen (guard h ctx tenantId permLedgerAdmin)
       (\<lambda>tenantID.
          let entries = map (\<lambda>(c, n, t, pc).
                \<lparr>coa_Code = c, coa_Name = n, coa_AccountType = t,
                 coa_ParentCode = (if pc \<noteq> '''' then Some pc else None)\<rparr>) protoEntries
          in andThen (onErr grpcErr (svc_SeedChartOfAccounts (h_env h) tenantID entries))
               (\<lambda>_. ret (int32 (int (length entries)), 0)))"

definition rpc_SetAccountCostBehavior ::
  "handler \<Rightarrow> ctx \<Rightarrow> string \<Rightarrow> string \<Rightarrow> string \<Rightarrow> (ledger, status, pbAccount) op" where
  "rpc_SetAccountCostBehavior h ctx tenantId reqId costBehavior =
     andThen (guard h ctx tenantId permLedgerAdmin)
       (\<lambda>tenantID. andThen (parse_id h reqId ''invalid account ID'')
         (\<lambda>i. andThen (onErr grpcErr (svc_SetAccountCostBehavior (h_env h) tenantID i costBehavior))
           (\<lambda>account. ret (accountToProto h account))))"

section \<open>Accounting periods\<close>

definition rpc_OpenAccountingPeriod ::
  "handler \<Rightarrow> ctx \<Rightarrow> string \<Rightarrow> int \<Rightarrow> int \<Rightarrow> (ledger, status, bool) op" where
  "rpc_OpenAccountingPeriod h ctx tenantId year month =
     andThen (guard h ctx tenantId permLedgerAdmin)
       (\<lambda>tenantID. andThen (onErr grpcErr (svc_OpenAccountingPeriod (h_env h) tenantID year month))
         (\<lambda>_. ret False))"

definition rpc_CloseAccountingPeriod ::
  "handler \<Rightarrow> ctx \<Rightarrow> string \<Rightarrow> string \<Rightarrow> string \<Rightarrow> (ledger, status, pbAccountingPeriod) op" where
  "rpc_CloseAccountingPeriod h ctx tenantId periodId closedBy =
     andThen (guard h ctx tenantId permLedgerAdmin)
       (\<lambda>tenantID. andThen (parse_id h periodId ''invalid period_id'')
         (\<lambda>i. andThen (actor h ctx closedBy)
           (\<lambda>by. andThen (onErr grpcErr (svc_CloseAccountingPeriod (h_env h) tenantID i by))
             (\<lambda>period. ret (periodToProto h period)))))"

section \<open>Journal entries\<close>

record pbLineInput =
  li_AccountId :: string
  li_DebitAmount :: string
  li_CreditAmount :: string
  li_Currency :: string
  li_Description :: string
  li_PartyId :: string

record CreateJournalEntryRequest =
  cj_TenantId :: string
  cj_PeriodId :: string
  cj_ProductionId :: string
  cj_Reference :: string
  cj_Narration :: string
  cj_Lines :: "pbLineInput list"

definition line_msg :: "nat \<Rightarrow> string \<Rightarrow> string" where
  "line_msg i what = ''line '' @ itoa i @ '': invalid '' @ what"

definition parse_line :: "handler \<Rightarrow> nat \<times> pbLineInput \<Rightarrow> ('w, status, JournalLine) op" where
  "parse_line h il =
     (let i = fst il; l = snd il in
      andThen (parse_id h (li_AccountId l) (line_msg i ''account_id''))
        (\<lambda>accountID. andThen (parse_decimal h (li_DebitAmount l) (line_msg i ''debit_amount''))
          (\<lambda>debit. andThen (parse_decimal h (li_CreditAmount l) (line_msg i ''credit_amount''))
            (\<lambda>credit. andThen (parse_opt_id h (li_PartyId l) (line_msg i ''party_id''))
              (\<lambda>party. ret \<lparr>jl_ID = uuid_Nil, jl_JournalID = uuid_Nil, jl_AccountID = accountID,
                 jl_DebitAmount = debit, jl_CreditAmount = credit, jl_Currency = li_Currency l,
                 jl_Description = li_Description l, jl_PartyID = party\<rparr>)))))"

definition rpc_CreateJournalEntry ::
  "handler \<Rightarrow> ctx \<Rightarrow> CreateJournalEntryRequest \<Rightarrow> (ledger, status, pbJournalEntry) op" where
  "rpc_CreateJournalEntry h ctx req =
     andThen (guard h ctx (cj_TenantId req) permLedgerWrite)
       (\<lambda>tenantID. andThen (parse_id h (cj_PeriodId req) ''invalid period_id'')
         (\<lambda>periodID. andThen (forEach (parse_line h) (enumerate 0 (cj_Lines req)))
           (\<lambda>ls. andThen (parse_opt_id h (cj_ProductionId req) ''invalid production_id'')
             (\<lambda>production. andThen (onErr grpcErr (svc_CreateJournalEntry (h_env h)
                  \<lparr>je_ID = uuid_Nil, je_TenantID = tenantID, je_ProductionID = production,
                   je_PeriodID = periodID, je_EntryNumber = '''', je_Reference = cj_Reference req,
                   je_Narration = cj_Narration req, je_Status = '''', je_Lines = ls,
                   je_PostedBy = None, je_PostedAt = None, je_CreatedAt = 0\<rparr>))
                (\<lambda>out. ret (journalEntryToProto h out))))))"

definition rpc_PostJournalEntry ::
  "handler \<Rightarrow> ctx \<Rightarrow> string \<Rightarrow> string \<Rightarrow> string \<Rightarrow> (ledger, status, pbJournalEntry) op" where
  "rpc_PostJournalEntry h ctx tenantId reqId postedBy =
     andThen (guard h ctx tenantId permLedgerPost)
       (\<lambda>tenantID. andThen (parse_id h reqId ''invalid journal entry ID'')
         (\<lambda>i. andThen (actor h ctx postedBy)
           (\<lambda>by. andThen (onErr grpcErr (svc_PostJournalEntry (h_env h) (h_pub h) tenantID i by))
             (\<lambda>je. ret (journalEntryToProto h je)))))"

definition rpc_GetJournalEntry ::
  "handler \<Rightarrow> ctx \<Rightarrow> string \<Rightarrow> string \<Rightarrow> (ledger, status, pbJournalEntry) op" where
  "rpc_GetJournalEntry h ctx tenantId reqId =
     andThen (guard h ctx tenantId permLedgerRead)
       (\<lambda>tenantID. andThen (parse_id h reqId ''invalid journal entry ID'')
         (\<lambda>i. andThen (onErr grpcErr (svc_GetJournalEntry (h_env h) tenantID i))
           (\<lambda>je. ret (journalEntryToProto h je))))"

definition rpc_ListJournalEntries ::
  "handler \<Rightarrow> ctx \<Rightarrow> string \<Rightarrow> string \<Rightarrow> string \<Rightarrow> int \<Rightarrow> int \<Rightarrow> (ledger, status, pbJournalEntry list) op" where
  "rpc_ListJournalEntries h ctx tenantId periodId st limit offset =
     andThen (guard h ctx tenantId permLedgerRead)
       (\<lambda>tenantID. andThen (parse_opt_id h periodId ''invalid period_id'')
         (\<lambda>period. andThen (onErr grpcErr (svc_ListJournalEntries (h_env h) tenantID period st limit offset))
           (\<lambda>entries. ret (map (journalEntryToProto h) entries))))"

definition rpc_VoidJournalEntry ::
  "handler \<Rightarrow> ctx \<Rightarrow> string \<Rightarrow> string \<Rightarrow> string \<Rightarrow> (ledger, status, pbJournalEntry) op" where
  "rpc_VoidJournalEntry h ctx tenantId reqId voidedBy =
     andThen (guard h ctx tenantId permLedgerPost)
       (\<lambda>tenantID. andThen (parse_id h reqId ''invalid journal entry ID'')
         (\<lambda>i. andThen (actor h ctx voidedBy)
           (\<lambda>by. andThen (onErr grpcErr (svc_VoidJournalEntry (h_env h) (h_pub h) tenantID i by))
             (\<lambda>reversing. ret (journalEntryToProto h reversing)))))"

section \<open>Reports\<close>

record pbTrialBalanceEntry =
  tpb_AccountId :: string
  tpb_Code :: string
  tpb_Name :: string
  tpb_AccountType :: string
  tpb_Debit :: string
  tpb_Credit :: string
  tpb_Balance :: string

definition rpc_GetTrialBalance ::
  "handler \<Rightarrow> ctx \<Rightarrow> string \<Rightarrow> time option \<Rightarrow> (ledger, status, pbTrialBalanceEntry list) op" where
  "rpc_GetTrialBalance h ctx tenantId asOfTs =
     andThen (guard h ctx tenantId permLedgerRead)
       (\<lambda>tenantID. andThen (time_Now (h_env h))
         (\<lambda>now. let asOf = (case asOfTs of None \<Rightarrow> now | Some ts \<Rightarrow> ts) in
            andThen (onErr grpcErr (svc_GetTrialBalance (h_env h) tenantID asOf))
              (\<lambda>entries. ret (map (\<lambda>e.
                 \<lparr>tpb_AccountId = uuid_String h (tb_AccountID e), tpb_Code = tb_Code e, tpb_Name = tb_Name e,
                  tpb_AccountType = tb_AccountType e, tpb_Debit = StringFixed2 h (tb_Debit e),
                  tpb_Credit = StringFixed2 h (tb_Credit e), tpb_Balance = StringFixed2 h (tb_Balance e)\<rparr>) entries))))"

text \<open>A row of the answer: month, fixed, variable, unclassified, total.\<close>

definition rpc_GetMonthlyCostBehavior ::
  "handler \<Rightarrow> ctx \<Rightarrow> string \<Rightarrow> string \<Rightarrow> string
    \<Rightarrow> (ledger, status, (string \<times> string \<times> string \<times> string \<times> string) list) op" where
  "rpc_GetMonthlyCostBehavior h ctx tenantId fromMonth toMonth =
     andThen (guard h ctx tenantId permLedgerRead)
       (\<lambda>tenantID. andThen (onErr grpcErr (svc_GetMonthlyCostBehavior (h_env h) tenantID fromMonth toMonth))
         (\<lambda>rows. ret (map (\<lambda>r. (mc_Month r, StringFixed2 h (mc_Fixed r), StringFixed2 h (mc_Variable r),
                                StringFixed2 h (mc_Unclassified r), StringFixed2 h (mc_Total r))) rows)))"

section \<open>Parties\<close>

definition rpc_CreateParty :: "handler \<Rightarrow> ctx \<Rightarrow> pbParty \<Rightarrow> (ledger, status, pbParty) op" where
  "rpc_CreateParty h ctx req =
     andThen (guard h ctx (ypb_TenantId req) permLedgerWrite)
       (\<lambda>tenantID. andThen (onErr grpcErr (svc_CreateParty (h_env h) (h_mail h)
            \<lparr>pt_ID = uuid_Nil, pt_TenantID = tenantID, pt_Name = ypb_Name req,
             pt_PartyType = ypb_PartyType req, pt_Email = ypb_Email req, pt_Phone = ypb_Phone req,
             pt_TaxID = ypb_TaxId req, pt_Address = ypb_Address req,
             pt_DefaultCurrency = ypb_DefaultCurrency req, pt_IsActive = False,
             pt_Contacts = contactsFromProto (ypb_Contacts req)\<rparr>))
          (\<lambda>out. ret (partyToProto h out)))"

definition rpc_GetParty :: "handler \<Rightarrow> ctx \<Rightarrow> string \<Rightarrow> string \<Rightarrow> (ledger, status, pbParty) op" where
  "rpc_GetParty h ctx tenantId reqId =
     andThen (guard h ctx tenantId permLedgerRead)
       (\<lambda>tenantID. andThen (parse_id h reqId ''invalid party ID'')
         (\<lambda>i. andThen (onErr grpcErr (svc_GetParty (h_env h) tenantID i))
           (\<lambda>out. ret (partyToProto h out))))"

definition rpc_ListParties ::
  "handler \<Rightarrow> ctx \<Rightarrow> string \<Rightarrow> string \<Rightarrow> bool \<Rightarrow> (ledger, status, pbParty list) op" where
  "rpc_ListParties h ctx tenantId partyType includeInactive =
     andThen (guard h ctx tenantId permLedgerRead)
       (\<lambda>tenantID. andThen (onErr grpcErr (svc_ListParties (h_env h) tenantID partyType includeInactive))
         (\<lambda>parties. ret (map (partyToProto h) parties)))"

definition rpc_UpdateParty :: "handler \<Rightarrow> ctx \<Rightarrow> pbParty \<Rightarrow> (ledger, status, pbParty) op" where
  "rpc_UpdateParty h ctx req =
     andThen (guard h ctx (ypb_TenantId req) permLedgerWrite)
       (\<lambda>tenantID. andThen (parse_id h (ypb_Id req) ''invalid party ID'')
         (\<lambda>i. andThen (onErr grpcErr (svc_UpdateParty (h_env h) (h_mail h)
            \<lparr>pt_ID = i, pt_TenantID = tenantID, pt_Name = ypb_Name req,
             pt_PartyType = ypb_PartyType req, pt_Email = ypb_Email req, pt_Phone = ypb_Phone req,
             pt_TaxID = ypb_TaxId req, pt_Address = ypb_Address req,
             pt_DefaultCurrency = ypb_DefaultCurrency req, pt_IsActive = ypb_IsActive req,
             pt_Contacts = contactsFromProto (ypb_Contacts req)\<rparr>))
          (\<lambda>out. ret (partyToProto h out))))"

record pbPartyLedgerLine =
  qpb_EntryId :: string
  qpb_EntryNumber :: string
  qpb_EntryDate :: string
  qpb_Narration :: string
  qpb_AccountCode :: string
  qpb_AccountName :: string
  qpb_DebitAmount :: string
  qpb_CreditAmount :: string
  qpb_Currency :: string
  qpb_Description :: string

definition rpc_ListPartyTransactions ::
  "handler \<Rightarrow> ctx \<Rightarrow> string \<Rightarrow> string \<Rightarrow> (ledger, status, pbPartyLedgerLine list \<times> string \<times> string) op" where
  "rpc_ListPartyTransactions h ctx tenantId partyId =
     andThen (guard h ctx tenantId permLedgerRead)
       (\<lambda>tenantID. andThen (parse_id h partyId ''invalid party ID'')
         (\<lambda>i. andThen (onErr grpcErr (svc_ListPartyTransactions (h_env h) tenantID i))
           (\<lambda>out. ret (map (\<lambda>l.
               \<lparr>qpb_EntryId = uuid_String h (pl_EntryID l), qpb_EntryNumber = pl_EntryNumber l,
                qpb_EntryDate = format_RFC3339 (pl_EntryDate l), qpb_Narration = pl_Narration l,
                qpb_AccountCode = pl_AccountCode l, qpb_AccountName = pl_AccountName l,
                qpb_DebitAmount = StringFixed2 h (pl_DebitAmount l),
                qpb_CreditAmount = StringFixed2 h (pl_CreditAmount l), qpb_Currency = pl_Currency l,
                qpb_Description = pl_Description l\<rparr>) (px_Lines out),
              StringFixed2 h (px_TotalDebit out), StringFixed2 h (px_TotalCredit out)))))"

end
