(* ===== verification/LedgerApi.thy ===== *)
theory LedgerApi
  imports LedgerHandler LedgerDemo
begin

text \<open>
  Properties of the ledger's RPCs: the permission each one needs, that a refused call has no
  effect, that a call acts only on the tenant of its caller, the actor it records, and the status
  codes of its errors. The contract \<open>guarded_service\<close> is interpreted on the handlers.
\<close>

section \<open>Calls\<close>

datatype ledger_rpc =
  RpcCreateAccount CreateAccountRequest | RpcGetAccount string string | RpcListAccounts string
| RpcListAccountingPeriods string
| RpcSeedChartOfAccounts string "(string \<times> string \<times> string \<times> string) list"
| RpcSetAccountCostBehavior string string string | RpcOpenAccountingPeriod string int int
| RpcCloseAccountingPeriod string string string | RpcCreateJournalEntry CreateJournalEntryRequest
| RpcPostJournalEntry string string string | RpcGetJournalEntry string string
| RpcListJournalEntries string string string int int | RpcVoidJournalEntry string string string
| RpcGetTrialBalance string "time option" | RpcGetMonthlyCostBehavior string string string
| RpcCreateParty pbParty | RpcGetParty string string | RpcListParties string string bool
| RpcUpdateParty pbParty | RpcListPartyTransactions string string

fun call_ledger :: "handler \<Rightarrow> ctx \<Rightarrow> ledger_rpc \<Rightarrow> ledger \<Rightarrow> ledger" where
  "call_ledger h ctx (RpcCreateAccount req) w = snd (rpc_CreateAccount h ctx req w)"
| "call_ledger h ctx (RpcGetAccount t i) w = snd (rpc_GetAccount h ctx t i w)"
| "call_ledger h ctx (RpcListAccounts t) w = snd (rpc_ListAccounts h ctx t w)"
| "call_ledger h ctx (RpcListAccountingPeriods t) w = snd (rpc_ListAccountingPeriods h ctx t w)"
| "call_ledger h ctx (RpcSeedChartOfAccounts t es) w = snd (rpc_SeedChartOfAccounts h ctx t es w)"
| "call_ledger h ctx (RpcSetAccountCostBehavior t i cb) w = snd (rpc_SetAccountCostBehavior h ctx t i cb w)"
| "call_ledger h ctx (RpcOpenAccountingPeriod t y m) w = snd (rpc_OpenAccountingPeriod h ctx t y m w)"
| "call_ledger h ctx (RpcCloseAccountingPeriod t i a) w = snd (rpc_CloseAccountingPeriod h ctx t i a w)"
| "call_ledger h ctx (RpcCreateJournalEntry req) w = snd (rpc_CreateJournalEntry h ctx req w)"
| "call_ledger h ctx (RpcPostJournalEntry t i a) w = snd (rpc_PostJournalEntry h ctx t i a w)"
| "call_ledger h ctx (RpcGetJournalEntry t i) w = snd (rpc_GetJournalEntry h ctx t i w)"
| "call_ledger h ctx (RpcListJournalEntries t p st l ofs) w = snd (rpc_ListJournalEntries h ctx t p st l ofs w)"
| "call_ledger h ctx (RpcVoidJournalEntry t i a) w = snd (rpc_VoidJournalEntry h ctx t i a w)"
| "call_ledger h ctx (RpcGetTrialBalance t ts) w = snd (rpc_GetTrialBalance h ctx t ts w)"
| "call_ledger h ctx (RpcGetMonthlyCostBehavior t fm to) w = snd (rpc_GetMonthlyCostBehavior h ctx t fm to w)"
| "call_ledger h ctx (RpcCreateParty req) w = snd (rpc_CreateParty h ctx req w)"
| "call_ledger h ctx (RpcGetParty t i) w = snd (rpc_GetParty h ctx t i w)"
| "call_ledger h ctx (RpcListParties t typ b) w = snd (rpc_ListParties h ctx t typ b w)"
| "call_ledger h ctx (RpcUpdateParty req) w = snd (rpc_UpdateParty h ctx req w)"
| "call_ledger h ctx (RpcListPartyTransactions t i) w = snd (rpc_ListPartyTransactions h ctx t i w)"

text \<open>Separation of duties: which grant a call needs.\<close>

fun needed_permission :: "ledger_rpc \<Rightarrow> string" where
  "needed_permission (RpcCreateAccount _) = ''ledger:write''"
| "needed_permission (RpcCreateJournalEntry _) = ''ledger:write''"
| "needed_permission (RpcCreateParty _) = ''ledger:write''"
| "needed_permission (RpcUpdateParty _) = ''ledger:write''"
| "needed_permission (RpcPostJournalEntry _ _ _) = ''ledger:post''"
| "needed_permission (RpcVoidJournalEntry _ _ _) = ''ledger:post''"
| "needed_permission (RpcSeedChartOfAccounts _ _) = ''ledger:admin''"
| "needed_permission (RpcSetAccountCostBehavior _ _ _) = ''ledger:admin''"
| "needed_permission (RpcOpenAccountingPeriod _ _ _) = ''ledger:admin''"
| "needed_permission (RpcCloseAccountingPeriod _ _ _) = ''ledger:admin''"
| "needed_permission _ = ''ledger:read''"

text \<open>An operation that does nothing or issues one request of the given tenant.\<close>

definition issues :: "handler \<Rightarrow> uuid \<Rightarrow> (ledger, 'e, 'a) op \<Rightarrow> bool" where
  "issues h t m \<longleftrightarrow> (\<forall>w. snd (m w) = w \<or> (\<exists>r w1. untick w1 = untick w \<and> req_tenant r = t
     \<and> snd (m w) = exec_ledger (h_env h) (h_pub h) (h_mail h) r w1))"

named_theorems issues_intros \<open>rules that show that a handler issues at most one request\<close>

lemma issues_fail [issues_intros]: "issues h t (fail e)"
  by (simp add: issues_def)

lemma issues_if [issues_intros]: "issues h t m \<Longrightarrow> issues h t n \<Longrightarrow> issues h t (if b then m else n)"
  by simp

lemma issues_pure:
  assumes "\<And>w. snd (p w) = w" and "\<And>x. issues h t (k x)"
  shows "issues h t (andThen p k)"
  using assms unfolding issues_def snd_andThen by (auto split: sum.split)

lemma issues_svc:
  assumes "\<And>w. exec_ledger (h_env h) (h_pub h) (h_mail h) r w = snd (m w)" and "req_tenant r = t"
  shows "issues h t (andThen (onErr g m) (\<lambda>x. ret (f x)))"
proof -
  have "snd (andThen (onErr g m) (\<lambda>x. ret (f x)) w) = exec_ledger (h_env h) (h_pub h) (h_mail h) r w" for w
    by (simp add: snd_andThen assms(1) split: sum.split)
  then show ?thesis using assms(2) unfolding issues_def by blast
qed

lemma snd_parse [simp]:
  "snd (parse_id h s msg w) = w" "snd (parse_opt_id h s msg w) = w" "snd (parse_decimal h s msg w) = w"
  "snd (actor h ctx s w) = w"
  by (simp_all add: parse_id_def parse_opt_id_def parse_decimal_def actor_def liftR_def snd_andThen split: sum.split)

lemma snd_parse_line [simp]: "snd (parse_line h il w) = w"
  by (simp add: parse_line_def Let_def snd_andThen split: sum.split)

lemma snd_parse_lines [simp]: "snd (forEach (parse_line h) ils w) = w"
  by (rule sameD [where f = "\<lambda>w. w", OF same_forEach]) (simp add: same_def)

lemmas issues_parse [issues_intros] =
  issues_pure [where p = "parse_id _ _ _", OF snd_parse(1)] issues_pure [where p = "parse_opt_id _ _ _", OF snd_parse(2)]
  issues_pure [where p = "actor _ _ _", OF snd_parse(4)] issues_pure [where p = "forEach (parse_line _) _", OF snd_parse_lines]

lemma guarded_cases:
  assumes "\<And>t. issues h t (k t)"
  shows "snd (andThen (guard h ctx reqT perm) k w) = w \<or> (granted h ctx perm
     \<and> (\<exists>r w1. untick w1 = untick w \<and> req_tenant r = tenant_of_caller ctx
         \<and> snd (andThen (guard h ctx reqT perm) k w) = exec_ledger (h_env h) (h_pub h) (h_mail h) r w1))"
proof (cases "guard h ctx reqT perm w")
  case (Pair x w')
  show ?thesis
  proof (cases x)
    case (Inl e)
    then show ?thesis using Pair guard_state [of h ctx reqT perm w] by (simp add: andThen_def)
  next
    case (Inr t)
    note g = guard_Inr [OF Pair [unfolded Inr]]
    then show ?thesis using Pair Inr assms [of t] unfolding issues_def by (simp add: andThen_Inr)
  qed
qed

lemma issues_trial:
  "issues h t (andThen (time_Now (h_env h)) (\<lambda>now. let asOf = (case ts of None \<Rightarrow> now | Some x \<Rightarrow> x) in
     andThen (onErr grpcErr (svc_GetTrialBalance (h_env h) t asOf)) (\<lambda>x. ret (f x))))"
proof -
  have "snd (andThen (onErr grpcErr (svc_GetTrialBalance (h_env h) t asOf)) (\<lambda>x. ret (f x)) w) =
      exec_ledger (h_env h) (h_pub h) (h_mail h) (GetTrialBalance t asOf) w" for asOf w
    by (simp add: snd_andThen split: sum.split)
  then show ?thesis
    unfolding issues_def
    by (auto simp: time_Now_def andThen_Inr Let_def intro!: exI [where x = "GetTrialBalance t _"]
        exI [where x = "w\<lparr>tick := Suc (tick w)\<rparr>" for w])
qed

lemma issues_calls [issues_intros]:
  "issues h t (andThen (onErr g (svc_CreateBankAccount (h_env h) t inp)) (\<lambda>x. ret (fun_a x)))"
  "acc_TenantID a = t \<Longrightarrow> issues h t (andThen (onErr g (svc_CreateAccount (h_env h) a)) (\<lambda>x. ret (fun_b x)))"
  "issues h t (andThen (onErr g (svc_GetAccount (h_env h) t i)) (\<lambda>x. ret (fun_c x)))"
  "issues h t (andThen (onErr g (svc_ListAccounts (h_env h) t l ofs)) (\<lambda>x. ret (fun_d x)))"
  "issues h t (andThen (onErr g (svc_ListAccountingPeriods (h_env h) t)) (\<lambda>x. ret (fun_e x)))"
  "issues h t (andThen (onErr g (svc_SeedChartOfAccounts (h_env h) t es)) (\<lambda>x. ret (fun_f x)))"
  "issues h t (andThen (onErr g (svc_SetAccountCostBehavior (h_env h) t i cb)) (\<lambda>x. ret (fun_g x)))"
  "issues h t (andThen (onErr g (svc_OpenAccountingPeriod (h_env h) t y m)) (\<lambda>x. ret (fun_h x)))"
  "issues h t (andThen (onErr g (svc_CloseAccountingPeriod (h_env h) t i by)) (\<lambda>x. ret (fun_i x)))"
  "je_TenantID je = t \<Longrightarrow> issues h t (andThen (onErr g (svc_CreateJournalEntry (h_env h) je)) (\<lambda>x. ret (fun_j x)))"
  "issues h t (andThen (onErr g (svc_PostJournalEntry (h_env h) (h_pub h) t i by)) (\<lambda>x. ret (fun_k x)))"
  "issues h t (andThen (onErr g (svc_GetJournalEntry (h_env h) t i)) (\<lambda>x. ret (fun_l x)))"
  "issues h t (andThen (onErr g (svc_ListJournalEntries (h_env h) t per st l ofs)) (\<lambda>x. ret (fun_m x)))"
  "issues h t (andThen (onErr g (svc_VoidJournalEntry (h_env h) (h_pub h) t i by)) (\<lambda>x. ret (fun_n x)))"
  "issues h t (andThen (onErr g (svc_GetMonthlyCostBehavior (h_env h) t fm to)) (\<lambda>x. ret (fun_o x)))"
  "pt_TenantID p = t \<Longrightarrow> issues h t (andThen (onErr g (svc_CreateParty (h_env h) (h_mail h) p)) (\<lambda>x. ret (fun_p x)))"
  "issues h t (andThen (onErr g (svc_GetParty (h_env h) t i)) (\<lambda>x. ret (fun_q x)))"
  "issues h t (andThen (onErr g (svc_ListParties (h_env h) t typ b)) (\<lambda>x. ret (fun_r x)))"
  "pt_TenantID p = t \<Longrightarrow> issues h t (andThen (onErr g (svc_UpdateParty (h_env h) (h_mail h) p)) (\<lambda>x. ret (fun_s x)))"
  "issues h t (andThen (onErr g (svc_ListPartyTransactions (h_env h) t i)) (\<lambda>x. ret (fun_t x)))"
  by (rule issues_svc, rule exec_ledger.simps, simp)+

text \<open>What every call comes to.\<close>

lemmas rpc_defs = rpc_CreateAccount_def rpc_GetAccount_def rpc_ListAccounts_def rpc_ListAccountingPeriods_def
  rpc_SeedChartOfAccounts_def rpc_SetAccountCostBehavior_def rpc_OpenAccountingPeriod_def
  rpc_CloseAccountingPeriod_def rpc_CreateJournalEntry_def rpc_PostJournalEntry_def rpc_GetJournalEntry_def
  rpc_ListJournalEntries_def rpc_VoidJournalEntry_def rpc_GetTrialBalance_def rpc_GetMonthlyCostBehavior_def
  rpc_CreateParty_def rpc_GetParty_def rpc_ListParties_def rpc_UpdateParty_def rpc_ListPartyTransactions_def

lemmas perm_defs = permLedgerRead_def permLedgerWrite_def permLedgerPost_def permLedgerAdmin_def

lemma call_ledger_cases:
  "call_ledger h ctx m w = w \<or> (granted h ctx (needed_permission m)
     \<and> (\<exists>r w1. untick w1 = untick w \<and> req_tenant r = tenant_of_caller ctx
         \<and> call_ledger h ctx m w = exec_ledger (h_env h) (h_pub h) (h_mail h) r w1))"
  by (cases m; simp only: call_ledger.simps needed_permission.simps rpc_defs perm_defs;
      rule guarded_cases; (intro issues_intros issues_trial)?; (simp add: Let_def issues_intros)?)

interpretation rpcs: guarded_service "exec_ledger (h_env h) (h_pub h) (h_mail h)" ledger_inv empty_ledger req_tenant tenant_part
  "call_ledger h" "\<lambda>ctx m. granted h ctx (needed_permission m)" tenant_of_caller for h
proof unfold_locales
  fix ctx m and w :: ledger
  have views: "ledger_inv w1 = ledger_inv w \<and> (\<forall>u. tenant_part u w1 = tenant_part u w)" if "untick w1 = untick w" for w1
    using untick_balanced(3) [OF that] tickless_view_untick [OF tenant_part_tickless that] by simp
  show "call_ledger h ctx m w = w \<or> (granted h ctx (needed_permission m) \<and> (\<exists>r w1. ledger_inv w1 = ledger_inv w
      \<and> (\<forall>u. tenant_part u w1 = tenant_part u w) \<and> req_tenant r = tenant_of_caller ctx
      \<and> call_ledger h ctx m w = exec_ledger (h_env h) (h_pub h) (h_mail h) r w1))"
    using call_ledger_cases [of h ctx m w] views by blast
qed

section \<open>A concrete handler\<close>

text \<open>User 9 of tenant 7 may read and post; decimal numbers stand for identifiers.\<close>

definition demo_checker :: checker where
  "demo_checker u perm proj = Inr (u = 9 \<and> (perm = ''ledger:post'' \<or> perm = ''ledger:read''))"

definition demo_parse :: "string \<Rightarrow> uuid option" where
  "demo_parse s = (if s \<noteq> '''' \<and> (\<forall>c \<in> set s. is_digit c) then Some (atoi s) else None)"

definition demo_handler :: handler where
  "demo_handler = \<lparr>h_env = demo_env, h_pub = True, h_mail = no_mail, h_perm = Some demo_checker, h_flag = '''',
     uuid_Parse = demo_parse, uuid_String = itoa, decimal_Parse = (\<lambda>s. map_option of_nat (demo_parse s)),
     StringFixed2 = (\<lambda>d. itoa (nat \<lfloor>d\<rfloor>)), date_Scan = Some\<rparr>"

definition demo_ctx :: "uuid \<Rightarrow> uuid \<Rightarrow> ctx" where
  "demo_ctx t u = \<lparr>ctx_caller = Some \<lparr>UserID = u, TenantID = t, ProjectID = 0, Email = '''', Roles = [], Permissions = [], IP = ''''\<rparr>,
     ctx_tenant = Some t, ctx_actor = None, ctx_vertical = None, ctx_incoming = (\<lambda>_. []), ctx_outgoing = (\<lambda>_. [])\<rparr>"

section \<open>Authorisation\<close>

text \<open>
  A call of any RPC without the grant that the RPC needs, or without an authenticated
  caller and tenant, leaves the state exactly as it is.
\<close>

lemma rpc_denied_no_effect:
  assumes "\<not> granted h ctx (needed_permission m)"
  shows "call_ledger h ctx m w = w"
  by (rule rpcs.denied [OF assms])

text \<open>
  Any sequence of calls by callers of other tenants, whatever tenant their requests
  name, leaves every row of a tenant as it is: accounts, periods, entries and their lines, number
  counters, parties, contacts and published events.
\<close>

lemma rpc_tenant_isolation:
  assumes "ledger_inv w" and "\<And>ctx m. (ctx, m) \<in> set calls \<Longrightarrow> tenant_of_caller ctx \<noteq> u"
  shows "tenant_part u (fold (\<lambda>(ctx, m). call_ledger h ctx m) calls w) = tenant_part u w"
  using assms by (intro rpcs.calls.isolation) auto

text \<open>
  The actor that posting an entry records, and the event it publishes, is the
  authenticated caller, whatever actor the request names.
\<close>

lemma rpc_post_records_caller:
  assumes inv: "ledger_inv w" and ok: "rpc_PostJournalEntry h ctx reqTenant reqId postedBy w = (Inr out, w')"
  shows "\<exists>caller i now. ctx_caller ctx = Some caller \<and> uuid_Parse h reqId = Some i
     \<and> entries w' = update_rows (postable (TenantID caller) i) (mark_posted (UserID caller) now) (entries w)"
proof -
  note run = ok [unfolded rpc_PostJournalEntry_def]
  obtain t where g: "(guard h ctx reqTenant permLedgerPost :: (ledger, status, uuid) op) w = (Inr t, w)"
    using run by (auto elim!: andThen_InrE dest: guard_Inr(1))
  obtain i where i: "uuid_Parse h reqId = Some i" and pi: "(parse_id h reqId ''invalid journal entry ID'' :: (ledger, status, uuid) op) w = (Inr i, w)"
    using run g by (auto simp: step_simps parse_id_def liftR_def elim!: andThen_InrE split: option.splits)
  obtain a where a: "ActorFromRequest (uuid_Parse h) ctx postedBy = Inr a" and pa: "(actor h ctx postedBy :: (ledger, status, uuid) op) w = (Inr a, w)"
    using run g pi by (auto simp: step_simps actor_def liftR_def elim!: andThen_InrE)
  obtain je where je: "svc_PostJournalEntry (h_env h) (h_pub h) t i a w = (Inr je, w')"
    using run g pi pa by (auto simp: step_simps elim!: andThen_InrE)
  from ActorFromRequest_InrD [OF a] obtain caller where c: "ctx_caller ctx = Some caller" "a = UserID caller" by blast
  have "t = TenantID caller" using guard_Inr(2) [OF g] c by (simp add: tenant_of_caller_def)
  moreover from je inv obtain e now where "untick w' = untick (w\<lparr>entries := update_rows (postable t i) (mark_posted a now) (entries w),
                               published := published w @ (if h_pub h then [je] else [])\<rparr>)"
    by (rule svc_PostJournalEntry_Inr)
  from untick_views(3) [OF this] have "entries w' = update_rows (postable t i) (mark_posted a now) (entries w)" by simp
  ultimately show ?thesis using c i by blast
qed

section \<open>Status codes\<close>

text \<open>The code for each sentinel.\<close>

fun code_of :: "ledger_sentinel \<Rightarrow> code" where
  "code_of ErrAccountNotFound = NotFound"
| "code_of ErrPartyNotFound = NotFound"
| "code_of ErrPeriodNotFound = NotFound"
| "code_of ErrJournalNotFound = NotFound"
| "code_of ErrAccountCodeExists = AlreadyExists"
| "code_of ErrPartyNameExists = AlreadyExists"
| "code_of ErrPeriodAlreadyExists = AlreadyExists"
| "code_of ErrAccountInactive = FailedPrecondition"
| "code_of ErrNoBankCodeAvailable = FailedPrecondition"
| "code_of ErrPeriodClosed = FailedPrecondition"
| "code_of ErrJournalAlreadyPosted = FailedPrecondition"
| "code_of ErrJournalVoid = FailedPrecondition"
| "code_of s = InvalidArgument"

text \<open>
  The status of an error is decided by the sentinel it carries, however often it was
  wrapped; an error without a sentinel is an internal error, and every sentinel has a code of its
  own kind.
\<close>

lemma grpcErr_code:
  "status_code (grpcErr err) = (case sentinel_of err of None \<Rightarrow> Internal | Some s \<Rightarrow> code_of s)"
proof (cases "sentinel_of err")
  case None
  then show ?thesis by (simp add: grpcErr_def errors_Is_iff Let_def)
next
  case (Some s)
  then show ?thesis by (cases s) (simp_all add: grpcErr_def errors_Is_iff Let_def)
qed

end
