(* ===== verification/BoundaryProps.thy ===== *)
theory BoundaryProps
  imports Interceptor
begin

text \<open>
  Properties of the request boundary: the identity of a caller comes from the verified token
  alone, the tenant and the actor of a request are those of the caller, and the client interceptor
  forwards nothing but the token and the client address.
\<close>

definition bearer_token :: "string \<Rightarrow> string option" where
  "bearer_token raw = (if length raw > length bearerPrefix \<and> EqualFold (take (length bearerPrefix) raw) bearerPrefix
     then Some (drop (length bearerPrefix) raw) else None)"

lemma bearer_token_Nil [simp]: "bearer_token '''' = None"
  by (simp add: bearer_token_def)

lemma authenticate_cases:
  assumes "method \<notin> set public"
  shows "authenticate up ctx method verify public =
    (case bearer_token (firstMD (ctx_incoming ctx) ''authorization'') of
       None \<Rightarrow> Inl (Status Unauthenticated (if firstMD (ctx_incoming ctx) ''authorization'' = ''''
                 then ''missing authorization token'' else ''authorization must be a Bearer token''))
     | Some tok \<Rightarrow> (case verify tok of
         Inl err \<Rightarrow> Inl (Status Unauthenticated (if err = ErrTokenExpired then ''token expired'' else ''token invalid''))
       | Inr claims \<Rightarrow>
           let caller = \<lparr>UserID = Subject claims, TenantID = ClaimsTenantID claims,
                 ProjectID = uuidFromMD up (ctx_incoming ctx) ''x-project-id'', Email = ClaimsEmail claims,
                 Roles = ClaimsRoles claims, Permissions = ClaimsPermissions claims,
                 IP = firstMD (ctx_incoming ctx) ''x-forwarded-for''\<rparr>
           in Inr (ctx\<lparr>ctx_caller := Some caller,
                ctx_tenant := (if TenantID caller \<noteq> uuid_Nil then Some (TenantID caller) else ctx_tenant ctx),
                ctx_actor := Some \<lparr>actor_user = UserID caller, actor_email = Email caller, actor_ip = IP caller\<rparr>\<rparr>)))"
  using assms
  by (auto simp: authenticate_def bearer_token_def Let_def WithCaller_def WithID_def split: sum.splits)

text \<open>
  C18: on a method that is not public, the identity, tenant, roles and permissions of the
  caller are exactly those of a token that the verifier accepted.
\<close>

theorem authenticate_identity_from_token:
  assumes "method \<notin> set public" and "authenticate up ctx method verify public = Inr ctx'"
  shows "\<exists>tok claims caller. bearer_token (firstMD (ctx_incoming ctx) ''authorization'') = Some tok
     \<and> verify tok = Inr claims \<and> ctx_caller ctx' = Some caller \<and> UserID caller = Subject claims
     \<and> TenantID caller = ClaimsTenantID claims \<and> Roles caller = ClaimsRoles claims
     \<and> Permissions caller = ClaimsPermissions claims \<and> Email caller = ClaimsEmail claims"
  using assms by (auto simp: authenticate_cases Let_def split: option.splits sum.splits)

definition demo_verify :: "string \<Rightarrow> auth_error + Claims" where
  "demo_verify tok = (if tok = ''good'' then Inr \<lparr>Subject = 9, ClaimsTenantID = 7, ClaimsEmail = '''', ClaimsRoles = [''member''],
     ClaimsPermissions = []\<rparr> else Inl ErrTokenInvalid)"

definition plain_ctx :: "md \<Rightarrow> ctx" where
  "plain_ctx m = \<lparr>ctx_caller = None, ctx_tenant = None, ctx_actor = None, ctx_vertical = None, ctx_incoming = m, ctx_outgoing = (\<lambda>_. [])\<rparr>"

definition good_md :: md where
  "good_md k = (if k = ''authorization'' then [''Bearer good''] else if k = ''x-user-id'' then [''1''] else [])"

theorem authenticate_identity_from_token_witness:
  "\<exists>ctx' caller. authenticate (\<lambda>_. None) (plain_ctx good_md) ''/m'' demo_verify PublicMethods = Inr ctx'
     \<and> ctx_caller ctx' = Some caller \<and> Roles caller = [''member'']"
proof -
  have m: "''/m'' \<notin> set PublicMethods" by (simp add: PublicMethods_def)
  have tok: "bearer_token (firstMD (ctx_incoming (plain_ctx good_md)) ''authorization'') = Some ''good''"
    by (simp add: plain_ctx_def good_md_def firstMD_def) code_simp
  have "\<not> isl (authenticate (\<lambda>_. None) (plain_ctx good_md) ''/m'' demo_verify PublicMethods)"
    by (simp add: authenticate_cases [OF m] tok demo_verify_def Let_def)
  then obtain ctx' where ok: "authenticate (\<lambda>_. None) (plain_ctx good_md) ''/m'' demo_verify PublicMethods = Inr ctx'"
    by (metis isl_def sum.exhaust)
  from authenticate_identity_from_token [OF m this] ok tok show ?thesis by (auto simp: demo_verify_def)
qed

text \<open>
  Headers other than the token, the project and the forwarded address have no influence
  on the outcome of authentication or on the caller it yields.
\<close>

lemma authenticate_ignores_other_headers:
  assumes "\<And>k. k \<in> {''authorization'', ''x-project-id'', ''x-forwarded-for''} \<Longrightarrow> m1 k = m2 k"
    and "method \<notin> set public"
  shows "map_sum id (\<lambda>c. (ctx_caller c, ctx_tenant c, ctx_actor c)) (authenticate up (ctx\<lparr>ctx_incoming := m1\<rparr>) method verify public)
       = map_sum id (\<lambda>c. (ctx_caller c, ctx_tenant c, ctx_actor c)) (authenticate up (ctx\<lparr>ctx_incoming := m2\<rparr>) method verify public)"
  using assms by (simp add: authenticate_cases firstMD_def uuidFromMD_def Let_def split: option.split sum.split)

text \<open>
  C19: without a bearer token that verifies, a method that is not public never reaches its
  handler: the call ends with Unauthenticated and the state is as before.
\<close>

theorem unauthenticated_never_reaches_handler:
  assumes "method \<notin> set public"
    and "\<And>tok claims. bearer_token (firstMD (ctx_incoming ctx) ''authorization'') = Some tok \<Longrightarrow> verify tok \<noteq> Inr claims"
  shows "\<exists>msg. UnaryAuthInterceptor up verify public ctx method handler w = (Inl (Status Unauthenticated msg), w)"
  using assms by (auto simp: UnaryAuthInterceptor_def authenticate_cases split: option.splits sum.splits)

theorem unauthenticated_never_reaches_handler_witness:
  "\<exists>msg. UnaryAuthInterceptor (\<lambda>_. None) demo_verify [] (plain_ctx (\<lambda>_. [])) ''/m'' (\<lambda>_. modify Suc :: (nat, status, unit) op) 5 = (Inl (Status Unauthenticated msg), 5)"
  by (rule unauthenticated_never_reaches_handler) (simp_all add: plain_ctx_def firstMD_def)

text \<open>
  The tenant of a request is the tenant of the caller, which is not nil, and is given out
  exactly when the request names no tenant or the same one.
\<close>

lemma TenantFromRequest_iff:
  "TenantFromRequest up ctx reqT = Inr t \<longleftrightarrow>
     (\<exists>caller. ctx_caller ctx = Some caller \<and> t = TenantID caller \<and> t \<noteq> uuid_Nil \<and> (reqT = '''' \<or> up reqT = Some t))"
  by (auto simp: TenantFromRequest_def CallerFromContext_def split: option.splits if_splits)

text \<open>
  The client interceptor changes the outgoing metadata only under the keys of the token
  and the forwarded address, only where they were absent, and copies the first incoming value.
\<close>

lemma ForwardAuth_spec:
  "ctx_outgoing (ForwardAuth ctx) k =
     (if (k = ''authorization'' \<or> k = ''x-forwarded-for'') \<and> ctx_outgoing ctx k = [] \<and> firstMD (ctx_incoming ctx) k \<noteq> ''''
      then [firstMD (ctx_incoming ctx) k] else ctx_outgoing ctx k)"
  by (auto simp: ForwardAuth_def append_md_def Let_def)

end
