(* ===== verification/ExpenseDb.thy ===== *)
theory ExpenseDb
  imports GoText
begin

text \<open>
  The data of the expense service and its repository: the types of
  \<^verbatim>\<open>services/expense/models.go\<close>, the rows and statements of
  \<^verbatim>\<open>services/expense/db/queries.sql.go\<close> over the tables of \<^verbatim>\<open>migrations/expense\<close>
  with their constraints, and the methods of \<^verbatim>\<open>services/expense/db/postgres.go\<close>. A nullable
  column and an optional pointer are both an option.
\<close>

section \<open>Types of the service\<close>

record PurchaseOrder =
  po_ID :: uuid
  po_ProductionID :: uuid
  po_TenantID :: uuid
  po_BudgetLineID :: "uuid option"
  po_PONumber :: string
  po_VendorName :: string
  po_VendorGSTIN :: string
  po_Description :: string
  po_Amount :: decimal
  po_Currency :: string
  po_Status :: string
  po_PartyID :: "uuid option"
  po_RaisedBy :: uuid
  po_ApprovedBy :: "uuid option"
  po_RaisedAt :: time
  po_ApprovedAt :: "time option"
  po_CreatedAt :: time

record Expense =
  ex_ID :: uuid
  ex_ProductionID :: uuid
  ex_TenantID :: uuid
  ex_BudgetLineID :: "uuid option"
  ex_PurchaseOrderID :: "uuid option"
  ex_CategoryID :: string
  ex_Description :: string
  ex_Amount :: decimal
  ex_Currency :: string
  ex_TaxAmount :: decimal
  ex_Status :: string
  ex_PartyID :: "uuid option"
  ex_SubmittedBy :: uuid
  ex_ApprovedBy :: "uuid option"
  ex_RejectedBy :: "uuid option"
  ex_SubmittedAt :: "time option"
  ex_ApprovedAt :: "time option"
  ex_CreatedAt :: time
  ex_RejectionReason :: "string option"
  ex_RejectedAt :: "time option"

record PettyCashAdvance =
  pca_ID :: uuid
  pca_ProductionID :: uuid
  pca_TenantID :: uuid
  pca_IssuedTo :: uuid
  pca_Amount :: decimal
  pca_Purpose :: string
  pca_Status :: string
  pca_IssuedAt :: time
  pca_SettledAt :: "time option"
  pca_UnspentAmount :: decimal

datatype expense_sentinel =
  ErrExpenseNotFound | ErrPONotFound | ErrAlreadyApproved | ErrAlreadyRejected | ErrAlreadySettled
| ErrUnspentExceedsAdvance | ErrApprovalLimitExceeded | ErrDualApprovalRequired | ErrPORequired
| ErrInvalidCategory | ErrInsufficientBudget | ErrNotAdvanceHolder | ErrNotApprovable

type_synonym expense_err = "expense_sentinel goerr"

section \<open>Rows and tables\<close>

record po_row =
  or_id :: uuid
  or_production :: uuid
  or_tenant :: uuid
  or_budget_line :: "uuid option"
  or_number :: string
  or_vendor :: string
  or_gstin :: "string option"
  or_description :: "string option"
  or_amount :: decimal
  or_currency :: string
  or_status :: string
  or_raised_by :: uuid
  or_approved_by :: "uuid option"
  or_raised_at :: time
  or_approved_at :: "time option"
  or_created :: time
  or_party :: "uuid option"

record expense_row =
  xr_id :: uuid
  xr_production :: uuid
  xr_tenant :: uuid
  xr_budget_line :: "uuid option"
  xr_po :: "uuid option"
  xr_category :: string
  xr_description :: "string option"
  xr_amount :: decimal
  xr_currency :: string
  xr_tax :: decimal
  xr_status :: string
  xr_submitted_by :: uuid
  xr_approved_by :: "uuid option"
  xr_submitted_at :: "time option"
  xr_approved_at :: "time option"
  xr_created :: time
  xr_reason :: "string option"
  xr_rejected_at :: "time option"
  xr_rejected_by :: "uuid option"
  xr_party :: "uuid option"

record advance_row =
  vr_id :: uuid
  vr_production :: uuid
  vr_tenant :: uuid
  vr_issued_to :: uuid
  vr_amount :: decimal
  vr_purpose :: string
  vr_status :: string
  vr_issued_at :: time
  vr_settled_at :: "time option"
  vr_unspent :: decimal

text \<open>An event carries the expense that was handed to the publisher.\<close>

datatype expense_event = ExpenseSubmitted Expense | ExpenseApproved Expense

record expense_db = io +
  purchase_orders :: "po_row list"
  expenses :: "expense_row list"
  advances :: "advance_row list"
  events :: "expense_event list"

definition empty_expenses :: expense_db where
  "empty_expenses = \<lparr>tick = 0, purchase_orders = [], expenses = [], advances = [], events = []\<rparr>"

definition po_statuses :: "string list" where
  "po_statuses = [''draft'', ''approved'', ''partially_invoiced'', ''closed'', ''cancelled'']"

definition expense_statuses :: "string list" where
  "expense_statuses = [''draft'', ''submitted'', ''approved'', ''rejected'', ''paid'']"

definition advance_statuses :: "string list" where
  "advance_statuses = [''issued'', ''partially_settled'', ''settled'']"

section \<open>Conversions\<close>

definition pgTextFromString :: "string \<Rightarrow> string option" where
  "pgTextFromString s = (if s \<noteq> '''' then Some s else None)"

definition stringFromPgText :: "string option \<Rightarrow> string" where
  "stringFromPgText t = (case t of Some s \<Rightarrow> s | None \<Rightarrow> '''')"

definition nullableUUID :: "uuid \<Rightarrow> uuid option" where
  "nullableUUID i = (if i = uuid_Nil then None else Some i)"

definition purchaseOrderFromDB :: "po_row \<Rightarrow> PurchaseOrder" where
  "purchaseOrderFromDB r =
     \<lparr>po_ID = or_id r, po_ProductionID = or_production r, po_TenantID = or_tenant r,
      po_BudgetLineID = or_budget_line r, po_PONumber = or_number r, po_VendorName = or_vendor r,
      po_VendorGSTIN = stringFromPgText (or_gstin r), po_Description = stringFromPgText (or_description r),
      po_Amount = or_amount r, po_Currency = or_currency r, po_Status = or_status r,
      po_PartyID = or_party r, po_RaisedBy = or_raised_by r, po_ApprovedBy = or_approved_by r,
      po_RaisedAt = or_raised_at r, po_ApprovedAt = or_approved_at r, po_CreatedAt = or_created r\<rparr>"

definition expenseFromDB :: "expense_row \<Rightarrow> Expense" where
  "expenseFromDB r =
     \<lparr>ex_ID = xr_id r, ex_ProductionID = xr_production r, ex_TenantID = xr_tenant r,
      ex_BudgetLineID = xr_budget_line r, ex_PurchaseOrderID = xr_po r, ex_CategoryID = xr_category r,
      ex_Description = stringFromPgText (xr_description r), ex_Amount = xr_amount r,
      ex_Currency = xr_currency r, ex_TaxAmount = xr_tax r, ex_Status = xr_status r,
      ex_PartyID = xr_party r, ex_SubmittedBy = xr_submitted_by r, ex_ApprovedBy = xr_approved_by r,
      ex_RejectedBy = xr_rejected_by r, ex_SubmittedAt = xr_submitted_at r,
      ex_ApprovedAt = xr_approved_at r, ex_CreatedAt = xr_created r, ex_RejectionReason = xr_reason r,
      ex_RejectedAt = xr_rejected_at r\<rparr>"

definition pettyCashFromDB :: "advance_row \<Rightarrow> PettyCashAdvance" where
  "pettyCashFromDB r =
     \<lparr>pca_ID = vr_id r, pca_ProductionID = vr_production r, pca_TenantID = vr_tenant r,
      pca_IssuedTo = vr_issued_to r, pca_Amount = vr_amount r, pca_Purpose = vr_purpose r,
      pca_Status = vr_status r, pca_IssuedAt = vr_issued_at r, pca_SettledAt = vr_settled_at r,
      pca_UnspentAmount = vr_unspent r\<rparr>"

section \<open>Statements\<close>

subsection \<open>Purchase orders\<close>

abbreviation set_purchase_orders :: "po_row list \<Rightarrow> expense_db \<Rightarrow> expense_db" where
  "set_purchase_orders rs w \<equiv> w\<lparr>purchase_orders := rs\<rparr>"

text \<open>The columns that the insert does not name take their defaults.\<close>

definition q_CreatePurchaseOrder :: "env \<Rightarrow> po_row \<Rightarrow> (expense_db, db_error, po_row) op" where
  "q_CreatePurchaseOrder en r0 = query en (\<lambda>now w.
     case numeric_14_2 (or_amount r0) of Inl e \<Rightarrow> (Inl e, w) | Inr amt \<Rightarrow>
       let r = r0\<lparr>or_amount := amt, or_status := ''draft'', or_approved_by := None, or_raised_at := now,
                  or_approved_at := None, or_created := now\<rparr> in
       if \<exists>o' \<in> set (purchase_orders w). or_id o' = or_id r then (Inl ErrNoRows, w)
       else if \<exists>o' \<in> set (purchase_orders w). or_number o' = or_number r then (Inl unique_violation, w)
       else (Inr r, w\<lparr>purchase_orders := purchase_orders w @ [r]\<rparr>))"

definition q_GetPurchaseOrder :: "env \<Rightarrow> uuid \<Rightarrow> uuid \<Rightarrow> (expense_db, db_error, po_row) op" where
  "q_GetPurchaseOrder en i t = query en (\<lambda>_ w.
     (row_by (\<lambda>r. or_id r = i \<and> or_tenant r = t) (purchase_orders w), w))"

definition q_ListPurchaseOrders ::
  "env \<Rightarrow> uuid \<Rightarrow> uuid option \<Rightarrow> uuid option \<Rightarrow> string \<Rightarrow> int \<Rightarrow> int \<Rightarrow> (expense_db, db_error, po_row list) op" where
  "q_ListPurchaseOrders en t production raisedBy st l ofs = query en (\<lambda>_ w.
     (page l ofs (sort_key (\<lambda>r. - or_raised_at r) (filter (\<lambda>r. or_tenant r = t
        \<and> opt_filter production (or_production r) \<and> opt_filter raisedBy (or_raised_by r)
        \<and> (st = '''' \<or> or_status r = st)) (purchase_orders w))), w))"

definition q_ListPurchaseOrdersByParty ::
  "env \<Rightarrow> uuid \<Rightarrow> uuid \<Rightarrow> int \<Rightarrow> int \<Rightarrow> (expense_db, db_error, po_row list) op" where
  "q_ListPurchaseOrdersByParty en t party l ofs = query en (\<lambda>_ w.
     (page l ofs (sort_key (\<lambda>r. - or_raised_at r) (filter (\<lambda>r. or_tenant r = t
        \<and> or_party r = Some party) (purchase_orders w))), w))"

definition q_UpdatePurchaseOrderStatus ::
  "env \<Rightarrow> uuid \<Rightarrow> uuid \<Rightarrow> string \<Rightarrow> uuid option \<Rightarrow> (expense_db, db_error, po_row) op" where
  "q_UpdatePurchaseOrderStatus en i t st approvedBy = query en (\<lambda>now.
     update_one (\<lambda>r. or_id r = i \<and> or_tenant r = t)
       (\<lambda>r. r\<lparr>or_status := st, or_approved_by := (if st = ''approved'' then approvedBy else or_approved_by r),
              or_approved_at := (if st = ''approved'' then Some now else or_approved_at r)\<rparr>)
       (\<lambda>r. or_status r \<in> set po_statuses) purchase_orders set_purchase_orders)"

subsection \<open>Expenses\<close>

abbreviation set_expenses :: "expense_row list \<Rightarrow> expense_db \<Rightarrow> expense_db" where
  "set_expenses rs w \<equiv> w\<lparr>expenses := rs\<rparr>"

text \<open>The insert names no status, so the row has the default \<^verbatim>\<open>draft\<close>.\<close>

definition q_CreateExpense :: "env \<Rightarrow> expense_row \<Rightarrow> (expense_db, db_error, expense_row) op" where
  "q_CreateExpense en r0 = query en (\<lambda>now w.
     case numeric_14_2 (xr_amount r0) of Inl e \<Rightarrow> (Inl e, w) | Inr amt \<Rightarrow>
     case numeric_14_2 (xr_tax r0) of Inl e \<Rightarrow> (Inl e, w) | Inr tax \<Rightarrow>
       let r = r0\<lparr>xr_amount := amt, xr_tax := tax, xr_status := ''draft'', xr_approved_by := None,
                  xr_submitted_at := None, xr_approved_at := None, xr_created := now, xr_reason := None,
                  xr_rejected_at := None, xr_rejected_by := None\<rparr> in
       if \<exists>x \<in> set (expenses w). xr_id x = xr_id r then (Inl ErrNoRows, w)
       else if (case xr_po r of None \<Rightarrow> False | Some p \<Rightarrow> \<forall>o' \<in> set (purchase_orders w). or_id o' \<noteq> p)
       then (Inl fk_violation, w)
       else (Inr r, w\<lparr>expenses := expenses w @ [r]\<rparr>))"

definition q_GetExpense :: "env \<Rightarrow> uuid \<Rightarrow> uuid \<Rightarrow> (expense_db, db_error, expense_row) op" where
  "q_GetExpense en i t = query en (\<lambda>_ w.
     (row_by (\<lambda>r. xr_id r = i \<and> xr_tenant r = t) (expenses w), w))"

definition q_ListExpenses ::
  "env \<Rightarrow> uuid \<Rightarrow> uuid option \<Rightarrow> uuid option \<Rightarrow> string \<Rightarrow> int \<Rightarrow> int \<Rightarrow> (expense_db, db_error, expense_row list) op" where
  "q_ListExpenses en t production submittedBy st l ofs = query en (\<lambda>_ w.
     (page l ofs (sort_key (\<lambda>r. - xr_created r) (filter (\<lambda>r. xr_tenant r = t
        \<and> opt_filter production (xr_production r) \<and> opt_filter submittedBy (xr_submitted_by r)
        \<and> (st = '''' \<or> xr_status r = st)) (expenses w))), w))"

definition q_ListExpensesByParty ::
  "env \<Rightarrow> uuid \<Rightarrow> uuid \<Rightarrow> int \<Rightarrow> int \<Rightarrow> (expense_db, db_error, expense_row list) op" where
  "q_ListExpensesByParty en t party l ofs = query en (\<lambda>_ w.
     (page l ofs (sort_key (\<lambda>r. - xr_created r) (filter (\<lambda>r. xr_tenant r = t
        \<and> xr_party r = Some party) (expenses w))), w))"

definition q_UpdateExpenseStatus ::
  "env \<Rightarrow> uuid \<Rightarrow> uuid \<Rightarrow> string \<Rightarrow> uuid option \<Rightarrow> (expense_db, db_error, expense_row) op" where
  "q_UpdateExpenseStatus en i t st approvedBy = query en (\<lambda>now.
     update_one (\<lambda>r. xr_id r = i \<and> xr_tenant r = t)
       (\<lambda>r. r\<lparr>xr_status := st, xr_approved_by := (if st = ''approved'' then approvedBy else xr_approved_by r),
              xr_submitted_at := (if st = ''submitted'' then Some now else xr_submitted_at r),
              xr_approved_at := (if st = ''approved'' then Some now else xr_approved_at r)\<rparr>)
       (\<lambda>r. xr_status r \<in> set expense_statuses) expenses set_expenses)"

definition q_RejectExpense ::
  "env \<Rightarrow> uuid \<Rightarrow> uuid \<Rightarrow> string option \<Rightarrow> uuid option \<Rightarrow> (expense_db, db_error, expense_row) op" where
  "q_RejectExpense en i t reason rejectedBy = query en (\<lambda>now.
     update_one (\<lambda>r. xr_id r = i \<and> xr_tenant r = t)
       (\<lambda>r. r\<lparr>xr_status := ''rejected'', xr_reason := reason, xr_rejected_at := Some now,
              xr_rejected_by := rejectedBy\<rparr>)
       (\<lambda>r. xr_status r \<in> set expense_statuses) expenses set_expenses)"

subsection \<open>Petty cash\<close>

abbreviation set_advances :: "advance_row list \<Rightarrow> expense_db \<Rightarrow> expense_db" where
  "set_advances rs w \<equiv> w\<lparr>advances := rs\<rparr>"

definition q_CreatePettyCashAdvance :: "env \<Rightarrow> advance_row \<Rightarrow> (expense_db, db_error, advance_row) op" where
  "q_CreatePettyCashAdvance en r0 = query en (\<lambda>now w.
     case numeric_14_2 (vr_amount r0) of Inl e \<Rightarrow> (Inl e, w) | Inr amt \<Rightarrow>
       let r = r0\<lparr>vr_amount := amt, vr_status := ''issued'', vr_issued_at := now, vr_settled_at := None,
                  vr_unspent := 0\<rparr> in
       if \<exists>a \<in> set (advances w). vr_id a = vr_id r then (Inl ErrNoRows, w)
       else (Inr r, w\<lparr>advances := advances w @ [r]\<rparr>))"

definition q_GetPettyCashAdvance :: "env \<Rightarrow> uuid \<Rightarrow> uuid \<Rightarrow> (expense_db, db_error, advance_row) op" where
  "q_GetPettyCashAdvance en i t = query en (\<lambda>_ w.
     (row_by (\<lambda>r. vr_id r = i \<and> vr_tenant r = t) (advances w), w))"

definition q_ListPettyCashAdvances ::
  "env \<Rightarrow> uuid \<Rightarrow> uuid option \<Rightarrow> uuid option \<Rightarrow> string \<Rightarrow> int \<Rightarrow> int \<Rightarrow> (expense_db, db_error, advance_row list) op" where
  "q_ListPettyCashAdvances en t production issuedTo st l ofs = query en (\<lambda>_ w.
     (page l ofs (sort_key (\<lambda>r. - vr_issued_at r) (filter (\<lambda>r. vr_tenant r = t
        \<and> opt_filter production (vr_production r) \<and> opt_filter issuedTo (vr_issued_to r)
        \<and> (st = '''' \<or> vr_status r = st)) (advances w))), w))"

definition q_SettlePettyCashAdvance ::
  "env \<Rightarrow> uuid \<Rightarrow> uuid \<Rightarrow> string \<Rightarrow> decimal \<Rightarrow> (expense_db, db_error, advance_row) op" where
  "q_SettlePettyCashAdvance en i t st unspent = query en (\<lambda>now w.
     case numeric_14_2 unspent of
       Inl e \<Rightarrow> (if (\<exists>r \<in> set (advances w). vr_id r = i \<and> vr_tenant r = t) then Inl e else Inl ErrNoRows, w)
     | Inr u \<Rightarrow>
         update_one (\<lambda>r. vr_id r = i \<and> vr_tenant r = t)
           (\<lambda>r. r\<lparr>vr_status := st, vr_unspent := u,
                  vr_settled_at := (if st = ''settled'' then Some now else vr_settled_at r)\<rparr>)
           (\<lambda>r. vr_status r \<in> set advance_statuses) advances set_advances w)"

end
