(* ===== verification/ExpenseService.thy ===== *)
theory ExpenseService
  imports ExpenseDb Interceptor
begin

text \<open>
  The repository methods of \<^verbatim>\<open>services/expense/db/postgres.go\<close> and the business logic of
  \<^verbatim>\<open>services/expense/service.go\<close>: submitting, approving and rejecting expenses, purchase
  orders and petty-cash advances under the approval workflow of the tenant's vertical.
\<close>

section \<open>Repository\<close>

definition pg_CreatePurchaseOrder :: "env \<Rightarrow> PurchaseOrder \<Rightarrow> (expense_db, expense_err, unit) op" where
  "pg_CreatePurchaseOrder en po =
     andThen (onErr (\<lambda>err. Wrap ''expense: create purchase order'' (DbErr err))
       (q_CreatePurchaseOrder en
         \<lparr>or_id = po_ID po, or_production = po_ProductionID po, or_tenant = po_TenantID po,
          or_budget_line = po_BudgetLineID po, or_number = po_PONumber po, or_vendor = po_VendorName po,
          or_gstin = pgTextFromString (po_VendorGSTIN po), or_description = pgTextFromString (po_Description po),
          or_amount = po_Amount po, or_currency = po_Currency po, or_status = '''', or_raised_by = po_RaisedBy po,
          or_approved_by = None, or_raised_at = 0, or_approved_at = None, or_created = 0,
          or_party = po_PartyID po\<rparr>)) (\<lambda>_. ret ())"

definition pg_GetPurchaseOrder :: "env \<Rightarrow> uuid \<Rightarrow> uuid \<Rightarrow> (expense_db, expense_err, PurchaseOrder) op" where
  "pg_GetPurchaseOrder en t i =
     andThen (onErr (noRows ErrPONotFound ''expense: get purchase order'') (q_GetPurchaseOrder en i t))
       (\<lambda>row. ret (purchaseOrderFromDB row))"

definition pg_ListPurchaseOrders ::
  "env \<Rightarrow> uuid \<Rightarrow> uuid \<Rightarrow> string \<Rightarrow> int \<Rightarrow> int \<Rightarrow> uuid \<Rightarrow> (expense_db, expense_err, PurchaseOrder list) op" where
  "pg_ListPurchaseOrders en t production st limit ofs raisedBy =
     andThen (onErr (\<lambda>err. Wrap ''expense: list purchase orders'' (DbErr err))
       (q_ListPurchaseOrders en t (nullableUUID production) (nullableUUID raisedBy) st (int32 limit) (int32 ofs)))
       (\<lambda>rows. ret (map purchaseOrderFromDB rows))"

definition pg_ListPurchaseOrdersByParty ::
  "env \<Rightarrow> uuid \<Rightarrow> uuid \<Rightarrow> int \<Rightarrow> int \<Rightarrow> (expense_db, expense_err, PurchaseOrder list) op" where
  "pg_ListPurchaseOrdersByParty en t party limit ofs =
     andThen (onErr (\<lambda>err. Wrap ''expense: list purchase orders by party'' (DbErr err))
       (q_ListPurchaseOrdersByParty en t party (int32 limit) (int32 ofs)))
       (\<lambda>rows. ret (map purchaseOrderFromDB rows))"

definition pg_UpdatePurchaseOrder :: "env \<Rightarrow> PurchaseOrder \<Rightarrow> (expense_db, expense_err, unit) op" where
  "pg_UpdatePurchaseOrder en po =
     andThen (onErr (noRows ErrPONotFound ''expense: update purchase order'')
       (q_UpdatePurchaseOrderStatus en (po_ID po) (po_TenantID po) (po_Status po) (po_ApprovedBy po)))
       (\<lambda>_. ret ())"

definition pg_CreateExpense :: "env \<Rightarrow> Expense \<Rightarrow> (expense_db, expense_err, unit) op" where
  "pg_CreateExpense en e =
     andThen (onErr (\<lambda>err. Wrap ''expense: create expense'' (DbErr err))
       (q_CreateExpense en
         \<lparr>xr_id = ex_ID e, xr_production = ex_ProductionID e, xr_tenant = ex_TenantID e,
          xr_budget_line = ex_BudgetLineID e, xr_po = ex_PurchaseOrderID e, xr_category = ex_CategoryID e,
          xr_description = pgTextFromString (ex_Description e), xr_amount = ex_Amount e,
          xr_currency = ex_Currency e, xr_tax = ex_TaxAmount e, xr_status = '''',
          xr_submitted_by = ex_SubmittedBy e, xr_approved_by = None, xr_submitted_at = None,
          xr_approved_at = None, xr_created = 0, xr_reason = None, xr_rejected_at = None,
          xr_rejected_by = None, xr_party = ex_PartyID e\<rparr>)) (\<lambda>_. ret ())"

definition pg_GetExpense :: "env \<Rightarrow> uuid \<Rightarrow> uuid \<Rightarrow> (expense_db, expense_err, Expense) op" where
  "pg_GetExpense en t i =
     andThen (onErr (noRows ErrExpenseNotFound ''expense: get expense'') (q_GetExpense en i t))
       (\<lambda>row. ret (expenseFromDB row))"

definition pg_ListExpenses ::
  "env \<Rightarrow> uuid \<Rightarrow> uuid \<Rightarrow> string \<Rightarrow> int \<Rightarrow> int \<Rightarrow> uuid \<Rightarrow> (expense_db, expense_err, Expense list) op" where
  "pg_ListExpenses en t production st limit ofs submittedBy =
     andThen (onErr (\<lambda>err. Wrap ''expense: list expenses'' (DbErr err))
       (q_ListExpenses en t (nullableUUID production) (nullableUUID submittedBy) st (int32 limit) (int32 ofs)))
       (\<lambda>rows. ret (map expenseFromDB rows))"

definition pg_ListExpensesByParty ::
  "env \<Rightarrow> uuid \<Rightarrow> uuid \<Rightarrow> int \<Rightarrow> int \<Rightarrow> (expense_db, expense_err, Expense list) op" where
  "pg_ListExpensesByParty en t party limit ofs =
     andThen (onErr (\<lambda>err. Wrap ''expense: list expenses by party'' (DbErr err))
       (q_ListExpensesByParty en t party (int32 limit) (int32 ofs)))
       (\<lambda>rows. ret (map expenseFromDB rows))"

definition pg_UpdateExpense :: "env \<Rightarrow> Expense \<Rightarrow> (expense_db, expense_err, unit) op" where
  "pg_UpdateExpense en e =
     andThen (onErr (noRows ErrExpenseNotFound ''expense: update expense'')
       (q_UpdateExpenseStatus en (ex_ID e) (ex_TenantID e) (ex_Status e) (ex_ApprovedBy e)))
       (\<lambda>_. ret ())"

definition pg_RejectExpense ::
  "env \<Rightarrow> uuid \<Rightarrow> uuid \<Rightarrow> uuid \<Rightarrow> string \<Rightarrow> (expense_db, expense_err, unit) op" where
  "pg_RejectExpense en t i rejecterID reason =
     andThen (onErr (noRows ErrExpenseNotFound ''expense/db: reject expense'')
       (q_RejectExpense en i t (Some reason) (Some rejecterID))) (\<lambda>_. ret ())"

definition pg_CreatePettyCashAdvance :: "env \<Rightarrow> PettyCashAdvance \<Rightarrow> (expense_db, expense_err, unit) op" where
  "pg_CreatePettyCashAdvance en pc =
     andThen (onErr (\<lambda>err. Wrap ''expense: create petty cash advance'' (DbErr err))
       (q_CreatePettyCashAdvance en
         \<lparr>vr_id = pca_ID pc, vr_production = pca_ProductionID pc, vr_tenant = pca_TenantID pc,
          vr_issued_to = pca_IssuedTo pc, vr_amount = pca_Amount pc, vr_purpose = pca_Purpose pc,
          vr_status = '''', vr_issued_at = 0, vr_settled_at = None, vr_unspent = 0\<rparr>)) (\<lambda>_. ret ())"

definition pg_GetPettyCashAdvance :: "env \<Rightarrow> uuid \<Rightarrow> uuid \<Rightarrow> (expense_db, expense_err, PettyCashAdvance) op" where
  "pg_GetPettyCashAdvance en t i =
     andThen (onErr (noRows ErrExpenseNotFound ''expense: get petty cash advance'') (q_GetPettyCashAdvance en i t))
       (\<lambda>row. ret (pettyCashFromDB row))"

definition pg_ListPettyCashAdvances ::
  "env \<Rightarrow> uuid \<Rightarrow> uuid \<Rightarrow> string \<Rightarrow> int \<Rightarrow> int \<Rightarrow> uuid \<Rightarrow> (expense_db, expense_err, PettyCashAdvance list) op" where
  "pg_ListPettyCashAdvances en t production st limit ofs issuedTo =
     andThen (onErr (\<lambda>err. Wrap ''expense: list petty cash advances'' (DbErr err))
       (q_ListPettyCashAdvances en t (nullableUUID production) (nullableUUID issuedTo) st (int32 limit) (int32 ofs)))
       (\<lambda>rows. ret (map pettyCashFromDB rows))"

definition pg_UpdatePettyCashAdvance :: "env \<Rightarrow> PettyCashAdvance \<Rightarrow> (expense_db, expense_err, unit) op" where
  "pg_UpdatePettyCashAdvance en pc =
     andThen (onErr (noRows ErrExpenseNotFound ''expense: update petty cash advance'')
       (q_SettlePettyCashAdvance en (pca_ID pc) (pca_TenantID pc) (pca_Status pc) (pca_UnspentAmount pc)))
       (\<lambda>_. ret ())"

section \<open>Shared steps of the service\<close>

fun hasSuperAdmin :: "string list \<Rightarrow> bool" where
  "hasSuperAdmin [] = False"
| "hasSuperAdmin (r # rs) = (if r = ''super_admin'' then True else hasSuperAdmin rs)"

definition publish :: "bool \<Rightarrow> expense_event \<Rightarrow> (expense_db, expense_err, unit) op" where
  "publish pub ev = (if pub then modify (\<lambda>w. w\<lparr>events := events w @ [ev]\<rparr>) else ret ())"

text \<open>The two money checks that both approvals make, in their order.\<close>

definition check_limits :: "Config \<Rightarrow> string list \<Rightarrow> decimal \<Rightarrow> (expense_db, expense_err, unit) op" where
  "check_limits vcfg roles amount =
     (let w = vc_ApprovalWorkflow vcfg in
      andThen
        (if \<not> hasSuperAdmin roles
         then (case MaxLimitForRoles w roles of
                 None \<Rightarrow> fail (Wrap ''caller roles have no configured approval limit'' (Sentinel ErrApprovalLimitExceeded))
               | Some limit \<Rightarrow> if amount > limit
                   then fail (Wrap ''exceeds limit'' (Sentinel ErrApprovalLimitExceeded)) else ret ())
         else ret ())
        (\<lambda>_. if amount > aw_DualApprovalAbove w
             then fail (Wrap ''exceeds dual approval threshold'' (Sentinel ErrDualApprovalRequired)) else ret ()))"

section \<open>Expenses\<close>

text \<open>
  The method works on the caller's struct, so the model returns the struct as it was changed.
\<close>

definition svc_SubmitExpense :: "env \<Rightarrow> bool \<Rightarrow> ctx \<Rightarrow> Expense \<Rightarrow> (expense_db, expense_err, Expense) op" where
  "svc_SubmitExpense en pub ctx e =
     andThen (MustFromContext ctx)
       (\<lambda>vcfg. case FindExpenseCategory vcfg (ex_CategoryID e) of
          None \<Rightarrow> fail (Wrap ''is not valid for vertical'' (Sentinel ErrInvalidCategory))
        | Some cat \<Rightarrow>
            if ec_RequiresPO cat \<and> ex_PurchaseOrderID e = None
            then fail (Wrap ''category requires a purchase order'' (Sentinel ErrPORequired))
            else andThen (id_or_New en (ex_ID e))
              (\<lambda>i. let e' = e\<lparr>ex_Status := ''submitted'', ex_ID := i\<rparr> in
                 andThen (pg_CreateExpense en e')
                   (\<lambda>_. andThen (publish pub (ExpenseSubmitted e')) (\<lambda>_. ret e'))))"

definition svc_ApproveExpense ::
  "env \<Rightarrow> bool \<Rightarrow> ctx \<Rightarrow> uuid \<Rightarrow> uuid \<Rightarrow> uuid \<Rightarrow> string list \<Rightarrow> (expense_db, expense_err, unit) op" where
  "svc_ApproveExpense en pub ctx t expenseID approverID roles =
     andThen (MustFromContext ctx)
       (\<lambda>vcfg. andThen (onErr (Wrap ''get expense'') (pg_GetExpense en t expenseID))
         (\<lambda>exp. if ex_Status exp = ''approved'' then fail (Sentinel ErrAlreadyApproved)
            else if ex_Status exp = ''rejected'' then fail (Sentinel ErrAlreadyRejected)
            else if ex_Status exp \<noteq> ''submitted'' then fail (Sentinel ErrNotApprovable)
            else andThen (check_limits vcfg roles (ex_Amount exp))
              (\<lambda>_. andThen (time_Now en)
                (\<lambda>now. let exp' = exp\<lparr>ex_Status := ''approved'', ex_ApprovedBy := Some approverID,
                                      ex_ApprovedAt := Some now\<rparr> in
                   andThen (pg_UpdateExpense en exp') (\<lambda>_. publish pub (ExpenseApproved exp'))))))"

definition svc_GetExpense :: "env \<Rightarrow> uuid \<Rightarrow> uuid \<Rightarrow> (expense_db, expense_err, Expense) op" where
  "svc_GetExpense en t i = pg_GetExpense en t i"

definition svc_ListExpensesByParty ::
  "env \<Rightarrow> uuid \<Rightarrow> uuid \<Rightarrow> int \<Rightarrow> int \<Rightarrow> (expense_db, expense_err, Expense list) op" where
  "svc_ListExpensesByParty en t party limit ofs =
     (let limit' = (if limit \<le> 0 \<or> limit > 100 then 100 else limit) in pg_ListExpensesByParty en t party limit' ofs)"

definition svc_ListExpenses ::
  "env \<Rightarrow> uuid \<Rightarrow> uuid \<Rightarrow> string \<Rightarrow> int \<Rightarrow> int \<Rightarrow> uuid \<Rightarrow> (expense_db, expense_err, Expense list) op" where
  "svc_ListExpenses en t production st limit ofs submittedBy =
     (let limit' = (if limit \<le> 0 \<or> limit > 100 then 20 else limit)
      in pg_ListExpenses en t production st limit' ofs submittedBy)"

definition svc_RejectExpense ::
  "env \<Rightarrow> uuid \<Rightarrow> uuid \<Rightarrow> uuid \<Rightarrow> string \<Rightarrow> (expense_db, expense_err, unit) op" where
  "svc_RejectExpense en t expenseID rejecterID reason =
     andThen (onErr (Wrap ''get expense'') (pg_GetExpense en t expenseID))
       (\<lambda>exp. if ex_Status exp = ''approved'' then fail (Sentinel ErrAlreadyApproved)
          else if ex_Status exp = ''rejected'' then fail (Sentinel ErrAlreadyRejected)
          else pg_RejectExpense en t expenseID rejecterID reason)"

section \<open>Purchase orders\<close>

text \<open>\<^verbatim>\<open>uuid.NewString\<close> is the printed form of a new identifier; its printer is an argument.\<close>

definition genPONumber :: "env \<Rightarrow> (uuid \<Rightarrow> string) \<Rightarrow> ('r io_scheme, 'e, string) op" where
  "genPONumber en uuid_str = andThen (time_Now en) (\<lambda>now. andThen (uuid_New en)
     (\<lambda>u. ret (''PO-'' @ pad 4 (itoa (nat (year_of now))) @ ''-'' @ ToUpper (take 8 (uuid_str u)))))"

definition svc_CreatePurchaseOrder ::
  "env \<Rightarrow> (uuid \<Rightarrow> string) \<Rightarrow> PurchaseOrder \<Rightarrow> (expense_db, expense_err, PurchaseOrder) op" where
  "svc_CreatePurchaseOrder en uuid_str po =
     andThen (if po_PONumber po = '''' then genPONumber en uuid_str else ret (po_PONumber po))
       (\<lambda>num. andThen (id_or_New en (po_ID po))
         (\<lambda>i. let po' = po\<lparr>po_PONumber := num, po_ID := i\<rparr> in
            andThen (pg_CreatePurchaseOrder en po') (\<lambda>_. ret po')))"

definition svc_GetPurchaseOrder :: "env \<Rightarrow> uuid \<Rightarrow> uuid \<Rightarrow> (expense_db, expense_err, PurchaseOrder) op" where
  "svc_GetPurchaseOrder en t i = pg_GetPurchaseOrder en t i"

definition svc_ListPurchaseOrdersByParty ::
  "env \<Rightarrow> uuid \<Rightarrow> uuid \<Rightarrow> int \<Rightarrow> int \<Rightarrow> (expense_db, expense_err, PurchaseOrder list) op" where
  "svc_ListPurchaseOrdersByParty en t party limit ofs =
     (let limit' = (if limit \<le> 0 \<or> limit > 100 then 100 else limit)
      in pg_ListPurchaseOrdersByParty en t party limit' ofs)"

definition svc_ListPurchaseOrders ::
  "env \<Rightarrow> uuid \<Rightarrow> uuid \<Rightarrow> string \<Rightarrow> int \<Rightarrow> int \<Rightarrow> uuid \<Rightarrow> (expense_db, expense_err, PurchaseOrder list) op" where
  "svc_ListPurchaseOrders en t production st limit ofs raisedBy =
     (let limit' = (if limit \<le> 0 \<or> limit > 100 then 20 else limit)
      in pg_ListPurchaseOrders en t production st limit' ofs raisedBy)"

definition svc_ApprovePurchaseOrder ::
  "env \<Rightarrow> ctx \<Rightarrow> uuid \<Rightarrow> uuid \<Rightarrow> uuid \<Rightarrow> string list \<Rightarrow> (expense_db, expense_err, unit) op" where
  "svc_ApprovePurchaseOrder en ctx t poID approverID roles =
     andThen (MustFromContext ctx)
       (\<lambda>vcfg. andThen (onErr (Wrap ''get purchase order'') (pg_GetPurchaseOrder en t poID))
         (\<lambda>po. if po_Status po = ''approved'' then fail (Sentinel ErrAlreadyApproved)
            else if po_Status po \<noteq> ''draft'' then fail (Sentinel ErrNotApprovable)
            else andThen (check_limits vcfg roles (po_Amount po))
              (\<lambda>_. andThen (time_Now en)
                (\<lambda>now. pg_UpdatePurchaseOrder en (po\<lparr>po_Status := ''approved'',
                         po_ApprovedBy := Some approverID, po_ApprovedAt := Some now\<rparr>)))))"

section \<open>Petty cash\<close>

definition svc_CreatePettyCashAdvance ::
  "env \<Rightarrow> PettyCashAdvance \<Rightarrow> (expense_db, expense_err, PettyCashAdvance) op" where
  "svc_CreatePettyCashAdvance en pc =
     andThen (id_or_New en (pca_ID pc))
       (\<lambda>i. let pc' = pc\<lparr>pca_ID := i\<rparr> in andThen (pg_CreatePettyCashAdvance en pc') (\<lambda>_. ret pc'))"

definition svc_GetPettyCashAdvance :: "env \<Rightarrow> uuid \<Rightarrow> uuid \<Rightarrow> (expense_db, expense_err, PettyCashAdvance) op" where
  "svc_GetPettyCashAdvance en t i = pg_GetPettyCashAdvance en t i"

definition svc_ListPettyCashAdvances ::
  "env \<Rightarrow> uuid \<Rightarrow> uuid \<Rightarrow> string \<Rightarrow> int \<Rightarrow> int \<Rightarrow> uuid \<Rightarrow> (expense_db, expense_err, PettyCashAdvance list) op" where
  "svc_ListPettyCashAdvances en t production st limit ofs issuedTo =
     (let limit' = (if limit \<le> 0 \<or> limit > 100 then 20 else limit)
      in pg_ListPettyCashAdvances en t production st limit' ofs issuedTo)"

definition svc_SettlePettyCash ::
  "env \<Rightarrow> uuid \<Rightarrow> uuid \<Rightarrow> uuid \<Rightarrow> decimal \<Rightarrow> (expense_db, expense_err, unit) op" where
  "svc_SettlePettyCash en t advanceID callerID unspent =
     andThen (onErr (Wrap ''get petty cash advance'') (pg_GetPettyCashAdvance en t advanceID))
       (\<lambda>pc. if pca_IssuedTo pc \<noteq> callerID then fail (Sentinel ErrNotAdvanceHolder)
          else if pca_Status pc = ''settled'' then fail (Sentinel ErrAlreadySettled)
          else if unspent > pca_Amount pc then fail (Sentinel ErrUnspentExceedsAdvance)
          else andThen (time_Now en)
            (\<lambda>now. pg_UpdatePettyCashAdvance en (pc\<lparr>pca_Status := ''settled'', pca_UnspentAmount := unspent,
                      pca_SettledAt := Some now\<rparr>)))"

section \<open>Vertical metadata\<close>

definition svc_GetExpenseCategories :: "ctx \<Rightarrow> (expense_db, expense_err, ExpenseCategory list) op" where
  "svc_GetExpenseCategories ctx = andThen (MustFromContext ctx) (\<lambda>vcfg. ret (vc_ExpenseCategories vcfg))"

definition svc_GetApprovalLimits :: "ctx \<Rightarrow> (expense_db, expense_err, ApprovalWorkflow) op" where
  "svc_GetApprovalLimits ctx = andThen (MustFromContext ctx) (\<lambda>vcfg. ret (vc_ApprovalWorkflow vcfg))"

end
