(* ===== verification/ExpenseHandler.thy ===== *)
theory ExpenseHandler
  imports ExpenseService Rpc
begin

text \<open>
  The gRPC surface of the expense service (\<^verbatim>\<open>services/expense/handler.go\<close>). The tenant comes
  from the context that authentication filled, permissions are asked for before the request is
  read, and the owner of a record may read it without a permission. The case of
  \<^verbatim>\<open>vertical.ErrNotFound\<close> in the error mapping is left out, since no method of the service returns
  that error.
\<close>

section \<open>Shared steps\<close>

definition parseOptionalPartyID :: "handler \<Rightarrow> string \<Rightarrow> ('w, status, uuid option) op" where
  "parseOptionalPartyID h s =
     (if s = '''' then ret None
      else andThen (parse_id h s ''invalid party_id'') (\<lambda>i. ret (Some i)))"

definition partyIDString :: "handler \<Rightarrow> uuid option \<Rightarrow> string" where
  "partyIDString h i = (case i of None \<Rightarrow> '''' | Some u \<Rightarrow> uuid_String h u)"

text \<open>A self-scoped list needs no permission, any other needs the one to read.\<close>

definition list_scope :: "handler \<Rightarrow> ctx \<Rightarrow> bool \<Rightarrow> ('w, status, uuid) op" where
  "list_scope h ctx mine =
     (if mine then actor h ctx '''' else andThen (permit h ctx ''expense:read'') (\<lambda>_. ret uuid_Nil))"

text \<open>The production to filter by, nil for none.\<close>

definition parse_production :: "handler \<Rightarrow> string \<Rightarrow> ('w, status, uuid) op" where
  "parse_production h s = (if s \<noteq> '''' then parse_id h s ''invalid production ID'' else ret uuid_Nil)"

definition grpcErr :: "expense_err \<Rightarrow> status" where
  "grpcErr err =
     (if errors_Is err ErrExpenseNotFound then Status NotFound ''expense not found''
      else if errors_Is err ErrPONotFound then Status NotFound ''purchase order not found''
      else if errors_Is err ErrAlreadyApproved \<or> errors_Is err ErrAlreadyRejected \<or> errors_Is err ErrAlreadySettled
      then Status FailedPrecondition ''expense is already approved''
      else if errors_Is err ErrNotApprovable then Status FailedPrecondition ''record is not in an approvable state''
      else if errors_Is err ErrUnspentExceedsAdvance then Status InvalidArgument ''unspent amount exceeds advance amount''
      else if errors_Is err ErrApprovalLimitExceeded then Status FailedPrecondition ''amount exceeds approval limit for role''
      else if errors_Is err ErrDualApprovalRequired then Status FailedPrecondition ''amount requires dual approval''
      else if errors_Is err ErrPORequired then Status FailedPrecondition ''purchase order required for this category''
      else if errors_Is err ErrInvalidCategory then Status InvalidArgument ''invalid expense category for this vertical''
      else if errors_Is err ErrInsufficientBudget then Status FailedPrecondition ''insufficient budget remaining''
      else if errors_Is err ErrNotAdvanceHolder then Status PermissionDenied ''caller is not the petty cash advance holder''
      else Status Internal ''internal error'')"

section \<open>Messages\<close>

record pbPurchaseOrder =
  opb_Id :: string
  opb_ProductionId :: string
  opb_TenantId :: string
  opb_BudgetLineId :: string
  opb_PoNumber :: string
  opb_VendorName :: string
  opb_VendorGstin :: string
  opb_Description :: string
  opb_Amount :: string
  opb_Currency :: string
  opb_Status :: string
  opb_RaisedBy :: string
  opb_ApprovedBy :: string
  opb_RaisedAt :: time
  opb_ApprovedAt :: "time option"
  opb_CreatedAt :: time
  opb_PartyId :: string

record pbExpense =
  xpb_Id :: string
  xpb_ProductionId :: string
  xpb_TenantId :: string
  xpb_BudgetLineId :: string
  xpb_PurchaseOrderId :: string
  xpb_CategoryId :: string
  xpb_Description :: string
  xpb_Amount :: string
  xpb_Currency :: string
  xpb_TaxAmount :: string
  xpb_Status :: string
  xpb_SubmittedBy :: string
  xpb_ApprovedBy :: string
  xpb_SubmittedAt :: "time option"
  xpb_ApprovedAt :: "time option"
  xpb_CreatedAt :: time
  xpb_RejectedBy :: string
  xpb_RejectionReason :: string
  xpb_RejectedAt :: "time option"
  xpb_PartyId :: string

record pbPettyCashAdvance =
  vpb_Id :: string
  vpb_ProductionId :: string
  vpb_TenantId :: string
  vpb_IssuedTo :: string
  vpb_Amount :: string
  vpb_Purpose :: string
  vpb_Status :: string
  vpb_IssuedAt :: time
  vpb_SettledAt :: "time option"
  vpb_UnspentAmount :: string

definition purchaseOrderToProto :: "handler \<Rightarrow> PurchaseOrder \<Rightarrow> pbPurchaseOrder" where
  "purchaseOrderToProto h po =
     \<lparr>opb_Id = uuid_String h (po_ID po), opb_ProductionId = uuid_String h (po_ProductionID po),
      opb_TenantId = uuid_String h (po_TenantID po),
      opb_BudgetLineId = (case po_BudgetLineID po of None \<Rightarrow> '''' | Some i \<Rightarrow> uuid_String h i),
      opb_PoNumber = po_PONumber po, opb_VendorName = po_VendorName po, opb_VendorGstin = po_VendorGSTIN po,
      opb_Description = po_Description po, opb_Amount = StringFixed2 h (po_Amount po),
      opb_Currency = po_Currency po, opb_Status = po_Status po, opb_RaisedBy = uuid_String h (po_RaisedBy po),
      opb_ApprovedBy = (case po_ApprovedBy po of None \<Rightarrow> '''' | Some i \<Rightarrow> uuid_String h i),
      opb_RaisedAt = po_RaisedAt po, opb_ApprovedAt = po_ApprovedAt po, opb_CreatedAt = po_CreatedAt po,
      opb_PartyId = partyIDString h (po_PartyID po)\<rparr>"

definition expenseToProto :: "handler \<Rightarrow> Expense \<Rightarrow> pbExpense" where
  "expenseToProto h e =
     \<lparr>xpb_Id = uuid_String h (ex_ID e), xpb_ProductionId = uuid_String h (ex_ProductionID e),
      xpb_TenantId = uuid_String h (ex_TenantID e),
      xpb_BudgetLineId = (case ex_BudgetLineID e of None \<Rightarrow> '''' | Some i \<Rightarrow> uuid_String h i),
      xpb_PurchaseOrderId = (case ex_PurchaseOrderID e of None \<Rightarrow> '''' | Some i \<Rightarrow> uuid_String h i),
      xpb_CategoryId = ex_CategoryID e, xpb_Description = ex_Description e,
      xpb_Amount = StringFixed2 h (ex_Amount e), xpb_Currency = ex_Currency e,
      xpb_TaxAmount = StringFixed2 h (ex_TaxAmount e), xpb_Status = ex_Status e,
      xpb_SubmittedBy = uuid_String h (ex_SubmittedBy e),
      xpb_ApprovedBy = (case ex_ApprovedBy e of None \<Rightarrow> '''' | Some i \<Rightarrow> uuid_String h i),
      xpb_SubmittedAt = ex_SubmittedAt e, xpb_ApprovedAt = ex_ApprovedAt e, xpb_CreatedAt = ex_CreatedAt e,
      xpb_RejectedBy = (case ex_RejectedBy e of None \<Rightarrow> '''' | Some i \<Rightarrow> uuid_String h i),
      xpb_RejectionReason = (case ex_RejectionReason e of None \<Rightarrow> '''' | Some s \<Rightarrow> s),
      xpb_RejectedAt = ex_RejectedAt e, xpb_PartyId = partyIDString h (ex_PartyID e)\<rparr>"

definition pettyCashToProto :: "handler \<Rightarrow> PettyCashAdvance \<Rightarrow> pbPettyCashAdvance" where
  "pettyCashToProto h pc =
     \<lparr>vpb_Id = uuid_String h (pca_ID pc), vpb_ProductionId = uuid_String h (pca_ProductionID pc),
      vpb_TenantId = uuid_String h (pca_TenantID pc), vpb_IssuedTo = uuid_String h (pca_IssuedTo pc),
      vpb_Amount = StringFixed2 h (pca_Amount pc), vpb_Purpose = pca_Purpose pc,
      vpb_Status = pca_Status pc, vpb_IssuedAt = pca_IssuedAt pc, vpb_SettledAt = pca_SettledAt pc,
      vpb_UnspentAmount = StringFixed2 h (pca_UnspentAmount pc)\<rparr>"

section \<open>Purchase orders\<close>

record CreatePurchaseOrderRequest =
  rpo_ProductionId :: string
  rpo_BudgetLineId :: string
  rpo_PoNumber :: string
  rpo_VendorName :: string
  rpo_VendorGstin :: string
  rpo_Description :: string
  rpo_Amount :: string
  rpo_Currency :: string
  rpo_PartyId :: string

definition rpc_CreatePurchaseOrder ::
  "handler \<Rightarrow> ctx \<Rightarrow> CreatePurchaseOrderRequest \<Rightarrow> (expense_db, status, pbPurchaseOrder) op" where
  "rpc_CreatePurchaseOrder h ctx req =
     andThen (ctxTenant ctx)
       (\<lambda>t. andThen (permit h ctx ''expense:submit'')
       (\<lambda>_. andThen (ctxCaller ctx)
       (\<lambda>caller. andThen (parse_id h (rpo_ProductionId req) ''invalid production ID'')
       (\<lambda>production. andThen (parse_decimal h (rpo_Amount req) ''invalid amount: must be a decimal string'')
       (\<lambda>amount. andThen (parseOptionalPartyID h (rpo_PartyId req))
       (\<lambda>party. andThen (parse_opt_id h (rpo_BudgetLineId req) ''invalid budget_line_id'')
       (\<lambda>line. andThen (onErr grpcErr (svc_CreatePurchaseOrder (h_env h) (uuid_String h)
            \<lparr>po_ID = uuid_Nil, po_ProductionID = production, po_TenantID = t, po_BudgetLineID = line,
             po_PONumber = rpo_PoNumber req, po_VendorName = rpo_VendorName req,
             po_VendorGSTIN = rpo_VendorGstin req, po_Description = rpo_Description req, po_Amount = amount,
             po_Currency = (if rpo_Currency req = '''' then ''INR'' else rpo_Currency req), po_Status = '''',
             po_PartyID = party, po_RaisedBy = UserID caller, po_ApprovedBy = None, po_RaisedAt = 0,
             po_ApprovedAt = None, po_CreatedAt = 0\<rparr>))
       (\<lambda>po. andThen (onErr grpcErr (svc_GetPurchaseOrder (h_env h) t (po_ID po)))
       (\<lambda>out. ret (purchaseOrderToProto h out))))))))))"

definition rpc_GetPurchaseOrder :: "handler \<Rightarrow> ctx \<Rightarrow> string \<Rightarrow> (expense_db, status, pbPurchaseOrder) op" where
  "rpc_GetPurchaseOrder h ctx reqId =
     andThen (ctxTenant ctx)
       (\<lambda>t. andThen (ctxCaller ctx)
       (\<lambda>caller. andThen (parse_id h reqId ''invalid purchase order ID'')
       (\<lambda>i. andThen (onErr grpcErr (svc_GetPurchaseOrder (h_env h) t i))
       (\<lambda>po. andThen (if UserID caller = uuid_Nil \<or> po_RaisedBy po \<noteq> UserID caller
                      then permit h ctx ''expense:read'' else ret ())
       (\<lambda>_. ret (purchaseOrderToProto h po))))))"

definition rpc_ListPurchaseOrders ::
  "handler \<Rightarrow> ctx \<Rightarrow> string \<Rightarrow> string \<Rightarrow> int \<Rightarrow> bool \<Rightarrow> string \<Rightarrow> (expense_db, status, pbPurchaseOrder list) op" where
  "rpc_ListPurchaseOrders h ctx productionId st limit raisedByMe partyId =
     andThen (ctxTenant ctx)
       (\<lambda>t. if partyId \<noteq> ''''
        then andThen (permit h ctx ''expense:read'')
          (\<lambda>_. andThen (parse_id h partyId ''invalid party_id'')
          (\<lambda>party. andThen (onErr grpcErr (svc_ListPurchaseOrdersByParty (h_env h) t party 0 0))
          (\<lambda>pos. ret (map (purchaseOrderToProto h) pos))))
        else andThen (list_scope h ctx raisedByMe)
          (\<lambda>raisedBy. andThen (parse_production h productionId)
          (\<lambda>production. andThen (onErr grpcErr (svc_ListPurchaseOrders (h_env h) t production st limit 0 raisedBy))
          (\<lambda>pos. ret (map (purchaseOrderToProto h) pos)))))"

definition rpc_ApprovePurchaseOrder ::
  "handler \<Rightarrow> ctx \<Rightarrow> string \<Rightarrow> (expense_db, status, pbPurchaseOrder) op" where
  "rpc_ApprovePurchaseOrder h ctx reqId =
     andThen (ctxTenant ctx)
       (\<lambda>t. andThen (permit h ctx ''expense:approve'')
       (\<lambda>_. andThen (parse_id h reqId ''invalid id'')
       (\<lambda>i. andThen (ctxCaller ctx)
       (\<lambda>caller. andThen (onErr grpcErr (svc_ApprovePurchaseOrder (h_env h) ctx t i (UserID caller) (Roles caller)))
       (\<lambda>_. andThen (onErr grpcErr (svc_GetPurchaseOrder (h_env h) t i))
       (\<lambda>po. ret (purchaseOrderToProto h po)))))))"

section \<open>Expenses\<close>

record SubmitExpenseRequest =
  rx_ProductionId :: string
  rx_BudgetLineId :: string
  rx_PurchaseOrderId :: string
  rx_CategoryId :: string
  rx_Description :: string
  rx_Amount :: string
  rx_Currency :: string
  rx_PartyId :: string

definition rpc_SubmitExpense ::
  "handler \<Rightarrow> ctx \<Rightarrow> SubmitExpenseRequest \<Rightarrow> (expense_db, status, pbExpense) op" where
  "rpc_SubmitExpense h ctx req =
     andThen (permit h ctx ''expense:submit'')
       (\<lambda>_. andThen (ctxTenant ctx)
       (\<lambda>t. andThen (ctxCaller ctx)
       (\<lambda>caller. andThen (parse_id h (rx_ProductionId req) ''invalid production ID'')
       (\<lambda>production. andThen (parse_decimal h (rx_Amount req) ''invalid amount: must be a decimal string'')
       (\<lambda>amount. andThen (parseOptionalPartyID h (rx_PartyId req))
       (\<lambda>party. andThen (parse_opt_id h (rx_BudgetLineId req) ''invalid budget_line_id'')
       (\<lambda>line. andThen (parse_opt_id h (rx_PurchaseOrderId req) ''invalid purchase_order_id'')
       (\<lambda>po. andThen (onErr grpcErr (svc_SubmitExpense (h_env h) (h_pub h) ctx
            \<lparr>ex_ID = uuid_Nil, ex_ProductionID = production, ex_TenantID = t, ex_BudgetLineID = line,
             ex_PurchaseOrderID = po, ex_CategoryID = rx_CategoryId req, ex_Description = rx_Description req,
             ex_Amount = amount, ex_Currency = (if rx_Currency req = '''' then ''INR'' else rx_Currency req),
             ex_TaxAmount = 0, ex_Status = '''', ex_PartyID = party, ex_SubmittedBy = UserID caller,
             ex_ApprovedBy = None, ex_RejectedBy = None, ex_SubmittedAt = None, ex_ApprovedAt = None,
             ex_CreatedAt = 0, ex_RejectionReason = None, ex_RejectedAt = None\<rparr>))
       (\<lambda>e. andThen (onErr grpcErr (svc_GetExpense (h_env h) t (ex_ID e)))
       (\<lambda>out. ret (expenseToProto h out)))))))))))"

definition rpc_GetExpense :: "handler \<Rightarrow> ctx \<Rightarrow> string \<Rightarrow> (expense_db, status, pbExpense) op" where
  "rpc_GetExpense h ctx reqId =
     andThen (ctxTenant ctx)
       (\<lambda>t. andThen (ctxCaller ctx)
       (\<lambda>caller. andThen (parse_id h reqId ''invalid expense ID'')
       (\<lambda>i. andThen (onErr grpcErr (svc_GetExpense (h_env h) t i))
       (\<lambda>e. andThen (if UserID caller = uuid_Nil \<or> ex_SubmittedBy e \<noteq> UserID caller
                     then permit h ctx ''expense:read'' else ret ())
       (\<lambda>_. ret (expenseToProto h e))))))"

definition rpc_ListExpenses ::
  "handler \<Rightarrow> ctx \<Rightarrow> string \<Rightarrow> string \<Rightarrow> int \<Rightarrow> bool \<Rightarrow> string \<Rightarrow> (expense_db, status, pbExpense list) op" where
  "rpc_ListExpenses h ctx productionId st limit submittedByMe partyId =
     andThen (ctxTenant ctx)
       (\<lambda>t. if partyId \<noteq> ''''
        then andThen (permit h ctx ''expense:read'')
          (\<lambda>_. andThen (parse_id h partyId ''invalid party_id'')
          (\<lambda>party. andThen (onErr grpcErr (svc_ListExpensesByParty (h_env h) t party 0 0))
          (\<lambda>es. ret (map (expenseToProto h) es))))
        else andThen (list_scope h ctx submittedByMe)
          (\<lambda>submittedBy. andThen (parse_production h productionId)
          (\<lambda>production. andThen (onErr grpcErr (svc_ListExpenses (h_env h) t production st limit 0 submittedBy))
          (\<lambda>es. ret (map (expenseToProto h) es)))))"

definition rpc_ApproveExpense :: "handler \<Rightarrow> ctx \<Rightarrow> string \<Rightarrow> (expense_db, status, pbExpense) op" where
  "rpc_ApproveExpense h ctx expenseId =
     andThen (ctxTenant ctx)
       (\<lambda>t. andThen (permit h ctx ''expense:approve'')
       (\<lambda>_. andThen (parse_id h expenseId ''invalid expense_id'')
       (\<lambda>i. andThen (ctxCaller ctx)
       (\<lambda>caller. andThen (onErr grpcErr (svc_ApproveExpense (h_env h) (h_pub h) ctx t i (UserID caller) (Roles caller)))
       (\<lambda>_. andThen (onErr grpcErr (svc_GetExpense (h_env h) t i))
       (\<lambda>e. ret (expenseToProto h e)))))))"

definition rpc_RejectExpense :: "handler \<Rightarrow> ctx \<Rightarrow> string \<Rightarrow> string \<Rightarrow> (expense_db, status, pbExpense) op" where
  "rpc_RejectExpense h ctx expenseId reason =
     andThen (ctxTenant ctx)
       (\<lambda>t. andThen (permit h ctx ''expense:approve'')
       (\<lambda>_. andThen (parse_id h expenseId ''invalid expense_id'')
       (\<lambda>i. if TrimSpace reason = '''' then fail (Status InvalidArgument ''reason must not be empty'')
          else andThen (ctxCaller ctx)
       (\<lambda>caller. andThen (onErr grpcErr (svc_RejectExpense (h_env h) t i (UserID caller) reason))
       (\<lambda>_. andThen (onErr grpcErr (svc_GetExpense (h_env h) t i))
       (\<lambda>e. ret (expenseToProto h e)))))))"

section \<open>Petty cash\<close>

definition rpc_CreatePettyCashAdvance ::
  "handler \<Rightarrow> ctx \<Rightarrow> string \<Rightarrow> string \<Rightarrow> string \<Rightarrow> string \<Rightarrow> (expense_db, status, pbPettyCashAdvance) op" where
  "rpc_CreatePettyCashAdvance h ctx productionId issuedTo amountText purpose =
     andThen (permit h ctx ''expense:submit'')
       (\<lambda>_. andThen (ctxTenant ctx)
       (\<lambda>t. andThen (parse_id h productionId ''invalid production ID'')
       (\<lambda>production. andThen (parse_id h issuedTo ''invalid issued_to: must be a valid UUID'')
       (\<lambda>holder. andThen (parse_decimal h amountText ''invalid amount: must be a decimal string'')
       (\<lambda>amount. andThen (onErr grpcErr (svc_CreatePettyCashAdvance (h_env h)
            \<lparr>pca_ID = uuid_Nil, pca_ProductionID = production, pca_TenantID = t, pca_IssuedTo = holder,
             pca_Amount = amount, pca_Purpose = purpose, pca_Status = '''', pca_IssuedAt = 0,
             pca_SettledAt = None, pca_UnspentAmount = 0\<rparr>))
       (\<lambda>pc. andThen (onErr grpcErr (svc_GetPettyCashAdvance (h_env h) t (pca_ID pc)))
       (\<lambda>out. ret (pettyCashToProto h out))))))))"

definition rpc_GetPettyCashAdvance :: "handler \<Rightarrow> ctx \<Rightarrow> string \<Rightarrow> (expense_db, status, pbPettyCashAdvance) op" where
  "rpc_GetPettyCashAdvance h ctx reqId =
     andThen (ctxTenant ctx)
       (\<lambda>t. andThen (ctxCaller ctx)
       (\<lambda>caller. andThen (parse_id h reqId ''invalid petty cash advance ID'')
       (\<lambda>i. andThen (onErr grpcErr (svc_GetPettyCashAdvance (h_env h) t i))
       (\<lambda>pc. andThen (if UserID caller = uuid_Nil \<or> pca_IssuedTo pc \<noteq> UserID caller
                      then permit h ctx ''expense:read'' else ret ())
       (\<lambda>_. ret (pettyCashToProto h pc))))))"

definition rpc_ListPettyCashAdvances ::
  "handler \<Rightarrow> ctx \<Rightarrow> string \<Rightarrow> string \<Rightarrow> int \<Rightarrow> bool \<Rightarrow> (expense_db, status, pbPettyCashAdvance list) op" where
  "rpc_ListPettyCashAdvances h ctx productionId st limit issuedToMe =
     andThen (ctxTenant ctx)
       (\<lambda>t. andThen (list_scope h ctx issuedToMe)
       (\<lambda>issuedTo. andThen (parse_production h productionId)
       (\<lambda>production. andThen (onErr grpcErr (svc_ListPettyCashAdvances (h_env h) t production st limit 0 issuedTo))
       (\<lambda>pcs. ret (map (pettyCashToProto h) pcs)))))"

definition rpc_SettlePettyCash ::
  "handler \<Rightarrow> ctx \<Rightarrow> string \<Rightarrow> string \<Rightarrow> (expense_db, status, pbPettyCashAdvance) op" where
  "rpc_SettlePettyCash h ctx reqId unspentText =
     andThen (ctxTenant ctx)
       (\<lambda>t. andThen (permit h ctx ''expense:submit'')
       (\<lambda>_. andThen (parse_id h reqId ''invalid id'')
       (\<lambda>i. andThen (parse_decimal h unspentText ''invalid unspent_amount: must be a decimal string'')
       (\<lambda>unspent. if unspent < 0 then fail (Status InvalidArgument ''unspent_amount must not be negative'')
          else andThen (ctxCaller ctx)
       (\<lambda>caller. andThen (onErr grpcErr (svc_SettlePettyCash (h_env h) t i (UserID caller) unspent))
       (\<lambda>_. andThen (onErr grpcErr (svc_GetPettyCashAdvance (h_env h) t i))
       (\<lambda>pc. ret (pettyCashToProto h pc))))))))"

section \<open>Vertical metadata\<close>

text \<open>A category: id, label, tax treatment, default account, whether it requires a purchase order.\<close>

definition rpc_GetExpenseCategories ::
  "ctx \<Rightarrow> (expense_db, status, (string \<times> string \<times> string \<times> string \<times> bool) list) op" where
  "rpc_GetExpenseCategories ctx =
     andThen (onErr grpcErr (svc_GetExpenseCategories ctx))
       (\<lambda>cats. ret (map (\<lambda>c. (ec_ID c, ec_Label c, ec_TaxTreatment c, ec_DefaultAccountCode c, ec_RequiresPO c)) cats))"

definition rpc_GetApprovalLimits ::
  "handler \<Rightarrow> ctx \<Rightarrow> (expense_db, status, (string \<times> string) list \<times> string) op" where
  "rpc_GetApprovalLimits h ctx =
     andThen (onErr grpcErr (svc_GetApprovalLimits ctx))
       (\<lambda>wf. ret (map (\<lambda>l. (al_Role l, StringFixed2 h (al_MaxAmount l))) (aw_Limits wf),
                  StringFixed2 h (aw_DualApprovalAbove wf)))"

end
