(* ===== verification/ExpenseRun.thy ===== *)
theory ExpenseRun
  imports ExpenseService Service_Spec
begin

text \<open>
  Runs of the expense service: a request for every method of \<^verbatim>\<open>service.go\<close>, the invariant
  that every request keeps whatever round trips fail, and the frame that a request leaves the rows
  of other tenants alone. The contract \<open>tenant_service\<close> is interpreted on them.
\<close>

section \<open>Requests\<close>

datatype expense_req =
  SubmitExpense ctx Expense | ApproveExpense ctx uuid uuid uuid "string list"
| GetExpense uuid uuid | ListExpensesByParty uuid uuid int int
| ListExpenses uuid uuid string int int uuid | RejectExpense uuid uuid uuid string
| CreatePurchaseOrder PurchaseOrder | GetPurchaseOrder uuid uuid
| ListPurchaseOrdersByParty uuid uuid int int | ListPurchaseOrders uuid uuid string int int uuid
| ApprovePurchaseOrder ctx uuid uuid uuid "string list"
| CreatePettyCashAdvance PettyCashAdvance | GetPettyCashAdvance uuid uuid
| ListPettyCashAdvances uuid uuid string int int uuid | SettlePettyCash uuid uuid uuid decimal

fun xreq_tenant :: "expense_req \<Rightarrow> uuid" where
  "xreq_tenant (SubmitExpense _ e) = ex_TenantID e"
| "xreq_tenant (ApproveExpense _ t _ _ _) = t"
| "xreq_tenant (GetExpense t _) = t"
| "xreq_tenant (ListExpensesByParty t _ _ _) = t"
| "xreq_tenant (ListExpenses t _ _ _ _ _) = t"
| "xreq_tenant (RejectExpense t _ _ _) = t"
| "xreq_tenant (CreatePurchaseOrder po) = po_TenantID po"
| "xreq_tenant (GetPurchaseOrder t _) = t"
| "xreq_tenant (ListPurchaseOrdersByParty t _ _ _) = t"
| "xreq_tenant (ListPurchaseOrders t _ _ _ _ _) = t"
| "xreq_tenant (ApprovePurchaseOrder _ t _ _ _) = t"
| "xreq_tenant (CreatePettyCashAdvance pc) = pca_TenantID pc"
| "xreq_tenant (GetPettyCashAdvance t _) = t"
| "xreq_tenant (ListPettyCashAdvances t _ _ _ _ _) = t"
| "xreq_tenant (SettlePettyCash t _ _ _) = t"

fun exec_expense ::
  "env \<Rightarrow> bool \<Rightarrow> (uuid \<Rightarrow> string) \<Rightarrow> expense_req \<Rightarrow> expense_db \<Rightarrow> expense_db" where
  "exec_expense en pub us (SubmitExpense ctx e) w = snd (svc_SubmitExpense en pub ctx e w)"
| "exec_expense en pub us (ApproveExpense ctx t i a rs) w = snd (svc_ApproveExpense en pub ctx t i a rs w)"
| "exec_expense en pub us (GetExpense t i) w = snd (svc_GetExpense en t i w)"
| "exec_expense en pub us (ListExpensesByParty t p l ofs) w = snd (svc_ListExpensesByParty en t p l ofs w)"
| "exec_expense en pub us (ListExpenses t pr st l ofs by) w = snd (svc_ListExpenses en t pr st l ofs by w)"
| "exec_expense en pub us (RejectExpense t i a reason) w = snd (svc_RejectExpense en t i a reason w)"
| "exec_expense en pub us (CreatePurchaseOrder po) w = snd (svc_CreatePurchaseOrder en us po w)"
| "exec_expense en pub us (GetPurchaseOrder t i) w = snd (svc_GetPurchaseOrder en t i w)"
| "exec_expense en pub us (ListPurchaseOrdersByParty t p l ofs) w = snd (svc_ListPurchaseOrdersByParty en t p l ofs w)"
| "exec_expense en pub us (ListPurchaseOrders t pr st l ofs by) w = snd (svc_ListPurchaseOrders en t pr st l ofs by w)"
| "exec_expense en pub us (ApprovePurchaseOrder ctx t i a rs) w = snd (svc_ApprovePurchaseOrder en ctx t i a rs w)"
| "exec_expense en pub us (CreatePettyCashAdvance pc) w = snd (svc_CreatePettyCashAdvance en pc w)"
| "exec_expense en pub us (GetPettyCashAdvance t i) w = snd (svc_GetPettyCashAdvance en t i w)"
| "exec_expense en pub us (ListPettyCashAdvances t pr st l ofs to) w = snd (svc_ListPettyCashAdvances en t pr st l ofs to w)"
| "exec_expense en pub us (SettlePettyCash t i a u) w = snd (svc_SettlePettyCash en t i a u w)"

section \<open>The shape of every operation\<close>

text \<open>The operations written out to their statements.\<close>

lemmas repo_defs = pg_CreatePurchaseOrder_def pg_GetPurchaseOrder_def pg_ListPurchaseOrders_def
  pg_ListPurchaseOrdersByParty_def pg_UpdatePurchaseOrder_def pg_CreateExpense_def pg_GetExpense_def
  pg_ListExpenses_def pg_ListExpensesByParty_def pg_UpdateExpense_def pg_RejectExpense_def
  pg_CreatePettyCashAdvance_def pg_GetPettyCashAdvance_def pg_ListPettyCashAdvances_def
  pg_UpdatePettyCashAdvance_def

lemma q_reads [same_intros]:
  "same untick (q_GetPurchaseOrder en i t)" "same untick (q_ListPurchaseOrders en t pr by st l ofs)"
  "same untick (q_ListPurchaseOrdersByParty en t p l ofs)" "same untick (q_GetExpense en i t)"
  "same untick (q_ListExpenses en t pr by st l ofs)" "same untick (q_ListExpensesByParty en t p l ofs)"
  "same untick (q_GetPettyCashAdvance en i t)" "same untick (q_ListPettyCashAdvances en t pr to st l ofs)"
  unfolding q_GetPurchaseOrder_def q_ListPurchaseOrders_def q_ListPurchaseOrdersByParty_def q_GetExpense_def
    q_ListExpenses_def q_ListExpensesByParty_def q_GetPettyCashAdvance_def q_ListPettyCashAdvances_def
  by (rule same_query, simp add: same_def)+

lemma xpg_reads [same_intros]:
  "same untick (pg_GetPurchaseOrder en t i)" "same untick (pg_ListPurchaseOrders en t pr st l ofs by)"
  "same untick (pg_ListPurchaseOrdersByParty en t p l ofs)" "same untick (pg_GetExpense en t i)"
  "same untick (pg_ListExpenses en t pr st l ofs by)" "same untick (pg_ListExpensesByParty en t p l ofs)"
  "same untick (pg_GetPettyCashAdvance en t i)" "same untick (pg_ListPettyCashAdvances en t pr st l ofs to)"
  unfolding repo_defs by (intro same_intros)+

lemma xsvc_reads [same_intros]:
  "same untick (svc_GetPurchaseOrder en t i)" "same untick (svc_ListPurchaseOrders en t pr st l ofs by)"
  "same untick (svc_ListPurchaseOrdersByParty en t p l ofs)" "same untick (svc_GetExpense en t i)"
  "same untick (svc_ListExpenses en t pr st l ofs by)" "same untick (svc_ListExpensesByParty en t p l ofs)"
  "same untick (svc_GetPettyCashAdvance en t i)" "same untick (svc_ListPettyCashAdvances en t pr st l ofs to)"
  unfolding svc_GetPurchaseOrder_def svc_ListPurchaseOrders_def svc_ListPurchaseOrdersByParty_def svc_GetExpense_def
    svc_ListExpenses_def svc_ListExpensesByParty_def svc_GetPettyCashAdvance_def svc_ListPettyCashAdvances_def Let_def
  by (intro same_intros)+

lemma same_check_limits [same_intros]: "same f (check_limits vcfg roles amount)"
  unfolding check_limits_def Let_def by (intro same_intros)

lemma same_genPONumber [same_intros]: "same untick (genPONumber en us)"
  unfolding genPONumber_def by (intro same_intros)

section \<open>Failures have no effect\<close>

lemma atomic_q_writes [atomic_intros]:
  "atomic untick (q_CreatePurchaseOrder en r)" "atomic untick (q_UpdatePurchaseOrderStatus en i t st a)"
  "atomic untick (q_CreateExpense en r')" "atomic untick (q_UpdateExpenseStatus en i t st a)"
  "atomic untick (q_RejectExpense en i t reason a)" "atomic untick (q_CreatePettyCashAdvance en r'')"
  "atomic untick (q_SettlePettyCashAdvance en i t st u)"
proof -
  show "atomic untick (q_CreatePurchaseOrder en r)"
    unfolding q_CreatePurchaseOrder_def
    by (intro atomic_intros) (auto simp: atomic_def Let_def split: sum.splits if_splits)
  show "atomic untick (q_CreateExpense en r')"
    unfolding q_CreateExpense_def
    by (intro atomic_intros) (auto simp: atomic_def Let_def split: sum.splits if_splits)
  show "atomic untick (q_CreatePettyCashAdvance en r'')"
    unfolding q_CreatePettyCashAdvance_def
    by (intro atomic_intros) (auto simp: atomic_def Let_def split: sum.splits if_splits)
  show "atomic untick (q_SettlePettyCashAdvance en i t st u)"
    unfolding q_SettlePettyCashAdvance_def
    by (intro atomic_intros) (auto simp: atomic_def update_one_def split: sum.splits if_splits)
qed (unfold q_UpdatePurchaseOrderStatus_def q_UpdateExpenseStatus_def q_RejectExpense_def, (intro atomic_intros)+)

lemma atomic_then_publish [atomic_intros]:
  "atomic V m \<Longrightarrow> atomic V (andThen m (\<lambda>_. publish pub ev))"
  "atomic V m \<Longrightarrow> atomic V (andThen m (\<lambda>_. andThen (publish pub ev) (\<lambda>_. ret x)))"
  by (rule atomic_last; simp add: publish_def andThen_def)+

lemma atomic_pg_writes [atomic_intros]:
  "atomic untick (pg_CreatePurchaseOrder en po)" "atomic untick (pg_UpdatePurchaseOrder en po)"
  "atomic untick (pg_CreateExpense en e)" "atomic untick (pg_UpdateExpense en e)"
  "atomic untick (pg_RejectExpense en t i a reason)" "atomic untick (pg_CreatePettyCashAdvance en pc)"
  "atomic untick (pg_UpdatePettyCashAdvance en pc)"
  unfolding repo_defs by (intro atomic_intros)+

lemmas atomic_read = atomic_seq [OF same_MustFromContext] atomic_seq [OF same_check_limits]
  atomic_seq [OF same_time_Now] atomic_seq [OF same_id_or_New]
  atomic_seq [OF same_onErr [OF xpg_reads(1)]] atomic_seq [OF same_onErr [OF xpg_reads(4)]]
  atomic_seq [OF same_onErr [OF xpg_reads(7)]]

lemma atomic_svc_writes:
  "atomic untick (svc_SubmitExpense en pub ctx e)" "atomic untick (svc_ApproveExpense en pub ctx t i a roles)"
  "atomic untick (svc_RejectExpense en t i a reason)" "atomic untick (svc_CreatePurchaseOrder en us po)"
  "atomic untick (svc_ApprovePurchaseOrder en ctx t i a roles)" "atomic untick (svc_CreatePettyCashAdvance en pc)"
  "atomic untick (svc_SettlePettyCash en t i a u)"
proof -
  show "atomic untick (svc_CreatePurchaseOrder en us po)"
    unfolding svc_CreatePurchaseOrder_def Let_def
    by (rule atomic_seq) (intro same_intros atomic_read atomic_intros)+
qed (unfold svc_SubmitExpense_def svc_ApproveExpense_def svc_RejectExpense_def svc_ApprovePurchaseOrder_def
      svc_CreatePettyCashAdvance_def svc_SettlePettyCash_def Let_def,
     (intro atomic_read atomic_intros)+)

section \<open>What a success did\<close>

lemma hasSuperAdmin_iff [simp]: "hasSuperAdmin roles \<longleftrightarrow> ''super_admin'' \<in> set roles"
  by (induction roles) auto

text \<open>The money rule of the approval workflow, without its order of checks.\<close>

definition within_limits :: "Config \<Rightarrow> string list \<Rightarrow> decimal \<Rightarrow> bool" where
  "within_limits vcfg roles x \<longleftrightarrow>
     (''super_admin'' \<in> set roles
      \<or> (\<exists>r \<in> set roles. \<exists>l. LimitForRole (vc_ApprovalWorkflow vcfg) r = Some l \<and> x \<le> l))
     \<and> x \<le> aw_DualApprovalAbove (vc_ApprovalWorkflow vcfg)"

lemma check_limits_Inr:
  "check_limits vcfg roles x w = (Inr u, w') \<longleftrightarrow> w' = w \<and> within_limits vcfg roles x"
  unfolding within_limits_def MaxLimitForRoles_covers [symmetric]
  by (auto simp: check_limits_def Let_def andThen_def not_less split: option.split)

abbreviation own_po :: "uuid \<Rightarrow> uuid \<Rightarrow> po_row \<Rightarrow> bool" where
  "own_po t i r \<equiv> or_id r = i \<and> or_tenant r = t"

abbreviation own_expense :: "uuid \<Rightarrow> uuid \<Rightarrow> expense_row \<Rightarrow> bool" where
  "own_expense t i r \<equiv> xr_id r = i \<and> xr_tenant r = t"

abbreviation own_advance :: "uuid \<Rightarrow> uuid \<Rightarrow> advance_row \<Rightarrow> bool" where
  "own_advance t i r \<equiv> vr_id r = i \<and> vr_tenant r = t"

definition po_approved :: "uuid \<Rightarrow> time \<Rightarrow> po_row \<Rightarrow> po_row" where
  "po_approved a now r = r\<lparr>or_status := ''approved'', or_approved_by := Some a, or_approved_at := Some now\<rparr>"

definition expense_approved :: "uuid \<Rightarrow> time \<Rightarrow> expense_row \<Rightarrow> expense_row" where
  "expense_approved a now r = r\<lparr>xr_status := ''approved'', xr_approved_by := Some a, xr_approved_at := Some now\<rparr>"

definition expense_rejected :: "string \<Rightarrow> uuid \<Rightarrow> time \<Rightarrow> expense_row \<Rightarrow> expense_row" where
  "expense_rejected reason a now r =
     r\<lparr>xr_status := ''rejected'', xr_reason := Some reason, xr_rejected_at := Some now, xr_rejected_by := Some a\<rparr>"

definition advance_settled :: "decimal \<Rightarrow> time \<Rightarrow> advance_row \<Rightarrow> advance_row" where
  "advance_settled u now r = r\<lparr>vr_status := ''settled'', vr_unspent := u, vr_settled_at := Some now\<rparr>"

subsection \<open>Repository\<close>

lemma pg_Get_Inr:
  "pg_GetPurchaseOrder en t i w = (Inr po, w') \<Longrightarrow>
     untick w' = untick w \<and> (\<exists>r. row_by (own_po t i) (purchase_orders w) = Inr r \<and> po = purchaseOrderFromDB r)"
  "pg_GetExpense en t i w = (Inr e, w'') \<Longrightarrow>
     untick w'' = untick w \<and> (\<exists>r. row_by (own_expense t i) (expenses w) = Inr r \<and> e = expenseFromDB r)"
  "pg_GetPettyCashAdvance en t i w = (Inr pc, w''') \<Longrightarrow>
     untick w''' = untick w \<and> (\<exists>r. row_by (own_advance t i) (advances w) = Inr r \<and> pc = pettyCashFromDB r)"
  by (auto simp: repo_defs q_GetPurchaseOrder_def q_GetExpense_def q_GetPettyCashAdvance_def onErr_InrD
      elim!: andThen_InrE query_InrE)

lemma pg_UpdatePurchaseOrder_Inr:
  assumes "pg_UpdatePurchaseOrder en po w = (Inr u, w')" and "po_Status po = ''approved''" and "po_ApprovedBy po = Some a"
  shows "\<exists>now. untick w' = untick (w\<lparr>purchase_orders := update_rows (own_po (po_TenantID po) (po_ID po)) (po_approved a now) (purchase_orders w)\<rparr>)"
  using assms
  by (auto simp: repo_defs q_UpdatePurchaseOrderStatus_def po_approved_def [abs_def] onErr_InrD update_one_Inr untick_def
      intro!: exI [of _ "env_now en (tick w)"] elim!: andThen_InrE query_InrE)

lemma pg_UpdateExpense_Inr:
  assumes "pg_UpdateExpense en e w = (Inr u, w')" and "ex_Status e = ''approved''" and "ex_ApprovedBy e = Some a"
  shows "\<exists>now. untick w' = untick (w\<lparr>expenses := update_rows (own_expense (ex_TenantID e) (ex_ID e)) (expense_approved a now) (expenses w)\<rparr>)"
  using assms
  by (auto simp: repo_defs q_UpdateExpenseStatus_def expense_approved_def [abs_def] onErr_InrD update_one_Inr untick_def
      intro!: exI [of _ "env_now en (tick w)"] elim!: andThen_InrE query_InrE)

lemma pg_RejectExpense_Inr:
  assumes "pg_RejectExpense en t i a reason w = (Inr u, w')"
  shows "\<exists>now. untick w' = untick (w\<lparr>expenses := update_rows (own_expense t i) (expense_rejected reason a now) (expenses w)\<rparr>)"
  using assms
  by (auto simp: repo_defs q_RejectExpense_def expense_rejected_def [abs_def] onErr_InrD update_one_Inr untick_def
      intro!: exI [of _ "env_now en (tick w)"] elim!: andThen_InrE query_InrE)

lemma pg_UpdatePettyCashAdvance_Inr:
  assumes "pg_UpdatePettyCashAdvance en pc w = (Inr u, w')" and "pca_Status pc = ''settled''"
  shows "\<exists>now. untick w' = untick (w\<lparr>advances := update_rows (own_advance (pca_TenantID pc) (pca_ID pc))
                  (advance_settled (round2 (pca_UnspentAmount pc)) now) (advances w)\<rparr>)"
  using assms
  by (auto simp: repo_defs q_SettlePettyCashAdvance_def advance_settled_def [abs_def] onErr_InrD update_one_Inr untick_def
      dest!: numeric_14_2_Inr intro!: exI [of _ "env_now en (tick w)"] elim!: andThen_InrE query_InrE split: sum.splits if_splits)

subsection \<open>Inserts\<close>

text \<open>The row that an insert added, as far as the properties need it.\<close>

definition fresh_po :: "expense_db \<Rightarrow> PurchaseOrder \<Rightarrow> po_row \<Rightarrow> bool" where
  "fresh_po w po r \<longleftrightarrow> or_id r = po_ID po \<and> or_tenant r = po_TenantID po \<and> or_number r = po_PONumber po
     \<and> or_status r = ''draft'' \<and> or_amount r = round2 (po_Amount po) \<and> or_raised_by r = po_RaisedBy po
     \<and> or_approved_by r = None \<and> or_approved_at r = None
     \<and> (\<forall>x \<in> set (purchase_orders w). or_id x \<noteq> or_id r) \<and> (\<forall>x \<in> set (purchase_orders w). or_number x \<noteq> or_number r)"

definition fresh_expense :: "expense_db \<Rightarrow> Expense \<Rightarrow> expense_row \<Rightarrow> bool" where
  "fresh_expense w e r \<longleftrightarrow> xr_id r = ex_ID e \<and> xr_tenant r = ex_TenantID e \<and> xr_category r = ex_CategoryID e
     \<and> xr_status r = ''draft'' \<and> xr_amount r = round2 (ex_Amount e) \<and> xr_submitted_by r = ex_SubmittedBy e
     \<and> xr_po r = ex_PurchaseOrderID e \<and> xr_approved_by r = None \<and> xr_reason r = None \<and> xr_rejected_by r = None
     \<and> (\<forall>x \<in> set (expenses w). xr_id x \<noteq> xr_id r)
     \<and> (case xr_po r of None \<Rightarrow> True | Some p \<Rightarrow> \<exists>x \<in> set (purchase_orders w). or_id x = p)"

definition fresh_advance :: "expense_db \<Rightarrow> PettyCashAdvance \<Rightarrow> advance_row \<Rightarrow> bool" where
  "fresh_advance w pc r \<longleftrightarrow> vr_id r = pca_ID pc \<and> vr_tenant r = pca_TenantID pc \<and> vr_issued_to r = pca_IssuedTo pc
     \<and> vr_status r = ''issued'' \<and> vr_amount r = round2 (pca_Amount pc) \<and> vr_settled_at r = None \<and> vr_unspent r = 0
     \<and> (\<forall>x \<in> set (advances w). vr_id x \<noteq> vr_id r)"

lemma q_CreatePurchaseOrder_Inr:
  assumes "q_CreatePurchaseOrder en r0 w = (Inr r, w')"
  shows "or_id r = or_id r0 \<and> or_tenant r = or_tenant r0 \<and> or_number r = or_number r0 \<and> or_status r = ''draft''
    \<and> or_amount r = round2 (or_amount r0) \<and> or_raised_by r = or_raised_by r0 \<and> or_approved_by r = None
    \<and> or_approved_at r = None \<and> (\<forall>x \<in> set (purchase_orders w). or_id x \<noteq> or_id r)
    \<and> (\<forall>x \<in> set (purchase_orders w). or_number x \<noteq> or_number r)
    \<and> untick w' = untick (w\<lparr>purchase_orders := purchase_orders w @ [r]\<rparr>)"
  using assms
  by (auto simp: q_CreatePurchaseOrder_def untick_def Let_def dest!: numeric_14_2_Inr elim!: query_InrE
      split: sum.splits if_splits)

lemma q_CreateExpense_Inr:
  assumes "q_CreateExpense en r0 w = (Inr r, w')"
  shows "xr_id r = xr_id r0 \<and> xr_tenant r = xr_tenant r0 \<and> xr_category r = xr_category r0 \<and> xr_status r = ''draft''
    \<and> xr_amount r = round2 (xr_amount r0) \<and> xr_submitted_by r = xr_submitted_by r0 \<and> xr_po r = xr_po r0
    \<and> xr_approved_by r = None \<and> xr_reason r = None \<and> xr_rejected_by r = None
    \<and> (\<forall>x \<in> set (expenses w). xr_id x \<noteq> xr_id r)
    \<and> (case xr_po r of None \<Rightarrow> True | Some p \<Rightarrow> \<exists>x \<in> set (purchase_orders w). or_id x = p)
    \<and> untick w' = untick (w\<lparr>expenses := expenses w @ [r]\<rparr>)"
  using assms
  by (auto simp: q_CreateExpense_def untick_def Let_def dest!: numeric_14_2_Inr elim!: query_InrE
      split: sum.splits if_splits option.splits) blast

lemma q_CreatePettyCashAdvance_Inr:
  assumes "q_CreatePettyCashAdvance en r0 w = (Inr r, w')"
  shows "vr_id r = vr_id r0 \<and> vr_tenant r = vr_tenant r0 \<and> vr_issued_to r = vr_issued_to r0 \<and> vr_status r = ''issued''
    \<and> vr_amount r = round2 (vr_amount r0) \<and> vr_settled_at r = None \<and> vr_unspent r = 0
    \<and> (\<forall>x \<in> set (advances w). vr_id x \<noteq> vr_id r) \<and> untick w' = untick (w\<lparr>advances := advances w @ [r]\<rparr>)"
  using assms
  by (auto simp: q_CreatePettyCashAdvance_def untick_def Let_def dest!: numeric_14_2_Inr elim!: query_InrE
      split: sum.splits if_splits)

lemma pg_CreatePurchaseOrder_Inr:
  assumes "pg_CreatePurchaseOrder en po w = (Inr u, w')"
  shows "\<exists>r. fresh_po w po r \<and> untick w' = untick (w\<lparr>purchase_orders := purchase_orders w @ [r]\<rparr>)"
  using assms
  by (auto simp: pg_CreatePurchaseOrder_def fresh_po_def onErr_InrD dest!: q_CreatePurchaseOrder_Inr elim!: andThen_InrE)
    (intro exI conjI, assumption, simp_all)

lemma pg_CreateExpense_Inr:
  assumes "pg_CreateExpense en e w = (Inr u, w')"
  shows "\<exists>r. fresh_expense w e r \<and> untick w' = untick (w\<lparr>expenses := expenses w @ [r]\<rparr>)"
  using assms
  by (auto simp: pg_CreateExpense_def fresh_expense_def onErr_InrD dest!: q_CreateExpense_Inr elim!: andThen_InrE)
    (intro exI conjI, assumption, simp_all)

lemma pg_CreatePettyCashAdvance_Inr:
  assumes "pg_CreatePettyCashAdvance en pc w = (Inr u, w')"
  shows "\<exists>r. fresh_advance w pc r \<and> untick w' = untick (w\<lparr>advances := advances w @ [r]\<rparr>)"
  using assms
  by (auto simp: pg_CreatePettyCashAdvance_def fresh_advance_def onErr_InrD dest!: q_CreatePettyCashAdvance_Inr
      elim!: andThen_InrE)
    (intro exI conjI, assumption, simp_all)

subsection \<open>Service methods\<close>

lemma untick_tables:
  assumes "untick w = untick (w' :: expense_db)"
  shows "purchase_orders w = purchase_orders w'" "expenses w = expenses w'" "advances w = advances w'" "events w = events w'"
proof -
  have "purchase_orders (untick w) = purchase_orders (untick w')" "expenses (untick w) = expenses (untick w')"
    "advances (untick w) = advances (untick w')" "events (untick w) = events (untick w')"
    using assms by simp_all
  then show "purchase_orders w = purchase_orders w'" "expenses w = expenses w'" "advances w = advances w'" "events w = events w'"
    by (simp_all add: untick_def)
qed

lemma xuntick_eqI:
  "purchase_orders w = purchase_orders w' \<Longrightarrow> expenses w = expenses w' \<Longrightarrow> advances w = advances w'
     \<Longrightarrow> events w = events w' \<Longrightarrow> untick w = untick (w' :: expense_db)"
  by (simp add: untick_def)

lemma id_or_New_Inr: "id_or_New en i w = (Inr j, w') \<Longrightarrow> untick w' = untick w \<and> (i \<noteq> uuid_Nil \<longrightarrow> j = i)"
  by (auto simp: id_or_New_def uuid_New_def split: if_splits)

lemma time_Now_Inr: "time_Now en w = (Inr x, w') \<Longrightarrow> untick w' = untick w"
  by (auto simp: time_Now_def)

lemma genPONumber_Inr: "genPONumber en us w = (Inr s, w') \<Longrightarrow> untick w' = untick w"
  using sameD [OF same_genPONumber, of en us w] by (metis snd_conv)

lemma publish_Inr:
  "publish pub ev w = (Inr u, w') \<longleftrightarrow> w' = w\<lparr>events := events w @ (if pub then [ev] else [])\<rparr>"
  by (auto simp: publish_def)

lemma svc_SubmitExpense_Inr:
  assumes "svc_SubmitExpense en pub ctx e w = (Inr e', w')"
  obtains vcfg cat r where "ctx_vertical ctx = Some vcfg" and "FindExpenseCategory vcfg (ex_CategoryID e) = Some cat"
    and "ec_RequiresPO cat \<longrightarrow> ex_PurchaseOrderID e \<noteq> None" and "e' = e\<lparr>ex_Status := ''submitted'', ex_ID := ex_ID e'\<rparr>"
    and "ex_ID e \<noteq> uuid_Nil \<longrightarrow> ex_ID e' = ex_ID e" and "fresh_expense w e' r"
    and "untick w' = untick (w\<lparr>expenses := expenses w @ [r], events := events w @ (if pub then [ExpenseSubmitted e'] else [])\<rparr>)"
proof -
  note run = assms [unfolded svc_SubmitExpense_def Let_def]
  obtain vcfg where v: "ctx_vertical ctx = Some vcfg" "MustFromContext ctx w = ((Inr vcfg, w) :: (expense_err + Config) \<times> expense_db)"
    using run by (auto simp: MustFromContext_Inr elim!: andThen_InrE)
  obtain cat where c: "FindExpenseCategory vcfg (ex_CategoryID e) = Some cat" "ec_RequiresPO cat \<longrightarrow> ex_PurchaseOrderID e \<noteq> None"
    using run v(2) by (auto simp: step_simps split: option.splits if_splits)
  obtain i w1 w2 where i: "(id_or_New en (ex_ID e) :: (expense_db, expense_err, uuid) op) w = (Inr i, w1)"
    and p: "pg_CreateExpense en (e\<lparr>ex_Status := ''submitted'', ex_ID := i\<rparr>) w1 = (Inr (), w2)"
    and e': "e' = e\<lparr>ex_Status := ''submitted'', ex_ID := i\<rparr>"
    and w': "w' = w2\<lparr>events := events w2 @ (if pub then [ExpenseSubmitted e'] else [])\<rparr>"
    using run v(2) c by (auto simp: step_simps publish_Inr elim!: andThen_InrE split: if_splits)
  note t1 = untick_tables [OF conjunct1 [OF id_or_New_Inr [OF i]]]
  from pg_CreateExpense_Inr [OF p] obtain r where r: "fresh_expense w1 e' r" "untick w2 = untick (w1\<lparr>expenses := expenses w1 @ [r]\<rparr>)"
    unfolding e' by blast
  note t2 = untick_tables [OF r(2)]
  have "fresh_expense w e' r" using r(1) unfolding fresh_expense_def t1 .
  moreover have "untick w' = untick (w\<lparr>expenses := expenses w @ [r], events := events w @ (if pub then [ExpenseSubmitted e'] else [])\<rparr>)"
    by (rule xuntick_eqI) (simp_all add: w' t1 t2)
  ultimately show ?thesis using that v(1) c id_or_New_Inr [OF i] e' by auto
qed

lemma svc_ApproveExpense_Inr:
  assumes "svc_ApproveExpense en pub ctx t i a roles w = (Inr u, w')"
  obtains vcfg r e now where "ctx_vertical ctx = Some vcfg" and "row_by (own_expense t i) (expenses w) = Inr r"
    and "xr_status r = ''submitted''" and "within_limits vcfg roles (xr_amount r)" and "ex_TenantID e = t"
    and "untick w' = untick (w\<lparr>expenses := update_rows (own_expense t i) (expense_approved a now) (expenses w),
                            events := events w @ (if pub then [ExpenseApproved e] else [])\<rparr>)"
proof -
  note run = assms [unfolded svc_ApproveExpense_def Let_def]
  obtain vcfg where v: "ctx_vertical ctx = Some vcfg" "MustFromContext ctx w = ((Inr vcfg, w) :: (expense_err + Config) \<times> expense_db)"
    using run by (auto simp: MustFromContext_Inr elim!: andThen_InrE)
  obtain e w1 where g: "pg_GetExpense en t i w = (Inr e, w1)"
    using run v(2) by (auto simp: step_simps elim!: andThen_InrE)
  from pg_Get_Inr(2) [OF g] obtain r where r: "row_by (own_expense t i) (expenses w) = Inr r" "e = expenseFromDB r"
    and t1: "untick w1 = untick w" by blast
  have st: "ex_Status e = ''submitted''" and lim: "check_limits vcfg roles (ex_Amount e) w1 = (Inr (), w1)"
    using run v(2) g by (auto simp: step_simps check_limits_Inr elim!: andThen_InrE split: if_splits)
  obtain now w2 w3 where n: "(time_Now en :: (expense_db, expense_err, time) op) w1 = (Inr now, w2)"
    and p: "pg_UpdateExpense en (e\<lparr>ex_Status := ''approved'', ex_ApprovedBy := Some a, ex_ApprovedAt := Some now\<rparr>) w2 = (Inr (), w3)"
    and w': "w' = w3\<lparr>events := events w3 @ (if pub then [ExpenseApproved (e\<lparr>ex_Status := ''approved'', ex_ApprovedBy := Some a, ex_ApprovedAt := Some now\<rparr>)] else [])\<rparr>"
    using run v(2) g st lim by (auto simp: step_simps publish_Inr elim!: andThen_InrE)
  have own: "ex_ID e = i" "ex_TenantID e = t" using row_by_Inr [OF r(1)] by (auto simp: r(2) expenseFromDB_def)
  from pg_UpdateExpense_Inr [OF p] obtain now' where
    u: "untick w3 = untick (w2\<lparr>expenses := update_rows (own_expense t i) (expense_approved a now') (expenses w2)\<rparr>)"
    by (auto simp: own)
  note ts = untick_tables [OF t1] untick_tables [OF time_Now_Inr [OF n]] untick_tables [OF u]
  have eq: "untick w' = untick (w\<lparr>expenses := update_rows (own_expense t i) (expense_approved a now') (expenses w),
      events := events w @ (if pub then [ExpenseApproved (e\<lparr>ex_Status := ''approved'', ex_ApprovedBy := Some a, ex_ApprovedAt := Some now\<rparr>)] else [])\<rparr>)"
    by (rule xuntick_eqI) (simp_all add: w' ts)
  show ?thesis
    by (rule that [OF v(1) r(1) _ _ _ eq]) (use st lim own in \<open>simp_all add: r(2) expenseFromDB_def check_limits_Inr\<close>)
qed

lemma svc_ApprovePurchaseOrder_Inr:
  assumes "svc_ApprovePurchaseOrder en ctx t i a roles w = (Inr u, w')"
  obtains vcfg r now where "ctx_vertical ctx = Some vcfg" and "row_by (own_po t i) (purchase_orders w) = Inr r"
    and "or_status r = ''draft''" and "within_limits vcfg roles (or_amount r)"
    and "untick w' = untick (w\<lparr>purchase_orders := update_rows (own_po t i) (po_approved a now) (purchase_orders w)\<rparr>)"
proof -
  note run = assms [unfolded svc_ApprovePurchaseOrder_def]
  obtain vcfg where v: "ctx_vertical ctx = Some vcfg" "MustFromContext ctx w = ((Inr vcfg, w) :: (expense_err + Config) \<times> expense_db)"
    using run by (auto simp: MustFromContext_Inr elim!: andThen_InrE)
  obtain po w1 where g: "pg_GetPurchaseOrder en t i w = (Inr po, w1)"
    using run v(2) by (auto simp: step_simps elim!: andThen_InrE)
  from pg_Get_Inr(1) [OF g] obtain r where r: "row_by (own_po t i) (purchase_orders w) = Inr r" "po = purchaseOrderFromDB r"
    and t1: "untick w1 = untick w" by blast
  have st: "po_Status po = ''draft''" and lim: "check_limits vcfg roles (po_Amount po) w1 = (Inr (), w1)"
    using run v(2) g by (auto simp: step_simps check_limits_Inr elim!: andThen_InrE split: if_splits)
  obtain now w2 where n: "(time_Now en :: (expense_db, expense_err, time) op) w1 = (Inr now, w2)"
    and p: "pg_UpdatePurchaseOrder en (po\<lparr>po_Status := ''approved'', po_ApprovedBy := Some a, po_ApprovedAt := Some now\<rparr>) w2 = (Inr u, w')"
    using run v(2) g st lim by (auto simp: step_simps elim!: andThen_InrE)
  have own: "po_ID po = i" "po_TenantID po = t" using row_by_Inr [OF r(1)] by (auto simp: r(2) purchaseOrderFromDB_def)
  from pg_UpdatePurchaseOrder_Inr [OF p] obtain now' where
    u: "untick w' = untick (w2\<lparr>purchase_orders := update_rows (own_po t i) (po_approved a now') (purchase_orders w2)\<rparr>)"
    by (auto simp: own)
  note ts = untick_tables [OF t1] untick_tables [OF time_Now_Inr [OF n]] untick_tables [OF u]
  have eq: "untick w' = untick (w\<lparr>purchase_orders := update_rows (own_po t i) (po_approved a now') (purchase_orders w)\<rparr>)"
    by (rule xuntick_eqI) (simp_all add: ts)
  show ?thesis
    by (rule that [OF v(1) r(1) _ _ eq]) (use st lim in \<open>simp_all add: r(2) purchaseOrderFromDB_def check_limits_Inr\<close>)
qed

lemma svc_RejectExpense_Inr:
  assumes "svc_RejectExpense en t i a reason w = (Inr u, w')"
  obtains r now where "row_by (own_expense t i) (expenses w) = Inr r" and "xr_status r \<noteq> ''approved''"
    and "xr_status r \<noteq> ''rejected''"
    and "untick w' = untick (w\<lparr>expenses := update_rows (own_expense t i) (expense_rejected reason a now) (expenses w)\<rparr>)"
proof -
  note run = assms [unfolded svc_RejectExpense_def]
  obtain e w1 where g: "pg_GetExpense en t i w = (Inr e, w1)" and st: "ex_Status e \<noteq> ''approved''" "ex_Status e \<noteq> ''rejected''"
    and p: "pg_RejectExpense en t i a reason w1 = (Inr u, w')"
    using run by (auto simp: onErr_InrD elim!: andThen_InrE split: if_splits)
  from pg_Get_Inr(2) [OF g] obtain r where r: "row_by (own_expense t i) (expenses w) = Inr r" "e = expenseFromDB r"
    and t1: "untick w1 = untick w" by blast
  from pg_RejectExpense_Inr [OF p] obtain now where
    u: "untick w' = untick (w1\<lparr>expenses := update_rows (own_expense t i) (expense_rejected reason a now) (expenses w1)\<rparr>)" by blast
  note ts = untick_tables [OF t1] untick_tables [OF u]
  have eq: "untick w' = untick (w\<lparr>expenses := update_rows (own_expense t i) (expense_rejected reason a now) (expenses w)\<rparr>)"
    by (rule xuntick_eqI) (simp_all add: ts)
  show ?thesis by (rule that [OF r(1) _ _ eq]) (use st in \<open>simp_all add: r(2) expenseFromDB_def\<close>)
qed

lemma svc_CreatePurchaseOrder_Inr:
  assumes "svc_CreatePurchaseOrder en us po w = (Inr po', w')"
  obtains r where "po' = po\<lparr>po_PONumber := po_PONumber po', po_ID := po_ID po'\<rparr>" and "fresh_po w po' r"
    and "po_PONumber po \<noteq> '''' \<longrightarrow> po_PONumber po' = po_PONumber po"
    and "untick w' = untick (w\<lparr>purchase_orders := purchase_orders w @ [r]\<rparr>)"
proof -
  note run = assms [unfolded svc_CreatePurchaseOrder_def Let_def]
  obtain num w1 i w2 where n: "(if po_PONumber po = '''' then genPONumber en us else ret (po_PONumber po)) w
        = ((Inr num, w1) :: (expense_err + string) \<times> expense_db)"
    and i: "(id_or_New en (po_ID po) :: (expense_db, expense_err, uuid) op) w1 = (Inr i, w2)"
    and p: "pg_CreatePurchaseOrder en (po\<lparr>po_PONumber := num, po_ID := i\<rparr>) w2 = (Inr (), w')"
    and po': "po' = po\<lparr>po_PONumber := num, po_ID := i\<rparr>"
    using run by (auto elim!: andThen_InrE)
  have "untick w1 = untick w"
    using n by (auto dest: genPONumber_Inr split: if_splits)
  note t1 = untick_tables [OF this] untick_tables [OF conjunct1 [OF id_or_New_Inr [OF i]]]
  from pg_CreatePurchaseOrder_Inr [OF p] obtain r where r: "fresh_po w2 po' r" "untick w' = untick (w2\<lparr>purchase_orders := purchase_orders w2 @ [r]\<rparr>)"
    unfolding po' by blast
  have "fresh_po w po' r" using r(1) unfolding fresh_po_def t1 .
  moreover have "untick w' = untick (w\<lparr>purchase_orders := purchase_orders w @ [r]\<rparr>)"
    by (rule xuntick_eqI) (simp_all add: t1 untick_tables [OF r(2)])
  ultimately show ?thesis using that n po' by (auto split: if_splits)
qed

lemma svc_CreatePettyCashAdvance_Inr:
  assumes "svc_CreatePettyCashAdvance en pc w = (Inr pc', w')"
  obtains r where "pc' = pc\<lparr>pca_ID := pca_ID pc'\<rparr>" and "fresh_advance w pc' r"
    and "untick w' = untick (w\<lparr>advances := advances w @ [r]\<rparr>)"
proof -
  note run = assms [unfolded svc_CreatePettyCashAdvance_def Let_def]
  obtain i w1 where i: "(id_or_New en (pca_ID pc) :: (expense_db, expense_err, uuid) op) w = (Inr i, w1)"
    and p: "pg_CreatePettyCashAdvance en (pc\<lparr>pca_ID := i\<rparr>) w1 = (Inr (), w')" and pc': "pc' = pc\<lparr>pca_ID := i\<rparr>"
    using run by (auto elim!: andThen_InrE)
  note t1 = untick_tables [OF conjunct1 [OF id_or_New_Inr [OF i]]]
  from pg_CreatePettyCashAdvance_Inr [OF p] obtain r where r: "fresh_advance w1 pc' r" "untick w' = untick (w1\<lparr>advances := advances w1 @ [r]\<rparr>)"
    unfolding pc' by blast
  have "fresh_advance w pc' r" using r(1) unfolding fresh_advance_def t1 .
  moreover have "untick w' = untick (w\<lparr>advances := advances w @ [r]\<rparr>)"
    by (rule xuntick_eqI) (simp_all add: t1 untick_tables [OF r(2)])
  ultimately show ?thesis using that pc' by auto
qed

lemma svc_SettlePettyCash_Inr:
  assumes "svc_SettlePettyCash en t i a u w = (Inr x, w')"
  obtains r now where "row_by (own_advance t i) (advances w) = Inr r" and "vr_issued_to r = a"
    and "vr_status r \<noteq> ''settled''" and "u \<le> vr_amount r"
    and "untick w' = untick (w\<lparr>advances := update_rows (own_advance t i) (advance_settled (round2 u) now) (advances w)\<rparr>)"
proof -
  note run = assms [unfolded svc_SettlePettyCash_def]
  obtain pc w1 where g: "pg_GetPettyCashAdvance en t i w = (Inr pc, w1)" and st: "pca_IssuedTo pc = a" "pca_Status pc \<noteq> ''settled''" "u \<le> pca_Amount pc"
    using run by (auto simp: onErr_InrD not_less elim!: andThen_InrE split: if_splits)
  from pg_Get_Inr(3) [OF g] obtain r where r: "row_by (own_advance t i) (advances w) = Inr r" "pc = pettyCashFromDB r"
    and t1: "untick w1 = untick w" by blast
  obtain now w2 where n: "(time_Now en :: (expense_db, expense_err, time) op) w1 = (Inr now, w2)"
    and p: "pg_UpdatePettyCashAdvance en (pc\<lparr>pca_Status := ''settled'', pca_UnspentAmount := u, pca_SettledAt := Some now\<rparr>) w2 = (Inr x, w')"
    using run g st by (auto simp: step_simps elim!: andThen_InrE)
  have own: "pca_ID pc = i" "pca_TenantID pc = t" using row_by_Inr [OF r(1)] by (auto simp: r(2) pettyCashFromDB_def)
  from pg_UpdatePettyCashAdvance_Inr [OF p] obtain now' where
    u: "untick w' = untick (w2\<lparr>advances := update_rows (own_advance t i) (advance_settled (round2 u) now') (advances w2)\<rparr>)"
    by (auto simp: own)
  note ts = untick_tables [OF t1] untick_tables [OF time_Now_Inr [OF n]] untick_tables [OF u]
  have eq: "untick w' = untick (w\<lparr>advances := update_rows (own_advance t i) (advance_settled (round2 u) now') (advances w)\<rparr>)"
    by (rule xuntick_eqI) (simp_all add: ts)
  show ?thesis by (rule that [OF r(1) _ _ _ eq]) (use st in \<open>simp_all add: r(2) pettyCashFromDB_def\<close>)
qed

end
