(* ===== verification/ExpenseInv.thy ===== *)
theory ExpenseInv
  imports ExpenseRun
begin

text \<open>
  The expense service as a state machine: an inductive relation of the changes that a request can
  make, the proof that every request is one of them or none, and the invariant, the tenant frame and
  the life cycles by induction over the relation. The contract \<open>tenant_service\<close> is interpreted
  on the requests.
\<close>

section \<open>The steps\<close>

inductive expense_step :: "uuid \<Rightarrow> expense_db \<Rightarrow> expense_db \<Rightarrow> bool" for t :: uuid where
  submit: "fresh_expense w e r \<Longrightarrow> ex_TenantID e = t \<Longrightarrow> evs = [] \<or> evs = [ExpenseSubmitted e] \<Longrightarrow>
    expense_step t w (w\<lparr>expenses := expenses w @ [r], events := events w @ evs\<rparr>)"
| approve: "r \<in> set (expenses w) \<Longrightarrow> own_expense t i r \<Longrightarrow> xr_status r = ''submitted'' \<Longrightarrow>
    within_limits vcfg roles (xr_amount r) \<Longrightarrow> ex_TenantID e = t \<Longrightarrow> evs = [] \<or> evs = [ExpenseApproved e] \<Longrightarrow>
    expense_step t w (w\<lparr>expenses := update_rows (own_expense t i) (expense_approved a now) (expenses w),
                        events := events w @ evs\<rparr>)"
| reject: "r \<in> set (expenses w) \<Longrightarrow> own_expense t i r \<Longrightarrow> xr_status r \<notin> {''approved'', ''rejected''} \<Longrightarrow>
    expense_step t w (w\<lparr>expenses := update_rows (own_expense t i) (expense_rejected reason a now) (expenses w)\<rparr>)"
| create_po: "fresh_po w po r \<Longrightarrow> po_TenantID po = t \<Longrightarrow>
    expense_step t w (w\<lparr>purchase_orders := purchase_orders w @ [r]\<rparr>)"
| approve_po: "r \<in> set (purchase_orders w) \<Longrightarrow> own_po t i r \<Longrightarrow> or_status r = ''draft'' \<Longrightarrow>
    within_limits vcfg roles (or_amount r) \<Longrightarrow>
    expense_step t w (w\<lparr>purchase_orders := update_rows (own_po t i) (po_approved a now) (purchase_orders w)\<rparr>)"
| issue: "fresh_advance w pc r \<Longrightarrow> pca_TenantID pc = t \<Longrightarrow>
    expense_step t w (w\<lparr>advances := advances w @ [r]\<rparr>)"
| settle: "r \<in> set (advances w) \<Longrightarrow> own_advance t i r \<Longrightarrow> vr_status r \<noteq> ''settled'' \<Longrightarrow> u \<le> vr_amount r \<Longrightarrow>
    expense_step t w (w\<lparr>advances := update_rows (own_advance t i) (advance_settled (round2 u) now) (advances w)\<rparr>)"

text \<open>A request makes one step of its tenant or none.\<close>

abbreviation steps_to :: "uuid \<Rightarrow> expense_db \<Rightarrow> expense_db \<Rightarrow> bool" where
  "steps_to t \<equiv> moves (expense_step t)"

lemma step_exI: "untick w' = untick w1 \<Longrightarrow> expense_step t w w1 \<Longrightarrow> \<exists>w1. expense_step t w w1 \<and> untick w' = untick w1"
  by blast

lemma submit_steps: "steps_to (ex_TenantID e) w (snd (svc_SubmitExpense en pub ctx e w))"
proof (rule moves_op [OF atomic_svc_writes(1)])
  fix e' w' assume "svc_SubmitExpense en pub ctx e w = (Inr e', w')"
  then obtain x where x: "fresh_expense w e' x" "e' = e\<lparr>ex_Status := ''submitted'', ex_ID := ex_ID e'\<rparr>"
    "untick w' = untick (w\<lparr>expenses := expenses w @ [x], events := events w @ (if pub then [ExpenseSubmitted e'] else [])\<rparr>)"
    by (rule svc_SubmitExpense_Inr)
  have "ex_TenantID e' = ex_TenantID e" by (subst x(2)) simp
  then show "\<exists>w1. expense_step (ex_TenantID e) w w1 \<and> untick w' = untick w1"
    by (intro step_exI [OF x(3)] submit [OF x(1)]) auto
qed

lemma create_po_steps: "steps_to (po_TenantID po) w (snd (svc_CreatePurchaseOrder en us po w))"
proof (rule moves_op [OF atomic_svc_writes(4)])
  fix po' w' assume "svc_CreatePurchaseOrder en us po w = (Inr po', w')"
  then obtain x where x: "fresh_po w po' x" "po' = po\<lparr>po_PONumber := po_PONumber po', po_ID := po_ID po'\<rparr>"
    "untick w' = untick (w\<lparr>purchase_orders := purchase_orders w @ [x]\<rparr>)"
    by (rule svc_CreatePurchaseOrder_Inr)
  have "po_TenantID po' = po_TenantID po" by (subst x(2)) simp
  then show "\<exists>w1. expense_step (po_TenantID po) w w1 \<and> untick w' = untick w1"
    by (intro step_exI [OF x(3)] create_po [OF x(1)]) auto
qed

lemma issue_steps: "steps_to (pca_TenantID pc) w (snd (svc_CreatePettyCashAdvance en pc w))"
proof (rule moves_op [OF atomic_svc_writes(6)])
  fix pc' w' assume "svc_CreatePettyCashAdvance en pc w = (Inr pc', w')"
  then obtain x where x: "fresh_advance w pc' x" "pc' = pc\<lparr>pca_ID := pca_ID pc'\<rparr>"
    "untick w' = untick (w\<lparr>advances := advances w @ [x]\<rparr>)"
    by (rule svc_CreatePettyCashAdvance_Inr)
  have "pca_TenantID pc' = pca_TenantID pc" by (subst x(2)) simp
  then show "\<exists>w1. expense_step (pca_TenantID pc) w w1 \<and> untick w' = untick w1"
    by (intro step_exI [OF x(3)] issue [OF x(1)]) auto
qed

lemma approve_steps: "steps_to t w (snd (svc_ApproveExpense en pub ctx t i a roles w))"
  by (rule moves_op [OF atomic_svc_writes(2)], erule svc_ApproveExpense_Inr, erule step_exI, rule approve)
    (auto dest: row_by_Inr)

lemma reject_steps: "steps_to t w (snd (svc_RejectExpense en t i a reason w))"
  by (rule moves_op [OF atomic_svc_writes(3)], erule svc_RejectExpense_Inr, erule step_exI, rule reject)
    (auto dest: row_by_Inr)

lemma approve_po_steps: "steps_to t w (snd (svc_ApprovePurchaseOrder en ctx t i a roles w))"
  by (rule moves_op [OF atomic_svc_writes(5)], erule svc_ApprovePurchaseOrder_Inr, erule step_exI, rule approve_po)
    (auto dest: row_by_Inr)

lemma settle_steps: "steps_to t w (snd (svc_SettlePettyCash en t i a u w))"
  by (rule moves_op [OF atomic_svc_writes(7)], erule svc_SettlePettyCash_Inr, erule step_exI, rule settle)
    (auto dest: row_by_Inr)

lemmas write_steps = submit_steps create_po_steps issue_steps approve_steps reject_steps approve_po_steps settle_steps

lemma exec_expense_steps: "steps_to (xreq_tenant r) w (exec_expense en pub us r w)"
  by (cases r) (simp_all add: write_steps moves_read xsvc_reads)

section \<open>The invariant\<close>

definition po_ok :: "po_row \<Rightarrow> bool" where
  "po_ok r \<longleftrightarrow> round2 (or_amount r) = or_amount r
     \<and> (or_status r = ''draft'' \<and> or_approved_by r = None \<and> or_approved_at r = None
        \<or> or_status r = ''approved'' \<and> or_approved_by r \<noteq> None \<and> or_approved_at r \<noteq> None)"

definition expense_ok :: "uuid set \<Rightarrow> expense_row \<Rightarrow> bool" where
  "expense_ok pos r \<longleftrightarrow> round2 (xr_amount r) = xr_amount r \<and> xr_approved_by r = None
     \<and> set_option (xr_po r) \<subseteq> pos
     \<and> (xr_status r = ''draft'' \<and> xr_rejected_by r = None \<and> xr_reason r = None
        \<or> xr_status r = ''rejected'' \<and> xr_rejected_by r \<noteq> None \<and> xr_reason r \<noteq> None)"

definition advance_ok :: "advance_row \<Rightarrow> bool" where
  "advance_ok r \<longleftrightarrow> round2 (vr_amount r) = vr_amount r
     \<and> (vr_status r = ''issued'' \<and> vr_settled_at r = None \<and> vr_unspent r = 0
        \<or> vr_status r = ''settled'' \<and> vr_settled_at r \<noteq> None \<and> vr_unspent r \<le> vr_amount r)"

definition event_ok :: "expense_row list \<Rightarrow> expense_event \<Rightarrow> bool" where
  "event_ok xs ev \<longleftrightarrow> (case ev of
     ExpenseSubmitted e \<Rightarrow> (ex_ID e, ex_TenantID e) \<in> set (map (\<lambda>x. (xr_id x, xr_tenant x)) xs)
   | ExpenseApproved e \<Rightarrow> False)"

definition expense_inv :: "expense_db \<Rightarrow> bool" where
  "expense_inv w \<longleftrightarrow>
     distinct (map or_id (purchase_orders w)) \<and> distinct (map or_number (purchase_orders w))
   \<and> distinct (map xr_id (expenses w)) \<and> distinct (map vr_id (advances w))
   \<and> (\<forall>r \<in> set (purchase_orders w). po_ok r)
   \<and> (\<forall>r \<in> set (expenses w). expense_ok (or_id ` set (purchase_orders w)) r)
   \<and> (\<forall>r \<in> set (advances w). advance_ok r)
   \<and> (\<forall>ev \<in> set (events w). event_ok (expenses w) ev)"

lemma expense_inv_empty: "expense_inv empty_expenses"
  by (simp add: expense_inv_def empty_expenses_def)

lemma expense_inv_untick: "untick w = untick w' \<Longrightarrow> expense_inv w = expense_inv w'"
  unfolding expense_inv_def by (simp add: untick_tables [of w w'])

lemma po_row_update:
  "or_id (po_approved a now r) = or_id r" "or_number (po_approved a now r) = or_number r"
  "or_tenant (po_approved a now r) = or_tenant r"
  by (simp_all add: po_approved_def)

lemma expense_row_update:
  "xr_id (expense_approved a now r) = xr_id r" "xr_id (expense_rejected reason a now r) = xr_id r"
  "xr_tenant (expense_approved a now r) = xr_tenant r" "xr_tenant (expense_rejected reason a now r) = xr_tenant r"
  by (simp_all add: expense_approved_def expense_rejected_def)

lemma advance_row_update:
  "vr_id (advance_settled u now r) = vr_id r" "vr_tenant (advance_settled u now r) = vr_tenant r"
  by (simp_all add: advance_settled_def)

lemma event_ok_rejected:
  "event_ok (update_rows p (expense_rejected reason a now) xs) ev = event_ok xs ev"
  by (cases ev) (simp_all add: event_ok_def map_update_rows expense_row_update del: set_map)

lemma step_inv: "expense_step t w w' \<Longrightarrow> expense_inv w \<Longrightarrow> expense_inv w'"
proof (induction rule: expense_step.induct)
  case (submit w e r evs)
  then have "expense_ok (or_id ` set (purchase_orders w)) r"
    by (auto simp: fresh_expense_def expense_ok_def split: option.splits)
  with submit show ?case
    by (auto simp: expense_inv_def fresh_expense_def event_ok_def split: expense_event.splits)
next
  case (approve r w i vcfg roles e evs a now)
  then show ?case by (auto simp: expense_inv_def expense_ok_def)
next
  case (reject r w i reason a now)
  have ok: "expense_ok ps (expense_rejected reason a now x)" if "expense_ok ps x" for ps x
    using that by (auto simp: expense_ok_def expense_rejected_def)
  with reject show ?case
    by (auto simp: expense_inv_def map_update_rows expense_row_update set_update_rows ok event_ok_rejected)
next
  case (create_po w po r)
  then show ?case
    by (auto simp: expense_inv_def fresh_po_def po_ok_def expense_ok_def)
next
  case (approve_po r w i vcfg roles a now)
  have "or_id ` set (update_rows (own_po t i) (po_approved a now) (purchase_orders w)) = or_id ` set (purchase_orders w)"
    by (metis list.set_map map_update_rows po_row_update(1))
  with approve_po show ?case
    by (auto simp: expense_inv_def map_update_rows po_row_update set_update_rows)
      (auto simp: po_ok_def po_approved_def)
next
  case (issue w pc r)
  then show ?case by (auto simp: expense_inv_def fresh_advance_def advance_ok_def)
next
  case (settle r w i u now)
  have "advance_ok (advance_settled (round2 u) now x)" if "x \<in> set (advances w)" "own_advance t i x" for x
  proof -
    have "x = r" using settle that by (auto simp: expense_inv_def dest: distinct_key_unique)
    then have "advance_ok x" "u \<le> vr_amount x" using settle by (auto simp: expense_inv_def)
    then show ?thesis using round2_mono [of u "vr_amount x"] by (auto simp: advance_ok_def advance_settled_def)
  qed
  with settle show ?case
    by (auto simp: expense_inv_def map_update_rows advance_row_update set_update_rows)
qed

section \<open>The rows of a tenant\<close>

fun event_tenant :: "expense_event \<Rightarrow> uuid" where
  "event_tenant (ExpenseSubmitted e) = ex_TenantID e"
| "event_tenant (ExpenseApproved e) = ex_TenantID e"

definition expense_part ::
  "uuid \<Rightarrow> expense_db \<Rightarrow> po_row list \<times> expense_row list \<times> advance_row list \<times> expense_event list" where
  "expense_part u w =
     (filter (\<lambda>r. or_tenant r = u) (purchase_orders w), filter (\<lambda>r. xr_tenant r = u) (expenses w),
      filter (\<lambda>r. vr_tenant r = u) (advances w), filter (\<lambda>ev. event_tenant ev = u) (events w))"

lemma expense_part_untick: "untick w = untick w' \<Longrightarrow> expense_part u w = expense_part u w'"
  unfolding expense_part_def by (simp add: untick_tables [of w w'])

lemma step_frame: "expense_step t w w' \<Longrightarrow> u \<noteq> t \<Longrightarrow> expense_part u w' = expense_part u w"
  by (induction rule: expense_step.induct)
    (auto simp: expense_part_def fresh_expense_def fresh_po_def fresh_advance_def
      po_row_update expense_row_update advance_row_update intro!: filter_update_rows)

interpretation claims: step_service "exec_expense en pub us" expense_inv empty_expenses xreq_tenant expense_part expense_step
  for en pub us
  by unfold_locales (rule expense_inv_empty, rule exec_expense_steps, erule (1) step_inv, erule (1) step_frame,
    erule expense_inv_untick, erule expense_part_untick)

lemmas exec_expense_inv = claims.inv_exec

section \<open>Life cycles\<close>

text \<open>Rows are never removed; a settled advance and an approved order never change.\<close>

definition progress :: "expense_db \<Rightarrow> expense_db \<Rightarrow> bool" where
  "progress w w' \<longleftrightarrow>
     (\<forall>r \<in> set (advances w). vr_status r = ''settled'' \<longrightarrow> r \<in> set (advances w'))
   \<and> (\<forall>r \<in> set (purchase_orders w). or_status r = ''approved'' \<longrightarrow> r \<in> set (purchase_orders w'))
   \<and> (\<forall>r \<in> set (expenses w). xr_status r \<in> {''approved'', ''rejected''} \<longrightarrow> r \<in> set (expenses w'))"

lemma step_progress: "expense_step t w w' \<Longrightarrow> expense_inv w \<Longrightarrow> progress w w'"
proof (induction rule: expense_step.induct)
  case (approve r w i vcfg roles e evs a now)
  then show ?case by (auto simp: expense_inv_def expense_ok_def)
next
  case (reject r w i reason a now)
  then show ?case
    by (auto simp: progress_def expense_inv_def intro!: update_other [where k = xr_id and r = r])
next
  case (approve_po r w i vcfg roles a now)
  then show ?case
    by (auto simp: progress_def expense_inv_def intro!: update_other [where k = or_id and r = r])
next
  case (settle r w i u now)
  then show ?case
    by (auto simp: progress_def expense_inv_def intro!: update_other [where k = vr_id and r = r])
qed (auto simp: progress_def)

lemma progress_refl: "untick w' = untick w \<Longrightarrow> progress w w'"
  unfolding progress_def by (simp add: untick_tables [of w' w])

lemma progress_trans: "progress w w1 \<Longrightarrow> progress w1 w2 \<Longrightarrow> progress w w2"
  unfolding progress_def by blast

lemma run_progress: "expense_inv w \<Longrightarrow> progress w (fold (exec_expense en pub us) rs w)"
  by (rule claims.run_rel [where R = progress]) (auto intro: progress_refl progress_trans step_progress)

end
