(* ===== verification/Demo.thy ===== *)
theory Demo
  imports Rpc
begin

text \<open>
  A concrete environment, configuration, context and handler, on which the witnesses of the services
  run.
\<close>

definition xdemo_env :: env where
  "xdemo_env = \<lparr>env_uuid = (\<lambda>n. 30 + n), env_now = (\<lambda>n. 1772000000 + int n), env_fail = (\<lambda>_. False)\<rparr>"

definition xdemo_config :: Config where
  "xdemo_config = \<lparr>vc_ID = ''film'', vc_Name = '''', vc_Version = '''', vc_Description = '''',
     vc_EntityLabels = \<lparr>el_Project = '''', el_ProjectPlural = '''', el_Phase = '''', el_PhasePlural = '''',
       el_TeamMember = '''', el_TeamMemberPlural = '''', el_RateLabel = '''', el_RateUnit = ''''\<rparr>,
     vc_PhaseTypes = [\<lparr>ph_ID = ''prep'', ph_Label = '''', ph_Order = 1, ph_IsBillable = True, ph_AllowedTransitions = [''shoot'']\<rparr>,
       \<lparr>ph_ID = ''shoot'', ph_Label = '''', ph_Order = 2, ph_IsBillable = True, ph_AllowedTransitions = []\<rparr>],
     vc_BudgetCategories = [\<lparr>bc_ID = ''cast'', bc_Label = ''Cast'', bc_Description = '''', bc_DefaultAccountCode = ''''\<rparr>],
     vc_BudgetTemplates = [\<lparr>bt_Name = ''basic'', bt_Description = '''', bt_LineItems = [\<lparr>tl_CategoryID = ''cast'', tl_Description = ''Actors'',
       tl_AccountCode = '''', tl_DefaultAmount = 100, tl_IsRequired = True\<rparr>]\<rparr>],
     vc_ExpenseCategories = [\<lparr>ec_ID = ''travel'', ec_Label = '''', ec_TaxTreatment = '''', ec_DefaultAccountCode = '''', ec_RequiresPO = False\<rparr>],
     vc_ApprovalWorkflow = \<lparr>aw_Limits = [\<lparr>al_Role = ''manager'', al_MaxAmount = 500\<rparr>], aw_DualApprovalAbove = 1000\<rparr>,
     vc_InventoryCategories = [\<lparr>ic_ID = ''camera'', ic_Label = '''', ic_IsTrackable = True, ic_DepreciationYears = None\<rparr>], vc_ReportDefinitions = [], vc_CustomFields = \<lparr>cf_Project = [], cf_Expense = []\<rparr>,
     vc_DefaultChartOfAccounts = [], vc_RoleLabels = fmempty\<rparr>"

definition xdemo_ctx :: "uuid \<Rightarrow> uuid \<Rightarrow> ctx" where
  "xdemo_ctx t u = \<lparr>ctx_caller = Some \<lparr>UserID = u, TenantID = t, ProjectID = 0, Email = '''', Roles = [''manager''], Permissions = [], IP = ''''\<rparr>,
     ctx_tenant = Some t, ctx_actor = None, ctx_vertical = Some xdemo_config, ctx_incoming = (\<lambda>_. []), ctx_outgoing = (\<lambda>_. [])\<rparr>"

lemma xran: "\<not> isl (fst p) \<Longrightarrow> \<exists>x. p = (Inr x, snd p)"
  by (metis prod.collapse isl_def sum.exhaust)

lemma xdemo_calm: "calm xdemo_env"
  by (simp add: calm_def xdemo_env_def)

definition xdemo_handler :: handler where
  "xdemo_handler = \<lparr>h_env = xdemo_env, h_pub = True, h_mail = (\<lambda>_. None), h_perm = None, h_flag = '''',
     uuid_Parse = (\<lambda>s. if s \<noteq> '''' then Some (atoi s) else None), uuid_String = itoa, decimal_Parse = (\<lambda>s. None),
     StringFixed2 = (\<lambda>d. ''''), date_Scan = Some\<rparr>"

end
