(* ===== verification/ExpenseProps.thy ===== *)
theory ExpenseProps
  imports ExpenseInv Demo
begin

text \<open>
  Properties of the expense service: what submitting, approving and settling do on every branch,
  the finality of settled, approved and rejected records, and what the life cycle of an expense
  makes impossible.
\<close>

section \<open>A concrete run\<close>

definition xdemo_po :: PurchaseOrder where
  "xdemo_po = \<lparr>po_ID = 3, po_ProductionID = 1, po_TenantID = 7, po_BudgetLineID = None, po_PONumber = ''PO-1'',
     po_VendorName = ''V'', po_VendorGSTIN = '''', po_Description = '''', po_Amount = 400, po_Currency = ''INR'',
     po_Status = '''', po_PartyID = None, po_RaisedBy = 9, po_ApprovedBy = None, po_RaisedAt = 0, po_ApprovedAt = None, po_CreatedAt = 0\<rparr>"

definition xdemo_expense :: Expense where
  "xdemo_expense = \<lparr>ex_ID = 4, ex_ProductionID = 1, ex_TenantID = 7, ex_BudgetLineID = None, ex_PurchaseOrderID = Some 3,
     ex_CategoryID = ''travel'', ex_Description = '''', ex_Amount = 120, ex_Currency = ''INR'', ex_TaxAmount = 0,
     ex_Status = '''', ex_PartyID = None, ex_SubmittedBy = 9, ex_ApprovedBy = None, ex_RejectedBy = None, ex_SubmittedAt = None,
     ex_ApprovedAt = None, ex_CreatedAt = 0, ex_RejectionReason = None, ex_RejectedAt = None\<rparr>"

definition xdemo_advance :: PettyCashAdvance where
  "xdemo_advance = \<lparr>pca_ID = 5, pca_ProductionID = 1, pca_TenantID = 7, pca_IssuedTo = 9, pca_Amount = 50, pca_Purpose = '''',
     pca_Status = '''', pca_IssuedAt = 0, pca_SettledAt = None, pca_UnspentAmount = 0\<rparr>"

abbreviation xrun :: "expense_req list \<Rightarrow> expense_db" where
  "xrun rs \<equiv> fold (exec_expense xdemo_env True (\<lambda>_. '''')) rs empty_expenses"

lemma xrun_inv: "expense_inv (xrun rs)"
  by (rule claims.inv_run)

lemma xdemo_submits:
  "\<exists>e. svc_SubmitExpense xdemo_env True (xdemo_ctx 7 9) xdemo_expense (xrun [CreatePurchaseOrder xdemo_po])
     = (Inr e, snd (svc_SubmitExpense xdemo_env True (xdemo_ctx 7 9) xdemo_expense (xrun [CreatePurchaseOrder xdemo_po])))"
  by (rule xran) code_simp

lemma xdemo_approves:
  "\<exists>u. svc_ApprovePurchaseOrder xdemo_env (xdemo_ctx 7 9) 7 3 9 [''manager''] (xrun [CreatePurchaseOrder xdemo_po])
     = (Inr u, snd (svc_ApprovePurchaseOrder xdemo_env (xdemo_ctx 7 9) 7 3 9 [''manager''] (xrun [CreatePurchaseOrder xdemo_po])))"
  by (rule xran) code_simp

lemma xdemo_settles:
  "\<exists>u. svc_SettlePettyCash xdemo_env 7 5 9 20 (xrun [CreatePettyCashAdvance xdemo_advance])
     = (Inr u, snd (svc_SettlePettyCash xdemo_env 7 5 9 20 (xrun [CreatePettyCashAdvance xdemo_advance])))"
  by (rule xran) code_simp

section \<open>Approvals\<close>

text \<open>
  The rule of both approvals: the record must exist and be in its open status, some role of the
  approver must have a limit that covers the amount unless the approver is a super administrator,
  and no single approver covers an amount above the threshold for dual approval.
\<close>

definition approval_spec ::
  "expense_sentinel \<Rightarrow> string \<Rightarrow> (string \<Rightarrow> expense_sentinel) \<Rightarrow> Config option \<Rightarrow> (string \<times> decimal) option \<Rightarrow> string list
    \<Rightarrow> expense_sentinel option option" where
  "approval_spec missing open_status refused cfg rec roles =
     (case (cfg, rec) of
        (None, _) \<Rightarrow> Some None
      | (Some c, None) \<Rightarrow> Some (Some missing)
      | (Some c, Some (st, x)) \<Rightarrow>
          if st \<noteq> open_status then Some (Some (refused st))
          else if ''super_admin'' \<notin> set roles
               \<and> \<not> (\<exists>r \<in> set roles. \<exists>l. LimitForRole (vc_ApprovalWorkflow c) r = Some l \<and> x \<le> l)
          then Some (Some ErrApprovalLimitExceeded)
          else if x > aw_DualApprovalAbove (vc_ApprovalWorkflow c) then Some (Some ErrDualApprovalRequired)
          else None)"

definition lookup_row :: "('r \<Rightarrow> bool) \<Rightarrow> ('r \<Rightarrow> 'v) \<Rightarrow> 'r list \<Rightarrow> 'v option" where
  "lookup_row p f rs = map_option f (List.find p rs)"

lemma row_by_find: "row_by p rs = (case List.find p rs of None \<Rightarrow> Inl ErrNoRows | Some r \<Rightarrow> Inr r)"
  by (simp add: row_by_def)

lemma check_limits_outcome:
  "check_limits c roles x w =
     (if ''super_admin'' \<notin> set roles
         \<and> \<not> (\<exists>r \<in> set roles. \<exists>l. LimitForRole (vc_ApprovalWorkflow c) r = Some l \<and> x \<le> l)
      then (Inl (case MaxLimitForRoles (vc_ApprovalWorkflow c) roles of
               None \<Rightarrow> Wrap ''caller roles have no configured approval limit'' (Sentinel ErrApprovalLimitExceeded)
             | Some l \<Rightarrow> Wrap ''exceeds limit'' (Sentinel ErrApprovalLimitExceeded)), w)
      else if x > aw_DualApprovalAbove (vc_ApprovalWorkflow c)
      then (Inl (Wrap ''exceeds dual approval threshold'' (Sentinel ErrDualApprovalRequired)), w) else (Inr (), w))"
  unfolding MaxLimitForRoles_covers [symmetric]
  by (auto simp: check_limits_def Let_def andThen_def not_less split: option.split)

text \<open>With a database that answers, the update of a row that was just read succeeds.\<close>

lemma pg_Get_calm:
  assumes "calm en"
  shows "pg_GetPurchaseOrder en t i w = (case List.find (own_po t i) (purchase_orders w) of
      None \<Rightarrow> Inl (Sentinel ErrPONotFound) | Some r \<Rightarrow> Inr (purchaseOrderFromDB r), w\<lparr>tick := Suc (tick w)\<rparr>)"
    "pg_GetExpense en t i w = (case List.find (own_expense t i) (expenses w) of
      None \<Rightarrow> Inl (Sentinel ErrExpenseNotFound) | Some r \<Rightarrow> Inr (expenseFromDB r), w\<lparr>tick := Suc (tick w)\<rparr>)"
  using assms
  by (simp_all add: repo_defs q_GetPurchaseOrder_def q_GetExpense_def query_calm row_by_find noRows_def andThen_def onErr_def
      split: option.split)

lemma pg_Update_calm:
  assumes "calm en"
  shows "\<lbrakk>r \<in> set (purchase_orders w); own_po (po_TenantID po) (po_ID po) r; po_Status po = ''approved''\<rbrakk>
      \<Longrightarrow> \<exists>w'. pg_UpdatePurchaseOrder en po w = (Inr (), w')"
    "\<lbrakk>x \<in> set (expenses w); own_expense (ex_TenantID e) (ex_ID e) x; ex_Status e = ''approved''\<rbrakk>
      \<Longrightarrow> \<exists>w'. pg_UpdateExpense en e w = (Inr (), w')"
proof -
  assume "r \<in> set (purchase_orders w)" "own_po (po_TenantID po) (po_ID po) r" "po_Status po = ''approved''"
  then show "\<exists>w'. pg_UpdatePurchaseOrder en po w = (Inr (), w')"
    using assms by (cases "row_by (own_po (po_TenantID po) (po_ID po)) (purchase_orders w)")
      (auto simp: repo_defs q_UpdatePurchaseOrderStatus_def query_calm update_one_def po_statuses_def andThen_def onErr_def dest: row_by_Inl)
next
  assume "x \<in> set (expenses w)" "own_expense (ex_TenantID e) (ex_ID e) x" "ex_Status e = ''approved''"
  then show "\<exists>w'. pg_UpdateExpense en e w = (Inr (), w')"
    using assms by (cases "row_by (own_expense (ex_TenantID e) (ex_ID e)) (expenses w)")
      (auto simp: repo_defs q_UpdateExpenseStatus_def query_calm update_one_def expense_statuses_def andThen_def onErr_def dest: row_by_Inl)
qed

lemma approve_po_outcome:
  assumes "calm en"
  shows "outcome (fst (svc_ApprovePurchaseOrder en ctx t i a roles w)) =
    approval_spec ErrPONotFound ''draft'' (\<lambda>st. if st = ''approved'' then ErrAlreadyApproved else ErrNotApprovable)
      (ctx_vertical ctx) (lookup_row (own_po t i) (\<lambda>r. (or_status r, or_amount r)) (purchase_orders w)) roles"
proof (cases "ctx_vertical ctx")
  case None
  then show ?thesis by (simp add: svc_ApprovePurchaseOrder_def MustFromContext_def approval_spec_def outcome_def)
next
  case (Some c)
  show ?thesis
  proof (cases "List.find (own_po t i) (purchase_orders w)")
    case None
    with Some assms show ?thesis
      by (simp add: svc_ApprovePurchaseOrder_def MustFromContext_def approval_spec_def outcome_def lookup_row_def
          pg_Get_calm andThen_def onErr_def)
  next
    case r: (Some r)
    then have own: "r \<in> set (purchase_orders w)" "own_po t i r" by (auto simp: find_Some_iff)
    have "\<exists>w'. pg_UpdatePurchaseOrder en ((purchaseOrderFromDB r)\<lparr>po_Status := ''approved'', po_ApprovedBy := Some a, po_ApprovedAt := Some now\<rparr>)
        (w\<lparr>tick := n\<rparr>) = (Inr (), w')" for now n
      by (rule pg_Update_calm(1) [OF assms, of r]) (use own in \<open>simp_all add: purchaseOrderFromDB_def\<close>)
    from this [of "env_now en (Suc (tick w))" "Suc (Suc (tick w))"] Some assms r show ?thesis
      by (auto simp: svc_ApprovePurchaseOrder_def MustFromContext_def approval_spec_def outcome_def lookup_row_def
          pg_Get_calm andThen_def onErr_def check_limits_outcome time_Now_def purchaseOrderFromDB_def split: option.splits)
  qed
qed

lemma approve_expense_outcome:
  assumes "calm en"
  shows "outcome (fst (svc_ApproveExpense en pub ctx t i a roles w)) =
    approval_spec ErrExpenseNotFound ''submitted'' (\<lambda>st. if st = ''approved'' then ErrAlreadyApproved
        else if st = ''rejected'' then ErrAlreadyRejected else ErrNotApprovable)
      (ctx_vertical ctx) (lookup_row (own_expense t i) (\<lambda>r. (xr_status r, xr_amount r)) (expenses w)) roles"
proof (cases "ctx_vertical ctx")
  case None
  then show ?thesis by (simp add: svc_ApproveExpense_def MustFromContext_def approval_spec_def outcome_def)
next
  case (Some c)
  show ?thesis
  proof (cases "List.find (own_expense t i) (expenses w)")
    case None
    with Some assms show ?thesis
      by (simp add: svc_ApproveExpense_def MustFromContext_def approval_spec_def outcome_def lookup_row_def
          pg_Get_calm andThen_def onErr_def)
  next
    case r: (Some r)
    then have own: "r \<in> set (expenses w)" "own_expense t i r" by (auto simp: find_Some_iff)
    have "\<exists>w'. pg_UpdateExpense en ((expenseFromDB r)\<lparr>ex_Status := ''approved'', ex_ApprovedBy := Some a, ex_ApprovedAt := Some now\<rparr>)
        (w\<lparr>tick := n\<rparr>) = (Inr (), w')" for now n
      by (rule pg_Update_calm(2) [OF assms, of r]) (use own in \<open>simp_all add: expenseFromDB_def\<close>)
    from this [of "env_now en (Suc (tick w))" "Suc (Suc (tick w))"] Some assms r show ?thesis
      by (auto simp: svc_ApproveExpense_def MustFromContext_def approval_spec_def outcome_def lookup_row_def publish_def
          pg_Get_calm andThen_def onErr_def check_limits_outcome time_Now_def expenseFromDB_def Let_def split: option.splits)
  qed
qed

text \<open>
  C4: with a database that answers, approving a purchase order and approving an expense end
  exactly as the rule of approvals says: with success, or with the error of the first condition of
  the rule that fails.
\<close>

theorem approvals_meet_spec:
  assumes "calm en"
  shows "outcome (fst (svc_ApprovePurchaseOrder en ctx t i a roles w)) =
      approval_spec ErrPONotFound ''draft'' (\<lambda>st. if st = ''approved'' then ErrAlreadyApproved else ErrNotApprovable)
        (ctx_vertical ctx) (lookup_row (own_po t i) (\<lambda>r. (or_status r, or_amount r)) (purchase_orders w)) roles
    \<and> outcome (fst (svc_ApproveExpense en pub ctx t i a roles w)) =
      approval_spec ErrExpenseNotFound ''submitted'' (\<lambda>st. if st = ''approved'' then ErrAlreadyApproved
          else if st = ''rejected'' then ErrAlreadyRejected else ErrNotApprovable)
        (ctx_vertical ctx) (lookup_row (own_expense t i) (\<lambda>r. (xr_status r, xr_amount r)) (expenses w)) roles"
  by (intro conjI approve_po_outcome approve_expense_outcome assms)

theorem approvals_meet_spec_witness:
  "outcome (fst (svc_ApprovePurchaseOrder xdemo_env (xdemo_ctx 7 9) 7 3 9 [''manager''] (xrun [CreatePurchaseOrder xdemo_po]))) = None
   \<and> outcome (fst (svc_ApprovePurchaseOrder xdemo_env (xdemo_ctx 7 9) 7 4 9 [''manager''] empty_expenses)) = Some (Some ErrPONotFound)"
proof -
  have "lookup_row (own_po 7 3) (\<lambda>r. (or_status r, or_amount r)) (purchase_orders (xrun [CreatePurchaseOrder xdemo_po])) = Some (''draft'', 400)"
    unfolding lookup_row_def by code_simp
  then have "outcome (fst (svc_ApprovePurchaseOrder xdemo_env (xdemo_ctx 7 9) 7 3 9 [''manager''] (xrun [CreatePurchaseOrder xdemo_po]))) = None"
    using approvals_meet_spec [OF xdemo_calm, of "xdemo_ctx 7 9" 7 3 9 "[''manager'']" "xrun [CreatePurchaseOrder xdemo_po]"]
    by (simp add: approval_spec_def xdemo_ctx_def xdemo_config_def LimitForRole_def)
  then show ?thesis
    using approvals_meet_spec [OF xdemo_calm, of "xdemo_ctx 7 9" 7 4 9 "[''manager'']" empty_expenses]
    by (simp add: approval_spec_def lookup_row_def empty_expenses_def xdemo_ctx_def)
qed

text \<open>
  An approval of a purchase order that succeeds found a draft of the tenant that the roles
  of the approver cover and that is not above the dual-approval threshold, marks exactly that order
  approved by the approver, and changes nothing else.
\<close>

lemma ApprovePurchaseOrder_effect:
  assumes "svc_ApprovePurchaseOrder en ctx t i a roles w = (Inr u, w')"
  shows "\<exists>vcfg r now. ctx_vertical ctx = Some vcfg \<and> r \<in> set (purchase_orders w) \<and> or_id r = i \<and> or_tenant r = t
    \<and> or_status r = ''draft'' \<and> within_limits vcfg roles (or_amount r)
    \<and> purchase_orders w' = map (\<lambda>o'. if or_id o' = i \<and> or_tenant o' = t
        then o'\<lparr>or_status := ''approved'', or_approved_by := Some a, or_approved_at := Some now\<rparr> else o') (purchase_orders w)
    \<and> expenses w' = expenses w \<and> advances w' = advances w \<and> events w' = events w"
proof -
  from assms obtain vcfg r now where 1: "ctx_vertical ctx = Some vcfg" "row_by (own_po t i) (purchase_orders w) = Inr r"
    "or_status r = ''draft''" "within_limits vcfg roles (or_amount r)"
    and 2: "untick w' = untick (w\<lparr>purchase_orders := update_rows (own_po t i) (po_approved a now) (purchase_orders w)\<rparr>)"
    by (rule svc_ApprovePurchaseOrder_Inr)
  show ?thesis
    using 1 row_by_Inr [OF 1(2)] untick_tables [OF 2]
    by (intro exI [of _ vcfg] exI [of _ r] exI [of _ now]) (simp add: update_rows_def po_approved_def)
qed

section \<open>Submitting\<close>

text \<open>
  A submission that succeeds names a category of the tenant's vertical, has a purchase
  order where the category requires one, adds one row for the expense under a fresh identifier with
  the amount rounded to cents, and publishes the submitted expense once. The row it adds is a draft.
\<close>

lemma SubmitExpense_effect:
  assumes "svc_SubmitExpense en pub ctx e w = (Inr e', w')"
  shows "\<exists>vcfg cat r. ctx_vertical ctx = Some vcfg \<and> cat \<in> set (vc_ExpenseCategories vcfg) \<and> ec_ID cat = ex_CategoryID e
    \<and> \<not> (ec_RequiresPO cat \<and> ex_PurchaseOrderID e = None)
    \<and> expenses w' = expenses w @ [r] \<and> (\<forall>x \<in> set (expenses w). xr_id x \<noteq> xr_id r)
    \<and> xr_id r = ex_ID e' \<and> xr_tenant r = ex_TenantID e \<and> xr_amount r = round2 (ex_Amount e)
    \<and> xr_submitted_by r = ex_SubmittedBy e \<and> xr_status r = ''draft'' \<and> ex_Status e' = ''submitted''
    \<and> events w' = events w @ (if pub then [ExpenseSubmitted e'] else [])
    \<and> purchase_orders w' = purchase_orders w \<and> advances w' = advances w"
proof -
  from assms obtain vcfg cat r where 1: "ctx_vertical ctx = Some vcfg" "FindExpenseCategory vcfg (ex_CategoryID e) = Some cat"
    "ec_RequiresPO cat \<longrightarrow> ex_PurchaseOrderID e \<noteq> None" "e' = e\<lparr>ex_Status := ''submitted'', ex_ID := ex_ID e'\<rparr>"
    "fresh_expense w e' r"
    and 2: "untick w' = untick (w\<lparr>expenses := expenses w @ [r], events := events w @ (if pub then [ExpenseSubmitted e'] else [])\<rparr>)"
    by (rule svc_SubmitExpense_Inr)
  have "ex_TenantID e' = ex_TenantID e" "ex_Amount e' = ex_Amount e" "ex_SubmittedBy e' = ex_SubmittedBy e" "ex_Status e' = ''submitted''"
    by (subst 1(4), simp)+
  with 1(1,3,5) untick_tables [OF 2] find_by_Some [OF 1(2) [unfolded FindExpenseCategory_def]] show ?thesis
    by (intro exI [of _ vcfg] exI [of _ cat] exI [of _ r]) (auto simp: fresh_expense_def)
qed

text \<open>
  C20: because a submission stores a draft and only a submitted expense can be approved, no
  expense is ever approved: after any sequence of requests, with any failures, approving any expense
  with any roles fails, no row is submitted or approved, and no approval was ever published.
\<close>

theorem no_expense_is_ever_approved:
  "isl (fst (svc_ApproveExpense en' pub' ctx t i a roles (fold (exec_expense en pub us) rs empty_expenses)))
   \<and> set (map xr_status (expenses (fold (exec_expense en pub us) rs empty_expenses))) \<subseteq> {''draft'', ''rejected''}
   \<and> ExpenseApproved e \<notin> set (events (fold (exec_expense en pub us) rs empty_expenses))"
proof -
  define w where "w = fold (exec_expense en pub us) rs empty_expenses"
  have inv: "expense_inv w" unfolding w_def by (rule claims.inv_run)
  then have st: "xr_status r = ''draft'' \<or> xr_status r = ''rejected''" if "r \<in> set (expenses w)" for r
    using that by (auto simp: expense_inv_def expense_ok_def)
  have "isl (fst (svc_ApproveExpense en' pub' ctx t i a roles w))"
  proof (cases "svc_ApproveExpense en' pub' ctx t i a roles w")
    case (Pair x w')
    show ?thesis
    proof (cases x)
      case (Inr u)
      from Pair [unfolded Inr] obtain r where "row_by (own_expense t i) (expenses w) = Inr r" "xr_status r = ''submitted''"
        by (rule svc_ApproveExpense_Inr)
      then show ?thesis using st [of r] by (auto dest: row_by_Inr)
    qed (simp add: Pair)
  qed
  moreover have "ExpenseApproved e \<notin> set (events w)"
    using inv by (auto simp: expense_inv_def event_ok_def)
  ultimately show ?thesis unfolding w_def [symmetric] using st by auto
qed

section \<open>Petty cash and finality\<close>

text \<open>
  C10: a settlement that succeeds was made by the holder of the advance on an advance of the
  tenant that was not settled, with an unspent amount not above the advance; it settles exactly that
  advance and changes nothing else.
\<close>

theorem SettlePettyCash_effect:
  assumes "svc_SettlePettyCash en t i caller unspent w = (Inr u, w')"
  shows "\<exists>r now. r \<in> set (advances w) \<and> vr_id r = i \<and> vr_tenant r = t \<and> vr_issued_to r = caller
    \<and> vr_status r \<noteq> ''settled'' \<and> unspent \<le> vr_amount r
    \<and> advances w' = map (\<lambda>a. if vr_id a = i \<and> vr_tenant a = t
        then a\<lparr>vr_status := ''settled'', vr_unspent := round2 unspent, vr_settled_at := Some now\<rparr> else a) (advances w)
    \<and> expenses w' = expenses w \<and> purchase_orders w' = purchase_orders w \<and> events w' = events w"
proof -
  from assms obtain r now where 1: "row_by (own_advance t i) (advances w) = Inr r" "vr_issued_to r = caller"
    "vr_status r \<noteq> ''settled''" "unspent \<le> vr_amount r"
    and 2: "untick w' = untick (w\<lparr>advances := update_rows (own_advance t i) (advance_settled (round2 unspent) now) (advances w)\<rparr>)"
    by (rule svc_SettlePettyCash_Inr)
  show ?thesis
    using 1 row_by_Inr [OF 1(1)] untick_tables [OF 2]
    by (intro exI [of _ r] exI [of _ now]) (simp add: update_rows_def advance_settled_def)
qed

theorem SettlePettyCash_effect_witness:
  "\<exists>(r :: advance_row) now. vr_issued_to r = 9 \<and> 20 \<le> vr_amount r
     \<and> advances (snd (svc_SettlePettyCash xdemo_env 7 5 9 20 (xrun [CreatePettyCashAdvance xdemo_advance])))
       = map (\<lambda>a. if vr_id a = 5 \<and> vr_tenant a = 7
           then a\<lparr>vr_status := ''settled'', vr_unspent := round2 20, vr_settled_at := Some now\<rparr> else a)
         (advances (xrun [CreatePettyCashAdvance xdemo_advance]))"
proof -
  from xdemo_settles obtain u where run: "svc_SettlePettyCash xdemo_env 7 5 9 20 (xrun [CreatePettyCashAdvance xdemo_advance])
     = (Inr u, snd (svc_SettlePettyCash xdemo_env 7 5 9 20 (xrun [CreatePettyCashAdvance xdemo_advance])))" by blast
  from SettlePettyCash_effect [OF run] show ?thesis by blast
qed

text \<open>
  C12: in a run of the service from the empty database, with any failures, a settled advance, an
  approved purchase order and a rejected expense stay exactly as they are whatever requests follow,
  and the unspent amount of a settled advance is never above the advance.
\<close>

theorem final_records_never_change:
  fixes en pub us rs rs'
  defines "w \<equiv> fold (exec_expense en pub us) rs empty_expenses"
    and "w' \<equiv> fold (exec_expense en pub us) (rs @ rs') empty_expenses"
  shows "(\<forall>r \<in> set (advances w). vr_status r = ''settled'' \<longrightarrow> r \<in> set (advances w') \<and> vr_unspent r \<le> vr_amount r)
    \<and> (\<forall>r \<in> set (purchase_orders w). or_status r = ''approved'' \<longrightarrow> r \<in> set (purchase_orders w'))
    \<and> (\<forall>r \<in> set (expenses w). xr_status r = ''rejected'' \<longrightarrow> r \<in> set (expenses w'))"
proof -
  have inv: "expense_inv w" unfolding w_def by (rule claims.inv_run)
  have "w' = fold (exec_expense en pub us) rs' w" by (simp add: w_def w'_def)
  then have "progress w w'" using run_progress [OF inv] by simp
  with inv show ?thesis by (auto simp: progress_def expense_inv_def advance_ok_def)
qed

definition xdemo_settled :: "expense_req list" where
  "xdemo_settled = [CreatePettyCashAdvance xdemo_advance, SettlePettyCash 7 5 9 20]"

lemma xdemo_settled_row:
  "\<exists>r \<in> set (advances (xrun xdemo_settled)). vr_status r = ''settled'' \<and> vr_unspent r = 20"
  by code_simp

theorem final_records_never_change_witness:
  "\<exists>r \<in> set (advances (xrun (xdemo_settled @ [SettlePettyCash 7 5 9 30]))). vr_status r = ''settled'' \<and> vr_unspent r = 20"
  using xdemo_settled_row final_records_never_change [of xdemo_env True "\<lambda>_. ''''" xdemo_settled "[SettlePettyCash 7 5 9 30]"]
  by blast

end
