(* ===== verification/ExpenseApi.thy ===== *)
theory ExpenseApi
  imports ExpenseHandler ExpenseProps
begin

text \<open>
  Properties of the expense RPCs: a call acts only on the tenant of its context, a caller without a
  permission reads only the caller's own records, and a self-scoped list shows nothing else.
\<close>

section \<open>Calls\<close>

datatype expense_rpc =
  RpcCreatePurchaseOrder CreatePurchaseOrderRequest | RpcGetPurchaseOrder string
| RpcListPurchaseOrders string string int bool string | RpcApprovePurchaseOrder string
| RpcSubmitExpense SubmitExpenseRequest | RpcGetExpense string
| RpcListExpenses string string int bool string | RpcApproveExpense string | RpcRejectExpense string string
| RpcCreatePettyCashAdvance string string string string | RpcGetPettyCashAdvance string
| RpcListPettyCashAdvances string string int bool | RpcSettlePettyCash string string
| RpcGetExpenseCategories | RpcGetApprovalLimits

fun call_expense :: "handler \<Rightarrow> ctx \<Rightarrow> expense_rpc \<Rightarrow> expense_db \<Rightarrow> expense_db" where
  "call_expense h ctx (RpcCreatePurchaseOrder req) w = snd (rpc_CreatePurchaseOrder h ctx req w)"
| "call_expense h ctx (RpcGetPurchaseOrder i) w = snd (rpc_GetPurchaseOrder h ctx i w)"
| "call_expense h ctx (RpcListPurchaseOrders pr st l mine p) w = snd (rpc_ListPurchaseOrders h ctx pr st l mine p w)"
| "call_expense h ctx (RpcApprovePurchaseOrder i) w = snd (rpc_ApprovePurchaseOrder h ctx i w)"
| "call_expense h ctx (RpcSubmitExpense r) w = snd (rpc_SubmitExpense h ctx r w)"
| "call_expense h ctx (RpcGetExpense i) w = snd (rpc_GetExpense h ctx i w)"
| "call_expense h ctx (RpcListExpenses pr st l mine p) w = snd (rpc_ListExpenses h ctx pr st l mine p w)"
| "call_expense h ctx (RpcApproveExpense i) w = snd (rpc_ApproveExpense h ctx i w)"
| "call_expense h ctx (RpcRejectExpense i reason) w = snd (rpc_RejectExpense h ctx i reason w)"
| "call_expense h ctx (RpcCreatePettyCashAdvance pr to am pu) w = snd (rpc_CreatePettyCashAdvance h ctx pr to am pu w)"
| "call_expense h ctx (RpcGetPettyCashAdvance i) w = snd (rpc_GetPettyCashAdvance h ctx i w)"
| "call_expense h ctx (RpcListPettyCashAdvances pr st l mine) w = snd (rpc_ListPettyCashAdvances h ctx pr st l mine w)"
| "call_expense h ctx (RpcSettlePettyCash i u) w = snd (rpc_SettlePettyCash h ctx i u w)"
| "call_expense h ctx RpcGetExpenseCategories w = snd (rpc_GetExpenseCategories ctx w)"
| "call_expense h ctx RpcGetApprovalLimits w = snd (rpc_GetApprovalLimits h ctx w)"

section \<open>A call acts on its tenant\<close>

abbreviation xsealed :: "uuid \<Rightarrow> po_row list \<times> expense_row list \<times> advance_row list \<times> expense_event list \<Rightarrow> expense_db \<Rightarrow> bool" where
  "xsealed \<equiv> step_service.sealed expense_inv expense_part"

lemma keeps_more_steps [keeps_intros]:
  "keeps P (parseOptionalPartyID h s)" "keeps P (list_scope h ctx b)" "keeps P (parse_production h s)"
  unfolding parseOptionalPartyID_def list_scope_def parse_production_def by (intro keeps_intros)+

lemmas sealed_reads = xsvc_reads [THEN claims.keeps_sealed_read]

lemma sealed_writes:
  assumes "u \<noteq> t"
  shows "ex_TenantID e = t \<Longrightarrow> keeps (xsealed u v) (svc_SubmitExpense en pub ctx e)"
    "po_TenantID po = t \<Longrightarrow> keeps (xsealed u v) (svc_CreatePurchaseOrder en us po)"
    "pca_TenantID pc = t \<Longrightarrow> keeps (xsealed u v) (svc_CreatePettyCashAdvance en pc)"
    "keeps (xsealed u v) (svc_ApproveExpense en pub ctx t i a roles)"
    "keeps (xsealed u v) (svc_RejectExpense en t i a reason)"
    "keeps (xsealed u v) (svc_ApprovePurchaseOrder en ctx t i a roles)"
    "keeps (xsealed u v) (svc_SettlePettyCash en t i a x)"
  using assms by (auto intro!: claims.keeps_sealed_write write_steps)

lemma sealed_metadata: "same untick (svc_GetExpenseCategories ctx)" "same untick (svc_GetApprovalLimits ctx)"
  unfolding svc_GetExpenseCategories_def svc_GetApprovalLimits_def by (intro same_intros)+

lemma call_expense_sealed:
  assumes "u \<noteq> tenant_of_ctx ctx" and "xsealed u v w"
  shows "xsealed u v (call_expense h ctx m w)"
proof -
  have ne: "ctx_tenant ctx = Some t \<Longrightarrow> u \<noteq> t" for t using assms(1) by (auto simp: tenant_of_ctx_def)
  note rules = keeps_intros keeps_then_tenant sealed_reads sealed_writes [OF ne] sealed_metadata [THEN claims.keeps_sealed_read]
  have "keeps (xsealed u v) (rpc_CreatePurchaseOrder h ctx a1)" "keeps (xsealed u v) (rpc_GetPurchaseOrder h ctx s1)"
    "keeps (xsealed u v) (rpc_ListPurchaseOrders h ctx s1 s2 l mine s3)" "keeps (xsealed u v) (rpc_ApprovePurchaseOrder h ctx s1)"
    "keeps (xsealed u v) (rpc_SubmitExpense h ctx a2)" "keeps (xsealed u v) (rpc_GetExpense h ctx s1)"
    "keeps (xsealed u v) (rpc_ListExpenses h ctx s1 s2 l mine s3)" "keeps (xsealed u v) (rpc_ApproveExpense h ctx s1)"
    "keeps (xsealed u v) (rpc_RejectExpense h ctx s1 s2)" "keeps (xsealed u v) (rpc_CreatePettyCashAdvance h ctx s1 s2 s3 s4)"
    "keeps (xsealed u v) (rpc_GetPettyCashAdvance h ctx s1)" "keeps (xsealed u v) (rpc_ListPettyCashAdvances h ctx s1 s2 l mine)"
    "keeps (xsealed u v) (rpc_SettlePettyCash h ctx s1 s2)" "keeps (xsealed u v) (rpc_GetExpenseCategories ctx)"
    "keeps (xsealed u v) (rpc_GetApprovalLimits h ctx)" for a1 a2 s1 s2 s3 s4 l mine
    unfolding rpc_CreatePurchaseOrder_def rpc_GetPurchaseOrder_def rpc_ListPurchaseOrders_def rpc_ApprovePurchaseOrder_def
      rpc_SubmitExpense_def rpc_GetExpense_def rpc_ListExpenses_def rpc_ApproveExpense_def rpc_RejectExpense_def
      rpc_CreatePettyCashAdvance_def rpc_GetPettyCashAdvance_def rpc_ListPettyCashAdvances_def rpc_SettlePettyCash_def
      rpc_GetExpenseCategories_def rpc_GetApprovalLimits_def
    by (intro rules | simp)+
  then show ?thesis using assms(2) by (cases m) (simp_all add: keepsD)
qed

interpretation xcalls: call_service "exec_expense en pub us" expense_inv empty_expenses xreq_tenant expense_part expense_step
  "call_expense h" tenant_of_ctx for en pub us h
  by unfold_locales (rule call_expense_sealed)

text \<open>
  From any state that requests can reach, any sequence of calls made in the contexts of
  other tenants leaves the purchase orders, expenses, advances and events of a tenant as they are.
\<close>

lemma expense_rpc_isolation:
  assumes "expense_inv w" and "\<And>ctx m. (ctx, m) \<in> set calls \<Longrightarrow> tenant_of_ctx ctx \<noteq> u"
  shows "expense_part u (fold (\<lambda>(ctx, m). call_expense h ctx m) calls w) = expense_part u w"
  using assms by (intro xcalls.calls.isolation) auto

section \<open>Reading\<close>

text \<open>
  C21: reading an expense succeeds only for a record of the tenant of the context that the
  authenticated caller submitted, or with the permission to read expenses; the answer is that
  record, and the tables are as before.
\<close>

theorem GetExpense_owner_or_permitted:
  assumes "rpc_GetExpense h ctx reqId w = (Inr out, w')"
  shows "\<exists>caller t r. ctx_caller ctx = Some caller \<and> ctx_tenant ctx = Some t \<and> r \<in> set (expenses w) \<and> xr_tenant r = t
    \<and> uuid_Parse h reqId = Some (xr_id r) \<and> out = expenseToProto h (expenseFromDB r)
    \<and> (UserID caller \<noteq> uuid_Nil \<and> xr_submitted_by r = UserID caller
       \<or> RequirePermission (h_flag h) ctx (h_perm h) ''expense:read'' = Inr ())
    \<and> untick w' = untick w"
proof -
  note run = assms [unfolded rpc_GetExpense_def svc_GetExpense_def]
  obtain t where t: "ctx_tenant ctx = Some t" "(ctxTenant ctx :: (expense_db, status, uuid) op) w = (Inr t, w)"
    using run by (auto simp: ctxTenant_Inr elim!: andThen_InrE)
  obtain caller where c: "ctx_caller ctx = Some caller" "(ctxCaller ctx :: (expense_db, status, CallerInfo) op) w = (Inr caller, w)"
    using run t(2) by (auto simp: step_simps ctxCaller_Inr elim!: andThen_InrE)
  obtain i where i: "uuid_Parse h reqId = Some i" "(parse_id h reqId ''invalid expense ID'' :: (expense_db, status, uuid) op) w = (Inr i, w)"
    using run t(2) c(2) by (auto simp: step_simps parse_id_def liftR_def elim!: andThen_InrE split: option.splits)
  obtain e where g: "pg_GetExpense (h_env h) t i w = (Inr e, w')" and out: "out = expenseToProto h e"
    and ok: "UserID caller \<noteq> uuid_Nil \<and> ex_SubmittedBy e = UserID caller
       \<or> RequirePermission (h_flag h) ctx (h_perm h) ''expense:read'' = Inr ()"
    using run t(2) c(2) i(2) by (auto simp: step_simps permit_Inr elim!: andThen_InrE split: if_splits)
  from pg_Get_Inr(2) [OF g] obtain r where "row_by (own_expense t i) (expenses w) = Inr r" "e = expenseFromDB r" "untick w' = untick w"
    by blast
  then show ?thesis using t c i out ok by (intro exI [of _ caller] exI [of _ t] exI [of _ r]) (auto dest: row_by_Inr simp: expenseFromDB_def)
qed

definition xdemo_submitted :: "expense_req list" where
  "xdemo_submitted = [CreatePurchaseOrder xdemo_po, SubmitExpense (xdemo_ctx 7 9) xdemo_expense]"

theorem GetExpense_owner_or_permitted_witness:
  "\<exists>out. rpc_GetExpense xdemo_handler (xdemo_ctx 7 9) ''4'' (xrun xdemo_submitted)
       = (Inr out, snd (rpc_GetExpense xdemo_handler (xdemo_ctx 7 9) ''4'' (xrun xdemo_submitted)))
     \<and> (\<exists>r \<in> set (expenses (xrun xdemo_submitted)). out = expenseToProto xdemo_handler (expenseFromDB r))"
proof -
  have "\<not> isl (fst (rpc_GetExpense xdemo_handler (xdemo_ctx 7 9) ''4'' (xrun xdemo_submitted)))" by code_simp
  then obtain out where run: "rpc_GetExpense xdemo_handler (xdemo_ctx 7 9) ''4'' (xrun xdemo_submitted)
       = (Inr out, snd (rpc_GetExpense xdemo_handler (xdemo_ctx 7 9) ''4'' (xrun xdemo_submitted)))" using xran by blast
  from GetExpense_owner_or_permitted [OF run] run show ?thesis by blast
qed

lemma svc_ListExpenses_Inr:
  assumes "svc_ListExpenses en t production st limit 0 me w = (Inr es, w')" and "me \<noteq> uuid_Nil"
  shows "\<exists>rs. es = map expenseFromDB rs \<and> (\<forall>r \<in> set rs. r \<in> set (expenses w) \<and> xr_tenant r = t \<and> xr_submitted_by r = me)
     \<and> length rs \<le> 100 \<and> untick w' = untick w"
proof -
  define l where "l = (if limit \<le> 0 \<or> limit > 100 then 20 else limit)"
  have l: "0 \<le> l" "l \<le> 100" by (auto simp: l_def)
  from assms obtain rs where q: "q_ListExpenses en t (nullableUUID production) (Some me) st l 0 w = (Inr rs, w')"
    and es: "es = map expenseFromDB rs"
    by (auto simp: svc_ListExpenses_def pg_ListExpenses_def l_def [symmetric] int32_small [OF l] int32_small [of 0]
        nullableUUID_def onErr_InrD elim!: andThen_InrE)
  have "untick w' = untick w" using sameD [OF q_reads(5), of en t "nullableUUID production" "Some me" st l 0 w] q by simp
  with q es l show ?thesis
    by (intro exI [of _ rs]) (auto simp: q_ListExpenses_def opt_filter_def elim!: query_InrE dest!: page_Inr)
qed

text \<open>
  A list of the caller's own expenses needs no permission and shows at most a hundred
  expenses of the tenant of the context, all submitted by the authenticated caller.
\<close>

lemma ListExpenses_mine_shows_own:
  assumes "rpc_ListExpenses h ctx productionId st limit True '''' w = (Inr outs, w')"
  shows "\<exists>caller t rs. ctx_caller ctx = Some caller \<and> ctx_tenant ctx = Some t
    \<and> outs = map (\<lambda>r. expenseToProto h (expenseFromDB r)) rs \<and> length rs \<le> 100
    \<and> (\<forall>r \<in> set rs. r \<in> set (expenses w) \<and> xr_tenant r = t \<and> xr_submitted_by r = UserID caller)"
proof -
  note run = assms [unfolded rpc_ListExpenses_def list_scope_def]
  obtain t where t: "ctx_tenant ctx = Some t" "(ctxTenant ctx :: (expense_db, status, uuid) op) w = (Inr t, w)"
    using run by (auto simp: ctxTenant_Inr elim!: andThen_InrE)
  obtain me where b: "ActorFromRequest (uuid_Parse h) ctx '''' = Inr me" "(actor h ctx '''' :: (expense_db, status, uuid) op) w = (Inr me, w)"
    using run t(2) by (auto simp: step_simps actor_def liftR_def elim!: andThen_InrE)
  obtain p where p: "(parse_production h productionId :: (expense_db, status, uuid) op) w = (Inr p, w)"
    using run t(2) b(2) keepsD [OF keeps_more_steps(3), of "\<lambda>x. x = w" w h productionId]
    by (auto simp: step_simps elim!: andThen_InrE)
  obtain es where l: "svc_ListExpenses (h_env h) t p st limit 0 me w = (Inr es, w')" and outs: "outs = map (expenseToProto h) es"
    using run t(2) b(2) p by (auto simp: step_simps elim!: andThen_InrE)
  from ActorFromRequest_InrD [OF b(1)] obtain caller where c: "ctx_caller ctx = Some caller" "me = UserID caller" "me \<noteq> uuid_Nil" by blast
  from svc_ListExpenses_Inr [OF l c(3)] obtain rs where "es = map expenseFromDB rs" "length rs \<le> 100"
    "\<forall>r \<in> set rs. r \<in> set (expenses w) \<and> xr_tenant r = t \<and> xr_submitted_by r = me" by blast
  with outs t(1) c show ?thesis by (intro exI [of _ caller] exI [of _ t] exI [of _ rs]) simp
qed

section \<open>Authorisation\<close>

text \<open>
  The permission that a call asks for whoever makes it; the calls that only read ask for one or none
  according to whose records they show.
\<close>

fun expense_rpc_perm :: "expense_rpc \<Rightarrow> string" where
  "expense_rpc_perm (RpcCreatePurchaseOrder _) = ''expense:submit''"
| "expense_rpc_perm (RpcSubmitExpense _) = ''expense:submit''"
| "expense_rpc_perm (RpcCreatePettyCashAdvance _ _ _ _) = ''expense:submit''"
| "expense_rpc_perm (RpcSettlePettyCash _ _) = ''expense:submit''"
| "expense_rpc_perm (RpcApprovePurchaseOrder _) = ''expense:approve''"
| "expense_rpc_perm (RpcApproveExpense _) = ''expense:approve''"
| "expense_rpc_perm (RpcRejectExpense _ _) = ''expense:approve''"
| "expense_rpc_perm _ = ''''"

lemma permit_denied:
  assumes "RequirePermission (h_flag h) ctx (h_perm h) p \<noteq> Inr ()"
  shows "snd (andThen (permit h ctx p) k w) = w"
    "snd (andThen (ctxTenant ctx) (\<lambda>t. andThen (permit h ctx p) (k' t)) w) = w"
  using assms by (auto simp: andThen_def ctxTenant_def IDFromContext_def permit_def liftR_def split: option.split sum.split)

lemma expense_rpc_denied:
  assumes "RequirePermission (h_flag h) ctx (h_perm h) (expense_rpc_perm m) \<noteq> Inr ()" and "expense_rpc_perm m \<noteq> ''''"
  shows "call_expense h ctx m w = w"
  using assms
  by (cases m) (simp_all add: rpc_CreatePurchaseOrder_def rpc_SubmitExpense_def rpc_CreatePettyCashAdvance_def rpc_SettlePettyCash_def
      rpc_ApprovePurchaseOrder_def rpc_ApproveExpense_def rpc_RejectExpense_def permit_denied)

end
