(* ===== verification/VerticalValidator.thy ===== *)
theory VerticalValidator
  imports Vertical GoText
begin

text \<open>
  The validator of vertical definitions (\<^verbatim>\<open>pkg/vertical/validator.go\<close>): the structure that
  \<^verbatim>\<open>yaml.Unmarshal\<close> yields, the checks in their order, and the depth-first search for cycles
  in the graph of phase transitions. The search runs with fuel; the lemmas show that as much fuel as
  there are phases is always enough and that it finds a cycle exactly when there is one.
\<close>

section \<open>Definitions as they are read from YAML\<close>

text \<open>A \<^verbatim>\<open>float64\<close> field is carried and never computed with.\<close>

type_synonym float64 = rat

record EntityLabelsYAML =
  ely_Project :: string
  ely_ProjectPlural :: string
  ely_Phase :: string
  ely_PhasePlural :: string
  ely_TeamMember :: string
  ely_TeamMemberPlural :: string
  ely_RateLabel :: string
  ely_RateUnit :: string

record PhaseTypeYAML =
  phy_ID :: string
  phy_Label :: string
  phy_Order :: int
  phy_IsBillable :: bool
  phy_AllowedTransitions :: "string list"

record BudgetCategoryYAML =
  bcy_ID :: string
  bcy_Label :: string
  bcy_Description :: string
  bcy_DefaultAccountCode :: string

record TemplateLineItemYAML =
  tly_CategoryID :: string
  tly_Description :: string
  tly_AccountCode :: string
  tly_DefaultAmount :: float64
  tly_IsRequired :: bool

record BudgetTemplateYAML =
  bty_Name :: string
  bty_Description :: string
  bty_LineItems :: "TemplateLineItemYAML list"

record ExpenseCategoryYAML =
  ecy_ID :: string
  ecy_Label :: string
  ecy_TaxTreatment :: string
  ecy_DefaultAccountCode :: string
  ecy_RequiresPO :: bool

record ApprovalLimitYAML =
  aly_Role :: string
  aly_MaxAmount :: float64

record ApprovalWorkflowYAML =
  awy_Limits :: "ApprovalLimitYAML list"
  awy_DualApprovalAbove :: float64

record InventoryCategoryYAML =
  icy_ID :: string
  icy_Label :: string
  icy_IsTrackable :: bool
  icy_DepreciationYears :: "int option"

record ReportDefinitionYAML =
  rdy_ID :: string
  rdy_Name :: string
  rdy_Description :: string
  rdy_DataSources :: "string list"
  rdy_DefaultColumns :: "string list"

record CustomFieldYAML =
  cfy_Key :: string
  cfy_Label :: string
  cfy_Type :: string
  cfy_Options :: "string list"
  cfy_Required :: bool

record CustomFieldsYAML =
  cfy_Project :: "CustomFieldYAML list"
  cfy_Expense :: "CustomFieldYAML list"

record VerticalYAML =
  vy_ID :: string
  vy_Name :: string
  vy_Version :: string
  vy_Description :: string
  vy_EntityLabels :: EntityLabelsYAML
  vy_PhaseTypes :: "PhaseTypeYAML list"
  vy_BudgetCategories :: "BudgetCategoryYAML list"
  vy_BudgetTemplates :: "BudgetTemplateYAML list"
  vy_ExpenseCategories :: "ExpenseCategoryYAML list"
  vy_ApprovalWorkflow :: ApprovalWorkflowYAML
  vy_InventoryCategories :: "InventoryCategoryYAML list"
  vy_ReportDefinitions :: "ReportDefinitionYAML list"
  vy_CustomFields :: "CustomFieldsYAML option"
  vy_DefaultChartOfAccounts :: "ChartOfAccountEntry list"
  vy_RoleLabels :: "string \<Rightarrow> string option"

definition SystemRoleNames :: "string list" where
  "SystemRoleNames = [''super_admin'', ''manager'', ''coordinator'', ''accountant'', ''member'',
     ''inventory_manager'', ''project_supervisor'']"

record ValidationError =
  ve_Field :: string
  ve_Message :: string

abbreviation verr :: "string \<Rightarrow> string \<Rightarrow> ValidationError" where
  "verr f m \<equiv> \<lparr>ve_Field = f, ve_Message = m\<rparr>"

definition ValidationError_Error :: "ValidationError \<Rightarrow> string" where
  "ValidationError_Error e = ve_Field e @ '': '' @ ve_Message e"

text \<open>\<^verbatim>\<open>%q\<close>: quotes, backslashes and control characters are escaped, other bytes are kept.\<close>

definition hex_digit :: "nat \<Rightarrow> char" where
  "hex_digit n = (if n < 10 then char_of (48 + n) else char_of (87 + n))"

definition quote_char :: "char \<Rightarrow> string" where
  "quote_char c =
     (let n = (of_char c :: nat) in
      if n = 34 then [CHR 0x5C, CHR 0x22] else if n = 92 then [CHR 0x5C, CHR 0x5C]
      else if n = 7 then [CHR 0x5C, CHR ''a''] else if n = 8 then [CHR 0x5C, CHR ''b'']
      else if n = 12 then [CHR 0x5C, CHR ''f''] else if n = 10 then [CHR 0x5C, CHR ''n'']
      else if n = 13 then [CHR 0x5C, CHR ''r''] else if n = 9 then [CHR 0x5C, CHR ''t'']
      else if n = 11 then [CHR 0x5C, CHR ''v'']
      else if n < 32 \<or> n = 127 then [CHR 0x5C, CHR ''x'', hex_digit (n div 16), hex_digit (n mod 16)]
      else [c])"

definition strconv_Quote :: "string \<Rightarrow> string" where
  "strconv_Quote s = [CHR 0x22] @ concat (map quote_char s) @ [CHR 0x22]"

section \<open>Single checks\<close>

definition validRateUnits :: "string list" where
  "validRateUnits = [''day'', ''hour'', ''month'', ''fixed'']"

definition validTaxTreatments :: "string list" where
  "validTaxTreatments = [''input_gst'', ''tds_applicable'', ''us_1099_nec'', ''us_sales_tax_paid'', ''us_use_tax'',
     ''us_meals_50pct'', ''none'']"

definition ValidTaxTreatmentList :: string where
  "ValidTaxTreatmentList = strings_Join (sort validTaxTreatments) '', ''"

definition IsValidTaxTreatment :: "string \<Rightarrow> bool" where
  "IsValidTaxTreatment v \<longleftrightarrow> v \<in> set validTaxTreatments"

definition entity_fields :: "EntityLabelsYAML \<Rightarrow> (string \<times> string) list" where
  "entity_fields el = [(''project'', ely_Project el), (''project_plural'', ely_ProjectPlural el), (''phase'', ely_Phase el),
     (''phase_plural'', ely_PhasePlural el), (''team_member'', ely_TeamMember el), (''team_member_plural'', ely_TeamMemberPlural el),
     (''rate_label'', ely_RateLabel el), (''rate_unit'', ely_RateUnit el)]"

text \<open>
  The fields are ranged over as a Go map, in an order that the runtime chooses: the order is an
  argument.
\<close>

definition validateEntityLabels ::
  "((string \<times> string) list \<Rightarrow> (string \<times> string) list) \<Rightarrow> EntityLabelsYAML \<Rightarrow> ValidationError list" where
  "validateEntityLabels order el =
     map (\<lambda>(name, val). verr (''vertical.entity_labels.'' @ name) ''required'')
       (filter (\<lambda>(name, val). val = '''') (order (entity_fields el)))
     @ (if ely_RateUnit el \<noteq> '''' \<and> ely_RateUnit el \<notin> set validRateUnits
        then [verr ''vertical.entity_labels.rate_unit''
               (''invalid value '' @ strconv_Quote (ely_RateUnit el) @ '': must be one of day, hour, month, fixed'')]
        else [])"

text \<open>The loop of the two duplicate checks; \<open>seen\<close> is the set of what came before.\<close>

fun duplicates :: "string \<Rightarrow> string \<Rightarrow> string list \<Rightarrow> string list \<Rightarrow> ValidationError list" where
  "duplicates field what seen [] = []"
| "duplicates field what seen (x # xs) =
     (if x \<in> set seen then [verr field (what @ strconv_Quote x)] else []) @ duplicates field what (x # seen) xs"

definition checkDuplicateIDs :: "string \<Rightarrow> string list \<Rightarrow> ValidationError list" where
  "checkDuplicateIDs field xs = duplicates field ''duplicate id '' [] xs"

definition checkDuplicateNames :: "string \<Rightarrow> string list \<Rightarrow> ValidationError list" where
  "checkDuplicateNames field xs = duplicates field ''duplicate name '' [] xs"

definition phaseTypeIDs :: "PhaseTypeYAML list \<Rightarrow> string list" where "phaseTypeIDs xs = map phy_ID xs"
definition phaseTypeLabels :: "PhaseTypeYAML list \<Rightarrow> string list" where "phaseTypeLabels xs = map phy_Label xs"
definition budgetCategoryIDs :: "BudgetCategoryYAML list \<Rightarrow> string list" where "budgetCategoryIDs xs = map bcy_ID xs"
definition expenseCategoryIDs :: "ExpenseCategoryYAML list \<Rightarrow> string list" where "expenseCategoryIDs xs = map ecy_ID xs"
definition inventoryCategoryIDs :: "InventoryCategoryYAML list \<Rightarrow> string list" where "inventoryCategoryIDs xs = map icy_ID xs"
definition reportDefinitionIDs :: "ReportDefinitionYAML list \<Rightarrow> string list" where "reportDefinitionIDs xs = map rdy_ID xs"
definition budgetTemplateNames :: "BudgetTemplateYAML list \<Rightarrow> string list" where "budgetTemplateNames xs = map bty_Name xs"

section \<open>Phase transitions\<close>

abbreviation (input) white :: nat where "white \<equiv> 0"
abbreviation (input) gray :: nat where "gray \<equiv> 1"
abbreviation (input) black :: nat where "black \<equiv> 2"

text \<open>The state of the search: the colours (a key that is absent is white) and the flag.\<close>

record dfs_state =
  color :: "string \<Rightarrow> nat"
  hasCycle :: bool

text \<open>
  The search from a node and its loop over the outgoing edges; the loop says whether it returned out
  of the whole call. \<open>None\<close> is a run out of fuel.
\<close>

function (sequential) dfs ::
  "nat \<Rightarrow> (string \<Rightarrow> string list) \<Rightarrow> string list \<Rightarrow> string \<Rightarrow> dfs_state \<Rightarrow> dfs_state option"
and dfs_edges ::
  "nat \<Rightarrow> (string \<Rightarrow> string list) \<Rightarrow> string list \<Rightarrow> string list \<Rightarrow> dfs_state \<Rightarrow> (bool \<times> dfs_state) option" where
  "dfs 0 adj ids node st = None"
| "dfs (Suc n) adj ids node st =
     (if hasCycle st then Some st
      else case dfs_edges n adj ids (adj node) (st\<lparr>color := (color st)(node := gray)\<rparr>) of
             None \<Rightarrow> None
           | Some (returned, st') \<Rightarrow>
               if returned then Some st' else Some (st'\<lparr>color := (color st')(node := black)\<rparr>))"
| "dfs_edges n adj ids [] st = Some (False, st)"
| "dfs_edges n adj ids (next # rest) st =
     (if next \<notin> set ids then dfs_edges n adj ids rest st
      else if color st next = gray then Some (True, st\<lparr>hasCycle := True\<rparr>)
      else if color st next = white
      then (case dfs n adj ids next st of None \<Rightarrow> None | Some st' \<Rightarrow> dfs_edges n adj ids rest st')
      else dfs_edges n adj ids rest st)"
  by pat_completeness auto
termination
  by (relation "measures [\<lambda>x. case x of Inl (n, _) \<Rightarrow> n | Inr (n, _) \<Rightarrow> n,
        \<lambda>x. case x of Inl _ \<Rightarrow> 0 | Inr (_, _, _, xs, _) \<Rightarrow> Suc (length xs)]") auto

text \<open>The loop over the phases.\<close>

fun dfs_all :: "nat \<Rightarrow> (string \<Rightarrow> string list) \<Rightarrow> string list \<Rightarrow> string list \<Rightarrow> dfs_state \<Rightarrow> dfs_state option" where
  "dfs_all n adj ids [] st = Some st"
| "dfs_all n adj ids (p # ps) st =
     (if color st p = white
      then (case dfs n adj ids p st of None \<Rightarrow> None | Some st' \<Rightarrow> dfs_all n adj ids ps st')
      else dfs_all n adj ids ps st)"

text \<open>The map of transitions: of several phases with one name the last counts.\<close>

definition phase_adj :: "PhaseTypeYAML list \<Rightarrow> string \<Rightarrow> string list" where
  "phase_adj phases i = (case map_of (rev (map (\<lambda>p. (phy_ID p, phy_AllowedTransitions p)) phases)) i of
     None \<Rightarrow> [] | Some ts \<Rightarrow> ts)"

definition unknown_transitions :: "string list \<Rightarrow> PhaseTypeYAML \<Rightarrow> ValidationError list" where
  "unknown_transitions ids p =
     map (\<lambda>t. verr (''vertical.phase_types['' @ phy_ID p @ ''].allowed_transitions'') (''references unknown phase '' @ strconv_Quote t))
       (filter (\<lambda>t. t \<notin> set ids) (phy_AllowedTransitions p))"

definition cycle_found :: "PhaseTypeYAML list \<Rightarrow> bool" where
  "cycle_found phases =
     (case dfs_all (length phases) (phase_adj phases) (phaseTypeIDs phases) (phaseTypeIDs phases)
             \<lparr>color = (\<lambda>_. white), hasCycle = False\<rparr> of
        None \<Rightarrow> False | Some st \<Rightarrow> hasCycle st)"

definition validatePhaseTransitions :: "PhaseTypeYAML list \<Rightarrow> ValidationError list" where
  "validatePhaseTransitions phases =
     concat (map (unknown_transitions (phaseTypeIDs phases)) phases)
     @ (if \<not> (\<exists>p \<in> set phases. phy_AllowedTransitions p = [])
        then [verr ''vertical.phase_types'' ''must have at least one terminal state (phase with empty allowed_transitions)'']
        else [])
     @ (if cycle_found phases then [verr ''vertical.phase_types'' ''phase transition graph contains a cycle''] else [])"

section \<open>The validator\<close>

definition required :: "bool \<Rightarrow> string \<Rightarrow> string \<Rightarrow> ValidationError list" where
  "required missing field msg = (if missing then [verr field msg] else [])"

definition unknown_code :: "string list \<Rightarrow> string \<Rightarrow> string \<Rightarrow> ValidationError list" where
  "unknown_code codes field code =
     (if code \<noteq> '''' \<and> code \<notin> set codes
      then [verr field (''account code '' @ strconv_Quote code @ '' not found in default_chart_of_accounts'')] else [])"

definition check_expense_category :: "string list \<Rightarrow> nat \<times> ExpenseCategoryYAML \<Rightarrow> ValidationError list" where
  "check_expense_category codes icat =
     (let i = fst icat; cat = snd icat; loc = ''vertical.expense_categories['' @ itoa i @ '']'' in
      unknown_code codes (loc @ ''.default_account_code'') (ecy_DefaultAccountCode cat)
      @ (if ecy_TaxTreatment cat \<noteq> '''' \<and> ecy_TaxTreatment cat \<notin> set validTaxTreatments
         then [verr (loc @ ''.tax_treatment'')
                (''invalid value '' @ strconv_Quote (ecy_TaxTreatment cat) @ '': must be one of '' @ ValidTaxTreatmentList)]
         else []))"

definition check_line_item :: "string list \<Rightarrow> string list \<Rightarrow> nat \<Rightarrow> nat \<times> TemplateLineItemYAML \<Rightarrow> ValidationError list" where
  "check_line_item codes cats i jitem =
     (let loc = ''vertical.budget_templates['' @ itoa i @ ''].line_items['' @ itoa (fst jitem) @ '']''; item = snd jitem in
      (if tly_CategoryID item \<notin> set cats
       then [verr (loc @ ''.category_id'') (''category '' @ strconv_Quote (tly_CategoryID item) @ '' not found in budget_categories'')]
       else [])
      @ unknown_code codes (loc @ ''.account_code'') (tly_AccountCode item))"

definition role_labels_missing :: "(string \<Rightarrow> string option) \<Rightarrow> ValidationError list" where
  "role_labels_missing labels =
     map (\<lambda>name. verr ''vertical.role_labels'' (''missing label for system role '' @ strconv_Quote name))
       (filter (\<lambda>name. labels name = None) SystemRoleNames)"

definition limit_roles_unknown :: "ApprovalLimitYAML list \<Rightarrow> ValidationError list" where
  "limit_roles_unknown limits =
     map (\<lambda>l. verr ''vertical.approval_workflow.limits'' (''limit role '' @ strconv_Quote (aly_Role l) @ '' is not a system role''))
       (filter (\<lambda>l. aly_Role l \<notin> set SystemRoleNames) limits)"

text \<open>The semantic part: \<^verbatim>\<open>yaml.Unmarshal\<close> has yielded the structure.\<close>

definition Validate ::
  "((string \<times> string) list \<Rightarrow> (string \<times> string) list) \<Rightarrow> VerticalYAML \<Rightarrow> ValidationError list" where
  "Validate order v =
     (let accountCodes = map coa_Code (vy_DefaultChartOfAccounts v) in
        required (vy_ID v = '''') ''vertical.id'' ''required''
      @ required (vy_Name v = '''') ''vertical.name'' ''required''
      @ required (vy_Version v = '''') ''vertical.version'' ''required''
      @ validateEntityLabels order (vy_EntityLabels v)
      @ required (vy_PhaseTypes v = []) ''vertical.phase_types'' ''at least one phase type required''
      @ required (vy_BudgetCategories v = []) ''vertical.budget_categories'' ''at least one budget category required''
      @ required (vy_ExpenseCategories v = []) ''vertical.expense_categories'' ''at least one expense category required''
      @ required (vy_InventoryCategories v = []) ''vertical.inventory_categories'' ''at least one inventory category required''
      @ required (vy_DefaultChartOfAccounts v = []) ''vertical.default_chart_of_accounts'' ''required''
      @ required (vy_ReportDefinitions v = []) ''vertical.report_definitions'' ''at least one report definition required''
      @ checkDuplicateIDs ''vertical.phase_types'' (phaseTypeIDs (vy_PhaseTypes v))
      @ checkDuplicateNames ''vertical.phase_types'' (phaseTypeLabels (vy_PhaseTypes v))
      @ checkDuplicateIDs ''vertical.budget_categories'' (budgetCategoryIDs (vy_BudgetCategories v))
      @ checkDuplicateIDs ''vertical.expense_categories'' (expenseCategoryIDs (vy_ExpenseCategories v))
      @ checkDuplicateIDs ''vertical.inventory_categories'' (inventoryCategoryIDs (vy_InventoryCategories v))
      @ checkDuplicateIDs ''vertical.report_definitions'' (reportDefinitionIDs (vy_ReportDefinitions v))
      @ checkDuplicateNames ''vertical.budget_templates'' (budgetTemplateNames (vy_BudgetTemplates v))
      @ concat (map (\<lambda>(i, cat). unknown_code accountCodes (''vertical.budget_categories['' @ itoa i @ ''].default_account_code'')
                       (bcy_DefaultAccountCode cat)) (enumerate 0 (vy_BudgetCategories v)))
      @ concat (map (check_expense_category accountCodes) (enumerate 0 (vy_ExpenseCategories v)))
      @ concat (map (\<lambda>(i, tmpl). concat (map (check_line_item accountCodes (budgetCategoryIDs (vy_BudgetCategories v)) i)
                       (enumerate 0 (bty_LineItems tmpl)))) (enumerate 0 (vy_BudgetTemplates v)))
      @ (if vy_PhaseTypes v \<noteq> [] then validatePhaseTransitions (vy_PhaseTypes v) else [])
      @ role_labels_missing (vy_RoleLabels v)
      @ limit_roles_unknown (awy_Limits (vy_ApprovalWorkflow v)))"

end
