(* ===== verification/VerticalProps.thy ===== *)
theory VerticalProps
  imports VerticalValidator
begin

text \<open>
  Correctness of the validator: the search for cycles never runs out of fuel and is exact, and a
  definition is accepted exactly when it is well formed.
\<close>

section \<open>The graph of transitions\<close>

definition phase_edges :: "(string \<Rightarrow> string list) \<Rightarrow> string list \<Rightarrow> (string \<times> string) set" where
  "phase_edges adj ids = {(a, b). a \<in> set ids \<and> b \<in> set (adj a) \<and> b \<in> set ids}"

lemma acyclic_extend:
  assumes acy: "acyclic (E \<inter> B \<times> UNIV)" and cl: "\<And>x y. x \<in> B \<Longrightarrow> (x, y) \<in> E \<Longrightarrow> y \<in> B"
    and v: "v \<notin> B" "\<And>y. (v, y) \<in> E \<Longrightarrow> y \<in> B"
  shows "acyclic (E \<inter> insert v B \<times> UNIV)"
proof -
  let ?R = "E \<inter> insert v B \<times> UNIV"
  have stays: "y \<in> B \<and> (x, y) \<in> (E \<inter> B \<times> UNIV)\<^sup>+" if "(x, y) \<in> ?R\<^sup>+" "x \<in> B" for x y
    using that
  proof (induction rule: trancl_induct)
    case (step y z)
    then have "(y, z) \<in> E \<inter> B \<times> UNIV" "z \<in> B" using cl by auto
    then show ?case using step by (meson trancl.trancl_into_trancl)
  qed (use cl in auto)
  have "(x, x) \<notin> ?R\<^sup>+" for x
  proof
    assume c: "(x, x) \<in> ?R\<^sup>+"
    then obtain y where y: "(x, y) \<in> ?R" "(y, x) \<in> ?R\<^sup>*" by (meson tranclD)
    show False
    proof (cases "x \<in> B")
      case True
      with stays [OF c] acy show False by (auto simp: acyclic_def)
    next
      case False
      with y v(2) have "x = v" "y \<in> B" by auto
      with y(2) False stays [of y x] show False by (auto simp: rtrancl_eq_or_trancl)
    qed
  qed
  then show ?thesis by (auto simp: acyclic_def)
qed

section \<open>Fuel\<close>

definition whites :: "string list \<Rightarrow> dfs_state \<Rightarrow> nat" where
  "whites ids st = card {x \<in> set ids. color st x = 0}"

lemma whites_mono: "(\<And>x. color st' x = 0 \<Longrightarrow> color st x = 0) \<Longrightarrow> whites ids st' \<le> whites ids st"
  unfolding whites_def by (intro card_mono) auto

lemma whites_visit:
  assumes "node \<in> set ids" "color st node = 0"
  shows "Suc (whites ids (st\<lparr>color := (color st)(node := 1)\<rparr>)) = whites ids st"
proof -
  have "{x \<in> set ids. color st x = 0} = insert node {x \<in> set ids. ((color st)(node := 1)) x = 0}"
    using assms by auto
  then show ?thesis unfolding whites_def by simp
qed

text \<open>As much fuel as there are white nodes is enough, and the search makes no node white.\<close>

lemma dfs_fuel:
  "node \<in> set ids \<Longrightarrow> color st node = 0 \<Longrightarrow> whites ids st \<le> n \<Longrightarrow>
     \<exists>st'. dfs n adj ids node st = Some st' \<and> (\<forall>x. color st' x = 0 \<longrightarrow> color st x = 0)"
  "whites ids st \<le> n \<Longrightarrow>
     \<exists>r st'. dfs_edges n adj ids xs st = Some (r, st') \<and> (\<forall>x. color st' x = 0 \<longrightarrow> color st x = 0)"
proof (induction n adj ids node st and n adj ids xs st rule: dfs_dfs_edges.induct)
  case (1 adj ids node st)
  then show ?case by (auto simp: whites_def)
next
  case (2 n adj ids node st)
  show ?case
  proof (cases "hasCycle st")
    case False
    with 2 whites_visit [OF 2(2,3)] obtain r st' where
      e: "dfs_edges n adj ids (adj node) (st\<lparr>color := (color st)(node := 1)\<rparr>) = Some (r, st')"
      and m: "\<forall>x. color st' x = 0 \<longrightarrow> color (st\<lparr>color := (color st)(node := 1)\<rparr>) x = 0" by fastforce
    have "color st x = 0" if "color st' x = 0" for x 
      using m [rule_format, OF that] by (cases "x = node") auto
    with e show ?thesis using False by (auto split: if_splits)
  qed simp
next
  case (4 n adj ids nxt rest st)
  show ?case
  proof (cases "nxt \<in> set ids \<and> color st nxt = 0")
    case True
    with 4 obtain st1 where st1: "dfs n adj ids nxt st = Some st1" "\<forall>x. color st1 x = 0 \<longrightarrow> color st x = 0" by fastforce
    then have "whites ids st1 \<le> n" using 4(5) whites_mono [of st1 st ids] by fastforce
    with 4(3) True st1 obtain r st' where "dfs_edges n adj ids rest st1 = Some (r, st')" "\<forall>x. color st' x = 0 \<longrightarrow> color st1 x = 0"
      by fastforce
    with True st1 show ?thesis by auto
  qed (use 4 in auto)
qed auto

section \<open>The search is exact\<close>

lemma dfs_flag_stays:
  "hasCycle st \<Longrightarrow> dfs n adj ids node st = Some st' \<Longrightarrow> hasCycle st'"
  "hasCycle st \<Longrightarrow> dfs_edges n adj ids xs st = Some (r, st') \<Longrightarrow> hasCycle st'"
proof (induction n adj ids node st and n adj ids xs st arbitrary: st' and r st' rule: dfs_dfs_edges.induct)
  case (1 adj ids node st)
  then show ?case by simp
next
  case (2 n adj ids node st)
  then show ?case by simp
next
  case (3 n adj ids st)
  then show ?case by simp
next
  case (4 n adj ids nxt rest st)
  show ?case
  proof (cases "nxt \<in> set ids \<and> color st nxt = 0")
    case True
    with 4(6) obtain st1 where st1: "dfs n adj ids nxt st = Some st1" "dfs_edges n adj ids rest st1 = Some (r, st')"
      by (auto split: option.splits)
    have flag: "hasCycle st1" by (rule 4(2) [OF _ _ _ 4(5) st1(1)]) (use True in auto)
    show ?thesis by (rule 4(3) [OF _ _ _ st1(1) flag st1(2)]) (use True in auto)
  next
    case False
    then consider "nxt \<notin> set ids" | "nxt \<in> set ids" "color st nxt = 1" | "nxt \<in> set ids" "color st nxt \<noteq> 1" "color st nxt \<noteq> 0"
      by argo
    then show ?thesis
    proof cases
      case 1
      then have "dfs_edges n adj ids rest st = Some (r, st')" using 4(6) by simp
      then show ?thesis by (rule 4(1) [OF 1 4(5)])
    next
      case 2
      then show ?thesis using 4(6) by auto
    next
      case 3
      then have e: "dfs_edges n adj ids rest st = Some (r, st')" using 4(6) by simp
      show ?thesis by (rule 4(4) [OF _ 3(2,3) 4(5) e]) (use 3(1) in simp)
    qed
  qed
qed

text \<open>Black nodes are closed under transitions and on no cycle.\<close>

definition dfs_inv :: "(string \<Rightarrow> string list) \<Rightarrow> string list \<Rightarrow> dfs_state \<Rightarrow> bool" where
  "dfs_inv adj ids st \<longleftrightarrow> (\<forall>x. color st x \<le> 2)
     \<and> (\<forall>x y. color st x = 2 \<longrightarrow> (x, y) \<in> phase_edges adj ids \<longrightarrow> color st y = 2)
     \<and> acyclic (phase_edges adj ids \<inter> {x. color st x = 2} \<times> UNIV)"

text \<open>What a search may have changed when it found no cycle.\<close>

definition dfs_grew :: "dfs_state \<Rightarrow> dfs_state \<Rightarrow> bool" where
  "dfs_grew st st' \<longleftrightarrow> (\<forall>x. color st' x = 1 \<longleftrightarrow> color st x = 1) \<and> (\<forall>x. color st x = 2 \<longrightarrow> color st' x = 2)"

lemma dfs_grew_trans: "dfs_grew st st1 \<Longrightarrow> dfs_grew st1 st2 \<Longrightarrow> dfs_grew st st2"
  by (simp add: dfs_grew_def)

lemma dfs_inv_gray:
  assumes "dfs_inv adj ids st" "color st node = 0"
  shows "dfs_inv adj ids (st\<lparr>color := (color st)(node := 1)\<rparr>)"
proof -
  have "{x. ((color st)(node := 1)) x = 2} = {x. color st x = 2}" using assms(2) by auto
  with assms show ?thesis unfolding dfs_inv_def by auto
qed

lemma dfs_inv_black:
  assumes inv: "dfs_inv adj ids st" and "color st node = 1"
    and succ: "\<And>y. (node, y) \<in> phase_edges adj ids \<Longrightarrow> color st y = 2"
  shows "dfs_inv adj ids (st\<lparr>color := (color st)(node := 2)\<rparr>)"
proof -
  have eq: "{x. ((color st)(node := 2)) x = 2} = insert node {x. color st x = 2}" by auto
  have "acyclic (phase_edges adj ids \<inter> insert node {x. color st x = 2} \<times> UNIV)"
    by (rule acyclic_extend) (use assms in \<open>auto simp: dfs_inv_def\<close>)
  then have "acyclic (phase_edges adj ids \<inter> {x. ((color st)(node := 2)) x = 2} \<times> UNIV)" unfolding eq .
  with inv succ show ?thesis unfolding dfs_inv_def by auto
qed

abbreviation cyclic :: "(string \<Rightarrow> string list) \<Rightarrow> string list \<Rightarrow> bool" where
  "cyclic adj ids \<equiv> \<not> acyclic (phase_edges adj ids)"

text \<open>What the search from a node, and its loop over edges, may end with.\<close>

definition dfs_ok :: "(string \<Rightarrow> string list) \<Rightarrow> string list \<Rightarrow> string \<Rightarrow> dfs_state \<Rightarrow> dfs_state \<Rightarrow> bool" where
  "dfs_ok adj ids node st st' \<longleftrightarrow> (hasCycle st' \<longrightarrow> cyclic adj ids)
     \<and> (\<not> hasCycle st' \<longrightarrow> dfs_inv adj ids st' \<and> dfs_grew st st' \<and> color st' node = 2)"

definition edges_ok :: "(string \<Rightarrow> string list) \<Rightarrow> string list \<Rightarrow> string list \<Rightarrow> dfs_state \<Rightarrow> bool \<Rightarrow> dfs_state \<Rightarrow> bool" where
  "edges_ok adj ids xs st r st' \<longleftrightarrow> (r \<longrightarrow> hasCycle st') \<and> (hasCycle st' \<longrightarrow> cyclic adj ids)
     \<and> (\<not> hasCycle st' \<longrightarrow> dfs_inv adj ids st' \<and> dfs_grew st st' \<and> (\<forall>x \<in> set xs \<inter> set ids. color st' x = 2))"

lemma dfs_ok_finish:
  assumes ok: "edges_ok adj ids (adj node) (st\<lparr>color := (color st)(node := 1)\<rparr>) r st1" and node: "color st node = 0" "node \<in> set ids"
  shows "dfs_ok adj ids node st (if r then st1 else st1\<lparr>color := (color st1)(node := 2)\<rparr>)"
proof (cases "hasCycle st1")
  case True
  then show ?thesis using ok by (auto simp: dfs_ok_def edges_ok_def)
next
  case False
  let ?st = "st\<lparr>color := (color st)(node := 1)\<rparr>"
  from False ok have st1: "dfs_inv adj ids st1" "dfs_grew ?st st1" "\<forall>x \<in> set (adj node) \<inter> set ids. color st1 x = 2" "\<not> r"
    by (auto simp: edges_ok_def)
  then have "color st1 node = 1" by (auto simp: dfs_grew_def)
  with st1 have "dfs_inv adj ids (st1\<lparr>color := (color st1)(node := 2)\<rparr>)"
    by (intro dfs_inv_black) (auto simp: phase_edges_def)
  moreover have "dfs_grew st (st1\<lparr>color := (color st1)(node := 2)\<rparr>)"
    using st1(2) node(1) unfolding dfs_grew_def by (auto split: if_splits)
  ultimately show ?thesis using st1(4) False by (simp add: dfs_ok_def)
qed

lemma edges_ok_gray:
  assumes "(nxt, c) \<in> (phase_edges adj ids)\<^sup>*" "(c, nxt) \<in> phase_edges adj ids"
  shows "edges_ok adj ids xs st True (st\<lparr>hasCycle := True\<rparr>)"
  using rtrancl_into_trancl1 [OF assms] by (auto simp: edges_ok_def acyclic_def)

lemma edges_ok_visited:
  assumes "dfs_ok adj ids nxt st st1" and "\<not> hasCycle st1" and "edges_ok adj ids rest st1 r st'"
  shows "edges_ok adj ids (nxt # rest) st r st'"
  using assms dfs_grew_trans [of st st1 st'] by (auto simp: edges_ok_def dfs_ok_def dfs_grew_def)

lemma dfs_exact:
  "dfs n adj ids node st = Some st' \<Longrightarrow> \<not> hasCycle st \<Longrightarrow> node \<in> set ids \<Longrightarrow> color st node = 0 \<Longrightarrow> dfs_inv adj ids st \<Longrightarrow>
     (\<And>g. color st g = 1 \<Longrightarrow> (g, node) \<in> (phase_edges adj ids)\<^sup>+) \<Longrightarrow> dfs_ok adj ids node st st'"
  "dfs_edges n adj ids xs st = Some (r, st') \<Longrightarrow> \<not> hasCycle st \<Longrightarrow> dfs_inv adj ids st \<Longrightarrow>
     (\<And>c. c \<in> set ids \<Longrightarrow> set xs \<subseteq> set (adj c) \<Longrightarrow> (\<And>g. color st g = 1 \<Longrightarrow> (g, c) \<in> (phase_edges adj ids)\<^sup>*) \<Longrightarrow>
        edges_ok adj ids xs st r st')"
proof (induction n adj ids node st and n adj ids xs st arbitrary: st' and r st' rule: dfs_dfs_edges.induct)
  case (2 n adj ids node st)
  let ?st = "st\<lparr>color := (color st)(node := 1)\<rparr>"
  from 2(2,3) obtain r st1 where e: "dfs_edges n adj ids (adj node) ?st = Some (r, st1)"
    and st': "st' = (if r then st1 else st1\<lparr>color := (color st1)(node := 2)\<rparr>)"
    by (auto split: option.splits if_splits)
  have "edges_ok adj ids (adj node) ?st r st1"
  proof (rule 2(1) [OF 2(3) e])
    show "dfs_inv adj ids ?st" using dfs_inv_gray 2 by blast
    show "(g, node) \<in> (phase_edges adj ids)\<^sup>*" if "color ?st g = 1" for g
      using that 2(7) [of g] by (cases "g = node") auto
  qed (use 2 in auto)
  then show ?case unfolding st' by (rule dfs_ok_finish) (use 2 in auto)
next
  case (3 n adj ids st)
  then show ?case by (auto simp: edges_ok_def dfs_grew_def)
next
  case (4 n adj ids nxt rest st)
  have edge: "(c, nxt) \<in> phase_edges adj ids" if "nxt \<in> set ids" using that 4(8,9) by (auto simp: phase_edges_def)
  consider "nxt \<notin> set ids" | "nxt \<in> set ids" "color st nxt = 1" | "nxt \<in> set ids" "color st nxt = 0"
    | "nxt \<in> set ids" "color st nxt = 2"
    using 4(7) unfolding dfs_inv_def by (metis One_nat_def le_SucE le_zero_eq numeral_2_eq_2)
  then show ?case
  proof cases
    case 1
    with 4(1) [OF 1 _ 4(6,7,8)] 4(5,9,10) show ?thesis by (auto simp: edges_ok_def)
  next
    case 2
    then show ?thesis using edges_ok_gray [OF 4(10) [OF 2(2)] edge [OF 2(1)]] 4(5) by auto
  next
    case 3
    with 4(5) obtain st1 where st1: "dfs n adj ids nxt st = Some st1" "dfs_edges n adj ids rest st1 = Some (r, st')"
      by (auto split: option.splits)
    have ok: "dfs_ok adj ids nxt st st1"
      by (rule 4(2) [OF _ _ _ st1(1) 4(6) 3 4(7)]) (use 3 rtrancl_into_trancl1 [OF 4(10) edge] in auto)
    show ?thesis
    proof (cases "hasCycle st1")
      case True
      with dfs_flag_stays(2) [OF True st1(2)] ok show ?thesis by (simp add: dfs_ok_def edges_ok_def)
    next
      case False
      with ok have s1: "dfs_inv adj ids st1" "dfs_grew st st1" by (auto simp: dfs_ok_def)
      have "edges_ok adj ids rest st1 r st'"
        by (rule 4(3) [OF _ _ _ st1(1) st1(2) False s1(1) 4(8)]) (use 3 4(9,10) s1(2) in \<open>auto simp: dfs_grew_def\<close>)
      with ok False show ?thesis by (rule edges_ok_visited)
    qed
  next
    case c4: 4
    have "edges_ok adj ids rest st r st'"
      by (rule 4(4) [OF _ _ _ _ 4(6,7,8)]) (use c4 4(5,9,10) in auto)
    then show ?thesis using c4 by (auto simp: edges_ok_def dfs_grew_def)
  qed
qed auto


lemma dfs_all_returns:
  "set ps \<subseteq> set ids \<Longrightarrow> whites ids st \<le> n \<Longrightarrow> \<exists>st'. dfs_all n adj ids ps st = Some st'"
proof (induction ps arbitrary: st)
  case (Cons p ps)
  show ?case
  proof (cases "color st p = 0")
    case True
    with Cons.prems obtain st1 where st1: "dfs n adj ids p st = Some st1" "\<forall>x. color st1 x = 0 \<longrightarrow> color st x = 0"
      using dfs_fuel(1) [of p ids st n adj] by auto
    then have "whites ids st1 \<le> n" using whites_mono [of st1 st ids] Cons.prems(2) by fastforce
    with Cons st1 True show ?thesis by auto
  qed (use Cons in auto)
qed simp

lemma dfs_all_flag: "hasCycle st \<Longrightarrow> dfs_all n adj ids ps st = Some st' \<Longrightarrow> hasCycle st'"
proof (induction ps arbitrary: st)
  case (Cons p ps)
  show ?case
  proof (cases "color st p = 0")
    case True
    with Cons.prems(2) obtain st1 where st1: "dfs n adj ids p st = Some st1" "dfs_all n adj ids ps st1 = Some st'"
      by (auto split: option.splits)
    from Cons.IH [OF dfs_flag_stays(1) [OF Cons.prems(1) st1(1)] st1(2)] show ?thesis .
  next
    case False
    then have "dfs_all n adj ids ps st = Some st'" using Cons.prems(2) by simp
    then show ?thesis by (rule Cons.IH [OF Cons.prems(1)])
  qed
qed simp

lemma dfs_all_exact:
  "dfs_all n adj ids ps st = Some st' \<Longrightarrow> set ps \<subseteq> set ids \<Longrightarrow> \<not> hasCycle st \<Longrightarrow> dfs_inv adj ids st \<Longrightarrow>
     (\<forall>g. color st g \<noteq> 1) \<Longrightarrow>
     (hasCycle st' \<longrightarrow> cyclic adj ids)
     \<and> (\<not> hasCycle st' \<longrightarrow> dfs_inv adj ids st' \<and> dfs_grew st st' \<and> (\<forall>x \<in> set ps. color st' x = 2))"
proof (induction ps arbitrary: st)
  case (Cons p ps)
  show ?case
  proof (cases "color st p = 0")
    case True
    with Cons.prems(1) obtain st1 where st1: "dfs n adj ids p st = Some st1" "dfs_all n adj ids ps st1 = Some st'"
      by (auto split: option.splits)
    have ok: "dfs_ok adj ids p st st1"
      by (rule dfs_exact(1) [OF st1(1)]) (use Cons.prems True in auto)
    show ?thesis
    proof (cases "hasCycle st1")
      case True
      with dfs_all_flag [OF True st1(2)] ok show ?thesis by (simp add: dfs_ok_def)
    next
      case False
      with ok have s1: "dfs_inv adj ids st1" "dfs_grew st st1" "color st1 p = 2" by (auto simp: dfs_ok_def)
      have "(hasCycle st' \<longrightarrow> cyclic adj ids)
        \<and> (\<not> hasCycle st' \<longrightarrow> dfs_inv adj ids st' \<and> dfs_grew st1 st' \<and> (\<forall>x \<in> set ps. color st' x = 2))"
        by (rule Cons.IH [OF st1(2) _ False s1(1)]) (use Cons.prems(2,5) s1(2) in \<open>auto simp: dfs_grew_def\<close>)
      with s1 show ?thesis using dfs_grew_trans [OF s1(2), of st'] by (auto simp: dfs_grew_def)
    qed
  next
    case False
    with Cons.prems(4,5) have "color st p = 2" unfolding dfs_inv_def
      by (metis One_nat_def le_SucE le_zero_eq numeral_2_eq_2)
    with Cons False show ?thesis by (auto simp: dfs_grew_def)
  qed
qed (auto simp: dfs_grew_def)

lemma phase_edges_in: "(x, y) \<in> phase_edges adj ids \<Longrightarrow> x \<in> set ids"
  by (simp add: phase_edges_def)

lemma dfs_search_exact:
  assumes "length ids \<le> n"
  shows "\<exists>st. dfs_all n adj ids ids \<lparr>color = (\<lambda>_. 0), hasCycle = False\<rparr> = Some st \<and> (hasCycle st \<longleftrightarrow> cyclic adj ids)"
proof -
  let ?st = "\<lparr>color = (\<lambda>_. 0), hasCycle = False\<rparr>"
  have "whites ids ?st \<le> n" using card_length [of ids] assms by (simp add: whites_def)
  then obtain st where st: "dfs_all n adj ids ids ?st = Some st" using dfs_all_returns [of ids ids] by blast
  have "dfs_inv adj ids ?st" by (simp add: dfs_inv_def acyclic_def)
  with dfs_all_exact [OF st] have ex: "hasCycle st \<longrightarrow> cyclic adj ids"
    "\<not> hasCycle st \<longrightarrow> dfs_inv adj ids st \<and> (\<forall>x \<in> set ids. color st x = 2)" by auto
  have "acyclic (phase_edges adj ids)" if nc: "\<not> hasCycle st"
  proof -
    have "phase_edges adj ids \<inter> {x. color st x = 2} \<times> UNIV = phase_edges adj ids"
      using ex(2) nc by (auto dest: phase_edges_in)
    then show ?thesis using ex(2) nc unfolding dfs_inv_def by simp
  qed
  with ex(1) st show ?thesis by blast
qed

section \<open>Well-formed definitions\<close>

text \<open>The transitions a list of phases declares.\<close>

definition transitions :: "PhaseTypeYAML list \<Rightarrow> (string \<times> string) set" where
  "transitions ps = {(phy_ID p, t) | p t. p \<in> set ps \<and> t \<in> set (phy_AllowedTransitions p)}"

definition phases_ok :: "PhaseTypeYAML list \<Rightarrow> bool" where
  "phases_ok ps \<longleftrightarrow> ps \<noteq> [] \<and> distinct (map phy_ID ps) \<and> distinct (map phy_Label ps)
     \<and> snd ` transitions ps \<subseteq> phy_ID ` set ps
     \<and> (\<exists>p \<in> set ps. phy_AllowedTransitions p = []) \<and> acyclic (transitions ps)"

definition labels_ok :: "EntityLabelsYAML \<Rightarrow> bool" where
  "labels_ok el \<longleftrightarrow> ely_Project el \<noteq> '''' \<and> ely_ProjectPlural el \<noteq> '''' \<and> ely_Phase el \<noteq> '''' \<and> ely_PhasePlural el \<noteq> ''''
     \<and> ely_TeamMember el \<noteq> '''' \<and> ely_TeamMemberPlural el \<noteq> '''' \<and> ely_RateLabel el \<noteq> ''''
     \<and> ely_RateUnit el \<in> {''day'', ''hour'', ''month'', ''fixed''}"

text \<open>An account code is empty or one of the chart.\<close>

definition code_ok :: "VerticalYAML \<Rightarrow> string \<Rightarrow> bool" where
  "code_ok v c \<longleftrightarrow> c = '''' \<or> c \<in> coa_Code ` set (vy_DefaultChartOfAccounts v)"

definition budgets_ok :: "VerticalYAML \<Rightarrow> bool" where
  "budgets_ok v \<longleftrightarrow> vy_BudgetCategories v \<noteq> [] \<and> distinct (map bcy_ID (vy_BudgetCategories v))
     \<and> (\<forall>c \<in> set (vy_BudgetCategories v). code_ok v (bcy_DefaultAccountCode c))
     \<and> distinct (map bty_Name (vy_BudgetTemplates v))
     \<and> (\<forall>t \<in> set (vy_BudgetTemplates v). \<forall>l \<in> set (bty_LineItems t).
          tly_CategoryID l \<in> bcy_ID ` set (vy_BudgetCategories v) \<and> code_ok v (tly_AccountCode l))"

definition expenses_ok :: "VerticalYAML \<Rightarrow> bool" where
  "expenses_ok v \<longleftrightarrow> vy_ExpenseCategories v \<noteq> [] \<and> distinct (map ecy_ID (vy_ExpenseCategories v))
     \<and> (\<forall>c \<in> set (vy_ExpenseCategories v). code_ok v (ecy_DefaultAccountCode c)
          \<and> ecy_TaxTreatment c \<in> {'''', ''input_gst'', ''tds_applicable'', ''us_1099_nec'', ''us_sales_tax_paid'', ''us_use_tax'',
               ''us_meals_50pct'', ''none''})"

lemma tax_treatments: "t = '''' \<or> IsValidTaxTreatment t \<longleftrightarrow>
    t \<in> {'''', ''input_gst'', ''tds_applicable'', ''us_1099_nec'', ''us_sales_tax_paid'', ''us_use_tax'', ''us_meals_50pct'', ''none''}"
  unfolding IsValidTaxTreatment_def validTaxTreatments_def by auto

definition roles_ok :: "VerticalYAML \<Rightarrow> bool" where
  "roles_ok v \<longleftrightarrow> set SystemRoleNames \<subseteq> dom (vy_RoleLabels v)
     \<and> aly_Role ` set (awy_Limits (vy_ApprovalWorkflow v)) \<subseteq> set SystemRoleNames"

definition vertical_ok :: "VerticalYAML \<Rightarrow> bool" where
  "vertical_ok v \<longleftrightarrow> vy_ID v \<noteq> '''' \<and> vy_Name v \<noteq> '''' \<and> vy_Version v \<noteq> '''' \<and> labels_ok (vy_EntityLabels v)
     \<and> phases_ok (vy_PhaseTypes v) \<and> budgets_ok v \<and> expenses_ok v
     \<and> vy_InventoryCategories v \<noteq> [] \<and> distinct (map icy_ID (vy_InventoryCategories v))
     \<and> vy_ReportDefinitions v \<noteq> [] \<and> distinct (map rdy_ID (vy_ReportDefinitions v))
     \<and> vy_DefaultChartOfAccounts v \<noteq> [] \<and> roles_ok v"

lemma duplicates_none: "duplicates field what seen xs = [] \<longleftrightarrow> distinct xs \<and> set xs \<inter> set seen = {}"
  by (induction xs arbitrary: seen) auto

lemma required_none [simp]: "required b f m = [] \<longleftrightarrow> \<not> b"
  by (simp add: required_def)

lemma enumerate_all: "(\<forall>p \<in> set (enumerate n xs). P (snd p)) \<longleftrightarrow> (\<forall>x \<in> set xs. P x)"
  by (induction xs arbitrary: n) auto

lemma unknown_code_none [simp]: "unknown_code codes f c = [] \<longleftrightarrow> c = '''' \<or> c \<in> set codes"
  by (auto simp: unknown_code_def)

lemma check_expense_category_none:
  "check_expense_category codes ic = [] \<longleftrightarrow>
     (ecy_DefaultAccountCode (snd ic) = '''' \<or> ecy_DefaultAccountCode (snd ic) \<in> set codes)
     \<and> (ecy_TaxTreatment (snd ic) = '''' \<or> IsValidTaxTreatment (ecy_TaxTreatment (snd ic)))"
  by (auto simp: check_expense_category_def IsValidTaxTreatment_def Let_def)

lemma check_line_item_none:
  "check_line_item codes cats i jl = [] \<longleftrightarrow>
     tly_CategoryID (snd jl) \<in> set cats \<and> (tly_AccountCode (snd jl) = '''' \<or> tly_AccountCode (snd jl) \<in> set codes)"
  by (auto simp: check_line_item_def Let_def)

lemma validateEntityLabels_none:
  assumes "mset (order (entity_fields el)) = mset (entity_fields el)"
  shows "validateEntityLabels order el = [] \<longleftrightarrow> labels_ok el"
proof -
  have "set (order (entity_fields el)) = set (entity_fields el)" using assms by (metis set_mset_mset)
  then show ?thesis
    by (auto simp: validateEntityLabels_def labels_ok_def filter_empty_conv entity_fields_def validRateUnits_def)
qed

lemma phase_adj_distinct:
  assumes "distinct (phaseTypeIDs ps)" "p \<in> set ps"
  shows "phase_adj ps (phy_ID p) = phy_AllowedTransitions p"
proof -
  let ?kv = "map (\<lambda>p. (phy_ID p, phy_AllowedTransitions p)) ps"
  have "distinct (map fst (rev ?kv))" using assms(1) by (simp add: phaseTypeIDs_def comp_def flip: rev_map)
  moreover have "(phy_ID p, phy_AllowedTransitions p) \<in> set (rev ?kv)" using assms(2) by auto
  ultimately have "map_of (rev ?kv) (phy_ID p) = Some (phy_AllowedTransitions p)" by (rule map_of_is_SomeI)
  then show ?thesis by (simp add: phase_adj_def)
qed

lemma phase_edges_transitions:
  assumes "distinct (phaseTypeIDs ps)" "snd ` transitions ps \<subseteq> phy_ID ` set ps"
  shows "phase_edges (phase_adj ps) (phaseTypeIDs ps) = transitions ps"
proof -
  have "(a, b) \<in> phase_edges (phase_adj ps) (phaseTypeIDs ps) \<longleftrightarrow> (a, b) \<in> transitions ps" for a b
  proof
    assume "(a, b) \<in> phase_edges (phase_adj ps) (phaseTypeIDs ps)"
    then obtain p where "p \<in> set ps" "a = phy_ID p" "b \<in> set (phase_adj ps a)"
      by (auto simp: phase_edges_def phaseTypeIDs_def)
    then show "(a, b) \<in> transitions ps" using phase_adj_distinct [OF assms(1)] by (auto simp: transitions_def)
  next
    assume ab: "(a, b) \<in> transitions ps"
    then obtain p where p: "p \<in> set ps" "a = phy_ID p" "b \<in> set (phase_adj ps a)"
      using phase_adj_distinct [OF assms(1)] by (auto simp: transitions_def)
    have "b \<in> phy_ID ` set ps" using assms(2) ab by force
    with p show "(a, b) \<in> phase_edges (phase_adj ps) (phaseTypeIDs ps)" by (simp add: phase_edges_def phaseTypeIDs_def)
  qed
  then show ?thesis by auto
qed

lemma cycle_found_cyclic: "cycle_found ps \<longleftrightarrow> cyclic (phase_adj ps) (phaseTypeIDs ps)"
  using dfs_search_exact [of "phaseTypeIDs ps" "length ps" "phase_adj ps"]
  by (auto simp: cycle_found_def phaseTypeIDs_def)

lemma unknown_transitions_none:
  "concat (map (unknown_transitions (phaseTypeIDs ps)) ps) = [] \<longleftrightarrow> snd ` transitions ps \<subseteq> phy_ID ` set ps"
  by (auto simp: unknown_transitions_def filter_empty_conv transitions_def phaseTypeIDs_def image_subset_iff)

lemma validatePhaseTransitions_none:
  assumes "distinct (phaseTypeIDs ps)"
  shows "validatePhaseTransitions ps = [] \<longleftrightarrow> snd ` transitions ps \<subseteq> phy_ID ` set ps
     \<and> (\<exists>p \<in> set ps. phy_AllowedTransitions p = []) \<and> acyclic (transitions ps)"
  using phase_edges_transitions [OF assms] unknown_transitions_none [of ps]
  by (auto simp: validatePhaseTransitions_def cycle_found_cyclic simp del: concat_eq_Nil_conv)

lemma budget_codes_none:
  "concat (map (\<lambda>(i, cat). unknown_code codes (f i) (bcy_DefaultAccountCode cat)) (enumerate 0 xs)) = [] \<longleftrightarrow>
     (\<forall>c \<in> set xs. bcy_DefaultAccountCode c = '''' \<or> bcy_DefaultAccountCode c \<in> set codes)"
  using enumerate_all [of 0 xs "\<lambda>c. bcy_DefaultAccountCode c = '''' \<or> bcy_DefaultAccountCode c \<in> set codes"]
  by (simp add: case_prod_beta)

lemma expense_categories_none:
  "concat (map (check_expense_category codes) (enumerate 0 xs)) = [] \<longleftrightarrow>
     (\<forall>c \<in> set xs. (ecy_DefaultAccountCode c = '''' \<or> ecy_DefaultAccountCode c \<in> set codes)
        \<and> (ecy_TaxTreatment c = '''' \<or> IsValidTaxTreatment (ecy_TaxTreatment c)))"
  using enumerate_all [of 0 xs "\<lambda>c. (ecy_DefaultAccountCode c = '''' \<or> ecy_DefaultAccountCode c \<in> set codes)
        \<and> (ecy_TaxTreatment c = '''' \<or> IsValidTaxTreatment (ecy_TaxTreatment c))"]
  by (simp add: check_expense_category_none)

lemma line_items_none:
  "concat (map (check_line_item codes cats i) (enumerate 0 xs)) = [] \<longleftrightarrow>
     (\<forall>l \<in> set xs. tly_CategoryID l \<in> set cats \<and> (tly_AccountCode l = '''' \<or> tly_AccountCode l \<in> set codes))"
  using enumerate_all [of 0 xs "\<lambda>l. tly_CategoryID l \<in> set cats \<and> (tly_AccountCode l = '''' \<or> tly_AccountCode l \<in> set codes)"]
  by (simp add: check_line_item_none)

lemma templates_none:
  "concat (map (\<lambda>(i, tmpl). concat (map (check_line_item codes cats i) (enumerate 0 (bty_LineItems tmpl)))) (enumerate 0 xs)) = [] \<longleftrightarrow>
     (\<forall>t \<in> set xs. \<forall>l \<in> set (bty_LineItems t).
        tly_CategoryID l \<in> set cats \<and> (tly_AccountCode l = '''' \<or> tly_AccountCode l \<in> set codes))"
  using enumerate_all [of 0 xs "\<lambda>t. \<forall>l \<in> set (bty_LineItems t).
        tly_CategoryID l \<in> set cats \<and> (tly_AccountCode l = '''' \<or> tly_AccountCode l \<in> set codes)"]
  unfolding concat_eq_Nil_conv [of "map (\<lambda>(i, tmpl). _ i tmpl) _"]
  by (simp add: case_prod_beta line_items_none del: concat_eq_Nil_conv)

lemma roles_none:
  "role_labels_missing (vy_RoleLabels v) = [] \<and> limit_roles_unknown (awy_Limits (vy_ApprovalWorkflow v)) = [] \<longleftrightarrow> roles_ok v"
  by (auto simp: role_labels_missing_def limit_roles_unknown_def roles_ok_def filter_empty_conv)

lemma phases_none:
  "vy_PhaseTypes v \<noteq> [] \<and> distinct (phaseTypeIDs (vy_PhaseTypes v)) \<and> distinct (phaseTypeLabels (vy_PhaseTypes v))
     \<and> (if vy_PhaseTypes v \<noteq> [] then validatePhaseTransitions (vy_PhaseTypes v) else []) = [] \<longleftrightarrow> phases_ok (vy_PhaseTypes v)"
  using validatePhaseTransitions_none [of "vy_PhaseTypes v"]
  by (auto simp: phases_ok_def phaseTypeIDs_def phaseTypeLabels_def)

lemma Validate_none:
  assumes "mset (order (entity_fields (vy_EntityLabels v))) = mset (entity_fields (vy_EntityLabels v))"
  shows "Validate order v = [] \<longleftrightarrow> vertical_ok v"
proof -
  have labels: "validateEntityLabels order (vy_EntityLabels v) = [] \<longleftrightarrow> labels_ok (vy_EntityLabels v)"
    by (rule validateEntityLabels_none) (rule assms)
  have "Validate order v = [] \<longleftrightarrow>
      vy_ID v \<noteq> '''' \<and> vy_Name v \<noteq> '''' \<and> vy_Version v \<noteq> '''' \<and> labels_ok (vy_EntityLabels v)
      \<and> phases_ok (vy_PhaseTypes v) \<and> budgets_ok v \<and> expenses_ok v
      \<and> vy_InventoryCategories v \<noteq> [] \<and> distinct (inventoryCategoryIDs (vy_InventoryCategories v))
      \<and> vy_ReportDefinitions v \<noteq> [] \<and> distinct (reportDefinitionIDs (vy_ReportDefinitions v))
      \<and> vy_DefaultChartOfAccounts v \<noteq> [] \<and> roles_ok v"
    unfolding Validate_def Let_def append_is_Nil_conv budget_codes_none expense_categories_none templates_none
      required_none labels checkDuplicateIDs_def checkDuplicateNames_def duplicates_none
      roles_none [symmetric] phases_none [symmetric] budgets_ok_def expenses_ok_def tax_treatments [symmetric] code_ok_def
      budgetCategoryIDs_def budgetTemplateNames_def expenseCategoryIDs_def
    by (simp add: conj_ac)
  then show ?thesis by (simp add: vertical_ok_def inventoryCategoryIDs_def reportDefinitionIDs_def)
qed

text \<open>In a graph that has an end and no cycle every walk comes to an end.\<close>

lemma transitions_finite: "finite (transitions ps)"
proof -
  have "transitions ps = (\<Union>p \<in> set ps. Pair (phy_ID p) ` set (phy_AllowedTransitions p))" by (auto simp: transitions_def)
  then show ?thesis by simp
qed

lemma phases_end:
  assumes ok: "phases_ok ps" and p: "p \<in> set ps"
  shows "\<exists>q \<in> set ps. (phy_ID p, phy_ID q) \<in> (transitions ps)\<^sup>* \<and> phy_AllowedTransitions q = []"
proof -
  have "wf ((transitions ps)\<inverse>)" using ok transitions_finite by (intro finite_acyclic_wf_converse) (auto simp: phases_ok_def)
  then show ?thesis using p
  proof (induction "phy_ID p" arbitrary: p rule: wf_induct_rule)
    case less
    show ?case
    proof (cases "phy_AllowedTransitions p")
      case (Cons t ts)
      with less.prems have e: "(phy_ID p, t) \<in> transitions ps" by (auto simp: transitions_def)
      then have "t \<in> snd ` transitions ps" by force
      with ok obtain p' where p': "p' \<in> set ps" "t = phy_ID p'" unfolding phases_ok_def by blast
      then have "(phy_ID p', phy_ID p) \<in> (transitions ps)\<inverse>" using e by simp
      from less.hyps [OF this p'(1)] obtain q where
        "q \<in> set ps" "(phy_ID p', phy_ID q) \<in> (transitions ps)\<^sup>*" "phy_AllowedTransitions q = []" by blast
      with e p' show ?thesis by (meson converse_rtrancl_into_rtrancl)
    qed (use less.prems in auto)
  qed
qed

section \<open>Properties\<close>

definition demo_phase :: "string \<Rightarrow> string list \<Rightarrow> PhaseTypeYAML" where
  "demo_phase i ts = \<lparr>phy_ID = i, phy_Label = i, phy_Order = 0, phy_IsBillable = True, phy_AllowedTransitions = ts\<rparr>"

definition demo_vertical :: VerticalYAML where
  "demo_vertical = \<lparr>vy_ID = ''film'', vy_Name = ''Film'', vy_Version = ''1'', vy_Description = '''',
     vy_EntityLabels = \<lparr>ely_Project = ''P'', ely_ProjectPlural = ''Ps'', ely_Phase = ''F'', ely_PhasePlural = ''Fs'',
       ely_TeamMember = ''M'', ely_TeamMemberPlural = ''Ms'', ely_RateLabel = ''R'', ely_RateUnit = ''day''\<rparr>,
     vy_PhaseTypes = [demo_phase ''prep'' [''shoot'', ''done''], demo_phase ''shoot'' [''done''], demo_phase ''done'' []],
     vy_BudgetCategories = [\<lparr>bcy_ID = ''cast'', bcy_Label = ''Cast'', bcy_Description = '''', bcy_DefaultAccountCode = ''5000''\<rparr>],
     vy_BudgetTemplates = [\<lparr>bty_Name = ''T'', bty_Description = '''', bty_LineItems =
       [\<lparr>tly_CategoryID = ''cast'', tly_Description = '''', tly_AccountCode = '''', tly_DefaultAmount = 0, tly_IsRequired = True\<rparr>]\<rparr>],
     vy_ExpenseCategories = [\<lparr>ecy_ID = ''meals'', ecy_Label = ''Meals'', ecy_TaxTreatment = ''none'', ecy_DefaultAccountCode = ''5000'',
       ecy_RequiresPO = False\<rparr>],
     vy_ApprovalWorkflow = \<lparr>awy_Limits = [\<lparr>aly_Role = ''manager'', aly_MaxAmount = 100\<rparr>], awy_DualApprovalAbove = 0\<rparr>,
     vy_InventoryCategories = [\<lparr>icy_ID = ''cam'', icy_Label = ''Camera'', icy_IsTrackable = True, icy_DepreciationYears = None\<rparr>],
     vy_ReportDefinitions = [\<lparr>rdy_ID = ''r'', rdy_Name = ''R'', rdy_Description = '''', rdy_DataSources = [], rdy_DefaultColumns = []\<rparr>],
     vy_CustomFields = None,
     vy_DefaultChartOfAccounts = [\<lparr>coa_Code = ''5000'', coa_Name = ''Cast'', coa_AccountType = ''expense'', coa_ParentCode = None\<rparr>],
     vy_RoleLabels = map_of (map (\<lambda>r. (r, r)) SystemRoleNames)\<rparr>"

lemma demo_vertical_accepted: "Validate rev demo_vertical = []"
  by code_simp

text \<open>
  C9: the search for cycles of validatePhaseTransitions (pkg/vertical/validator.go) always ends
  within as many nested calls as there are phases, and its flag is set exactly when the graph of the
  known transitions has a cycle, whatever the phases are (names that occur twice and references to
  unknown phases included).
\<close>

theorem cycle_search_is_exact:
  "(\<exists>st. dfs_all (length ps) (phase_adj ps) (phaseTypeIDs ps) (phaseTypeIDs ps) \<lparr>color = (\<lambda>_. 0), hasCycle = False\<rparr> = Some st)
   \<and> (cycle_found ps \<longleftrightarrow> \<not> acyclic (phase_edges (phase_adj ps) (phaseTypeIDs ps)))"
  using dfs_search_exact [of "phaseTypeIDs ps" "length ps" "phase_adj ps"] cycle_found_cyclic
  by (auto simp: phaseTypeIDs_def)

text \<open>
  C3: the verdict of Validate, in declarative terms. It reports no error for a definition exactly when
  the required fields and sections are there, the identifiers and names of phases, categories, templates
  and reports are unique, every account code, budget category and phase that is referred to exists, the
  unit of rates is one of four and every tax treatment empty or one of seven, the graph of phases has an
  end and no cycle, every system role has a label and every approval limit names a system role. The
  order in which Go ranges over the map of labels makes no difference. Nothing else counts, although
  the documentation of the schema asks for more: the custom fields have no influence (a select field without options
  passes), and of the chart of accounts only the set of its codes has (a code may occur twice, an
  account may have any type and parent).
\<close>

theorem Validate_verdict_exact:
  assumes "mset (order (entity_fields (vy_EntityLabels v))) = mset (entity_fields (vy_EntityLabels v))"
  shows "(Validate order v = [] \<longleftrightarrow> vertical_ok v)
     \<and> (\<forall>cf chart. coa_Code ` set chart = coa_Code ` set (vy_DefaultChartOfAccounts v) \<longrightarrow>
          (Validate order (v\<lparr>vy_CustomFields := cf, vy_DefaultChartOfAccounts := chart\<rparr>) = [] \<longleftrightarrow> vertical_ok v))"
proof -
  have "vertical_ok (v\<lparr>vy_CustomFields := cf, vy_DefaultChartOfAccounts := chart\<rparr>) = vertical_ok v"
    if "coa_Code ` set chart = coa_Code ` set (vy_DefaultChartOfAccounts v)" for cf chart
  proof -
    have "chart = [] \<longleftrightarrow> vy_DefaultChartOfAccounts v = []" using that by (metis image_is_empty set_empty)
    then show ?thesis using that by (simp add: vertical_ok_def budgets_ok_def expenses_ok_def roles_ok_def code_ok_def)
  qed
  then show ?thesis using assms by (simp add: Validate_none)
qed

theorem Validate_verdict_exact_witness:
  "Validate rev demo_vertical = [] \<and> vertical_ok demo_vertical
   \<and> Validate rev (demo_vertical\<lparr>vy_CustomFields := None,
        vy_DefaultChartOfAccounts := vy_DefaultChartOfAccounts demo_vertical @ vy_DefaultChartOfAccounts demo_vertical\<rparr>) = []"
  using Validate_verdict_exact [of rev demo_vertical] demo_vertical_accepted by auto

text \<open>
  C22: in a definition that Validate accepts no sequence of phase transitions goes on for ever, and
  from every phase some sequence of them leads to a terminal phase: no project can be stuck short of
  its end.
\<close>

theorem accepted_phases_reach_an_end:
  assumes "Validate order v = []"
    and "mset (order (entity_fields (vy_EntityLabels v))) = mset (entity_fields (vy_EntityLabels v))"
    and "p \<in> set (vy_PhaseTypes v)"
  shows "wf ((transitions (vy_PhaseTypes v))\<inverse>)
    \<and> (\<exists>q \<in> set (vy_PhaseTypes v).
         (phy_ID p, phy_ID q) \<in> (transitions (vy_PhaseTypes v))\<^sup>* \<and> phy_AllowedTransitions q = [])"
proof -
  have "vertical_ok v" using Validate_none [of order v] assms(1,2) by simp
  then have ok: "phases_ok (vy_PhaseTypes v)" by (simp add: vertical_ok_def)
  then show ?thesis
    using phases_end [OF ok assms(3)] finite_acyclic_wf_converse [OF transitions_finite] by (simp add: phases_ok_def)
qed

theorem accepted_phases_reach_an_end_witness:
  "\<exists>q \<in> set (vy_PhaseTypes demo_vertical).
     (''prep'', phy_ID q) \<in> (transitions (vy_PhaseTypes demo_vertical))\<^sup>* \<and> phy_AllowedTransitions q = []"
  using accepted_phases_reach_an_end [of rev demo_vertical "demo_phase ''prep'' [''shoot'', ''done'']"] demo_vertical_accepted
  by (simp add: demo_vertical_def demo_phase_def)

end
