(* ===== verification/ProjectDb.thy ===== *)
theory ProjectDb
  imports GoText
begin

text \<open>
  The data of the project service and its statements: the types of
  \<^verbatim>\<open>services/project/models.go\<close>, the rows of \<^verbatim>\<open>services/project/db/models.go\<close> and the
  statements of \<^verbatim>\<open>queries.sql.go\<close> over the tables of \<^verbatim>\<open>migrations/project\<close> with
  their constraints. A date is the text that \<^verbatim>\<open>time.DateOnly\<close> gives it.
\<close>

section \<open>Types of the service\<close>

record Production =
  prd_ID :: uuid
  prd_TenantID :: uuid
  prd_Title :: string
  prd_Slug :: string
  prd_Description :: string
  prd_Genre :: string
  prd_Language :: string
  prd_Status :: string
  prd_StartDate :: "string option"
  prd_EndDate :: "string option"
  prd_CreatedBy :: uuid
  prd_CreatedAt :: time
  prd_UpdatedAt :: time

record Phase =
  phs_ID :: uuid
  phs_ProductionID :: uuid
  phs_TenantID :: uuid
  phs_PhaseType :: string
  phs_Status :: string
  phs_StartDate :: "string option"
  phs_EndDate :: "string option"
  phs_CreatedAt :: time
  phs_UpdatedAt :: time

record CrewMember =
  crw_ID :: uuid
  crw_ProductionID :: uuid
  crw_TenantID :: uuid
  crw_UserID :: "uuid option"
  crw_Name :: string
  crw_Role :: string
  crw_Department :: string
  crw_DayRate :: decimal
  crw_Currency :: string
  crw_StartDate :: "string option"
  crw_EndDate :: "string option"
  crw_CreatedAt :: time

datatype project_sentinel =
  ErrProductionNotFound | ErrPhaseNotFound | ErrCrewNotFound | ErrInvalidPhaseType | ErrInvalidTransition
| ErrProductionArchived | ErrDuplicateSlug

type_synonym project_err = "project_sentinel goerr"

section \<open>Rows and tables\<close>

record production_row =
  dr_id :: uuid
  dr_tenant :: uuid
  dr_title :: string
  dr_slug :: string
  dr_description :: "string option"
  dr_genre :: "string option"
  dr_language :: "string option"
  dr_status :: string
  dr_start :: "string option"
  dr_end :: "string option"
  dr_created_by :: uuid
  dr_created :: time
  dr_updated :: time

record phase_row =
  hr_id :: uuid
  hr_production :: uuid
  hr_tenant :: uuid
  hr_type :: string
  hr_status :: string
  hr_start :: "string option"
  hr_end :: "string option"
  hr_created :: time
  hr_updated :: time

record crew_row =
  cw_id :: uuid
  cw_production :: uuid
  cw_tenant :: uuid
  cw_user :: "uuid option"
  cw_name :: string
  cw_role :: string
  cw_department :: "string option"
  cw_day_rate :: "decimal option"
  cw_currency :: "string option"
  cw_start :: "string option"
  cw_end :: "string option"
  cw_created :: time

datatype project_event = ProductionCreated Production | CrewMemberAdded CrewMember

record project_db = io +
  productions :: "production_row list"
  phases :: "phase_row list"
  crew_members :: "crew_row list"
  project_events :: "project_event list"

definition empty_projects :: project_db where
  "empty_projects = \<lparr>tick = 0, productions = [], phases = [], crew_members = [], project_events = []\<rparr>"

text \<open>The \<^verbatim>\<open>CHECK\<close> constraints of the two status columns.\<close>

definition production_statuses :: "string list" where
  "production_statuses = [''development'', ''pre_production'', ''production'', ''post_production'', ''released'', ''archived'']"

definition phase_statuses :: "string list" where
  "phase_statuses = [''pending'', ''active'', ''completed'']"

section \<open>Conversions\<close>

definition pgTextFromStr :: "string \<Rightarrow> string option" where
  "pgTextFromStr s = Some s"

definition strFromPgText :: "string option \<Rightarrow> string" where
  "strFromPgText t = (case t of None \<Rightarrow> '''' | Some s \<Rightarrow> s)"

text \<open>The parser of dates of the driver is an argument; a text that it rejects is no date.\<close>

definition pgDateFromPtr :: "(string \<Rightarrow> string option) \<Rightarrow> string option \<Rightarrow> string option" where
  "pgDateFromPtr scan s = (case s of None \<Rightarrow> None | Some d \<Rightarrow> if d = '''' then None else scan d)"

definition decimalFromPgNumeric :: "decimal option \<Rightarrow> decimal" where
  "decimalFromPgNumeric n = (case n of None \<Rightarrow> 0 | Some x \<Rightarrow> x)"

definition isUniqueViolation :: "db_error \<Rightarrow> bool" where
  "isUniqueViolation e = (case e of PgError c \<Rightarrow> c = ''23505'' | _ \<Rightarrow> False)"

definition productionFromDB :: "production_row \<Rightarrow> Production" where
  "productionFromDB r =
     \<lparr>prd_ID = dr_id r, prd_TenantID = dr_tenant r, prd_Title = dr_title r, prd_Slug = dr_slug r,
      prd_Description = strFromPgText (dr_description r), prd_Genre = strFromPgText (dr_genre r),
      prd_Language = strFromPgText (dr_language r), prd_Status = dr_status r, prd_StartDate = dr_start r,
      prd_EndDate = dr_end r, prd_CreatedBy = dr_created_by r, prd_CreatedAt = dr_created r, prd_UpdatedAt = dr_updated r\<rparr>"

definition phaseFromDB :: "phase_row \<Rightarrow> Phase" where
  "phaseFromDB r =
     \<lparr>phs_ID = hr_id r, phs_ProductionID = hr_production r, phs_TenantID = hr_tenant r, phs_PhaseType = hr_type r,
      phs_Status = hr_status r, phs_StartDate = hr_start r, phs_EndDate = hr_end r, phs_CreatedAt = hr_created r,
      phs_UpdatedAt = hr_updated r\<rparr>"

definition crewFromDB :: "crew_row \<Rightarrow> CrewMember" where
  "crewFromDB r =
     \<lparr>crw_ID = cw_id r, crw_ProductionID = cw_production r, crw_TenantID = cw_tenant r, crw_UserID = cw_user r,
      crw_Name = cw_name r, crw_Role = cw_role r, crw_Department = strFromPgText (cw_department r),
      crw_DayRate = decimalFromPgNumeric (cw_day_rate r), crw_Currency = strFromPgText (cw_currency r),
      crw_StartDate = cw_start r, crw_EndDate = cw_end r, crw_CreatedAt = cw_created r\<rparr>"

section \<open>Statements\<close>

subsection \<open>Productions\<close>

text \<open>
  Checks come before the indexes; a taken identifier makes the insert do nothing, so that no row
  comes back; a taken slug of the tenant is an error.
\<close>

definition q_CreateProduction :: "env \<Rightarrow> production_row \<Rightarrow> (project_db, db_error, production_row) op" where
  "q_CreateProduction en r0 = query en (\<lambda>now w.
     let r = r0\<lparr>dr_created := now, dr_updated := now\<rparr> in
     if dr_status r \<notin> set production_statuses then (Inl check_violation, w)
     else if \<exists>p \<in> set (productions w). dr_id p = dr_id r then (Inl ErrNoRows, w)
     else if \<exists>p \<in> set (productions w). dr_tenant p = dr_tenant r \<and> dr_slug p = dr_slug r then (Inl unique_violation, w)
     else (Inr r, w\<lparr>productions := productions w @ [r]\<rparr>))"

definition q_GetProduction :: "env \<Rightarrow> uuid \<Rightarrow> uuid \<Rightarrow> (project_db, db_error, production_row) op" where
  "q_GetProduction en i t = query en (\<lambda>_ w. (row_by (\<lambda>r. dr_id r = i \<and> dr_tenant r = t) (productions w), w))"

definition q_ListProductions ::
  "env \<Rightarrow> uuid \<Rightarrow> string \<Rightarrow> int \<Rightarrow> int \<Rightarrow> (project_db, db_error, production_row list) op" where
  "q_ListProductions en t st l ofs = query en (\<lambda>_ w.
     (page l ofs (sort_key (\<lambda>r. - dr_created r) (filter (\<lambda>r. dr_tenant r = t \<and> (st = '''' \<or> dr_status r = st)) (productions w))), w))"

text \<open>\<^verbatim>\<open>COALESCE(NULLIF($3, ''), title)\<close>\<close>

definition coalesce_text :: "string \<Rightarrow> string \<Rightarrow> string" where
  "coalesce_text new old = (if new = '''' then old else new)"

definition production_set ::
  "string \<Rightarrow> string option \<Rightarrow> string \<Rightarrow> string \<Rightarrow> string option \<Rightarrow> string option \<Rightarrow> time \<Rightarrow> production_row \<Rightarrow> production_row" where
  "production_set title descr genre st sd ed now r =
     r\<lparr>dr_title := coalesce_text title (dr_title r), dr_description := descr,
       dr_genre := (if genre = '''' then dr_genre r else Some genre), dr_status := coalesce_text st (dr_status r),
       dr_start := sd, dr_end := ed, dr_updated := now\<rparr>"

abbreviation set_productions :: "production_row list \<Rightarrow> project_db \<Rightarrow> project_db" where
  "set_productions rs w \<equiv> w\<lparr>productions := rs\<rparr>"

definition q_UpdateProduction ::
  "env \<Rightarrow> uuid \<Rightarrow> uuid \<Rightarrow> string \<Rightarrow> string option \<Rightarrow> string \<Rightarrow> string \<Rightarrow> string option \<Rightarrow> string option
     \<Rightarrow> (project_db, db_error, production_row) op" where
  "q_UpdateProduction en i t title descr genre st sd ed = query en (\<lambda>now.
     update_one (\<lambda>r. dr_id r = i \<and> dr_tenant r = t) (production_set title descr genre st sd ed now)
       (\<lambda>r. dr_status r \<in> set production_statuses) productions set_productions)"

definition q_ArchiveProduction :: "env \<Rightarrow> uuid \<Rightarrow> uuid \<Rightarrow> (project_db, db_error, production_row) op" where
  "q_ArchiveProduction en i t = query en (\<lambda>now.
     update_one (\<lambda>r. dr_id r = i \<and> dr_tenant r = t) (\<lambda>r. r\<lparr>dr_status := ''archived'', dr_updated := now\<rparr>)
       (\<lambda>r. dr_status r \<in> set production_statuses) productions set_productions)"

subsection \<open>Phases\<close>

definition q_CreatePhase :: "env \<Rightarrow> phase_row \<Rightarrow> (project_db, db_error, phase_row) op" where
  "q_CreatePhase en r0 = query en (\<lambda>now w.
     let r = r0\<lparr>hr_created := now, hr_updated := now\<rparr> in
     if hr_status r \<notin> set phase_statuses then (Inl check_violation, w)
     else if \<exists>p \<in> set (phases w). hr_id p = hr_id r then (Inl unique_violation, w)
     else if \<forall>p \<in> set (productions w). dr_id p \<noteq> hr_production r then (Inl fk_violation, w)
     else (Inr r, w\<lparr>phases := phases w @ [r]\<rparr>))"

definition q_GetPhase :: "env \<Rightarrow> uuid \<Rightarrow> uuid \<Rightarrow> (project_db, db_error, phase_row) op" where
  "q_GetPhase en i t = query en (\<lambda>_ w. (row_by (\<lambda>r. hr_id r = i \<and> hr_tenant r = t) (phases w), w))"

definition q_ListPhases :: "env \<Rightarrow> uuid \<Rightarrow> uuid \<Rightarrow> int \<Rightarrow> int \<Rightarrow> (project_db, db_error, phase_row list) op" where
  "q_ListPhases en production t l ofs = query en (\<lambda>_ w.
     (page l ofs (sort_key hr_created (filter (\<lambda>r. hr_production r = production \<and> hr_tenant r = t) (phases w))), w))"

abbreviation set_phases :: "phase_row list \<Rightarrow> project_db \<Rightarrow> project_db" where
  "set_phases rs w \<equiv> w\<lparr>phases := rs\<rparr>"

definition q_UpdatePhaseStatus :: "env \<Rightarrow> uuid \<Rightarrow> string \<Rightarrow> uuid \<Rightarrow> (project_db, db_error, phase_row) op" where
  "q_UpdatePhaseStatus en i st t = query en (\<lambda>now.
     update_one (\<lambda>r. hr_id r = i \<and> hr_tenant r = t) (\<lambda>r. r\<lparr>hr_status := st, hr_updated := now\<rparr>)
       (\<lambda>r. hr_status r \<in> set phase_statuses) phases set_phases)"

subsection \<open>Crew\<close>

definition q_AddCrewMember :: "env \<Rightarrow> crew_row \<Rightarrow> (project_db, db_error, crew_row) op" where
  "q_AddCrewMember en r0 = query en (\<lambda>now w.
     case numeric_14_2 (decimalFromPgNumeric (cw_day_rate r0)) of Inl e \<Rightarrow> (Inl e, w) | Inr rate \<Rightarrow>
       let r = r0\<lparr>cw_day_rate := Some rate, cw_created := now\<rparr> in
       if \<exists>c \<in> set (crew_members w). cw_id c = cw_id r then (Inl ErrNoRows, w)
       else if \<forall>p \<in> set (productions w). dr_id p \<noteq> cw_production r then (Inl fk_violation, w)
       else (Inr r, w\<lparr>crew_members := crew_members w @ [r]\<rparr>))"

text \<open>Texts are ordered by their bytes.\<close>

definition q_ListCrewMembers :: "env \<Rightarrow> uuid \<Rightarrow> uuid \<Rightarrow> int \<Rightarrow> int \<Rightarrow> (project_db, db_error, crew_row list) op" where
  "q_ListCrewMembers en production t l ofs = query en (\<lambda>_ w.
     (page l ofs (sort_key cw_name (filter (\<lambda>r. cw_production r = production \<and> cw_tenant r = t) (crew_members w))), w))"

text \<open>The deletion tells how many rows it affected.\<close>

definition q_RemoveCrewMember :: "env \<Rightarrow> uuid \<Rightarrow> uuid \<Rightarrow> (project_db, db_error, nat) op" where
  "q_RemoveCrewMember en i t = query en (\<lambda>_ w.
     let gone = (\<lambda>r. cw_id r = i \<and> cw_tenant r = t) in
     (Inr (length (filter gone (crew_members w))), w\<lparr>crew_members := filter (\<lambda>r. \<not> gone r) (crew_members w)\<rparr>))"

end
