(* ===== verification/ProjectService.thy ===== *)
theory ProjectService
  imports ProjectDb Interceptor
begin

text \<open>
  The repository (\<^verbatim>\<open>services/project/db/postgres.go\<close>) and the service
  (\<^verbatim>\<open>services/project/service.go\<close>) of projects: productions, their phases, whose transitions
  the vertical configuration allows, and their crew.
\<close>

section \<open>Repository\<close>

definition pg_CreateProduction ::
  "env \<Rightarrow> (string \<Rightarrow> string option) \<Rightarrow> Production \<Rightarrow> (project_db, project_err, unit) op" where
  "pg_CreateProduction en scan p =
     andThen (onErr (\<lambda>err. if isUniqueViolation err then Sentinel ErrDuplicateSlug
                           else Wrap ''project: create production'' (DbErr err))
       (q_CreateProduction en
         \<lparr>dr_id = prd_ID p, dr_tenant = prd_TenantID p, dr_title = prd_Title p, dr_slug = prd_Slug p,
          dr_description = pgTextFromStr (prd_Description p), dr_genre = pgTextFromStr (prd_Genre p),
          dr_language = pgTextFromStr (prd_Language p), dr_status = prd_Status p,
          dr_start = pgDateFromPtr scan (prd_StartDate p), dr_end = pgDateFromPtr scan (prd_EndDate p),
          dr_created_by = prd_CreatedBy p, dr_created = 0, dr_updated = 0\<rparr>)) (\<lambda>_. ret ())"

definition pg_GetProduction :: "env \<Rightarrow> uuid \<Rightarrow> uuid \<Rightarrow> (project_db, project_err, Production) op" where
  "pg_GetProduction en t i =
     andThen (onErr (noRows ErrProductionNotFound ''project: get production'') (q_GetProduction en i t))
       (\<lambda>row. ret (productionFromDB row))"

definition pg_ListProductions ::
  "env \<Rightarrow> uuid \<Rightarrow> string \<Rightarrow> int \<Rightarrow> int \<Rightarrow> (project_db, project_err, Production list) op" where
  "pg_ListProductions en t st limit ofs =
     andThen (onErr (wrapDb ''project: list productions'') (q_ListProductions en t st (int32 limit) (int32 ofs)))
       (\<lambda>rows. ret (map productionFromDB rows))"

definition pg_UpdateProduction ::
  "env \<Rightarrow> (string \<Rightarrow> string option) \<Rightarrow> Production \<Rightarrow> (project_db, project_err, unit) op" where
  "pg_UpdateProduction en scan p =
     andThen (onErr (noRows ErrProductionNotFound ''project: update production'')
       (q_UpdateProduction en (prd_ID p) (prd_TenantID p) (prd_Title p) (pgTextFromStr (prd_Description p))
         (prd_Genre p) (prd_Status p) (pgDateFromPtr scan (prd_StartDate p)) (pgDateFromPtr scan (prd_EndDate p))))
       (\<lambda>_. ret ())"

definition pg_ArchiveProduction :: "env \<Rightarrow> uuid \<Rightarrow> uuid \<Rightarrow> (project_db, project_err, unit) op" where
  "pg_ArchiveProduction en t i =
     andThen (onErr (noRows ErrProductionNotFound ''project: archive production'') (q_ArchiveProduction en i t))
       (\<lambda>_. ret ())"

definition pg_CreatePhase ::
  "env \<Rightarrow> (string \<Rightarrow> string option) \<Rightarrow> Phase \<Rightarrow> (project_db, project_err, unit) op" where
  "pg_CreatePhase en scan p =
     andThen (onErr (wrapDb ''project: create phase'')
       (q_CreatePhase en
         \<lparr>hr_id = phs_ID p, hr_production = phs_ProductionID p, hr_tenant = phs_TenantID p, hr_type = phs_PhaseType p,
          hr_status = phs_Status p, hr_start = pgDateFromPtr scan (phs_StartDate p),
          hr_end = pgDateFromPtr scan (phs_EndDate p), hr_created = 0, hr_updated = 0\<rparr>)) (\<lambda>_. ret ())"

definition pg_GetPhase :: "env \<Rightarrow> uuid \<Rightarrow> uuid \<Rightarrow> (project_db, project_err, Phase) op" where
  "pg_GetPhase en t i =
     andThen (onErr (noRows ErrPhaseNotFound ''project: get phase'') (q_GetPhase en i t)) (\<lambda>row. ret (phaseFromDB row))"

definition pg_ListPhases :: "env \<Rightarrow> uuid \<Rightarrow> uuid \<Rightarrow> int \<Rightarrow> int \<Rightarrow> (project_db, project_err, Phase list) op" where
  "pg_ListPhases en t production limit ofs =
     andThen (onErr (wrapDb ''project: list phases'') (q_ListPhases en production t (int32 limit) (int32 ofs)))
       (\<lambda>rows. ret (map phaseFromDB rows))"

definition pg_UpdatePhaseStatus :: "env \<Rightarrow> uuid \<Rightarrow> uuid \<Rightarrow> string \<Rightarrow> (project_db, project_err, unit) op" where
  "pg_UpdatePhaseStatus en t i st =
     andThen (onErr (noRows ErrPhaseNotFound ''project: update phase status'') (q_UpdatePhaseStatus en i st t))
       (\<lambda>_. ret ())"

definition pg_AddCrewMember ::
  "env \<Rightarrow> (string \<Rightarrow> string option) \<Rightarrow> CrewMember \<Rightarrow> (project_db, project_err, unit) op" where
  "pg_AddCrewMember en scan c =
     andThen (onErr (wrapDb ''project: add crew member'')
       (q_AddCrewMember en
         \<lparr>cw_id = crw_ID c, cw_production = crw_ProductionID c, cw_tenant = crw_TenantID c, cw_user = crw_UserID c,
          cw_name = crw_Name c, cw_role = crw_Role c, cw_department = pgTextFromStr (crw_Department c),
          cw_day_rate = Some (crw_DayRate c), cw_currency = pgTextFromStr (crw_Currency c),
          cw_start = pgDateFromPtr scan (crw_StartDate c), cw_end = pgDateFromPtr scan (crw_EndDate c),
          cw_created = 0\<rparr>)) (\<lambda>_. ret ())"

definition pg_ListCrewMembers :: "env \<Rightarrow> uuid \<Rightarrow> uuid \<Rightarrow> int \<Rightarrow> int \<Rightarrow> (project_db, project_err, CrewMember list) op" where
  "pg_ListCrewMembers en t production limit ofs =
     andThen (onErr (wrapDb ''project: list crew members'') (q_ListCrewMembers en production t (int32 limit) (int32 ofs)))
       (\<lambda>rows. ret (map crewFromDB rows))"

definition pg_RemoveCrewMember :: "env \<Rightarrow> uuid \<Rightarrow> uuid \<Rightarrow> (project_db, project_err, unit) op" where
  "pg_RemoveCrewMember en t i =
     andThen (onErr (wrapDb ''project: remove crew member'') (q_RemoveCrewMember en i t))
       (\<lambda>n. if n = 0 then fail (Sentinel ErrCrewNotFound) else ret ())"

section \<open>Service\<close>

definition publish :: "bool \<Rightarrow> project_event \<Rightarrow> (project_db, project_err, unit) op" where
  "publish pub ev = (if pub then modify (\<lambda>w. w\<lparr>project_events := project_events w @ [ev]\<rparr>) else ret ())"

text \<open>The creating methods work on the caller's struct, so the model returns the struct as it was changed.\<close>

definition svc_CreateProduction ::
  "env \<Rightarrow> bool \<Rightarrow> (string \<Rightarrow> string option) \<Rightarrow> Production \<Rightarrow> (project_db, project_err, Production) op" where
  "svc_CreateProduction en pub scan p =
     andThen (id_or_New en (prd_ID p))
       (\<lambda>i. let p' = p\<lparr>prd_ID := i\<rparr> in
          andThen (pg_CreateProduction en scan p')
            (\<lambda>_. andThen (publish pub (ProductionCreated p')) (\<lambda>_. ret p')))"

definition svc_GetProduction :: "env \<Rightarrow> uuid \<Rightarrow> uuid \<Rightarrow> (project_db, project_err, Production) op" where
  "svc_GetProduction en t i = pg_GetProduction en t i"

definition svc_ListProductions ::
  "env \<Rightarrow> uuid \<Rightarrow> string \<Rightarrow> int \<Rightarrow> int \<Rightarrow> (project_db, project_err, Production list) op" where
  "svc_ListProductions en t st limit ofs =
     (let limit' = (if limit \<le> 0 \<or> limit > 100 then 20 else limit) in pg_ListProductions en t st limit' ofs)"

definition svc_CreatePhase ::
  "env \<Rightarrow> (string \<Rightarrow> string option) \<Rightarrow> ctx \<Rightarrow> Phase \<Rightarrow> (project_db, project_err, Phase) op" where
  "svc_CreatePhase en scan ctx p =
     andThen (MustFromContext ctx)
       (\<lambda>vcfg. case FindPhaseType vcfg (phs_PhaseType p) of
          None \<Rightarrow> fail (Wrap ''is not valid for vertical'' (Sentinel ErrInvalidPhaseType))
        | Some pt \<Rightarrow> andThen (id_or_New en (phs_ID p))
            (\<lambda>i. let p' = p\<lparr>phs_ID := i\<rparr> in andThen (pg_CreatePhase en scan p') (\<lambda>_. ret p')))"

definition svc_GetPhase :: "env \<Rightarrow> uuid \<Rightarrow> uuid \<Rightarrow> (project_db, project_err, Phase) op" where
  "svc_GetPhase en t i = pg_GetPhase en t i"

definition svc_ListPhases :: "env \<Rightarrow> uuid \<Rightarrow> uuid \<Rightarrow> int \<Rightarrow> int \<Rightarrow> (project_db, project_err, Phase list) op" where
  "svc_ListPhases en t production limit ofs = pg_ListPhases en t production limit ofs"

definition svc_UpdatePhaseStatus ::
  "env \<Rightarrow> ctx \<Rightarrow> uuid \<Rightarrow> uuid \<Rightarrow> string \<Rightarrow> (project_db, project_err, unit) op" where
  "svc_UpdatePhaseStatus en ctx t phaseID newPhaseType =
     andThen (MustFromContext ctx)
       (\<lambda>vcfg. andThen (onErr (Wrap ''get phase'') (pg_GetPhase en t phaseID))
         (\<lambda>phase. case FindPhaseType vcfg (phs_PhaseType phase) of
            None \<Rightarrow> fail (Wrap ''current phase type not found'' (Sentinel ErrInvalidPhaseType))
          | Some currentPT \<Rightarrow>
              if \<not> CanTransitionTo currentPT newPhaseType
              then fail (Wrap ''cannot transition'' (Sentinel ErrInvalidTransition))
              else (case FindPhaseType vcfg newPhaseType of
                      None \<Rightarrow> fail (Wrap ''target is not valid'' (Sentinel ErrInvalidPhaseType))
                    | Some targetPT \<Rightarrow> pg_UpdatePhaseStatus en t phaseID newPhaseType)))"

definition svc_GetEntityLabels :: "ctx \<Rightarrow> (project_db, project_err, EntityLabels) op" where
  "svc_GetEntityLabels ctx = andThen (MustFromContext ctx) (\<lambda>vcfg. ret (vc_EntityLabels vcfg))"

definition svc_GetPhaseTypes :: "ctx \<Rightarrow> (project_db, project_err, PhaseType list) op" where
  "svc_GetPhaseTypes ctx = andThen (MustFromContext ctx) (\<lambda>vcfg. ret (vc_PhaseTypes vcfg))"

definition svc_UpdateProduction ::
  "env \<Rightarrow> (string \<Rightarrow> string option) \<Rightarrow> Production \<Rightarrow> (project_db, project_err, unit) op" where
  "svc_UpdateProduction en scan p = pg_UpdateProduction en scan p"

definition svc_ArchiveProduction :: "env \<Rightarrow> uuid \<Rightarrow> uuid \<Rightarrow> (project_db, project_err, unit) op" where
  "svc_ArchiveProduction en t i = pg_ArchiveProduction en t i"

definition svc_AddCrewMember ::
  "env \<Rightarrow> bool \<Rightarrow> (string \<Rightarrow> string option) \<Rightarrow> CrewMember \<Rightarrow> (project_db, project_err, CrewMember) op" where
  "svc_AddCrewMember en pub scan c =
     andThen (id_or_New en (crw_ID c))
       (\<lambda>i. let c' = c\<lparr>crw_ID := i\<rparr> in
          andThen (pg_AddCrewMember en scan c')
            (\<lambda>_. andThen (publish pub (CrewMemberAdded c')) (\<lambda>_. ret c')))"

definition svc_ListCrewMembers ::
  "env \<Rightarrow> uuid \<Rightarrow> uuid \<Rightarrow> int \<Rightarrow> int \<Rightarrow> (project_db, project_err, CrewMember list) op" where
  "svc_ListCrewMembers en t production limit ofs =
     (let limit' = (if limit \<le> 0 \<or> limit > 200 then 50 else limit) in pg_ListCrewMembers en t production limit' ofs)"

definition svc_RemoveCrewMember :: "env \<Rightarrow> uuid \<Rightarrow> uuid \<Rightarrow> (project_db, project_err, unit) op" where
  "svc_RemoveCrewMember en t i = pg_RemoveCrewMember en t i"

end
