(* ===== verification/ProjectInv.thy ===== *)
theory ProjectInv
  imports ProjectService Service_Spec
begin

text \<open>
  Runs of the project service: a request for every method of \<^verbatim>\<open>service.go\<close>, the step relation
  to which every request reduces whatever round trips fail, the invariant of the tables and the
  frame of other tenants. The contract \<open>step_service\<close> is interpreted on them.
\<close>

section \<open>Requests\<close>

datatype project_req =
  CreateProduction Production | GetProduction uuid uuid | ListProductions uuid string int int
| UpdateProduction Production | ArchiveProduction uuid uuid
| CreatePhase ctx Phase | GetPhase uuid uuid | ListPhases uuid uuid int int | UpdatePhaseStatus ctx uuid uuid string
| AddCrewMember CrewMember | ListCrewMembers uuid uuid int int | RemoveCrewMember uuid uuid

fun preq_tenant :: "project_req \<Rightarrow> uuid" where
  "preq_tenant (CreateProduction p) = prd_TenantID p"
| "preq_tenant (GetProduction t _) = t"
| "preq_tenant (ListProductions t _ _ _) = t"
| "preq_tenant (UpdateProduction p) = prd_TenantID p"
| "preq_tenant (ArchiveProduction t _) = t"
| "preq_tenant (CreatePhase _ p) = phs_TenantID p"
| "preq_tenant (GetPhase t _) = t"
| "preq_tenant (ListPhases t _ _ _) = t"
| "preq_tenant (UpdatePhaseStatus _ t _ _) = t"
| "preq_tenant (AddCrewMember c) = crw_TenantID c"
| "preq_tenant (ListCrewMembers t _ _ _) = t"
| "preq_tenant (RemoveCrewMember t _) = t"

fun exec_project :: "env \<Rightarrow> bool \<Rightarrow> (string \<Rightarrow> string option) \<Rightarrow> project_req \<Rightarrow> project_db \<Rightarrow> project_db" where
  "exec_project en pub scan (CreateProduction p) w = snd (svc_CreateProduction en pub scan p w)"
| "exec_project en pub scan (GetProduction t i) w = snd (svc_GetProduction en t i w)"
| "exec_project en pub scan (ListProductions t st l ofs) w = snd (svc_ListProductions en t st l ofs w)"
| "exec_project en pub scan (UpdateProduction p) w = snd (svc_UpdateProduction en scan p w)"
| "exec_project en pub scan (ArchiveProduction t i) w = snd (svc_ArchiveProduction en t i w)"
| "exec_project en pub scan (CreatePhase ctx p) w = snd (svc_CreatePhase en scan ctx p w)"
| "exec_project en pub scan (GetPhase t i) w = snd (svc_GetPhase en t i w)"
| "exec_project en pub scan (ListPhases t pr l ofs) w = snd (svc_ListPhases en t pr l ofs w)"
| "exec_project en pub scan (UpdatePhaseStatus ctx t i ty) w = snd (svc_UpdatePhaseStatus en ctx t i ty w)"
| "exec_project en pub scan (AddCrewMember c) w = snd (svc_AddCrewMember en pub scan c w)"
| "exec_project en pub scan (ListCrewMembers t pr l ofs) w = snd (svc_ListCrewMembers en t pr l ofs w)"
| "exec_project en pub scan (RemoveCrewMember t i) w = snd (svc_RemoveCrewMember en t i w)"

section \<open>Reads and failures\<close>

lemmas project_repo_defs = pg_CreateProduction_def pg_GetProduction_def pg_ListProductions_def pg_UpdateProduction_def
  pg_ArchiveProduction_def pg_CreatePhase_def pg_GetPhase_def pg_ListPhases_def pg_UpdatePhaseStatus_def
  pg_AddCrewMember_def pg_ListCrewMembers_def pg_RemoveCrewMember_def

lemma project_q_reads [same_intros]:
  "same untick (q_GetProduction en i t)" "same untick (q_ListProductions en t st l ofs)"
  "same untick (q_GetPhase en i t)" "same untick (q_ListPhases en pr t l ofs)" "same untick (q_ListCrewMembers en pr t l ofs)"
  unfolding q_GetProduction_def q_ListProductions_def q_GetPhase_def q_ListPhases_def q_ListCrewMembers_def
  by (rule same_query, simp add: same_def)+

lemma project_pg_reads [same_intros]:
  "same untick (pg_GetProduction en t i)" "same untick (pg_ListProductions en t st l ofs)"
  "same untick (pg_GetPhase en t i)" "same untick (pg_ListPhases en t pr l ofs)" "same untick (pg_ListCrewMembers en t pr l ofs)"
  unfolding project_repo_defs by (intro same_intros)+

lemma project_reads [same_intros]:
  "same untick (svc_GetProduction en t i)" "same untick (svc_ListProductions en t st l ofs)"
  "same untick (svc_GetPhase en t i)" "same untick (svc_ListPhases en t pr l ofs)" "same untick (svc_ListCrewMembers en t pr l ofs)"
  unfolding svc_GetProduction_def svc_ListProductions_def svc_GetPhase_def svc_ListPhases_def svc_ListCrewMembers_def Let_def
  by (intro same_intros)+

lemma project_q_atomic [atomic_intros]:
  "atomic untick (q_CreateProduction en r)" "atomic untick (q_UpdateProduction en i t ti d g st sd ed)"
  "atomic untick (q_ArchiveProduction en i t)" "atomic untick (q_CreatePhase en r')"
  "atomic untick (q_UpdatePhaseStatus en i st t)" "atomic untick (q_AddCrewMember en r'')"
proof -
  show "atomic untick (q_CreateProduction en r)"
    unfolding q_CreateProduction_def by (intro atomic_intros) (auto simp: atomic_def Let_def split: if_splits)
  show "atomic untick (q_CreatePhase en r')"
    unfolding q_CreatePhase_def by (intro atomic_intros) (auto simp: atomic_def Let_def split: if_splits)
  show "atomic untick (q_AddCrewMember en r'')"
    unfolding q_AddCrewMember_def by (intro atomic_intros) (auto simp: atomic_def Let_def split: sum.splits if_splits)
qed (unfold q_UpdateProduction_def q_ArchiveProduction_def q_UpdatePhaseStatus_def, (intro atomic_intros)+)

text \<open>A deletion that found nothing has changed nothing.\<close>

lemma atomic_pg_RemoveCrewMember [atomic_intros]: "atomic untick (pg_RemoveCrewMember en t i)"
proof -
  have "filter (\<lambda>r. \<not> p r) xs = xs" if "length (filter p xs) = 0" for p :: "crew_row \<Rightarrow> bool" and xs
    using that by (induction xs) (auto split: if_splits)
  then show ?thesis
    by (fastforce simp: atomic_def pg_RemoveCrewMember_def q_RemoveCrewMember_def andThen_def onErr_def query_def Let_def untick_def
        split: prod.splits sum.splits if_splits)
qed

lemma project_pg_atomic [atomic_intros]:
  "atomic untick (pg_CreateProduction en scan p)" "atomic untick (pg_UpdateProduction en scan p)"
  "atomic untick (pg_ArchiveProduction en t i)" "atomic untick (pg_CreatePhase en scan ph)"
  "atomic untick (pg_UpdatePhaseStatus en t i st)" "atomic untick (pg_AddCrewMember en scan c)"
  unfolding project_repo_defs by (intro atomic_intros)+

lemma project_then_publish [atomic_intros]:
  "atomic V m \<Longrightarrow> atomic V (andThen m (\<lambda>_. andThen (publish pub ev) (\<lambda>_. ret x)))"
  by (rule atomic_last; simp add: publish_def andThen_def)

lemma project_svc_atomic:
  "atomic untick (svc_CreateProduction en pub scan p)" "atomic untick (svc_UpdateProduction en scan p)"
  "atomic untick (svc_ArchiveProduction en t i)" "atomic untick (svc_CreatePhase en scan ctx ph)"
  "atomic untick (svc_UpdatePhaseStatus en ctx t i ty)" "atomic untick (svc_AddCrewMember en pub scan c)"
  "atomic untick (svc_RemoveCrewMember en t i)"
  unfolding svc_CreateProduction_def svc_UpdateProduction_def svc_ArchiveProduction_def svc_CreatePhase_def
    svc_UpdatePhaseStatus_def svc_AddCrewMember_def svc_RemoveCrewMember_def Let_def
  by (intro atomic_intros atomic_seq [OF same_MustFromContext] atomic_seq [OF same_id_or_New]
        atomic_seq [OF same_onErr [OF project_pg_reads(3)]])+

section \<open>Steps\<close>

abbreviation own_production :: "uuid \<Rightarrow> uuid \<Rightarrow> production_row \<Rightarrow> bool" where
  "own_production t i r \<equiv> dr_id r = i \<and> dr_tenant r = t"

abbreviation own_phase :: "uuid \<Rightarrow> uuid \<Rightarrow> phase_row \<Rightarrow> bool" where
  "own_phase t i r \<equiv> hr_id r = i \<and> hr_tenant r = t"

abbreviation own_crew :: "uuid \<Rightarrow> uuid \<Rightarrow> crew_row \<Rightarrow> bool" where
  "own_crew t i r \<equiv> cw_id r = i \<and> cw_tenant r = t"

text \<open>The rows that the inserts store.\<close>

definition production_row_of :: "(string \<Rightarrow> string option) \<Rightarrow> Production \<Rightarrow> time \<Rightarrow> production_row" where
  "production_row_of scan p now =
     \<lparr>dr_id = prd_ID p, dr_tenant = prd_TenantID p, dr_title = prd_Title p, dr_slug = prd_Slug p,
      dr_description = Some (prd_Description p), dr_genre = Some (prd_Genre p),
      dr_language = Some (prd_Language p), dr_status = prd_Status p,
      dr_start = pgDateFromPtr scan (prd_StartDate p), dr_end = pgDateFromPtr scan (prd_EndDate p),
      dr_created_by = prd_CreatedBy p, dr_created = now, dr_updated = now\<rparr>"

definition phase_row_of :: "(string \<Rightarrow> string option) \<Rightarrow> Phase \<Rightarrow> time \<Rightarrow> phase_row" where
  "phase_row_of scan p now =
     \<lparr>hr_id = phs_ID p, hr_production = phs_ProductionID p, hr_tenant = phs_TenantID p, hr_type = phs_PhaseType p,
      hr_status = phs_Status p, hr_start = pgDateFromPtr scan (phs_StartDate p),
      hr_end = pgDateFromPtr scan (phs_EndDate p), hr_created = now, hr_updated = now\<rparr>"

definition crew_row_of :: "(string \<Rightarrow> string option) \<Rightarrow> CrewMember \<Rightarrow> time \<Rightarrow> crew_row" where
  "crew_row_of scan c now =
     \<lparr>cw_id = crw_ID c, cw_production = crw_ProductionID c, cw_tenant = crw_TenantID c, cw_user = crw_UserID c,
      cw_name = crw_Name c, cw_role = crw_Role c, cw_department = Some (crw_Department c),
      cw_day_rate = Some (round2 (crw_DayRate c)), cw_currency = Some (crw_Currency c),
      cw_start = pgDateFromPtr scan (crw_StartDate c), cw_end = pgDateFromPtr scan (crw_EndDate c), cw_created = now\<rparr>"

definition production_free :: "project_db \<Rightarrow> production_row \<Rightarrow> bool" where
  "production_free w r \<longleftrightarrow> dr_status r \<in> set production_statuses \<and> (\<forall>p \<in> set (productions w). dr_id p \<noteq> dr_id r)
     \<and> (\<forall>p \<in> set (productions w). \<not> (dr_tenant p = dr_tenant r \<and> dr_slug p = dr_slug r))"

definition phase_free :: "project_db \<Rightarrow> phase_row \<Rightarrow> bool" where
  "phase_free w r \<longleftrightarrow> hr_status r \<in> set phase_statuses \<and> (\<forall>p \<in> set (phases w). hr_id p \<noteq> hr_id r)
     \<and> (\<exists>p \<in> set (productions w). dr_id p = hr_production r)"

definition crew_free :: "project_db \<Rightarrow> crew_row \<Rightarrow> bool" where
  "crew_free w r \<longleftrightarrow> (\<forall>c \<in> set (crew_members w). cw_id c \<noteq> cw_id r) \<and> (\<exists>p \<in> set (productions w). dr_id p = cw_production r)"

text \<open>What the configuration allows of a phase with a type.\<close>

definition may_become :: "Config \<Rightarrow> string \<Rightarrow> string \<Rightarrow> bool" where
  "may_become vcfg ty ty' \<longleftrightarrow> (\<exists>pt. FindPhaseType vcfg ty = Some pt \<and> ty' \<in> set (ph_AllowedTransitions pt))
     \<and> FindPhaseType vcfg ty' \<noteq> None"

inductive project_step :: "uuid \<Rightarrow> project_db \<Rightarrow> project_db \<Rightarrow> bool" for t :: uuid where
  create_production: "production_free w (production_row_of scan p now) \<Longrightarrow> prd_TenantID p = t \<Longrightarrow> set evs \<subseteq> {ProductionCreated p} \<Longrightarrow>
    project_step t w (w\<lparr>productions := productions w @ [production_row_of scan p now], project_events := project_events w @ evs\<rparr>)"
| update_production: "r \<in> set (productions w) \<Longrightarrow> own_production t i r \<Longrightarrow> coalesce_text st (dr_status r) \<in> set production_statuses \<Longrightarrow>
    project_step t w (w\<lparr>productions := update_rows (own_production t i) (production_set ti d g st sd ed now) (productions w)\<rparr>)"
| archive_production: "project_step t w (w\<lparr>productions :=
    update_rows (own_production t i) (\<lambda>r. r\<lparr>dr_status := ''archived'', dr_updated := now\<rparr>) (productions w)\<rparr>)"
| create_phase: "phase_free w (phase_row_of scan p now) \<Longrightarrow> phs_TenantID p = t \<Longrightarrow> FindPhaseType vcfg (phs_PhaseType p) \<noteq> None \<Longrightarrow>
    project_step t w (w\<lparr>phases := phases w @ [phase_row_of scan p now]\<rparr>)"
| update_phase: "r \<in> set (phases w) \<Longrightarrow> own_phase t i r \<Longrightarrow> may_become vcfg (hr_type r) ty \<Longrightarrow> ty \<in> set phase_statuses \<Longrightarrow>
    project_step t w (w\<lparr>phases := update_rows (own_phase t i) (\<lambda>r. r\<lparr>hr_status := ty, hr_updated := now\<rparr>) (phases w)\<rparr>)"
| add_crew: "crew_free w (crew_row_of scan c now) \<Longrightarrow> crw_TenantID c = t \<Longrightarrow> set evs \<subseteq> {CrewMemberAdded c} \<Longrightarrow>
    project_step t w (w\<lparr>crew_members := crew_members w @ [crew_row_of scan c now], project_events := project_events w @ evs\<rparr>)"
| remove_crew: "project_step t w (w\<lparr>crew_members := filter (\<lambda>r. \<not> own_crew t i r) (crew_members w)\<rparr>)"

inductive_cases project_stepE: "project_step t w w'"

section \<open>What a success did\<close>

lemma pg_CreateProduction_Inr:
  assumes "pg_CreateProduction en scan p w = (Inr u, w')"
  shows "\<exists>now. production_free w (production_row_of scan p now)
    \<and> untick w' = untick (w\<lparr>productions := productions w @ [production_row_of scan p now]\<rparr>)"
  using assms
  by (auto simp: project_repo_defs q_CreateProduction_def onErr_InrD Let_def production_free_def production_row_of_def
      pgTextFromStr_def untick_def intro!: exI [of _ "env_now en (tick w)"] elim!: andThen_InrE query_InrE split: if_splits)

lemma pg_CreatePhase_Inr:
  assumes "pg_CreatePhase en scan p w = (Inr u, w')"
  shows "\<exists>now. phase_free w (phase_row_of scan p now) \<and> untick w' = untick (w\<lparr>phases := phases w @ [phase_row_of scan p now]\<rparr>)"
  using assms
  by (auto simp: project_repo_defs q_CreatePhase_def onErr_InrD Let_def phase_free_def phase_row_of_def untick_def
      intro!: exI [of _ "env_now en (tick w)"] elim!: andThen_InrE query_InrE split: if_splits)

lemma pg_AddCrewMember_Inr:
  assumes "pg_AddCrewMember en scan c w = (Inr u, w')"
  shows "\<exists>now. crew_free w (crew_row_of scan c now)
    \<and> untick w' = untick (w\<lparr>crew_members := crew_members w @ [crew_row_of scan c now]\<rparr>)"
  using assms
  by (auto simp: project_repo_defs q_AddCrewMember_def onErr_InrD Let_def crew_free_def crew_row_of_def untick_def pgTextFromStr_def
      decimalFromPgNumeric_def dest!: numeric_14_2_Inr
      intro!: exI [of _ "env_now en (tick w)"] elim!: andThen_InrE query_InrE split: if_splits sum.splits)

lemma pg_Update_Inr:
  "pg_UpdateProduction en scan p w = (Inr u, w') \<Longrightarrow> \<exists>now r. row_by (own_production (prd_TenantID p) (prd_ID p)) (productions w) = Inr r
     \<and> coalesce_text (prd_Status p) (dr_status r) \<in> set production_statuses
     \<and> untick w' = untick (w\<lparr>productions := update_rows (own_production (prd_TenantID p) (prd_ID p))
         (production_set (prd_Title p) (Some (prd_Description p)) (prd_Genre p) (prd_Status p)
            (pgDateFromPtr scan (prd_StartDate p)) (pgDateFromPtr scan (prd_EndDate p)) now) (productions w)\<rparr>)"
  "pg_ArchiveProduction en t i w = (Inr u, w') \<Longrightarrow> \<exists>now. untick w' = untick (w\<lparr>productions :=
         update_rows (own_production t i) (\<lambda>r. r\<lparr>dr_status := ''archived'', dr_updated := now\<rparr>) (productions w)\<rparr>)"
  "pg_UpdatePhaseStatus en t i ty w = (Inr u, w') \<Longrightarrow> \<exists>now r. row_by (own_phase t i) (phases w) = Inr r \<and> ty \<in> set phase_statuses
     \<and> untick w' = untick (w\<lparr>phases := update_rows (own_phase t i) (\<lambda>r. r\<lparr>hr_status := ty, hr_updated := now\<rparr>) (phases w)\<rparr>)"
  by (auto simp: project_repo_defs q_UpdateProduction_def q_ArchiveProduction_def q_UpdatePhaseStatus_def onErr_InrD update_one_Inr
      production_set_def [of _ _ _ _ _ _ _ "_ :: production_row"] pgTextFromStr_def untick_def
      intro!: exI [of _ "env_now en (tick w)"] elim!: andThen_InrE query_InrE)

lemma pg_GetPhase_Inr:
  "pg_GetPhase en t i w = (Inr p, w') \<Longrightarrow> untick w' = untick w \<and> (\<exists>r. row_by (own_phase t i) (phases w) = Inr r \<and> p = phaseFromDB r)"
  by (auto simp: project_repo_defs q_GetPhase_def onErr_InrD elim!: andThen_InrE query_InrE)

lemma project_step_stable: "tick_stable (project_step t)"
  unfolding tick_stable_def
proof (intro allI impI)
  fix w w' :: project_db and n
  assume "project_step t (w\<lparr>tick := n\<rparr>) w'"
  then have "project_step t w (w'\<lparr>tick := tick w\<rparr>)"
  proof (cases rule: project_step.cases)
    case (create_production scan p now evs)
    then show ?thesis using project_step.create_production [of w scan p now t evs] by (simp add: production_free_def)
  next
    case (update_production r i st ti d g sd ed now)
    then show ?thesis using project_step.update_production [of r w i t st ti d g sd ed now] by simp
  next
    case (archive_production i now)
    then show ?thesis using project_step.archive_production [of t w i now] by simp
  next
    case (create_phase scan p now vcfg)
    then show ?thesis using project_step.create_phase [of w scan p now t vcfg] by (simp add: phase_free_def)
  next
    case (update_phase r i vcfg ty now)
    then show ?thesis using project_step.update_phase [of r w i t vcfg ty now] by simp
  next
    case (add_crew scan c now evs)
    then show ?thesis using project_step.add_crew [of w scan c now t evs] by (simp add: crew_free_def)
  next
    case (remove_crew i)
    then show ?thesis using project_step.remove_crew [of t w i] by simp
  qed
  then show "\<exists>w1. project_step t w w1 \<and> untick w1 = untick w'" by (metis untick_tick)
qed

abbreviation project_moves :: "uuid \<Rightarrow> project_db \<Rightarrow> project_db \<Rightarrow> bool" where
  "project_moves t \<equiv> moves (project_step t)"

lemmas project_then = moves_then [OF _ project_step_stable]

lemma project_publish_Inr: "publish pub ev w = (Inr u, w') \<longleftrightarrow>
    w' = w\<lparr>project_events := project_events w @ (if pub then [ev] else [])\<rparr>"
  by (auto simp: publish_def)

lemma publish_events:
  "untick w = untick v \<Longrightarrow> untick (w\<lparr>project_events := project_events w @ evs\<rparr>) = untick (v\<lparr>project_events := project_events v @ evs\<rparr>)"
  by (cases w; cases v) (simp add: untick_def)

lemma create_production_moves:
  "project_moves (prd_TenantID p) w (snd (andThen (pg_CreateProduction en scan p)
      (\<lambda>_. andThen (publish pub (ProductionCreated p)) (\<lambda>_. ret p)) w))"
proof (rule moves_op [OF project_then_publish [OF project_pg_atomic(1)]])
  fix x w' assume "andThen (pg_CreateProduction en scan p) (\<lambda>_. andThen (publish pub (ProductionCreated p)) (\<lambda>_. ret p)) w = (Inr x, w')"
  then obtain w1 where c: "pg_CreateProduction en scan p w = (Inr (), w1)"
    and w': "w' = w1\<lparr>project_events := project_events w1 @ (if pub then [ProductionCreated p] else [])\<rparr>"
    by (auto simp: project_publish_Inr elim!: andThen_InrE)
  from pg_CreateProduction_Inr [OF c] obtain now where n: "production_free w (production_row_of scan p now)"
    "untick w1 = untick (w\<lparr>productions := productions w @ [production_row_of scan p now]\<rparr>)" by blast
  show "\<exists>w1. project_step (prd_TenantID p) w w1 \<and> untick w' = untick w1"
    using project_step.create_production [OF n(1) refl, of "if pub then [ProductionCreated p] else []"] publish_events [OF n(2)]
    unfolding w' by auto
qed

lemma add_crew_moves:
  "project_moves (crw_TenantID c) w (snd (andThen (pg_AddCrewMember en scan c)
      (\<lambda>_. andThen (publish pub (CrewMemberAdded c)) (\<lambda>_. ret c)) w))"
proof (rule moves_op [OF project_then_publish [OF project_pg_atomic(6)]])
  fix x w' assume "andThen (pg_AddCrewMember en scan c) (\<lambda>_. andThen (publish pub (CrewMemberAdded c)) (\<lambda>_. ret c)) w = (Inr x, w')"
  then obtain w1 where cr: "pg_AddCrewMember en scan c w = (Inr (), w1)"
    and w': "w' = w1\<lparr>project_events := project_events w1 @ (if pub then [CrewMemberAdded c] else [])\<rparr>"
    by (auto simp: project_publish_Inr elim!: andThen_InrE)
  from pg_AddCrewMember_Inr [OF cr] obtain now where n: "crew_free w (crew_row_of scan c now)"
    "untick w1 = untick (w\<lparr>crew_members := crew_members w @ [crew_row_of scan c now]\<rparr>)" by blast
  show "\<exists>w1. project_step (crw_TenantID c) w w1 \<and> untick w' = untick w1"
    using project_step.add_crew [OF n(1) refl, of "if pub then [CrewMemberAdded c] else []"] publish_events [OF n(2)]
    unfolding w' by auto
qed

lemma svc_project_moves:
  "project_moves (prd_TenantID p) w (snd (svc_CreateProduction en pub scan p w))"
  "project_moves (crw_TenantID c) w (snd (svc_AddCrewMember en pub scan c w))"
  "project_moves (prd_TenantID p) w (snd (svc_UpdateProduction en scan p w))"
  "project_moves t w (snd (svc_ArchiveProduction en t i w))"
  "project_moves t w (snd (svc_RemoveCrewMember en t i w))"
proof -
  show "project_moves (prd_TenantID p) w (snd (svc_CreateProduction en pub scan p w))"
    unfolding svc_CreateProduction_def Let_def
    by (rule project_then [OF same_id_or_New]) (metis create_production_moves Production.select_convs(2) Production.surjective Production.update_convs(1))
  show "project_moves (crw_TenantID c) w (snd (svc_AddCrewMember en pub scan c w))"
    unfolding svc_AddCrewMember_def Let_def
    by (rule project_then [OF same_id_or_New]) (metis add_crew_moves CrewMember.select_convs(3) CrewMember.surjective CrewMember.update_convs(1))
  show "project_moves (prd_TenantID p) w (snd (svc_UpdateProduction en scan p w))"
    unfolding svc_UpdateProduction_def
    by (rule moves_op [OF project_pg_atomic(2)])
      (blast dest: pg_Update_Inr(1) row_by_Inr intro: project_step.update_production)
  show "project_moves t w (snd (svc_ArchiveProduction en t i w))"
    unfolding svc_ArchiveProduction_def
    by (rule moves_op [OF project_pg_atomic(3)]) (blast dest: pg_Update_Inr(2) intro: project_step.archive_production)
  show "project_moves t w (snd (svc_RemoveCrewMember en t i w))"
    unfolding svc_RemoveCrewMember_def
  proof (rule moves_op [OF atomic_pg_RemoveCrewMember])
    fix x w' assume "pg_RemoveCrewMember en t i w = (Inr x, w')"
    then have "untick w' = untick (w\<lparr>crew_members := filter (\<lambda>r. \<not> own_crew t i r) (crew_members w)\<rparr>)"
      by (auto simp: pg_RemoveCrewMember_def q_RemoveCrewMember_def onErr_InrD Let_def untick_def elim!: andThen_InrE query_InrE split: if_splits)
    then show "\<exists>w1. project_step t w w1 \<and> untick w' = untick w1" using project_step.remove_crew by blast
  qed
qed

lemma MustFromContext_calm: "MustFromContext ctx w = (Inr vcfg, w') \<Longrightarrow> ctx_vertical ctx = Some vcfg"
  by (simp add: MustFromContext_Inr)

lemma create_phase_moves: "project_moves (phs_TenantID p) w (snd (svc_CreatePhase en scan ctx p w))"
  unfolding svc_CreatePhase_def Let_def
proof (rule project_then [OF same_MustFromContext])
  fix vcfg n
  have ph: "project_moves (phs_TenantID p) w (snd (andThen (pg_CreatePhase en scan (p\<lparr>phs_ID := i\<rparr>)) (\<lambda>_. ret (p\<lparr>phs_ID := i\<rparr>)) w))"
    if "FindPhaseType vcfg (phs_PhaseType p) \<noteq> None" for i w
  proof (rule moves_ret, rule moves_op [OF project_pg_atomic(4)])
    fix x w' assume "pg_CreatePhase en scan (p\<lparr>phs_ID := i\<rparr>) w = (Inr x, w')"
    from pg_CreatePhase_Inr [OF this] obtain now where "phase_free w (phase_row_of scan (p\<lparr>phs_ID := i\<rparr>) now)"
      "untick w' = untick (w\<lparr>phases := phases w @ [phase_row_of scan (p\<lparr>phs_ID := i\<rparr>) now]\<rparr>)" by blast
    then show "\<exists>w1. project_step (phs_TenantID p) w w1 \<and> untick w' = untick w1"
      using project_step.create_phase [of w scan "p\<lparr>phs_ID := i\<rparr>" now "phs_TenantID p" vcfg] that by auto
  qed
  let ?w = "w\<lparr>tick := n\<rparr>"
  show "project_moves (phs_TenantID p) ?w (snd ((case FindPhaseType vcfg (phs_PhaseType p) of
          None \<Rightarrow> fail (Wrap ''is not valid for vertical'' (Sentinel ErrInvalidPhaseType))
        | Some pt \<Rightarrow> andThen (id_or_New en (phs_ID p))
            (\<lambda>i. andThen (pg_CreatePhase en scan (p\<lparr>phs_ID := i\<rparr>)) (\<lambda>_. ret (p\<lparr>phs_ID := i\<rparr>)))) ?w))"
  proof (cases "FindPhaseType vcfg (phs_PhaseType p)")
    case (Some pt)
    then show ?thesis by (simp, intro project_then [OF same_id_or_New] ph) simp
  qed (simp add: moves_def)
qed

text \<open>A transition that the service lets through, whatever the repository makes of it.\<close>

definition transition_checked :: "project_db \<Rightarrow> ctx \<Rightarrow> uuid \<Rightarrow> uuid \<Rightarrow> string \<Rightarrow> bool" where
  "transition_checked w ctx t i ty \<longleftrightarrow> (\<exists>vcfg r. ctx_vertical ctx = Some vcfg \<and> row_by (own_phase t i) (phases w) = Inr r
     \<and> may_become vcfg (hr_type r) ty)"

lemma svc_UpdatePhaseStatus_cases:
  "untick (snd (svc_UpdatePhaseStatus en ctx t i ty w)) = untick w \<and> (\<exists>e. fst (svc_UpdatePhaseStatus en ctx t i ty w) = Inl e)
   \<or> transition_checked w ctx t i ty \<and> (\<exists>n. svc_UpdatePhaseStatus en ctx t i ty w = pg_UpdatePhaseStatus en t i ty (w\<lparr>tick := n\<rparr>))"
proof (cases "ctx_vertical ctx")
  case None
  then show ?thesis by (simp add: svc_UpdatePhaseStatus_def MustFromContext_def)
next
  case (Some vcfg)
  obtain r w1 where g: "pg_GetPhase en t i w = (r, w1)" by fastforce
  then have w1: "untick w1 = untick w" using sameD [OF project_pg_reads(3), of en t i w] by simp
  show ?thesis
  proof (cases r)
    case (Inl e)
    with g w1 Some show ?thesis by (simp add: svc_UpdatePhaseStatus_def MustFromContext_def andThen_def onErr_def)
  next
    case (Inr ph)
    with pg_GetPhase_Inr [of en t i w ph w1] g obtain x where x: "row_by (own_phase t i) (phases w) = Inr x" "ph = phaseFromDB x" by auto
    have upd: "svc_UpdatePhaseStatus en ctx t i ty w = (case FindPhaseType vcfg (hr_type x) of
            None \<Rightarrow> fail (Wrap ''current phase type not found'' (Sentinel ErrInvalidPhaseType))
          | Some currentPT \<Rightarrow>
              if \<not> CanTransitionTo currentPT ty
              then fail (Wrap ''cannot transition'' (Sentinel ErrInvalidTransition))
              else (case FindPhaseType vcfg ty of
                      None \<Rightarrow> fail (Wrap ''target is not valid'' (Sentinel ErrInvalidPhaseType))
                    | Some targetPT \<Rightarrow> pg_UpdatePhaseStatus en t i ty)) w1"
      using g Inr Some x(2) by (simp add: svc_UpdatePhaseStatus_def MustFromContext_def andThen_onErr_Inr phaseFromDB_def)
    show ?thesis
    proof (cases "may_become vcfg (hr_type x) ty")
      case True
      then have "svc_UpdatePhaseStatus en ctx t i ty w = pg_UpdatePhaseStatus en t i ty w1"
        unfolding upd may_become_def by (auto simp: CanTransitionTo_iff)
      also have "\<dots> = pg_UpdatePhaseStatus en t i ty (w\<lparr>tick := tick w1\<rparr>)" using untick_eq [OF w1] by simp
      finally have "\<exists>n. svc_UpdatePhaseStatus en ctx t i ty w = pg_UpdatePhaseStatus en t i ty (w\<lparr>tick := n\<rparr>)" ..
      with True x(1) Some show ?thesis unfolding transition_checked_def by blast
    next
      case False
      then show ?thesis using w1 unfolding upd may_become_def
        by (auto simp: CanTransitionTo_iff split: option.splits)
    qed
  qed
qed

lemma update_phase_moves: "project_moves t w (snd (svc_UpdatePhaseStatus en ctx t i ty w))"
proof (rule moves_op [OF project_svc_atomic(5)])
  fix x w' assume run: "svc_UpdatePhaseStatus en ctx t i ty w = (Inr x, w')"
  with svc_UpdatePhaseStatus_cases [of en ctx t i ty w] obtain n vcfg r where
    "pg_UpdatePhaseStatus en t i ty (w\<lparr>tick := n\<rparr>) = (Inr x, w')" "row_by (own_phase t i) (phases w) = Inr r" "may_become vcfg (hr_type r) ty"
    by (auto simp: transition_checked_def)
  moreover from pg_Update_Inr(3) [OF this(1)] obtain now where "ty \<in> set phase_statuses"
    "untick w' = untick (w\<lparr>phases := update_rows (own_phase t i) (\<lambda>r. r\<lparr>hr_status := ty, hr_updated := now\<rparr>) (phases w)\<rparr>)"
    by (auto simp: untick_def)
  ultimately show "\<exists>w1. project_step t w w1 \<and> untick w' = untick w1"
    using project_step.update_phase [of r w i t vcfg ty now] by (auto dest: row_by_Inr)
qed

lemma exec_project_moves: "project_moves (preq_tenant r) w (exec_project en pub scan r w)"
  by (cases r) (simp_all add: svc_project_moves create_phase_moves update_phase_moves moves_read project_reads)

section \<open>The invariant and the rows of a tenant\<close>

definition project_inv :: "project_db \<Rightarrow> bool" where
  "project_inv w \<longleftrightarrow>
     distinct (map dr_id (productions w)) \<and> distinct (map (\<lambda>r. (dr_tenant r, dr_slug r)) (productions w))
   \<and> distinct (map hr_id (phases w)) \<and> distinct (map cw_id (crew_members w))
   \<and> (\<forall>r \<in> set (productions w). dr_status r \<in> set production_statuses)
   \<and> (\<forall>r \<in> set (phases w). hr_status r \<in> set phase_statuses \<and> hr_production r \<in> dr_id ` set (productions w))
   \<and> (\<forall>r \<in> set (crew_members w). cw_production r \<in> dr_id ` set (productions w)
        \<and> (\<exists>x. cw_day_rate r = Some x \<and> round2 x = x))"

fun project_event_tenant :: "project_event \<Rightarrow> uuid" where
  "project_event_tenant (ProductionCreated p) = prd_TenantID p"
| "project_event_tenant (CrewMemberAdded c) = crw_TenantID c"

definition project_part ::
  "uuid \<Rightarrow> project_db \<Rightarrow> production_row list \<times> phase_row list \<times> crew_row list \<times> project_event list" where
  "project_part u w =
     (filter (\<lambda>r. dr_tenant r = u) (productions w), filter (\<lambda>r. hr_tenant r = u) (phases w),
      filter (\<lambda>r. cw_tenant r = u) (crew_members w), filter (\<lambda>ev. project_event_tenant ev = u) (project_events w))"

lemma project_untick: "untick w = untick w' \<Longrightarrow> project_inv w = project_inv w'" "untick w = untick w' \<Longrightarrow> project_part u w = project_part u w'"
  by (rule tickless_view_untick [of project_inv], simp_all add: tickless_view_def project_inv_def)
    (rule tickless_view_untick [of "project_part u"], simp_all add: tickless_view_def project_part_def)

lemma project_inv_empty: "project_inv empty_projects"
  by (simp add: project_inv_def empty_projects_def)

lemma production_set_keys [simp]:
  "dr_id (production_set ti d g st sd ed now r) = dr_id r" "dr_tenant (production_set ti d g st sd ed now r) = dr_tenant r"
  "dr_slug (production_set ti d g st sd ed now r) = dr_slug r"
  "dr_status (production_set ti d g st sd ed now r) = coalesce_text st (dr_status r)"
  by (simp_all add: production_set_def)

lemma row_of_keys [simp]:
  "dr_id (production_row_of scan p now) = prd_ID p" "dr_tenant (production_row_of scan p now) = prd_TenantID p"
  "dr_slug (production_row_of scan p now) = prd_Slug p" "dr_status (production_row_of scan p now) = prd_Status p"
  "hr_id (phase_row_of scan q now) = phs_ID q" "hr_tenant (phase_row_of scan q now) = phs_TenantID q"
  "hr_type (phase_row_of scan q now) = phs_PhaseType q" "hr_production (phase_row_of scan q now) = phs_ProductionID q"
  "hr_status (phase_row_of scan q now) = phs_Status q" "cw_id (crew_row_of scan c now) = crw_ID c"
  "cw_tenant (crew_row_of scan c now) = crw_TenantID c" "cw_production (crew_row_of scan c now) = crw_ProductionID c"
  "cw_day_rate (crew_row_of scan c now) = Some (round2 (crw_DayRate c))"
  by (simp_all add: production_row_of_def phase_row_of_def crew_row_of_def)

lemma project_step_inv: "project_step t w w' \<Longrightarrow> project_inv w \<Longrightarrow> project_inv w'"
proof (induction rule: project_step.induct)
  case (update_production r w i st ti d g sd ed now)
  have "coalesce_text st (dr_status x) \<in> set production_statuses" if "x \<in> set (productions w)" "own_production t i x" for x
    using update_production that by (metis distinct_key_unique project_inv_def)
  with update_production show ?case
    by (simp add: project_inv_def map_update_rows image_update_rows) (auto simp: set_update_rows)
next
  case (archive_production w i now)
  then show ?case
    by (simp add: project_inv_def map_update_rows image_update_rows) (auto simp: set_update_rows production_statuses_def)
next
  case (update_phase r w i vcfg ty now)
  then show ?case
    by (simp add: project_inv_def map_update_rows) (auto simp: set_update_rows)
next
  case (remove_crew w i)
  then show ?case by (auto simp: project_inv_def distinct_map_filter)
next
  case (create_production w scan p now evs)
  then show ?case by (auto simp: project_inv_def production_free_def)
next
  case (create_phase w scan p now vcfg)
  then have "phs_ProductionID p \<in> dr_id ` set (productions w)" by (auto simp: phase_free_def image_iff eq_commute)
  with create_phase show ?case by (auto simp: project_inv_def phase_free_def)
next
  case (add_crew w scan c now evs)
  then have "crw_ProductionID c \<in> dr_id ` set (productions w)" by (auto simp: crew_free_def image_iff eq_commute)
  with add_crew show ?case by (auto simp: project_inv_def crew_free_def)
qed

lemma project_step_frame: "project_step t w w' \<Longrightarrow> u \<noteq> t \<Longrightarrow> project_part u w' = project_part u w"
  by (induction rule: project_step.induct)
    (auto simp: project_part_def filter_empty_conv intro!: filter_update_rows filter_cong)

interpretation projects: step_service "exec_project en pub scan" project_inv empty_projects preq_tenant project_part project_step
  for en pub scan
  by unfold_locales (rule project_inv_empty, rule exec_project_moves, erule (1) project_step_inv, erule (1) project_step_frame,
    erule project_untick(1), erule project_untick(2))

end
