(* ===== verification/ProjectHandler.thy ===== *)
theory ProjectHandler
  imports ProjectService Rpc
begin

text \<open>
  The gRPC surface of the project service (\<^verbatim>\<open>services/project/handler.go\<close>). Every RPC takes the
  tenant from the context and asks for a permission before it reads the request. The case of
  \<^verbatim>\<open>vertical.ErrNotFound\<close> in the error mapping is left out, since no method of the service
  returns that error.
\<close>

section \<open>Messages\<close>

record pbProduction =
  dpb_Id :: string
  dpb_TenantId :: string
  dpb_Title :: string
  dpb_Slug :: string
  dpb_Description :: string
  dpb_Genre :: string
  dpb_Language :: string
  dpb_Status :: string
  dpb_StartDate :: string
  dpb_EndDate :: string
  dpb_CreatedBy :: string
  dpb_CreatedAt :: time
  dpb_UpdatedAt :: time

record pbPhase =
  hpb_Id :: string
  hpb_ProductionId :: string
  hpb_PhaseType :: string
  hpb_Status :: string
  hpb_StartDate :: string
  hpb_EndDate :: string

record pbCrewMember =
  cpb_Id :: string
  cpb_ProductionId :: string
  cpb_UserId :: string
  cpb_Name :: string
  cpb_Role :: string
  cpb_Department :: string
  cpb_DayRate :: string
  cpb_Currency :: string

record AddCrewMemberRequest =
  acr_ProductionId :: string
  acr_Name :: string
  acr_Role :: string
  acr_Department :: string
  acr_DayRate :: string

record PhaseTypeInfo =
  pti_Id :: string
  pti_Label :: string
  pti_Order :: int
  pti_IsBillable :: bool
  pti_AllowedTransitions :: "string list"

text \<open>\<^verbatim>\<open>if p != nil { out = *p }\<close>\<close>

definition orEmpty :: "string option \<Rightarrow> string" where
  "orEmpty s = (case s of None \<Rightarrow> '''' | Some t \<Rightarrow> t)"

definition productionToProto :: "handler \<Rightarrow> Production \<Rightarrow> pbProduction" where
  "productionToProto h p =
     \<lparr>dpb_Id = uuid_String h (prd_ID p), dpb_TenantId = uuid_String h (prd_TenantID p), dpb_Title = prd_Title p,
      dpb_Slug = prd_Slug p, dpb_Description = prd_Description p, dpb_Genre = prd_Genre p, dpb_Language = prd_Language p,
      dpb_Status = prd_Status p, dpb_StartDate = orEmpty (prd_StartDate p), dpb_EndDate = orEmpty (prd_EndDate p),
      dpb_CreatedBy = uuid_String h (prd_CreatedBy p), dpb_CreatedAt = prd_CreatedAt p, dpb_UpdatedAt = prd_UpdatedAt p\<rparr>"

definition phaseToProto :: "handler \<Rightarrow> Phase \<Rightarrow> pbPhase" where
  "phaseToProto h p =
     \<lparr>hpb_Id = uuid_String h (phs_ID p), hpb_ProductionId = uuid_String h (phs_ProductionID p),
      hpb_PhaseType = phs_PhaseType p, hpb_Status = phs_Status p, hpb_StartDate = orEmpty (phs_StartDate p),
      hpb_EndDate = orEmpty (phs_EndDate p)\<rparr>"

definition crewToProto :: "handler \<Rightarrow> CrewMember \<Rightarrow> pbCrewMember" where
  "crewToProto h c =
     \<lparr>cpb_Id = uuid_String h (crw_ID c), cpb_ProductionId = uuid_String h (crw_ProductionID c),
      cpb_UserId = (case crw_UserID c of None \<Rightarrow> '''' | Some u \<Rightarrow> uuid_String h u), cpb_Name = crw_Name c,
      cpb_Role = crw_Role c, cpb_Department = crw_Department c, cpb_DayRate = StringFixed2 h (crw_DayRate c),
      cpb_Currency = crw_Currency c\<rparr>"

definition grpcErr :: "project_err \<Rightarrow> status" where
  "grpcErr err =
     (if errors_Is err ErrProductionNotFound then Status NotFound ''production not found''
      else if errors_Is err ErrPhaseNotFound then Status NotFound ''phase not found''
      else if errors_Is err ErrCrewNotFound then Status NotFound ''crew member not found''
      else if errors_Is err ErrDuplicateSlug then Status AlreadyExists ''production with this slug already exists''
      else if errors_Is err ErrInvalidPhaseType then Status InvalidArgument ''invalid phase type for this vertical''
      else if errors_Is err ErrInvalidTransition then Status FailedPrecondition ''phase transition not allowed''
      else if errors_Is err ErrProductionArchived then Status FailedPrecondition ''production is archived''
      else Status Internal ''internal error'')"

section \<open>Productions\<close>

text \<open>The request of a creation: title, description, genre.\<close>

definition rpc_CreateProduction ::
  "handler \<Rightarrow> ctx \<Rightarrow> string \<Rightarrow> string \<Rightarrow> string \<Rightarrow> (project_db, status, pbProduction) op" where
  "rpc_CreateProduction h ctx title descr genre =
     andThen (rpcHead h ctx ''production:write'')
       (\<lambda>t. andThen (onErr grpcErr (svc_CreateProduction (h_env h) (h_pub h) (date_Scan h)
            \<lparr>prd_ID = uuid_Nil, prd_TenantID = t, prd_Title = title, prd_Slug = title, prd_Description = descr,
             prd_Genre = genre, prd_Language = '''', prd_Status = ''development'', prd_StartDate = None,
             prd_EndDate = None, prd_CreatedBy = uuid_Nil, prd_CreatedAt = 0, prd_UpdatedAt = 0\<rparr>))
       (\<lambda>p. andThen (onErr grpcErr (svc_GetProduction (h_env h) t (prd_ID p)))
       (\<lambda>out. ret (productionToProto h out))))"

definition rpc_GetProduction :: "handler \<Rightarrow> ctx \<Rightarrow> string \<Rightarrow> (project_db, status, pbProduction) op" where
  "rpc_GetProduction h ctx reqId =
     andThen (rpcHead h ctx ''production:read'')
       (\<lambda>t. andThen (parse_id h reqId ''invalid production ID'')
       (\<lambda>i. andThen (onErr grpcErr (svc_GetProduction (h_env h) t i))
       (\<lambda>p. ret (productionToProto h p))))"

definition rpc_ListProductions ::
  "handler \<Rightarrow> ctx \<Rightarrow> string \<Rightarrow> int \<Rightarrow> (project_db, status, pbProduction list) op" where
  "rpc_ListProductions h ctx st reqLimit =
     andThen (rpcHead h ctx ''production:read'')
       (\<lambda>t. let limit = (if reqLimit \<le> 0 \<or> reqLimit > 100 then 20 else reqLimit) in
          andThen (onErr grpcErr (svc_ListProductions (h_env h) t st limit 0))
       (\<lambda>ps. ret (map (productionToProto h) ps)))"

definition rpc_UpdateProduction ::
  "handler \<Rightarrow> ctx \<Rightarrow> string \<Rightarrow> string \<Rightarrow> string \<Rightarrow> (project_db, status, pbProduction) op" where
  "rpc_UpdateProduction h ctx reqId title descr =
     andThen (rpcHead h ctx ''production:write'')
       (\<lambda>t. andThen (parse_id h reqId ''invalid production ID'')
       (\<lambda>i. andThen (onErr grpcErr (svc_UpdateProduction (h_env h) (date_Scan h)
            \<lparr>prd_ID = i, prd_TenantID = t, prd_Title = title, prd_Slug = '''', prd_Description = descr,
             prd_Genre = '''', prd_Language = '''', prd_Status = '''', prd_StartDate = None,
             prd_EndDate = None, prd_CreatedBy = uuid_Nil, prd_CreatedAt = 0, prd_UpdatedAt = 0\<rparr>))
       (\<lambda>_. andThen (onErr grpcErr (svc_GetProduction (h_env h) t i))
       (\<lambda>out. ret (productionToProto h out)))))"

definition rpc_ArchiveProduction :: "handler \<Rightarrow> ctx \<Rightarrow> string \<Rightarrow> (project_db, status, pbProduction) op" where
  "rpc_ArchiveProduction h ctx reqId =
     andThen (rpcHead h ctx ''production:write'')
       (\<lambda>t. andThen (parse_id h reqId ''invalid production ID'')
       (\<lambda>i. andThen (onErr grpcErr (svc_ArchiveProduction (h_env h) t i))
       (\<lambda>_. andThen (onErr grpcErr (svc_GetProduction (h_env h) t i))
       (\<lambda>out. ret (productionToProto h out)))))"

section \<open>Phases\<close>

definition rpc_CreatePhase :: "handler \<Rightarrow> ctx \<Rightarrow> string \<Rightarrow> string \<Rightarrow> (project_db, status, pbPhase) op" where
  "rpc_CreatePhase h ctx productionId phaseType =
     andThen (rpcHead h ctx ''production:write'')
       (\<lambda>t. andThen (parse_id h productionId ''invalid production ID'')
       (\<lambda>production. andThen (onErr grpcErr (svc_CreatePhase (h_env h) (date_Scan h) ctx
            \<lparr>phs_ID = uuid_Nil, phs_ProductionID = production, phs_TenantID = t, phs_PhaseType = phaseType,
             phs_Status = ''pending'', phs_StartDate = None, phs_EndDate = None, phs_CreatedAt = 0, phs_UpdatedAt = 0\<rparr>))
       (\<lambda>p. andThen (onErr grpcErr (svc_GetPhase (h_env h) t (phs_ID p)))
       (\<lambda>out. ret (phaseToProto h out)))))"

definition rpc_ListPhases :: "handler \<Rightarrow> ctx \<Rightarrow> string \<Rightarrow> (project_db, status, pbPhase list) op" where
  "rpc_ListPhases h ctx productionId =
     andThen (rpcHead h ctx ''production:read'')
       (\<lambda>t. andThen (parse_id h productionId ''invalid production ID'')
       (\<lambda>production. andThen (onErr grpcErr (svc_ListPhases (h_env h) t production 50 0))
       (\<lambda>ps. ret (map (phaseToProto h) ps))))"

definition rpc_UpdatePhaseStatus :: "handler \<Rightarrow> ctx \<Rightarrow> string \<Rightarrow> string \<Rightarrow> (project_db, status, pbPhase) op" where
  "rpc_UpdatePhaseStatus h ctx phaseId newPhaseType =
     andThen (rpcHead h ctx ''production:write'')
       (\<lambda>t. andThen (parse_id h phaseId ''invalid phase ID'')
       (\<lambda>i. andThen (onErr grpcErr (svc_UpdatePhaseStatus (h_env h) ctx t i newPhaseType))
       (\<lambda>_. andThen (onErr grpcErr (svc_GetPhase (h_env h) t i))
       (\<lambda>p. ret (phaseToProto h p)))))"

section \<open>Crew\<close>

text \<open>The stored member is looked for among the first two hundred of the production.\<close>

definition rpc_AddCrewMember :: "handler \<Rightarrow> ctx \<Rightarrow> AddCrewMemberRequest \<Rightarrow> (project_db, status, pbCrewMember) op" where
  "rpc_AddCrewMember h ctx req =
     andThen (rpcHead h ctx ''resource:manage'')
       (\<lambda>t. andThen (parse_id h (acr_ProductionId req) ''invalid production ID'')
       (\<lambda>production. andThen (parse_decimal h (acr_DayRate req) ''invalid day_rate: must be a decimal string'')
       (\<lambda>dayRate. andThen (onErr grpcErr (svc_AddCrewMember (h_env h) (h_pub h) (date_Scan h)
            \<lparr>crw_ID = uuid_Nil, crw_ProductionID = production, crw_TenantID = t, crw_UserID = None,
             crw_Name = acr_Name req, crw_Role = acr_Role req, crw_Department = acr_Department req,
             crw_DayRate = dayRate, crw_Currency = ''INR'', crw_StartDate = None, crw_EndDate = None, crw_CreatedAt = 0\<rparr>))
       (\<lambda>c. andThen (onErr grpcErr (svc_ListCrewMembers (h_env h) t production 200 0))
       (\<lambda>members. ret (case List.find (\<lambda>m. crw_ID m = crw_ID c) members of
                          Some m \<Rightarrow> crewToProto h m | None \<Rightarrow> crewToProto h c))))))"

definition rpc_ListCrewMembers :: "handler \<Rightarrow> ctx \<Rightarrow> string \<Rightarrow> (project_db, status, pbCrewMember list) op" where
  "rpc_ListCrewMembers h ctx productionId =
     andThen (rpcHead h ctx ''production:read'')
       (\<lambda>t. andThen (parse_id h productionId ''invalid production ID'')
       (\<lambda>production. andThen (onErr grpcErr (svc_ListCrewMembers (h_env h) t production 50 0))
       (\<lambda>ms. ret (map (crewToProto h) ms))))"

definition rpc_RemoveCrewMember :: "handler \<Rightarrow> ctx \<Rightarrow> string \<Rightarrow> (project_db, status, unit) op" where
  "rpc_RemoveCrewMember h ctx reqId =
     andThen (rpcHead h ctx ''resource:manage'')
       (\<lambda>t. andThen (parse_id h reqId ''invalid crew member ID'')
       (\<lambda>i. andThen (onErr grpcErr (svc_RemoveCrewMember (h_env h) t i)) (\<lambda>_. ret ())))"

section \<open>Vertical metadata\<close>

text \<open>The message has the fields of the configuration's labels.\<close>

definition rpc_GetEntityLabels :: "ctx \<Rightarrow> (project_db, status, EntityLabels) op" where
  "rpc_GetEntityLabels ctx = andThen (onErr grpcErr (svc_GetEntityLabels ctx)) ret"

definition rpc_GetPhaseTypes :: "ctx \<Rightarrow> (project_db, status, PhaseTypeInfo list) op" where
  "rpc_GetPhaseTypes ctx =
     andThen (onErr grpcErr (svc_GetPhaseTypes ctx))
       (\<lambda>pts. ret (map (\<lambda>pt. \<lparr>pti_Id = ph_ID pt, pti_Label = ph_Label pt, pti_Order = int32 (ph_Order pt),
                              pti_IsBillable = ph_IsBillable pt, pti_AllowedTransitions = ph_AllowedTransitions pt\<rparr>) pts))"

end
