(* ===== verification/ProjectProps.thy ===== *)
theory ProjectProps
  imports ProjectInv ProjectHandler Demo
begin

text \<open>
  Properties of the project service and its RPCs: the tables stay well formed, a transition ends as
  its specification says, no phase ever takes a new type, an update of a production touches only
  what it may, and calls act on their tenant and with permission only.
\<close>

section \<open>A concrete run\<close>

definition demo_production :: Production where
  "demo_production = \<lparr>prd_ID = 3, prd_TenantID = 7, prd_Title = ''Film'', prd_Slug = ''film'', prd_Description = '''', prd_Genre = '''',
     prd_Language = ''en'', prd_Status = ''development'', prd_StartDate = None, prd_EndDate = None, prd_CreatedBy = 9,
     prd_CreatedAt = 0, prd_UpdatedAt = 0\<rparr>"

definition demo_phase_of :: "string \<Rightarrow> Phase" where
  "demo_phase_of ty = \<lparr>phs_ID = 4, phs_ProductionID = 3, phs_TenantID = 7, phs_PhaseType = ty, phs_Status = ''pending'',
     phs_StartDate = None, phs_EndDate = None, phs_CreatedAt = 0, phs_UpdatedAt = 0\<rparr>"

definition demo_projects :: "project_req list" where
  "demo_projects = [CreateProduction demo_production, CreatePhase (xdemo_ctx 7 9) (demo_phase_of ''prep'')]"

abbreviation prun :: "project_req list \<Rightarrow> project_db" where
  "prun rs \<equiv> fold (exec_project xdemo_env True Some) rs empty_projects"

lemma prun_inv: "project_inv (prun rs)"
  by (rule projects.inv_run)

section \<open>Well-formed tables\<close>

text \<open>
  The constraints of the schema hold after any sequence of requests with any database failures:
  identifiers are unique, slugs are unique within a tenant, statuses are among those the schema allows,
  phases and crew belong to existing productions and day rates are in whole cents.
\<close>

lemma projects_well_formed:
  "project_inv (fold (exec_project en pub scan) rs empty_projects)"
  by (rule projects.inv_run)

section \<open>Transitions of phases\<close>

text \<open>What a transition should end with, from the type that the phase has.\<close>

definition transition_spec :: "Config option \<Rightarrow> string option \<Rightarrow> string \<Rightarrow> project_sentinel option option" where
  "transition_spec vc cur ty = (case vc of None \<Rightarrow> Some None | Some vcfg \<Rightarrow>
     (case cur of None \<Rightarrow> Some (Some ErrPhaseNotFound) | Some c \<Rightarrow>
       (case FindPhaseType vcfg c of None \<Rightarrow> Some (Some ErrInvalidPhaseType) | Some pt \<Rightarrow>
          if ty \<notin> set (ph_AllowedTransitions pt) then Some (Some ErrInvalidTransition)
          else if FindPhaseType vcfg ty = None then Some (Some ErrInvalidPhaseType)
          else if ty \<notin> set phase_statuses then Some None else None)))"

lemma pg_GetPhase_calm:
  assumes "calm en"
  shows "pg_GetPhase en t i w = (case List.find (own_phase t i) (phases w) of
      None \<Rightarrow> Inl (Sentinel ErrPhaseNotFound) | Some r \<Rightarrow> Inr (phaseFromDB r), w\<lparr>tick := Suc (tick w)\<rparr>)"
  using assms by (simp add: project_repo_defs q_GetPhase_def query_calm row_by_def noRows_def andThen_def onErr_def split: option.split)

lemma pg_UpdatePhaseStatus_calm:
  assumes "calm en" "List.find (own_phase t i) (phases w) = Some r"
  shows "outcome (fst (pg_UpdatePhaseStatus en t i ty w)) = (if ty \<in> set phase_statuses then None else Some None)"
  using assms
  by (simp add: project_repo_defs q_UpdatePhaseStatus_def query_calm update_one_def row_by_def noRows_def andThen_def onErr_def outcome_def)

text \<open>
  C23: when the database answers, a request to move a phase to a new type ends exactly as specified: the
  phase must exist, its type and the new one must be types of the vertical, the vertical must allow the
  transition, and the new type must be one of the words that the status column admits; each other case
  ends with its own error.
\<close>

theorem UpdatePhaseStatus_meets_spec:
  assumes "calm en"
  shows "outcome (fst (svc_UpdatePhaseStatus en ctx t i ty w)) =
    transition_spec (ctx_vertical ctx) (map_option hr_type (List.find (own_phase t i) (phases w))) ty"
proof (cases "ctx_vertical ctx")
  case None
  then show ?thesis by (simp add: svc_UpdatePhaseStatus_def MustFromContext_def transition_spec_def outcome_def)
next
  case (Some vcfg)
  show ?thesis
  proof (cases "List.find (own_phase t i) (phases w)")
    case None
    with Some assms show ?thesis
      by (simp add: svc_UpdatePhaseStatus_def MustFromContext_def transition_spec_def outcome_def pg_GetPhase_calm andThen_def onErr_def)
  next
    case r: (Some r)
    with pg_UpdatePhaseStatus_calm [OF assms, where t = t and i = i and w = "w\<lparr>tick := Suc (tick w)\<rparr>" and r = r and ty = ty] Some assms show ?thesis
      by (auto simp: svc_UpdatePhaseStatus_def MustFromContext_def transition_spec_def outcome_def pg_GetPhase_calm andThen_def onErr_def
          phaseFromDB_def CanTransitionTo_iff split: option.splits)
  qed
qed

theorem UpdatePhaseStatus_meets_spec_witness:
  "outcome (fst (svc_UpdatePhaseStatus xdemo_env (xdemo_ctx 7 9) 7 4 ''wrap'' (prun demo_projects))) = Some (Some ErrInvalidTransition)"
proof -
  have "transition_spec (ctx_vertical (xdemo_ctx 7 9)) (map_option hr_type (List.find (own_phase 7 4) (phases (prun demo_projects)))) ''wrap''
      = Some (Some ErrInvalidTransition)" by code_simp
  with UpdatePhaseStatus_meets_spec [OF xdemo_calm, of "xdemo_ctx 7 9" 7 4 "''wrap''" "prun demo_projects"] show ?thesis by simp
qed

text \<open>
  C24: a transition to a type that is not one of the three words of the status column never succeeds,
  even when the vertical allows it, and changes nothing: the new type is written into the status
  column, whose check refuses it.
\<close>

theorem phase_transition_refused:
  assumes "ty \<noteq> ''pending''" and "ty \<noteq> ''active''" and "ty \<noteq> ''completed''"
  shows "\<exists>e. fst (svc_UpdatePhaseStatus en ctx t i ty w) = Inl e \<and> untick (snd (svc_UpdatePhaseStatus en ctx t i ty w)) = untick w"
proof (cases "svc_UpdatePhaseStatus en ctx t i ty w")
  case (Pair r w')
  show ?thesis
  proof (cases r)
    case (Inl e)
    then show ?thesis using Pair atomicD [OF project_svc_atomic(5), of en ctx t i ty w e w'] by simp
  next
    case (Inr u)
    then obtain n where "pg_UpdatePhaseStatus en t i ty (w\<lparr>tick := n\<rparr>) = (Inr u, w')"
      using svc_UpdatePhaseStatus_cases [of en ctx t i ty w] Pair by auto
    from pg_Update_Inr(3) [OF this] assms show ?thesis by (auto simp: phase_statuses_def)
  qed
qed

theorem phase_transition_refused_witness:
  "may_become xdemo_config ''prep'' ''shoot''
   \<and> (\<exists>e. fst (svc_UpdatePhaseStatus xdemo_env (xdemo_ctx 7 9) 7 4 ''shoot'' (prun demo_projects)) = Inl e)"
proof -
  have "may_become xdemo_config ''prep'' ''shoot''" by (simp add: may_become_def xdemo_config_def FindPhaseType_def)
  with phase_transition_refused [of "''shoot''" xdemo_env "xdemo_ctx 7 9" 7 4 "prun demo_projects"] show ?thesis by auto
qed

text \<open>
  No sequence of requests removes a phase, moves it to another production or tenant, or changes its
  type.
\<close>

lemma phases_keep_their_type:
  assumes "project_inv w" and "r \<in> set (phases w)"
  shows "\<exists>r' \<in> set (phases (fold (exec_project en pub scan) rs w)). hr_id r' = hr_id r \<and> hr_tenant r' = hr_tenant r
    \<and> hr_production r' = hr_production r \<and> hr_type r' = hr_type r"
proof -
  define R where "R = (\<lambda>(w :: project_db) (w' :: project_db). \<forall>r \<in> set (phases w). \<exists>r' \<in> set (phases w'). hr_id r' = hr_id r \<and> hr_tenant r' = hr_tenant r
    \<and> hr_production r' = hr_production r \<and> hr_type r' = hr_type r)"
  have "R w (fold (exec_project en pub scan) rs w)"
  proof (rule projects.run_rel [where R = R, OF _ _ _ assms(1)])
    fix w w' :: project_db assume "untick w' = untick w"
    from untick_eq [OF this] show "R w w'" unfolding R_def by (metis project_db.select_convs(2) project_db.surjective io.update_convs(1))
  next
    fix w w1 w2 assume "R w w1" "R w1 w2"
    then show "R w w2" unfolding R_def by metis
  next
    fix t w w' assume "project_step t w w'"
    then show "R w w'"
    proof (cases rule: project_step.cases)
      case (update_phase r i vcfg ty now)
      then show ?thesis unfolding R_def by (auto intro!: bexI [OF _ updated_row])
    qed (auto simp: R_def)
  qed
  then show ?thesis using assms(2) by (simp add: R_def)
qed

section \<open>Productions\<close>

lemma parse_id_Inr: "parse_id h s msg w = (Inr i, w') \<longleftrightarrow> w' = w \<and> uuid_Parse h s = Some i"
  by (auto simp: parse_id_def liftR_def split: option.split)

text \<open>
  A successful call to update a production changes exactly one production of the tenant of the
  context: an empty title keeps the old one, the genre, the slug and the status stay (an archived
  production stays archived and can still be changed), the description is replaced and both dates are
  erased.
\<close>

lemma UpdateProduction_effect:
  assumes "rpc_UpdateProduction h ctx reqId title descr w = (Inr out, w')"
  shows "\<exists>t i r now. ctx_tenant ctx = Some t \<and> uuid_Parse h reqId = Some i \<and> r \<in> set (productions w) \<and> own_production t i r
    \<and> untick w' = untick (w\<lparr>productions := update_rows (own_production t i)
        (\<lambda>r. r\<lparr>dr_title := (if title = '''' then dr_title r else title), dr_description := Some descr, dr_start := None, dr_end := None,
               dr_updated := now\<rparr>) (productions w)\<rparr>)"
proof -
  note run = assms [unfolded rpc_UpdateProduction_def svc_UpdateProduction_def]
  obtain t i w1 where t: "ctx_tenant ctx = Some t" and i: "uuid_Parse h reqId = Some i"
    and u: "pg_UpdateProduction (h_env h) (date_Scan h)
            \<lparr>prd_ID = i, prd_TenantID = t, prd_Title = title, prd_Slug = '''', prd_Description = descr,
             prd_Genre = '''', prd_Language = '''', prd_Status = '''', prd_StartDate = None,
             prd_EndDate = None, prd_CreatedBy = uuid_Nil, prd_CreatedAt = 0, prd_UpdatedAt = 0\<rparr> w = (Inr (), w1)"
    and g: "\<exists>p. svc_GetProduction (h_env h) t i w1 = (Inr p, w')"
    using run by (auto simp: rpcHead_Inr parse_id_Inr onErr_InrD elim!: andThen_InrE)
  have w': "untick w' = untick w1" using g sameD [OF project_reads(1), of "h_env h" t i w1] by auto
  from pg_Update_Inr(1) [OF u] obtain now r where r: "row_by (own_production t i) (productions w) = Inr r"
    "untick w1 = untick (w\<lparr>productions := update_rows (own_production t i) (production_set title (Some descr) '''' '''' None None now) (productions w)\<rparr>)"
    by (auto simp: pgDateFromPtr_def)
  have f: "production_set title (Some descr) '''' '''' None None now =
     (\<lambda>r. r\<lparr>dr_title := (if title = '''' then dr_title r else title), dr_description := Some descr, dr_start := None, dr_end := None, dr_updated := now\<rparr>)"
    by (simp add: fun_eq_iff production_set_def coalesce_text_def)
  show ?thesis
    using t i row_by_Inr [OF r(1)] r(2) w' unfolding f by (intro exI [of _ t] exI [of _ i] exI [of _ r] exI [of _ now]) simp
qed

definition pdemo_handler :: handler where
  "pdemo_handler = xdemo_handler\<lparr>h_perm := Some (\<lambda>_ _ _. Inr True)\<rparr>"

section \<open>Calls\<close>

datatype project_rpc =
  RpcCreateProduction string string string | RpcGetProduction string | RpcListProductions string int
| RpcUpdateProduction string string string | RpcArchiveProduction string
| RpcCreatePhase string string | RpcListPhases string | RpcUpdatePhaseStatus string string
| RpcAddCrewMember AddCrewMemberRequest | RpcListCrewMembers string | RpcRemoveCrewMember string
| RpcGetEntityLabels | RpcGetPhaseTypes

fun call_project :: "handler \<Rightarrow> ctx \<Rightarrow> project_rpc \<Rightarrow> project_db \<Rightarrow> project_db" where
  "call_project h ctx (RpcCreateProduction a b c) w = snd (rpc_CreateProduction h ctx a b c w)"
| "call_project h ctx (RpcGetProduction a) w = snd (rpc_GetProduction h ctx a w)"
| "call_project h ctx (RpcListProductions a l) w = snd (rpc_ListProductions h ctx a l w)"
| "call_project h ctx (RpcUpdateProduction a b c) w = snd (rpc_UpdateProduction h ctx a b c w)"
| "call_project h ctx (RpcArchiveProduction a) w = snd (rpc_ArchiveProduction h ctx a w)"
| "call_project h ctx (RpcCreatePhase a b) w = snd (rpc_CreatePhase h ctx a b w)"
| "call_project h ctx (RpcListPhases a) w = snd (rpc_ListPhases h ctx a w)"
| "call_project h ctx (RpcUpdatePhaseStatus a b) w = snd (rpc_UpdatePhaseStatus h ctx a b w)"
| "call_project h ctx (RpcAddCrewMember r) w = snd (rpc_AddCrewMember h ctx r w)"
| "call_project h ctx (RpcListCrewMembers a) w = snd (rpc_ListCrewMembers h ctx a w)"
| "call_project h ctx (RpcRemoveCrewMember a) w = snd (rpc_RemoveCrewMember h ctx a w)"
| "call_project h ctx RpcGetEntityLabels w = snd (rpc_GetEntityLabels ctx w)"
| "call_project h ctx RpcGetPhaseTypes w = snd (rpc_GetPhaseTypes ctx w)"

text \<open>The permission that an RPC asks for; the two that only show the configuration ask for none.\<close>

fun project_rpc_perm :: "project_rpc \<Rightarrow> string" where
  "project_rpc_perm (RpcCreateProduction a b c) = ''production:write''"
| "project_rpc_perm (RpcGetProduction a) = ''production:read''"
| "project_rpc_perm (RpcListProductions a l) = ''production:read''"
| "project_rpc_perm (RpcUpdateProduction a b c) = ''production:write''"
| "project_rpc_perm (RpcArchiveProduction a) = ''production:write''"
| "project_rpc_perm (RpcCreatePhase a b) = ''production:write''"
| "project_rpc_perm (RpcListPhases a) = ''production:read''"
| "project_rpc_perm (RpcUpdatePhaseStatus a b) = ''production:write''"
| "project_rpc_perm (RpcAddCrewMember r) = ''resource:manage''"
| "project_rpc_perm (RpcListCrewMembers a) = ''production:read''"
| "project_rpc_perm (RpcRemoveCrewMember a) = ''resource:manage''"
| "project_rpc_perm _ = ''''"

lemmas project_rpc_defs = rpc_CreateProduction_def rpc_GetProduction_def rpc_ListProductions_def rpc_UpdateProduction_def
  rpc_ArchiveProduction_def rpc_CreatePhase_def rpc_ListPhases_def rpc_UpdatePhaseStatus_def rpc_AddCrewMember_def
  rpc_ListCrewMembers_def rpc_RemoveCrewMember_def rpc_GetEntityLabels_def rpc_GetPhaseTypes_def

lemma project_metadata: "same untick (svc_GetEntityLabels ctx)" "same untick (svc_GetPhaseTypes ctx)"
  unfolding svc_GetEntityLabels_def svc_GetPhaseTypes_def by (intro same_intros)+

lemma call_project_sealed:
  assumes "u \<noteq> tenant_of_ctx ctx" and "step_service.sealed project_inv project_part u v w"
  shows "step_service.sealed project_inv project_part u v (call_project h ctx m w)"
proof -
  let ?P = "step_service.sealed project_inv project_part u v"
  have ne: "ctx_tenant ctx = Some t \<Longrightarrow> u \<noteq> t" for t using assms(1) by (auto simp: tenant_of_ctx_def)
  have writes: "u \<noteq> t \<Longrightarrow> prd_TenantID p = t \<Longrightarrow> keeps ?P (svc_CreateProduction en pub scan p)"
    "u \<noteq> t \<Longrightarrow> prd_TenantID p = t \<Longrightarrow> keeps ?P (svc_UpdateProduction en scan p)"
    "u \<noteq> t \<Longrightarrow> keeps ?P (svc_ArchiveProduction en t i)" "u \<noteq> t \<Longrightarrow> phs_TenantID ph = t \<Longrightarrow> keeps ?P (svc_CreatePhase en scan ctx ph)"
    "u \<noteq> t \<Longrightarrow> keeps ?P (svc_UpdatePhaseStatus en ctx t i ty)" "u \<noteq> t \<Longrightarrow> crw_TenantID c = t \<Longrightarrow> keeps ?P (svc_AddCrewMember en pub scan c)"
    "u \<noteq> t \<Longrightarrow> keeps ?P (svc_RemoveCrewMember en t i)" for t p i ph ty c en pub scan
    by (blast intro: projects.keeps_sealed_write svc_project_moves create_phase_moves update_phase_moves)+
  note rules = keeps_intros keeps_then_rpcHead project_reads [THEN projects.keeps_sealed_read] writes [OF ne]
    project_metadata [THEN projects.keeps_sealed_read]
  have "keeps ?P (rpc_CreateProduction h ctx a b c)" "keeps ?P (rpc_GetProduction h ctx a)" "keeps ?P (rpc_ListProductions h ctx a l)"
    "keeps ?P (rpc_UpdateProduction h ctx a b c)" "keeps ?P (rpc_ArchiveProduction h ctx a)" "keeps ?P (rpc_CreatePhase h ctx a b)"
    "keeps ?P (rpc_ListPhases h ctx a)" "keeps ?P (rpc_UpdatePhaseStatus h ctx a b)" "keeps ?P (rpc_AddCrewMember h ctx req)"
    "keeps ?P (rpc_ListCrewMembers h ctx a)" "keeps ?P (rpc_RemoveCrewMember h ctx a)" "keeps ?P (rpc_GetEntityLabels ctx)"
    "keeps ?P (rpc_GetPhaseTypes ctx)" for a b c l req
    unfolding project_rpc_defs Let_def by (intro rules | simp)+
  then show ?thesis using assms(2) by (cases m) (simp_all add: keepsD)
qed

interpretation pcalls: call_service "exec_project en pub scan" project_inv empty_projects preq_tenant project_part project_step
  "call_project h" tenant_of_ctx for en pub scan h
  by unfold_locales (rule call_project_sealed)

text \<open>
  No sequence of calls made in the contexts of other tenants changes a production, phase, crew
  member or event of a tenant.
\<close>

lemma project_rpc_isolation:
  assumes "project_inv w" and "\<And>ctx m. (ctx, m) \<in> set calls \<Longrightarrow> tenant_of_ctx ctx \<noteq> u"
  shows "project_part u (fold (\<lambda>(ctx, m). call_project h ctx m) calls w) = project_part u w"
  using assms by (intro pcalls.calls.isolation) auto

text \<open>
  A call whose caller does not have the permission that it needs, or whose permission cannot be
  checked, leaves the state of the project service exactly as it is.
\<close>

lemma project_rpc_denied:
  assumes "RequirePermission (h_flag h) ctx (h_perm h) (project_rpc_perm m) \<noteq> Inr ()" and "project_rpc_perm m \<noteq> ''''"
  shows "call_project h ctx m w = w"
  using assms by (cases m) (simp_all add: project_rpc_defs rpcHead_denied)

end
