(* ===== verification/BudgetDb.thy ===== *)
theory BudgetDb
  imports GoText
begin

text \<open>
  The data of the budget service and its statements: the types of
  \<^verbatim>\<open>services/budget/models.go\<close>, the rows of \<^verbatim>\<open>services/budget/db/models.go\<close> and the
  statements of \<^verbatim>\<open>queries.sql.go\<close> over the tables of \<^verbatim>\<open>migrations/budget\<close> with
  their constraints. The statement \<^verbatim>\<open>LockLineItem\<close>, which no method issues, is left out.
\<close>

section \<open>Types of the service\<close>

record Budget =
  bg_ID :: uuid
  bg_ProductionID :: uuid
  bg_TenantID :: uuid
  bg_Label :: string
  bg_Status :: string
  bg_Currency :: string
  bg_TotalAmount :: decimal
  bg_SubmittedBy :: "uuid option"
  bg_ApprovedBy :: "uuid option"
  bg_SubmittedAt :: "time option"
  bg_ApprovedAt :: "time option"
  bg_CreatedBy :: uuid
  bg_CreatedAt :: time
  bg_UpdatedAt :: time

record BudgetLineItem =
  li_ID :: uuid
  li_BudgetID :: uuid
  li_TenantID :: uuid
  li_CategoryID :: string
  li_Description :: string
  li_AccountCode :: string
  li_BudgetedAmount :: decimal
  li_ActualAmount :: decimal
  li_CommittedAmount :: decimal
  li_IsLocked :: bool
  li_CreatedAt :: time
  li_UpdatedAt :: time

datatype budget_sentinel =
  ErrBudgetNotFound | ErrLineItemNotFound | ErrBudgetLocked | ErrBudgetNotApproved | ErrInvalidCategory
| ErrInsufficientFunds | ErrAlreadyApproved

type_synonym budget_err = "budget_sentinel goerr"

section \<open>Rows and tables\<close>

text \<open>Amounts are columns \<^verbatim>\<open>NUMERIC(14,2) NOT NULL\<close>.\<close>

record budget_row =
  br_id :: uuid
  br_production :: uuid
  br_tenant :: uuid
  br_label :: string
  br_status :: string
  br_currency :: string
  br_total :: decimal
  br_submitted_by :: "uuid option"
  br_approved_by :: "uuid option"
  br_submitted_at :: "time option"
  br_approved_at :: "time option"
  br_created_by :: uuid
  br_created :: time
  br_updated :: time

record item_row =
  ir_id :: uuid
  ir_budget :: uuid
  ir_tenant :: uuid
  ir_category :: string
  ir_description :: string
  ir_account :: string
  ir_budgeted :: decimal
  ir_actual :: decimal
  ir_committed :: decimal
  ir_locked :: bool
  ir_created :: time
  ir_updated :: time

datatype budget_event = BudgetApproved Budget

record budget_db = io +
  budgets :: "budget_row list"
  line_items :: "item_row list"
  budget_events :: "budget_event list"

definition empty_budgets :: budget_db where
  "empty_budgets = \<lparr>tick = 0, budgets = [], line_items = [], budget_events = []\<rparr>"

text \<open>The \<^verbatim>\<open>CHECK\<close> constraint of the status column.\<close>

definition budget_statuses :: "string list" where
  "budget_statuses = [''draft'', ''submitted'', ''approved'', ''locked'']"

section \<open>Conversions\<close>

definition nullableUUID :: "uuid \<Rightarrow> uuid option" where
  "nullableUUID i = (if i = uuid_Nil then None else Some i)"

definition isUniqueViolation :: "db_error \<Rightarrow> bool" where
  "isUniqueViolation e = (case e of PgError c \<Rightarrow> c = ''23505'' | _ \<Rightarrow> False)"

definition budgetFromDB :: "budget_row \<Rightarrow> Budget" where
  "budgetFromDB r =
     \<lparr>bg_ID = br_id r, bg_ProductionID = br_production r, bg_TenantID = br_tenant r, bg_Label = br_label r,
      bg_Status = br_status r, bg_Currency = br_currency r, bg_TotalAmount = br_total r,
      bg_SubmittedBy = br_submitted_by r, bg_ApprovedBy = br_approved_by r, bg_SubmittedAt = br_submitted_at r,
      bg_ApprovedAt = br_approved_at r, bg_CreatedBy = br_created_by r, bg_CreatedAt = br_created r, bg_UpdatedAt = br_updated r\<rparr>"

definition lineItemFromDB :: "item_row \<Rightarrow> BudgetLineItem" where
  "lineItemFromDB r =
     \<lparr>li_ID = ir_id r, li_BudgetID = ir_budget r, li_TenantID = ir_tenant r, li_CategoryID = ir_category r,
      li_Description = ir_description r, li_AccountCode = ir_account r, li_BudgetedAmount = ir_budgeted r,
      li_ActualAmount = ir_actual r, li_CommittedAmount = ir_committed r, li_IsLocked = ir_locked r,
      li_CreatedAt = ir_created r, li_UpdatedAt = ir_updated r\<rparr>"

section \<open>Statements\<close>

subsection \<open>Budgets\<close>

abbreviation own_budget :: "uuid \<Rightarrow> uuid \<Rightarrow> budget_row \<Rightarrow> bool" where
  "own_budget t i r \<equiv> br_id r = i \<and> br_tenant r = t"

abbreviation own_item :: "uuid \<Rightarrow> uuid \<Rightarrow> item_row \<Rightarrow> bool" where
  "own_item t i r \<equiv> ir_id r = i \<and> ir_tenant r = t"

text \<open>The columns that the insert does not name get their defaults.\<close>

definition q_CreateBudget ::
  "env \<Rightarrow> uuid \<Rightarrow> uuid \<Rightarrow> uuid \<Rightarrow> string \<Rightarrow> string \<Rightarrow> string \<Rightarrow> uuid \<Rightarrow> (budget_db, db_error, budget_row) op" where
  "q_CreateBudget en i production t label st currency createdBy = query en (\<lambda>now w.
     let r = \<lparr>br_id = i, br_production = production, br_tenant = t, br_label = label, br_status = st, br_currency = currency,
              br_total = 0, br_submitted_by = None, br_approved_by = None, br_submitted_at = None, br_approved_at = None,
              br_created_by = createdBy, br_created = now, br_updated = now\<rparr> in
     if st \<notin> set budget_statuses then (Inl check_violation, w)
     else if \<exists>b \<in> set (budgets w). br_id b = i then (Inl ErrNoRows, w)
     else (Inr r, w\<lparr>budgets := budgets w @ [r]\<rparr>))"

definition q_GetBudget :: "env \<Rightarrow> uuid \<Rightarrow> uuid \<Rightarrow> (budget_db, db_error, budget_row) op" where
  "q_GetBudget en i t = query en (\<lambda>_ w. (row_by (own_budget t i) (budgets w), w))"

definition q_ListBudgets ::
  "env \<Rightarrow> uuid \<Rightarrow> uuid option \<Rightarrow> string \<Rightarrow> int \<Rightarrow> int \<Rightarrow> (budget_db, db_error, budget_row list) op" where
  "q_ListBudgets en t production st l ofs = query en (\<lambda>_ w.
     (page l ofs (sort_key (\<lambda>r. - br_created r)
        (filter (\<lambda>r. br_tenant r = t \<and> opt_filter production (br_production r) \<and> (st = '''' \<or> br_status r = st)) (budgets w))), w))"

definition status_set :: "string \<Rightarrow> uuid option \<Rightarrow> time \<Rightarrow> budget_row \<Rightarrow> budget_row" where
  "status_set st who now r =
     r\<lparr>br_status := st,
       br_submitted_by := (if st = ''submitted'' then who else br_submitted_by r),
       br_approved_by := (if st = ''approved'' then who else br_approved_by r),
       br_submitted_at := (if st = ''submitted'' then Some now else br_submitted_at r),
       br_approved_at := (if st = ''approved'' then Some now else br_approved_at r),
       br_updated := now\<rparr>"

abbreviation set_budgets :: "budget_row list \<Rightarrow> budget_db \<Rightarrow> budget_db" where
  "set_budgets rs w \<equiv> w\<lparr>budgets := rs\<rparr>"

definition q_UpdateBudgetStatus ::
  "env \<Rightarrow> uuid \<Rightarrow> uuid \<Rightarrow> string \<Rightarrow> uuid option \<Rightarrow> (budget_db, db_error, budget_row) op" where
  "q_UpdateBudgetStatus en i t st who = query en (\<lambda>now.
     update_one (own_budget t i) (status_set st who now) (\<lambda>r. br_status r \<in> set budget_statuses) budgets set_budgets)"

text \<open>The sub-select of the totals; a total that does not fit the column is an error.\<close>

definition items_total :: "uuid \<Rightarrow> uuid \<Rightarrow> item_row list \<Rightarrow> decimal" where
  "items_total i t rs = (\<Sum>r \<leftarrow> filter (\<lambda>r. ir_budget r = i \<and> ir_tenant r = t) rs. ir_budgeted r)"

definition q_UpdateBudgetTotals :: "env \<Rightarrow> uuid \<Rightarrow> uuid \<Rightarrow> (budget_db, db_error, unit) op" where
  "q_UpdateBudgetTotals en i t = query en (\<lambda>now w.
     if \<forall>b \<in> set (budgets w). \<not> own_budget t i b then (Inr (), w)
     else case numeric_14_2 (items_total i t (line_items w)) of Inl e \<Rightarrow> (Inl e, w)
        | Inr s \<Rightarrow> (Inr (), w\<lparr>budgets := update_rows (own_budget t i) (\<lambda>r. r\<lparr>br_total := s, br_updated := now\<rparr>) (budgets w)\<rparr>))"

subsection \<open>Line items\<close>

definition q_CreateLineItem ::
  "env \<Rightarrow> uuid \<Rightarrow> uuid \<Rightarrow> uuid \<Rightarrow> string \<Rightarrow> string \<Rightarrow> string \<Rightarrow> decimal \<Rightarrow> (budget_db, db_error, item_row) op" where
  "q_CreateLineItem en i b t category description account budgeted = query en (\<lambda>now w.
     case numeric_14_2 budgeted of Inl e \<Rightarrow> (Inl e, w) | Inr x \<Rightarrow>
       let r = \<lparr>ir_id = i, ir_budget = b, ir_tenant = t, ir_category = category, ir_description = description,
                ir_account = account, ir_budgeted = x, ir_actual = 0, ir_committed = 0, ir_locked = False,
                ir_created = now, ir_updated = now\<rparr> in
       if \<exists>l \<in> set (line_items w). ir_id l = i then (Inl ErrNoRows, w)
       else if \<forall>p \<in> set (budgets w). br_id p \<noteq> b then (Inl fk_violation, w)
       else (Inr r, w\<lparr>line_items := line_items w @ [r]\<rparr>))"

definition q_GetLineItem :: "env \<Rightarrow> uuid \<Rightarrow> uuid \<Rightarrow> (budget_db, db_error, item_row) op" where
  "q_GetLineItem en i t = query en (\<lambda>_ w. (row_by (own_item t i) (line_items w), w))"

text \<open>Ordered by category and then by the time of creation: two stable sorts.\<close>

definition q_ListLineItems :: "env \<Rightarrow> uuid \<Rightarrow> uuid \<Rightarrow> int \<Rightarrow> int \<Rightarrow> (budget_db, db_error, item_row list) op" where
  "q_ListLineItems en b t l ofs = query en (\<lambda>_ w.
     (page l ofs (sort_key ir_category (sort_key ir_created
        (filter (\<lambda>r. ir_budget r = b \<and> ir_tenant r = t) (line_items w)))), w))"

text \<open>\<^verbatim>\<open>COALESCE($3, budgeted_amount)\<close>, stored in a \<^verbatim>\<open>NUMERIC(14,2)\<close> column.\<close>

definition coalesce_amount :: "decimal option \<Rightarrow> decimal \<Rightarrow> db_error + decimal" where
  "coalesce_amount new old = numeric_14_2 (case new of None \<Rightarrow> old | Some x \<Rightarrow> x)"

definition q_UpdateLineItemAmounts ::
  "env \<Rightarrow> uuid \<Rightarrow> uuid \<Rightarrow> decimal option \<Rightarrow> decimal option \<Rightarrow> decimal option \<Rightarrow> (budget_db, db_error, item_row) op" where
  "q_UpdateLineItemAmounts en i t budgeted actual committed = query en (\<lambda>now w.
     case row_by (own_item t i) (line_items w) of Inl e \<Rightarrow> (Inl e, w) | Inr r \<Rightarrow>
     case coalesce_amount budgeted (ir_budgeted r) of Inl e \<Rightarrow> (Inl e, w) | Inr b \<Rightarrow>
     case coalesce_amount actual (ir_actual r) of Inl e \<Rightarrow> (Inl e, w) | Inr a \<Rightarrow>
     case coalesce_amount committed (ir_committed r) of Inl e \<Rightarrow> (Inl e, w) | Inr c \<Rightarrow>
       let f = (\<lambda>r. r\<lparr>ir_budgeted := b, ir_actual := a, ir_committed := c, ir_updated := now\<rparr>) in
       (Inr (f r), w\<lparr>line_items := update_rows (own_item t i) f (line_items w)\<rparr>))"

end
