(* ===== verification/BudgetService.thy ===== *)
theory BudgetService
  imports BudgetDb Interceptor
begin

text \<open>
  The repository (\<^verbatim>\<open>services/budget/db/postgres.go\<close>) and the service
  (\<^verbatim>\<open>services/budget/service.go\<close>) of budgets: budgets with their submission and approval, line
  items in the categories of the vertical, and budgets made from its templates. The total of a budget
  is brought up to date by a statement of its own after each change of a line item, outside a
  transaction.
\<close>

section \<open>Repository\<close>

definition pg_CreateBudget :: "env \<Rightarrow> Budget \<Rightarrow> (budget_db, budget_err, unit) op" where
  "pg_CreateBudget en b =
     andThen (onErr (wrapDb ''budget: create budget'')
       (q_CreateBudget en (bg_ID b) (bg_ProductionID b) (bg_TenantID b) (bg_Label b) (bg_Status b) (bg_Currency b) (bg_CreatedBy b)))
       (\<lambda>_. ret ())"

definition pg_GetBudget :: "env \<Rightarrow> uuid \<Rightarrow> uuid \<Rightarrow> (budget_db, budget_err, Budget) op" where
  "pg_GetBudget en t i =
     andThen (onErr (noRows ErrBudgetNotFound ''budget: get budget'') (q_GetBudget en i t)) (\<lambda>row. ret (budgetFromDB row))"

definition pg_ListBudgets ::
  "env \<Rightarrow> uuid \<Rightarrow> uuid \<Rightarrow> string \<Rightarrow> int \<Rightarrow> int \<Rightarrow> (budget_db, budget_err, Budget list) op" where
  "pg_ListBudgets en t production st limit ofs =
     andThen (onErr (wrapDb ''budget: list budgets'')
       (q_ListBudgets en t (nullableUUID production) st (int32 limit) (int32 ofs)))
       (\<lambda>rows. ret (map budgetFromDB rows))"

definition pg_UpdateBudgetStatus ::
  "env \<Rightarrow> uuid \<Rightarrow> uuid \<Rightarrow> string \<Rightarrow> uuid option \<Rightarrow> (budget_db, budget_err, unit) op" where
  "pg_UpdateBudgetStatus en t i st approvedBy =
     andThen (onErr (noRows ErrBudgetNotFound ''budget: update budget status'') (q_UpdateBudgetStatus en i t st approvedBy))
       (\<lambda>_. ret ())"

definition pg_CreateLineItem :: "env \<Rightarrow> BudgetLineItem \<Rightarrow> (budget_db, budget_err, unit) op" where
  "pg_CreateLineItem en li =
     andThen (onErr (\<lambda>err. if isUniqueViolation err then Wrap ''budget: line item already exists'' (DbErr err)
                           else Wrap ''budget: create line item'' (DbErr err))
       (q_CreateLineItem en (li_ID li) (li_BudgetID li) (li_TenantID li) (li_CategoryID li) (li_Description li)
          (li_AccountCode li) (li_BudgetedAmount li)))
       (\<lambda>_. onErr (wrapDb ''budget: update budget totals'') (q_UpdateBudgetTotals en (li_BudgetID li) (li_TenantID li)))"

definition pg_GetLineItem :: "env \<Rightarrow> uuid \<Rightarrow> uuid \<Rightarrow> (budget_db, budget_err, BudgetLineItem) op" where
  "pg_GetLineItem en t i =
     andThen (onErr (noRows ErrLineItemNotFound ''budget: get line item'') (q_GetLineItem en i t))
       (\<lambda>row. ret (lineItemFromDB row))"

definition pg_ListLineItems :: "env \<Rightarrow> uuid \<Rightarrow> uuid \<Rightarrow> int \<Rightarrow> int \<Rightarrow> (budget_db, budget_err, BudgetLineItem list) op" where
  "pg_ListLineItems en t b limit ofs =
     andThen (onErr (wrapDb ''budget: list line items'') (q_ListLineItems en b t (int32 limit) (int32 ofs)))
       (\<lambda>rows. ret (map lineItemFromDB rows))"

definition pg_UpdateLineItemActuals ::
  "env \<Rightarrow> uuid \<Rightarrow> uuid \<Rightarrow> decimal \<Rightarrow> decimal \<Rightarrow> (budget_db, budget_err, unit) op" where
  "pg_UpdateLineItemActuals en t i actual committed =
     andThen (onErr (noRows ErrLineItemNotFound ''budget: update line item actuals'')
       (q_UpdateLineItemAmounts en i t None (Some actual) (Some committed)))
       (\<lambda>li. onErr (wrapDb ''budget: update budget totals after actuals'') (q_UpdateBudgetTotals en (ir_budget li) t))"

definition pg_CheckLineAvailability :: "env \<Rightarrow> uuid \<Rightarrow> uuid \<Rightarrow> (budget_db, budget_err, decimal) op" where
  "pg_CheckLineAvailability en t i =
     andThen (pg_GetLineItem en t i) (\<lambda>li. ret (li_BudgetedAmount li - li_ActualAmount li - li_CommittedAmount li))"

section \<open>Service\<close>

definition publish :: "bool \<Rightarrow> budget_event \<Rightarrow> (budget_db, budget_err, unit) op" where
  "publish pub ev = (if pub then modify (\<lambda>w. w\<lparr>budget_events := budget_events w @ [ev]\<rparr>) else ret ())"

definition or_draft :: "string \<Rightarrow> string" where
  "or_draft st = (if st = '''' then ''draft'' else st)"

text \<open>The creating methods fill the caller's struct, so the model returns it.\<close>

definition svc_CreateBudget :: "env \<Rightarrow> Budget \<Rightarrow> (budget_db, budget_err, Budget) op" where
  "svc_CreateBudget en b =
     andThen (id_or_New en (bg_ID b))
       (\<lambda>i. let b' = b\<lparr>bg_ID := i, bg_Status := or_draft (bg_Status b)\<rparr> in
          andThen (pg_CreateBudget en b') (\<lambda>_. ret b'))"

definition svc_GetBudget :: "env \<Rightarrow> uuid \<Rightarrow> uuid \<Rightarrow> (budget_db, budget_err, Budget) op" where
  "svc_GetBudget en t i = pg_GetBudget en t i"

definition svc_ListBudgets ::
  "env \<Rightarrow> uuid \<Rightarrow> uuid \<Rightarrow> string \<Rightarrow> int \<Rightarrow> int \<Rightarrow> (budget_db, budget_err, Budget list) op" where
  "svc_ListBudgets en t production st limit ofs =
     (let limit' = (if limit \<le> 0 \<or> limit > 100 then 20 else limit) in pg_ListBudgets en t production st limit' ofs)"

definition svc_SubmitBudget :: "env \<Rightarrow> uuid \<Rightarrow> uuid \<Rightarrow> uuid \<Rightarrow> (budget_db, budget_err, unit) op" where
  "svc_SubmitBudget en t i submittedBy =
     andThen (onErr (Wrap ''get budget'') (pg_GetBudget en t i))
       (\<lambda>b. if bg_Status b \<noteq> ''draft'' then fail (Wrap ''must be draft'' (Sentinel ErrBudgetLocked))
            else pg_UpdateBudgetStatus en t i ''submitted'' None)"

definition svc_ApproveBudget :: "env \<Rightarrow> bool \<Rightarrow> uuid \<Rightarrow> uuid \<Rightarrow> uuid \<Rightarrow> (budget_db, budget_err, unit) op" where
  "svc_ApproveBudget en pub t i approvedBy =
     andThen (onErr (Wrap ''get budget'') (pg_GetBudget en t i))
       (\<lambda>b. if bg_Status b = ''approved'' \<or> bg_Status b = ''locked'' then fail (Wrap ''current status'' (Sentinel ErrAlreadyApproved))
            else if bg_Status b \<noteq> ''submitted'' then fail (Wrap ''must be submitted'' (Sentinel ErrBudgetNotApproved))
            else andThen (pg_UpdateBudgetStatus en t i ''approved'' (Some approvedBy))
              (\<lambda>_. publish pub (BudgetApproved (b\<lparr>bg_Status := ''approved'', bg_ApprovedBy := Some approvedBy\<rparr>))))"

definition svc_CreateLineItem :: "env \<Rightarrow> ctx \<Rightarrow> BudgetLineItem \<Rightarrow> (budget_db, budget_err, BudgetLineItem) op" where
  "svc_CreateLineItem en ctx li =
     andThen (MustFromContext ctx)
       (\<lambda>vcfg. case FindBudgetCategory vcfg (li_CategoryID li) of
          None \<Rightarrow> fail (Wrap ''is not valid for vertical'' (Sentinel ErrInvalidCategory))
        | Some cat \<Rightarrow>
            let li1 = (if li_AccountCode li = '''' then li\<lparr>li_AccountCode := bc_DefaultAccountCode cat\<rparr> else li) in
            andThen (id_or_New en (li_ID li1))
              (\<lambda>i. let li2 = li1\<lparr>li_ID := i\<rparr> in andThen (pg_CreateLineItem en li2) (\<lambda>_. ret li2)))"

definition svc_GetLineItem :: "env \<Rightarrow> uuid \<Rightarrow> uuid \<Rightarrow> (budget_db, budget_err, BudgetLineItem) op" where
  "svc_GetLineItem en t i = pg_GetLineItem en t i"

definition svc_ListLineItems ::
  "env \<Rightarrow> uuid \<Rightarrow> uuid \<Rightarrow> int \<Rightarrow> int \<Rightarrow> (budget_db, budget_err, BudgetLineItem list) op" where
  "svc_ListLineItems en t b limit ofs =
     (let limit' = (if limit \<le> 0 \<or> limit > 200 then 100 else limit) in pg_ListLineItems en t b limit' ofs)"

definition svc_UpdateLineItemActuals ::
  "env \<Rightarrow> uuid \<Rightarrow> uuid \<Rightarrow> decimal \<Rightarrow> decimal \<Rightarrow> (budget_db, budget_err, unit) op" where
  "svc_UpdateLineItemActuals en t i actual committed = pg_UpdateLineItemActuals en t i actual committed"

definition svc_CheckLineAvailability :: "env \<Rightarrow> uuid \<Rightarrow> uuid \<Rightarrow> (budget_db, budget_err, decimal) op" where
  "svc_CheckLineAvailability en t i = pg_CheckLineAvailability en t i"

text \<open>The line of a budget for a line of its template.\<close>

definition template_item :: "Budget \<Rightarrow> TemplateLineItem \<Rightarrow> uuid \<Rightarrow> BudgetLineItem" where
  "template_item b tli i =
     \<lparr>li_ID = i, li_BudgetID = bg_ID b, li_TenantID = bg_TenantID b, li_CategoryID = tl_CategoryID tli,
      li_Description = tl_Description tli, li_AccountCode = tl_AccountCode tli, li_BudgetedAmount = tl_DefaultAmount tli,
      li_ActualAmount = 0, li_CommittedAmount = 0, li_IsLocked = False, li_CreatedAt = 0, li_UpdatedAt = 0\<rparr>"

fun template_loop :: "env \<Rightarrow> Budget \<Rightarrow> TemplateLineItem list \<Rightarrow> (budget_db, budget_err, unit) op" where
  "template_loop en b [] = ret ()"
| "template_loop en b (tli # rest) =
     andThen (uuid_New en)
       (\<lambda>i. andThen (onErr (Wrap ''create template line item'') (pg_CreateLineItem en (template_item b tli i)))
       (\<lambda>_. template_loop en b rest))"

definition svc_CreateBudgetFromTemplate ::
  "env \<Rightarrow> ctx \<Rightarrow> Budget \<Rightarrow> string \<Rightarrow> (budget_db, budget_err, Budget) op" where
  "svc_CreateBudgetFromTemplate en ctx b templateName =
     andThen (MustFromContext ctx)
       (\<lambda>vcfg. case FindBudgetTemplate vcfg templateName of
          None \<Rightarrow> fail (Opaque ''budget: template not found in vertical'')
        | Some tmpl \<Rightarrow> andThen (id_or_New en (bg_ID b))
            (\<lambda>i. let b' = b\<lparr>bg_ID := i, bg_Status := or_draft (bg_Status b)\<rparr> in
               andThen (onErr (Wrap ''create budget'') (pg_CreateBudget en b'))
                 (\<lambda>_. andThen (template_loop en b' (bt_LineItems tmpl)) (\<lambda>_. ret b'))))"

definition svc_GetBudgetCategories :: "ctx \<Rightarrow> (budget_db, budget_err, BudgetCategory list) op" where
  "svc_GetBudgetCategories ctx = andThen (MustFromContext ctx) (\<lambda>vcfg. ret (vc_BudgetCategories vcfg))"

definition svc_GetBudgetTemplates :: "ctx \<Rightarrow> (budget_db, budget_err, BudgetTemplate list) op" where
  "svc_GetBudgetTemplates ctx = andThen (MustFromContext ctx) (\<lambda>vcfg. ret (vc_BudgetTemplates vcfg))"

end
