(* ===== verification/BudgetInv.thy ===== *)
theory BudgetInv
  imports BudgetService Service_Spec
begin

text \<open>
  Runs of the budget service. Every statement that writes is one step of an inductive relation, and a
  request makes any number of them, since the methods work without transactions. The invariant of the
  tables and the frame of other tenants are shown for the steps; the contract \<open>step_service\<close> is
  interpreted on the reflexive transitive closure.
\<close>

section \<open>Requests\<close>

datatype budget_req =
  CreateBudget Budget | GetBudget uuid uuid | ListBudgets uuid uuid string int int
| SubmitBudget uuid uuid uuid | ApproveBudget uuid uuid uuid
| CreateLineItem ctx BudgetLineItem | GetLineItem uuid uuid | ListLineItems uuid uuid int int
| UpdateLineItemActuals uuid uuid decimal decimal | CheckLineAvailability uuid uuid
| CreateBudgetFromTemplate ctx Budget string

fun breq_tenant :: "budget_req \<Rightarrow> uuid" where
  "breq_tenant (CreateBudget b) = bg_TenantID b"
| "breq_tenant (GetBudget t _) = t"
| "breq_tenant (ListBudgets t _ _ _ _) = t"
| "breq_tenant (SubmitBudget t _ _) = t"
| "breq_tenant (ApproveBudget t _ _) = t"
| "breq_tenant (CreateLineItem _ li) = li_TenantID li"
| "breq_tenant (GetLineItem t _) = t"
| "breq_tenant (ListLineItems t _ _ _) = t"
| "breq_tenant (UpdateLineItemActuals t _ _ _) = t"
| "breq_tenant (CheckLineAvailability t _) = t"
| "breq_tenant (CreateBudgetFromTemplate _ b _) = bg_TenantID b"

fun exec_budget :: "env \<Rightarrow> bool \<Rightarrow> budget_req \<Rightarrow> budget_db \<Rightarrow> budget_db" where
  "exec_budget en pub (CreateBudget b) w = snd (svc_CreateBudget en b w)"
| "exec_budget en pub (GetBudget t i) w = snd (svc_GetBudget en t i w)"
| "exec_budget en pub (ListBudgets t p st l ofs) w = snd (svc_ListBudgets en t p st l ofs w)"
| "exec_budget en pub (SubmitBudget t i u) w = snd (svc_SubmitBudget en t i u w)"
| "exec_budget en pub (ApproveBudget t i u) w = snd (svc_ApproveBudget en pub t i u w)"
| "exec_budget en pub (CreateLineItem ctx li) w = snd (svc_CreateLineItem en ctx li w)"
| "exec_budget en pub (GetLineItem t i) w = snd (svc_GetLineItem en t i w)"
| "exec_budget en pub (ListLineItems t b l ofs) w = snd (svc_ListLineItems en t b l ofs w)"
| "exec_budget en pub (UpdateLineItemActuals t i a c) w = snd (svc_UpdateLineItemActuals en t i a c w)"
| "exec_budget en pub (CheckLineAvailability t i) w = snd (svc_CheckLineAvailability en t i w)"
| "exec_budget en pub (CreateBudgetFromTemplate ctx b n) w = snd (svc_CreateBudgetFromTemplate en ctx b n w)"

section \<open>Reads\<close>

lemmas budget_repo_defs = pg_CreateBudget_def pg_GetBudget_def pg_ListBudgets_def pg_UpdateBudgetStatus_def
  pg_CreateLineItem_def pg_GetLineItem_def pg_ListLineItems_def pg_UpdateLineItemActuals_def pg_CheckLineAvailability_def

lemma budget_q_reads [same_intros]:
  "same untick (q_GetBudget en i t)" "same untick (q_ListBudgets en t p st l ofs)"
  "same untick (q_GetLineItem en i t)" "same untick (q_ListLineItems en b t l ofs)"
  unfolding q_GetBudget_def q_ListBudgets_def q_GetLineItem_def q_ListLineItems_def
  by (rule same_query, simp add: same_def)+

lemma budget_pg_reads [same_intros]:
  "same untick (pg_GetBudget en t i)" "same untick (pg_ListBudgets en t p st l ofs)"
  "same untick (pg_GetLineItem en t i)" "same untick (pg_ListLineItems en t b l ofs)"
  "same untick (pg_CheckLineAvailability en t i)"
  unfolding budget_repo_defs by (intro same_intros)+

lemma budget_reads [same_intros]:
  "same untick (svc_GetBudget en t i)" "same untick (svc_ListBudgets en t p st l ofs)"
  "same untick (svc_GetLineItem en t i)" "same untick (svc_ListLineItems en t b l ofs)"
  "same untick (svc_CheckLineAvailability en t i)"
  unfolding svc_GetBudget_def svc_ListBudgets_def svc_GetLineItem_def svc_ListLineItems_def svc_CheckLineAvailability_def Let_def
  by (intro same_intros)+

section \<open>Steps\<close>

definition new_budget_row :: "budget_db \<Rightarrow> budget_row \<Rightarrow> bool" where
  "new_budget_row w r \<longleftrightarrow> br_status r \<in> set budget_statuses \<and> (\<forall>b \<in> set (budgets w). br_id b \<noteq> br_id r)
     \<and> br_total r = 0 \<and> br_submitted_by r = None \<and> br_approved_by r = None"

definition new_item_row :: "budget_db \<Rightarrow> item_row \<Rightarrow> bool" where
  "new_item_row w r \<longleftrightarrow> (\<forall>l \<in> set (line_items w). ir_id l \<noteq> ir_id r) \<and> (\<exists>b \<in> set (budgets w). br_id b = ir_budget r)
     \<and> round2 (ir_budgeted r) = ir_budgeted r \<and> ir_actual r = 0 \<and> ir_committed r = 0"

definition next_status :: "string \<Rightarrow> string \<Rightarrow> bool" where
  "next_status st st' \<longleftrightarrow> st = ''draft'' \<and> st' = ''submitted'' \<or> st = ''submitted'' \<and> st' = ''approved''"

inductive budget_step :: "uuid \<Rightarrow> budget_db \<Rightarrow> budget_db \<Rightarrow> bool" for t :: uuid where
  create_budget: "new_budget_row w r \<Longrightarrow> br_tenant r = t \<Longrightarrow> budget_step t w (w\<lparr>budgets := budgets w @ [r]\<rparr>)"
| set_status: "row_by (own_budget t i) (budgets w) = Inr r \<Longrightarrow> next_status (br_status r) st \<Longrightarrow>
    budget_step t w (w\<lparr>budgets := update_rows (own_budget t i) (status_set st who now) (budgets w)\<rparr>)"
| set_total: "s = items_total i t (line_items w) \<Longrightarrow> round2 s = s' \<Longrightarrow>
    budget_step t w (w\<lparr>budgets := update_rows (own_budget t i) (\<lambda>r. r\<lparr>br_total := s', br_updated := now\<rparr>) (budgets w)\<rparr>)"
| create_item: "new_item_row w r \<Longrightarrow> ir_tenant r = t \<Longrightarrow> budget_step t w (w\<lparr>line_items := line_items w @ [r]\<rparr>)"
| set_amounts: "row_by (own_item t i) (line_items w) = Inr r \<Longrightarrow> round2 (ir_budgeted r) = b \<Longrightarrow> round2 a = a \<Longrightarrow> round2 c = c \<Longrightarrow>
    budget_step t w (w\<lparr>line_items := update_rows (own_item t i)
      (\<lambda>r. r\<lparr>ir_budgeted := b, ir_actual := a, ir_committed := c, ir_updated := now\<rparr>) (line_items w)\<rparr>)"
| notify: "bg_TenantID b = t \<Longrightarrow> bg_Status b = ''approved'' \<Longrightarrow> (\<exists>r \<in> set (budgets w). own_budget t (bg_ID b) r \<and> br_status r = ''approved'') \<Longrightarrow>
    budget_step t w (w\<lparr>budget_events := budget_events w @ [BudgetApproved b]\<rparr>)"

lemma budget_step_stable: "tick_stable (budget_step t)"
  unfolding tick_stable_def
proof (intro allI impI)
  fix w w' :: budget_db and n
  assume "budget_step t (w\<lparr>tick := n\<rparr>) w'"
  then have "budget_step t w (w'\<lparr>tick := tick w\<rparr>)"
  proof (cases rule: budget_step.cases)
    case (create_budget r)
    then show ?thesis using budget_step.create_budget [of w r t] by (simp add: new_budget_row_def)
  next
    case (set_status i r st who now)
    then show ?thesis using budget_step.set_status [of i t w r st who now] by simp
  next
    case (set_total s i s' now)
    then show ?thesis using budget_step.set_total [of s i t w s' now] by simp
  next
    case (create_item r)
    then show ?thesis using budget_step.create_item [of w r t] by (simp add: new_item_row_def)
  next
    case (set_amounts i r b a c now)
    then show ?thesis using budget_step.set_amounts [of i t w r b a c now] by simp
  next
    case (notify b)
    then show ?thesis using budget_step.notify [of b t w] by simp
  qed
  then show "\<exists>w1. budget_step t w w1 \<and> untick w1 = untick w'" by (metis untick_tick)
qed

abbreviation budget_moves :: "uuid \<Rightarrow> budget_db \<Rightarrow> budget_db \<Rightarrow> bool" where
  "budget_moves t \<equiv> moves (budget_step t)\<^sup>*\<^sup>*"

lemmas budget_seq = moves_seq [OF budget_step_stable]
lemmas budget_query = moves_once [OF moves_query [OF budget_step_stable]]

subsection \<open>Statements that write\<close>

lemma budget_q_moves:
  "budget_moves t w (snd (q_CreateBudget en i p t l st cu who w))"
  "budget_moves t w (snd (q_UpdateBudgetTotals en i t w))"
  "budget_moves t w (snd (q_CreateLineItem en i b t c d ac x w))"
  "budget_moves t w (snd (q_UpdateLineItemAmounts en i t None (Some a) (Some co) w))"
proof -
  show "budget_moves t w (snd (q_CreateBudget en i p t l st cu who w))"
    unfolding q_CreateBudget_def Let_def
    by (rule budget_query) (auto simp: new_budget_row_def intro!: budget_step.create_budget)
  show "budget_moves t w (snd (q_UpdateBudgetTotals en i t w))"
    unfolding q_UpdateBudgetTotals_def
    by (rule budget_query) (auto dest!: numeric_14_2_Inr intro!: budget_step.set_total split: sum.split)
  show "budget_moves t w (snd (q_CreateLineItem en i b t c d ac x w))"
    unfolding q_CreateLineItem_def Let_def
    by (rule budget_query) (auto simp: new_item_row_def dest!: numeric_14_2_Inr intro!: budget_step.create_item split: sum.split)
  show "budget_moves t w (snd (q_UpdateLineItemAmounts en i t None (Some a) (Some co) w))"
    unfolding q_UpdateLineItemAmounts_def Let_def coalesce_amount_def
    by (rule budget_query) (auto dest!: numeric_14_2_Inr intro!: budget_step.set_amounts split: sum.split)
qed

lemma budget_tables_untick:
  "untick v = untick w \<Longrightarrow> budgets v = budgets w" "untick v = untick w \<Longrightarrow> line_items v = line_items w"
  for v w :: budget_db
  by (cases v; cases w; simp add: untick_def)+

text \<open>A change of the status that the state of the row allows.\<close>

lemma q_UpdateBudgetStatus_moves:
  assumes "row_by (own_budget t i) (budgets w) = Inr r" and "next_status (br_status r) st"
  shows "budget_moves t w (snd (q_UpdateBudgetStatus en i t st who w))"
  unfolding q_UpdateBudgetStatus_def
proof (rule budget_query)
  fix now and v :: budget_db assume "untick v = untick w"
  then have v: "budgets v = budgets w" by (rule budget_tables_untick)
  show "snd (update_one (own_budget t i) (status_set st who now) (\<lambda>r. br_status r \<in> set budget_statuses) budgets set_budgets v) = v
    \<or> budget_step t v (snd (update_one (own_budget t i) (status_set st who now) (\<lambda>r. br_status r \<in> set budget_statuses) budgets set_budgets v))"
    using assms budget_step.set_status [of i t v r st who now] by (simp add: v update_one_def)
qed

subsection \<open>Methods\<close>


lemma budget_pg_moves:
  "budget_moves (bg_TenantID b) w (snd (pg_CreateBudget en b w))"
  "budget_moves (li_TenantID li) w (snd (pg_CreateLineItem en li w))"
  "budget_moves t w (snd (pg_UpdateLineItemActuals en t i a c w))"
  unfolding budget_repo_defs by (rule budget_seq; rule moves_onErr budget_q_moves moves_rtranclp_stays; rule budget_q_moves)+

lemma pg_GetBudget_Inr:
  "pg_GetBudget en t i w = (Inr b, w') \<Longrightarrow> untick w' = untick w \<and> (\<exists>r. row_by (own_budget t i) (budgets w) = Inr r \<and> b = budgetFromDB r)"
  by (auto simp: budget_repo_defs q_GetBudget_def onErr_InrD elim!: andThen_InrE query_InrE)

lemma pg_UpdateBudgetStatus_Inr:
  assumes "pg_UpdateBudgetStatus en t i st who w = (Inr u, w')"
  shows "\<exists>now r. row_by (own_budget t i) (budgets w) = Inr r \<and> st \<in> set budget_statuses
    \<and> untick w' = untick (w\<lparr>budgets := update_rows (own_budget t i) (status_set st who now) (budgets w)\<rparr>)"
  using assms
  by (auto simp: budget_repo_defs q_UpdateBudgetStatus_def onErr_InrD update_one_Inr status_set_def [of _ _ _ "_ :: budget_row"] untick_def
      intro!: exI [of _ "env_now en (tick w)"] elim!: andThen_InrE query_InrE)

lemmas budget_then = moves_then [OF _ tick_stable_rtranclp [OF budget_step_stable]]

lemma pg_UpdateBudgetStatus_moves:
  assumes "row_by (own_budget t i) (budgets w) = Inr r" and "next_status (br_status r) st"
  shows "budget_moves t w (snd (pg_UpdateBudgetStatus en t i st who w))"
  unfolding pg_UpdateBudgetStatus_def by (intro moves_ret moves_onErr q_UpdateBudgetStatus_moves [OF assms])

lemma svc_SubmitBudget_moves: "budget_moves t w (snd (svc_SubmitBudget en t i u w))"
  unfolding svc_SubmitBudget_def
proof (rule budget_then [OF same_onErr [OF budget_pg_reads(1)]])
  fix b n assume "onErr (Wrap ''get budget'') (pg_GetBudget en t i) w = (Inr b, w\<lparr>tick := n\<rparr>)"
  then obtain r where r: "row_by (own_budget t i) (budgets w) = Inr r" "b = budgetFromDB r"
    by (auto simp: onErr_InrD dest!: pg_GetBudget_Inr)
  show "budget_moves t (w\<lparr>tick := n\<rparr>) (snd ((if bg_Status b \<noteq> ''draft'' then fail (Wrap ''must be draft'' (Sentinel ErrBudgetLocked))
            else pg_UpdateBudgetStatus en t i ''submitted'' None) (w\<lparr>tick := n\<rparr>)))"
    using pg_UpdateBudgetStatus_moves [of i t "w\<lparr>tick := n\<rparr>" r "''submitted''" en None] r
    by (auto simp: next_status_def budgetFromDB_def)
qed

lemma publish_moves:
  assumes "bg_TenantID b = t" "bg_Status b = ''approved''" "\<exists>r \<in> set (budgets w). own_budget t (bg_ID b) r \<and> br_status r = ''approved''"
  shows "budget_moves t w (snd (publish pub (BudgetApproved b) w))"
  using budget_step.notify [OF assms] by (auto simp: publish_def moves_def)

lemma svc_ApproveBudget_moves: "budget_moves t w (snd (svc_ApproveBudget en pub t i u w))"
  unfolding svc_ApproveBudget_def
proof (rule budget_then [OF same_onErr [OF budget_pg_reads(1)]])
  fix b n assume "onErr (Wrap ''get budget'') (pg_GetBudget en t i) w = (Inr b, w\<lparr>tick := n\<rparr>)"
  then obtain r where r: "row_by (own_budget t i) (budgets w) = Inr r" "b = budgetFromDB r"
    by (auto simp: onErr_InrD dest!: pg_GetBudget_Inr)
  let ?w = "w\<lparr>tick := n\<rparr>" and ?b = "b\<lparr>bg_Status := ''approved'', bg_ApprovedBy := Some u\<rparr>"
  let ?up = "pg_UpdateBudgetStatus en t i ''approved'' (Some u)"
  have up: "budget_moves t ?w (snd (andThen ?up (\<lambda>_. publish pub (BudgetApproved ?b)) ?w))" if st: "bg_Status b = ''submitted''"
  proof (cases "?up ?w")
    case (Pair x w1)
    have m: "budget_moves t ?w w1" using pg_UpdateBudgetStatus_moves [of i t ?w r "''approved''" en "Some u"] r st Pair
      by (simp add: next_status_def budgetFromDB_def)
    show ?thesis
    proof (cases x)
      case (Inr y)
      from pg_UpdateBudgetStatus_Inr [OF Pair [unfolded Inr]] obtain now where
        "untick w1 = untick (?w\<lparr>budgets := update_rows (own_budget t i) (status_set ''approved'' (Some u) now) (budgets ?w)\<rparr>)" by blast
      from budget_tables_untick(1) [OF this] have w1: "budgets w1 = update_rows (own_budget t i) (status_set ''approved'' (Some u) now) (budgets w)" by simp
      have "\<exists>r \<in> set (budgets w1). own_budget t i r \<and> br_status r = ''approved''"
        using row_by_Inr [OF r(1)] unfolding w1 by (intro bexI [OF _ updated_row [of r]]) (auto simp: status_set_def)
      then have "budget_moves t w1 (snd (publish pub (BudgetApproved ?b) w1))"
        using row_by_Inr [OF r(1)] r(2) by (intro publish_moves) (auto simp: budgetFromDB_def)
      with moves_trans [OF budget_step_stable m] show ?thesis by (simp add: snd_andThen Pair Inr)
    qed (use m in \<open>simp add: snd_andThen Pair\<close>)
  qed
  show "budget_moves t ?w (snd ((if bg_Status b = ''approved'' \<or> bg_Status b = ''locked'' then fail (Wrap ''current status'' (Sentinel ErrAlreadyApproved))
            else if bg_Status b \<noteq> ''submitted'' then fail (Wrap ''must be submitted'' (Sentinel ErrBudgetNotApproved))
            else andThen ?up (\<lambda>_. publish pub (BudgetApproved ?b))) ?w))"
    using up by auto
qed

lemma budget_create_moves:
  "budget_moves (bg_TenantID b) w (snd (svc_CreateBudget en b w))"
  unfolding svc_CreateBudget_def Let_def
  by (rule budget_then [OF same_id_or_New], rule moves_ret)
    (metis budget_pg_moves(1) Budget.select_convs(3) Budget.surjective Budget.update_convs(1,5))

lemma svc_CreateLineItem_moves: "budget_moves (li_TenantID li) w (snd (svc_CreateLineItem en ctx li w))"
proof -
  have "budget_moves (li_TenantID li) w (snd (pg_CreateLineItem en (li\<lparr>li_AccountCode := a, li_ID := i\<rparr>) w))"
    "budget_moves (li_TenantID li) w (snd (pg_CreateLineItem en (li\<lparr>li_ID := i\<rparr>) w))" for a i w
    using budget_pg_moves(2) [of "li\<lparr>li_AccountCode := a, li_ID := i\<rparr>" w en] budget_pg_moves(2) [of "li\<lparr>li_ID := i\<rparr>" w en] by simp_all
  then show ?thesis
    unfolding svc_CreateLineItem_def Let_def
    by (intro budget_then [OF same_MustFromContext])
      (auto simp: moves_rtranclp_stays split: option.split intro!: budget_then [OF same_id_or_New] moves_ret)
qed

lemma template_loop_moves: "budget_moves (bg_TenantID b) w (snd (template_loop en b tlis w))"
proof (induction tlis arbitrary: w)
  case (Cons tli tlis)
  have "budget_moves (bg_TenantID b) w (snd (pg_CreateLineItem en (template_item b tli i) w))" for i w
    using budget_pg_moves(2) [of "template_item b tli i" w en] by (simp add: template_item_def)
  with Cons show ?case
    by (simp, intro budget_then [OF same_uuid_New] budget_seq moves_onErr)
qed (simp add: moves_rtranclp_stays)

lemma svc_CreateBudgetFromTemplate_moves:
  "budget_moves (bg_TenantID b) w (snd (svc_CreateBudgetFromTemplate en ctx b name w))"
proof -
  have "budget_moves (bg_TenantID b) w (snd (pg_CreateBudget en (b\<lparr>bg_ID := i, bg_Status := st\<rparr>) w))"
    "budget_moves (bg_TenantID b) w (snd (template_loop en (b\<lparr>bg_ID := i, bg_Status := st\<rparr>) tlis w))" for i st tlis w
    using budget_pg_moves(1) [of "b\<lparr>bg_ID := i, bg_Status := st\<rparr>"] template_loop_moves [of "b\<lparr>bg_ID := i, bg_Status := st\<rparr>"] by simp_all
  then show ?thesis
    unfolding svc_CreateBudgetFromTemplate_def Let_def
    by (intro budget_then [OF same_MustFromContext])
      (auto simp: moves_rtranclp_stays split: option.split intro!: budget_then [OF same_id_or_New] budget_seq moves_ret moves_onErr)
qed

lemma exec_budget_moves: "budget_moves (breq_tenant r) w (exec_budget en pub r w)"
  by (cases r) (simp_all add: moves_read budget_reads budget_create_moves svc_SubmitBudget_moves svc_ApproveBudget_moves
      svc_CreateLineItem_moves svc_CreateBudgetFromTemplate_moves svc_UpdateLineItemActuals_def budget_pg_moves(3))

section \<open>The invariant and the rows of a tenant\<close>

definition approved_row :: "budget_db \<Rightarrow> Budget \<Rightarrow> bool" where
  "approved_row w b \<longleftrightarrow> (\<exists>r \<in> set (budgets w). own_budget (bg_TenantID b) (bg_ID b) r \<and> br_status r = ''approved'')"

definition budget_inv :: "budget_db \<Rightarrow> bool" where
  "budget_inv w \<longleftrightarrow> distinct (map br_id (budgets w)) \<and> distinct (map ir_id (line_items w))
   \<and> (\<forall>r \<in> set (budgets w). br_status r \<in> set budget_statuses \<and> round2 (br_total r) = br_total r
        \<and> (br_approved_by r \<noteq> None \<longrightarrow> br_status r = ''approved''))
   \<and> (\<forall>r \<in> set (line_items w). ir_budget r \<in> br_id ` set (budgets w) \<and> round2 (ir_budgeted r) = ir_budgeted r
        \<and> round2 (ir_actual r) = ir_actual r \<and> round2 (ir_committed r) = ir_committed r)
   \<and> (\<forall>b. BudgetApproved b \<in> set (budget_events w) \<longrightarrow> approved_row w b)"

fun budget_event_tenant :: "budget_event \<Rightarrow> uuid" where
  "budget_event_tenant (BudgetApproved b) = bg_TenantID b"

definition budget_part :: "uuid \<Rightarrow> budget_db \<Rightarrow> budget_row list \<times> item_row list \<times> budget_event list" where
  "budget_part u w = (filter (\<lambda>r. br_tenant r = u) (budgets w), filter (\<lambda>r. ir_tenant r = u) (line_items w),
     filter (\<lambda>ev. budget_event_tenant ev = u) (budget_events w))"

lemma budget_untick: "untick w = untick w' \<Longrightarrow> budget_inv w = budget_inv w'" "untick w = untick w' \<Longrightarrow> budget_part u w = budget_part u w'"
  by (rule tickless_view_untick [of budget_inv], simp_all add: tickless_view_def budget_inv_def approved_row_def)
    (rule tickless_view_untick [of "budget_part u"], simp_all add: tickless_view_def budget_part_def)

lemma status_set_keys [simp]:
  "br_id (status_set st who now r) = br_id r" "br_tenant (status_set st who now r) = br_tenant r"
  "br_total (status_set st who now r) = br_total r" "br_status (status_set st who now r) = st"
  "br_approved_by (status_set st who now r) = (if st = ''approved'' then who else br_approved_by r)"
  by (simp_all add: status_set_def)

text \<open>Updates that keep the identifiers and the approved ones approved keep the rows that events name.\<close>

lemma approved_row_update:
  assumes "approved_row w b" and "\<And>r. r \<in> set (budgets w) \<Longrightarrow> br_id (f r) = br_id r \<and> br_tenant (f r) = br_tenant r
     \<and> (p r \<longrightarrow> br_status r = ''approved'' \<longrightarrow> br_status (f r) = ''approved'')"
  shows "approved_row (w\<lparr>budgets := update_rows p f (budgets w)\<rparr>) b"
proof -
  obtain r where r: "r \<in> set (budgets w)" "own_budget (bg_TenantID b) (bg_ID b) r" "br_status r = ''approved''"
    using assms(1) unfolding approved_row_def by blast
  show ?thesis unfolding approved_row_def using r assms(2) [OF r(1)]
    by (intro bexI [of _ "if p r then f r else r"]) (auto simp: updated_row)
qed

lemma budget_step_inv: "budget_step t w w' \<Longrightarrow> budget_inv w \<Longrightarrow> budget_inv w'"
proof (induction rule: budget_step.induct)
  case (create_budget w r)
  have "approved_row (w\<lparr>budgets := budgets w @ [r]\<rparr>) b" if "BudgetApproved b \<in> set (budget_events w)" for b
    using create_budget that by (auto simp: budget_inv_def approved_row_def)
  with create_budget show ?case by (auto simp: budget_inv_def new_budget_row_def)
next
  case (set_status i w r st who now)
  have one: "next_status (br_status x) st \<and> x = r" if "x \<in> set (budgets w)" "own_budget t i x" for x
    using set_status that row_by_Inr [OF set_status(1)] by (metis distinct_key_unique budget_inv_def)
  have none: "br_approved_by x = None" if "x \<in> set (budgets w)" "own_budget t i x" for x
  proof (rule ccontr)
    assume "br_approved_by x \<noteq> None"
    then have "br_status x = ''approved''" using that set_status(3) unfolding budget_inv_def by blast
    then show False using one [OF that] by (auto simp: next_status_def)
  qed
  have "approved_row (w\<lparr>budgets := update_rows (own_budget t i) (status_set st who now) (budgets w)\<rparr>) b"
    if "BudgetApproved b \<in> set (budget_events w)" for b
    using set_status that one by (intro approved_row_update) (auto simp: budget_inv_def next_status_def)
  with set_status one none show ?case
    by (auto simp: budget_inv_def map_update_rows image_update_rows set_update_rows next_status_def budget_statuses_def)
next
  case (set_total s i w s' now)
  have "approved_row (w\<lparr>budgets := update_rows (own_budget t i) (\<lambda>r. r\<lparr>br_total := s', br_updated := now\<rparr>) (budgets w)\<rparr>) b"
    if "BudgetApproved b \<in> set (budget_events w)" for b
    using set_total that by (intro approved_row_update) (auto simp: budget_inv_def)
  with set_total show ?case
    by (auto simp: budget_inv_def map_update_rows image_update_rows set_update_rows)
next
  case (create_item w r)
  then have "ir_budget r \<in> br_id ` set (budgets w)" unfolding new_item_row_def by (metis imageI)
  with create_item show ?case by (auto simp: budget_inv_def new_item_row_def approved_row_def)
next
  case (set_amounts i w r b a c now)
  then show ?case by (auto simp: budget_inv_def map_update_rows set_update_rows approved_row_def)
next
  case (notify b w)
  then show ?case by (auto simp: budget_inv_def approved_row_def)
qed

lemma budget_step_frame: "budget_step t w w' \<Longrightarrow> u \<noteq> t \<Longrightarrow> budget_part u w' = budget_part u w"
  by (induction rule: budget_step.induct) (auto simp: budget_part_def intro!: filter_update_rows)

lemma budget_inv_empty: "budget_inv empty_budgets"
  by (simp add: budget_inv_def empty_budgets_def)

lemma budget_steps_inv: "(budget_step t)\<^sup>*\<^sup>* w w' \<Longrightarrow> budget_inv w \<Longrightarrow> budget_inv w'"
  by (induction rule: rtranclp_induct) (auto intro: budget_step_inv)

lemma budget_steps_frame: "(budget_step t)\<^sup>*\<^sup>* w w' \<Longrightarrow> u \<noteq> t \<Longrightarrow> budget_part u w' = budget_part u w"
  by (induction rule: rtranclp_induct) (auto dest: budget_step_frame)

interpretation budget: step_service "exec_budget en pub" budget_inv empty_budgets breq_tenant budget_part "\<lambda>t. (budget_step t)\<^sup>*\<^sup>*"
  for en pub
  by unfold_locales (rule budget_inv_empty, rule exec_budget_moves, erule (1) budget_steps_inv, erule (1) budget_steps_frame,
    erule budget_untick(1), erule budget_untick(2))

end
