(* ===== verification/BudgetTotals.thy ===== *)
theory BudgetTotals
  imports BudgetInv Demo
begin

text \<open>
  The totals of budgets: while the database answers they are the sums of their lines, and a failed
  request can leave a line that the total does not count.
\<close>

section \<open>A concrete run\<close>

definition demo_budget :: Budget where
  "demo_budget = \<lparr>bg_ID = 5, bg_ProductionID = 3, bg_TenantID = 7, bg_Label = ''main'', bg_Status = '''', bg_Currency = ''INR'',
     bg_TotalAmount = 0, bg_SubmittedBy = None, bg_ApprovedBy = None, bg_SubmittedAt = None, bg_ApprovedAt = None,
     bg_CreatedBy = 9, bg_CreatedAt = 0, bg_UpdatedAt = 0\<rparr>"

definition demo_item :: "uuid \<Rightarrow> decimal \<Rightarrow> BudgetLineItem" where
  "demo_item i x = \<lparr>li_ID = i, li_BudgetID = 5, li_TenantID = 7, li_CategoryID = ''cast'', li_Description = ''Actors'',
     li_AccountCode = '''', li_BudgetedAmount = x, li_ActualAmount = 0, li_CommittedAmount = 0, li_IsLocked = False,
     li_CreatedAt = 0, li_UpdatedAt = 0\<rparr>"

definition demo_budgets :: "budget_req list" where
  "demo_budgets = [CreateBudget demo_budget, CreateLineItem (xdemo_ctx 7 9) (demo_item 6 100),
     CreateLineItem (xdemo_ctx 7 9) (demo_item 8 20)]"

abbreviation brun :: "budget_req list \<Rightarrow> budget_db" where
  "brun rs \<equiv> fold (exec_budget xdemo_env True) rs empty_budgets"

lemma brun_inv: "budget_inv (brun rs)"
  by (rule budget.inv_run)

section \<open>Totals\<close>

lemma round2_add: "round2 x = x \<Longrightarrow> round2 y = y \<Longrightarrow> round2 (x + y) = x + y"
proof -
  assume a: "round2 x = x" "round2 y = y"
  obtain k l where "x = of_int k / 100" "y = of_int l / 100" using round2_is_cents a by metis
  then have "x + y = of_int (k + l) / 100" by (simp add: add_divide_distrib)
  then show ?thesis using round2_cents by metis
qed

lemma round2_sum_list: "(\<And>x. x \<in> set xs \<Longrightarrow> round2 (f x) = f x) \<Longrightarrow> round2 (\<Sum>x \<leftarrow> xs. f x) = (\<Sum>x \<leftarrow> xs. f x)"
  by (induction xs) (simp_all add: round2_add)

text \<open>The total of a budget is that of its lines, or the lines come to more than the column holds.\<close>

definition totals_ok :: "budget_db \<Rightarrow> bool" where
  "totals_ok w \<longleftrightarrow> (\<forall>r \<in> set (budgets w). br_total r = items_total (br_id r) (br_tenant r) (line_items w)
     \<or> 10 ^ 12 \<le> \<bar>items_total (br_id r) (br_tenant r) (line_items w)\<bar>)"

definition items_ok :: "budget_db \<Rightarrow> bool" where
  "items_ok w \<longleftrightarrow> distinct (map ir_id (line_items w))
     \<and> (\<forall>l \<in> set (line_items w). ir_budget l \<in> br_id ` set (budgets w) \<and> round2 (ir_budgeted l) = ir_budgeted l)"

definition totals_inv :: "budget_db \<Rightarrow> bool" where
  "totals_inv w \<longleftrightarrow> items_ok w \<and> totals_ok w"

lemma tickless_totals [simp]: "tickless totals_inv"
  by (simp add: tickless_def totals_inv_def items_ok_def totals_ok_def)

lemma keeps_totals_query: "(\<And>now w. totals_inv w \<Longrightarrow> totals_inv (snd (q now w))) \<Longrightarrow> keeps totals_inv (query en q)"
  by (rule keeps_query) (simp_all add: keeps_def)

lemma items_total_cents: "totals_inv w \<Longrightarrow> round2 (items_total i t (line_items w)) = items_total i t (line_items w)"
  unfolding items_total_def by (rule round2_sum_list) (auto simp: totals_inv_def items_ok_def)

lemma items_total_append: "items_total i t (rs @ [r]) =
    items_total i t rs + (if ir_budget r = i \<and> ir_tenant r = t then ir_budgeted r else 0)"
  by (simp add: items_total_def)

lemma items_total_none: "(\<And>l. l \<in> set rs \<Longrightarrow> ir_budget l \<noteq> i) \<Longrightarrow> items_total i t rs = 0"
  by (induction rs) (simp_all add: items_total_def)

lemma items_total_update:
  "(\<And>r. r \<in> set rs \<Longrightarrow> p r \<Longrightarrow> ir_budget (f r) = ir_budget r \<and> ir_tenant (f r) = ir_tenant r \<and> ir_budgeted (f r) = ir_budgeted r) \<Longrightarrow>
     items_total i t (update_rows p f rs) = items_total i t rs"
  by (induction rs) (auto simp: items_total_def update_rows_def)

lemma totals_create_budget:
  assumes "totals_inv w" "\<forall>b \<in> set (budgets w). br_id b \<noteq> br_id r" "br_total r = 0"
  shows "totals_inv (w\<lparr>budgets := budgets w @ [r]\<rparr>)"
proof -
  have "items_total (br_id r) (br_tenant r) (line_items w) = 0"
    using assms(1,2) by (intro items_total_none) (auto simp: totals_inv_def items_ok_def)
  with assms show ?thesis by (auto simp: totals_inv_def items_ok_def totals_ok_def)
qed

lemma totals_update_budget:
  assumes "totals_inv w" and "\<And>r. br_id (f r) = br_id r \<and> br_tenant (f r) = br_tenant r"
    and "\<And>r. r \<in> set (budgets w) \<Longrightarrow> p r \<Longrightarrow> br_total (f r) = br_total r \<or> br_total (f r) = items_total (br_id r) (br_tenant r) (line_items w)"
  shows "totals_inv (w\<lparr>budgets := update_rows p f (budgets w)\<rparr>)"
proof -
  have "totals_ok (w\<lparr>budgets := update_rows p f (budgets w)\<rparr>)"
    using assms unfolding totals_inv_def totals_ok_def by (auto simp: set_update_rows) metis+
  with assms show ?thesis by (simp add: totals_inv_def items_ok_def image_update_rows)
qed

lemma keeps_totals_statements:
  "keeps totals_inv (q_CreateBudget en i p t l st cu who)"
  "keeps totals_inv (q_UpdateBudgetStatus en i t st who')"
  "keeps totals_inv (q_UpdateBudgetTotals en i t)"
  "keeps totals_inv (q_UpdateLineItemAmounts en i t None (Some a) (Some c))"
proof -
  show "keeps totals_inv (q_CreateBudget en i p t l st cu who)"
    unfolding q_CreateBudget_def Let_def by (rule keeps_totals_query) (auto intro!: totals_create_budget)
  show "keeps totals_inv (q_UpdateBudgetStatus en i t st who')"
    unfolding q_UpdateBudgetStatus_def
    by (rule keeps_totals_query) (auto simp: update_one_def intro!: totals_update_budget split: sum.split)
  show "keeps totals_inv (q_UpdateBudgetTotals en i t)"
    unfolding q_UpdateBudgetTotals_def
    by (rule keeps_totals_query)
      (auto dest!: numeric_14_2_Inr intro!: totals_update_budget simp: items_total_cents split: sum.split)
  show "keeps totals_inv (q_UpdateLineItemAmounts en i t None (Some a) (Some c))"
    unfolding q_UpdateLineItemAmounts_def Let_def coalesce_amount_def
  proof (rule keeps_totals_query, goal_cases)
    case (1 now w)
    have "totals_inv (w\<lparr>line_items := update_rows (own_item t i)
        (\<lambda>r. r\<lparr>ir_budgeted := round2 (ir_budgeted x), ir_actual := b, ir_committed := d, ir_updated := now\<rparr>) (line_items w)\<rparr>)"
      if "row_by (own_item t i) (line_items w) = Inr x" for x b d
    proof -
      have same: "y = x" if "y \<in> set (line_items w)" "own_item t i y" for y
        using that row_by_Inr [OF \<open>row_by _ _ = Inr x\<close>] 1 by (metis distinct_key_unique items_ok_def totals_inv_def)
      have "round2 (ir_budgeted x) = ir_budgeted x" using row_by_Inr [OF that] 1 by (auto simp: totals_inv_def items_ok_def)
      with 1 same show ?thesis
        by (auto simp: totals_inv_def items_ok_def totals_ok_def map_update_rows set_update_rows items_total_update)
    qed
    then show ?case using 1 by (auto dest!: numeric_14_2_Inr split: sum.split)
  qed
qed

text \<open>A new line with the statement that brings the total up to date.\<close>

lemma totals_after_item:
  assumes "totals_inv w" and "new_item_row w r" and "w1 = w\<lparr>line_items := line_items w @ [r]\<rparr>" and "untick w2 = untick w1"
    and "calm en"
  shows "totals_inv (snd (q_UpdateBudgetTotals en (ir_budget r) (ir_tenant r) w2))"
proof -
  let ?i = "ir_budget r" and ?t = "ir_tenant r"
  have tab: "budgets w2 = budgets w" "line_items w2 = line_items w @ [r]"
    using budget_tables_untick [OF assms(4)] assms(3) by simp_all
  have "ir_budget r \<in> br_id ` set (budgets w)" using assms(2) unfolding new_item_row_def by (metis imageI)
  then have items: "items_ok w2" using assms(1,2) by (auto simp: totals_inv_def items_ok_def new_item_row_def tab)
  let ?s = "items_total ?i ?t (line_items w2)"
  have s: "round2 ?s = ?s" unfolding items_total_def using items by (intro round2_sum_list) (auto simp: items_ok_def)
  define fine where "fine = (\<lambda>b :: budget_row. br_total b = items_total (br_id b) (br_tenant b) (line_items w2)
    \<or> 10 ^ 12 \<le> \<bar>items_total (br_id b) (br_tenant b) (line_items w2)\<bar>)"
  have rest: "fine b" if "b \<in> set (budgets w)" "\<not> own_budget ?t ?i b" for b
    using that assms(1) by (auto simp: fine_def totals_inv_def totals_ok_def tab items_total_append)
  have ok: "totals_inv v" if "line_items v = line_items w2" "br_id ` set (budgets v) = br_id ` set (budgets w)" "\<forall>b \<in> set (budgets v). fine b" for v
    using that items by (simp add: totals_inv_def totals_ok_def items_ok_def fine_def tab)
  show ?thesis
  proof (cases "\<forall>b \<in> set (budgets w). \<not> own_budget ?t ?i b")
    case True
    with rest show ?thesis
      by (intro ok) (simp_all add: q_UpdateBudgetTotals_def query_calm [OF assms(5)] tab)
  next
    case False
    show ?thesis
    proof (cases "\<bar>?s\<bar> < 10 ^ 12")
      case True
      have "snd (q_UpdateBudgetTotals en ?i ?t w2) = w2\<lparr>tick := Suc (tick w2), budgets := update_rows (own_budget ?t ?i)
          (\<lambda>b. b\<lparr>br_total := ?s, br_updated := env_now en (tick w2)\<rparr>) (budgets w2)\<rparr>"
        using False True s by (auto simp: q_UpdateBudgetTotals_def query_calm [OF assms(5)] tab numeric_14_2_def)
      moreover have "fine b" if "b \<in> set (update_rows (own_budget ?t ?i) (\<lambda>b. b\<lparr>br_total := ?s, br_updated := env_now en (tick w2)\<rparr>) (budgets w2))" for b
        using that rest by (auto simp: set_update_rows tab fine_def)
      ultimately show ?thesis by (intro ok) (simp_all add: image_update_rows tab)
    next
      case big: False
      then have "snd (q_UpdateBudgetTotals en ?i ?t w2) = w2\<lparr>tick := Suc (tick w2)\<rparr>"
        using False s by (auto simp: q_UpdateBudgetTotals_def query_calm [OF assms(5)] tab numeric_14_2_def)
      moreover have "fine b" if "b \<in> set (budgets w)" for b
        using rest [OF that] big by (cases "own_budget ?t ?i b") (auto simp: fine_def)
      ultimately show ?thesis by (intro ok) (auto simp: tab)
    qed
  qed
qed

lemma q_CreateLineItem_Inr:
  assumes "q_CreateLineItem en i b t c d ac x w = (Inr r, w')"
  shows "new_item_row w r" "ir_id r = i" "ir_budget r = b" "ir_tenant r = t" "ir_budgeted r = round2 x" "ir_category r = c"
    "ir_description r = d" "ir_account r = ac" "untick w' = untick (w\<lparr>line_items := line_items w @ [r]\<rparr>)"
  using assms
  by (auto simp: q_CreateLineItem_def Let_def new_item_row_def untick_def dest!: numeric_14_2_Inr elim!: query_InrE split: if_splits sum.splits) blast

lemma atomic_q_CreateLineItem: "atomic untick (q_CreateLineItem en i b t c d ac x)"
  unfolding q_CreateLineItem_def by (intro atomic_intros) (auto simp: atomic_def Let_def split: sum.splits if_splits)

lemma keeps_totals_item:
  assumes "calm en"
  shows "keeps totals_inv (pg_CreateLineItem en li)"
  unfolding keeps_def
proof (intro allI impI)
  fix w assume inv: "totals_inv w"
  obtain x w1 where run: "q_CreateLineItem en (li_ID li) (li_BudgetID li) (li_TenantID li) (li_CategoryID li) (li_Description li)
      (li_AccountCode li) (li_BudgetedAmount li) w = (x, w1)" by fastforce
  show "totals_inv (snd (pg_CreateLineItem en li w))"
  proof (cases x)
    case (Inl e)
    then have "untick w1 = untick w" using run atomicD [OF atomic_q_CreateLineItem] by blast
    then have "totals_inv w1" using inv by (metis tickless_totals ticklessD untick_eq)
    then show ?thesis using run Inl by (simp add: pg_CreateLineItem_def andThen_def onErr_def)
  next
    case (Inr r)
    note c = q_CreateLineItem_Inr [OF run [unfolded Inr]]
    have "snd (pg_CreateLineItem en li w) = snd (q_UpdateBudgetTotals en (ir_budget r) (ir_tenant r) w1)"
      using run Inr c(3,4) by (simp add: pg_CreateLineItem_def andThen_onErr_Inr)
    with totals_after_item [OF inv c(1) refl c(9) assms] show ?thesis by simp
  qed
qed

lemma keeps_totals_same: "same untick m \<Longrightarrow> keeps totals_inv m"
  by (erule same_keeps) (metis tickless_totals ticklessD untick_eq)

lemmas budget_svc_defs = svc_CreateBudget_def svc_SubmitBudget_def svc_ApproveBudget_def svc_CreateLineItem_def
  svc_UpdateLineItemActuals_def svc_CreateBudgetFromTemplate_def

lemma keeps_totals_svc:
  assumes "calm en"
  shows "keeps totals_inv (svc_CreateBudget en b)" "keeps totals_inv (svc_SubmitBudget en t i u)"
    "keeps totals_inv (svc_ApproveBudget en pub t i u)" "keeps totals_inv (svc_CreateLineItem en ctx li)"
    "keeps totals_inv (svc_UpdateLineItemActuals en t i a c)" "keeps totals_inv (svc_CreateBudgetFromTemplate en ctx b n)"
proof -
  note ks = keeps_intros keeps_totals_statements keeps_totals_item [OF assms] keeps_totals_same [OF same_id_or_New]
    keeps_totals_same [OF same_uuid_New] keeps_totals_same [OF same_MustFromContext] keeps_totals_same [OF budget_pg_reads(1)]
  have pub: "keeps totals_inv (publish pub ev)" for ev
    by (auto simp: keeps_def publish_def totals_inv_def items_ok_def totals_ok_def)
  have loop: "keeps totals_inv (template_loop en b tlis)" for b tlis
  proof (induction tlis)
    case (Cons tli tlis)
    then show ?case unfolding template_loop.simps by (intro ks)
  qed (simp add: keeps_def)
  show "keeps totals_inv (svc_CreateBudget en b)" "keeps totals_inv (svc_SubmitBudget en t i u)"
    "keeps totals_inv (svc_ApproveBudget en pub t i u)" "keeps totals_inv (svc_CreateLineItem en ctx li)"
    "keeps totals_inv (svc_UpdateLineItemActuals en t i a c)" "keeps totals_inv (svc_CreateBudgetFromTemplate en ctx b n)"
    unfolding budget_svc_defs pg_CreateBudget_def pg_UpdateBudgetStatus_def pg_UpdateLineItemActuals_def Let_def
    by (intro ks pub loop)+
qed

lemma keeps_totals_exec: "calm en \<Longrightarrow> totals_inv w \<Longrightarrow> totals_inv (exec_budget en pub r w)"
  by (cases r) (simp_all add: keepsD keeps_totals_svc keeps_totals_same budget_reads)

text \<open>
  C25: as long as the database answers, after any sequence of requests the total of every budget is the
  sum of the amounts of its lines, unless that sum is too large for the column of the total.
\<close>

theorem budget_totals:
  assumes "calm en" and "r \<in> set (budgets (fold (exec_budget en pub) rs empty_budgets))"
    and "\<bar>items_total (br_id r) (br_tenant r) (line_items (fold (exec_budget en pub) rs empty_budgets))\<bar> < 10 ^ 12"
  shows "br_total r = items_total (br_id r) (br_tenant r) (line_items (fold (exec_budget en pub) rs empty_budgets))"
proof -
  have "totals_inv (fold (exec_budget en pub) rs empty_budgets)"
    by (rule fold_keeps [where P = totals_inv])
      (auto simp: keeps_totals_exec assms(1), simp add: totals_inv_def items_ok_def totals_ok_def empty_budgets_def)
  with assms(2,3) show ?thesis by (auto simp: totals_inv_def totals_ok_def)
qed

theorem budget_totals_witness:
  "map br_total (budgets (brun demo_budgets)) = [120]"
proof -
  have "map (\<lambda>r. items_total (br_id r) (br_tenant r) (line_items (brun demo_budgets))) (budgets (brun demo_budgets)) = [120]"
    by code_simp
  then obtain r where r: "budgets (brun demo_budgets) = [r]" "items_total (br_id r) (br_tenant r) (line_items (brun demo_budgets)) = 120" by auto
  with budget_totals [OF xdemo_calm, of r True demo_budgets] show ?thesis by simp
qed

lemma q_UpdateBudgetTotals_cases:
  "untick (snd (q_UpdateBudgetTotals en i t w)) = untick w \<or> (\<exists>now. q_UpdateBudgetTotals en i t w = (Inr (), snd (q_UpdateBudgetTotals en i t w))
     \<and> untick (snd (q_UpdateBudgetTotals en i t w)) = untick (w\<lparr>budgets := update_rows (own_budget t i)
         (\<lambda>r. r\<lparr>br_total := round2 (items_total i t (line_items w)), br_updated := now\<rparr>) (budgets w)\<rparr>))"
proof (cases "numeric_14_2 (items_total i t (line_items w))")
  case (Inr s)
  then show ?thesis using numeric_14_2_Inr [OF Inr]
    by (auto simp: q_UpdateBudgetTotals_def query_def Let_def untick_def)
qed (auto simp: q_UpdateBudgetTotals_def query_def Let_def)

text \<open>
  The service's operation for a new line that fails, of which no statement took effect that failed, has
  either changed nothing or stored the line without bringing the total of its budget up to date, since
  the two statements are not in a transaction. The handler can fail after both, when it reads the line
  again.
\<close>

lemma CreateLineItem_failure:
  assumes "svc_CreateLineItem en ctx li w = (Inl e, w')"
  shows "untick w' = untick w \<or> (\<exists>r. new_item_row w r \<and> ir_tenant r = li_TenantID li \<and> ir_budget r = li_BudgetID li
    \<and> untick w' = untick (w\<lparr>line_items := line_items w @ [r]\<rparr>))"
proof -
  have pg: "untick w' = untick w \<or> (\<exists>r. new_item_row w r \<and> ir_tenant r = li_TenantID l \<and> ir_budget r = li_BudgetID l
    \<and> untick w' = untick (w\<lparr>line_items := line_items w @ [r]\<rparr>))" if "pg_CreateLineItem en l w = (Inl e, w')" for l w
  proof -
    obtain x w1 where run: "q_CreateLineItem en (li_ID l) (li_BudgetID l) (li_TenantID l) (li_CategoryID l) (li_Description l)
      (li_AccountCode l) (li_BudgetedAmount l) w = (x, w1)" by fastforce
    show ?thesis
    proof (cases x)
      case (Inl e')
      then have "w' = w1" "untick w1 = untick w" using run that atomicD [OF atomic_q_CreateLineItem]
        by (auto simp: pg_CreateLineItem_def andThen_def onErr_def)
      then show ?thesis by simp
    next
      case (Inr r)
      note c = q_CreateLineItem_Inr [OF run [unfolded Inr]]
      have "\<exists>e'. q_UpdateBudgetTotals en (li_BudgetID l) (li_TenantID l) w1 = (Inl e', w')"
        using that run Inr by (auto simp: pg_CreateLineItem_def andThen_onErr_Inr onErr_def split: prod.splits sum.splits)
      then have "untick w' = untick w1" using q_UpdateBudgetTotals_cases [of en "li_BudgetID l" "li_TenantID l" w1] by auto
      with c show ?thesis by auto
    qed
  qed
  show ?thesis
  proof (cases "ctx_vertical ctx")
    case None
    then show ?thesis using assms by (simp add: svc_CreateLineItem_def MustFromContext_def)
  next
    case (Some vcfg)
    show ?thesis
    proof (cases "FindBudgetCategory vcfg (li_CategoryID li)")
      case None
      then show ?thesis using assms Some by (simp add: svc_CreateLineItem_def MustFromContext_def)
    next
      case cat: (Some cat)
      define l where "l = (if li_AccountCode li = '''' then li\<lparr>li_AccountCode := bc_DefaultAccountCode cat\<rparr> else li)"
      obtain i n where i: "(id_or_New en (li_ID l) :: (budget_db, budget_err, uuid) op) w = (Inr i, w\<lparr>tick := n\<rparr>)"
        using id_or_New_total by blast
      have "pg_CreateLineItem en (l\<lparr>li_ID := i\<rparr>) (w\<lparr>tick := n\<rparr>) = (Inl e, w')"
        using assms Some cat i unfolding svc_CreateLineItem_def Let_def
        by (auto simp: MustFromContext_def andThen_def l_def [symmetric] split: prod.splits sum.splits)
      from pg [OF this] show ?thesis by (auto simp: l_def new_item_row_def untick_def split: if_splits)
    qed
  qed
qed

lemma failed: "isl (fst p) \<Longrightarrow> \<exists>e. p = (Inl e, snd p)"
  by (metis prod.collapse isl_def)

end
