(* ===== verification/BudgetProps.thy ===== *)
theory BudgetProps
  imports BudgetTotals
begin

text \<open>
  Properties of the methods of the budget service: submission and approval end as specified, a budget
  only moves forward, the available amount follows an update, and a template gives exactly its lines.
\<close>

section \<open>Decisions\<close>

definition submit_spec :: "string option \<Rightarrow> budget_sentinel option option" where
  "submit_spec st = (case st of None \<Rightarrow> Some (Some ErrBudgetNotFound)
     | Some s \<Rightarrow> if s = ''draft'' then None else Some (Some ErrBudgetLocked))"

definition approve_spec :: "string option \<Rightarrow> budget_sentinel option option" where
  "approve_spec st = (case st of None \<Rightarrow> Some (Some ErrBudgetNotFound)
     | Some s \<Rightarrow> if s = ''submitted'' then None
                 else if s = ''approved'' \<or> s = ''locked'' then Some (Some ErrAlreadyApproved) else Some (Some ErrBudgetNotApproved))"

lemma pg_GetBudget_calm:
  assumes "calm en"
  shows "pg_GetBudget en t i w = (case List.find (own_budget t i) (budgets w) of
      None \<Rightarrow> Inl (Sentinel ErrBudgetNotFound) | Some r \<Rightarrow> Inr (budgetFromDB r), w\<lparr>tick := Suc (tick w)\<rparr>)"
  using assms by (simp add: budget_repo_defs q_GetBudget_def query_calm row_by_def noRows_def andThen_def onErr_def split: option.split)

lemma pg_UpdateBudgetStatus_calm:
  assumes "calm en" "List.find (own_budget t i) (budgets w) = Some r" "st \<in> set budget_statuses"
  shows "\<exists>w'. pg_UpdateBudgetStatus en t i st who w = (Inr (), w')"
  using assms
  by (simp add: budget_repo_defs q_UpdateBudgetStatus_def query_calm update_one_def row_by_def andThen_def onErr_def)

text \<open>
  C26: when the database answers, a submission succeeds exactly for a draft and an approval exactly for a
  submitted budget of the tenant; every other state ends with the error that names it.
\<close>

theorem budget_decisions_meet_spec:
  assumes "calm en"
  shows "outcome (fst (svc_SubmitBudget en t i u w)) = submit_spec (map_option br_status (List.find (own_budget t i) (budgets w)))
    \<and> outcome (fst (svc_ApproveBudget en pub t i u w)) = approve_spec (map_option br_status (List.find (own_budget t i) (budgets w)))"
proof (cases "List.find (own_budget t i) (budgets w)")
  case None
  then show ?thesis using assms
    by (simp add: svc_SubmitBudget_def svc_ApproveBudget_def pg_GetBudget_calm andThen_def onErr_def outcome_def submit_spec_def approve_spec_def)
next
  case (Some r)
  have st: "''submitted'' \<in> set budget_statuses" "''approved'' \<in> set budget_statuses" by (simp_all add: budget_statuses_def)
  let ?w = "w\<lparr>tick := Suc (tick w)\<rparr>"
  obtain w1 w2 where up: "pg_UpdateBudgetStatus en t i ''submitted'' None ?w = (Inr (), w1)"
    "pg_UpdateBudgetStatus en t i ''approved'' (Some u) ?w = (Inr (), w2)"
    using pg_UpdateBudgetStatus_calm [OF assms, where w = ?w and t = t and i = i and r = r] st Some by fastforce
  show ?thesis using assms Some up
    by (simp add: svc_SubmitBudget_def svc_ApproveBudget_def pg_GetBudget_calm andThen_def onErr_def outcome_def submit_spec_def
        approve_spec_def budgetFromDB_def publish_def)
qed

theorem budget_decisions_meet_spec_witness:
  "outcome (fst (svc_ApproveBudget xdemo_env True 7 5 9 (brun demo_budgets))) = Some (Some ErrBudgetNotApproved)
   \<and> outcome (fst (svc_ApproveBudget xdemo_env True 7 5 9 (brun (demo_budgets @ [SubmitBudget 7 5 9])))) = None"
proof -
  have "approve_spec (map_option br_status (List.find (own_budget 7 5) (budgets (brun demo_budgets)))) = Some (Some ErrBudgetNotApproved)"
    "approve_spec (map_option br_status (List.find (own_budget 7 5) (budgets (brun (demo_budgets @ [SubmitBudget 7 5 9]))))) = None" by code_simp+
  with budget_decisions_meet_spec [OF xdemo_calm, of 7 5 9 "brun demo_budgets" True]
    budget_decisions_meet_spec [OF xdemo_calm, of 7 5 9 "brun (demo_budgets @ [SubmitBudget 7 5 9])" True] show ?thesis by simp
qed

text \<open>The order in which a budget goes through its states, and what stays of it.\<close>

definition advances :: "string \<Rightarrow> string \<Rightarrow> bool" where
  "advances st st' \<longleftrightarrow> st' = st \<or> st = ''draft'' \<and> st' \<in> {''submitted'', ''approved''} \<or> st = ''submitted'' \<and> st' = ''approved''"

definition budget_evolves :: "budget_row \<Rightarrow> budget_row \<Rightarrow> bool" where
  "budget_evolves r r' \<longleftrightarrow> br_id r' = br_id r \<and> br_tenant r' = br_tenant r \<and> br_production r' = br_production r
     \<and> br_label r' = br_label r \<and> br_currency r' = br_currency r \<and> br_created_by r' = br_created_by r \<and> br_created r' = br_created r
     \<and> advances (br_status r) (br_status r')
     \<and> (br_status r = ''approved'' \<or> br_status r = ''locked'' \<longrightarrow> br_approved_by r' = br_approved_by r \<and> br_approved_at r' = br_approved_at r)"

lemma budget_evolves_refl [simp]: "budget_evolves r r"
  by (simp add: budget_evolves_def advances_def)

lemma advances_trans: "advances a b \<Longrightarrow> advances b c \<Longrightarrow> advances a c"
  by (auto simp: advances_def)

lemma advances_final: "advances a b \<Longrightarrow> a = ''approved'' \<or> a = ''locked'' \<Longrightarrow> b = a"
  by (auto simp: advances_def)

lemma budget_evolves_trans:
  assumes a: "budget_evolves r r1" and b: "budget_evolves r1 r2"
  shows "budget_evolves r r2"
proof -
  have "advances (br_status r) (br_status r2)" using a b by (auto simp: budget_evolves_def intro: advances_trans)
  moreover have "br_status r1 = br_status r" if "br_status r = ''approved'' \<or> br_status r = ''locked''"
    using a that by (intro advances_final) (simp_all add: budget_evolves_def)
  ultimately show ?thesis using a b unfolding budget_evolves_def by simp
qed

definition budgets_evolve :: "budget_db \<Rightarrow> budget_db \<Rightarrow> bool" where
  "budgets_evolve w w' \<longleftrightarrow> (\<forall>r \<in> set (budgets w). \<exists>r' \<in> set (budgets w'). budget_evolves r r')"

lemma budgets_evolve_trans: "budgets_evolve w w1 \<Longrightarrow> budgets_evolve w1 w2 \<Longrightarrow> budgets_evolve w w2"
  unfolding budgets_evolve_def by (metis budget_evolves_trans)

lemma budget_step_evolves: "budget_step t w w' \<Longrightarrow> budget_inv w \<Longrightarrow> budgets_evolve w w'"
proof (induction rule: budget_step.induct)
  case (set_status i w r st who now)
  have "next_status (br_status x) st" if "x \<in> set (budgets w)" "own_budget t i x" for x
    using set_status that row_by_Inr [OF set_status(1)] by (metis distinct_key_unique budget_inv_def)
  then have "budget_evolves x (if own_budget t i x then status_set st who now x else x)" if "x \<in> set (budgets w)" for x
    using that by (auto simp: budget_evolves_def advances_def next_status_def status_set_def)
  then show ?case by (auto simp: budgets_evolve_def intro!: bexI [OF _ updated_row] simp del: if_split_asm if_split)
next
  case (set_total s i w s' now)
  have "budget_evolves x (if own_budget t i x then x\<lparr>br_total := s', br_updated := now\<rparr> else x)" for x
    by (simp add: budget_evolves_def advances_def)
  then show ?case by (auto simp: budgets_evolve_def intro!: bexI [OF _ updated_row] simp del: if_split_asm if_split)
qed (simp_all add: budgets_evolve_def; metis budget_evolves_refl)+

lemma budget_steps_evolve: "(budget_step t)\<^sup>*\<^sup>* w w' \<Longrightarrow> budget_inv w \<Longrightarrow> budgets_evolve w w'"
proof (induction rule: rtranclp_induct)
  case base
  then show ?case by (auto simp: budgets_evolve_def intro: budget_evolves_refl)
next
  case (step y z)
  then show ?case using budget_steps_inv budget_step_evolves budgets_evolve_trans by metis
qed

text \<open>
  C27: no sequence of requests removes a budget or changes what identifies it; its status only advances
  from draft to submitted to approved; and once it is approved or locked its status, its approver and
  the time of its approval never change.
\<close>

theorem budget_status_only_advances:
  assumes "budget_inv w" and "r \<in> set (budgets w)"
  shows "\<exists>r' \<in> set (budgets (fold (exec_budget en pub) rs w)). budget_evolves r r'"
proof -
  have "budgets_evolve w (fold (exec_budget en pub) rs w)"
  proof (rule budget.run_rel [where R = budgets_evolve, OF _ _ _ assms(1)])
    fix w w' :: budget_db assume "untick w' = untick w"
    from budget_tables_untick(1) [OF this] show "budgets_evolve w w'" by (auto simp: budgets_evolve_def intro: budget_evolves_refl)
  qed (auto intro: budgets_evolve_trans budget_steps_evolve)
  then show ?thesis using assms(2) by (auto simp: budgets_evolve_def)
qed

theorem budget_status_only_advances_witness:
  "\<exists>r' \<in> set (budgets (brun (demo_budgets @ [SubmitBudget 7 5 9, ApproveBudget 7 5 9] @ [CreateLineItem (xdemo_ctx 7 9) (demo_item 10 5)]))).
     br_id r' = 5 \<and> br_status r' = ''approved'' \<and> br_approved_by r' = Some 9"
proof -
  have "list_ex (\<lambda>r. br_id r = 5 \<and> br_status r = ''approved'' \<and> br_approved_by r = Some 9)
    (budgets (brun (demo_budgets @ [SubmitBudget 7 5 9, ApproveBudget 7 5 9])))" by code_simp
  then obtain r where r: "r \<in> set (budgets (brun (demo_budgets @ [SubmitBudget 7 5 9, ApproveBudget 7 5 9])))"
    "br_id r = 5 \<and> br_status r = ''approved'' \<and> br_approved_by r = Some 9" unfolding list_ex_iff by blast
  from budget_status_only_advances [OF brun_inv r(1), of xdemo_env True "[CreateLineItem (xdemo_ctx 7 9) (demo_item 10 5)]"] r(2)
  show ?thesis by (auto simp: budget_evolves_def advances_def)
qed

section \<open>Availability\<close>

text \<open>
  C28: after a successful update of the amounts of a line, the amount that is still available on it is
  what was budgeted less the new actual and committed amounts, each rounded to cents.
\<close>

theorem availability_after_update:
  assumes "calm en" and "svc_UpdateLineItemActuals en t i a c w = (Inr u, w')" and "budget_inv w"
  shows "\<exists>r \<in> set (line_items w). own_item t i r \<and> fst (svc_CheckLineAvailability en t i w') = Inr (ir_budgeted r - round2 a - round2 c)"
proof -
  obtain x w1 where x: "q_UpdateLineItemAmounts en i t None (Some a) (Some c) w = (Inr x, w1)"
    and tot: "q_UpdateBudgetTotals en (ir_budget x) t w1 = (Inr (), w')"
    using assms(2) by (auto simp: svc_UpdateLineItemActuals_def pg_UpdateLineItemActuals_def onErr_InrD elim!: andThen_InrE)
  from x obtain r now where r: "row_by (own_item t i) (line_items w) = Inr r"
    and w1: "line_items w1 = update_rows (own_item t i) (\<lambda>y. y\<lparr>ir_budgeted := round2 (ir_budgeted r), ir_actual := round2 a,
        ir_committed := round2 c, ir_updated := now\<rparr>) (line_items w)"
    by (auto simp: q_UpdateLineItemAmounts_def coalesce_amount_def Let_def dest!: numeric_14_2_Inr elim!: query_InrE split: sum.splits)
  have w': "line_items w' = line_items w1"
    using q_UpdateBudgetTotals_cases [of en "ir_budget x" t w1] tot by (auto dest: budget_tables_untick(2))
  have rin: "r \<in> set (line_items w)" "own_item t i r" using row_by_Inr [OF r] by auto
  then have b: "round2 (ir_budgeted r) = ir_budgeted r" using assms(3) by (auto simp: budget_inv_def)
  let ?f = "\<lambda>y. y\<lparr>ir_budgeted := round2 (ir_budgeted r), ir_actual := round2 a, ir_committed := round2 c, ir_updated := now\<rparr>"
  have "row_by (own_item t i) (line_items w') = Inr (?f r)"
  proof (rule row_by_unique [where k = ir_id])
    show "distinct (map ir_id (line_items w'))" using assms(3) by (simp add: w' w1 map_update_rows budget_inv_def)
    show "?f r \<in> set (line_items w')" using rin updated_row [of r "line_items w" "own_item t i" ?f] by (simp add: w' w1)
  qed (use rin in auto)
  then have "fst (svc_CheckLineAvailability en t i w') = Inr (ir_budgeted r - round2 a - round2 c)"
    using assms(1) b by (simp add: svc_CheckLineAvailability_def pg_CheckLineAvailability_def pg_GetLineItem_def q_GetLineItem_def query_calm
        andThen_def onErr_def lineItemFromDB_def)
  with rin show ?thesis by blast
qed

theorem availability_after_update_witness:
  "fst (svc_CheckLineAvailability xdemo_env 7 6 (snd (svc_UpdateLineItemActuals xdemo_env 7 6 30 20 (brun demo_budgets)))) = Inr 50"
proof -
  have ok: "\<not> isl (fst (svc_UpdateLineItemActuals xdemo_env 7 6 30 20 (brun demo_budgets)))" by code_simp
  have amounts: "map (\<lambda>r. (ir_id r, ir_budgeted r)) (line_items (brun demo_budgets)) = [(6, 100), (8, 20)]" by code_simp
  from xran [OF ok] obtain u where run: "svc_UpdateLineItemActuals xdemo_env 7 6 30 20 (brun demo_budgets)
    = (Inr u, snd (svc_UpdateLineItemActuals xdemo_env 7 6 30 20 (brun demo_budgets)))" by blast
  from availability_after_update [OF xdemo_calm run brun_inv] obtain r where r: "r \<in> set (line_items (brun demo_budgets))" "own_item 7 6 r"
    "fst (svc_CheckLineAvailability xdemo_env 7 6 (snd (svc_UpdateLineItemActuals xdemo_env 7 6 30 20 (brun demo_budgets))))
      = Inr (ir_budgeted r - round2 30 - round2 20)" by blast
  have "(ir_id r, ir_budgeted r) \<in> set [(6, 100), (8, 20)]" unfolding amounts [symmetric] using r(1) by force
  with r(2) have "ir_budgeted r = 100" by auto
  moreover have "round2 30 = 30" "round2 20 = 20" using round2_cents [of 3000] round2_cents [of 2000] by simp_all
  ultimately show ?thesis using r(3) by simp
qed

section \<open>Templates\<close>

text \<open>What the line of a budget made from a template has of the line of the template.\<close>

definition template_row :: "uuid \<Rightarrow> uuid \<Rightarrow> TemplateLineItem \<Rightarrow> item_row \<Rightarrow> bool" where
  "template_row b t tli r \<longleftrightarrow> ir_budget r = b \<and> ir_tenant r = t \<and> ir_category r = tl_CategoryID tli \<and> ir_description r = tl_Description tli
     \<and> ir_account r = tl_AccountCode tli \<and> ir_budgeted r = round2 (tl_DefaultAmount tli)"

lemma pg_CreateLineItem_Inr:
  assumes "pg_CreateLineItem en li w = (Inr u, w')" and "\<exists>b \<in> set (budgets w). own_budget (li_TenantID li) (li_BudgetID li) b"
  obtains r now where "template_row (li_BudgetID li) (li_TenantID li)
      \<lparr>tl_CategoryID = li_CategoryID li, tl_Description = li_Description li, tl_AccountCode = li_AccountCode li,
       tl_DefaultAmount = li_BudgetedAmount li, tl_IsRequired = False\<rparr> r"
    and "line_items w' = line_items w @ [r]" and "budget_events w' = budget_events w"
    and "budgets w' = update_rows (own_budget (li_TenantID li) (li_BudgetID li))
      (\<lambda>x. x\<lparr>br_total := round2 (items_total (li_BudgetID li) (li_TenantID li) (line_items w')), br_updated := now\<rparr>) (budgets w)"
proof -
  obtain r w1 where r: "q_CreateLineItem en (li_ID li) (li_BudgetID li) (li_TenantID li) (li_CategoryID li) (li_Description li)
      (li_AccountCode li) (li_BudgetedAmount li) w = (Inr r, w1)" and t: "q_UpdateBudgetTotals en (li_BudgetID li) (li_TenantID li) w1 = (Inr (), w')"
    using assms(1) by (auto simp: pg_CreateLineItem_def onErr_InrD elim!: andThen_InrE)
  note c = q_CreateLineItem_Inr [OF r]
  have w1: "line_items w1 = line_items w @ [r]" "budgets w1 = budgets w" "budget_events w1 = budget_events w"
    using untick_eq [OF c(9)] by (metis budget_db.select_convs budget_db.surjective budget_db.update_convs io.update_convs)+
  from t assms(2) obtain now where w': "w' = w1\<lparr>tick := Suc (tick w1), budgets := update_rows (own_budget (li_TenantID li) (li_BudgetID li))
      (\<lambda>x. x\<lparr>br_total := round2 (items_total (li_BudgetID li) (li_TenantID li) (line_items w1)), br_updated := now\<rparr>) (budgets w1)\<rparr>"
    by (auto simp: q_UpdateBudgetTotals_def w1 dest!: numeric_14_2_Inr elim!: query_InrE split: sum.splits if_splits)
  show ?thesis by (rule that [of r now]) (simp_all add: w' w1 template_row_def c)
qed

lemma update_total_twice:
  "update_rows p (\<lambda>x. x\<lparr>br_total := a, br_updated := b\<rparr>) (update_rows p (\<lambda>x. x\<lparr>br_total := c, br_updated := d\<rparr>) rs)
     = update_rows p (\<lambda>x. x\<lparr>br_total := a, br_updated := b\<rparr>) rs"
  if "\<And>x. p (x\<lparr>br_total := c, br_updated := d\<rparr>) = p x"
  using that by (induction rs) (simp_all add: update_rows_def)

lemma template_loop_Inr:
  assumes "template_loop en b tlis w = (Inr u, w')" and "\<exists>x \<in> set (budgets w). own_budget (bg_TenantID b) (bg_ID b) x"
  shows "\<exists>items now. line_items w' = line_items w @ items \<and> list_all2 (template_row (bg_ID b) (bg_TenantID b)) tlis items
    \<and> budget_events w' = budget_events w
    \<and> (tlis = [] \<and> budgets w' = budgets w \<or> budgets w' = update_rows (own_budget (bg_TenantID b) (bg_ID b))
        (\<lambda>x. x\<lparr>br_total := round2 (items_total (bg_ID b) (bg_TenantID b) (line_items w')), br_updated := now\<rparr>) (budgets w))"
  using assms
proof (induction tlis arbitrary: w)
  case (Cons tli tlis)
  obtain i w1 where step: "pg_CreateLineItem en (template_item b tli i) (w\<lparr>tick := Suc (tick w)\<rparr>) = (Inr (), w1)"
    and loop: "template_loop en b tlis w1 = (Inr u, w')"
    using Cons.prems(1) by (auto simp: uuid_New_def onErr_InrD elim!: andThen_InrE)
  let ?own = "own_budget (bg_TenantID b) (bg_ID b)"
  obtain r now where r: "template_row (bg_ID b) (bg_TenantID b) tli r" "line_items w1 = line_items w @ [r]" "budget_events w1 = budget_events w"
    and b1: "budgets w1 = update_rows ?own
      (\<lambda>x. x\<lparr>br_total := round2 (items_total (bg_ID b) (bg_TenantID b) (line_items w1)), br_updated := now\<rparr>) (budgets w)"
    by (rule pg_CreateLineItem_Inr [OF step]) (use Cons.prems(2) in \<open>auto simp: template_item_def template_row_def\<close>)
  have "\<exists>x \<in> set (budgets w1). ?own x"
    using Cons.prems(2) unfolding b1 by (auto intro!: bexI [OF _ updated_row])
  from Cons.IH [OF loop this] obtain items now' where it: "line_items w' = line_items w1 @ items"
    "list_all2 (template_row (bg_ID b) (bg_TenantID b)) tlis items" "budget_events w' = budget_events w1"
    and b': "tlis = [] \<and> budgets w' = budgets w1 \<or> budgets w' = update_rows ?own
      (\<lambda>x. x\<lparr>br_total := round2 (items_total (bg_ID b) (bg_TenantID b) (line_items w')), br_updated := now'\<rparr>) (budgets w1)" by blast
  have "\<exists>now. budgets w' = update_rows ?own
      (\<lambda>x. x\<lparr>br_total := round2 (items_total (bg_ID b) (bg_TenantID b) (line_items w')), br_updated := now\<rparr>) (budgets w)"
    using b'
  proof
    assume "tlis = [] \<and> budgets w' = budgets w1"
    then show ?thesis using it(1,2) b1 by auto
  next
    assume "budgets w' = update_rows ?own
      (\<lambda>x. x\<lparr>br_total := round2 (items_total (bg_ID b) (bg_TenantID b) (line_items w')), br_updated := now'\<rparr>) (budgets w1)"
    then show ?thesis unfolding b1 by (simp add: update_total_twice) blast
  qed
  with it r show ?case by auto
qed auto

lemma pg_CreateBudget_Inr:
  assumes "pg_CreateBudget en b w = (Inr u, w')"
  obtains r where "new_budget_row w r" and "own_budget (bg_TenantID b) (bg_ID b) r" and "br_status r = bg_Status b"
    and "budgets w' = budgets w @ [r]" and "line_items w' = line_items w" and "budget_events w' = budget_events w"
  using assms
  by (fastforce simp: pg_CreateBudget_def q_CreateBudget_def onErr_InrD Let_def new_budget_row_def elim!: andThen_InrE query_InrE split: if_splits)

lemma template_total: "list_all2 (template_row b t) tlis items \<Longrightarrow> items_total b t items = (\<Sum>tli \<leftarrow> tlis. round2 (tl_DefaultAmount tli))"
  by (induction rule: list_all2_induct) (simp_all add: items_total_def template_row_def)

text \<open>
  C29: a budget that was made from a template of the vertical is one new budget with exactly the lines of
  the template, in their order, with their categories, descriptions, accounts and amounts rounded to
  cents; its total is the sum of those amounts, and nothing else changes.
\<close>

theorem CreateBudgetFromTemplate_effect:
  assumes "svc_CreateBudgetFromTemplate en ctx b name w = (Inr b', w')" and "budget_inv w"
  shows "\<exists>vcfg tmpl r items. ctx_vertical ctx = Some vcfg \<and> FindBudgetTemplate vcfg name = Some tmpl
    \<and> budgets w' = budgets w @ [r] \<and> line_items w' = line_items w @ items \<and> budget_events w' = budget_events w
    \<and> own_budget (bg_TenantID b) (bg_ID b') r \<and> br_status r = or_draft (bg_Status b)
    \<and> list_all2 (template_row (bg_ID b') (bg_TenantID b)) (bt_LineItems tmpl) items
    \<and> br_total r = (\<Sum>tli \<leftarrow> bt_LineItems tmpl. round2 (tl_DefaultAmount tli))"
proof -
  obtain vcfg tmpl i n w1 where v: "ctx_vertical ctx = Some vcfg" "FindBudgetTemplate vcfg name = Some tmpl"
    and b': "b' = b\<lparr>bg_ID := i, bg_Status := or_draft (bg_Status b)\<rparr>"
    and c: "pg_CreateBudget en b' (w\<lparr>tick := n\<rparr>) = (Inr (), w1)" and loop: "template_loop en b' (bt_LineItems tmpl) w1 = (Inr (), w')"
    using assms(1)
    by (auto simp: svc_CreateBudgetFromTemplate_def MustFromContext_Inr onErr_InrD Let_def
        elim!: andThen_InrE dest!: id_or_New_ticks split: option.splits)
  obtain r where r: "new_budget_row w r" "own_budget (bg_TenantID b) (bg_ID b') r" "br_status r = or_draft (bg_Status b)"
    "budgets w1 = budgets w @ [r]" "line_items w1 = line_items w" "budget_events w1 = budget_events w"
    by (rule pg_CreateBudget_Inr [OF c]) (simp add: b' new_budget_row_def, blast)
  have tb: "bg_TenantID b' = bg_TenantID b" by (simp add: b')
  have "\<exists>x \<in> set (budgets w1). own_budget (bg_TenantID b') (bg_ID b') x" using r(2) unfolding r(4) tb by simp
  from template_loop_Inr [OF loop this, unfolded tb r(5,6)] obtain items now where it: "line_items w' = line_items w @ items"
    "list_all2 (template_row (bg_ID b') (bg_TenantID b)) (bt_LineItems tmpl) items" "budget_events w' = budget_events w"
    and tot: "bt_LineItems tmpl = [] \<and> budgets w' = budgets w1 \<or> budgets w' = update_rows (own_budget (bg_TenantID b) (bg_ID b'))
      (\<lambda>x. x\<lparr>br_total := round2 (items_total (bg_ID b') (bg_TenantID b) (line_items w')), br_updated := now\<rparr>) (budgets w1)"
    by blast
  have "items_total (bg_ID b') (bg_TenantID b) (line_items w) = 0"
    using r(1,2) assms(2) by (intro items_total_none) (auto simp: budget_inv_def new_budget_row_def)
  then have sum: "items_total (bg_ID b') (bg_TenantID b) (line_items w') = (\<Sum>tli \<leftarrow> bt_LineItems tmpl. round2 (tl_DefaultAmount tli))"
    using template_total [OF it(2)] by (simp add: it(1) items_total_def)
  have cents: "round2 (\<Sum>tli \<leftarrow> bt_LineItems tmpl. round2 (tl_DefaultAmount tli)) = (\<Sum>tli \<leftarrow> bt_LineItems tmpl. round2 (tl_DefaultAmount tli))"
    by (rule round2_sum_list) simp
  have "update_rows (own_budget (bg_TenantID b) (bg_ID b')) f (budgets w) = budgets w" for f
    using r(1,2) by (intro update_rows_none) (auto simp: new_budget_row_def)
  then have "update_rows (own_budget (bg_TenantID b) (bg_ID b')) f (budgets w @ [r]) = budgets w @ [f r]" for f
    using r(2) by (simp add: update_rows_def)
  with tot r obtain r' where "budgets w' = budgets w @ [r']" "own_budget (bg_TenantID b) (bg_ID b') r'" "br_status r' = br_status r"
    "br_total r' = (\<Sum>tli \<leftarrow> bt_LineItems tmpl. round2 (tl_DefaultAmount tli))"
    unfolding sum cents by (auto simp: new_budget_row_def)
  with v it r(3) show ?thesis by metis
qed

theorem CreateBudgetFromTemplate_effect_witness:
  "\<exists>r. budgets (snd (svc_CreateBudgetFromTemplate xdemo_env (xdemo_ctx 7 9) demo_budget ''basic'' empty_budgets)) = [r] \<and> br_total r = 100"
proof -
  let ?run = "svc_CreateBudgetFromTemplate xdemo_env (xdemo_ctx 7 9) demo_budget ''basic'' empty_budgets"
  have ok: "\<not> isl (fst ?run)" by code_simp
  have "FindBudgetTemplate xdemo_config ''basic'' = Some (hd (vc_BudgetTemplates xdemo_config))"
    "(\<Sum>tli \<leftarrow> bt_LineItems (hd (vc_BudgetTemplates xdemo_config)). round2 (tl_DefaultAmount tli)) = 100" by code_simp+
  moreover obtain b' where "?run = (Inr b', snd ?run)" using xran [OF ok] by blast
  from CreateBudgetFromTemplate_effect [OF this budget_inv_empty] obtain vcfg tmpl r where "ctx_vertical (xdemo_ctx 7 9) = Some vcfg"
    "FindBudgetTemplate vcfg ''basic'' = Some tmpl" "budgets (snd ?run) = budgets empty_budgets @ [r]"
    "br_total r = (\<Sum>tli \<leftarrow> bt_LineItems tmpl. round2 (tl_DefaultAmount tli))" by blast
  ultimately show ?thesis by (simp add: xdemo_ctx_def empty_budgets_def)
qed

end
