(* ===== verification/BudgetHandler.thy ===== *)
theory BudgetHandler
  imports BudgetService Rpc
begin

text \<open>
  The gRPC surface of the budget service (\<^verbatim>\<open>services/budget/handler.go\<close>). As for projects,
  every RPC but the two of metadata takes the tenant from the context and asks for a permission
  first; the case of \<^verbatim>\<open>vertical.ErrNotFound\<close> in the error mapping is left out, since no method
  returns that error.
\<close>

section \<open>Messages\<close>

record pbBudget =
  bpb_Id :: string
  bpb_TenantId :: string
  bpb_ProductionId :: string
  bpb_Label :: string
  bpb_Status :: string
  bpb_Currency :: string
  bpb_TotalAmount :: string
  bpb_SubmittedBy :: string
  bpb_ApprovedBy :: string
  bpb_SubmittedAt :: "time option"
  bpb_ApprovedAt :: "time option"
  bpb_CreatedBy :: string
  bpb_CreatedAt :: time
  bpb_UpdatedAt :: time

record pbLineItem =
  lpb_Id :: string
  lpb_BudgetId :: string
  lpb_TenantId :: string
  lpb_CategoryId :: string
  lpb_Description :: string
  lpb_AccountCode :: string
  lpb_BudgetedAmount :: string
  lpb_ActualAmount :: string
  lpb_CommittedAmount :: string
  lpb_IsLocked :: bool
  lpb_CreatedAt :: time
  lpb_UpdatedAt :: time

record CreateLineItemRequest =
  clr_BudgetId :: string
  clr_CategoryId :: string
  clr_Description :: string
  clr_AccountCode :: string
  clr_BudgetedAmount :: string

record TemplateLineItemInfo =
  tii_CategoryId :: string
  tii_Description :: string
  tii_AccountCode :: string
  tii_DefaultAmount :: string
  tii_IsRequired :: bool

record BudgetTemplateInfo =
  bti_Name :: string
  bti_Description :: string
  bti_LineItems :: "TemplateLineItemInfo list"

definition budgetToProto :: "handler \<Rightarrow> Budget \<Rightarrow> pbBudget" where
  "budgetToProto h b =
     \<lparr>bpb_Id = uuid_String h (bg_ID b), bpb_TenantId = uuid_String h (bg_TenantID b),
      bpb_ProductionId = uuid_String h (bg_ProductionID b), bpb_Label = bg_Label b, bpb_Status = bg_Status b,
      bpb_Currency = bg_Currency b, bpb_TotalAmount = StringFixed2 h (bg_TotalAmount b),
      bpb_SubmittedBy = (case bg_SubmittedBy b of None \<Rightarrow> '''' | Some u \<Rightarrow> uuid_String h u),
      bpb_ApprovedBy = (case bg_ApprovedBy b of None \<Rightarrow> '''' | Some u \<Rightarrow> uuid_String h u),
      bpb_SubmittedAt = bg_SubmittedAt b, bpb_ApprovedAt = bg_ApprovedAt b,
      bpb_CreatedBy = uuid_String h (bg_CreatedBy b), bpb_CreatedAt = bg_CreatedAt b, bpb_UpdatedAt = bg_UpdatedAt b\<rparr>"

definition lineItemToProto :: "handler \<Rightarrow> BudgetLineItem \<Rightarrow> pbLineItem" where
  "lineItemToProto h li =
     \<lparr>lpb_Id = uuid_String h (li_ID li), lpb_BudgetId = uuid_String h (li_BudgetID li),
      lpb_TenantId = uuid_String h (li_TenantID li), lpb_CategoryId = li_CategoryID li,
      lpb_Description = li_Description li, lpb_AccountCode = li_AccountCode li,
      lpb_BudgetedAmount = StringFixed2 h (li_BudgetedAmount li), lpb_ActualAmount = StringFixed2 h (li_ActualAmount li),
      lpb_CommittedAmount = StringFixed2 h (li_CommittedAmount li), lpb_IsLocked = li_IsLocked li,
      lpb_CreatedAt = li_CreatedAt li, lpb_UpdatedAt = li_UpdatedAt li\<rparr>"

definition grpcErr :: "budget_err \<Rightarrow> status" where
  "grpcErr err =
     (if errors_Is err ErrBudgetNotFound then Status NotFound ''budget not found''
      else if errors_Is err ErrLineItemNotFound then Status NotFound ''line item not found''
      else if errors_Is err ErrBudgetLocked then Status FailedPrecondition ''budget is locked''
      else if errors_Is err ErrBudgetNotApproved then Status FailedPrecondition ''budget is not in submitted status''
      else if errors_Is err ErrAlreadyApproved then Status FailedPrecondition ''budget is already approved or locked''
      else if errors_Is err ErrInvalidCategory then Status InvalidArgument ''invalid budget category for this vertical''
      else if errors_Is err ErrInsufficientFunds then Status FailedPrecondition ''insufficient funds on line item''
      else Status Internal ''internal error'')"

section \<open>Budgets\<close>

definition or_INR :: "string \<Rightarrow> string" where
  "or_INR currency = (if currency = '''' then ''INR'' else currency)"

text \<open>The struct that both creating RPCs fill from the request.\<close>

definition new_budget :: "uuid \<Rightarrow> uuid \<Rightarrow> string \<Rightarrow> string \<Rightarrow> Budget" where
  "new_budget t production label currency =
     \<lparr>bg_ID = uuid_Nil, bg_ProductionID = production, bg_TenantID = t, bg_Label = label, bg_Status = '''',
      bg_Currency = or_INR currency, bg_TotalAmount = 0, bg_SubmittedBy = None, bg_ApprovedBy = None,
      bg_SubmittedAt = None, bg_ApprovedAt = None, bg_CreatedBy = uuid_Nil, bg_CreatedAt = 0, bg_UpdatedAt = 0\<rparr>"

text \<open>The RPCs answer with the budget as it is read back.\<close>

definition budget_reply :: "handler \<Rightarrow> uuid \<Rightarrow> uuid \<Rightarrow> (budget_db, status, pbBudget) op" where
  "budget_reply h t i = andThen (onErr grpcErr (svc_GetBudget (h_env h) t i)) (\<lambda>b. ret (budgetToProto h b))"

definition rpc_CreateBudget ::
  "handler \<Rightarrow> ctx \<Rightarrow> string \<Rightarrow> string \<Rightarrow> string \<Rightarrow> (budget_db, status, pbBudget) op" where
  "rpc_CreateBudget h ctx productionId label currency =
     andThen (rpcHead h ctx ''budget:write'')
       (\<lambda>t. andThen (parse_id h productionId ''invalid production ID'')
       (\<lambda>production. andThen (onErr grpcErr (svc_CreateBudget (h_env h) (new_budget t production label currency)))
       (\<lambda>b. budget_reply h t (bg_ID b))))"

definition rpc_GetBudget :: "handler \<Rightarrow> ctx \<Rightarrow> string \<Rightarrow> (budget_db, status, pbBudget) op" where
  "rpc_GetBudget h ctx reqId =
     andThen (rpcHead h ctx ''budget:read'')
       (\<lambda>t. andThen (parse_id h reqId ''invalid budget ID'') (\<lambda>i. budget_reply h t i))"

definition rpc_ListBudgets ::
  "handler \<Rightarrow> ctx \<Rightarrow> string \<Rightarrow> string \<Rightarrow> int \<Rightarrow> (budget_db, status, pbBudget list) op" where
  "rpc_ListBudgets h ctx productionId st limit =
     andThen (rpcHead h ctx ''budget:read'')
       (\<lambda>t. andThen (if productionId \<noteq> '''' then parse_id h productionId ''invalid production ID'' else ret uuid_Nil)
       (\<lambda>production. andThen (onErr grpcErr (svc_ListBudgets (h_env h) t production st limit 0))
       (\<lambda>bs. ret (map (budgetToProto h) bs))))"

definition rpc_SubmitBudget :: "handler \<Rightarrow> ctx \<Rightarrow> string \<Rightarrow> (budget_db, status, pbBudget) op" where
  "rpc_SubmitBudget h ctx reqId =
     andThen (rpcHead h ctx ''budget:write'')
       (\<lambda>t. andThen (parse_id h reqId ''invalid budget ID'')
       (\<lambda>i. andThen (onErr grpcErr (svc_SubmitBudget (h_env h) t i uuid_Nil)) (\<lambda>_. budget_reply h t i)))"

definition rpc_ApproveBudget :: "handler \<Rightarrow> ctx \<Rightarrow> string \<Rightarrow> (budget_db, status, pbBudget) op" where
  "rpc_ApproveBudget h ctx reqId =
     andThen (rpcHead h ctx ''budget:approve'')
       (\<lambda>t. andThen (parse_id h reqId ''invalid budget ID'')
       (\<lambda>i. andThen (onErr grpcErr (svc_ApproveBudget (h_env h) (h_pub h) t i uuid_Nil)) (\<lambda>_. budget_reply h t i)))"

definition rpc_CreateBudgetFromTemplate ::
  "handler \<Rightarrow> ctx \<Rightarrow> string \<Rightarrow> string \<Rightarrow> string \<Rightarrow> string \<Rightarrow> (budget_db, status, pbBudget) op" where
  "rpc_CreateBudgetFromTemplate h ctx productionId label currency templateName =
     andThen (rpcHead h ctx ''budget:write'')
       (\<lambda>t. andThen (parse_id h productionId ''invalid production ID'')
       (\<lambda>production. andThen (onErr grpcErr
            (svc_CreateBudgetFromTemplate (h_env h) ctx (new_budget t production label currency) templateName))
       (\<lambda>b. budget_reply h t (bg_ID b))))"

section \<open>Line items\<close>

definition item_reply :: "handler \<Rightarrow> uuid \<Rightarrow> uuid \<Rightarrow> (budget_db, status, pbLineItem) op" where
  "item_reply h t i = andThen (onErr grpcErr (svc_GetLineItem (h_env h) t i)) (\<lambda>li. ret (lineItemToProto h li))"

definition rpc_CreateLineItem :: "handler \<Rightarrow> ctx \<Rightarrow> CreateLineItemRequest \<Rightarrow> (budget_db, status, pbLineItem) op" where
  "rpc_CreateLineItem h ctx req =
     andThen (rpcHead h ctx ''budget:write'')
       (\<lambda>t. andThen (parse_id h (clr_BudgetId req) ''invalid budget ID'')
       (\<lambda>b. andThen (parse_decimal h (clr_BudgetedAmount req) ''invalid budgeted_amount: must be a decimal string'')
       (\<lambda>amount. andThen (onErr grpcErr (svc_CreateLineItem (h_env h) ctx
            \<lparr>li_ID = uuid_Nil, li_BudgetID = b, li_TenantID = t, li_CategoryID = clr_CategoryId req,
             li_Description = clr_Description req, li_AccountCode = clr_AccountCode req, li_BudgetedAmount = amount,
             li_ActualAmount = 0, li_CommittedAmount = 0, li_IsLocked = False, li_CreatedAt = 0, li_UpdatedAt = 0\<rparr>))
       (\<lambda>li. item_reply h t (li_ID li)))))"

definition rpc_GetLineItem :: "handler \<Rightarrow> ctx \<Rightarrow> string \<Rightarrow> (budget_db, status, pbLineItem) op" where
  "rpc_GetLineItem h ctx reqId =
     andThen (rpcHead h ctx ''budget:read'')
       (\<lambda>t. andThen (parse_id h reqId ''invalid line item ID'') (\<lambda>i. item_reply h t i))"

definition rpc_ListLineItems :: "handler \<Rightarrow> ctx \<Rightarrow> string \<Rightarrow> (budget_db, status, pbLineItem list) op" where
  "rpc_ListLineItems h ctx budgetId =
     andThen (rpcHead h ctx ''budget:read'')
       (\<lambda>t. andThen (parse_id h budgetId ''invalid budget ID'')
       (\<lambda>b. andThen (onErr grpcErr (svc_ListLineItems (h_env h) t b 100 0))
       (\<lambda>items. ret (map (lineItemToProto h) items))))"

definition rpc_UpdateLineItemActuals ::
  "handler \<Rightarrow> ctx \<Rightarrow> string \<Rightarrow> string \<Rightarrow> string \<Rightarrow> (budget_db, status, pbLineItem) op" where
  "rpc_UpdateLineItemActuals h ctx reqId actualAmount committedAmount =
     andThen (rpcHead h ctx ''budget:write'')
       (\<lambda>t. andThen (parse_id h reqId ''invalid line item ID'')
       (\<lambda>i. andThen (parse_decimal h actualAmount ''invalid actual_amount'')
       (\<lambda>actual. andThen (parse_decimal h committedAmount ''invalid committed_amount'')
       (\<lambda>committed. andThen (onErr grpcErr (svc_UpdateLineItemActuals (h_env h) t i actual committed))
       (\<lambda>_. item_reply h t i)))))"

definition rpc_CheckLineAvailability :: "handler \<Rightarrow> ctx \<Rightarrow> string \<Rightarrow> (budget_db, status, string) op" where
  "rpc_CheckLineAvailability h ctx lineItemId =
     andThen (rpcHead h ctx ''budget:read'')
       (\<lambda>t. andThen (parse_id h lineItemId ''invalid line_item_id'')
       (\<lambda>i. andThen (onErr grpcErr (svc_CheckLineAvailability (h_env h) t i))
       (\<lambda>available. ret (StringFixed2 h available))))"

section \<open>Vertical metadata\<close>

text \<open>The message of a category has the fields of the configuration's categories.\<close>

definition rpc_GetBudgetCategories :: "ctx \<Rightarrow> (budget_db, status, BudgetCategory list) op" where
  "rpc_GetBudgetCategories ctx = andThen (onErr grpcErr (svc_GetBudgetCategories ctx)) ret"

definition templateInfo :: "handler \<Rightarrow> BudgetTemplate \<Rightarrow> BudgetTemplateInfo" where
  "templateInfo h t =
     \<lparr>bti_Name = bt_Name t, bti_Description = bt_Description t,
      bti_LineItems = map (\<lambda>tli. \<lparr>tii_CategoryId = tl_CategoryID tli, tii_Description = tl_Description tli,
        tii_AccountCode = tl_AccountCode tli, tii_DefaultAmount = StringFixed2 h (tl_DefaultAmount tli),
        tii_IsRequired = tl_IsRequired tli\<rparr>) (bt_LineItems t)\<rparr>"

definition rpc_GetBudgetTemplates :: "handler \<Rightarrow> ctx \<Rightarrow> (budget_db, status, BudgetTemplateInfo list) op" where
  "rpc_GetBudgetTemplates h ctx =
     andThen (onErr grpcErr (svc_GetBudgetTemplates ctx)) (\<lambda>tmpls. ret (map (templateInfo h) tmpls))"

end
