(* ===== verification/BudgetApi.thy ===== *)
theory BudgetApi
  imports BudgetProps BudgetHandler
begin

text \<open>
  The RPCs of the budget service as calls of the contract \<open>call_service\<close>: they act on the tenant of
  their context and only with permission.
\<close>

section \<open>Calls\<close>

datatype budget_rpc =
  RpcCreateBudget string string string | RpcGetBudget string | RpcListBudgets string string int
| RpcSubmitBudget string | RpcApproveBudget string | RpcCreateBudgetFromTemplate string string string string
| RpcCreateLineItem CreateLineItemRequest | RpcGetLineItem string | RpcListLineItems string
| RpcUpdateLineItemActuals string string string | RpcCheckLineAvailability string
| RpcGetBudgetCategories | RpcGetBudgetTemplates

fun call_budget :: "handler \<Rightarrow> ctx \<Rightarrow> budget_rpc \<Rightarrow> budget_db \<Rightarrow> budget_db" where
  "call_budget h ctx (RpcCreateBudget a b c) w = snd (rpc_CreateBudget h ctx a b c w)"
| "call_budget h ctx (RpcGetBudget a) w = snd (rpc_GetBudget h ctx a w)"
| "call_budget h ctx (RpcListBudgets a b l) w = snd (rpc_ListBudgets h ctx a b l w)"
| "call_budget h ctx (RpcSubmitBudget a) w = snd (rpc_SubmitBudget h ctx a w)"
| "call_budget h ctx (RpcApproveBudget a) w = snd (rpc_ApproveBudget h ctx a w)"
| "call_budget h ctx (RpcCreateBudgetFromTemplate a b c d) w = snd (rpc_CreateBudgetFromTemplate h ctx a b c d w)"
| "call_budget h ctx (RpcCreateLineItem r) w = snd (rpc_CreateLineItem h ctx r w)"
| "call_budget h ctx (RpcGetLineItem a) w = snd (rpc_GetLineItem h ctx a w)"
| "call_budget h ctx (RpcListLineItems a) w = snd (rpc_ListLineItems h ctx a w)"
| "call_budget h ctx (RpcUpdateLineItemActuals a b c) w = snd (rpc_UpdateLineItemActuals h ctx a b c w)"
| "call_budget h ctx (RpcCheckLineAvailability a) w = snd (rpc_CheckLineAvailability h ctx a w)"
| "call_budget h ctx RpcGetBudgetCategories w = snd (rpc_GetBudgetCategories ctx w)"
| "call_budget h ctx RpcGetBudgetTemplates w = snd (rpc_GetBudgetTemplates h ctx w)"

fun budget_rpc_perm :: "budget_rpc \<Rightarrow> string" where
  "budget_rpc_perm (RpcCreateBudget a b c) = ''budget:write''"
| "budget_rpc_perm (RpcGetBudget a) = ''budget:read''"
| "budget_rpc_perm (RpcListBudgets a b l) = ''budget:read''"
| "budget_rpc_perm (RpcSubmitBudget a) = ''budget:write''"
| "budget_rpc_perm (RpcApproveBudget a) = ''budget:approve''"
| "budget_rpc_perm (RpcCreateBudgetFromTemplate a b c d) = ''budget:write''"
| "budget_rpc_perm (RpcCreateLineItem r) = ''budget:write''"
| "budget_rpc_perm (RpcGetLineItem a) = ''budget:read''"
| "budget_rpc_perm (RpcListLineItems a) = ''budget:read''"
| "budget_rpc_perm (RpcUpdateLineItemActuals a b c) = ''budget:write''"
| "budget_rpc_perm (RpcCheckLineAvailability a) = ''budget:read''"
| "budget_rpc_perm _ = ''''"

lemmas budget_rpc_defs = rpc_CreateBudget_def rpc_GetBudget_def rpc_ListBudgets_def rpc_SubmitBudget_def rpc_ApproveBudget_def
  rpc_CreateBudgetFromTemplate_def rpc_CreateLineItem_def rpc_GetLineItem_def rpc_ListLineItems_def
  rpc_UpdateLineItemActuals_def rpc_CheckLineAvailability_def rpc_GetBudgetCategories_def rpc_GetBudgetTemplates_def
  budget_reply_def item_reply_def

lemma budget_metadata: "same untick (svc_GetBudgetCategories ctx)" "same untick (svc_GetBudgetTemplates ctx)"
  unfolding svc_GetBudgetCategories_def svc_GetBudgetTemplates_def by (intro same_intros)+

lemma svc_UpdateLineItemActuals_moves: "budget_moves t w (snd (svc_UpdateLineItemActuals en t i a c w))"
  by (simp add: svc_UpdateLineItemActuals_def budget_pg_moves(3))

lemma call_budget_sealed:
  assumes "u \<noteq> tenant_of_ctx ctx" and "step_service.sealed budget_inv budget_part u v w"
  shows "step_service.sealed budget_inv budget_part u v (call_budget h ctx m w)"
proof -
  let ?P = "step_service.sealed budget_inv budget_part u v"
  have ne: "ctx_tenant ctx = Some t \<Longrightarrow> u \<noteq> t" for t using assms(1) by (auto simp: tenant_of_ctx_def)
  have writes: "u \<noteq> t \<Longrightarrow> bg_TenantID b = t \<Longrightarrow> keeps ?P (svc_CreateBudget en b)"
    "u \<noteq> t \<Longrightarrow> bg_TenantID b = t \<Longrightarrow> keeps ?P (svc_CreateBudgetFromTemplate en ctx b n)"
    "u \<noteq> t \<Longrightarrow> keeps ?P (svc_SubmitBudget en t i who)" "u \<noteq> t \<Longrightarrow> keeps ?P (svc_ApproveBudget en pub t i who)"
    "u \<noteq> t \<Longrightarrow> li_TenantID li = t \<Longrightarrow> keeps ?P (svc_CreateLineItem en ctx li)"
    "u \<noteq> t \<Longrightarrow> keeps ?P (svc_UpdateLineItemActuals en t i x y)" for t b n i who li x y en pub
    by (blast intro: budget.keeps_sealed_write budget_create_moves svc_CreateBudgetFromTemplate_moves svc_SubmitBudget_moves
        svc_ApproveBudget_moves svc_CreateLineItem_moves svc_UpdateLineItemActuals_moves)+
  have new: "bg_TenantID (new_budget t p l c) = t" for t p l c by (simp add: new_budget_def)
  note rules = keeps_intros keeps_then_rpcHead budget_reads [THEN budget.keeps_sealed_read] writes [OF ne]
    budget_metadata [THEN budget.keeps_sealed_read] new
  have "keeps ?P (rpc_CreateBudget h ctx a b c)" "keeps ?P (rpc_GetBudget h ctx a)" "keeps ?P (rpc_ListBudgets h ctx a b l)"
    "keeps ?P (rpc_SubmitBudget h ctx a)" "keeps ?P (rpc_ApproveBudget h ctx a)" "keeps ?P (rpc_CreateBudgetFromTemplate h ctx a b c d)"
    "keeps ?P (rpc_CreateLineItem h ctx req)" "keeps ?P (rpc_GetLineItem h ctx a)" "keeps ?P (rpc_ListLineItems h ctx a)"
    "keeps ?P (rpc_UpdateLineItemActuals h ctx a b c)" "keeps ?P (rpc_CheckLineAvailability h ctx a)"
    "keeps ?P (rpc_GetBudgetCategories ctx)" "keeps ?P (rpc_GetBudgetTemplates h ctx)" for a b c d l req
    unfolding budget_rpc_defs Let_def by (intro rules | simp)+
  then show ?thesis using assms(2) by (cases m) (simp_all add: keepsD)
qed

interpretation bcalls: call_service "exec_budget en pub" budget_inv empty_budgets breq_tenant budget_part "\<lambda>t. (budget_step t)\<^sup>*\<^sup>*"
  "call_budget h" tenant_of_ctx for en pub h
  by unfold_locales (rule call_budget_sealed)

lemma budget_rpc_denied:
  assumes "RequirePermission (h_flag h) ctx (h_perm h) (budget_rpc_perm m) \<noteq> Inr ()" and "budget_rpc_perm m \<noteq> ''''"
  shows "call_budget h ctx m w = w"
  using assms by (cases m) (simp_all add: budget_rpc_defs rpcHead_denied)

end
