(* ===== verification/InventoryDb.thy ===== *)
theory InventoryDb
  imports GoText
begin

text \<open>
  The data of the inventory service and its statements: the types of
  \<^verbatim>\<open>services/inventory/models.go\<close>, the rows of \<^verbatim>\<open>services/inventory/db/models.go\<close> and the
  statements of \<^verbatim>\<open>queries.sql.go\<close> over the tables of \<^verbatim>\<open>migrations/inventory\<close> with
  their constraints. The statements \<^verbatim>\<open>GetAssetByCode\<close> and \<^verbatim>\<open>UpdateAsset\<close>, which no
  method issues, are left out. A date is the text that \<^verbatim>\<open>time.DateOnly\<close> gives it.
\<close>

section \<open>Types of the service\<close>

record Asset =
  as_ID :: uuid
  as_TenantID :: uuid
  as_AssetCode :: string
  as_Name :: string
  as_CategoryID :: string
  as_Description :: string
  as_OwnershipType :: string
  as_Status :: string
  as_PurchaseDate :: "string option"
  as_PurchaseCost :: decimal
  as_SerialNumber :: string
  as_CreatedAt :: time
  as_UpdatedAt :: time

record AssetCheckout =
  ac_ID :: uuid
  ac_AssetID :: uuid
  ac_ProductionID :: uuid
  ac_TenantID :: uuid
  ac_CheckedOutTo :: uuid
  ac_CheckedOutAt :: time
  ac_ExpectedReturn :: "string option"
  ac_CheckedInAt :: "time option"
  ac_ConditionOut :: string
  ac_ConditionIn :: string
  ac_Notes :: string
  ac_ReportDamage :: bool
  ac_DamageSeverity :: string
  ac_DamageDescription :: string
  ac_RepairCost :: "decimal option"

record CheckInInput =
  ci_ConditionIn :: string
  ci_Notes :: string
  ci_ReportDamage :: bool
  ci_DamageSeverity :: string
  ci_DamageDescription :: string
  ci_RepairCost :: "decimal option"

datatype inventory_sentinel =
  ErrAssetNotFound | ErrAssetNotAvailable | ErrInvalidCategory | ErrAlreadyCheckedOut | ErrNoActiveCheckout

type_synonym inventory_err = "inventory_sentinel goerr"

section \<open>Rows and tables\<close>

record asset_row =
  sr_id :: uuid
  sr_tenant :: uuid
  sr_code :: string
  sr_name :: string
  sr_category :: string
  sr_description :: "string option"
  sr_ownership :: string
  sr_status :: string
  sr_purchase_date :: "string option"
  sr_purchase_cost :: "decimal option"
  sr_serial :: "string option"
  sr_created :: time
  sr_updated :: time

record checkout_row =
  kr_id :: uuid
  kr_asset :: uuid
  kr_production :: uuid
  kr_tenant :: uuid
  kr_to :: uuid
  kr_out :: time
  kr_expected :: "string option"
  kr_in :: "time option"
  kr_condition_out :: "string option"
  kr_condition_in :: "string option"
  kr_notes :: "string option"
  kr_damage :: bool
  kr_severity :: "string option"
  kr_damage_text :: "string option"
  kr_repair_cost :: "decimal option"

record inventory_db = io +
  assets :: "asset_row list"
  checkouts :: "checkout_row list"

definition empty_inventory :: inventory_db where
  "empty_inventory = \<lparr>tick = 0, assets = [], checkouts = []\<rparr>"

text \<open>The \<^verbatim>\<open>CHECK\<close> constraints of the assets.\<close>

definition ownership_types :: "string list" where
  "ownership_types = [''owned'', ''rented'', ''borrowed'']"

definition asset_statuses :: "string list" where
  "asset_statuses = [''available'', ''checked_out'', ''under_repair'', ''retired'']"

section \<open>Conversions\<close>

definition pgTextFromString :: "string \<Rightarrow> string option" where
  "pgTextFromString s = (if s \<noteq> '''' then Some s else None)"

definition stringFromPgText :: "string option \<Rightarrow> string" where
  "stringFromPgText t = (case t of None \<Rightarrow> '''' | Some s \<Rightarrow> s)"

definition pgDateFromPtrString :: "(string \<Rightarrow> string option) \<Rightarrow> string option \<Rightarrow> string option" where
  "pgDateFromPtrString scan s = (case s of None \<Rightarrow> None | Some d \<Rightarrow> if d = '''' then None else scan d)"

definition decimalFromPgNumeric :: "decimal option \<Rightarrow> decimal" where
  "decimalFromPgNumeric n = (case n of None \<Rightarrow> 0 | Some x \<Rightarrow> x)"

definition decimalPtrFromPgNumeric :: "decimal option \<Rightarrow> decimal option" where
  "decimalPtrFromPgNumeric n = (case n of None \<Rightarrow> None | Some x \<Rightarrow> Some (decimalFromPgNumeric (Some x)))"

definition assetFromDB :: "asset_row \<Rightarrow> Asset" where
  "assetFromDB r =
     \<lparr>as_ID = sr_id r, as_TenantID = sr_tenant r, as_AssetCode = sr_code r, as_Name = sr_name r, as_CategoryID = sr_category r,
      as_Description = stringFromPgText (sr_description r), as_OwnershipType = sr_ownership r, as_Status = sr_status r,
      as_PurchaseDate = sr_purchase_date r, as_PurchaseCost = decimalFromPgNumeric (sr_purchase_cost r),
      as_SerialNumber = stringFromPgText (sr_serial r), as_CreatedAt = sr_created r, as_UpdatedAt = sr_updated r\<rparr>"

definition checkoutFromDB :: "checkout_row \<Rightarrow> AssetCheckout" where
  "checkoutFromDB r =
     \<lparr>ac_ID = kr_id r, ac_AssetID = kr_asset r, ac_ProductionID = kr_production r, ac_TenantID = kr_tenant r,
      ac_CheckedOutTo = kr_to r, ac_CheckedOutAt = kr_out r, ac_ExpectedReturn = kr_expected r, ac_CheckedInAt = kr_in r,
      ac_ConditionOut = stringFromPgText (kr_condition_out r), ac_ConditionIn = stringFromPgText (kr_condition_in r),
      ac_Notes = stringFromPgText (kr_notes r), ac_ReportDamage = kr_damage r,
      ac_DamageSeverity = stringFromPgText (kr_severity r), ac_DamageDescription = stringFromPgText (kr_damage_text r),
      ac_RepairCost = decimalPtrFromPgNumeric (kr_repair_cost r)\<rparr>"

section \<open>Statements\<close>

abbreviation own_asset :: "uuid \<Rightarrow> uuid \<Rightarrow> asset_row \<Rightarrow> bool" where
  "own_asset t i r \<equiv> sr_id r = i \<and> sr_tenant r = t"

abbreviation own_checkout :: "uuid \<Rightarrow> uuid \<Rightarrow> checkout_row \<Rightarrow> bool" where
  "own_checkout t i r \<equiv> kr_id r = i \<and> kr_tenant r = t"

abbreviation open_checkout :: "uuid \<Rightarrow> uuid \<Rightarrow> checkout_row \<Rightarrow> bool" where
  "open_checkout t i r \<equiv> kr_asset r = i \<and> kr_tenant r = t \<and> kr_in r = None"

text \<open>A value stored in a nullable amount column.\<close>

definition numeric_null :: "decimal option \<Rightarrow> db_error + decimal option" where
  "numeric_null x = (case x of None \<Rightarrow> Inr None
     | Some y \<Rightarrow> (case numeric_14_2 y of Inl e \<Rightarrow> Inl e | Inr z \<Rightarrow> Inr (Some z)))"

subsection \<open>Assets\<close>

definition q_CreateAsset :: "env \<Rightarrow> asset_row \<Rightarrow> (inventory_db, db_error, asset_row) op" where
  "q_CreateAsset en r0 = query en (\<lambda>now w.
     case numeric_null (sr_purchase_cost r0) of Inl e \<Rightarrow> (Inl e, w) | Inr cost \<Rightarrow>
       let r = r0\<lparr>sr_purchase_cost := cost, sr_created := now, sr_updated := now\<rparr> in
       if sr_ownership r \<notin> set ownership_types \<or> sr_status r \<notin> set asset_statuses then (Inl check_violation, w)
       else if \<exists>a \<in> set (assets w). sr_id a = sr_id r then (Inl ErrNoRows, w)
       else if \<exists>a \<in> set (assets w). sr_tenant a = sr_tenant r \<and> sr_code a = sr_code r then (Inl unique_violation, w)
       else (Inr r, w\<lparr>assets := assets w @ [r]\<rparr>))"

definition q_GetAsset :: "env \<Rightarrow> uuid \<Rightarrow> uuid \<Rightarrow> (inventory_db, db_error, asset_row) op" where
  "q_GetAsset en i t = query en (\<lambda>_ w. (row_by (own_asset t i) (assets w), w))"

text \<open>
  \<^verbatim>\<open>LIKE\<close>: a per cent sign stands for any text, an underscore for any character, a backslash
  takes the next character as it is. \<^verbatim>\<open>ILIKE\<close> compares without regard to case.
\<close>

fun like :: "string \<Rightarrow> string \<Rightarrow> bool" where
  "like [] s = (s = [])"
| "like (p # ps) [] = (p = CHR ''%'' \<and> like ps [])"
| "like (p # ps) (c # cs) =
     (if p = CHR ''%'' then like ps (c # cs) \<or> like (p # ps) cs
      else if p = CHR ''_'' then like ps cs
      else if p = CHR 0x5C then (case ps of [] \<Rightarrow> False | q # qs \<Rightarrow> q = c \<and> like qs cs)
      else p = c \<and> like ps cs)"

text \<open>
  The letters of ASCII are folded and all others compared as they are, as in a database with the C
  locale; with another locale the server folds and sorts more letters.
\<close>

definition lower_char :: "char \<Rightarrow> char" where
  "lower_char c = (let n = of_char c :: nat in if 65 \<le> n \<and> n \<le> 90 then char_of (n + 32) else c)"

definition ilike :: "string \<Rightarrow> string \<Rightarrow> bool" where
  "ilike pat s = like (map lower_char pat) (map lower_char s)"

definition search_hit :: "string \<Rightarrow> asset_row \<Rightarrow> bool" where
  "search_hit s r \<longleftrightarrow> s = '''' \<or> ilike (''%'' @ s @ ''%'') (sr_name r) \<or> ilike (''%'' @ s @ ''%'') (sr_code r)"

definition q_ListAssets ::
  "env \<Rightarrow> uuid \<Rightarrow> string \<Rightarrow> string \<Rightarrow> int \<Rightarrow> int \<Rightarrow> string \<Rightarrow> (inventory_db, db_error, asset_row list) op" where
  "q_ListAssets en t st category l ofs search = query en (\<lambda>_ w.
     (page l ofs (sort_key sr_name (filter (\<lambda>r. sr_tenant r = t \<and> (st = '''' \<or> sr_status r = st)
        \<and> (category = '''' \<or> sr_category r = category) \<and> search_hit search r) (assets w))), w))"

abbreviation set_assets :: "asset_row list \<Rightarrow> inventory_db \<Rightarrow> inventory_db" where
  "set_assets rs w \<equiv> w\<lparr>assets := rs\<rparr>"

definition q_UpdateAssetStatus :: "env \<Rightarrow> uuid \<Rightarrow> uuid \<Rightarrow> string \<Rightarrow> (inventory_db, db_error, asset_row) op" where
  "q_UpdateAssetStatus en i t st = query en (\<lambda>now.
     update_one (own_asset t i) (\<lambda>r. r\<lparr>sr_status := st, sr_updated := now\<rparr>) (\<lambda>r. sr_status r \<in> set asset_statuses) assets set_assets)"

subsection \<open>Checkouts\<close>

definition q_CheckoutAsset ::
  "env \<Rightarrow> uuid \<Rightarrow> uuid \<Rightarrow> uuid \<Rightarrow> uuid \<Rightarrow> uuid \<Rightarrow> string option \<Rightarrow> string option \<Rightarrow> (inventory_db, db_error, checkout_row) op" where
  "q_CheckoutAsset en i asset production t holder expected condition = query en (\<lambda>now w.
     let r = \<lparr>kr_id = i, kr_asset = asset, kr_production = production, kr_tenant = t, kr_to = holder, kr_out = now,
              kr_expected = expected, kr_in = None, kr_condition_out = condition, kr_condition_in = None, kr_notes = None,
              kr_damage = False, kr_severity = None, kr_damage_text = None, kr_repair_cost = None\<rparr> in
     if \<exists>c \<in> set (checkouts w). kr_id c = i then (Inl ErrNoRows, w)
     else if \<forall>a \<in> set (assets w). sr_id a \<noteq> asset then (Inl fk_violation, w)
     else (Inr r, w\<lparr>checkouts := checkouts w @ [r]\<rparr>))"

definition q_GetActiveCheckout :: "env \<Rightarrow> uuid \<Rightarrow> uuid \<Rightarrow> (inventory_db, db_error, checkout_row) op" where
  "q_GetActiveCheckout en asset t = query en (\<lambda>_ w. (row_by (open_checkout t asset) (checkouts w), w))"

definition checkin_set :: "string option \<Rightarrow> string option \<Rightarrow> bool \<Rightarrow> string option \<Rightarrow> string option \<Rightarrow> decimal option \<Rightarrow> time
    \<Rightarrow> checkout_row \<Rightarrow> checkout_row" where
  "checkin_set condition notes damage severity text cost now r =
     r\<lparr>kr_in := Some now, kr_condition_in := condition, kr_notes := notes, kr_damage := damage, kr_severity := severity,
       kr_damage_text := text, kr_repair_cost := cost\<rparr>"

definition q_CheckinAsset ::
  "env \<Rightarrow> uuid \<Rightarrow> uuid \<Rightarrow> string option \<Rightarrow> string option \<Rightarrow> bool \<Rightarrow> string option \<Rightarrow> string option \<Rightarrow> decimal option
     \<Rightarrow> (inventory_db, db_error, checkout_row) op" where
  "q_CheckinAsset en i t condition notes damage severity text cost = query en (\<lambda>now w.
     case row_by (own_checkout t i) (checkouts w) of Inl e \<Rightarrow> (Inl e, w) | Inr r \<Rightarrow>
     case numeric_null cost of Inl e \<Rightarrow> (Inl e, w) | Inr c \<Rightarrow>
       let f = checkin_set condition notes damage severity text c now in
       (Inr (f r), w\<lparr>checkouts := update_rows (own_checkout t i) f (checkouts w)\<rparr>))"

definition q_GetCheckout :: "env \<Rightarrow> uuid \<Rightarrow> uuid \<Rightarrow> (inventory_db, db_error, checkout_row) op" where
  "q_GetCheckout en i t = query en (\<lambda>_ w. (row_by (own_checkout t i) (checkouts w), w))"

definition q_ListCheckouts :: "env \<Rightarrow> uuid \<Rightarrow> uuid option \<Rightarrow> time option \<Rightarrow> int \<Rightarrow> (inventory_db, db_error, checkout_row list) op" where
  "q_ListCheckouts en t asset after l = query en (\<lambda>_ w.
     (page l 0 (sort_key (\<lambda>r. - kr_out r) (filter (\<lambda>r. kr_tenant r = t \<and> opt_filter asset (kr_asset r)
        \<and> (case after of None \<Rightarrow> True | Some u \<Rightarrow> kr_out r < u)) (checkouts w))), w))"

end
