(* ===== verification/InventoryService.thy ===== *)
theory InventoryService
  imports InventoryDb Interceptor
begin

text \<open>
  The repository (\<^verbatim>\<open>services/inventory/db/postgres.go\<close>) and the service
  (\<^verbatim>\<open>services/inventory/service.go\<close>) of assets and their checkouts. A checkout and a return are
  a statement on the checkouts followed by one on the status of the asset, outside a transaction. The
  parsers of dates and of RFC 3339 times are arguments.
\<close>

section \<open>Repository\<close>

definition pg_CreateAsset :: "env \<Rightarrow> (string \<Rightarrow> string option) \<Rightarrow> Asset \<Rightarrow> (inventory_db, inventory_err, unit) op" where
  "pg_CreateAsset en scan a =
     andThen (onErr (wrapDb ''inventory: create asset'')
       (q_CreateAsset en
         \<lparr>sr_id = as_ID a, sr_tenant = as_TenantID a, sr_code = as_AssetCode a, sr_name = as_Name a, sr_category = as_CategoryID a,
          sr_description = pgTextFromString (as_Description a), sr_ownership = as_OwnershipType a, sr_status = as_Status a,
          sr_purchase_date = pgDateFromPtrString scan (as_PurchaseDate a), sr_purchase_cost = Some (as_PurchaseCost a),
          sr_serial = pgTextFromString (as_SerialNumber a), sr_created = 0, sr_updated = 0\<rparr>))
       (\<lambda>_. ret ())"

definition pg_GetAsset :: "env \<Rightarrow> uuid \<Rightarrow> uuid \<Rightarrow> (inventory_db, inventory_err, Asset) op" where
  "pg_GetAsset en t i =
     andThen (onErr (noRows ErrAssetNotFound ''inventory: get asset'') (q_GetAsset en i t)) (\<lambda>row. ret (assetFromDB row))"

definition pg_ListAssets ::
  "env \<Rightarrow> uuid \<Rightarrow> string \<Rightarrow> string \<Rightarrow> string \<Rightarrow> int \<Rightarrow> int \<Rightarrow> (inventory_db, inventory_err, Asset list) op" where
  "pg_ListAssets en t st category search limit ofs =
     andThen (onErr (wrapDb ''inventory: list assets'') (q_ListAssets en t st category (int32 limit) (int32 ofs) search))
       (\<lambda>rows. ret (map assetFromDB rows))"

definition pg_UpdateAssetStatus :: "env \<Rightarrow> uuid \<Rightarrow> uuid \<Rightarrow> string \<Rightarrow> (inventory_db, inventory_err, unit) op" where
  "pg_UpdateAssetStatus en t i st =
     andThen (onErr (noRows ErrAssetNotFound ''inventory: update asset status'') (q_UpdateAssetStatus en i t st)) (\<lambda>_. ret ())"

definition pg_CheckOutAsset ::
  "env \<Rightarrow> (string \<Rightarrow> string option) \<Rightarrow> AssetCheckout \<Rightarrow> (inventory_db, inventory_err, unit) op" where
  "pg_CheckOutAsset en scan c =
     andThen (onErr (wrapDb ''inventory: checkout asset'')
       (q_CheckoutAsset en (ac_ID c) (ac_AssetID c) (ac_ProductionID c) (ac_TenantID c) (ac_CheckedOutTo c)
          (pgDateFromPtrString scan (ac_ExpectedReturn c)) (pgTextFromString (ac_ConditionOut c))))
       (\<lambda>_. ret ())"

definition pg_GetActiveCheckout :: "env \<Rightarrow> uuid \<Rightarrow> uuid \<Rightarrow> (inventory_db, inventory_err, AssetCheckout) op" where
  "pg_GetActiveCheckout en t asset =
     andThen (onErr (noRows ErrNoActiveCheckout ''inventory: get active checkout'') (q_GetActiveCheckout en asset t))
       (\<lambda>row. ret (checkoutFromDB row))"

definition pg_CheckInAsset :: "env \<Rightarrow> uuid \<Rightarrow> uuid \<Rightarrow> CheckInInput \<Rightarrow> (inventory_db, inventory_err, AssetCheckout) op" where
  "pg_CheckInAsset en t i inp =
     andThen (onErr (noRows ErrAssetNotFound ''inventory: check in asset'')
       (q_CheckinAsset en i t (pgTextFromString (ci_ConditionIn inp)) (pgTextFromString (ci_Notes inp)) (ci_ReportDamage inp)
          (pgTextFromString (ci_DamageSeverity inp)) (pgTextFromString (ci_DamageDescription inp)) (ci_RepairCost inp)))
       (\<lambda>row. ret (checkoutFromDB row))"

definition pg_GetCheckout :: "env \<Rightarrow> uuid \<Rightarrow> uuid \<Rightarrow> (inventory_db, inventory_err, AssetCheckout) op" where
  "pg_GetCheckout en t i =
     andThen (onErr (noRows ErrAssetNotFound ''inventory: get checkout'') (q_GetCheckout en i t)) (\<lambda>row. ret (checkoutFromDB row))"

definition pg_ListCheckouts ::
  "env \<Rightarrow> (string \<Rightarrow> time option) \<Rightarrow> uuid \<Rightarrow> uuid \<Rightarrow> int \<Rightarrow> string \<Rightarrow> (inventory_db, inventory_err, AssetCheckout list) op" where
  "pg_ListCheckouts en rfc3339 t asset limit after =
     (let list = (\<lambda>u. andThen (onErr (wrapDb ''inventory: list checkouts'') (q_ListCheckouts en t (Some asset) u (int32 limit)))
                        (\<lambda>rows. ret (map checkoutFromDB rows))) in
      if after \<noteq> '''' then (case rfc3339 after of None \<Rightarrow> fail (Opaque ''inventory/db: invalid after cursor'') | Some u \<Rightarrow> list (Some u))
      else list None)"

section \<open>Service\<close>

text \<open>The creating methods fill the caller's struct, so the model returns it.\<close>

definition svc_CreateAsset ::
  "env \<Rightarrow> (string \<Rightarrow> string option) \<Rightarrow> ctx \<Rightarrow> Asset \<Rightarrow> (inventory_db, inventory_err, Asset) op" where
  "svc_CreateAsset en scan ctx a =
     andThen (MustFromContext ctx)
       (\<lambda>vcfg. case FindInventoryCategory vcfg (as_CategoryID a) of
          None \<Rightarrow> fail (Wrap ''is not valid for vertical'' (Sentinel ErrInvalidCategory))
        | Some cat \<Rightarrow> andThen (id_or_New en (as_ID a))
            (\<lambda>i. let a' = a\<lparr>as_ID := i\<rparr> in andThen (pg_CreateAsset en scan a') (\<lambda>_. ret a')))"

definition svc_GetAsset :: "env \<Rightarrow> uuid \<Rightarrow> uuid \<Rightarrow> (inventory_db, inventory_err, Asset) op" where
  "svc_GetAsset en t i = pg_GetAsset en t i"

definition svc_ListAssets ::
  "env \<Rightarrow> uuid \<Rightarrow> string \<Rightarrow> string \<Rightarrow> string \<Rightarrow> int \<Rightarrow> int \<Rightarrow> (inventory_db, inventory_err, Asset list) op" where
  "svc_ListAssets en t st category search limit ofs =
     (let limit' = (if limit \<le> 0 \<or> limit > 100 then 20 else limit) in pg_ListAssets en t st category search limit' ofs)"

definition svc_CheckOutAsset ::
  "env \<Rightarrow> (string \<Rightarrow> string option) \<Rightarrow> AssetCheckout \<Rightarrow> (inventory_db, inventory_err, AssetCheckout) op" where
  "svc_CheckOutAsset en scan c =
     andThen (onErr (Wrap ''get asset'') (pg_GetAsset en (ac_TenantID c) (ac_AssetID c)))
       (\<lambda>asset. if as_Status asset \<noteq> ''available'' then fail (Wrap ''current status'' (Sentinel ErrAssetNotAvailable))
          else andThen (id_or_New en (ac_ID c))
            (\<lambda>i. let c' = c\<lparr>ac_ID := i\<rparr> in
               andThen (pg_CheckOutAsset en scan c')
                 (\<lambda>_. andThen (pg_UpdateAssetStatus en (ac_TenantID c) (ac_AssetID c) ''checked_out'') (\<lambda>_. ret c'))))"

definition svc_CheckInAsset ::
  "env \<Rightarrow> uuid \<Rightarrow> uuid \<Rightarrow> CheckInInput \<Rightarrow> (inventory_db, inventory_err, AssetCheckout) op" where
  "svc_CheckInAsset en t asset inp =
     andThen (pg_GetActiveCheckout en t asset)
       (\<lambda>co. andThen (pg_CheckInAsset en t (ac_ID co) inp)
       (\<lambda>updated. let st = (if ci_ReportDamage inp then ''under_repair'' else ''available'') in
          andThen (pg_UpdateAssetStatus en t asset st) (\<lambda>_. ret updated)))"

definition svc_GetInventoryCategories :: "ctx \<Rightarrow> (inventory_db, inventory_err, InventoryCategory list) op" where
  "svc_GetInventoryCategories ctx = andThen (MustFromContext ctx) (\<lambda>vcfg. ret (vc_InventoryCategories vcfg))"

definition svc_GetCheckout :: "env \<Rightarrow> uuid \<Rightarrow> uuid \<Rightarrow> (inventory_db, inventory_err, AssetCheckout) op" where
  "svc_GetCheckout en t i = pg_GetCheckout en t i"

definition svc_ListCheckouts ::
  "env \<Rightarrow> (string \<Rightarrow> time option) \<Rightarrow> uuid \<Rightarrow> uuid \<Rightarrow> int \<Rightarrow> string \<Rightarrow> (inventory_db, inventory_err, AssetCheckout list) op" where
  "svc_ListCheckouts en rfc3339 t asset limit after =
     (let limit' = (if limit \<le> 0 \<or> limit > 200 then 20 else limit) in pg_ListCheckouts en rfc3339 t asset limit' after)"

end
