(* ===== verification/InventoryInv.thy ===== *)
theory InventoryInv
  imports InventoryService Service_Spec
begin

text \<open>
  Runs of the inventory service, as for budgets: every statement that writes is a step, a request makes
  any number of steps, and the contract \<open>step_service\<close> is interpreted on their closure.
\<close>

section \<open>Requests\<close>

datatype inventory_req =
  CreateAsset ctx Asset | GetAsset uuid uuid | ListAssets uuid string string string int int
| CheckOutAsset AssetCheckout | CheckInAsset uuid uuid CheckInInput
| GetCheckout uuid uuid | ListCheckouts uuid uuid int string

fun ireq_tenant :: "inventory_req \<Rightarrow> uuid" where
  "ireq_tenant (CreateAsset _ a) = as_TenantID a"
| "ireq_tenant (GetAsset t _) = t"
| "ireq_tenant (ListAssets t _ _ _ _ _) = t"
| "ireq_tenant (CheckOutAsset c) = ac_TenantID c"
| "ireq_tenant (CheckInAsset t _ _) = t"
| "ireq_tenant (GetCheckout t _) = t"
| "ireq_tenant (ListCheckouts t _ _ _) = t"

fun exec_inventory ::
  "env \<Rightarrow> (string \<Rightarrow> string option) \<Rightarrow> (string \<Rightarrow> time option) \<Rightarrow> inventory_req \<Rightarrow> inventory_db \<Rightarrow> inventory_db" where
  "exec_inventory en scan rfc (CreateAsset ctx a) w = snd (svc_CreateAsset en scan ctx a w)"
| "exec_inventory en scan rfc (GetAsset t i) w = snd (svc_GetAsset en t i w)"
| "exec_inventory en scan rfc (ListAssets t st c s l ofs) w = snd (svc_ListAssets en t st c s l ofs w)"
| "exec_inventory en scan rfc (CheckOutAsset c) w = snd (svc_CheckOutAsset en scan c w)"
| "exec_inventory en scan rfc (CheckInAsset t i x) w = snd (svc_CheckInAsset en t i x w)"
| "exec_inventory en scan rfc (GetCheckout t i) w = snd (svc_GetCheckout en t i w)"
| "exec_inventory en scan rfc (ListCheckouts t a l u) w = snd (svc_ListCheckouts en rfc t a l u w)"

section \<open>Reads\<close>

lemmas inventory_repo_defs = pg_CreateAsset_def pg_GetAsset_def pg_ListAssets_def pg_UpdateAssetStatus_def pg_CheckOutAsset_def
  pg_GetActiveCheckout_def pg_CheckInAsset_def pg_GetCheckout_def pg_ListCheckouts_def

lemma inventory_q_reads [same_intros]:
  "same untick (q_GetAsset en i t)" "same untick (q_ListAssets en t st c l ofs s)" "same untick (q_GetActiveCheckout en a t)"
  "same untick (q_GetCheckout en i t)" "same untick (q_ListCheckouts en t a' u l)"
  unfolding q_GetAsset_def q_ListAssets_def q_GetActiveCheckout_def q_GetCheckout_def q_ListCheckouts_def
  by (rule same_query, simp add: same_def)+

lemma inventory_pg_reads [same_intros]:
  "same untick (pg_GetAsset en t i)" "same untick (pg_ListAssets en t st c s l ofs)" "same untick (pg_GetActiveCheckout en t a)"
  "same untick (pg_GetCheckout en t i)" "same untick (pg_ListCheckouts en rfc t a l u)"
  unfolding inventory_repo_defs Let_def by (intro same_intros)+

lemma inventory_reads [same_intros]:
  "same untick (svc_GetAsset en t i)" "same untick (svc_ListAssets en t st c s l ofs)"
  "same untick (svc_GetCheckout en t i)" "same untick (svc_ListCheckouts en rfc t a l u)"
  unfolding svc_GetAsset_def svc_ListAssets_def svc_GetCheckout_def svc_ListCheckouts_def Let_def
  by (intro same_intros)+

section \<open>Steps\<close>

definition new_asset_row :: "inventory_db \<Rightarrow> asset_row \<Rightarrow> bool" where
  "new_asset_row w r \<longleftrightarrow> sr_status r \<in> set asset_statuses \<and> sr_ownership r \<in> set ownership_types
     \<and> (\<forall>a \<in> set (assets w). sr_id a \<noteq> sr_id r) \<and> (\<forall>a \<in> set (assets w). \<not> (sr_tenant a = sr_tenant r \<and> sr_code a = sr_code r))"

definition new_checkout_row :: "inventory_db \<Rightarrow> checkout_row \<Rightarrow> bool" where
  "new_checkout_row w r \<longleftrightarrow> (\<forall>c \<in> set (checkouts w). kr_id c \<noteq> kr_id r) \<and> kr_in r = None
     \<and> (\<exists>a \<in> set (assets w). own_asset (kr_tenant r) (kr_asset r) a \<and> sr_status a = ''available'')"

inductive inventory_step :: "uuid \<Rightarrow> inventory_db \<Rightarrow> inventory_db \<Rightarrow> bool" for t :: uuid where
  create_asset: "new_asset_row w r \<Longrightarrow> sr_tenant r = t \<Longrightarrow> inventory_step t w (w\<lparr>assets := assets w @ [r]\<rparr>)"
| set_asset: "st \<in> set asset_statuses \<Longrightarrow>
    inventory_step t w (w\<lparr>assets := update_rows (own_asset t i) (\<lambda>r. r\<lparr>sr_status := st, sr_updated := now\<rparr>) (assets w)\<rparr>)"
| check_out: "new_checkout_row w r \<Longrightarrow> kr_tenant r = t \<Longrightarrow> inventory_step t w (w\<lparr>checkouts := checkouts w @ [r]\<rparr>)"
| check_in: "r \<in> set (checkouts w) \<Longrightarrow> own_checkout t i r \<Longrightarrow> kr_in r = None \<Longrightarrow>
    inventory_step t w (w\<lparr>checkouts := update_rows (own_checkout t i) (checkin_set c n d s tx cost now) (checkouts w)\<rparr>)"

lemma inventory_step_stable: "tick_stable (inventory_step t)"
  unfolding tick_stable_def
proof (intro allI impI)
  fix w w' :: inventory_db and n
  assume "inventory_step t (w\<lparr>tick := n\<rparr>) w'"
  then have "inventory_step t w (w'\<lparr>tick := tick w\<rparr>)"
  proof (cases rule: inventory_step.cases)
    case (create_asset r)
    then show ?thesis using inventory_step.create_asset [of w r t] by (simp add: new_asset_row_def)
  next
    case (set_asset st i now)
    then show ?thesis using inventory_step.set_asset [of st t w i now] by simp
  next
    case (check_out r)
    then show ?thesis using inventory_step.check_out [of w r t] by (simp add: new_checkout_row_def)
  next
    case (check_in r i c n d s tx cost now)
    then show ?thesis using inventory_step.check_in [of r w i t c n d s tx cost now] by simp
  qed
  then show "\<exists>w1. inventory_step t w w1 \<and> untick w1 = untick w'" by (metis untick_tick)
qed

abbreviation inventory_moves :: "uuid \<Rightarrow> inventory_db \<Rightarrow> inventory_db \<Rightarrow> bool" where
  "inventory_moves t \<equiv> moves (inventory_step t)\<^sup>*\<^sup>*"

lemmas inventory_seq = moves_seq [OF inventory_step_stable]
lemmas inventory_query = moves_once [OF moves_query [OF inventory_step_stable]]
lemmas inventory_then = moves_then [OF _ tick_stable_rtranclp [OF inventory_step_stable]]

lemma inventory_tables_untick:
  "untick v = untick w \<Longrightarrow> assets v = assets w" "untick v = untick w \<Longrightarrow> checkouts v = checkouts w"
  for v w :: inventory_db
  by (cases v; cases w; simp add: untick_def)+

subsection \<open>Statements that write\<close>

lemma q_CreateAsset_moves: "sr_tenant r = t \<Longrightarrow> inventory_moves t w (snd (q_CreateAsset en r w))"
  unfolding q_CreateAsset_def Let_def
  by (rule inventory_query) (auto simp: new_asset_row_def intro!: inventory_step.create_asset split: sum.split)

lemma q_UpdateAssetStatus_moves: "inventory_moves t w (snd (q_UpdateAssetStatus en i t st w))"
  unfolding q_UpdateAssetStatus_def
  by (rule inventory_query) (auto simp: update_one_def intro!: inventory_step.set_asset split: sum.split)

lemma q_CheckoutAsset_moves:
  assumes "a \<in> set (assets w)" "own_asset t i a" "sr_status a = ''available''"
  shows "inventory_moves t w (snd (q_CheckoutAsset en k i p t u e c w))"
  unfolding q_CheckoutAsset_def Let_def
proof (rule inventory_query, goal_cases)
  case (1 now v)
  have "a \<in> set (assets v)" using assms(1) inventory_tables_untick(1) [OF 1] by simp
  then show ?case using assms(2,3) by (auto simp: new_checkout_row_def intro!: inventory_step.check_out)
qed

lemma q_CheckinAsset_moves:
  assumes "r \<in> set (checkouts w)" "own_checkout t i r" "kr_in r = None"
  shows "inventory_moves t w (snd (q_CheckinAsset en i t c n d s tx cost w))"
  unfolding q_CheckinAsset_def Let_def
proof (rule inventory_query, goal_cases)
  case (1 now v)
  have "r \<in> set (checkouts v)" using assms(1) inventory_tables_untick(2) [OF 1] by simp
  then show ?case using inventory_step.check_in [OF _ assms(2,3)] by (auto split: sum.split)
qed

subsection \<open>Methods\<close>

lemma pg_GetAsset_Inr:
  "pg_GetAsset en t i w = (Inr a, w') \<Longrightarrow> untick w' = untick w \<and> (\<exists>r. row_by (own_asset t i) (assets w) = Inr r \<and> a = assetFromDB r)"
  by (auto simp: inventory_repo_defs q_GetAsset_def onErr_InrD elim!: andThen_InrE query_InrE)

lemma pg_GetActiveCheckout_Inr:
  "pg_GetActiveCheckout en t i w = (Inr c, w') \<Longrightarrow>
     untick w' = untick w \<and> (\<exists>r. row_by (open_checkout t i) (checkouts w) = Inr r \<and> c = checkoutFromDB r)"
  by (auto simp: inventory_repo_defs q_GetActiveCheckout_def onErr_InrD elim!: andThen_InrE query_InrE)

lemma svc_CreateAsset_moves: "inventory_moves (as_TenantID a) w (snd (svc_CreateAsset en scan ctx a w))"
proof -
  have "inventory_moves (as_TenantID a) w (snd (pg_CreateAsset en scan (a\<lparr>as_ID := i\<rparr>) w))" for i w
    unfolding pg_CreateAsset_def by (intro moves_ret moves_onErr q_CreateAsset_moves) simp
  then show ?thesis
    unfolding svc_CreateAsset_def Let_def
    by (intro inventory_then [OF same_MustFromContext])
      (auto split: option.split intro!: inventory_then [OF same_id_or_New] moves_ret)
qed

lemma pg_UpdateAssetStatus_moves: "inventory_moves t w (snd (pg_UpdateAssetStatus en t i st w))"
  unfolding pg_UpdateAssetStatus_def by (intro moves_ret moves_onErr q_UpdateAssetStatus_moves)

text \<open>A step whose conditions hold in the state it starts from, and what follows it.\<close>

lemma inventory_andThen:
  assumes "inventory_moves t w (snd (m w))" and "\<And>x w. inventory_moves t w (snd (k x w))"
  shows "inventory_moves t w (snd (andThen m k w))"
  using assms moves_trans [OF inventory_step_stable assms(1)] by (auto simp: snd_andThen split: sum.split)

lemma svc_CheckOutAsset_moves: "inventory_moves (ac_TenantID c) w (snd (svc_CheckOutAsset en scan c w))"
  unfolding svc_CheckOutAsset_def Let_def
proof (rule inventory_then [OF same_onErr [OF inventory_pg_reads(1)]], goal_cases)
  case (1 asset n)
  then obtain r where r: "row_by (own_asset (ac_TenantID c) (ac_AssetID c)) (assets w) = Inr r" "asset = assetFromDB r"
    by (auto simp: onErr_InrD dest!: pg_GetAsset_Inr)
  have out: "inventory_moves (ac_TenantID c) (w\<lparr>tick := m\<rparr>) (snd (pg_CheckOutAsset en scan (c\<lparr>ac_ID := i\<rparr>) (w\<lparr>tick := m\<rparr>)))"
    if "sr_status r = ''available''" for i m
    unfolding pg_CheckOutAsset_def using row_by_Inr [OF r(1)] that
    by (intro moves_ret moves_onErr) (auto intro!: q_CheckoutAsset_moves [of r])
  show ?case
  proof (cases "sr_status r = ''available''")
    case True
    then show ?thesis using r(2) out
      by (simp add: assetFromDB_def)
        (intro inventory_then [OF same_id_or_New] inventory_andThen moves_ret pg_UpdateAssetStatus_moves, simp)
  qed (use r(2) in \<open>simp add: assetFromDB_def\<close>)
qed

lemma svc_CheckInAsset_moves: "inventory_moves t w (snd (svc_CheckInAsset en t i inp w))"
  unfolding svc_CheckInAsset_def Let_def
proof (rule inventory_then [OF inventory_pg_reads(3)], goal_cases)
  case (1 co n)
  then obtain r where r: "row_by (open_checkout t i) (checkouts w) = Inr r" "co = checkoutFromDB r"
    by (auto dest!: pg_GetActiveCheckout_Inr)
  have "inventory_moves t (w\<lparr>tick := n\<rparr>) (snd (pg_CheckInAsset en t (ac_ID co) inp (w\<lparr>tick := n\<rparr>)))"
    unfolding pg_CheckInAsset_def using row_by_Inr [OF r(1)] r(2)
    by (intro moves_ret moves_onErr q_CheckinAsset_moves [of r]) (auto simp: checkoutFromDB_def)
  then show ?case by (intro inventory_andThen moves_ret pg_UpdateAssetStatus_moves)
qed

lemma exec_inventory_moves: "inventory_moves (ireq_tenant r) w (exec_inventory en scan rfc r w)"
  by (cases r) (simp_all add: moves_read inventory_reads svc_CreateAsset_moves svc_CheckOutAsset_moves svc_CheckInAsset_moves)

section \<open>The invariant and the rows of a tenant\<close>

definition inventory_inv :: "inventory_db \<Rightarrow> bool" where
  "inventory_inv w \<longleftrightarrow> distinct (map sr_id (assets w)) \<and> distinct (map (\<lambda>r. (sr_tenant r, sr_code r)) (assets w))
   \<and> distinct (map kr_id (checkouts w))
   \<and> (\<forall>r \<in> set (assets w). sr_status r \<in> set asset_statuses \<and> sr_ownership r \<in> set ownership_types)
   \<and> (\<forall>c \<in> set (checkouts w). (kr_asset c, kr_tenant c) \<in> (\<lambda>r. (sr_id r, sr_tenant r)) ` set (assets w))"

definition inventory_part :: "uuid \<Rightarrow> inventory_db \<Rightarrow> asset_row list \<times> checkout_row list" where
  "inventory_part u w = (filter (\<lambda>r. sr_tenant r = u) (assets w), filter (\<lambda>r. kr_tenant r = u) (checkouts w))"

lemma inventory_untick:
  "untick w = untick w' \<Longrightarrow> inventory_inv w = inventory_inv w'" "untick w = untick w' \<Longrightarrow> inventory_part u w = inventory_part u w'"
  by (rule tickless_view_untick [of inventory_inv], simp_all add: tickless_view_def inventory_inv_def)
    (rule tickless_view_untick [of "inventory_part u"], simp_all add: tickless_view_def inventory_part_def)

lemma checkin_set_keys [simp]:
  "kr_id (checkin_set c n d s tx cost now r) = kr_id r" "kr_asset (checkin_set c n d s tx cost now r) = kr_asset r"
  "kr_tenant (checkin_set c n d s tx cost now r) = kr_tenant r" "kr_in (checkin_set c n d s tx cost now r) = Some now"
  by (simp_all add: checkin_set_def)

lemma inventory_step_inv: "inventory_step t w w' \<Longrightarrow> inventory_inv w \<Longrightarrow> inventory_inv w'"
proof (induction rule: inventory_step.induct)
  case (create_asset w r)
  then show ?case by (auto simp: inventory_inv_def new_asset_row_def)
next
  case (set_asset st w i now)
  then show ?case by (simp add: inventory_inv_def map_update_rows image_update_rows) (auto simp: set_update_rows)
next
  case (check_out w r)
  then have "(kr_asset r, kr_tenant r) \<in> (\<lambda>r. (sr_id r, sr_tenant r)) ` set (assets w)"
    by (auto simp: new_checkout_row_def) (metis (no_types, lifting) image_eqI)
  with check_out show ?case by (auto simp: inventory_inv_def new_checkout_row_def)
next
  case (check_in r w i c n d s tx cost now)
  then show ?case by (simp add: inventory_inv_def map_update_rows) (auto simp: set_update_rows, metis)
qed

lemma inventory_step_frame: "inventory_step t w w' \<Longrightarrow> u \<noteq> t \<Longrightarrow> inventory_part u w' = inventory_part u w"
  by (induction rule: inventory_step.induct) (auto simp: inventory_part_def intro!: filter_update_rows)

lemma inventory_inv_empty: "inventory_inv empty_inventory"
  by (simp add: inventory_inv_def empty_inventory_def)

lemma inventory_steps_inv: "(inventory_step t)\<^sup>*\<^sup>* w w' \<Longrightarrow> inventory_inv w \<Longrightarrow> inventory_inv w'"
  by (induction rule: rtranclp_induct) (auto intro: inventory_step_inv)

lemma inventory_steps_frame: "(inventory_step t)\<^sup>*\<^sup>* w w' \<Longrightarrow> u \<noteq> t \<Longrightarrow> inventory_part u w' = inventory_part u w"
  by (induction rule: rtranclp_induct) (auto dest: inventory_step_frame)

interpretation inventory: step_service "exec_inventory en scan rfc" inventory_inv empty_inventory ireq_tenant inventory_part
    "\<lambda>t. (inventory_step t)\<^sup>*\<^sup>*" for en scan rfc
  by unfold_locales (rule inventory_inv_empty, rule exec_inventory_moves, erule (1) inventory_steps_inv, erule (1) inventory_steps_frame,
    erule inventory_untick(1), erule inventory_untick(2))

end
