(* ===== verification/InventoryProps.thy ===== *)
theory InventoryProps
  imports InventoryInv Demo
begin

text \<open>
  Properties of the inventory service: custody of assets while the database answers and after a failed
  statement, what a return does, finality of closed checkouts, and the search.
\<close>

section \<open>Custody\<close>

text \<open>The open checkouts of an asset.\<close>

definition open_of :: "uuid \<Rightarrow> checkout_row list \<Rightarrow> checkout_row list" where
  "open_of i cs = filter (\<lambda>c. kr_asset c = i \<and> kr_in c = None) cs"

text \<open>An asset has one open checkout while it is checked out, and none otherwise.\<close>

definition custody_ok :: "inventory_db \<Rightarrow> bool" where
  "custody_ok w \<longleftrightarrow> (\<forall>a \<in> set (assets w). length (open_of (sr_id a) (checkouts w)) = (if sr_status a = ''checked_out'' then 1 else 0))"

definition custody_inv :: "inventory_db \<Rightarrow> bool" where
  "custody_inv w \<longleftrightarrow> inventory_inv w \<and> custody_ok w"

lemma custody_untick: "untick w = untick w' \<Longrightarrow> custody_inv w = custody_inv w'"
  by (rule tickless_view_untick [of custody_inv]) (simp_all add: tickless_view_def custody_inv_def custody_ok_def inventory_inv_def)

lemma pg_GetAsset_calm:
  assumes "calm en"
  shows "pg_GetAsset en t i w = (case List.find (own_asset t i) (assets w) of
      None \<Rightarrow> Inl (Sentinel ErrAssetNotFound) | Some r \<Rightarrow> Inr (assetFromDB r), w\<lparr>tick := Suc (tick w)\<rparr>)"
  using assms by (simp add: inventory_repo_defs q_GetAsset_def query_calm row_by_def noRows_def andThen_def onErr_def split: option.split)

lemma pg_UpdateAssetStatus_calm:
  assumes "calm en" "a \<in> set (assets w)" "own_asset t i a" "st \<in> set asset_statuses"
  shows "pg_UpdateAssetStatus en t i st w = (Inr (), w\<lparr>tick := Suc (tick w), assets := update_rows (own_asset t i)
    (\<lambda>r. r\<lparr>sr_status := st, sr_updated := env_now en (tick w)\<rparr>) (assets w)\<rparr>)"
proof -
  obtain r where "row_by (own_asset t i) (assets w) = Inr r"
    using assms(2,3) row_by_Inl [of "own_asset t i" "assets w"] by (cases "row_by (own_asset t i) (assets w)") auto
  with assms(1,4) show ?thesis by (simp add: inventory_repo_defs q_UpdateAssetStatus_def query_calm update_one_def andThen_def onErr_def)
qed

lemma atomic_q_CheckoutAsset: "atomic untick (q_CheckoutAsset en k i p t u e c)"
  unfolding q_CheckoutAsset_def by (intro atomic_intros) (auto simp: atomic_def Let_def split: if_splits)

lemma atomic_pg_CheckOutAsset: "atomic untick (pg_CheckOutAsset en scan c)"
  unfolding pg_CheckOutAsset_def by (intro atomic_intros atomic_q_CheckoutAsset)

lemma pg_CheckOutAsset_Inr:
  assumes "pg_CheckOutAsset en scan c w = (Inr u, w')"
  obtains k where "kr_id k = ac_ID c" and "kr_asset k = ac_AssetID c" and "kr_tenant k = ac_TenantID c" and "kr_to k = ac_CheckedOutTo c"
    and "kr_in k = None" and "\<forall>x \<in> set (checkouts w). kr_id x \<noteq> kr_id k" and "untick w' = untick (w\<lparr>checkouts := checkouts w @ [k]\<rparr>)"
proof -
  obtain k where q: "q_CheckoutAsset en (ac_ID c) (ac_AssetID c) (ac_ProductionID c) (ac_TenantID c) (ac_CheckedOutTo c)
          (pgDateFromPtrString scan (ac_ExpectedReturn c)) (pgTextFromString (ac_ConditionOut c)) w = (Inr k, w')"
    using assms by (auto simp: pg_CheckOutAsset_def onErr_InrD elim!: andThen_InrE)
  show ?thesis
    by (rule that [of k]) (use q in \<open>auto simp: q_CheckoutAsset_def Let_def untick_def elim!: query_InrE split: if_splits\<close>)
qed

lemma untick_checkouts:
  "untick v = untick w \<Longrightarrow> untick (v\<lparr>checkouts := checkouts v @ ks\<rparr>) = untick (w\<lparr>checkouts := checkouts w @ ks\<rparr>)"
  by (cases v; cases w) (simp add: untick_def)

text \<open>The first half of a checkout: the asset is found available, and the checkout is inserted.\<close>

lemma svc_CheckOutAsset_cases:
  obtains (none) e where "fst (svc_CheckOutAsset en scan c w) = Inl e" "untick (snd (svc_CheckOutAsset en scan c w)) = untick w"
  | (out) r k i w1 where "r \<in> set (assets w)" "own_asset (ac_TenantID c) (ac_AssetID c) r" "sr_status r = ''available''"
    "kr_asset k = ac_AssetID c" "kr_tenant k = ac_TenantID c" "kr_to k = ac_CheckedOutTo c" "kr_in k = None" "\<forall>x \<in> set (checkouts w). kr_id x \<noteq> kr_id k"
    "untick w1 = untick (w\<lparr>checkouts := checkouts w @ [k]\<rparr>)"
    "svc_CheckOutAsset en scan c w = andThen (pg_UpdateAssetStatus en (ac_TenantID c) (ac_AssetID c) ''checked_out'') (\<lambda>_. ret (c\<lparr>ac_ID := i\<rparr>)) w1"
proof -
  obtain x w1 where g: "pg_GetAsset en (ac_TenantID c) (ac_AssetID c) w = (x, w1)" by fastforce
  have w1: "untick w1 = untick w" using sameD [OF inventory_pg_reads(1), of en "ac_TenantID c" "ac_AssetID c" w] g by simp
  show ?thesis
  proof (cases x)
    case (Inl e)
    then show ?thesis using g w1 by (intro none) (simp_all add: svc_CheckOutAsset_def andThen_def onErr_def)
  next
    case (Inr a)
    with g pg_GetAsset_Inr [of en "ac_TenantID c" "ac_AssetID c" w a w1] obtain r where
      r: "row_by (own_asset (ac_TenantID c) (ac_AssetID c)) (assets w) = Inr r" "a = assetFromDB r" by auto
    show ?thesis
    proof (cases "sr_status r = ''available''")
      case False
      then show ?thesis using g Inr r(2) w1 by (intro none) (simp_all add: svc_CheckOutAsset_def andThen_onErr_Inr assetFromDB_def)
    next
      case True
      obtain i n where i: "(id_or_New en (ac_ID c) :: (inventory_db, inventory_err, uuid) op) w1 = (Inr i, w1\<lparr>tick := n\<rparr>)"
        using id_or_New_total by blast
      let ?c = "c\<lparr>ac_ID := i\<rparr>"
      obtain y w2 where y: "pg_CheckOutAsset en scan ?c (w1\<lparr>tick := n\<rparr>) = (y, w2)" by fastforce
      have run: "svc_CheckOutAsset en scan c w = andThen (pg_CheckOutAsset en scan ?c)
          (\<lambda>_. andThen (pg_UpdateAssetStatus en (ac_TenantID c) (ac_AssetID c) ''checked_out'') (\<lambda>_. ret ?c)) (w1\<lparr>tick := n\<rparr>)"
        using g Inr r(2) True i by (simp add: svc_CheckOutAsset_def andThen_onErr_Inr assetFromDB_def andThen_Inr Let_def)
      show ?thesis
      proof (cases y)
        case (Inl e)
        then have "untick w2 = untick w" using y w1 atomicD [OF atomic_pg_CheckOutAsset] by (metis untick_tick)
        then show ?thesis using run y Inl by (intro none) (simp_all add: andThen_def)
      next
        case u: (Inr u)
        obtain k where k: "kr_asset k = ac_AssetID c" "kr_tenant k = ac_TenantID c" "kr_to k = ac_CheckedOutTo c" "kr_in k = None"
            "\<forall>x \<in> set (checkouts w1). kr_id x \<noteq> kr_id k" "untick w2 = untick (w1\<lparr>checkouts := checkouts w1 @ [k]\<rparr>)"
          by (rule pg_CheckOutAsset_Inr [OF y [unfolded u]]) (auto simp: untick_def)
        have "untick w2 = untick (w\<lparr>checkouts := checkouts w @ [k]\<rparr>)"
          using k(6) untick_checkouts [OF w1] by simp
        then show ?thesis using row_by_Inr [OF r(1)] True k run y u inventory_tables_untick(2) [OF w1]
          by (intro out [of r k w2 i]) (simp_all add: andThen_Inr)
      qed
    qed
  qed
qed

lemma atomic_pg_CheckInAsset: "atomic untick (pg_CheckInAsset en t i inp)"
  unfolding pg_CheckInAsset_def q_CheckinAsset_def
  by (intro atomic_intros) (auto simp: atomic_def Let_def split: sum.splits)

abbreviation returned :: "CheckInInput \<Rightarrow> decimal option \<Rightarrow> time \<Rightarrow> checkout_row \<Rightarrow> checkout_row" where
  "returned inp cost \<equiv> checkin_set (pgTextFromString (ci_ConditionIn inp)) (pgTextFromString (ci_Notes inp)) (ci_ReportDamage inp)
     (pgTextFromString (ci_DamageSeverity inp)) (pgTextFromString (ci_DamageDescription inp)) cost"

abbreviation status_after :: "CheckInInput \<Rightarrow> string" where
  "status_after inp \<equiv> (if ci_ReportDamage inp then ''under_repair'' else ''available'')"

text \<open>The first half of a return: an open checkout of the asset is found and closed.\<close>

lemma svc_CheckInAsset_cases:
  obtains (none) e where "fst (svc_CheckInAsset en t i inp w) = Inl e" "untick (snd (svc_CheckInAsset en t i inp w)) = untick w"
  | (closed) r cost now co w1 where "r \<in> set (checkouts w)" "open_checkout t i r"
    "cost = map_option round2 (ci_RepairCost inp)"
    "untick w1 = untick (w\<lparr>checkouts := update_rows (own_checkout t (kr_id r)) (returned inp cost now) (checkouts w)\<rparr>)"
    "svc_CheckInAsset en t i inp w = andThen (pg_UpdateAssetStatus en t i (status_after inp)) (\<lambda>_. ret co) w1"
proof -
  obtain x w1 where g: "pg_GetActiveCheckout en t i w = (x, w1)" by fastforce
  have w1: "untick w1 = untick w" using sameD [OF inventory_pg_reads(3), of en t i w] g by simp
  show ?thesis
  proof (cases x)
    case (Inl e)
    then show ?thesis using g w1 by (intro none) (simp_all add: svc_CheckInAsset_def andThen_def)
  next
    case (Inr c)
    with g pg_GetActiveCheckout_Inr [of en t i w c w1] obtain r where
      r: "row_by (open_checkout t i) (checkouts w) = Inr r" "c = checkoutFromDB r" by auto
    obtain y w2 where y: "pg_CheckInAsset en t (kr_id r) inp w1 = (y, w2)" by fastforce
    have run: "svc_CheckInAsset en t i inp w = andThen (pg_CheckInAsset en t (kr_id r) inp)
        (\<lambda>updated. andThen (pg_UpdateAssetStatus en t i (status_after inp)) (\<lambda>_. ret updated)) w1"
      using g Inr r(2) by (simp add: svc_CheckInAsset_def andThen_Inr checkoutFromDB_def Let_def)
    show ?thesis
    proof (cases y)
      case (Inl e)
      then have "untick w2 = untick w" using y w1 atomicD [OF atomic_pg_CheckInAsset] by metis
      then show ?thesis using run y Inl by (intro none) (simp_all add: andThen_def)
    next
      case co: (Inr co)
      from y co obtain now where "untick w2 = untick (w1\<lparr>checkouts := update_rows (own_checkout t (kr_id r))
          (returned inp (map_option round2 (ci_RepairCost inp)) now) (checkouts w1)\<rparr>)"
        by (auto simp: pg_CheckInAsset_def q_CheckinAsset_def onErr_InrD Let_def numeric_null_def untick_def
            dest!: numeric_14_2_Inr elim!: andThen_InrE query_InrE split: sum.splits option.splits)
      moreover have "untick (w1\<lparr>checkouts := update_rows p f (checkouts w1)\<rparr>) = untick (w\<lparr>checkouts := update_rows p f (checkouts w)\<rparr>)" for p f
        using w1 by (cases w; cases w1) (simp add: untick_def)
      ultimately show ?thesis using row_by_Inr [OF r(1)] run y co
        by (intro closed [OF _ _ refl]) (auto simp: andThen_Inr)
    qed
  qed
qed

lemma open_of_append: "open_of i (cs @ [k]) = open_of i cs @ (if kr_asset k = i \<and> kr_in k = None then [k] else [])"
  by (simp add: open_of_def)

lemma open_of_close: "open_of i (update_rows p (checkin_set c n d s tx cost now) cs) = filter (\<lambda>c. \<not> p c) (open_of i cs)"
  by (induction cs) (auto simp: open_of_def update_rows_def)

lemma custody_okD:
  "custody_inv w \<Longrightarrow> a \<in> set (assets w) \<Longrightarrow> length (open_of (sr_id a) (checkouts w)) = (if sr_status a = ''checked_out'' then 1 else 0)"
  by (simp add: custody_inv_def custody_ok_def)

lemma custody_out:
  assumes "custody_inv w" "r \<in> set (assets w)" "own_asset t i r" "sr_status r = ''available''" "kr_asset k = i" "kr_in k = None"
  shows "custody_ok (w\<lparr>checkouts := checkouts w @ [k], assets := update_rows (own_asset t i)
    (\<lambda>r. r\<lparr>sr_status := ''checked_out'', sr_updated := now\<rparr>) (assets w)\<rparr>)"
proof -
  have one: "a = r" if "a \<in> set (assets w)" "sr_id a = i" for a
    using that assms(1-3) by (metis custody_inv_def distinct_key_unique inventory_inv_def)
  have "length (open_of (sr_id r) (checkouts w)) = 0" using custody_okD [OF assms(1,2)] assms(4) by simp
  then have zero: "open_of i (checkouts w) = []" using assms(3) by simp
  show ?thesis unfolding custody_ok_def
  proof (rule ballI, goal_cases)
    case (1 x)
    then obtain a where a: "a \<in> set (assets w)"
      "x = (if own_asset t i a then a\<lparr>sr_status := ''checked_out'', sr_updated := now\<rparr> else a)" by (auto simp: update_rows_def)
    show ?case
    proof (cases "sr_id a = i")
      case True
      then show ?thesis using one [OF a(1) True] a(2) assms(3,5,6) zero by (simp add: open_of_append)
    next
      case False
      then show ?thesis using custody_okD [OF assms(1) a(1)] a(2) assms(5) by (simp add: open_of_append)
    qed
  qed
qed

lemma custody_in:
  assumes "custody_inv w" "r \<in> set (checkouts w)" "open_checkout t i r" "st \<noteq> ''checked_out''"
  shows "custody_ok (w\<lparr>checkouts := update_rows (own_checkout t (kr_id r)) (checkin_set c n d s tx cost now) (checkouts w),
    assets := update_rows (own_asset t i) (\<lambda>r. r\<lparr>sr_status := st, sr_updated := now'\<rparr>) (assets w)\<rparr>)"
proof -
  have "(i, t) \<in> (\<lambda>r. (sr_id r, sr_tenant r)) ` set (assets w)" using assms(1-3) unfolding custody_inv_def inventory_inv_def by auto
  then obtain a0 where a0: "a0 \<in> set (assets w)" "own_asset t i a0" by auto
  have own: "own_asset t i a" if "a \<in> set (assets w)" "sr_id a = i" for a
    using that assms(1) a0 by (metis custody_inv_def distinct_key_unique inventory_inv_def)
  have same: "x = r" if "x \<in> set (checkouts w)" "kr_id x = kr_id r" for x
    using that assms(1,2) by (metis custody_inv_def distinct_key_unique inventory_inv_def)
  have "r \<in> set (open_of i (checkouts w))" using assms(2,3) by (simp add: open_of_def)
  moreover have "length (open_of i (checkouts w)) \<le> 1" using custody_okD [OF assms(1) a0(1)] a0(2) by (simp split: if_splits)
  ultimately have "open_of i (checkouts w) = [r]" by (cases "open_of i (checkouts w)") auto
  then have here: "filter (\<lambda>c. \<not> own_checkout t (kr_id r) c) (open_of i (checkouts w)) = []" using assms(3) by simp
  have there: "filter (\<lambda>c. \<not> own_checkout t (kr_id r) c) (open_of j (checkouts w)) = open_of j (checkouts w)" if "j \<noteq> i" for j
    using same that assms(3) by (intro filter_True) (auto simp: open_of_def)
  show ?thesis unfolding custody_ok_def
  proof (rule ballI, goal_cases)
    case (1 x)
    then obtain a where a: "a \<in> set (assets w)" "x = (if own_asset t i a then a\<lparr>sr_status := st, sr_updated := now'\<rparr> else a)"
      by (auto simp: update_rows_def)
    show ?case
    proof (cases "sr_id a = i")
      case True
      then show ?thesis using own [OF a(1) True] a(2) assms(4) here by (simp add: open_of_close)
    next
      case False
      then show ?thesis using custody_okD [OF assms(1) a(1)] a(2) there [OF False] by (simp add: open_of_close)
    qed
  qed
qed

lemma keeps_custody:
  assumes "\<And>w. inventory_moves t w (snd (m w))" and "\<And>w. custody_inv w \<Longrightarrow> custody_ok (snd (m w))"
  shows "keeps custody_inv m"
  unfolding keeps_def
proof (intro allI impI)
  fix w assume "custody_inv w"
  moreover from this have "inventory_inv (snd (m w))" using inventory.moves_inv [OF assms(1)] by (simp add: custody_inv_def)
  ultimately show "custody_inv (snd (m w))" using assms(2) by (simp add: custody_inv_def)
qed

lemma custody_ok_untick: "untick w = untick w' \<Longrightarrow> custody_ok w' \<Longrightarrow> custody_ok w"
  using inventory_tables_untick [of w w'] by (simp add: custody_ok_def)

lemma keeps_custody_CheckOut:
  assumes "calm en"
  shows "keeps custody_inv (svc_CheckOutAsset en scan c)"
proof (rule keeps_custody [OF svc_CheckOutAsset_moves])
  fix w assume inv: "custody_inv w"
  show "custody_ok (snd (svc_CheckOutAsset en scan c w))"
  proof (cases rule: svc_CheckOutAsset_cases [of en scan c w])
    case (none e)
    then show ?thesis using inv custody_ok_untick by (simp add: custody_inv_def)
  next
    case (out r k i w1)
    have tab: "assets w1 = assets w" "checkouts w1 = checkouts w @ [k]" using inventory_tables_untick [OF out(9)] by simp_all
    let ?t = "ac_TenantID c" and ?i = "ac_AssetID c"
    have "svc_CheckOutAsset en scan c w = (Inr (c\<lparr>ac_ID := i\<rparr>), w1\<lparr>tick := Suc (tick w1), assets := update_rows (own_asset ?t ?i)
        (\<lambda>r. r\<lparr>sr_status := ''checked_out'', sr_updated := env_now en (tick w1)\<rparr>) (assets w1)\<rparr>)"
      using pg_UpdateAssetStatus_calm [OF assms, of r w1 ?i ?t "''checked_out''"] out tab
      by (simp add: andThen_Inr asset_statuses_def)
    then show ?thesis using custody_out [OF inv out(1,2,3,4,7), of "env_now en (tick w1)"] by (simp add: custody_ok_def tab)
  qed
qed

lemma keeps_custody_CheckIn:
  assumes "calm en"
  shows "keeps custody_inv (svc_CheckInAsset en t i inp)"
proof (rule keeps_custody [OF svc_CheckInAsset_moves])
  fix w assume inv: "custody_inv w"
  show "custody_ok (snd (svc_CheckInAsset en t i inp w))"
  proof (cases rule: svc_CheckInAsset_cases [of en t i inp w])
    case (none e)
    then show ?thesis using inv custody_ok_untick by (simp add: custody_inv_def)
  next
    case (closed r cost now co w1)
    have tab: "assets w1 = assets w" "checkouts w1 = update_rows (own_checkout t (kr_id r)) (returned inp cost now) (checkouts w)"
      using inventory_tables_untick [OF closed(4)] by simp_all
    have "(i, t) \<in> (\<lambda>r. (sr_id r, sr_tenant r)) ` set (assets w)"
      using closed(1,2) inv unfolding custody_inv_def inventory_inv_def by auto
    then obtain a where a: "a \<in> set (assets w)" "own_asset t i a" by auto
    have "snd (svc_CheckInAsset en t i inp w) = w1\<lparr>tick := Suc (tick w1), assets := update_rows (own_asset t i)
        (\<lambda>r. r\<lparr>sr_status := status_after inp, sr_updated := env_now en (tick w1)\<rparr>) (assets w1)\<rparr>"
      using pg_UpdateAssetStatus_calm [OF assms, of a w1 i t "status_after inp"] closed(5) a tab
      by (simp add: andThen_Inr asset_statuses_def)
    moreover have "status_after inp \<noteq> ''checked_out''" by simp
    ultimately show ?thesis using custody_in [OF inv closed(1,2), of "status_after inp"] by (simp add: custody_ok_def tab)
  qed
qed

lemma keeps_custody_Create:
  assumes "as_Status a \<noteq> ''checked_out''"
  shows "keeps custody_inv (svc_CreateAsset en scan ctx a)"
proof -
  have same: "same untick m \<Longrightarrow> keeps custody_inv m" for m :: "(inventory_db, 'e, 'a) op"
    by (erule same_keeps) (metis custody_untick)
  have q: "keeps custody_inv (q_CreateAsset en r)" if "sr_status r \<noteq> ''checked_out''" for r
  proof (rule keeps_custody [OF q_CreateAsset_moves [OF refl]])
    fix w assume inv: "custody_inv w"
    have "open_of (sr_id x) (checkouts w) = []" if "\<forall>a \<in> set (assets w). sr_id a \<noteq> sr_id x" for x
      using inv that by (fastforce simp: custody_inv_def inventory_inv_def open_of_def filter_empty_conv)
    then show "custody_ok (snd (q_CreateAsset en r w))"
      using inv that by (auto simp: q_CreateAsset_def query_def Let_def custody_inv_def custody_ok_def split: sum.split)
  qed
  have pg: "keeps custody_inv (pg_CreateAsset en scan (a\<lparr>as_ID := i\<rparr>))" for i
    unfolding pg_CreateAsset_def using assms by (intro keeps_intros q) simp
  show ?thesis
    unfolding svc_CreateAsset_def Let_def
    by (intro keeps_intros pg same [OF same_MustFromContext] same [OF same_id_or_New])
qed

section \<open>A concrete run\<close>

definition demo_asset :: Asset where
  "demo_asset = \<lparr>as_ID = 4, as_TenantID = 7, as_AssetCode = ''CAM-1'', as_Name = ''Camera'', as_CategoryID = ''camera'', as_Description = '''',
     as_OwnershipType = ''owned'', as_Status = ''available'', as_PurchaseDate = None, as_PurchaseCost = 0, as_SerialNumber = '''',
     as_CreatedAt = 0, as_UpdatedAt = 0\<rparr>"

definition demo_checkout :: "uuid \<Rightarrow> AssetCheckout" where
  "demo_checkout i = \<lparr>ac_ID = i, ac_AssetID = 4, ac_ProductionID = 3, ac_TenantID = 7, ac_CheckedOutTo = 9, ac_CheckedOutAt = 0,
     ac_ExpectedReturn = None, ac_CheckedInAt = None, ac_ConditionOut = '''', ac_ConditionIn = '''', ac_Notes = '''', ac_ReportDamage = False,
     ac_DamageSeverity = '''', ac_DamageDescription = '''', ac_RepairCost = None\<rparr>"

definition demo_return :: "bool \<Rightarrow> CheckInInput" where
  "demo_return d = \<lparr>ci_ConditionIn = ''good'', ci_Notes = '''', ci_ReportDamage = d, ci_DamageSeverity = '''', ci_DamageDescription = '''', ci_RepairCost = None\<rparr>"

abbreviation irun :: "inventory_req list \<Rightarrow> inventory_db" where
  "irun rs \<equiv> fold (exec_inventory xdemo_env Some (\<lambda>_. None)) rs empty_inventory"

lemma irun_inv: "inventory_inv (irun rs)"
  by (rule inventory.inv_run)

section \<open>Checkouts\<close>

definition checkout_spec :: "string option \<Rightarrow> inventory_sentinel option option" where
  "checkout_spec st = (case st of None \<Rightarrow> Some (Some ErrAssetNotFound)
     | Some s \<Rightarrow> if s = ''available'' then None else Some (Some ErrAssetNotAvailable))"

text \<open>
  C30: when the database answers and identifiers that are generated are new, a checkout succeeds exactly
  when the asset exists in the tenant and is available, and otherwise ends with the error that says why
  not.
\<close>

theorem CheckOutAsset_meets_spec:
  assumes "calm en" and "\<And>n. env_uuid en n \<notin> kr_id ` set (checkouts w)" and "ac_ID c = uuid_Nil"
  shows "outcome (fst (svc_CheckOutAsset en scan c w)) =
    checkout_spec (map_option sr_status (List.find (own_asset (ac_TenantID c) (ac_AssetID c)) (assets w)))"
proof (cases "List.find (own_asset (ac_TenantID c) (ac_AssetID c)) (assets w)")
  case None
  then show ?thesis using assms(1) by (simp add: svc_CheckOutAsset_def pg_GetAsset_calm andThen_def onErr_def outcome_def checkout_spec_def)
next
  case (Some r)
  then have r: "r \<in> set (assets w)" "own_asset (ac_TenantID c) (ac_AssetID c) r" by (auto simp: find_Some_iff)
  show ?thesis
  proof (cases "sr_status r = ''available''")
    case False
    then show ?thesis using Some assms(1)
      by (simp add: svc_CheckOutAsset_def pg_GetAsset_calm andThen_def onErr_def outcome_def checkout_spec_def assetFromDB_def)
  next
    case True
    have new: "\<forall>x \<in> set (checkouts w). kr_id x \<noteq> env_uuid en n" for n using assms(2) [of n] by force
    have "\<exists>x. fst (svc_CheckOutAsset en scan c w) = Inr x"
      using Some True r assms(1,3) new pg_UpdateAssetStatus_calm [OF assms(1) _ r(2)]
      by (auto simp: svc_CheckOutAsset_def pg_GetAsset_calm andThen_def onErr_def assetFromDB_def id_or_New_def uuid_New_def
          pg_CheckOutAsset_def q_CheckoutAsset_def query_calm asset_statuses_def Let_def split: prod.splits sum.splits)
    then show ?thesis using Some True by (auto simp: outcome_def checkout_spec_def)
  qed
qed

theorem CheckOutAsset_meets_spec_witness:
  "outcome (fst (svc_CheckOutAsset xdemo_env Some (demo_checkout 0) (irun [CreateAsset (xdemo_ctx 7 9) demo_asset]))) = None
   \<and> outcome (fst (svc_CheckOutAsset xdemo_env Some (demo_checkout 0) (irun [CreateAsset (xdemo_ctx 7 9) demo_asset, CheckOutAsset (demo_checkout 5)])))
     = Some (Some ErrAssetNotAvailable)"
proof -
  let ?w = "irun [CreateAsset (xdemo_ctx 7 9) demo_asset]"
    and ?v = "irun [CreateAsset (xdemo_ctx 7 9) demo_asset, CheckOutAsset (demo_checkout 5)]"
  have ids: "map kr_id (checkouts ?w) = []" "map kr_id (checkouts ?v) = [5]"
    and st: "checkout_spec (map_option sr_status (List.find (own_asset 7 4) (assets ?w))) = None"
      "checkout_spec (map_option sr_status (List.find (own_asset 7 4) (assets ?v))) = Some (Some ErrAssetNotAvailable)" by code_simp+
  have new: "env_uuid xdemo_env n \<notin> kr_id ` set (checkouts ?w)" "env_uuid xdemo_env n \<notin> kr_id ` set (checkouts ?v)" for n
    unfolding set_map [symmetric] ids by (simp_all add: xdemo_env_def)
  show ?thesis
    using CheckOutAsset_meets_spec [OF xdemo_calm new(1), of "demo_checkout 0" Some]
      CheckOutAsset_meets_spec [OF xdemo_calm new(2), of "demo_checkout 0" Some] st by (simp add: demo_checkout_def)
qed

text \<open>
  The service's check-out that fails, of which no statement took effect that failed, has either changed
  nothing or recorded the checkout of an asset that still shows as available, since the two statements
  are not in a transaction. The handler can fail after both, when it reads the checkout again.
\<close>

lemma CheckOutAsset_failure:
  assumes "svc_CheckOutAsset en scan c w = (Inl e, w')"
  shows "untick w' = untick w \<or> (\<exists>r k. r \<in> set (assets w) \<and> own_asset (ac_TenantID c) (ac_AssetID c) r \<and> sr_status r = ''available''
    \<and> kr_asset k = ac_AssetID c \<and> kr_tenant k = ac_TenantID c \<and> kr_in k = None \<and> untick w' = untick (w\<lparr>checkouts := checkouts w @ [k]\<rparr>))"
proof (cases rule: svc_CheckOutAsset_cases [of en scan c w])
  case (none e)
  then show ?thesis using assms by simp
next
  case (out r k i w1)
  have "atomic untick (pg_UpdateAssetStatus en (ac_TenantID c) (ac_AssetID c) ''checked_out'')"
    unfolding pg_UpdateAssetStatus_def q_UpdateAssetStatus_def by (intro atomic_intros)
  moreover have "\<exists>e'. pg_UpdateAssetStatus en (ac_TenantID c) (ac_AssetID c) ''checked_out'' w1 = (Inl e', w')"
    using assms out(10) by (auto simp: andThen_def split: prod.splits sum.splits)
  ultimately have "untick w' = untick w1" by (auto dest: atomicD)
  with out show ?thesis by auto
qed

text \<open>
  A return that succeeds closes exactly one open checkout of the asset, with what was reported and
  the repair cost rounded to cents, makes the asset available again, or under repair when damage was
  reported, and changes nothing else.
\<close>

lemma CheckInAsset_effect:
  assumes "svc_CheckInAsset en t i inp w = (Inr co, w')" and "inventory_inv w"
  shows "\<exists>r now now'. r \<in> set (checkouts w) \<and> open_checkout t i r
    \<and> checkouts w' = map (\<lambda>c. if c = r then returned inp (map_option round2 (ci_RepairCost inp)) now r else c) (checkouts w)
    \<and> assets w' = map (\<lambda>a. if own_asset t i a then a\<lparr>sr_status := (if ci_ReportDamage inp then ''under_repair'' else ''available''), sr_updated := now'\<rparr> else a) (assets w)"
proof (cases rule: svc_CheckInAsset_cases [of en t i inp w])
  case (none e)
  then show ?thesis using assms(1) by simp
next
  case (closed r cost now co' w1)
  have "\<exists>u w2. pg_UpdateAssetStatus en t i (status_after inp) w1 = (Inr u, w2) \<and> w' = w2"
    using assms(1) closed(5) by (auto elim!: andThen_InrE)
  then obtain now' where "assets w' = update_rows (own_asset t i) (\<lambda>r. r\<lparr>sr_status := status_after inp, sr_updated := now'\<rparr>) (assets w1)"
    and cw: "checkouts w' = checkouts w1"
    by (auto simp: pg_UpdateAssetStatus_def q_UpdateAssetStatus_def onErr_InrD update_one_Inr elim!: andThen_InrE query_InrE)
  then have as: "assets w' = map (\<lambda>a. if own_asset t i a then a\<lparr>sr_status := status_after inp, sr_updated := now'\<rparr> else a) (assets w)"
    using inventory_tables_untick(1) [OF closed(4)] by (simp add: update_rows_def)
  have same: "own_checkout t (kr_id r) c \<longleftrightarrow> c = r" if "c \<in> set (checkouts w)" for c
    using distinct_key_unique [of kr_id "checkouts w" c r] that closed(1,2) assms(2) by (auto simp: inventory_inv_def)
  have "checkouts w' = map (\<lambda>c. if c = r then returned inp cost now r else c) (checkouts w)"
    using inventory_tables_untick(2) [OF closed(4)] same by (simp add: cw update_rows_def)
  then show ?thesis using closed(1-3) as by blast
qed

text \<open>
  C31: no sequence of requests changes or removes a checkout that was closed.
\<close>

theorem closed_checkouts_never_change:
  assumes "inventory_inv w" and "c \<in> set (checkouts w)" and "kr_in c \<noteq> None"
  shows "c \<in> set (checkouts (fold (exec_inventory en scan rfc) rs w))"
proof -
  define R where "R = (\<lambda>(w :: inventory_db) (w' :: inventory_db). \<forall>c \<in> set (checkouts w). kr_in c \<noteq> None \<longrightarrow> c \<in> set (checkouts w'))"
  have step: "R w w'" if "inventory_step t w w'" "inventory_inv w" for t w w'
    using that
  proof (induction rule: inventory_step.induct)
    case (check_in r w i c n d s tx cost now)
    show ?case unfolding R_def
    proof (intro ballI impI)
      fix x assume x: "x \<in> set (checkouts w)" "kr_in x \<noteq> None"
      have "\<not> own_checkout t i x"
      proof
        assume "own_checkout t i x"
        then have "x = r" using distinct_key_unique [of kr_id "checkouts w" x r] x(1) check_in(1,2,4) by (simp add: inventory_inv_def)
        then show False using x(2) check_in(3) by simp
      qed
      then show "x \<in> set (checkouts (w\<lparr>checkouts := update_rows (own_checkout t i) (checkin_set c n d s tx cost now) (checkouts w)\<rparr>))"
        using x(1) by (simp add: set_update_rows)
    qed
  qed (simp_all add: R_def)
  have steps: "R w w'" if "(inventory_step t)\<^sup>*\<^sup>* w w'" "inventory_inv w" for t w w'
    using that
  proof (induction rule: rtranclp_induct)
    case (step y z)
    then show ?case using step.IH \<open>inventory_inv w\<close> inventory_steps_inv [OF step(1)] \<open>\<And>w w' t. inventory_step t w w' \<Longrightarrow> inventory_inv w \<Longrightarrow> R w w'\<close> [OF step(2)]
      by (simp add: R_def)
  qed (simp add: R_def)
  have "R w (fold (exec_inventory en scan rfc) rs w)"
  proof (rule inventory.run_rel [where R = R, OF _ _ _ assms(1)])
    fix w w' :: inventory_db assume "untick w' = untick w"
    from inventory_tables_untick(2) [OF this] show "R w w'" by (simp add: R_def)
  next
    fix w w1 w2 assume "R w w1" "R w1 w2" then show "R w w2" by (simp add: R_def)
  qed (rule steps)
  with assms(2,3) show ?thesis by (simp add: R_def)
qed

theorem closed_checkouts_never_change_witness:
  "\<exists>c \<in> set (checkouts (irun ([CreateAsset (xdemo_ctx 7 9) demo_asset, CheckOutAsset (demo_checkout 5), CheckInAsset 7 4 (demo_return False)]
      @ [CheckOutAsset (demo_checkout 6), CheckInAsset 7 4 (demo_return True)]))). kr_id c = 5 \<and> \<not> kr_damage c"
proof -
  let ?rs = "[CreateAsset (xdemo_ctx 7 9) demo_asset, CheckOutAsset (demo_checkout 5), CheckInAsset 7 4 (demo_return False)]"
  have "list_ex (\<lambda>c. kr_id c = 5 \<and> \<not> kr_damage c \<and> kr_in c \<noteq> None) (checkouts (irun ?rs))" by code_simp
  then obtain c where "c \<in> set (checkouts (irun ?rs))" "kr_id c = 5" "\<not> kr_damage c" "kr_in c \<noteq> None" unfolding list_ex_iff by blast
  with closed_checkouts_never_change [OF irun_inv, of c ?rs xdemo_env Some "\<lambda>_. None" "[CheckOutAsset (demo_checkout 6), CheckInAsset 7 4 (demo_return True)]"]
  show ?thesis by auto
qed

end
