(* ===== verification/InventoryHandler.thy ===== *)
theory InventoryHandler
  imports InventoryService Rpc
begin

text \<open>
  The gRPC surface of the inventory service (\<^verbatim>\<open>services/inventory/handler.go\<close>). The case of
  \<^verbatim>\<open>vertical.ErrNotFound\<close> in the error mapping is left out, since no method returns that error;
  \<open>ErrNoActiveCheckout\<close> is never wrapped, so its own text is the message.
\<close>

section \<open>Messages\<close>

record pbAsset =
  apb_Id :: string
  apb_TenantId :: string
  apb_AssetCode :: string
  apb_Name :: string
  apb_CategoryId :: string
  apb_Description :: string
  apb_OwnershipType :: string
  apb_Status :: string
  apb_PurchaseDate :: string
  apb_PurchaseCost :: string
  apb_SerialNumber :: string
  apb_CreatedAt :: time
  apb_UpdatedAt :: time

record pbAssetCheckout =
  kpb_Id :: string
  kpb_AssetId :: string
  kpb_ProductionId :: string
  kpb_TenantId :: string
  kpb_CheckedOutTo :: string
  kpb_CheckedOutAt :: time
  kpb_ExpectedReturn :: string
  kpb_CheckedInAt :: "time option"
  kpb_ConditionOut :: string
  kpb_ConditionIn :: string
  kpb_Notes :: string
  kpb_ReportDamage :: bool
  kpb_DamageSeverity :: string
  kpb_DamageDescription :: string
  kpb_RepairCost :: string

record CreateAssetRequest =
  car_AssetCode :: string
  car_Name :: string
  car_CategoryId :: string
  car_Description :: string
  car_OwnershipType :: string
  car_PurchaseDate :: string
  car_PurchaseCost :: string
  car_SerialNumber :: string

record CheckOutAssetRequest =
  cor_AssetId :: string
  cor_ProductionId :: string
  cor_CheckedOutTo :: string
  cor_ExpectedReturn :: string
  cor_ConditionOut :: string

record CheckInAssetRequest =
  cir_AssetId :: string
  cir_ConditionIn :: string
  cir_Notes :: string
  cir_ReportDamage :: bool
  cir_DamageSeverity :: string
  cir_DamageDescription :: string
  cir_RepairCost :: string

record InventoryCategoryInfo =
  ici_Id :: string
  ici_Label :: string
  ici_IsTrackable :: bool
  ici_DepreciationYears :: int

text \<open>\<^verbatim>\<open>if s := req.Get...(); s != "" { p = &s }\<close>\<close>

definition nonEmpty :: "string \<Rightarrow> string option" where
  "nonEmpty s = (if s \<noteq> '''' then Some s else None)"

definition assetToProto :: "handler \<Rightarrow> Asset \<Rightarrow> pbAsset" where
  "assetToProto h a =
     \<lparr>apb_Id = uuid_String h (as_ID a), apb_TenantId = uuid_String h (as_TenantID a), apb_AssetCode = as_AssetCode a,
      apb_Name = as_Name a, apb_CategoryId = as_CategoryID a, apb_Description = as_Description a,
      apb_OwnershipType = as_OwnershipType a, apb_Status = as_Status a,
      apb_PurchaseDate = (case as_PurchaseDate a of None \<Rightarrow> '''' | Some d \<Rightarrow> d),
      apb_PurchaseCost = StringFixed2 h (as_PurchaseCost a), apb_SerialNumber = as_SerialNumber a,
      apb_CreatedAt = as_CreatedAt a, apb_UpdatedAt = as_UpdatedAt a\<rparr>"

definition checkoutToProto :: "handler \<Rightarrow> AssetCheckout \<Rightarrow> pbAssetCheckout" where
  "checkoutToProto h c =
     \<lparr>kpb_Id = uuid_String h (ac_ID c), kpb_AssetId = uuid_String h (ac_AssetID c), kpb_ProductionId = uuid_String h (ac_ProductionID c),
      kpb_TenantId = uuid_String h (ac_TenantID c), kpb_CheckedOutTo = uuid_String h (ac_CheckedOutTo c),
      kpb_CheckedOutAt = ac_CheckedOutAt c, kpb_ExpectedReturn = (case ac_ExpectedReturn c of None \<Rightarrow> '''' | Some d \<Rightarrow> d),
      kpb_CheckedInAt = ac_CheckedInAt c, kpb_ConditionOut = ac_ConditionOut c, kpb_ConditionIn = ac_ConditionIn c,
      kpb_Notes = ac_Notes c, kpb_ReportDamage = ac_ReportDamage c, kpb_DamageSeverity = ac_DamageSeverity c,
      kpb_DamageDescription = ac_DamageDescription c,
      kpb_RepairCost = (case ac_RepairCost c of None \<Rightarrow> '''' | Some x \<Rightarrow> StringFixed2 h x)\<rparr>"

definition grpcErr :: "inventory_err \<Rightarrow> status" where
  "grpcErr err =
     (if errors_Is err ErrAssetNotFound then Status NotFound ''asset not found''
      else if errors_Is err ErrAssetNotAvailable then Status FailedPrecondition ''asset is not available for checkout''
      else if errors_Is err ErrAlreadyCheckedOut then Status FailedPrecondition ''asset is already checked out''
      else if errors_Is err ErrInvalidCategory then Status InvalidArgument ''invalid category for this vertical''
      else if errors_Is err ErrNoActiveCheckout then Status FailedPrecondition ''inventory: no open checkout for this asset''
      else Status Internal ''internal error'')"

section \<open>Assets\<close>

definition rpc_CreateAsset :: "handler \<Rightarrow> ctx \<Rightarrow> CreateAssetRequest \<Rightarrow> (inventory_db, status, pbAsset) op" where
  "rpc_CreateAsset h ctx req =
     andThen (rpcHead h ctx ''inventory:write'')
       (\<lambda>t. andThen (if car_PurchaseCost req \<noteq> ''''
                     then parse_decimal h (car_PurchaseCost req) ''invalid purchase_cost: must be a decimal string'' else ret 0)
       (\<lambda>cost. andThen (onErr grpcErr (svc_CreateAsset (h_env h) (date_Scan h) ctx
            \<lparr>as_ID = uuid_Nil, as_TenantID = t, as_AssetCode = car_AssetCode req, as_Name = car_Name req,
             as_CategoryID = car_CategoryId req, as_Description = car_Description req, as_OwnershipType = car_OwnershipType req,
             as_Status = ''available'', as_PurchaseDate = nonEmpty (car_PurchaseDate req), as_PurchaseCost = cost,
             as_SerialNumber = car_SerialNumber req, as_CreatedAt = 0, as_UpdatedAt = 0\<rparr>))
       (\<lambda>a. andThen (onErr grpcErr (svc_GetAsset (h_env h) t (as_ID a))) (\<lambda>out. ret (assetToProto h out)))))"

definition rpc_GetAsset :: "handler \<Rightarrow> ctx \<Rightarrow> string \<Rightarrow> (inventory_db, status, pbAsset) op" where
  "rpc_GetAsset h ctx reqId =
     andThen (rpcHead h ctx ''inventory:read'')
       (\<lambda>t. andThen (parse_id h reqId ''invalid asset ID'')
       (\<lambda>i. andThen (onErr grpcErr (svc_GetAsset (h_env h) t i)) (\<lambda>a. ret (assetToProto h a))))"

definition rpc_ListAssets ::
  "handler \<Rightarrow> ctx \<Rightarrow> string \<Rightarrow> string \<Rightarrow> string \<Rightarrow> int \<Rightarrow> (inventory_db, status, pbAsset list) op" where
  "rpc_ListAssets h ctx st category search limit =
     andThen (rpcHead h ctx ''inventory:read'')
       (\<lambda>t. andThen (onErr grpcErr (svc_ListAssets (h_env h) t st category search limit 0))
       (\<lambda>as. ret (map (assetToProto h) as)))"

section \<open>Checkouts\<close>

definition rpc_CheckOutAsset :: "handler \<Rightarrow> ctx \<Rightarrow> CheckOutAssetRequest \<Rightarrow> (inventory_db, status, pbAssetCheckout) op" where
  "rpc_CheckOutAsset h ctx req =
     andThen (rpcHead h ctx ''inventory:checkout'')
       (\<lambda>t. andThen (parse_id h (cor_AssetId req) ''invalid asset_id'')
       (\<lambda>asset. andThen (parse_id h (cor_ProductionId req) ''invalid production_id'')
       (\<lambda>production. andThen (parse_id h (cor_CheckedOutTo req) ''invalid checked_out_to: must be a valid UUID'')
       (\<lambda>holder. andThen (onErr grpcErr (svc_CheckOutAsset (h_env h) (date_Scan h)
            \<lparr>ac_ID = uuid_Nil, ac_AssetID = asset, ac_ProductionID = production, ac_TenantID = t, ac_CheckedOutTo = holder,
             ac_CheckedOutAt = 0, ac_ExpectedReturn = nonEmpty (cor_ExpectedReturn req), ac_CheckedInAt = None,
             ac_ConditionOut = cor_ConditionOut req, ac_ConditionIn = '''', ac_Notes = '''', ac_ReportDamage = False,
             ac_DamageSeverity = '''', ac_DamageDescription = '''', ac_RepairCost = None\<rparr>))
       (\<lambda>c. andThen (onErr grpcErr (svc_GetCheckout (h_env h) t (ac_ID c))) (\<lambda>out. ret (checkoutToProto h out)))))))"

definition parse_repair_cost :: "handler \<Rightarrow> string \<Rightarrow> (inventory_db, status, decimal option) op" where
  "parse_repair_cost h s =
     (if s \<noteq> '''' then andThen (parse_decimal h s ''invalid repair_cost: must be a decimal string'')
        (\<lambda>cost. if cost < 0 then fail (Status InvalidArgument ''repair_cost must not be negative'') else ret (Some cost))
      else ret None)"

definition rpc_CheckInAsset :: "handler \<Rightarrow> ctx \<Rightarrow> CheckInAssetRequest \<Rightarrow> (inventory_db, status, pbAssetCheckout) op" where
  "rpc_CheckInAsset h ctx req =
     andThen (rpcHead h ctx ''inventory:checkout'')
       (\<lambda>t. andThen (parse_id h (cir_AssetId req) ''invalid asset_id'')
       (\<lambda>asset. andThen (parse_repair_cost h (cir_RepairCost req))
       (\<lambda>cost. if cir_ReportDamage req \<and> TrimSpace (cir_DamageSeverity req) = ''''
               then fail (Status InvalidArgument ''damage_severity is required when report_damage is set'')
               else andThen (onErr grpcErr (svc_CheckInAsset (h_env h) t asset
                 \<lparr>ci_ConditionIn = cir_ConditionIn req, ci_Notes = cir_Notes req, ci_ReportDamage = cir_ReportDamage req,
                  ci_DamageSeverity = cir_DamageSeverity req, ci_DamageDescription = cir_DamageDescription req, ci_RepairCost = cost\<rparr>))
               (\<lambda>co. ret (checkoutToProto h co)))))"

text \<open>\<^verbatim>\<open>time.Parse(time.RFC3339, ...)\<close> is an argument.\<close>

definition rpc_ListCheckouts ::
  "handler \<Rightarrow> (string \<Rightarrow> time option) \<Rightarrow> ctx \<Rightarrow> string \<Rightarrow> int \<Rightarrow> string \<Rightarrow> (inventory_db, status, pbAssetCheckout list) op" where
  "rpc_ListCheckouts h rfc3339 ctx assetId limit after =
     andThen (rpcHead h ctx ''inventory:read'')
       (\<lambda>t. andThen (parse_id h assetId ''invalid asset_id'')
       (\<lambda>asset. if after \<noteq> '''' \<and> rfc3339 after = None
                then fail (Status InvalidArgument ''invalid after: must be an RFC3339 timestamp'')
                else andThen (onErr grpcErr (svc_ListCheckouts (h_env h) rfc3339 t asset limit after))
                  (\<lambda>cs. ret (map (checkoutToProto h) cs))))"

section \<open>Vertical metadata\<close>

definition rpc_GetInventoryCategories :: "ctx \<Rightarrow> (inventory_db, status, InventoryCategoryInfo list) op" where
  "rpc_GetInventoryCategories ctx =
     andThen (onErr grpcErr (svc_GetInventoryCategories ctx))
       (\<lambda>cats. ret (map (\<lambda>c. \<lparr>ici_Id = ic_ID c, ici_Label = ic_Label c, ici_IsTrackable = ic_IsTrackable c,
          ici_DepreciationYears = (case ic_DepreciationYears c of None \<Rightarrow> 0 | Some y \<Rightarrow> int32 y)\<rparr>) cats))"

end
