(* ===== verification/InventoryApi.thy ===== *)
theory InventoryApi
  imports InventoryProps InventoryHandler
begin

text \<open>
  The search for assets against its reference, and the RPCs of the inventory service as calls of the
  contract \<open>call_service\<close>, with the custody of assets over their runs.
\<close>

section \<open>Search\<close>

definition plain :: "string \<Rightarrow> bool" where
  "plain s \<longleftrightarrow> (\<forall>c \<in> set s. c \<noteq> CHR ''%'' \<and> c \<noteq> CHR ''_'' \<and> c \<noteq> CHR 0x5C)"

text \<open>The text occurs in the other one, whatever the case of its letters.\<close>

definition occurs_in :: "string \<Rightarrow> string \<Rightarrow> bool" where
  "occurs_in s x \<longleftrightarrow> (\<exists>us vs. map lower_char x = us @ map lower_char s @ vs)"

lemma like_any: "like [CHR ''%''] x"
  by (induction x) simp_all

lemma like_prefix: "plain s \<Longrightarrow> like (s @ [CHR ''%'']) x \<longleftrightarrow> (\<exists>vs. x = s @ vs)"
proof (induction s arbitrary: x)
  case (Cons c s)
  then show ?case by (cases x) (auto simp: plain_def)
qed (simp add: like_any)

lemma like_percent: "like (CHR ''%'' # p) x \<longleftrightarrow> (\<exists>us vs. x = us @ vs \<and> like p vs)"
proof (induction x)
  case (Cons c x)
  have "like (CHR ''%'' # p) (c # x) \<longleftrightarrow> like p (c # x) \<or> (\<exists>us vs. x = us @ vs \<and> like p vs)" using Cons by simp
  also have "\<dots> \<longleftrightarrow> (\<exists>us vs. c # x = us @ vs \<and> like p vs)" by (auto simp: Cons_eq_append_conv)
  finally show ?case .
qed simp

lemma lower_wild: "lower_char c = CHR ''%'' \<or> lower_char c = CHR ''_'' \<or> lower_char c = CHR 0x5C \<Longrightarrow> lower_char c = c"
proof (rule ccontr)
  assume w: "lower_char c = CHR ''%'' \<or> lower_char c = CHR ''_'' \<or> lower_char c = CHR 0x5C" and ne: "lower_char c \<noteq> c"
  let ?n = "of_char c :: nat"
  have l: "lower_char c = char_of (?n + 32)" and n: "65 \<le> ?n" "?n \<le> 90" using ne by (auto simp: lower_char_def Let_def split: if_splits)
  have "(of_char (lower_char c) :: nat) = ?n + 32" using n unfolding l by simp
  moreover have "(of_char (lower_char c) :: nat) \<in> {37, 95, 92}" using w by auto
  ultimately show False using n by auto
qed

lemma plain_lower: "plain s \<Longrightarrow> plain (map lower_char s)"
  unfolding plain_def using lower_wild by fastforce

lemma ilike_plain: "plain s \<Longrightarrow> ilike (''%'' @ s @ ''%'') x \<longleftrightarrow> occurs_in s x"
proof -
  assume "plain s"
  have "lower_char (CHR ''%'') = CHR ''%''" by (simp add: lower_char_def)
  then have "ilike (''%'' @ s @ ''%'') x \<longleftrightarrow> like (CHR ''%'' # map lower_char s @ [CHR ''%'']) (map lower_char x)" by (simp add: ilike_def)
  also have "\<dots> \<longleftrightarrow> (\<exists>us vs. map lower_char x = us @ vs \<and> (\<exists>ws. vs = map lower_char s @ ws))"
    unfolding like_percent like_prefix [OF plain_lower [OF \<open>plain s\<close>]] ..
  finally show ?thesis by (auto simp: occurs_in_def)
qed

text \<open>
  When a database with the C locale answers, a list of assets searched for a text without pattern
  characters is the first page, by name, of exactly the assets of the tenant with the status and
  category asked for whose name or code contains the text in any case of its ASCII letters.
\<close>

lemma ListAssets_finds_text:
  assumes "calm en" and "plain s" and "0 < limit" and "limit \<le> 100"
  shows "fst (svc_ListAssets en t st category s limit 0 w) = Inr (map assetFromDB (take (nat limit) (sort_key sr_name
    (filter (\<lambda>r. sr_tenant r = t \<and> (st = '''' \<or> sr_status r = st) \<and> (category = '''' \<or> sr_category r = category)
       \<and> (occurs_in s (sr_name r) \<or> occurs_in s (sr_code r))) (assets w)))))"
proof -
  have "search_hit s r \<longleftrightarrow> occurs_in s (sr_name r) \<or> occurs_in s (sr_code r)" for r
    using ilike_plain [OF assms(2)] by (cases "s = ''''") (auto simp: search_hit_def occurs_in_def)
  then show ?thesis
    using assms(1,3,4)
    by (simp add: svc_ListAssets_def pg_ListAssets_def q_ListAssets_def query_calm page_def int32_small andThen_def onErr_def)
qed

section \<open>Calls\<close>

datatype inventory_rpc =
  RpcCreateAsset CreateAssetRequest | RpcGetAsset string | RpcListAssets string string string int
| RpcCheckOutAsset CheckOutAssetRequest | RpcCheckInAsset CheckInAssetRequest | RpcListCheckouts string int string
| RpcGetInventoryCategories

fun call_inventory :: "handler \<Rightarrow> (string \<Rightarrow> time option) \<Rightarrow> ctx \<Rightarrow> inventory_rpc \<Rightarrow> inventory_db \<Rightarrow> inventory_db" where
  "call_inventory h rfc ctx (RpcCreateAsset r) w = snd (rpc_CreateAsset h ctx r w)"
| "call_inventory h rfc ctx (RpcGetAsset a) w = snd (rpc_GetAsset h ctx a w)"
| "call_inventory h rfc ctx (RpcListAssets a b c l) w = snd (rpc_ListAssets h ctx a b c l w)"
| "call_inventory h rfc ctx (RpcCheckOutAsset r') w = snd (rpc_CheckOutAsset h ctx r' w)"
| "call_inventory h rfc ctx (RpcCheckInAsset r'') w = snd (rpc_CheckInAsset h ctx r'' w)"
| "call_inventory h rfc ctx (RpcListCheckouts a l u) w = snd (rpc_ListCheckouts h rfc ctx a l u w)"
| "call_inventory h rfc ctx RpcGetInventoryCategories w = snd (rpc_GetInventoryCategories ctx w)"

fun inventory_rpc_perm :: "inventory_rpc \<Rightarrow> string" where
  "inventory_rpc_perm (RpcCreateAsset r) = ''inventory:write''"
| "inventory_rpc_perm (RpcGetAsset a) = ''inventory:read''"
| "inventory_rpc_perm (RpcListAssets a b c l) = ''inventory:read''"
| "inventory_rpc_perm (RpcCheckOutAsset r') = ''inventory:checkout''"
| "inventory_rpc_perm (RpcCheckInAsset r'') = ''inventory:checkout''"
| "inventory_rpc_perm (RpcListCheckouts a l u) = ''inventory:read''"
| "inventory_rpc_perm RpcGetInventoryCategories = ''''"

lemmas inventory_rpc_defs = rpc_CreateAsset_def rpc_GetAsset_def rpc_ListAssets_def rpc_CheckOutAsset_def rpc_CheckInAsset_def
  rpc_ListCheckouts_def rpc_GetInventoryCategories_def parse_repair_cost_def

lemma inventory_metadata: "same untick (svc_GetInventoryCategories ctx)"
  unfolding svc_GetInventoryCategories_def by (intro same_intros)

text \<open>A property that reads keep and that the writing methods keep for the tenant of the context is kept by every call.\<close>

lemma keeps_call_inventory:
  assumes reads: "\<And>m :: (inventory_db, inventory_err, Asset) op. same untick m \<Longrightarrow> keeps P m"
    "\<And>m :: (inventory_db, inventory_err, Asset list) op. same untick m \<Longrightarrow> keeps P m"
    "\<And>m :: (inventory_db, inventory_err, AssetCheckout) op. same untick m \<Longrightarrow> keeps P m"
    "\<And>m :: (inventory_db, inventory_err, AssetCheckout list) op. same untick m \<Longrightarrow> keeps P m"
    "\<And>m :: (inventory_db, inventory_err, InventoryCategory list) op. same untick m \<Longrightarrow> keeps P m"
    and writes: "\<And>a. ctx_tenant ctx = Some (as_TenantID a) \<Longrightarrow> as_Status a = ''available'' \<Longrightarrow> keeps P (svc_CreateAsset (h_env h) (date_Scan h) ctx a)"
    "\<And>c. ctx_tenant ctx = Some (ac_TenantID c) \<Longrightarrow> keeps P (svc_CheckOutAsset (h_env h) (date_Scan h) c)"
    "\<And>t i inp. ctx_tenant ctx = Some t \<Longrightarrow> keeps P (svc_CheckInAsset (h_env h) t i inp)"
    and "P w"
  shows "P (call_inventory h rfc ctx m w)"
proof -
  note rules = keeps_intros keeps_then_rpcHead reads(1) [OF inventory_reads(1)] reads(2) [OF inventory_reads(2)] reads(3) [OF inventory_reads(3)]
    reads(4) [OF inventory_reads(4)] reads(5) [OF inventory_metadata] writes
  have "keeps P (rpc_CreateAsset h ctx r)" "keeps P (rpc_GetAsset h ctx a)" "keeps P (rpc_ListAssets h ctx a b c l)"
    "keeps P (rpc_CheckOutAsset h ctx r')" "keeps P (rpc_CheckInAsset h ctx r'')" "keeps P (rpc_ListCheckouts h rfc ctx a l b)"
    "keeps P (rpc_GetInventoryCategories ctx)" for r a b c l r' r''
    unfolding inventory_rpc_defs by (intro rules | simp)+
  then show ?thesis using \<open>P w\<close> by (cases m) (simp_all add: keepsD)
qed

lemma call_inventory_sealed:
  assumes "u \<noteq> tenant_of_ctx ctx" and "step_service.sealed inventory_inv inventory_part u v w"
  shows "step_service.sealed inventory_inv inventory_part u v (call_inventory h rfc ctx m w)"
  by (rule keeps_call_inventory)
    (use assms in \<open>auto simp: tenant_of_ctx_def intro: inventory.keeps_sealed_read
      inventory.keeps_sealed_write [OF svc_CreateAsset_moves] inventory.keeps_sealed_write [OF svc_CheckOutAsset_moves]
      inventory.keeps_sealed_write [OF svc_CheckInAsset_moves]\<close>)

interpretation icalls: call_service "exec_inventory en scan rfc'" inventory_inv empty_inventory ireq_tenant inventory_part
    "\<lambda>t. (inventory_step t)\<^sup>*\<^sup>*" "call_inventory h rfc" tenant_of_ctx for en scan rfc' h rfc
  by unfold_locales (rule call_inventory_sealed)

lemma inventory_rpc_denied:
  assumes "RequirePermission (h_flag h) ctx (h_perm h) (inventory_rpc_perm m) \<noteq> Inr ()" and "inventory_rpc_perm m \<noteq> ''''"
  shows "call_inventory h rfc ctx m w = w"
  using assms by (cases m) (simp_all add: inventory_rpc_defs rpcHead_denied)

text \<open>
  C32: as long as the database answers, after any sequence of calls every asset has exactly one open
  checkout while its status is checked out and none otherwise, so no asset is ever in two hands.
\<close>

theorem asset_in_one_hand:
  assumes "calm (h_env h)" and "a \<in> set (assets (fold (\<lambda>(ctx, m). call_inventory h rfc ctx m) calls empty_inventory))"
  shows "length (open_of (sr_id a) (checkouts (fold (\<lambda>(ctx, m). call_inventory h rfc ctx m) calls empty_inventory)))
    = (if sr_status a = ''checked_out'' then 1 else 0)"
proof -
  have call: "custody_inv (call_inventory h rfc ctx m w)" if "custody_inv w" for ctx m w
    by (rule keeps_call_inventory [where P = custody_inv])
      (auto intro: that keeps_custody_Create keeps_custody_CheckOut [OF assms(1)] keeps_custody_CheckIn [OF assms(1)]
        same_keeps dest: custody_untick)
  have "custody_inv (fold (\<lambda>(ctx, m). call_inventory h rfc ctx m) calls empty_inventory)"
    by (rule fold_keeps [where P = custody_inv]) (auto simp: call, simp add: custody_inv_def custody_ok_def inventory_inv_def empty_inventory_def)
  then show ?thesis by (rule custody_okD [OF _ assms(2)])
qed
definition idemo_handler :: handler where
  "idemo_handler = xdemo_handler\<lparr>h_perm := Some (\<lambda>_ _ _. Inr True)\<rparr>"

definition idemo_calls :: "(ctx \<times> inventory_rpc) list" where
  "idemo_calls = [(xdemo_ctx 7 9, RpcCreateAsset \<lparr>car_AssetCode = ''CAM-1'', car_Name = ''Camera'', car_CategoryId = ''camera'', car_Description = '''',
       car_OwnershipType = ''owned'', car_PurchaseDate = '''', car_PurchaseCost = '''', car_SerialNumber = ''''\<rparr>),
     (xdemo_ctx 7 9, RpcCheckOutAsset \<lparr>cor_AssetId = ''30'', cor_ProductionId = ''3'', cor_CheckedOutTo = ''9'', cor_ExpectedReturn = '''', cor_ConditionOut = ''''\<rparr>),
     (xdemo_ctx 7 9, RpcCheckOutAsset \<lparr>cor_AssetId = ''30'', cor_ProductionId = ''3'', cor_CheckedOutTo = ''8'', cor_ExpectedReturn = '''', cor_ConditionOut = ''''\<rparr>)]"

theorem asset_in_one_hand_witness:
  "length (open_of 30 (checkouts (fold (\<lambda>(ctx, m). call_inventory idemo_handler (\<lambda>_. None) ctx m) idemo_calls empty_inventory))) = 1"
proof -
  let ?w = "fold (\<lambda>(ctx, m). call_inventory idemo_handler (\<lambda>_. None) ctx m) idemo_calls empty_inventory"
  have "map (\<lambda>a. (sr_id a, sr_status a)) (assets ?w) = [(30, ''checked_out'')]" by code_simp
  then obtain a where a: "a \<in> set (assets ?w)" "sr_id a = 30" "sr_status a = ''checked_out''" by auto
  have "calm (h_env idemo_handler)" by (simp add: idemo_handler_def xdemo_handler_def xdemo_calm)
  from asset_in_one_hand [OF this a(1)] a(2,3) show ?thesis by simp
qed

end
