(* ===== verification/System.thy ===== *)
theory System
  imports LedgerApi ExpenseApi ProjectProps BudgetApi InventoryApi BoundaryProps
begin

text \<open>
  The services behind one boundary. A message with its metadata passes the authenticating interceptor
  (\<^verbatim>\<open>UnaryAuthInterceptor\<close>) and reaches the handler of its service with the context that the
  interceptor made; the configuration of the tenant, which the vertical interceptor adds, comes with the
  message. The five services with their own tables are one tenant service: the contract
  \<open>tenant_service\<close> is interpreted on the whole.
\<close>

section \<open>The whole state and its calls\<close>

record system =
  ledger_of :: ledger
  expenses_of :: expense_db
  projects_of :: project_db
  budgets_of :: budget_db
  inventory_of :: inventory_db

definition empty_system :: system where
  "empty_system = \<lparr>ledger_of = empty_ledger, expenses_of = empty_expenses, projects_of = empty_projects,
     budgets_of = empty_budgets, inventory_of = empty_inventory\<rparr>"

text \<open>Every service has its own handler; the verifier of tokens is the same.\<close>

record deployment =
  ledger_handler :: handler
  expense_handler :: handler
  project_handler :: handler
  budget_handler :: handler
  inventory_handler :: handler
  parse_rfc3339 :: "string \<Rightarrow> time option"
  parse_project :: "string \<Rightarrow> uuid option"
  verifier :: "string \<Rightarrow> auth_error + Claims"

datatype system_rpc =
  LedgerRpc ledger_rpc | ExpenseRpc expense_rpc | ProjectRpc project_rpc | BudgetRpc budget_rpc | InventoryRpc inventory_rpc

fun call_system :: "deployment \<Rightarrow> ctx \<Rightarrow> system_rpc \<Rightarrow> system \<Rightarrow> system" where
  "call_system d ctx (LedgerRpc m) w = w\<lparr>ledger_of := call_ledger (ledger_handler d) ctx m (ledger_of w)\<rparr>"
| "call_system d ctx (ExpenseRpc m) w = w\<lparr>expenses_of := call_expense (expense_handler d) ctx m (expenses_of w)\<rparr>"
| "call_system d ctx (ProjectRpc m) w = w\<lparr>projects_of := call_project (project_handler d) ctx m (projects_of w)\<rparr>"
| "call_system d ctx (BudgetRpc m) w = w\<lparr>budgets_of := call_budget (budget_handler d) ctx m (budgets_of w)\<rparr>"
| "call_system d ctx (InventoryRpc m) w =
     w\<lparr>inventory_of := call_inventory (inventory_handler d) (parse_rfc3339 d) ctx m (inventory_of w)\<rparr>"

record message =
  msg_md :: md
  msg_vertical :: "Config option"
  msg_method :: string
  msg_rpc :: system_rpc

text \<open>The context of a call before any interceptor ran, but for the configuration.\<close>

definition server_ctx :: "message \<Rightarrow> ctx" where
  "server_ctx m = \<lparr>ctx_caller = None, ctx_tenant = None, ctx_actor = None, ctx_vertical = msg_vertical m,
     ctx_incoming = msg_md m, ctx_outgoing = (\<lambda>_. [])\<rparr>"

definition deliver :: "deployment \<Rightarrow> message \<Rightarrow> system \<Rightarrow> system" where
  "deliver d m w = snd (UnaryAuthInterceptor (parse_project d) (verifier d) PublicMethods (server_ctx m) (msg_method m)
     (\<lambda>ctx w. (Inr (), call_system d ctx (msg_rpc m) w)) w)"

text \<open>The claims of the token of a message, if it has one that verifies.\<close>

definition msg_claims :: "deployment \<Rightarrow> message \<Rightarrow> Claims option" where
  "msg_claims d m = (case bearer_token (firstMD (msg_md m) ''authorization'') of None \<Rightarrow> None
     | Some tok \<Rightarrow> (case verifier d tok of Inl _ \<Rightarrow> None | Inr claims \<Rightarrow> Some claims))"

definition msg_tenant :: "deployment \<Rightarrow> message \<Rightarrow> uuid" where
  "msg_tenant d m = (case msg_claims d m of None \<Rightarrow> uuid_Nil | Some claims \<Rightarrow> ClaimsTenantID claims)"

text \<open>What the handler of a message finds in its context.\<close>

definition msg_ctx :: "deployment \<Rightarrow> message \<Rightarrow> Claims \<Rightarrow> ctx" where
  "msg_ctx d m claims =
     (let caller = \<lparr>UserID = Subject claims, TenantID = ClaimsTenantID claims,
            ProjectID = uuidFromMD (parse_project d) (msg_md m) ''x-project-id'', Email = ClaimsEmail claims,
            Roles = ClaimsRoles claims, Permissions = ClaimsPermissions claims, IP = firstMD (msg_md m) ''x-forwarded-for''\<rparr>
      in (server_ctx m)\<lparr>ctx_caller := Some caller,
           ctx_tenant := (if ClaimsTenantID claims \<noteq> uuid_Nil then Some (ClaimsTenantID claims) else None),
           ctx_actor := Some \<lparr>actor_user = UserID caller, actor_email = Email caller, actor_ip = IP caller\<rparr>\<rparr>)"

lemma deliver_cases:
  assumes "msg_method m \<notin> set PublicMethods"
  shows "deliver d m w = (case msg_claims d m of None \<Rightarrow> w | Some claims \<Rightarrow> call_system d (msg_ctx d m claims) (msg_rpc m) w)"
  by (simp add: deliver_def UnaryAuthInterceptor_def authenticate_cases [OF assms] msg_claims_def msg_ctx_def server_ctx_def Let_def
      split: option.split sum.split)

lemma msg_ctx_tenant: "tenant_of_ctx (msg_ctx d m claims) = ClaimsTenantID claims" "tenant_of_caller (msg_ctx d m claims) = ClaimsTenantID claims"
  by (simp_all add: tenant_of_ctx_def tenant_of_caller_def msg_ctx_def Let_def)

section \<open>The whole as a tenant service\<close>

definition system_inv :: "system \<Rightarrow> bool" where
  "system_inv w \<longleftrightarrow> ledger_inv (ledger_of w) \<and> expense_inv (expenses_of w) \<and> project_inv (projects_of w)
     \<and> budget_inv (budgets_of w) \<and> inventory_inv (inventory_of w)"

definition system_part :: "uuid \<Rightarrow> system \<Rightarrow> _" where
  "system_part u w = (tenant_part u (ledger_of w), expense_part u (expenses_of w), project_part u (projects_of w),
     budget_part u (budgets_of w), inventory_part u (inventory_of w))"

lemma call_system_inv: "system_inv w \<Longrightarrow> system_inv (call_system d ctx m w)"
  by (cases m)
    (simp_all add: system_inv_def rpcs.handle_inv xcalls.call_inv pcalls.call_inv bcalls.call_inv icalls.call_inv)

lemma call_system_frame:
  "system_inv w \<Longrightarrow> u \<noteq> tenant_of_ctx ctx \<Longrightarrow> u \<noteq> tenant_of_caller ctx \<Longrightarrow> system_part u (call_system d ctx m w) = system_part u w"
  by (cases m)
    (simp_all add: system_inv_def system_part_def rpcs.handle_frame xcalls.call_frame pcalls.call_frame bcalls.call_frame icalls.call_frame)

text \<open>A message for one of the services; its method is none of the public ones, which belong to identity and reflection.\<close>

definition protected :: "message \<Rightarrow> bool" where
  "protected m \<longleftrightarrow> msg_method m \<notin> set PublicMethods"

definition deliver_protected :: "deployment \<Rightarrow> message \<Rightarrow> system \<Rightarrow> system" where
  "deliver_protected d m w = (if protected m then deliver d m w else w)"

interpretation whole: tenant_service "deliver_protected d" system_inv empty_system "msg_tenant d" system_part for d
proof unfold_locales
  show "system_inv empty_system"
    by (simp add: system_inv_def empty_system_def ledger_inv_empty expense_inv_empty project_inv_empty budget_inv_empty inventory_inv_empty)
next
  fix m w assume "system_inv w"
  then show "system_inv (deliver_protected d m w)"
    by (auto simp: deliver_protected_def protected_def deliver_cases call_system_inv split: option.split)
next
  fix m w u assume "system_inv w" "u \<noteq> msg_tenant d m"
  then show "system_part u (deliver_protected d m w) = system_part u w"
    by (auto simp: deliver_protected_def protected_def deliver_cases msg_tenant_def msg_ctx_tenant intro!: call_system_frame split: option.split)
qed

section \<open>Isolation and authorisation of the whole\<close>

text \<open>
  C5: whatever messages arrive, in whatever order over the five services, those whose verified token is
  not of a tenant leave every row and every published event of that tenant as they are: no header and no
  field of a request can name another tenant than that of the token.
\<close>

theorem system_isolation:
  assumes "system_inv w" and "\<And>m. m \<in> set ms \<Longrightarrow> msg_method m \<notin> set PublicMethods" and "\<And>m. m \<in> set ms \<Longrightarrow> msg_tenant d m \<noteq> u"
  shows "system_part u (fold (deliver d) ms w) = system_part u w"
proof -
  have "fold (deliver d) ms w = fold (deliver_protected d) ms w"
    using assms(2) by (intro fold_cong) (auto simp: deliver_protected_def protected_def)
  then show ?thesis using whole.isolation [of w ms d u] assms(1,3) by simp
qed

definition sdemo :: deployment where
  "sdemo = \<lparr>ledger_handler = demo_handler, expense_handler = xdemo_handler, project_handler = pdemo_handler, budget_handler = pdemo_handler,
     inventory_handler = idemo_handler, parse_rfc3339 = (\<lambda>_. None), parse_project = (\<lambda>_. None), verifier = demo_verify\<rparr>"

definition sdemo_msg :: "string \<Rightarrow> system_rpc \<Rightarrow> message" where
  "sdemo_msg tok rpc = \<lparr>msg_md = (\<lambda>k. if k = ''authorization'' then [''Bearer '' @ tok] else []), msg_vertical = Some xdemo_config,
     msg_method = ''/thittam/m'', msg_rpc = rpc\<rparr>"

lemma sdemo_good: "msg_claims sdemo (sdemo_msg ''good'' rpc) = Some \<lparr>Subject = 9, ClaimsTenantID = 7, ClaimsEmail = '''', ClaimsRoles = [''member''], ClaimsPermissions = []\<rparr>"
proof -
  have "bearer_token ''Bearer good'' = Some ''good''" by code_simp
  then show ?thesis by (simp add: msg_claims_def sdemo_msg_def firstMD_def sdemo_def demo_verify_def)
qed

theorem system_isolation_witness:
  "system_part 8 (fold (deliver sdemo) [sdemo_msg ''good'' (ProjectRpc (RpcCreateProduction ''Film'' '''' '''')),
     sdemo_msg ''good'' (BudgetRpc (RpcCreateBudget ''3'' ''main'' ''''))] empty_system) = system_part 8 empty_system"
  by (rule system_isolation [OF whole.inv_init]) (auto simp: msg_tenant_def sdemo_good, auto simp: sdemo_msg_def PublicMethods_def)

text \<open>The service that a call goes to, and the permission that it asks for; empty for the calls that ask for none, or for one only to show the records of others.\<close>

fun rpc_handler :: "deployment \<Rightarrow> system_rpc \<Rightarrow> handler" where
  "rpc_handler d (LedgerRpc _) = ledger_handler d"
| "rpc_handler d (ExpenseRpc _) = expense_handler d"
| "rpc_handler d (ProjectRpc _) = project_handler d"
| "rpc_handler d (BudgetRpc _) = budget_handler d"
| "rpc_handler d (InventoryRpc _) = inventory_handler d"

fun rpc_permission :: "system_rpc \<Rightarrow> string" where
  "rpc_permission (LedgerRpc m) = needed_permission m"
| "rpc_permission (ExpenseRpc m) = expense_rpc_perm m"
| "rpc_permission (ProjectRpc m) = project_rpc_perm m"
| "rpc_permission (BudgetRpc m) = budget_rpc_perm m"
| "rpc_permission (InventoryRpc m) = inventory_rpc_perm m"

definition permitted :: "deployment \<Rightarrow> ctx \<Rightarrow> system_rpc \<Rightarrow> bool" where
  "permitted d ctx rpc \<longleftrightarrow> RequirePermission (h_flag (rpc_handler d rpc)) ctx (h_perm (rpc_handler d rpc)) (rpc_permission rpc) = Inr ()"

lemma granted_RequirePermission: "granted h ctx p \<Longrightarrow> RequirePermission (h_flag h) ctx (h_perm h) p = Inr ()"
  unfolding granted_def RequirePermission_Inr_iff by (auto split: option.splits split del: if_split)

lemma call_system_denied:
  assumes "\<not> permitted d ctx rpc" and "rpc_permission rpc \<noteq> ''''"
  shows "call_system d ctx rpc w = w"
proof (cases rpc)
  case (LedgerRpc m)
  then have "\<not> granted (ledger_handler d) ctx (needed_permission m)"
    using assms(1) granted_RequirePermission by (fastforce simp: permitted_def)
  then show ?thesis using LedgerRpc rpcs.denied by simp
qed (use assms in \<open>simp_all add: permitted_def expense_rpc_denied project_rpc_denied budget_rpc_denied inventory_rpc_denied\<close>)

text \<open>
  C11: a message for an operation that needs a permission changes nothing anywhere unless its token
  verifies and the permission service grants the permission to the user of the token.
\<close>

theorem system_denied:
  assumes "msg_method m \<notin> set PublicMethods" and "rpc_permission (msg_rpc m) \<noteq> ''''"
    and "\<And>claims. msg_claims d m = Some claims \<Longrightarrow> \<not> permitted d (msg_ctx d m claims) (msg_rpc m)"
  shows "deliver d m w = w"
  using assms by (simp add: deliver_cases call_system_denied split: option.split)

theorem system_denied_witness:
  "deliver sdemo (sdemo_msg ''good'' (ExpenseRpc (RpcApproveExpense ''4''))) empty_system = empty_system
   \<and> deliver sdemo (sdemo_msg ''bad'' (ProjectRpc (RpcArchiveProduction ''3''))) empty_system = empty_system"
proof
  show "deliver sdemo (sdemo_msg ''good'' (ExpenseRpc (RpcApproveExpense ''4''))) empty_system = empty_system"
    by (rule system_denied)
      (auto simp: permitted_def sdemo_def xdemo_handler_def RequirePermission_nil, auto simp: sdemo_msg_def PublicMethods_def RequirePermission_nil)
  have "bearer_token ''Bearer bad'' = Some ''bad''" by code_simp
  then have "msg_claims sdemo (sdemo_msg ''bad'' rpc) = None" for rpc
    by (simp add: msg_claims_def sdemo_msg_def firstMD_def sdemo_def demo_verify_def)
  then show "deliver sdemo (sdemo_msg ''bad'' (ProjectRpc (RpcArchiveProduction ''3''))) empty_system = empty_system"
    by (intro system_denied) (simp_all, simp_all add: sdemo_msg_def PublicMethods_def)
qed

end
