(* ===== verification/Json.thy ===== *)
theory Json
  imports GoText "HOL-Library.Finite_Map"
begin

text \<open>
  JSON as \<^verbatim>\<open>encoding/json\<close> and PostgreSQL's \<^verbatim>\<open>jsonb\<close> see it. A text
  that is well-formed stands for its value; numbers keep their literals. A decoder takes the value that
  the target holds and returns the one it holds afterwards together with whether
  \<^verbatim>\<open>json.Unmarshal\<close> reports no error: a field of the wrong type keeps its value, the others
  are decoded all the same, and \<^verbatim>\<open>null\<close> leaves strings, numbers and structs alone. The fields
  of a struct are a list of names with decoder and encoder; the lemmas reduce the round trip of a struct
  to those of its fields.
\<close>

section \<open>Values\<close>

datatype json = JNull | JBool bool | JNum string | JStr string | JArr "json list" | JObj "(string \<times> json) list"

type_synonym 'a decoder = "json \<Rightarrow> 'a \<Rightarrow> 'a \<times> bool"

text \<open>\<^verbatim>\<open>strconv.ParseInt\<close> to base ten and 64 bits, and \<^verbatim>\<open>strconv.AppendInt\<close>.\<close>

definition int64_range :: "int \<Rightarrow> bool" where
  "int64_range i \<longleftrightarrow> - (2 ^ 63) \<le> i \<and> i < 2 ^ 63"

definition parse_nat :: "string \<Rightarrow> nat option" where
  "parse_nat s = (if s \<noteq> [] \<and> list_all is_digit s then Some (atoi s) else None)"

definition ParseInt :: "string \<Rightarrow> int option" where
  "ParseInt s =
     (case (case s of c # cs \<Rightarrow> if c = CHR ''-'' then map_option (\<lambda>n. - int n) (parse_nat cs) else map_option int (parse_nat s)
            | [] \<Rightarrow> None) of
        Some i \<Rightarrow> if int64_range i then Some i else None
      | None \<Rightarrow> None)"

definition FormatInt :: "int \<Rightarrow> string" where
  "FormatInt i = (if i < 0 then CHR ''-'' # itoa (nat (- i)) else itoa (nat i))"

lemma parse_nat_itoa [simp]: "parse_nat (itoa n) = Some n"
  by (simp add: parse_nat_def list_all_iff set_itoa)

lemma ParseInt_FormatInt: "int64_range i \<Longrightarrow> ParseInt (FormatInt i) = Some i"
proof -
  assume i: "int64_range i"
  have "hd (itoa (nat i)) \<noteq> CHR ''-''"
    using set_itoa [of "hd (itoa (nat i))" "nat i"] by (auto simp: is_digit_def)
  then show ?thesis using i parse_nat_itoa [of "nat i"] itoa_nonempty [of "nat i"]
    by (cases "itoa (nat i)") (auto simp: ParseInt_def FormatInt_def)
qed

section \<open>Decoding\<close>

fun dec_string :: "string decoder" where
  "dec_string (JStr s) _ = (s, True)"
| "dec_string JNull old = (old, True)"
| "dec_string _ old = (old, False)"

fun dec_bool :: "bool decoder" where
  "dec_bool (JBool b) _ = (b, True)"
| "dec_bool JNull old = (old, True)"
| "dec_bool _ old = (old, False)"

fun dec_int :: "int decoder" where
  "dec_int (JNum l) old = (case ParseInt l of Some i \<Rightarrow> (i, True) | None \<Rightarrow> (old, False))"
| "dec_int JNull old = (old, True)"
| "dec_int _ old = (old, False)"

text \<open>A pointer is allocated before its target is decoded.\<close>

definition dec_ptr :: "'a \<Rightarrow> 'a decoder \<Rightarrow> 'a option decoder" where
  "dec_ptr zero d v old =
     (if v = JNull then (None, True)
      else case d v (case old of None \<Rightarrow> zero | Some x \<Rightarrow> x) of (x, ok) \<Rightarrow> (Some x, ok))"

text \<open>A slice is decoded element by element into the elements it has, then into new ones, and cut to the length of the array; the room behind its length holds zero values.\<close>

fun dec_elems :: "'a \<Rightarrow> 'a decoder \<Rightarrow> json list \<Rightarrow> 'a list \<Rightarrow> 'a list \<times> bool" where
  "dec_elems zero d [] old = ([], True)"
| "dec_elems zero d (v # vs) old =
     (case d v (case old of [] \<Rightarrow> zero | x # _ \<Rightarrow> x) of (x, ok) \<Rightarrow>
        case dec_elems zero d vs (tl old) of (xs, oks) \<Rightarrow> (x # xs, ok \<and> oks))"

definition dec_list :: "'a \<Rightarrow> 'a decoder \<Rightarrow> 'a list decoder" where
  "dec_list zero d v old =
     (case v of JArr vs \<Rightarrow> dec_elems zero d vs old | JNull \<Rightarrow> ([], True) | _ \<Rightarrow> (old, False))"

text \<open>A map keeps the keys it has; the value of a key is decoded from the zero value.\<close>

fun dec_entries :: "'a \<Rightarrow> 'a decoder \<Rightarrow> (string \<times> json) list \<Rightarrow> (string, 'a) fmap \<Rightarrow> (string, 'a) fmap \<times> bool" where
  "dec_entries zero d [] m = (m, True)"
| "dec_entries zero d ((k, v) # kvs) m =
     (case d v zero of (x, ok) \<Rightarrow>
        case dec_entries zero d kvs (fmupd k x m) of (m', oks) \<Rightarrow> (m', ok \<and> oks))"

definition dec_map :: "'a \<Rightarrow> 'a decoder \<Rightarrow> (string, 'a) fmap decoder" where
  "dec_map zero d v old =
     (case v of JObj kvs \<Rightarrow> dec_entries zero d kvs old | JNull \<Rightarrow> (fmempty, True) | _ \<Rightarrow> (old, False))"

text \<open>
  The keys of a struct are matched exactly, or else up to case folding, under which the long s and the
  Kelvin sign are letters of the alphabet.
\<close>

definition fold_char :: "char \<Rightarrow> char" where
  "fold_char c = (if CHR ''A'' \<le> c \<and> c \<le> CHR ''Z'' then char_of (of_char c + 32 :: nat) else c)"

function (sequential) fold_name :: "string \<Rightarrow> string" where
  "fold_name [] = []"
| "fold_name (c # cs) =
     (if c = CHR 0xC5 \<and> take 1 cs = [CHR 0xBF] then CHR ''s'' # fold_name (drop 1 cs)
      else if c = CHR 0xE2 \<and> take 2 cs = [CHR 0x84, CHR 0xAA] then CHR ''k'' # fold_name (drop 2 cs)
      else fold_char c # fold_name cs)"
  by pat_completeness auto
termination
  by (relation "measure length") auto

type_synonym 'r field = "string \<times> 'r decoder \<times> ('r \<Rightarrow> json)"

definition fld :: "string \<Rightarrow> 'f decoder \<Rightarrow> ('f \<Rightarrow> json) \<Rightarrow> ('r \<Rightarrow> 'f) \<Rightarrow> (('f \<Rightarrow> 'f) \<Rightarrow> 'r \<Rightarrow> 'r) \<Rightarrow> 'r field" where
  "fld name d e sel upd = (name, (\<lambda>v r. case d v (sel r) of (x, ok) \<Rightarrow> (upd (\<lambda>_. x) r, ok)), \<lambda>r. e (sel r))"

definition field_for :: "'r field list \<Rightarrow> string \<Rightarrow> 'r decoder option" where
  "field_for fs k =
     (case List.find (\<lambda>(n, _). n = k) fs of
        Some (_, d, _) \<Rightarrow> Some d
      | None \<Rightarrow> map_option (\<lambda>(_, d, _). d) (List.find (\<lambda>(n, _). fold_name n = fold_name k) fs))"

fun dec_fields :: "'r field list \<Rightarrow> (string \<times> json) list \<Rightarrow> 'r \<Rightarrow> 'r \<times> bool" where
  "dec_fields fs [] r = (r, True)"
| "dec_fields fs ((k, v) # kvs) r =
     (case field_for fs k of
        None \<Rightarrow> dec_fields fs kvs r
      | Some d \<Rightarrow> case d v r of (r', ok) \<Rightarrow> case dec_fields fs kvs r' of (r'', oks) \<Rightarrow> (r'', ok \<and> oks))"

definition dec_struct :: "'r field list \<Rightarrow> 'r decoder" where
  "dec_struct fs v r = (case v of JObj kvs \<Rightarrow> dec_fields fs kvs r | JNull \<Rightarrow> (r, True) | _ \<Rightarrow> (r, False))"

section \<open>Encoding\<close>

text \<open>A nil slice or map is the empty one; both read back as the empty one. The keys of a map are printed in order.\<close>

definition enc_ptr :: "('a \<Rightarrow> json) \<Rightarrow> 'a option \<Rightarrow> json" where
  "enc_ptr e x = (case x of None \<Rightarrow> JNull | Some y \<Rightarrow> e y)"

definition enc_list :: "('a \<Rightarrow> json) \<Rightarrow> 'a list \<Rightarrow> json" where
  "enc_list e xs = JArr (map e xs)"

definition enc_map :: "('a \<Rightarrow> json) \<Rightarrow> (string, 'a) fmap \<Rightarrow> json" where
  "enc_map e m = JObj (map (\<lambda>(k, x). (k, e x)) (sorted_list_of_fmap m))"

definition enc_int :: "int \<Rightarrow> json" where
  "enc_int i = JNum (FormatInt i)"

definition enc_struct :: "'r field list \<Rightarrow> 'r \<Rightarrow> json" where
  "enc_struct fs r = JObj (map (\<lambda>(n, _, e). (n, e r)) fs)"

section \<open>Invalid text\<close>

text \<open>
  A string of Go is any sequence of bytes. \<^verbatim>\<open>utf8.DecodeRune\<close> gives the length of the UTF-8
  sequence that a text starts with, here 0 where there is none (overlong forms, surrogates and values
  above the last code point included), and \<^verbatim>\<open>json.Marshal\<close> prints the replacement character
  for such a byte.
\<close>

definition byte_in :: "nat \<Rightarrow> nat \<Rightarrow> string \<Rightarrow> nat \<Rightarrow> bool" where
  "byte_in lo hi s i \<longleftrightarrow> i < length s \<and> lo \<le> of_char (s ! i) \<and> of_char (s ! i) \<le> hi"

definition rune_len :: "string \<Rightarrow> nat" where
  "rune_len s =
     (if byte_in 0 0x7F s 0 then 1
      else if byte_in 0xC2 0xDF s 0 \<and> byte_in 0x80 0xBF s 1 then 2
      else if (byte_in 0xE0 0xE0 s 0 \<and> byte_in 0xA0 0xBF s 1 \<or> byte_in 0xE1 0xEC s 0 \<and> byte_in 0x80 0xBF s 1
          \<or> byte_in 0xED 0xED s 0 \<and> byte_in 0x80 0x9F s 1 \<or> byte_in 0xEE 0xEF s 0 \<and> byte_in 0x80 0xBF s 1) \<and> byte_in 0x80 0xBF s 2 then 3
      else if (byte_in 0xF0 0xF0 s 0 \<and> byte_in 0x90 0xBF s 1 \<or> byte_in 0xF1 0xF3 s 0 \<and> byte_in 0x80 0xBF s 1
          \<or> byte_in 0xF4 0xF4 s 0 \<and> byte_in 0x80 0x8F s 1) \<and> byte_in 0x80 0xBF s 2 \<and> byte_in 0x80 0xBF s 3 then 4
      else 0)"

function valid_utf8 :: "string \<Rightarrow> bool" where
  "valid_utf8 s = (if s = [] then True else if rune_len s = 0 then False else valid_utf8 (drop (rune_len s) s))"
  by auto
termination
  by (relation "measure length") auto

function to_utf8 :: "string \<Rightarrow> string" where
  "to_utf8 s = (if s = [] then [] else if rune_len s = 0 then [CHR 0xEF, CHR 0xBF, CHR 0xBD] @ to_utf8 (drop 1 s)
     else take (rune_len s) s @ to_utf8 (drop (rune_len s) s))"
  by auto
termination
  by (relation "measure length") auto

declare valid_utf8.simps [simp del] to_utf8.simps [simp del]

lemma to_utf8_valid: "valid_utf8 s \<Longrightarrow> to_utf8 s = s"
proof (induction s rule: valid_utf8.induct)
  case (1 s)
  show ?case
  proof (cases "s = []")
    case False
    with "1.prems" have "rune_len s \<noteq> 0" "valid_utf8 (drop (rune_len s) s)" by (auto simp: valid_utf8.simps [of s] split: if_splits)
    with False "1.IH" show ?thesis by (simp add: to_utf8.simps [of s])
  qed (simp add: to_utf8.simps [of "[]"])
qed

lemma valid_ascii: "\<forall>c \<in> set s. of_char c < (0x80 :: nat) \<Longrightarrow> valid_utf8 s"
proof (induction s)
  case (Cons c s)
  then have "rune_len (c # s) = 1" by (simp add: rune_len_def byte_in_def)
  with Cons show ?case by (simp add: valid_utf8.simps [of "c # s"])
qed (simp add: valid_utf8.simps [of "[]"])

fun coerce :: "json \<Rightarrow> json" where
  "coerce (JStr s) = JStr (to_utf8 s)"
| "coerce (JArr vs) = JArr (map coerce vs)"
| "coerce (JObj kvs) = JObj (map (\<lambda>(k, v). (to_utf8 k, coerce v)) kvs)"
| "coerce v = v"

text \<open>The texts of a value, the keys of its objects included.\<close>

fun texts :: "json \<Rightarrow> string list" where
  "texts (JStr s) = [s]"
| "texts (JArr vs) = concat (map texts vs)"
| "texts (JObj kvs) = concat (map (\<lambda>(k, v). k # texts v) kvs)"
| "texts v = []"

lemma coerce_valid: "\<forall>s \<in> set (texts v). valid_utf8 s \<Longrightarrow> coerce v = v"
proof (induction v)
  case (JArr vs)
  then show ?case by (auto intro!: map_idI)
next
  case (JObj kvs)
  have "(to_utf8 k, coerce v) = (k, v)" if "(k, v) \<in> set kvs" for k v
    using JObj.prems JObj.IH [of "(k, v)" v] that to_utf8_valid [of k] by (fastforce simp: snds.intros)
  then show ?case by (auto intro!: map_idI)
qed (simp_all add: to_utf8_valid)

section \<open>Round trips\<close>

text \<open>A value reads back whatever the target held.\<close>

definition reads :: "'a decoder \<Rightarrow> ('a \<Rightarrow> json) \<Rightarrow> 'a \<Rightarrow> bool" where
  "reads d e x \<longleftrightarrow> (\<forall>old. d (e x) old = (x, True))"

named_theorems json_reads \<open>values that read back\<close>

lemma reads_string [json_reads]: "reads dec_string JStr s"
  by (simp add: reads_def)

lemma reads_bool [json_reads]: "reads dec_bool JBool b"
  by (simp add: reads_def)

lemma reads_int [json_reads]: "int64_range i \<Longrightarrow> reads dec_int enc_int i"
  by (simp add: reads_def enc_int_def ParseInt_FormatInt)

lemma reads_ptr [json_reads]:
  "(\<And>y. x = Some y \<Longrightarrow> reads d e y \<and> e y \<noteq> JNull) \<Longrightarrow> reads (dec_ptr zero d) (enc_ptr e) x"
  by (cases x) (simp_all add: reads_def dec_ptr_def enc_ptr_def)

lemma dec_elems_enc: "(\<And>x. x \<in> set xs \<Longrightarrow> reads d e x) \<Longrightarrow> dec_elems zero d (map e xs) old = (xs, True)"
  by (induction xs arbitrary: old) (simp_all add: reads_def)

lemma reads_list [json_reads]: "(\<And>x. x \<in> set xs \<Longrightarrow> reads d e x) \<Longrightarrow> reads (dec_list zero d) (enc_list e) xs"
  unfolding reads_def [of "dec_list zero d"] by (simp add: dec_list_def enc_list_def dec_elems_enc)

text \<open>A map reads back into an empty one.\<close>

lemma dec_entries_enc:
  assumes "\<And>x. x \<in> snd ` set kxs \<Longrightarrow> reads d e x"
  shows "dec_entries zero d (map (\<lambda>(k, x). (k, e x)) kxs) m = (fold (\<lambda>(k, x). fmupd k x) kxs m, True)"
  using assms by (induction kxs arbitrary: m) (auto simp: reads_def)

lemma fmlookup_fold_upd:
  "distinct (map fst kxs) \<Longrightarrow> fmlookup (fold (\<lambda>(k, x). fmupd k x) kxs m) k = (case map_of kxs k of Some x \<Rightarrow> Some x | None \<Rightarrow> fmlookup m k)"
  by (induction kxs arbitrary: m) (auto split: option.split dest: map_of_SomeD simp: image_iff rev_image_eqI)

lemma dec_map_enc:
  assumes "\<And>x. x |\<in>| fmran m \<Longrightarrow> reads d e x"
  shows "dec_map zero d (enc_map e m) fmempty = (m, True)"
proof -
  let ?kxs = "sorted_list_of_fmap m"
  have "x \<in> snd ` set ?kxs \<Longrightarrow> reads d e x" for x
    using assms fmranI [of m] by (fastforce simp: sorted_list_of_fmap_def fmlookup_dom_iff)
  moreover have "fold (\<lambda>(k, x). fmupd k x) ?kxs fmempty = m"
  proof (rule fmap_ext)
    fix k
    have "distinct (map fst ?kxs)" by (simp add: sorted_list_of_fmap_def comp_def sorted_list_of_fset.rep_eq)
    moreover have "map_of ?kxs k = fmlookup m k"
      by simp
    ultimately show "fmlookup (fold (\<lambda>(k, x). fmupd k x) ?kxs fmempty) k = fmlookup m k"
      by (simp add: fmlookup_fold_upd split: option.split)
  qed
  ultimately show ?thesis using dec_entries_enc [of ?kxs d e zero fmempty] by (simp add: dec_map_def enc_map_def)
qed

lemma field_for_named: "distinct (map fst fs) \<Longrightarrow> (n, d, e) \<in> set fs \<Longrightarrow> field_for fs n = Some d"
proof -
  assume "distinct (map fst fs)" and "(n, d, e) \<in> set fs"
  then have "List.find (\<lambda>(n', _). n' = n) fs = Some (n, d, e)"
    by (induction fs) (auto simp: image_iff)
  then show ?thesis by (simp add: field_for_def)
qed

lemma dec_fields_enc:
  assumes "distinct (map fst fs)" and "set gs \<subseteq> set fs" and "\<And>n d e z. (n, d, e) \<in> set gs \<Longrightarrow> snd (d (e r) z)"
  shows "dec_fields fs (map (\<lambda>(n, _, e). (n, e r)) gs) z = (fold (\<lambda>(_, d, e) z. fst (d (e r) z)) gs z, True)"
  using assms(2,3)
proof (induction gs arbitrary: z)
  case (Cons g gs)
  obtain n d e where g: "g = (n, d, e)" by (cases g)
  have "field_for fs n = Some d" using assms(1) Cons.prems(1) g by (auto intro: field_for_named)
  moreover have "snd (d (e r) z)" using Cons.prems(2) g by auto
  moreover have "dec_fields fs (map (\<lambda>(n, _, e). (n, e r)) gs) z' = (fold (\<lambda>(_, d, e) z. fst (d (e r) z)) gs z', True)" for z'
    by (rule Cons.IH) (use Cons.prems in auto)
  ultimately show ?case by (cases "d (e r) z") (simp add: g)
qed simp

text \<open>A struct reads back when its fields do.\<close>

lemma dec_struct_enc:
  assumes "distinct (map fst fs)" and "\<And>n d e z. (n, d, e) \<in> set fs \<Longrightarrow> snd (d (e r) z)"
  shows "dec_struct fs (enc_struct fs r) z = (fold (\<lambda>(_, d, e) z. fst (d (e r) z)) fs z, True)"
  using dec_fields_enc [OF assms(1), of fs r z] assms(2) by (simp add: dec_struct_def enc_struct_def)

lemma fld_fst [simp]: "fst (fld n d e sel upd) = n"
  by (simp add: fld_def)

lemma fld_ok: "reads d e (sel r) \<Longrightarrow> snd (fst (snd (fld n d e sel upd)) (snd (snd (fld n d e sel upd)) r) z)"
  by (simp add: fld_def reads_def)

lemma fld_copy:
  "reads d e (sel r) \<Longrightarrow> (case fld n d e sel upd of (_, d', e') \<Rightarrow> \<lambda>z. fst (d' (e' r) z)) = upd (\<lambda>_. sel r)"
  by (auto simp: fld_def reads_def fun_eq_iff)

lemma enc_struct_not_null [simp]: "enc_struct fs r \<noteq> JNull"
  by (simp add: enc_struct_def)

lemma readsD: "reads d e x \<Longrightarrow> d (e x) old = (x, True)"
  by (simp add: reads_def)

lemma reads_structI:
  assumes "distinct (map fst fs)" and "\<And>n d e z. (n, d, e) \<in> set fs \<Longrightarrow> snd (d (e r) z)"
    and "\<And>z. fold (\<lambda>(_, d, e) z. fst (d (e r) z)) fs z = r"
  shows "reads (dec_struct fs) (enc_struct fs) r"
  unfolding reads_def using dec_struct_enc [OF assms(1), of r] assms(2,3) by simp

lemma reads_string_list: "dec_list '''' dec_string (enc_list JStr xs) old = (xs, True)"
  by (rule readsD) (intro json_reads)

lemma reads_string_ptr: "dec_ptr '''' dec_string (enc_ptr JStr x) old = (x, True)"
  by (rule readsD) (simp add: json_reads)

lemmas reads_basic = reads_string_list reads_string_ptr readsD [OF reads_int]

end
