(* ===== verification/VerticalJson.thy ===== *)
theory VerticalJson
  imports Vertical Json
begin

text \<open>
  How \<^verbatim>\<open>encoding/json\<close> reads and prints the configuration: for every struct of
  \<^verbatim>\<open>pkg/vertical/types.go\<close> its zero value and its fields with the names of their tags, from
  which the decoder and the encoder follow. A configuration that is printed reads back unchanged.
\<close>

section \<open>The fields and their names\<close>

text \<open>
  The package \<^verbatim>\<open>shopspring/decimal\<close>, which prints a decimal as a JSON string and reads
  strings and numbers, and the printing of the \<^verbatim>\<open>float64\<close> that a number literal is read as,
  none when it is out of range.
\<close>

record codec =
  decimal_String :: "decimal \<Rightarrow> string"
  decimal_NewFromString :: "string \<Rightarrow> decimal option"
  float64_text :: "string \<Rightarrow> string option"

definition dec_decimal :: "codec \<Rightarrow> decimal decoder" where
  "dec_decimal cd v old =
     (case v of
        JNull \<Rightarrow> (old, True)
      | JStr s \<Rightarrow> (case decimal_NewFromString cd s of Some d \<Rightarrow> (d, True) | None \<Rightarrow> (old, False))
      | JNum l \<Rightarrow> (case decimal_NewFromString cd l of Some d \<Rightarrow> (d, True) | None \<Rightarrow> (old, False))
      | _ \<Rightarrow> (old, False))"

definition enc_decimal :: "codec \<Rightarrow> decimal \<Rightarrow> json" where
  "enc_decimal cd d = JStr (decimal_String cd d)"

definition zero_EntityLabels :: EntityLabels where
  "zero_EntityLabels = \<lparr>el_Project = '''', el_ProjectPlural = '''', el_Phase = '''', el_PhasePlural = '''', el_TeamMember = '''', el_TeamMemberPlural = '''', el_RateLabel = '''', el_RateUnit = ''''\<rparr>"

definition EntityLabels_fields :: "EntityLabels field list" where
  "EntityLabels_fields =
    [fld ''project'' dec_string JStr el_Project el_Project_update,
     fld ''project_plural'' dec_string JStr el_ProjectPlural el_ProjectPlural_update,
     fld ''phase'' dec_string JStr el_Phase el_Phase_update,
     fld ''phase_plural'' dec_string JStr el_PhasePlural el_PhasePlural_update,
     fld ''team_member'' dec_string JStr el_TeamMember el_TeamMember_update,
     fld ''team_member_plural'' dec_string JStr el_TeamMemberPlural el_TeamMemberPlural_update,
     fld ''rate_label'' dec_string JStr el_RateLabel el_RateLabel_update,
     fld ''rate_unit'' dec_string JStr el_RateUnit el_RateUnit_update]"

definition zero_PhaseType :: PhaseType where
  "zero_PhaseType = \<lparr>ph_ID = '''', ph_Label = '''', ph_Order = 0, ph_IsBillable = False, ph_AllowedTransitions = []\<rparr>"

definition PhaseType_fields :: "PhaseType field list" where
  "PhaseType_fields =
    [fld ''id'' dec_string JStr ph_ID ph_ID_update,
     fld ''label'' dec_string JStr ph_Label ph_Label_update,
     fld ''order'' dec_int enc_int ph_Order ph_Order_update,
     fld ''is_billable'' dec_bool JBool ph_IsBillable ph_IsBillable_update,
     fld ''allowed_transitions'' (dec_list '''' dec_string) (enc_list JStr) ph_AllowedTransitions ph_AllowedTransitions_update]"

definition zero_BudgetCategory :: BudgetCategory where
  "zero_BudgetCategory = \<lparr>bc_ID = '''', bc_Label = '''', bc_Description = '''', bc_DefaultAccountCode = ''''\<rparr>"

definition BudgetCategory_fields :: "BudgetCategory field list" where
  "BudgetCategory_fields =
    [fld ''id'' dec_string JStr bc_ID bc_ID_update,
     fld ''label'' dec_string JStr bc_Label bc_Label_update,
     fld ''description'' dec_string JStr bc_Description bc_Description_update,
     fld ''default_account_code'' dec_string JStr bc_DefaultAccountCode bc_DefaultAccountCode_update]"

definition zero_TemplateLineItem :: TemplateLineItem where
  "zero_TemplateLineItem = \<lparr>tl_CategoryID = '''', tl_Description = '''', tl_AccountCode = '''', tl_DefaultAmount = 0, tl_IsRequired = False\<rparr>"

definition TemplateLineItem_fields :: "codec \<Rightarrow> TemplateLineItem field list" where
  "TemplateLineItem_fields cd =
    [fld ''category_id'' dec_string JStr tl_CategoryID tl_CategoryID_update,
     fld ''description'' dec_string JStr tl_Description tl_Description_update,
     fld ''account_code'' dec_string JStr tl_AccountCode tl_AccountCode_update,
     fld ''default_amount'' (dec_decimal cd) (enc_decimal cd) tl_DefaultAmount tl_DefaultAmount_update,
     fld ''is_required'' dec_bool JBool tl_IsRequired tl_IsRequired_update]"

definition zero_BudgetTemplate :: BudgetTemplate where
  "zero_BudgetTemplate = \<lparr>bt_Name = '''', bt_Description = '''', bt_LineItems = []\<rparr>"

definition BudgetTemplate_fields :: "codec \<Rightarrow> BudgetTemplate field list" where
  "BudgetTemplate_fields cd =
    [fld ''name'' dec_string JStr bt_Name bt_Name_update,
     fld ''description'' dec_string JStr bt_Description bt_Description_update,
     fld ''line_items'' (dec_list zero_TemplateLineItem (dec_struct (TemplateLineItem_fields cd))) (enc_list (enc_struct (TemplateLineItem_fields cd))) bt_LineItems bt_LineItems_update]"

definition zero_ExpenseCategory :: ExpenseCategory where
  "zero_ExpenseCategory = \<lparr>ec_ID = '''', ec_Label = '''', ec_TaxTreatment = '''', ec_DefaultAccountCode = '''', ec_RequiresPO = False\<rparr>"

definition ExpenseCategory_fields :: "ExpenseCategory field list" where
  "ExpenseCategory_fields =
    [fld ''id'' dec_string JStr ec_ID ec_ID_update,
     fld ''label'' dec_string JStr ec_Label ec_Label_update,
     fld ''tax_treatment'' dec_string JStr ec_TaxTreatment ec_TaxTreatment_update,
     fld ''default_account_code'' dec_string JStr ec_DefaultAccountCode ec_DefaultAccountCode_update,
     fld ''requires_po'' dec_bool JBool ec_RequiresPO ec_RequiresPO_update]"

definition zero_ApprovalLimit :: ApprovalLimit where
  "zero_ApprovalLimit = \<lparr>al_Role = '''', al_MaxAmount = 0\<rparr>"

definition ApprovalLimit_fields :: "codec \<Rightarrow> ApprovalLimit field list" where
  "ApprovalLimit_fields cd =
    [fld ''role'' dec_string JStr al_Role al_Role_update,
     fld ''max_amount'' (dec_decimal cd) (enc_decimal cd) al_MaxAmount al_MaxAmount_update]"

definition zero_ApprovalWorkflow :: ApprovalWorkflow where
  "zero_ApprovalWorkflow = \<lparr>aw_Limits = [], aw_DualApprovalAbove = 0\<rparr>"

definition ApprovalWorkflow_fields :: "codec \<Rightarrow> ApprovalWorkflow field list" where
  "ApprovalWorkflow_fields cd =
    [fld ''limits'' (dec_list zero_ApprovalLimit (dec_struct (ApprovalLimit_fields cd))) (enc_list (enc_struct (ApprovalLimit_fields cd))) aw_Limits aw_Limits_update,
     fld ''dual_approval_above'' (dec_decimal cd) (enc_decimal cd) aw_DualApprovalAbove aw_DualApprovalAbove_update]"

definition zero_InventoryCategory :: InventoryCategory where
  "zero_InventoryCategory = \<lparr>ic_ID = '''', ic_Label = '''', ic_IsTrackable = False, ic_DepreciationYears = None\<rparr>"

definition InventoryCategory_fields :: "InventoryCategory field list" where
  "InventoryCategory_fields =
    [fld ''id'' dec_string JStr ic_ID ic_ID_update,
     fld ''label'' dec_string JStr ic_Label ic_Label_update,
     fld ''is_trackable'' dec_bool JBool ic_IsTrackable ic_IsTrackable_update,
     fld ''depreciation_years'' (dec_ptr 0 dec_int) (enc_ptr enc_int) ic_DepreciationYears ic_DepreciationYears_update]"

definition zero_ReportDefinition :: ReportDefinition where
  "zero_ReportDefinition = \<lparr>rd_ID = '''', rd_Name = '''', rd_Description = '''', rd_DataSources = [], rd_DefaultColumns = []\<rparr>"

definition ReportDefinition_fields :: "ReportDefinition field list" where
  "ReportDefinition_fields =
    [fld ''id'' dec_string JStr rd_ID rd_ID_update,
     fld ''name'' dec_string JStr rd_Name rd_Name_update,
     fld ''description'' dec_string JStr rd_Description rd_Description_update,
     fld ''data_sources'' (dec_list '''' dec_string) (enc_list JStr) rd_DataSources rd_DataSources_update,
     fld ''default_columns'' (dec_list '''' dec_string) (enc_list JStr) rd_DefaultColumns rd_DefaultColumns_update]"

definition zero_CustomField :: CustomField where
  "zero_CustomField = \<lparr>cf_Key = '''', cf_Label = '''', cf_Type = '''', cf_Options = [], cf_Required = False\<rparr>"

definition CustomField_fields :: "CustomField field list" where
  "CustomField_fields =
    [fld ''key'' dec_string JStr cf_Key cf_Key_update,
     fld ''label'' dec_string JStr cf_Label cf_Label_update,
     fld ''type'' dec_string JStr cf_Type cf_Type_update,
     fld ''options'' (dec_list '''' dec_string) (enc_list JStr) cf_Options cf_Options_update,
     fld ''required'' dec_bool JBool cf_Required cf_Required_update]"

definition zero_CustomFields :: CustomFields where
  "zero_CustomFields = \<lparr>cf_Project = [], cf_Expense = []\<rparr>"

definition CustomFields_fields :: "CustomFields field list" where
  "CustomFields_fields =
    [fld ''project'' (dec_list zero_CustomField (dec_struct CustomField_fields)) (enc_list (enc_struct CustomField_fields)) cf_Project cf_Project_update,
     fld ''expense'' (dec_list zero_CustomField (dec_struct CustomField_fields)) (enc_list (enc_struct CustomField_fields)) cf_Expense cf_Expense_update]"

definition zero_ChartOfAccountEntry :: ChartOfAccountEntry where
  "zero_ChartOfAccountEntry = \<lparr>coa_Code = '''', coa_Name = '''', coa_AccountType = '''', coa_ParentCode = None\<rparr>"

definition ChartOfAccountEntry_fields :: "ChartOfAccountEntry field list" where
  "ChartOfAccountEntry_fields =
    [fld ''code'' dec_string JStr coa_Code coa_Code_update,
     fld ''name'' dec_string JStr coa_Name coa_Name_update,
     fld ''account_type'' dec_string JStr coa_AccountType coa_AccountType_update,
     fld ''parent_code'' (dec_ptr '''' dec_string) (enc_ptr JStr) coa_ParentCode coa_ParentCode_update]"

definition zero_Config :: Config where
  "zero_Config = \<lparr>vc_ID = '''', vc_Name = '''', vc_Version = '''', vc_Description = '''', vc_EntityLabels = zero_EntityLabels, vc_PhaseTypes = [], vc_BudgetCategories = [], vc_BudgetTemplates = [], vc_ExpenseCategories = [], vc_ApprovalWorkflow = zero_ApprovalWorkflow, vc_InventoryCategories = [], vc_ReportDefinitions = [], vc_CustomFields = zero_CustomFields, vc_DefaultChartOfAccounts = [], vc_RoleLabels = fmempty\<rparr>"

definition Config_fields :: "codec \<Rightarrow> Config field list" where
  "Config_fields cd =
    [fld ''id'' dec_string JStr vc_ID vc_ID_update,
     fld ''name'' dec_string JStr vc_Name vc_Name_update,
     fld ''version'' dec_string JStr vc_Version vc_Version_update,
     fld ''description'' dec_string JStr vc_Description vc_Description_update,
     fld ''entity_labels'' (dec_struct EntityLabels_fields) (enc_struct EntityLabels_fields) vc_EntityLabels vc_EntityLabels_update,
     fld ''phase_types'' (dec_list zero_PhaseType (dec_struct PhaseType_fields)) (enc_list (enc_struct PhaseType_fields)) vc_PhaseTypes vc_PhaseTypes_update,
     fld ''budget_categories'' (dec_list zero_BudgetCategory (dec_struct BudgetCategory_fields)) (enc_list (enc_struct BudgetCategory_fields)) vc_BudgetCategories vc_BudgetCategories_update,
     fld ''budget_templates'' (dec_list zero_BudgetTemplate (dec_struct (BudgetTemplate_fields cd))) (enc_list (enc_struct (BudgetTemplate_fields cd))) vc_BudgetTemplates vc_BudgetTemplates_update,
     fld ''expense_categories'' (dec_list zero_ExpenseCategory (dec_struct ExpenseCategory_fields)) (enc_list (enc_struct ExpenseCategory_fields)) vc_ExpenseCategories vc_ExpenseCategories_update,
     fld ''approval_workflow'' (dec_struct (ApprovalWorkflow_fields cd)) (enc_struct (ApprovalWorkflow_fields cd)) vc_ApprovalWorkflow vc_ApprovalWorkflow_update,
     fld ''inventory_categories'' (dec_list zero_InventoryCategory (dec_struct InventoryCategory_fields)) (enc_list (enc_struct InventoryCategory_fields)) vc_InventoryCategories vc_InventoryCategories_update,
     fld ''report_definitions'' (dec_list zero_ReportDefinition (dec_struct ReportDefinition_fields)) (enc_list (enc_struct ReportDefinition_fields)) vc_ReportDefinitions vc_ReportDefinitions_update,
     fld ''custom_fields'' (dec_struct CustomFields_fields) (enc_struct CustomFields_fields) vc_CustomFields vc_CustomFields_update,
     fld ''default_chart_of_accounts'' (dec_list zero_ChartOfAccountEntry (dec_struct ChartOfAccountEntry_fields)) (enc_list (enc_struct ChartOfAccountEntry_fields)) vc_DefaultChartOfAccounts vc_DefaultChartOfAccounts_update,
     fld ''role_labels'' (dec_map '''' dec_string) (enc_map JStr) vc_RoleLabels vc_RoleLabels_update]"

text \<open>\<^verbatim>\<open>json.Unmarshal\<close> into a new configuration, and \<^verbatim>\<open>json.Marshal\<close> of one.\<close>

definition Unmarshal_Config :: "codec \<Rightarrow> json \<Rightarrow> Config option" where
  "Unmarshal_Config cd v = (case dec_struct (Config_fields cd) v zero_Config of (c, ok) \<Rightarrow> if ok then Some c else None)"

definition Marshal_Config :: "codec \<Rightarrow> Config \<Rightarrow> json" where
  "Marshal_Config cd c = coerce (enc_struct (Config_fields cd) c)"

section \<open>What is printed reads back\<close>

text \<open>
  The texts of a configuration are valid UTF-8, its integers fit 64 bits and the package reads the
  decimals it prints.
\<close>

definition decimal_reads :: "codec \<Rightarrow> decimal \<Rightarrow> bool" where
  "decimal_reads cd d \<longleftrightarrow> decimal_NewFromString cd (decimal_String cd d) = Some d"

definition printable :: "codec \<Rightarrow> Config \<Rightarrow> bool" where
  "printable cd c \<longleftrightarrow>
     list_all valid_utf8 (texts (enc_struct (Config_fields cd) c))
     \<and> list_all (\<lambda>p. int64_range (ph_Order p)) (vc_PhaseTypes c)
     \<and> list_all (\<lambda>i. case ic_DepreciationYears i of None \<Rightarrow> True | Some y \<Rightarrow> int64_range y) (vc_InventoryCategories c)
     \<and> list_all (\<lambda>t. list_all (\<lambda>l. decimal_reads cd (tl_DefaultAmount l)) (bt_LineItems t)) (vc_BudgetTemplates c)
     \<and> list_all (\<lambda>l. decimal_reads cd (al_MaxAmount l)) (aw_Limits (vc_ApprovalWorkflow c))
     \<and> decimal_reads cd (aw_DualApprovalAbove (vc_ApprovalWorkflow c))"

lemma reads_decimal [json_reads]: "decimal_reads cd d \<Longrightarrow> reads (dec_decimal cd) (enc_decimal cd) d"
  by (simp add: reads_def dec_decimal_def enc_decimal_def decimal_reads_def)

lemmas reads_scalars = reads_basic readsD [OF reads_decimal]

lemma reads_EntityLabels: "reads (dec_struct EntityLabels_fields) (enc_struct EntityLabels_fields) r"
  by (rule reads_structI) (auto simp: EntityLabels_fields_def fld_def)

lemma reads_PhaseType: "int64_range (ph_Order r) \<Longrightarrow> reads (dec_struct PhaseType_fields) (enc_struct PhaseType_fields) r"
  by (rule reads_structI) (auto simp: PhaseType_fields_def fld_def reads_scalars)

lemma reads_BudgetCategory: "reads (dec_struct BudgetCategory_fields) (enc_struct BudgetCategory_fields) r"
  by (rule reads_structI) (auto simp: BudgetCategory_fields_def fld_def)

lemma reads_TemplateLineItem:
  "decimal_reads cd (tl_DefaultAmount r) \<Longrightarrow> reads (dec_struct (TemplateLineItem_fields cd)) (enc_struct (TemplateLineItem_fields cd)) r"
  by (rule reads_structI) (auto simp: TemplateLineItem_fields_def fld_def reads_scalars)

lemma reads_structs:
  "(\<And>x. x \<in> set xs \<Longrightarrow> reads (dec_struct fs) (enc_struct fs) x)
     \<Longrightarrow> dec_list zero (dec_struct fs) (enc_list (enc_struct fs) xs) old = (xs, True)"
  by (rule readsD) (rule reads_list)

lemma reads_BudgetTemplate:
  "list_all (\<lambda>l. decimal_reads cd (tl_DefaultAmount l)) (bt_LineItems r) \<Longrightarrow> reads (dec_struct (BudgetTemplate_fields cd)) (enc_struct (BudgetTemplate_fields cd)) r"
  by (rule reads_structI) (auto simp: BudgetTemplate_fields_def fld_def list_all_iff reads_structs reads_TemplateLineItem)

lemma reads_ExpenseCategory: "reads (dec_struct ExpenseCategory_fields) (enc_struct ExpenseCategory_fields) r"
  by (rule reads_structI) (auto simp: ExpenseCategory_fields_def fld_def)

lemma reads_ApprovalLimit:
  "decimal_reads cd (al_MaxAmount r) \<Longrightarrow> reads (dec_struct (ApprovalLimit_fields cd)) (enc_struct (ApprovalLimit_fields cd)) r"
  by (rule reads_structI) (auto simp: ApprovalLimit_fields_def fld_def reads_scalars)

lemma reads_ApprovalWorkflow:
  "list_all (\<lambda>l. decimal_reads cd (al_MaxAmount l)) (aw_Limits r) \<Longrightarrow> decimal_reads cd (aw_DualApprovalAbove r)
     \<Longrightarrow> reads (dec_struct (ApprovalWorkflow_fields cd)) (enc_struct (ApprovalWorkflow_fields cd)) r"
  by (rule reads_structI) (auto simp: ApprovalWorkflow_fields_def fld_def list_all_iff reads_structs reads_ApprovalLimit reads_scalars)

lemma reads_InventoryCategory:
  assumes "case ic_DepreciationYears r of None \<Rightarrow> True | Some y \<Rightarrow> int64_range y"
  shows "reads (dec_struct InventoryCategory_fields) (enc_struct InventoryCategory_fields) r"
proof -
  have "reads (dec_ptr 0 dec_int) (enc_ptr enc_int) (ic_DepreciationYears r)"
    using assms by (intro reads_ptr) (auto simp: reads_int enc_int_def)
  from readsD [OF this] show ?thesis
    by (intro reads_structI) (auto simp: InventoryCategory_fields_def fld_def)
qed

lemma reads_ReportDefinition: "reads (dec_struct ReportDefinition_fields) (enc_struct ReportDefinition_fields) r"
  by (rule reads_structI) (auto simp: ReportDefinition_fields_def fld_def reads_scalars)

lemma reads_CustomField: "reads (dec_struct CustomField_fields) (enc_struct CustomField_fields) r"
  by (rule reads_structI) (auto simp: CustomField_fields_def fld_def reads_scalars)

lemma reads_CustomFields: "reads (dec_struct CustomFields_fields) (enc_struct CustomFields_fields) r"
  by (rule reads_structI) (auto simp: CustomFields_fields_def fld_def reads_structs reads_CustomField)

lemma reads_ChartOfAccountEntry: "reads (dec_struct ChartOfAccountEntry_fields) (enc_struct ChartOfAccountEntry_fields) r"
  by (rule reads_structI) (auto simp: ChartOfAccountEntry_fields_def fld_def reads_scalars)

lemmas reads_parts = reads_EntityLabels reads_PhaseType reads_BudgetCategory reads_BudgetTemplate reads_ExpenseCategory
  reads_ApprovalWorkflow reads_InventoryCategory reads_ReportDefinition reads_CustomFields reads_ChartOfAccountEntry

lemma dec_map_ok: "snd (dec_map '''' dec_string (enc_map JStr m) old)"
proof -
  have "snd (dec_entries '''' dec_string (map (\<lambda>(k, x). (k, JStr x)) kxs) old)" for kxs
    using dec_entries_enc [of kxs dec_string JStr] by (simp add: reads_string)
  then show ?thesis by (simp add: dec_map_def enc_map_def)
qed

lemma Config_roundtrip: "printable cd c \<Longrightarrow> Unmarshal_Config cd (Marshal_Config cd c) = Some c"
proof -
  assume p: "printable cd c"
  note parts = readsD [OF reads_parts(1)] readsD [OF reads_parts(9)] readsD [OF reads_parts(6)] reads_structs reads_parts
  have marshal: "Marshal_Config cd c = enc_struct (Config_fields cd) c"
    unfolding Marshal_Config_def using p by (intro coerce_valid) (simp add: printable_def list_all_iff)
  have "dec_struct (Config_fields cd) (Marshal_Config cd c) zero_Config
    = (fold (\<lambda>(_, d, e) z. fst (d (e c) z)) (Config_fields cd) zero_Config, True)"
    unfolding marshal
  proof (rule dec_struct_enc)
    show "distinct (map fst (Config_fields cd))" by (simp add: Config_fields_def)
    show "(n, d, e) \<in> set (Config_fields cd) \<Longrightarrow> snd (d (e c) z)" for n d e z
      using p by (auto simp: Config_fields_def fld_def parts printable_def list_all_iff dec_map_ok case_prod_beta)
  qed
  also have "fold (\<lambda>(_, d, e) z. fst (d (e c) z)) (Config_fields cd) zero_Config = c"
    using p by (simp add: Config_fields_def fld_def parts printable_def list_all_iff zero_Config_def dec_map_enc reads_string)
  finally show ?thesis by (simp add: Unmarshal_Config_def)
qed

end
