(* ===== verification/VerticalMerge.thy ===== *)
theory VerticalMerge
  imports VerticalJson
begin

text \<open>
  Overrides of the configuration by a tenant (\<^verbatim>\<open>pkg/vertical/merge.go\<close>): the structured
  format that removes, changes and appends the items of a section by their identifiers, and the flat
  merge that replaces whole sections. The order in which Go visits the keys of a map is a parameter. The
  lemmas show that the merge meets a reference that does not depend on that order.
\<close>

section \<open>The override\<close>

text \<open>A text is absent, not JSON, or stands for a value.\<close>

datatype json_text = NoText | BadText | Text json

record OverrideMap =
  om_Override :: "(string, json) fmap"

record ArrayOverride =
  ao_Append :: "json list"
  ao_Override :: "(string, json) fmap"
  ao_Remove :: "string list"

record Override =
  ov_EntityLabels :: "OverrideMap option"
  ov_BudgetCategories :: "ArrayOverride option"
  ov_ExpenseCategories :: "ArrayOverride option"
  ov_InventoryCategories :: "ArrayOverride option"
  ov_PhaseTypes :: "ArrayOverride option"
  ov_ReportDefinitions :: "ArrayOverride option"
  ov_BudgetTemplates :: "ArrayOverride option"
  ov_ApprovalWorkflow :: "OverrideMap option"
  ov_CustomFields :: "OverrideMap option"

text \<open>
  Decoding into \<^verbatim>\<open>interface{}\<close> reads every number as a \<^verbatim>\<open>float64\<close> and every
  object as a map; printed again, the number is that of the \<^verbatim>\<open>float64\<close> and the keys are in order.
\<close>

fun insert_key :: "string \<Rightarrow> 'a \<Rightarrow> (string \<times> 'a) list \<Rightarrow> (string \<times> 'a) list" where
  "insert_key k v [] = [(k, v)]"
| "insert_key k v ((k', v') # kvs) =
     (if k = k' then (k, v) # kvs else if k < k' then (k, v) # (k', v') # kvs else (k', v') # insert_key k v kvs)"

fun generic :: "codec \<Rightarrow> json \<Rightarrow> json option"
  and generics :: "codec \<Rightarrow> json list \<Rightarrow> json list option"
  and generic_entries :: "codec \<Rightarrow> (string \<times> json) list \<Rightarrow> (string \<times> json) list \<Rightarrow> (string \<times> json) list option" where
  "generic cd (JNum l) = map_option JNum (float64_text cd l)"
| "generic cd (JArr vs) = map_option JArr (generics cd vs)"
| "generic cd (JObj kvs) = map_option JObj (generic_entries cd kvs [])"
| "generic cd v = Some v"
| "generics cd [] = Some []"
| "generics cd (v # vs) = (case generic cd v of None \<Rightarrow> None | Some g \<Rightarrow> map_option ((#) g) (generics cd vs))"
| "generic_entries cd [] m = Some m"
| "generic_entries cd ((k, v) # kvs) m =
     (case generic cd v of None \<Rightarrow> None | Some g \<Rightarrow> generic_entries cd kvs (insert_key k g m))"

definition dec_any :: "codec \<Rightarrow> json decoder" where
  "dec_any cd v old = (case generic cd v of Some g \<Rightarrow> (g, True) | None \<Rightarrow> (JNull, False))"

text \<open>\<^verbatim>\<open>json.RawMessage\<close> keeps the text.\<close>

definition dec_raw :: "json decoder" where
  "dec_raw v old = (v, True)"

text \<open>Overrides are only read; what they would print is not needed.\<close>

definition rd :: "string \<Rightarrow> 'f decoder \<Rightarrow> ('r \<Rightarrow> 'f) \<Rightarrow> (('f \<Rightarrow> 'f) \<Rightarrow> 'r \<Rightarrow> 'r) \<Rightarrow> 'r field" where
  "rd name d sel upd = fld name d (\<lambda>_. JNull) sel upd"

definition zero_OverrideMap :: OverrideMap where
  "zero_OverrideMap = \<lparr>om_Override = fmempty\<rparr>"

definition OverrideMap_fields :: "codec \<Rightarrow> OverrideMap field list" where
  "OverrideMap_fields cd = [rd ''override'' (dec_map JNull (dec_any cd)) om_Override om_Override_update]"

definition zero_ArrayOverride :: ArrayOverride where
  "zero_ArrayOverride = \<lparr>ao_Append = [], ao_Override = fmempty, ao_Remove = []\<rparr>"

definition ArrayOverride_fields :: "ArrayOverride field list" where
  "ArrayOverride_fields =
    [rd ''append'' (dec_list JNull dec_raw) ao_Append ao_Append_update,
     rd ''override'' (dec_map JNull dec_raw) ao_Override ao_Override_update,
     rd ''remove'' (dec_list '''' dec_string) ao_Remove ao_Remove_update]"

definition zero_Override :: Override where
  "zero_Override = \<lparr>ov_EntityLabels = None, ov_BudgetCategories = None, ov_ExpenseCategories = None, ov_InventoryCategories = None,
     ov_PhaseTypes = None, ov_ReportDefinitions = None, ov_BudgetTemplates = None, ov_ApprovalWorkflow = None, ov_CustomFields = None\<rparr>"

abbreviation dec_om :: "codec \<Rightarrow> OverrideMap option decoder" where
  "dec_om cd \<equiv> dec_ptr zero_OverrideMap (dec_struct (OverrideMap_fields cd))"

abbreviation dec_ao :: "ArrayOverride option decoder" where
  "dec_ao \<equiv> dec_ptr zero_ArrayOverride (dec_struct ArrayOverride_fields)"

definition Override_fields :: "codec \<Rightarrow> Override field list" where
  "Override_fields cd =
    [rd ''entity_labels'' (dec_om cd) ov_EntityLabels ov_EntityLabels_update,
     rd ''budget_categories'' dec_ao ov_BudgetCategories ov_BudgetCategories_update,
     rd ''expense_categories'' dec_ao ov_ExpenseCategories ov_ExpenseCategories_update,
     rd ''inventory_categories'' dec_ao ov_InventoryCategories ov_InventoryCategories_update,
     rd ''phase_types'' dec_ao ov_PhaseTypes ov_PhaseTypes_update,
     rd ''report_definitions'' dec_ao ov_ReportDefinitions ov_ReportDefinitions_update,
     rd ''budget_templates'' dec_ao ov_BudgetTemplates ov_BudgetTemplates_update,
     rd ''approval_workflow'' (dec_om cd) ov_ApprovalWorkflow ov_ApprovalWorkflow_update,
     rd ''custom_fields'' (dec_om cd) ov_CustomFields ov_CustomFields_update]"

definition hasOperations :: "Override \<Rightarrow> bool" where
  "hasOperations v \<longleftrightarrow> ov_EntityLabels v \<noteq> None \<or> ov_BudgetCategories v \<noteq> None \<or> ov_ExpenseCategories v \<noteq> None
     \<or> ov_InventoryCategories v \<noteq> None \<or> ov_PhaseTypes v \<noteq> None \<or> ov_ReportDefinitions v \<noteq> None
     \<or> ov_BudgetTemplates v \<noteq> None \<or> ov_ApprovalWorkflow v \<noteq> None \<or> ov_CustomFields v \<noteq> None"

section \<open>Merging\<close>

text \<open>The order of the keys of a map in a \<^verbatim>\<open>range\<close> loop.\<close>

type_synonym key_order = "(string \<times> json) list \<Rightarrow> (string \<times> json) list"

definition toSet :: "string list \<Rightarrow> string \<Rightarrow> bool" where
  "toSet ids i = list_ex (\<lambda>x. x = i) ids"

definition remove_items :: "('r \<Rightarrow> string) \<Rightarrow> string list \<Rightarrow> 'r list \<Rightarrow> 'r list" where
  "remove_items key ids xs = (if ids = [] then xs else filter (\<lambda>x. \<not> toSet ids (key x)) xs)"

text \<open>The first item with the identifier is decoded in place; an error is ignored, with what it had decoded.\<close>

fun override_item :: "('r \<Rightarrow> string) \<Rightarrow> 'r field list \<Rightarrow> string \<times> json \<Rightarrow> 'r list \<Rightarrow> 'r list" where
  "override_item key fs (i, raw) [] = []"
| "override_item key fs (i, raw) (x # xs) =
     (if key x = i then fst (dec_struct fs raw x) # xs else x # override_item key fs (i, raw) xs)"

definition append_items :: "'r \<Rightarrow> 'r field list \<Rightarrow> json list \<Rightarrow> 'r list" where
  "append_items zero fs raws = List.map_filter (\<lambda>raw. case dec_struct fs raw zero of (x, ok) \<Rightarrow> if ok then Some x else None) raws"

definition apply_items :: "key_order \<Rightarrow> ('r \<Rightarrow> string) \<Rightarrow> 'r \<Rightarrow> 'r field list \<Rightarrow> 'r list \<Rightarrow> ArrayOverride \<Rightarrow> 'r list" where
  "apply_items ord key zero fs base ao =
     fold (override_item key fs) (ord (sorted_list_of_fmap (ao_Override ao))) (remove_items key (ao_Remove ao) base)
       @ append_items zero fs (ao_Append ao)"

definition applyBudgetCategoryOverride :: "key_order \<Rightarrow> BudgetCategory list \<Rightarrow> ArrayOverride \<Rightarrow> BudgetCategory list" where
  "applyBudgetCategoryOverride ord = apply_items ord bc_ID zero_BudgetCategory BudgetCategory_fields"

definition applyExpenseCategoryOverride :: "key_order \<Rightarrow> ExpenseCategory list \<Rightarrow> ArrayOverride \<Rightarrow> ExpenseCategory list" where
  "applyExpenseCategoryOverride ord = apply_items ord ec_ID zero_ExpenseCategory ExpenseCategory_fields"

definition applyInventoryCategoryOverride :: "key_order \<Rightarrow> InventoryCategory list \<Rightarrow> ArrayOverride \<Rightarrow> InventoryCategory list" where
  "applyInventoryCategoryOverride ord = apply_items ord ic_ID zero_InventoryCategory InventoryCategory_fields"

definition applyPhaseTypeOverride :: "key_order \<Rightarrow> PhaseType list \<Rightarrow> ArrayOverride \<Rightarrow> PhaseType list" where
  "applyPhaseTypeOverride ord = apply_items ord ph_ID zero_PhaseType PhaseType_fields"

definition applyReportDefinitionOverride :: "key_order \<Rightarrow> ReportDefinition list \<Rightarrow> ArrayOverride \<Rightarrow> ReportDefinition list" where
  "applyReportDefinitionOverride ord = apply_items ord rd_ID zero_ReportDefinition ReportDefinition_fields"

definition label_or :: "(string, json) fmap \<Rightarrow> string \<Rightarrow> string \<Rightarrow> string" where
  "label_or m k old = (case fmlookup m k of Some (JStr s) \<Rightarrow> s | _ \<Rightarrow> old)"

definition applyEntityLabelOverrides :: "EntityLabels \<Rightarrow> (string, json) fmap \<Rightarrow> EntityLabels" where
  "applyEntityLabelOverrides l m =
     \<lparr>el_Project = label_or m ''project'' (el_Project l),
      el_ProjectPlural = label_or m ''project_plural'' (el_ProjectPlural l),
      el_Phase = label_or m ''phase'' (el_Phase l),
      el_PhasePlural = label_or m ''phase_plural'' (el_PhasePlural l),
      el_TeamMember = label_or m ''team_member'' (el_TeamMember l),
      el_TeamMemberPlural = label_or m ''team_member_plural'' (el_TeamMemberPlural l),
      el_RateLabel = label_or m ''rate_label'' (el_RateLabel l),
      el_RateUnit = label_or m ''rate_unit'' (el_RateUnit l)\<rparr>"

definition deepCopyConfig :: "codec \<Rightarrow> Config \<Rightarrow> Config" where
  "deepCopyConfig cd c = fst (dec_struct (Config_fields cd) (Marshal_Config cd c) zero_Config)"

text \<open>The printing of a configuration never fails, so that the merge returns no error.\<close>

definition applyFlatMerge :: "codec \<Rightarrow> Config \<Rightarrow> json_text \<Rightarrow> Config" where
  "applyFlatMerge cd base t =
     (case (generic cd (Marshal_Config cd base), t) of
        (Some (JObj baseMap), Text (JObj kvs)) \<Rightarrow>
          (case generic_entries cd kvs [] of
             None \<Rightarrow> base
           | Some overrideMap \<Rightarrow>
               (case Unmarshal_Config cd (JObj (fold (\<lambda>(k, v). insert_key k v) overrideMap baseMap)) of
                  None \<Rightarrow> base | Some merged \<Rightarrow> merged))
      | (Some (JObj baseMap), Text JNull) \<Rightarrow>
          (case Unmarshal_Config cd (JObj baseMap) of None \<Rightarrow> base | Some merged \<Rightarrow> merged)
      | _ \<Rightarrow> base)"

definition apply_section :: "('s \<Rightarrow> 'o \<Rightarrow> 's) \<Rightarrow> 'o option \<Rightarrow> 's \<Rightarrow> 's" where
  "apply_section f op s = (case op of None \<Rightarrow> s | Some p \<Rightarrow> f s p)"

definition apply_structured :: "key_order \<Rightarrow> Override \<Rightarrow> Config \<Rightarrow> Config" where
  "apply_structured ord v m = m
     \<lparr>vc_EntityLabels := apply_section (\<lambda>l p. applyEntityLabelOverrides l (om_Override p)) (ov_EntityLabels v) (vc_EntityLabels m),
      vc_BudgetCategories := apply_section (applyBudgetCategoryOverride ord) (ov_BudgetCategories v) (vc_BudgetCategories m),
      vc_ExpenseCategories := apply_section (applyExpenseCategoryOverride ord) (ov_ExpenseCategories v) (vc_ExpenseCategories m),
      vc_InventoryCategories := apply_section (applyInventoryCategoryOverride ord) (ov_InventoryCategories v) (vc_InventoryCategories m),
      vc_PhaseTypes := apply_section (applyPhaseTypeOverride ord) (ov_PhaseTypes v) (vc_PhaseTypes m),
      vc_ReportDefinitions := apply_section (applyReportDefinitionOverride ord) (ov_ReportDefinitions v) (vc_ReportDefinitions m)\<rparr>"

definition ApplyOverride :: "codec \<Rightarrow> key_order \<Rightarrow> Config \<Rightarrow> json_text \<Rightarrow> Config" where
  "ApplyOverride cd ord base t =
     (if t = NoText \<or> t = Text JNull \<or> t = Text (JObj []) then base
      else case t of
        Text v \<Rightarrow>
          (case dec_struct (Override_fields cd) v zero_Override of (ov, ok) \<Rightarrow>
             if \<not> ok \<or> \<not> hasOperations ov then applyFlatMerge cd base t
             else apply_structured ord ov (deepCopyConfig cd base))
      | _ \<Rightarrow> applyFlatMerge cd base t)"

section \<open>The reference\<close>

text \<open>Every kept item with the change that names it, in the order of the base, and then the new ones.\<close>

definition changed :: "('r \<Rightarrow> string) \<Rightarrow> 'r field list \<Rightarrow> (string \<Rightarrow> json option) \<Rightarrow> 'r \<Rightarrow> 'r" where
  "changed key fs m x = (case m (key x) of None \<Rightarrow> x | Some raw \<Rightarrow> fst (dec_struct fs raw x))"

definition merged_items :: "('r \<Rightarrow> string) \<Rightarrow> 'r \<Rightarrow> 'r field list \<Rightarrow> 'r list \<Rightarrow> ArrayOverride \<Rightarrow> 'r list" where
  "merged_items key zero fs base ao =
     map (changed key fs (fmlookup (ao_Override ao))) (filter (\<lambda>x. key x \<notin> set (ao_Remove ao)) base)
       @ [fst (dec_struct fs raw zero). raw \<leftarrow> ao_Append ao, snd (dec_struct fs raw zero)]"

lemma append_items_decoded: "append_items zero fs raws = [fst (dec_struct fs raw zero). raw \<leftarrow> raws, snd (dec_struct fs raw zero)]"
  by (induction raws) (simp_all add: append_items_def List.map_filter_def case_prod_beta)

text \<open>The identifiers of a section are distinct and no change alters one.\<close>

definition section_ok :: "('r \<Rightarrow> string) \<Rightarrow> 'r field list \<Rightarrow> 'r list \<Rightarrow> ArrayOverride option \<Rightarrow> bool" where
  "section_ok key fs base op \<longleftrightarrow>
     (case op of None \<Rightarrow> True
      | Some ao \<Rightarrow> distinct (map key base) \<and> list_all (\<lambda>x. key (changed key fs (fmlookup (ao_Override ao)) x) = key x) base)"

definition mergeable :: "Config \<Rightarrow> Override \<Rightarrow> bool" where
  "mergeable c v \<longleftrightarrow> section_ok bc_ID BudgetCategory_fields (vc_BudgetCategories c) (ov_BudgetCategories v)
     \<and> section_ok ec_ID ExpenseCategory_fields (vc_ExpenseCategories c) (ov_ExpenseCategories v)
     \<and> section_ok ic_ID InventoryCategory_fields (vc_InventoryCategories c) (ov_InventoryCategories v)
     \<and> section_ok ph_ID PhaseType_fields (vc_PhaseTypes c) (ov_PhaseTypes v)
     \<and> section_ok rd_ID ReportDefinition_fields (vc_ReportDefinitions c) (ov_ReportDefinitions v)"

definition merge_spec :: "Override \<Rightarrow> Config \<Rightarrow> Config" where
  "merge_spec v c = c
     \<lparr>vc_EntityLabels := apply_section (\<lambda>l p. applyEntityLabelOverrides l (om_Override p)) (ov_EntityLabels v) (vc_EntityLabels c),
      vc_BudgetCategories := apply_section (merged_items bc_ID zero_BudgetCategory BudgetCategory_fields) (ov_BudgetCategories v) (vc_BudgetCategories c),
      vc_ExpenseCategories := apply_section (merged_items ec_ID zero_ExpenseCategory ExpenseCategory_fields) (ov_ExpenseCategories v) (vc_ExpenseCategories c),
      vc_InventoryCategories := apply_section (merged_items ic_ID zero_InventoryCategory InventoryCategory_fields) (ov_InventoryCategories v) (vc_InventoryCategories c),
      vc_PhaseTypes := apply_section (merged_items ph_ID zero_PhaseType PhaseType_fields) (ov_PhaseTypes v) (vc_PhaseTypes c),
      vc_ReportDefinitions := apply_section (merged_items rd_ID zero_ReportDefinition ReportDefinition_fields) (ov_ReportDefinitions v) (vc_ReportDefinitions c)\<rparr>"

lemma toSet_iff: "toSet ids i \<longleftrightarrow> i \<in> set ids"
  by (auto simp: toSet_def list_ex_iff)

lemma remove_items_filter: "remove_items key ids xs = filter (\<lambda>x. key x \<notin> set ids) xs"
  by (simp add: remove_items_def toSet_iff)

lemma override_item_map:
  "distinct (map key xs) \<Longrightarrow> override_item key fs (i, raw) xs = map (\<lambda>x. if key x = i then fst (dec_struct fs raw x) else x) xs"
proof (induction xs)
  case (Cons x xs)
  have "map (\<lambda>y. if key y = i then fst (dec_struct fs raw y) else y) xs = xs" if "key x = i"
    using Cons.prems that by (intro map_idI) (auto simp: image_iff)
  with Cons show ?case by simp
qed simp

lemma fold_override_items:
  assumes "distinct (map fst kvs)" and "distinct (map key xs)"
    and "\<And>x raw. x \<in> set xs \<Longrightarrow> (key x, raw) \<in> set kvs \<Longrightarrow> key (fst (dec_struct fs raw x)) = key x"
  shows "fold (override_item key fs) kvs xs = map (changed key fs (map_of kvs)) xs"
  using assms
proof (induction kvs arbitrary: xs)
  case Nil
  then show ?case by (simp add: changed_def)
next
  case (Cons kv kvs)
  obtain i raw where kv: "kv = (i, raw)" by (cases kv)
  let ?f = "\<lambda>x. if key x = i then fst (dec_struct fs raw x) else x"
  have f: "x \<in> set xs \<Longrightarrow> key (?f x) = key x" for x using Cons.prems(3) [of x raw] kv by auto
  then have "distinct (map key (map ?f xs))" using Cons.prems(2) by (simp add: comp_def cong: map_cong)
  moreover have "key (fst (dec_struct fs r y)) = key y" if "y \<in> set (map ?f xs)" "(key y, r) \<in> set kvs" for y r
  proof -
    from that(1) obtain x where x: "x \<in> set xs" "y = ?f x" by auto
    with that(2) f have "(key x, r) \<in> set kvs" by simp
    with Cons.prems(1) kv have "key x \<noteq> i" by (force simp: image_iff)
    with x \<open>(key x, r) \<in> set kvs\<close> Cons.prems(3) show ?thesis by (auto simp: kv)
  qed
  ultimately have "fold (override_item key fs) kvs (map ?f xs) = map (changed key fs (map_of kvs)) (map ?f xs)"
    using Cons.prems(1) by (intro Cons.IH) auto
  moreover have "x \<in> set xs \<Longrightarrow> changed key fs (map_of kvs) (?f x) = changed key fs (map_of (kv # kvs)) x" for x
    using f [of x] Cons.prems(1) by (auto simp: changed_def kv map_of_eq_None_iff [symmetric] split: option.split)
  ultimately show ?case using Cons.prems(2) by (simp add: kv override_item_map fun_upd_def)
qed

lemma map_of_order:
  assumes "mset (ord kvs) = mset kvs" and "distinct (map fst kvs)"
  shows "map_of (ord kvs) = map_of kvs" "distinct (map fst (ord kvs))" "set (ord kvs) = set kvs"
proof -
  show s: "set (ord kvs) = set kvs" using assms(1) by (rule mset_eq_setD)
  have "mset (map fst (ord kvs)) = mset (map fst kvs)" using assms(1) by simp
  then show d: "distinct (map fst (ord kvs))" using assms(2) by (metis mset_eq_imp_distinct_iff)
  show "map_of (ord kvs) = map_of kvs" using map_of_inject_set [OF d assms(2)] s by simp
qed

lemma apply_items_merged:
  assumes "\<And>kvs. mset (ord kvs) = mset kvs" and "section_ok key fs base (Some ao)"
  shows "apply_items ord key zero fs base ao = merged_items key zero fs base ao"
proof -
  let ?kvs = "sorted_list_of_fmap (ao_Override ao)" and ?xs = "filter (\<lambda>x. key x \<notin> set (ao_Remove ao)) base"
  have "distinct (map fst ?kvs)" by (simp add: sorted_list_of_fmap_def comp_def sorted_list_of_fset.rep_eq)
  note o = map_of_order [of ord ?kvs, OF assms(1) this]
  have "key (fst (dec_struct fs raw x)) = key x" if "x \<in> set ?xs" "(key x, raw) \<in> set (ord ?kvs)" for x raw
  proof -
    have "fmlookup (ao_Override ao) (key x) = Some raw" using that(2) o by (metis map_of_is_SomeI map_of_sorted_list)
    then show ?thesis using assms(2) that(1) by (auto simp: section_ok_def changed_def list_all_iff)
  qed
  then have "fold (override_item key fs) (ord ?kvs) ?xs = map (changed key fs (map_of (ord ?kvs))) ?xs"
    using o(2) assms(2) by (intro fold_override_items) (auto simp: section_ok_def distinct_map_filter)
  then show ?thesis by (simp add: apply_items_def merged_items_def remove_items_filter append_items_decoded o(1))
qed

lemma apply_section_merged:
  "(\<And>kvs. mset (ord kvs) = mset kvs) \<Longrightarrow> section_ok key fs base op
     \<Longrightarrow> apply_section (apply_items ord key zero fs) op base = apply_section (merged_items key zero fs) op base"
  by (cases op) (simp_all add: apply_section_def apply_items_merged)

section \<open>What a merge gives\<close>

lemma deepCopy: "printable cd c \<Longrightarrow> deepCopyConfig cd c = c"
  using Config_roundtrip [of cd c] by (auto simp: deepCopyConfig_def Unmarshal_Config_def split: prod.splits if_splits)

text \<open>
  C33: a configuration whose texts are valid UTF-8, whose integers fit 64 bits and whose decimals the
  package reads as it prints them is printed to JSON that reads back without an error as the same
  configuration; so does the deep copy that a merge works on.
\<close>

theorem Config_json_roundtrip:
  assumes "printable cd c"
  shows "Unmarshal_Config cd (Marshal_Config cd c) = Some c \<and> deepCopyConfig cd c = c"
  using assms Config_roundtrip deepCopy by blast


section \<open>Examples\<close>

text \<open>A package that prints whole decimals only, and numbers as they are.\<close>

definition demo_codec :: codec where
  "demo_codec = \<lparr>decimal_String = (\<lambda>d. FormatInt \<lfloor>d\<rfloor>), decimal_NewFromString = (\<lambda>s. map_option of_int (ParseInt s)), float64_text = Some\<rparr>"

definition film_config :: Config where
  "film_config = zero_Config
     \<lparr>vc_ID := ''film'', vc_BudgetCategories := [\<lparr>bc_ID = ''cast'', bc_Label = ''Cast'', bc_Description = '''', bc_DefaultAccountCode = ''5100''\<rparr>,
        \<lparr>bc_ID = ''crew'', bc_Label = ''Crew'', bc_Description = '''', bc_DefaultAccountCode = ''5200''\<rparr>]\<rparr>"

lemma film_texts: "list_all valid_utf8 (texts (enc_struct (Config_fields demo_codec) film_config))"
  by code_simp

lemma film_printable: "printable demo_codec film_config"
  unfolding printable_def by (rule conjI, rule film_texts) (simp add: printable_def film_config_def zero_Config_def zero_ApprovalWorkflow_def decimal_reads_def demo_codec_def ParseInt_FormatInt int64_range_def)

theorem Config_json_roundtrip_witness:
  "Unmarshal_Config demo_codec (Marshal_Config demo_codec film_config) = Some film_config \<and> deepCopyConfig demo_codec film_config = film_config"
  by (rule Config_json_roundtrip) (rule film_printable)

definition film_override :: ArrayOverride where
  "film_override = \<lparr>ao_Append = [JObj [(''id'', JStr ''vfx'')]], ao_Override = fmupd ''crew'' (JObj [(''label'', JStr ''Unit'')]) fmempty, ao_Remove = [''cast'']\<rparr>"

abbreviation film_json :: json where
  "film_json \<equiv> JObj [(''budget_categories'', JObj [(''append'', JArr [JObj [(''id'', JStr ''vfx'')]]),
     (''override'', JObj [(''crew'', JObj [(''label'', JStr ''Unit'')])]), (''remove'', JArr [JStr ''cast''])])]"


text \<open>A text that is not valid UTF-8 does not read back: its bytes are replaced.\<close>

lemma invalid_text_replaced:
  "map_option vc_Name (Unmarshal_Config demo_codec (Marshal_Config demo_codec (film_config\<lparr>vc_Name := [CHR 0xFF]\<rparr>)))
     = Some [CHR 0xEF, CHR 0xBF, CHR 0xBD]"
  by code_simp

section \<open>What a merge does not do\<close>

text \<open>Overrides of the budget templates, the approval workflow and the custom fields are accepted and ignored.\<close>

lemma ApplyOverride_ignores_workflow:
  assumes "printable cd base" and "dec_struct (Override_fields cd) v zero_Override = (zero_Override\<lparr>ov_ApprovalWorkflow := Some p\<rparr>, True)"
  shows "ApplyOverride cd ord base (Text v) = base"
  using assms by (simp add: ApplyOverride_def hasOperations_def apply_structured_def apply_section_def zero_Override_def deepCopy)

text \<open>A change of an identifier makes the result depend on the order in which the keys are visited.\<close>

lemma override_order_matters:
  "map bc_Label (fold (override_item bc_ID BudgetCategory_fields) [(''cast'', JObj [(''id'', JStr ''star'')]), (''star'', JObj [(''label'', JStr ''Stars'')])]
        (vc_BudgetCategories film_config)) = [''Stars'', ''Crew'']
    \<and> map bc_Label (fold (override_item bc_ID BudgetCategory_fields) [(''star'', JObj [(''label'', JStr ''Stars'')]), (''cast'', JObj [(''id'', JStr ''star'')])]
        (vc_BudgetCategories film_config)) = [''Cast'', ''Crew'']"
  by (simp add: film_config_def dec_struct_def BudgetCategory_fields_def field_for_def fld_def)

end
