(* ===== verification/VerticalLoader.thy ===== *)
theory VerticalLoader
  imports VerticalMerge Interceptor "HOL-Library.Product_Lexorder"
begin

text \<open>
  Where the configuration of a tenant comes from: the tables and statements of
  \<^verbatim>\<open>pkg/vertical/db\<close>, the store over them, the loader with its Redis cache
  (\<^verbatim>\<open>pkg/vertical/loader.go\<close>) and the interceptor that puts the configuration into the context
  (\<^verbatim>\<open>pkg/vertical/middleware.go\<close>). The cache is filled by a goroutine that runs at any later
  time: the state keeps what is still to be written. The lemmas follow every interleaving of requests,
  goroutines, writes and invalidations.
\<close>

section \<open>Tables\<close>

record vdef_row =
  vd_id :: string
  vd_name :: string
  vd_version :: string
  vd_description :: "string option"
  vd_config :: json
  vd_active :: bool
  vd_created :: time
  vd_updated :: time

record binding_row =
  tv_tenant :: uuid
  tv_vertical :: string
  tv_override :: "json option"
  tv_registered_at :: time
  tv_registered_by :: uuid

text \<open>Redis keeps a text with the time at which it expires; a pending write has its tenant and text.\<close>

record vertical_db = io +
  vdefs :: "vdef_row list"
  bindings :: "binding_row list"
  cache :: "uuid \<Rightarrow> (json_text \<times> time) option"
  pending :: "(uuid \<times> json) list"

definition empty_verticals :: vertical_db where
  "empty_verticals = \<lparr>tick = 0, vdefs = [], bindings = [], cache = (\<lambda>_. None), pending = []\<rparr>"

datatype vertical_sentinel = ErrVerticalNotFound

type_synonym vertical_err = "vertical_sentinel goerr"

section \<open>Statements\<close>

text \<open>
  The operator \<^verbatim>\<open>||\<close> of \<^verbatim>\<open>jsonb\<close>: of two objects the second wins at the keys of both;
  everything else is the concatenation of arrays. Keys are stored by length and then by bytes.
\<close>

definition jsonb_items :: "json \<Rightarrow> json list" where
  "jsonb_items v = (case v of JArr vs \<Rightarrow> vs | _ \<Rightarrow> [v])"

definition jsonb_concat :: "json \<Rightarrow> json \<Rightarrow> json" where
  "jsonb_concat a b =
     (case (a, b) of
        (JObj as, JObj bs) \<Rightarrow> JObj (sort_key (\<lambda>(k, _). (length k, k)) (filter (\<lambda>(k, _). k \<notin> fst ` set bs) as @ bs))
      | _ \<Rightarrow> JArr (jsonb_items a @ jsonb_items b))"

definition bound_definition :: "uuid \<Rightarrow> vertical_db \<Rightarrow> db_error + vdef_row \<times> binding_row" where
  "bound_definition t w =
     (case row_by (\<lambda>b. tv_tenant b = t) (bindings w) of
        Inl e \<Rightarrow> Inl e
      | Inr b \<Rightarrow> (case row_by (\<lambda>d. vd_id d = tv_vertical b \<and> vd_active d) (vdefs w) of
                   Inl e \<Rightarrow> Inl e | Inr d \<Rightarrow> Inr (d, b)))"

definition q_GetVerticalConfigForTenant :: "env \<Rightarrow> uuid \<Rightarrow> (vertical_db, db_error, json) op" where
  "q_GetVerticalConfigForTenant en t = query en (\<lambda>_ w.
     (map_sum id (\<lambda>(d, b). jsonb_concat (vd_config d) (case tv_override b of None \<Rightarrow> JObj [] | Some v \<Rightarrow> v)) (bound_definition t w), w))"

definition q_GetVerticalConfigAndOverride :: "env \<Rightarrow> uuid \<Rightarrow> (vertical_db, db_error, json \<times> json option) op" where
  "q_GetVerticalConfigAndOverride en t = query en (\<lambda>_ w.
     (map_sum id (\<lambda>(d, b). (vd_config d, tv_override b)) (bound_definition t w), w))"

text \<open>A parameter of type \<^verbatim>\<open>jsonb\<close>: nil is NULL, a text that is not JSON is refused.\<close>

definition jsonb_param :: "json_text \<Rightarrow> db_error + json option" where
  "jsonb_param t = (case t of NoText \<Rightarrow> Inr None | BadText \<Rightarrow> Inl (PgError ''22P02'') | Text v \<Rightarrow> Inr (Some v))"

record BindTenantVerticalParams =
  bp_TenantID :: uuid
  bp_VerticalID :: string
  bp_ConfigOverride :: json_text
  bp_RegisteredBy :: uuid

definition q_BindTenantVertical :: "env \<Rightarrow> BindTenantVerticalParams \<Rightarrow> (vertical_db, db_error, unit) op" where
  "q_BindTenantVertical en p = query en (\<lambda>now w.
     case jsonb_param (bp_ConfigOverride p) of
       Inl e \<Rightarrow> (Inl e, w)
     | Inr v \<Rightarrow>
         if list_ex (\<lambda>b. tv_tenant b = bp_TenantID p) (bindings w) then (Inr (), w)
         else if \<not> list_ex (\<lambda>d. vd_id d = bp_VerticalID p) (vdefs w) then (Inl fk_violation, w)
         else (Inr (), w\<lparr>bindings := bindings w @ [\<lparr>tv_tenant = bp_TenantID p, tv_vertical = bp_VerticalID p, tv_override = v,
                tv_registered_at = now, tv_registered_by = bp_RegisteredBy p\<rparr>]\<rparr>))"

definition q_UpdateTenantVerticalOverride :: "env \<Rightarrow> uuid \<Rightarrow> json_text \<Rightarrow> (vertical_db, db_error, unit) op" where
  "q_UpdateTenantVerticalOverride en t ov = query en (\<lambda>_ w.
     case jsonb_param ov of
       Inl e \<Rightarrow> (Inl e, w)
     | Inr v \<Rightarrow> (Inr (), w\<lparr>bindings := update_rows (\<lambda>b. tv_tenant b = t) (tv_override_update (\<lambda>_. v)) (bindings w)\<rparr>))"

definition q_UnbindTenantVertical :: "env \<Rightarrow> uuid \<Rightarrow> (vertical_db, db_error, unit) op" where
  "q_UnbindTenantVertical en t = query en (\<lambda>_ w. (Inr (), w\<lparr>bindings := filter (\<lambda>b. tv_tenant b \<noteq> t) (bindings w)\<rparr>))"

definition q_GetTenantVertical :: "env \<Rightarrow> uuid \<Rightarrow> (vertical_db, db_error, binding_row) op" where
  "q_GetTenantVertical en t = query en (\<lambda>_ w. (row_by (\<lambda>b. tv_tenant b = t) (bindings w), w))"

definition q_GetVerticalDefinition :: "env \<Rightarrow> string \<Rightarrow> (vertical_db, db_error, vdef_row) op" where
  "q_GetVerticalDefinition en i = query en (\<lambda>_ w. (row_by (\<lambda>d. vd_id d = i \<and> vd_active d) (vdefs w), w))"

definition q_ListVerticalDefinitions :: "env \<Rightarrow> (vertical_db, db_error, (string \<times> string \<times> string \<times> string option) list) op" where
  "q_ListVerticalDefinitions en = query en (\<lambda>_ w.
     (Inr (map (\<lambda>d. (vd_id d, vd_name d, vd_version d, vd_description d)) (sort_key vd_name (filter vd_active (vdefs w)))), w))"

definition q_DeactivateVerticalDefinition :: "env \<Rightarrow> string \<Rightarrow> (vertical_db, db_error, unit) op" where
  "q_DeactivateVerticalDefinition en i = query en (\<lambda>now w.
     (Inr (), w\<lparr>vdefs := update_rows (\<lambda>d. vd_id d = i) (\<lambda>d. d\<lparr>vd_active := False, vd_updated := now\<rparr>) (vdefs w)\<rparr>))"

record UpsertVerticalDefinitionParams =
  up_ID :: string
  up_Name :: string
  up_Version :: string
  up_Description :: "string option"
  up_Config :: json

definition q_UpsertVerticalDefinition :: "env \<Rightarrow> UpsertVerticalDefinitionParams \<Rightarrow> (vertical_db, db_error, vdef_row) op" where
  "q_UpsertVerticalDefinition en p = query en (\<lambda>now w.
     let new = \<lparr>vd_id = up_ID p, vd_name = up_Name p, vd_version = up_Version p, vd_description = up_Description p, vd_config = up_Config p,
                vd_active = True, vd_created = now, vd_updated = now\<rparr>;
         f = (\<lambda>d. d\<lparr>vd_name := up_Name p, vd_version := up_Version p, vd_description := up_Description p, vd_config := up_Config p, vd_updated := now\<rparr>) in
     case row_by (\<lambda>d. vd_id d = up_ID p) (vdefs w) of
       Inl _ \<Rightarrow> (Inr new, w\<lparr>vdefs := vdefs w @ [new]\<rparr>)
     | Inr d \<Rightarrow> (Inr (f d), w\<lparr>vdefs := update_rows (\<lambda>d. vd_id d = up_ID p) f (vdefs w)\<rparr>))"

section \<open>The cache\<close>

definition cacheTTL :: time where "cacheTTL = 5 * 60"

text \<open>A missing key and a failed round trip are the same to the loader.\<close>

definition redis_Get :: "env \<Rightarrow> uuid \<Rightarrow> vertical_db \<Rightarrow> json_text option \<times> vertical_db" where
  "redis_Get en t w =
     ((if env_fail en (tick w) then None
       else case cache w t of Some (d, expires) \<Rightarrow> if env_now en (tick w) < expires then Some d else None | None \<Rightarrow> None),
      w\<lparr>tick := Suc (tick w)\<rparr>)"

definition redis_Set :: "env \<Rightarrow> uuid \<Rightarrow> json \<Rightarrow> (vertical_db, db_error, unit) op" where
  "redis_Set en t d = query en (\<lambda>now w. (Inr (), w\<lparr>cache := (cache w)(t \<mapsto> (Text d, now + cacheTTL))\<rparr>))"

definition redis_Del :: "env \<Rightarrow> uuid \<Rightarrow> (vertical_db, db_error, unit) op" where
  "redis_Del en t = query en (\<lambda>_ w. (Inr (), w\<lparr>cache := (cache w)(t := None)\<rparr>))"

definition Invalidate :: "env \<Rightarrow> uuid \<Rightarrow> (vertical_db, vertical_err, unit) op" where
  "Invalidate en t = onErr (wrapDb ''vertical: invalidate cache'') (redis_Del en t)"

section \<open>The store\<close>

text \<open>
  \<^verbatim>\<open>pgx\<close> scans the merged value into an \<^verbatim>\<open>interface{}\<close>: as its bytes, or decoded and
  then printed again.
\<close>

definition scan_any :: "codec \<Rightarrow> bool \<Rightarrow> json \<Rightarrow> vertical_err + json" where
  "scan_any cd bytes v =
     (if bytes then Inr v
      else case generic cd v of None \<Rightarrow> Inl (Wrap ''query vertical config'' (Opaque ''scan'')) | Some g \<Rightarrow> Inr g)"

definition no_vertical :: "db_error \<Rightarrow> vertical_err" where
  "no_vertical e = (if e = ErrNoRows then Wrap ''tenant'' (Sentinel ErrVerticalNotFound) else Wrap ''query vertical config'' (DbErr e))"

definition GetVerticalConfigForTenant :: "codec \<Rightarrow> bool \<Rightarrow> env \<Rightarrow> uuid \<Rightarrow> (vertical_db, vertical_err, json) op" where
  "GetVerticalConfigForTenant cd bytes en t =
     andThen (onErr no_vertical (q_GetVerticalConfigForTenant en t)) (\<lambda>v. liftR (scan_any cd bytes v))"

definition GetVerticalConfigWithDeepMerge :: "codec \<Rightarrow> key_order \<Rightarrow> env \<Rightarrow> uuid \<Rightarrow> (vertical_db, vertical_err, json) op" where
  "GetVerticalConfigWithDeepMerge cd ord en t =
     andThen (onErr no_vertical (q_GetVerticalConfigAndOverride en t)) (\<lambda>(v, ov).
       case Unmarshal_Config cd v of
         None \<Rightarrow> fail (Wrap ''unmarshal base config'' (Opaque ''json''))
       | Some base \<Rightarrow> ret (Marshal_Config cd (ApplyOverride cd ord base (case ov of None \<Rightarrow> NoText | Some u \<Rightarrow> Text u))))"

text \<open>An error of the invalidation is dropped; without an invalidator nothing is done.\<close>

definition invalidate :: "bool \<Rightarrow> env \<Rightarrow> uuid \<Rightarrow> (vertical_db, vertical_err, unit) op" where
  "invalidate hasInv en t = (if hasInv then inspect (Invalidate en t) (\<lambda>_. ret ()) else ret ())"

definition BindTenant :: "bool \<Rightarrow> env \<Rightarrow> BindTenantVerticalParams \<Rightarrow> (vertical_db, vertical_err, unit) op" where
  "BindTenant hasInv en p = andThen (onErr (wrapDb ''bind tenant vertical'') (q_BindTenantVertical en p)) (\<lambda>_. invalidate hasInv en (bp_TenantID p))"

definition UpdateOverride :: "bool \<Rightarrow> env \<Rightarrow> uuid \<Rightarrow> json_text \<Rightarrow> (vertical_db, vertical_err, unit) op" where
  "UpdateOverride hasInv en t ov =
     andThen (onErr (wrapDb ''update tenant vertical override'') (q_UpdateTenantVerticalOverride en t ov)) (\<lambda>_. invalidate hasInv en t)"

definition UnbindTenant :: "bool \<Rightarrow> env \<Rightarrow> uuid \<Rightarrow> (vertical_db, vertical_err, unit) op" where
  "UnbindTenant hasInv en t = andThen (onErr (wrapDb ''unbind tenant vertical'') (q_UnbindTenantVertical en t)) (\<lambda>_. invalidate hasInv en t)"

section \<open>The loader\<close>

text \<open>The part of \<^verbatim>\<open>GetConfig\<close> after a miss: the goroutine that it starts is a pending write.\<close>

definition load_config :: "codec \<Rightarrow> bool \<Rightarrow> env \<Rightarrow> uuid \<Rightarrow> (vertical_db, vertical_err, Config) op" where
  "load_config cd bytes en t =
     andThen (onErr (Wrap ''vertical: load config'') (GetVerticalConfigForTenant cd bytes en t)) (\<lambda>data.
       case Unmarshal_Config cd data of
         None \<Rightarrow> fail (Wrap ''vertical: unmarshal config'' (Opaque ''json''))
       | Some cfg \<Rightarrow> andThen (modify (\<lambda>w. w\<lparr>pending := pending w @ [(t, data)]\<rparr>)) (\<lambda>_. ret cfg))"

definition GetConfig :: "codec \<Rightarrow> bool \<Rightarrow> env \<Rightarrow> uuid \<Rightarrow> (vertical_db, vertical_err, Config) op" where
  "GetConfig cd bytes en t w =
     (case redis_Get en t w of (cached, w1) \<Rightarrow>
        case (case cached of Some (Text v) \<Rightarrow> Unmarshal_Config cd v | _ \<Rightarrow> None) of
          Some cfg \<Rightarrow> (Inr cfg, w1)
        | None \<Rightarrow> load_config cd bytes en t w1)"

text \<open>One of the goroutines runs; a failed write is only logged.\<close>

definition populate :: "env \<Rightarrow> nat \<Rightarrow> vertical_db \<Rightarrow> vertical_db" where
  "populate en i w =
     (if i < length (pending w)
      then snd (redis_Set en (fst (pending w ! i)) (snd (pending w ! i)) (w\<lparr>pending := take i (pending w) @ drop (Suc i) (pending w)\<rparr>))
      else w)"

section \<open>The interceptor\<close>

definition WithConfig :: "ctx \<Rightarrow> Config \<Rightarrow> ctx" where
  "WithConfig c cfg = c\<lparr>ctx_vertical := Some cfg\<rparr>"

definition FromContext :: "ctx \<Rightarrow> Config option" where
  "FromContext c = ctx_vertical c"

definition attachConfig :: "codec \<Rightarrow> bool \<Rightarrow> env \<Rightarrow> ctx \<Rightarrow> (vertical_db, status, ctx) op" where
  "attachConfig cd bytes en c =
     (case IDFromContext c of
        None \<Rightarrow> ret c
      | Some t \<Rightarrow> andThen (onErr (\<lambda>_. Status Internal ''vertical: failed to load config'') (GetConfig cd bytes en t)) (\<lambda>cfg. ret (WithConfig c cfg)))"

text \<open>The unary interceptor; the stream interceptor runs the same check before its handler.\<close>

definition UnaryInterceptor :: "codec \<Rightarrow> bool \<Rightarrow> env \<Rightarrow> (ctx \<Rightarrow> (vertical_db, status, 'a) op) \<Rightarrow> ctx \<Rightarrow> (vertical_db, status, 'a) op" where
  "UnaryInterceptor cd bytes en handler c = andThen (attachConfig cd bytes en c) handler"

end
