(* ===== verification/VerticalCache.thy ===== *)
theory VerticalCache
  imports VerticalLoader
begin

text \<open>
  What the loader promises in every interleaving: a configuration that it returns is one that the tables
  gave for that tenant at some moment, never another tenant's, and after the entry of the cache has
  expired it is the current one. An override in the structured format makes the configuration of the
  tenant unreadable, and an invalidation can be overtaken by a pending write.
\<close>

section \<open>Interleavings\<close>

text \<open>
  A request for a configuration is one step, or two when others come between the cache and the tables: a
  miss, which changes nothing, and \<open>ActReload\<close>. A write of the store and its invalidation are two steps.
\<close>

datatype vertical_action =
  ActGet uuid | ActReload uuid | ActPopulate nat | ActInvalidate uuid
  | ActBind BindTenantVerticalParams | ActUpdate uuid json_text | ActUnbind uuid
  | ActUpsert UpsertVerticalDefinitionParams | ActDeactivate string

fun exec_vertical :: "codec \<Rightarrow> bool \<Rightarrow> env \<Rightarrow> vertical_action \<Rightarrow> vertical_db \<Rightarrow> vertical_db" where
  "exec_vertical cd bytes en (ActGet t) w = snd (GetConfig cd bytes en t w)"
| "exec_vertical cd bytes en (ActReload t) w = snd (load_config cd bytes en t w)"
| "exec_vertical cd bytes en (ActPopulate i) w = populate en i w"
| "exec_vertical cd bytes en (ActInvalidate t) w = snd (Invalidate en t w)"
| "exec_vertical cd bytes en (ActBind p) w = snd (BindTenant False en p w)"
| "exec_vertical cd bytes en (ActUpdate t ov) w = snd (UpdateOverride False en t ov w)"
| "exec_vertical cd bytes en (ActUnbind t) w = snd (UnbindTenant False en t w)"
| "exec_vertical cd bytes en (ActUpsert p) w = snd (q_UpsertVerticalDefinition en p w)"
| "exec_vertical cd bytes en (ActDeactivate i) w = snd (q_DeactivateVerticalDefinition en i w)"

abbreviation run_vertical :: "codec \<Rightarrow> bool \<Rightarrow> env \<Rightarrow> vertical_action list \<Rightarrow> vertical_db \<Rightarrow> vertical_db" where
  "run_vertical cd bytes en acts w \<equiv> fold (exec_vertical cd bytes en) acts w"

text \<open>The text of the configuration that the tables give for a tenant.\<close>

definition config_text :: "codec \<Rightarrow> bool \<Rightarrow> uuid \<Rightarrow> vertical_db \<Rightarrow> json option" where
  "config_text cd bytes t w =
     (case bound_definition t w of
        Inl _ \<Rightarrow> None
      | Inr (d, b) \<Rightarrow>
          (case scan_any cd bytes (jsonb_concat (vd_config d) (case tv_override b of None \<Rightarrow> JObj [] | Some v \<Rightarrow> v)) of
             Inl _ \<Rightarrow> None | Inr v \<Rightarrow> Some v))"

text \<open>A text that the cache holds for a tenant or a goroutine is about to write there.\<close>

definition held :: "uuid \<Rightarrow> json \<Rightarrow> vertical_db \<Rightarrow> bool" where
  "held t d w \<longleftrightarrow> (t, d) \<in> set (pending w) \<or> (\<exists>expires. cache w t = Some (Text d, expires))"

lemma bound_definition_tick [simp]: "bound_definition t (w\<lparr>tick := n\<rparr>) = bound_definition t w"
  by (simp add: bound_definition_def split: sum.split)

lemma config_text_tick [simp]: "config_text cd bytes t (w\<lparr>tick := n\<rparr>) = config_text cd bytes t w"
  by (simp add: config_text_def)

lemma held_tick [simp]: "held t d (w\<lparr>tick := n\<rparr>) = held t d w"
  by (simp add: held_def)

lemma GetVerticalConfigForTenant_cases:
  obtains e where "GetVerticalConfigForTenant cd bytes en t w = (Inl e, w\<lparr>tick := Suc (tick w)\<rparr>)"
  | d where "GetVerticalConfigForTenant cd bytes en t w = (Inr d, w\<lparr>tick := Suc (tick w)\<rparr>)" "config_text cd bytes t w = Some d" "\<not> env_fail en (tick w)"
proof -
  show ?thesis
  proof (cases "env_fail en (tick w)")
    case True
    then show ?thesis using that(1)
      by (simp add: GetVerticalConfigForTenant_def andThen_def onErr_def q_GetVerticalConfigForTenant_def query_def)
  next
    case False
    let ?g = "\<lambda>(d, b). scan_any cd bytes (jsonb_concat (vd_config d) (case tv_override b of None \<Rightarrow> JObj [] | Some v \<Rightarrow> v))"
    have "GetVerticalConfigForTenant cd bytes en t w
      = (case bound_definition t w of Inl e \<Rightarrow> Inl (no_vertical e) | Inr p \<Rightarrow> ?g p, w\<lparr>tick := Suc (tick w)\<rparr>)"
      using False by (simp add: GetVerticalConfigForTenant_def andThen_def onErr_def q_GetVerticalConfigForTenant_def query_def liftR_def
          Let_def split: sum.split)
    moreover have "config_text cd bytes t w = (case bound_definition t w of Inl e \<Rightarrow> None | Inr p \<Rightarrow> case ?g p of Inl _ \<Rightarrow> None | Inr v \<Rightarrow> Some v)"
      by (simp add: config_text_def case_prod_beta split: sum.split)
    ultimately show ?thesis using that False
      by (cases "case bound_definition t w of Inl e \<Rightarrow> Inl (no_vertical e) | Inr p \<Rightarrow> ?g p") (auto split: sum.splits)
  qed
qed

lemma load_config_cases:
  obtains e where "load_config cd bytes en t w = (Inl e, w\<lparr>tick := Suc (tick w)\<rparr>)"
  | d cfg where "load_config cd bytes en t w = (Inr cfg, w\<lparr>tick := Suc (tick w), pending := pending w @ [(t, d)]\<rparr>)"
      "config_text cd bytes t w = Some d" "Unmarshal_Config cd d = Some cfg"
proof (cases rule: GetVerticalConfigForTenant_cases [of cd bytes en t w])
  case (1 e)
  then show ?thesis using that(1) by (simp add: load_config_def andThen_def onErr_def)
next
  case (2 d)
  then show ?thesis using that
    by (cases "Unmarshal_Config cd d") (simp_all add: load_config_def andThen_def onErr_def modify_def ret_def fail_def)
qed

lemma GetConfig_cases:
  obtains cfg v expires where "GetConfig cd bytes en t w = (Inr cfg, w\<lparr>tick := Suc (tick w)\<rparr>)" "cache w t = Some (Text v, expires)"
      "env_now en (tick w) < expires" "Unmarshal_Config cd v = Some cfg"
  | "GetConfig cd bytes en t w = load_config cd bytes en t (w\<lparr>tick := Suc (tick w)\<rparr>)"
proof (cases "\<exists>v expires cfg. \<not> env_fail en (tick w) \<and> cache w t = Some (Text v, expires) \<and> env_now en (tick w) < expires \<and> Unmarshal_Config cd v = Some cfg")
  case True
  then show ?thesis using that(1) by (auto simp: GetConfig_def redis_Get_def)
next
  case False
  then have "GetConfig cd bytes en t w = load_config cd bytes en t (w\<lparr>tick := Suc (tick w)\<rparr>)"
    by (auto simp: GetConfig_def redis_Get_def split: option.split json_text.split)
  then show ?thesis by (rule that(2))
qed

text \<open>A step adds only what the tables give at that moment.\<close>

lemma held_load: "held t d (snd (load_config cd bytes en u w)) \<Longrightarrow> held t d w \<or> config_text cd bytes t w = Some d"
  by (cases rule: load_config_cases [of cd bytes en u w]) (auto simp: held_def)

lemma held_query_writes:
  "held t d (snd (Invalidate en u w)) \<Longrightarrow> held t d w"
  "held t d (snd (BindTenant False en p w)) \<Longrightarrow> held t d w"
  "held t d (snd (UpdateOverride False en u ov w)) \<Longrightarrow> held t d w"
  "held t d (snd (UnbindTenant False en u w)) \<Longrightarrow> held t d w"
  "held t d (snd (q_UpsertVerticalDefinition en q w)) \<Longrightarrow> held t d w"
  "held t d (snd (q_DeactivateVerticalDefinition en i w)) \<Longrightarrow> held t d w"
  by (auto simp: held_def Invalidate_def redis_Del_def BindTenant_def q_BindTenantVertical_def UpdateOverride_def q_UpdateTenantVerticalOverride_def
      UnbindTenant_def q_UnbindTenantVertical_def q_UpsertVerticalDefinition_def q_DeactivateVerticalDefinition_def invalidate_def
      andThen_def onErr_def query_def Let_def ret_def split: sum.splits if_splits)

lemma held_populate: "held t d (populate en i w) \<Longrightarrow> held t d w"
proof (cases "i < length (pending w)")
  case True
  then have sub: "set (take i (pending w) @ drop (Suc i) (pending w)) \<subseteq> set (pending w)"
    by (auto dest: in_set_takeD in_set_dropD)
  assume "held t d (populate en i w)"
  with True sub nth_mem [OF True] show ?thesis
    by (cases "pending w ! i") (auto simp: held_def populate_def redis_Set_def query_def Let_def split: if_splits)
qed (simp add: populate_def)

lemma held_step: "held t d (exec_vertical cd bytes en a w) \<Longrightarrow> held t d w \<or> config_text cd bytes t w = Some d"
proof (cases a)
  case (ActGet u)
  assume "held t d (exec_vertical cd bytes en a w)"
  then show ?thesis
    by (cases rule: GetConfig_cases [of cd bytes en u w]) (auto simp: ActGet dest: held_load)
qed (auto dest: held_load held_query_writes held_populate)

lemma held_run:
  assumes "\<And>t d. \<not> held t d w0" and "held t d (run_vertical cd bytes en acts w0)"
  shows "\<exists>k \<le> length acts. config_text cd bytes t (run_vertical cd bytes en (take k acts) w0) = Some d"
  using assms(2)
proof (induction acts rule: rev_induct)
  case (snoc a acts)
  then have "held t d (run_vertical cd bytes en acts w0) \<or> config_text cd bytes t (run_vertical cd bytes en acts w0) = Some d"
    by (auto dest: held_step)
  then show ?case
  proof
    assume "held t d (run_vertical cd bytes en acts w0)"
    with snoc.IH obtain k where "k \<le> length acts" "config_text cd bytes t (run_vertical cd bytes en (take k acts) w0) = Some d" by blast
    then show ?thesis by (intro exI [of _ k]) simp
  qed (auto intro!: exI [of _ "length acts"])
qed (use assms(1) in simp)

section \<open>Whose configuration, and from when\<close>

text \<open>
  C35: whatever requests, goroutines, writes and invalidations came before in whatever order, and
  whatever round trips failed, a configuration that the loader returns for a tenant is the one that the
  tables gave for that very tenant at some moment of the run.
\<close>

theorem GetConfig_from_tables:
  assumes "\<And>u d. \<not> held u d w0" and "fst (GetConfig cd bytes en t (run_vertical cd bytes en acts w0)) = Inr cfg"
  shows "\<exists>k \<le> length acts. \<exists>d. config_text cd bytes t (run_vertical cd bytes en (take k acts) w0) = Some d \<and> Unmarshal_Config cd d = Some cfg"
proof (cases rule: GetConfig_cases [of cd bytes en t "run_vertical cd bytes en acts w0"])
  case (1 cfg' v expires)
  then have "held t v (run_vertical cd bytes en acts w0)" by (auto simp: held_def)
  from held_run [OF assms(1) this] show ?thesis using 1 assms(2) by auto
next
  case 2
  let ?w = "(run_vertical cd bytes en acts w0)\<lparr>tick := Suc (tick (run_vertical cd bytes en acts w0))\<rparr>"
  from 2 assms(2) have "fst (load_config cd bytes en t ?w) = Inr cfg" by simp
  then obtain d where "config_text cd bytes t (run_vertical cd bytes en acts w0) = Some d" "Unmarshal_Config cd d = Some cfg"
    by (cases rule: load_config_cases [of cd bytes en t ?w]) auto
  then show ?thesis by (intro exI [of _ "length acts"]) simp
qed

text \<open>The entry of a tenant is absent or has expired.\<close>

definition cache_miss :: "env \<Rightarrow> uuid \<Rightarrow> vertical_db \<Rightarrow> bool" where
  "cache_miss en t w \<longleftrightarrow> (case cache w t of None \<Rightarrow> True | Some (_, expires) \<Rightarrow> expires \<le> env_now en (tick w))"

lemma GetConfig_miss: "cache_miss en t w \<Longrightarrow> GetConfig cd bytes en t w = load_config cd bytes en t (w\<lparr>tick := Suc (tick w)\<rparr>)"
  by (cases rule: GetConfig_cases [of cd bytes en t w]) (auto simp: cache_miss_def)

text \<open>On a miss the tables answer: with the current configuration, or that the tenant has none.\<close>

lemma GetConfig_current:
  assumes "calm en" and "cache_miss en t w" and "config_text cd bytes t w = Some d" and "Unmarshal_Config cd d = Some cfg"
  shows "fst (GetConfig cd bytes en t w) = Inr cfg"
proof (cases rule: GetVerticalConfigForTenant_cases [of cd bytes en t "w\<lparr>tick := Suc (tick w)\<rparr>"])
  case (1 e)
  then have False using assms(1,3)
    by (auto simp: GetVerticalConfigForTenant_def q_GetVerticalConfigForTenant_def query_def calm_def andThen_def onErr_def liftR_def Let_def
        config_text_def split: sum.splits)
  then show ?thesis ..
next
  case (2 d')
  with assms show ?thesis by (simp add: GetConfig_miss load_config_def andThen_def onErr_def modify_def ret_def)
qed

section \<open>Overrides that the loader cannot read\<close>

lemma map_of_insert_key: "map_of (insert_key k v kvs) k' = (if k' = k then Some v else map_of kvs k')"
  by (induction k v kvs rule: insert_key.induct) auto

lemma generic_entries_other: "generic_entries cd kvs m = Some m' \<Longrightarrow> k \<notin> fst ` set kvs \<Longrightarrow> map_of m' k = map_of m k"
  by (induction kvs arbitrary: m) (auto simp: map_of_insert_key split: option.splits)

lemma generic_entries_member:
  "generic_entries cd kvs m = Some m' \<Longrightarrow> distinct (map fst kvs) \<Longrightarrow> (k, JObj x) \<in> set kvs \<Longrightarrow> \<exists>x'. (k, JObj x') \<in> set m'"
proof (induction kvs arbitrary: m)
  case (Cons kv kvs)
  obtain k' v where kv: "kv = (k', v)" by (cases kv)
  from Cons.prems(1) kv obtain g where g: "generic cd v = Some g" "generic_entries cd kvs (insert_key k' g m) = Some m'"
    by (auto split: option.splits)
  show ?case
  proof (cases "k = k'")
    case True
    with Cons.prems(2,3) kv have "v = JObj x" "k \<notin> fst ` set kvs" by (force simp: image_iff)+
    with g True have "map_of m' k = Some g" by (simp add: generic_entries_other map_of_insert_key)
    moreover obtain x' where "g = JObj x'" using g(1) \<open>v = JObj x\<close> by auto
    ultimately show ?thesis by (auto dest: map_of_SomeD)
  next
    case False
    then show ?thesis using Cons kv g(2) by auto
  qed
qed simp

text \<open>A struct with an unreadable field is not read.\<close>

lemma dec_fields_fails:
  assumes "field_for fs k = Some d" and "\<And>r. \<not> snd (d v r)" and "(k, v) \<in> set kvs"
  shows "\<not> snd (dec_fields fs kvs r)"
  using assms(3)
proof (induction kvs arbitrary: r)
  case (Cons kv kvs)
  then show ?case using assms(1,2) by (cases kv) (auto split: option.split prod.split, (metis snd_conv)+)
qed simp

definition list_sections :: "string list" where
  "list_sections = [''phase_types'', ''budget_categories'', ''budget_templates'', ''expense_categories'', ''inventory_categories'', ''report_definitions'']"

lemma list_section_fails:
  assumes "sec \<in> set list_sections" and "(sec, JObj x) \<in> set kvs"
  shows "Unmarshal_Config cd (JObj kvs) = None"
proof -
  have "distinct (map fst (Config_fields cd))" by (simp add: Config_fields_def)
  note named = field_for_named [OF this]
  have "\<exists>d e. (sec, d, e) \<in> set (Config_fields cd) \<and> (\<forall>r. \<not> snd (d (JObj x) r))"
    using assms(1) unfolding list_sections_def list.set insert_iff empty_iff
    by (elim disjE) (simp_all add: Config_fields_def fld_def dec_list_def)
  then obtain d where "field_for (Config_fields cd) sec = Some d" "\<And>r. \<not> snd (d (JObj x) r)" using named by blast
  from dec_fields_fails [OF this assms(2)] have "\<not> snd (dec_struct (Config_fields cd) (JObj kvs) zero_Config)"
    by (simp add: dec_struct_def)
  then show ?thesis by (auto simp: Unmarshal_Config_def split: prod.split)
qed

text \<open>
  C36: an override that gives an object to one of the six sections that are lists (phase types, budget
  categories, budget templates, expense categories, inventory categories, report definitions), as the
  structured format with its append, override and remove does, is joined by the statement of the loader
  as a replacement of the section; the configuration is then unreadable, and every request of the
  tenant that misses the cache ends with an internal error. Of overrides of the other sections nothing
  is said.
\<close>

theorem list_section_override_blocks_tenant:
  assumes "cache_miss en t w" and "IDFromContext c = Some t"
    and "bound_definition t w = Inr (d, b)" and "vd_config d = JObj as" and "distinct (map fst as)"
    and "tv_override b = Some (JObj bs)" and "distinct (map fst bs)" and "sec \<in> set list_sections" and "(sec, JObj x) \<in> set bs"
  shows "\<exists>msg w'. UnaryInterceptor cd bytes en handler c w = (Inl (Status Internal msg), w')"
proof -
  let ?kvs = "sort_key (\<lambda>(k, _). (length k, k)) (filter (\<lambda>(k, _). k \<notin> fst ` set bs) as @ bs)"
  have mem: "(sec, JObj x) \<in> set ?kvs" using assms(9) by simp
  have "distinct (map fst (filter (\<lambda>(k, _). k \<notin> fst ` set bs) as @ bs))"
    using assms(5,7) by (auto simp: distinct_map_filter image_iff)
  then have dist: "distinct (map fst ?kvs)"
    by (metis (no_types, lifting) mset_eq_imp_distinct_iff mset_map mset_sort)
  have unreadable: "Unmarshal_Config cd v = None" if "config_text cd bytes t w = Some v" for v
  proof -
    from that assms(3,4,6) have s: "scan_any cd bytes (JObj ?kvs) = Inr v"
      by (simp add: config_text_def jsonb_concat_def split: sum.splits)
    show ?thesis
    proof (cases bytes)
      case True
      with s mem assms(8) show ?thesis by (auto simp: scan_any_def intro: list_section_fails)
    next
      case False
      with s obtain m where m: "generic_entries cd ?kvs [] = Some m" "v = JObj m" by (auto simp: scan_any_def split: option.splits)
      from generic_entries_member [OF m(1) dist mem] m(2) assms(8) show ?thesis by (auto intro: list_section_fails)
    qed
  qed
  have "\<exists>e w'. GetConfig cd bytes en t w = (Inl e, w')"
    unfolding GetConfig_miss [OF assms(1)]
    by (cases rule: load_config_cases [of cd bytes en t "w\<lparr>tick := Suc (tick w)\<rparr>"]) (auto dest: unreadable)
  then show ?thesis using assms(2) by (auto simp: UnaryInterceptor_def attachConfig_def andThen_def onErr_def)
qed

section \<open>Examples\<close>

definition vdemo_env :: env where
  "vdemo_env = \<lparr>env_uuid = (\<lambda>n. n + 1), env_now = int, env_fail = (\<lambda>_. False)\<rparr>"

definition vdemo_setup :: "vertical_action list" where
  "vdemo_setup = [ActUpsert \<lparr>up_ID = ''film'', up_Name = ''Film'', up_Version = ''1'', up_Description = None, up_Config = JObj [(''id'', JStr ''film'')]\<rparr>,
     ActBind \<lparr>bp_TenantID = 7, bp_VerticalID = ''film'', bp_ConfigOverride = NoText, bp_RegisteredBy = 9\<rparr>]"

abbreviation vrun :: "vertical_action list \<Rightarrow> vertical_db" where
  "vrun acts \<equiv> run_vertical demo_codec False vdemo_env (vdemo_setup @ acts) empty_verticals"

abbreviation vget :: "vertical_action list \<Rightarrow> string option" where
  "vget acts \<equiv> (case fst (GetConfig demo_codec False vdemo_env 7 (vrun acts)) of Inl _ \<Rightarrow> None | Inr c \<Rightarrow> Some (vc_Name c))"

lemma empty_held: "\<not> held u d empty_verticals"
  by (simp add: held_def empty_verticals_def)

theorem GetConfig_from_tables_witness:
  "\<exists>cfg. vc_Name cfg = ''Mine'' \<and> (\<exists>k \<le> 3. \<exists>d. config_text demo_codec False 7
     (run_vertical demo_codec False vdemo_env (take k (vdemo_setup @ [ActUpdate 7 (Text (JObj [(''name'', JStr ''Mine'')]))])) empty_verticals) = Some d
     \<and> Unmarshal_Config demo_codec d = Some cfg)"
proof -
  let ?acts = "[ActUpdate 7 (Text (JObj [(''name'', JStr ''Mine'')]))]"
  have "vget ?acts = Some ''Mine''" by code_simp
  then obtain cfg where cfg: "fst (GetConfig demo_codec False vdemo_env 7 (vrun ?acts)) = Inr cfg" "vc_Name cfg = ''Mine''"
    by (auto split: sum.splits)
  have "length (vdemo_setup @ ?acts) = 3" by (simp add: vdemo_setup_def)
  with GetConfig_from_tables [OF empty_held cfg(1)] cfg(2) show ?thesis by metis
qed

theorem list_section_override_blocks_tenant_witness:
  "\<exists>msg w'. UnaryInterceptor demo_codec False vdemo_env (\<lambda>_. ret ()) \<lparr>ctx_caller = None, ctx_tenant = Some 7, ctx_actor = None, ctx_vertical = None,
       ctx_incoming = (\<lambda>_. []), ctx_outgoing = (\<lambda>_. [])\<rparr> (vrun [ActUpdate 7 (Text film_json)]) = (Inl (Status Internal msg), w')"
proof (rule list_section_override_blocks_tenant [where sec = "''budget_categories''" and as = "[(''id'', JStr ''film'')]"
      and x = "[(''append'', JArr [JObj [(''id'', JStr ''vfx'')]]), (''override'', JObj [(''crew'', JObj [(''label'', JStr ''Unit'')])]), (''remove'', JArr [JStr ''cast''])]"
      and bs = "[(''budget_categories'', JObj [(''append'', JArr [JObj [(''id'', JStr ''vfx'')]]),
     (''override'', JObj [(''crew'', JObj [(''label'', JStr ''Unit'')])]), (''remove'', JArr [JStr ''cast''])])]"])
  let ?b = "\<lparr>tv_tenant = 7, tv_vertical = ''film'', tv_override = Some film_json, tv_registered_at = 1, tv_registered_by = 9\<rparr>"
    and ?d = "\<lparr>vd_id = ''film'', vd_name = ''Film'', vd_version = ''1'', vd_description = None, vd_config = JObj [(''id'', JStr ''film'')],
       vd_active = True, vd_created = 0, vd_updated = 0\<rparr>"
  show "cache_miss vdemo_env 7 (vrun [ActUpdate 7 (Text film_json)])" by code_simp
  show "bound_definition 7 (vrun [ActUpdate 7 (Text film_json)]) = Inr (?d, ?b)" by code_simp
qed (simp_all add: IDFromContext_def list_sections_def)

text \<open>
  A request that missed the cache before an update can write the old text after the invalidation of the
  update; it is then served although the tables have the new one.
\<close>

lemma stale_after_invalidation:
  "vget [ActGet 7, ActUpdate 7 (Text (JObj [(''name'', JStr ''Mine'')])), ActInvalidate 7] = Some ''Mine''"
  "vget [ActGet 7, ActUpdate 7 (Text (JObj [(''name'', JStr ''Mine'')])), ActInvalidate 7, ActPopulate 0] = Some ''''"
  by code_simp+

end
