(* ===== verification/IamText.thy ===== *)
theory IamText
  imports GoText
begin

text \<open>
  The text functions behind a tenant's record: \<^verbatim>\<open>strings.Fields\<close>, the slug of a company name
  (\<^verbatim>\<open>pkg/registration/slug.go\<close>), the currencies of countries
  (\<^verbatim>\<open>pkg/locale/currency.go\<close>), and the normalised name of the unique index on tenants.
\<close>

section \<open>Words of a text\<close>

text \<open>\<^verbatim>\<open>strings.Fields\<close>: the maximal runs without white space.\<close>

function next_field :: "string \<Rightarrow> string \<times> string" where
  "next_field s = (if s = [] \<or> head_word utf8_spaces s \<noteq> None then ([], s)
     else (case next_field (tl s) of (f, rest) \<Rightarrow> (hd s # f, rest)))"
  by pat_completeness auto
termination
  by (relation "measure length") auto

declare next_field.simps [simp del]

lemma next_field_length: "length (snd (next_field s)) \<le> length s"
proof (induction s rule: next_field.induct)
  case (1 s)
  then show ?case by (subst next_field.simps) (auto split: prod.split)
qed

lemma next_field_shrinks: "s \<noteq> [] \<Longrightarrow> head_word utf8_spaces s = None \<Longrightarrow> length (snd (next_field s)) < length s"
  using next_field_length [of "tl s"]
  by (cases s) (auto simp: next_field.simps [of "_ # _"] split: prod.split)

lemma strip_length: "length (strip ps s) \<le> length s"
  using strip_suffix [of ps s] by auto

function Fields :: "string \<Rightarrow> string list" where
  "Fields s = (let t = trim_left s in if t = [] then []
     else (case next_field t of (f, rest) \<Rightarrow> f # Fields rest))"
  by pat_completeness auto
termination
proof (relation "measure length")
  fix s t f rest
  assume t: "t = trim_left s" "t \<noteq> []" and f: "(f, rest) = next_field t"
  have "head_word utf8_spaces t = None" by (simp add: t(1) trim_left_def strip_no_head)
  then have "length (snd (next_field t)) < length t" using t(2) by (rule next_field_shrinks [rotated])
  also have "length t \<le> length s" by (simp add: t(1) trim_left_def strip_length)
  finally show "(rest, s) \<in> measure length" by (simp add: f [symmetric])
qed simp

declare Fields.simps [simp del]

text \<open>\<^verbatim>\<open>strings.Join(fields, " ")\<close>\<close>

fun join_space :: "string list \<Rightarrow> string" where
  "join_space [] = []"
| "join_space [f] = f"
| "join_space (f # fs) = f @ '' '' @ join_space fs"

section \<open>Slugs\<close>

text \<open>
  \<^verbatim>\<open>strings.ToLower\<close> as far as the slug depends on it: ASCII letters, and the two runes outside
  ASCII whose lower case is an ASCII letter (the Kelvin sign and the dotted capital I). Every other rune
  outside ASCII stays outside ASCII.
\<close>

definition lower_letter :: "char \<Rightarrow> char" where
  "lower_letter c = (if CHR ''A'' \<le> c \<and> c \<le> CHR ''Z'' then char_of ((of_char c :: nat) + 32) else c)"

fun ToLower :: "string \<Rightarrow> string" where
  "ToLower [] = []"
| "ToLower (c # cs) =
     (if c = CHR 0xE2 \<and> take 2 cs = [CHR 0x84, CHR 0xAA] then CHR ''k'' # ToLower (tl (tl cs))
      else if c = CHR 0xC4 \<and> take 1 cs = [CHR 0xB0] then CHR ''i'' # ToLower (tl cs)
      else lower_letter c # ToLower cs)"

definition slug_char :: "char \<Rightarrow> bool" where
  "slug_char c \<longleftrightarrow> (CHR ''a'' \<le> c \<and> c \<le> CHR ''z'') \<or> (CHR ''0'' \<le> c \<and> c \<le> CHR ''9'') \<or> c = CHR ''-''"

text \<open>Two or more dashes become one; then the dashes at both ends go.\<close>

fun multiDash :: "string \<Rightarrow> string" where
  "multiDash (a # b # s) = (if a = CHR ''-'' \<and> b = CHR ''-'' then multiDash (b # s) else a # multiDash (b # s))"
| "multiDash s = s"

definition trim_dashes :: "string \<Rightarrow> string" where
  "trim_dashes s = rev (dropWhile (\<lambda>c. c = CHR ''-'') (rev (dropWhile (\<lambda>c. c = CHR ''-'') s)))"

definition Slugify :: "string \<Rightarrow> string" where
  "Slugify name =
     (let s1 = ToLower (TrimSpace name);
          s2 = map (\<lambda>c. if c = CHR '' '' then CHR ''-'' else c) s1;
          s3 = filter slug_char s2;
          s4 = multiDash s3
      in trim_dashes s4)"

text \<open>
  What a slug is: letters, digits and single dashes, with no dash at either end.
\<close>

fun no_double_dash :: "string \<Rightarrow> bool" where
  "no_double_dash (a # b # s) \<longleftrightarrow> \<not> (a = CHR ''-'' \<and> b = CHR ''-'') \<and> no_double_dash (b # s)"
| "no_double_dash s \<longleftrightarrow> True"

definition slug_ok :: "string \<Rightarrow> bool" where
  "slug_ok s \<longleftrightarrow> (\<forall>c \<in> set s. slug_char c) \<and> no_double_dash s
     \<and> (s \<noteq> [] \<longrightarrow> hd s \<noteq> CHR ''-'' \<and> last s \<noteq> CHR ''-'')"

lemma set_multiDash: "set (multiDash s) \<subseteq> set s"
  by (induction s rule: multiDash.induct) auto

lemma hd_multiDash: "multiDash (b # s) = b # tl (multiDash (b # s))"
  by (induction "b # s" arbitrary: b s rule: multiDash.induct) auto

lemma no_double_multiDash: "no_double_dash (multiDash s)"
proof (induction s rule: multiDash.induct)
  case (1 a b s)
  then show ?case using hd_multiDash [of b s]
    by (cases "a = CHR ''-'' \<and> b = CHR ''-''") (auto, (metis no_double_dash.simps(1))+)
qed simp_all

lemma multiDash_id: "no_double_dash s \<Longrightarrow> multiDash s = s"
  by (induction s rule: multiDash.induct) auto

lemma no_double_drop: "no_double_dash s \<Longrightarrow> no_double_dash (drop n s)"
proof (induction n arbitrary: s)
  case (Suc n)
  then have "no_double_dash (tl s)" by (cases s rule: no_double_dash.cases) auto
  with Suc show ?case by (metis drop_Suc)
qed simp

lemma no_double_rev_iff: "no_double_dash (s @ [b, a]) \<longleftrightarrow> no_double_dash (s @ [b]) \<and> \<not> (a = CHR ''-'' \<and> b = CHR ''-'')"
proof (induction s)
  case (Cons x s)
  then show ?case by (cases s) auto
qed auto

lemma no_double_take: "no_double_dash s \<Longrightarrow> no_double_dash (take n s)"
proof (induction s arbitrary: n rule: no_double_dash.induct)
  case (1 a b s)
  have "no_double_dash (take (n - 1) (b # s))" by (rule 1(1)) (use 1(2) in simp)
  then show ?case using 1(2) by (cases n; cases "n - 1") auto
qed (auto simp: take_Cons')

lemma dropWhile_is_drop: "\<exists>n. dropWhile p s = drop n s"
  by (metis dropWhile_eq_drop)

lemma rdropWhile_is_take: "\<exists>k. rev (dropWhile p (rev s)) = take k s"
proof -
  obtain k where "dropWhile p (rev s) = drop k (rev s)" using dropWhile_is_drop by blast
  then have "rev (dropWhile p (rev s)) = take (length s - k) s" by (simp add: rev_drop)
  then show ?thesis ..
qed

lemma trim_dashes_part: "\<exists>m n. trim_dashes s = take m (drop n s)"
  unfolding trim_dashes_def using rdropWhile_is_take dropWhile_is_drop by metis

lemma hd_trim_dashes:
  assumes "trim_dashes s \<noteq> []"
  shows "hd (trim_dashes s) \<noteq> CHR ''-''"
proof -
  let ?d = "dropWhile (\<lambda>c. c = CHR ''-'') s"
  obtain k where k: "trim_dashes s = take k ?d" unfolding trim_dashes_def using rdropWhile_is_take by blast
  with assms have "hd (trim_dashes s) = hd ?d" "?d \<noteq> []" by auto
  then show ?thesis using hd_dropWhile [of "\<lambda>c. c = CHR ''-''" s] by simp
qed

lemma last_trim_dashes:
  assumes "trim_dashes s \<noteq> []"
  shows "last (trim_dashes s) \<noteq> CHR ''-''"
proof -
  let ?d = "dropWhile (\<lambda>c. c = CHR ''-'') (rev (dropWhile (\<lambda>c. c = CHR ''-'') s))"
  have "?d \<noteq> []" using assms by (simp add: trim_dashes_def)
  then have "hd ?d \<noteq> CHR ''-''" by (rule hd_dropWhile)
  then show ?thesis by (simp add: trim_dashes_def last_rev)
qed

lemma trim_dashes_id: "s \<noteq> [] \<longrightarrow> hd s \<noteq> CHR ''-'' \<and> last s \<noteq> CHR ''-'' \<Longrightarrow> trim_dashes s = s"
proof (cases s)
  case (Cons c cs)
  assume "s \<noteq> [] \<longrightarrow> hd s \<noteq> CHR ''-'' \<and> last s \<noteq> CHR ''-''"
  then have "dropWhile (\<lambda>c. c = CHR ''-'') s = s" "dropWhile (\<lambda>c. c = CHR ''-'') (rev s) = rev s"
    using Cons by (simp_all add: dropWhile_eq_self_iff hd_rev del: rev.simps)
  then show ?thesis by (simp add: trim_dashes_def)
qed (simp add: trim_dashes_def)

lemma slug_ok_Slugify: "slug_ok (Slugify name)"
proof -
  let ?s3 = "filter slug_char (map (\<lambda>c. if c = CHR '' '' then CHR ''-'' else c) (ToLower (TrimSpace name)))"
  have eq: "Slugify name = trim_dashes (multiDash ?s3)" by (simp add: Slugify_def Let_def)
  obtain m n where part: "trim_dashes (multiDash ?s3) = take m (drop n (multiDash ?s3))" using trim_dashes_part by blast
  have "set (trim_dashes (multiDash ?s3)) \<subseteq> set ?s3"
    unfolding part using set_multiDash [of ?s3] by (meson in_set_dropD in_set_takeD subset_iff)
  then have "\<forall>c \<in> set (Slugify name). slug_char c" unfolding eq by fastforce
  moreover have "no_double_dash (Slugify name)"
    unfolding eq part by (intro no_double_take no_double_drop no_double_multiDash)
  ultimately show ?thesis unfolding slug_ok_def eq using hd_trim_dashes last_trim_dashes by blast
qed

lemma ToLower_slug: "\<forall>c \<in> set s. slug_char c \<Longrightarrow> ToLower s = s"
proof (induction s)
  case (Cons c s)
  then have "slug_char c" by simp
  then have "\<not> (CHR ''A'' \<le> c \<and> c \<le> CHR ''Z'')" "c \<noteq> CHR 0xE2" "c \<noteq> CHR 0xC4"
    by (auto simp: slug_char_def less_eq_char_def)
  with Cons show ?case by (auto simp: lower_letter_def)
qed simp

lemma slug_char_not_space: "slug_char c \<Longrightarrow> p \<in> set utf8_spaces \<Longrightarrow> c \<noteq> hd p \<and> c \<noteq> last p"
  by (auto simp: utf8_spaces_def slug_char_def less_eq_char_def)

lemma head_word_member: "head_word ps s \<noteq> None \<Longrightarrow> \<exists>p \<in> set ps. p \<noteq> [] \<and> take (length p) s = p"
  by (auto simp: head_word_def find_Some_iff)

lemma TrimSpace_slug:
  assumes "\<forall>c \<in> set s. slug_char c"
  shows "TrimSpace s = s"
proof -
  have "head_word utf8_spaces s = None"
  proof (rule ccontr)
    assume "head_word utf8_spaces s \<noteq> None"
    then obtain p where p: "p \<in> set utf8_spaces" "p \<noteq> []" "take (length p) s = p"
      using head_word_member by blast
    then have "hd p \<in> set s" by (metis hd_in_set in_set_takeD)
    then show False using assms p slug_char_not_space by blast
  qed
  moreover have "head_word (map rev utf8_spaces) (rev s) = None"
  proof (rule ccontr)
    assume "head_word (map rev utf8_spaces) (rev s) \<noteq> None"
    then obtain p where p: "p \<in> set utf8_spaces" "p \<noteq> []" "take (length p) (rev s) = rev p"
      using head_word_member [of "map rev utf8_spaces" "rev s"] by auto
    then have "last p \<in> set s" by (metis hd_in_set hd_rev in_set_takeD rev_is_Nil_conv set_rev)
    then show False using assms p slug_char_not_space by blast
  qed
  ultimately show ?thesis by (simp add: TrimSpace_def trim_left_def trim_right_def strip_fix)
qed

text \<open>A slug is its own slug.\<close>

lemma Slugify_slug:
  assumes "slug_ok s"
  shows "Slugify s = s"
proof -
  have ok: "\<forall>c \<in> set s. slug_char c" using assms by (simp add: slug_ok_def)
  have "map (\<lambda>c. if c = CHR '' '' then CHR ''-'' else c) s = s"
    using ok by (intro map_idI) (auto simp: slug_char_def less_eq_char_def)
  moreover have "filter slug_char s = s" using ok by (simp add: filter_id_conv)
  moreover have "multiDash s = s" "trim_dashes s = s"
    using assms multiDash_id trim_dashes_id by (auto simp: slug_ok_def)
  ultimately show ?thesis using ok by (simp add: Slugify_def Let_def TrimSpace_slug ToLower_slug)
qed

section \<open>Currencies\<close>

definition countryCurrency :: "(string \<times> string) list" where
  "countryCurrency =
     [(''AE'', ''AED''), (''AR'', ''ARS''), (''AT'', ''EUR''), (''AU'', ''AUD''), (''BD'', ''BDT''),
      (''BE'', ''EUR''), (''BG'', ''BGN''), (''BH'', ''BHD''), (''BR'', ''BRL''), (''CA'', ''CAD''),
      (''CH'', ''CHF''), (''CL'', ''CLP''), (''CN'', ''CNY''), (''CO'', ''COP''), (''CY'', ''EUR''),
      (''CZ'', ''CZK''), (''DE'', ''EUR''), (''DK'', ''DKK''), (''EE'', ''EUR''), (''EG'', ''EGP''),
      (''ES'', ''EUR''), (''FI'', ''EUR''), (''FR'', ''EUR''), (''GB'', ''GBP''), (''GR'', ''EUR''),
      (''HK'', ''HKD''), (''HR'', ''EUR''), (''HU'', ''HUF''), (''ID'', ''IDR''), (''IE'', ''EUR''),
      (''IL'', ''ILS''), (''IN'', ''INR''), (''IS'', ''ISK''), (''IT'', ''EUR''), (''JP'', ''JPY''),
      (''KE'', ''KES''), (''KR'', ''KRW''), (''KW'', ''KWD''), (''LK'', ''LKR''), (''LT'', ''EUR''),
      (''LU'', ''EUR''), (''LV'', ''EUR''), (''MA'', ''MAD''), (''MT'', ''EUR''), (''MX'', ''MXN''),
      (''MY'', ''MYR''), (''NG'', ''NGN''), (''NL'', ''EUR''), (''NO'', ''NOK''), (''NZ'', ''NZD''),
      (''OM'', ''OMR''), (''PE'', ''PEN''), (''PH'', ''PHP''), (''PK'', ''PKR''), (''PL'', ''PLN''),
      (''PT'', ''EUR''), (''QA'', ''QAR''), (''RO'', ''RON''), (''RU'', ''RUB''), (''SA'', ''SAR''),
      (''SE'', ''SEK''), (''SG'', ''SGD''), (''SI'', ''EUR''), (''SK'', ''EUR''), (''TH'', ''THB''),
      (''TR'', ''TRY''), (''TW'', ''TWD''), (''UA'', ''UAH''), (''US'', ''USD''), (''VN'', ''VND''),
      (''ZA'', ''ZAR'')]"

definition CurrencyForCountry :: "string \<Rightarrow> string + string" where
  "CurrencyForCountry countryCode =
     (let code = ToUpper (TrimSpace countryCode) in
      if length code \<noteq> 2 then Inl ''locale: country_code must be 2 letters''
      else (case map_of countryCurrency code of
              None \<Rightarrow> Inl ''locale: no default currency mapping for country'' | Some cur \<Rightarrow> Inr cur))"

definition IsKnownCountry :: "string \<Rightarrow> bool" where
  "IsKnownCountry countryCode = (case CurrencyForCountry countryCode of Inl _ \<Rightarrow> False | Inr _ \<Rightarrow> True)"

section \<open>Columns of the tenants\<close>

text \<open>
  The unique index on names: \<^verbatim>\<open>regexp_replace(lower(trim(name)), '\s+', ' ', 'g')\<close>, with the
  white space and the letters of ASCII; beyond ASCII the server's locale decides.
\<close>

definition sql_space :: "char \<Rightarrow> bool" where
  "sql_space c \<longleftrightarrow> c \<in> {CHR '' '', CHR 0x09, CHR 0x0A, CHR 0x0B, CHR 0x0C, CHR 0x0D}"

fun collapse_spaces :: "string \<Rightarrow> string" where
  "collapse_spaces [] = []"
| "collapse_spaces (c # cs) =
     (if sql_space c then (case cs of [] \<Rightarrow> '' '' | d # _ \<Rightarrow> if sql_space d then collapse_spaces cs else CHR '' '' # collapse_spaces cs)
      else c # collapse_spaces cs)"

definition btrim :: "string \<Rightarrow> string" where
  "btrim s = rev (dropWhile (\<lambda>c. c = CHR '' '') (rev (dropWhile (\<lambda>c. c = CHR '' '') s)))"

definition normalized_name :: "string \<Rightarrow> string" where
  "normalized_name s = collapse_spaces (map lower_letter (btrim s))"

text \<open>A value for a column \<^verbatim>\<open>CHAR(n)\<close>: only spaces may exceed it.\<close>

definition char_col :: "nat \<Rightarrow> string \<Rightarrow> db_error + string" where
  "char_col n s = (if \<forall>c \<in> set (drop n s). c = CHR '' '' then Inr (take n s) else Inl (PgError ''22001''))"

definition capital_letters :: "nat \<Rightarrow> string \<Rightarrow> bool" where
  "capital_letters n s \<longleftrightarrow> length s = n \<and> (\<forall>c \<in> set s. is_upper c)"

end
