(* ===== verification/IamDb.thy ===== *)
theory IamDb
  imports IamText Json
begin

text \<open>
  The data of identity and access and its statements: the types of
  \<^verbatim>\<open>services/iam/models.go\<close>, the rows of \<^verbatim>\<open>services/iam/db/models.go\<close> and the statements of
  \<^verbatim>\<open>queries.sql.go\<close> and \<^verbatim>\<open>postgres.go\<close> over the tables of
  \<^verbatim>\<open>migrations/iam\<close> with their constraints and the trigger on role assignments. The state also holds
  the names of the tenant schemas, the refresh tokens and generation counters in Redis and the channel
  of the audit logger. A row of users, roles, invitations or purge requests has the fields of the type
  of the service, so the same record serves for both. The statement \<^verbatim>\<open>GetTenantBySlug\<close> and the
  repository methods \<^verbatim>\<open>GetRole\<close> and \<^verbatim>\<open>CreateAuditEntry\<close>, which nothing calls, are left out.
\<close>

section \<open>Types of the service\<close>

record User =
  us_ID :: uuid
  us_TenantID :: uuid
  us_Email :: string
  us_DisplayName :: string
  us_PasswordHash :: string
  us_Status :: string
  us_CreatedAt :: time

record Tenant =
  tn_ID :: uuid
  tn_Name :: string
  tn_Slug :: string
  tn_Plan :: string
  tn_Status :: string
  tn_IsDemo :: bool
  tn_CreatedAt :: time
  tn_AddressLine1 :: string
  tn_AddressLine2 :: string
  tn_City :: string
  tn_CountryCode :: string
  tn_PostalCode :: string
  tn_PrimaryCurrencyCode :: string
  tn_SuspendedAt :: "time option"
  tn_DeactivatedAt :: "time option"
  tn_HoldUntil :: "time option"
  tn_FreezeReason :: "string option"

record Role =
  ro_ID :: uuid
  ro_TenantID :: uuid
  ro_Name :: string
  ro_Permissions :: "string list"
  ro_IsSystem :: bool

record UserRole =
  ur_UserID :: uuid
  ur_RoleID :: uuid
  ur_ProjectID :: "uuid option"
  ur_AssignedBy :: uuid
  ur_AssignedAt :: time

record OIDCConfigParams =
  op_TenantID :: string
  op_IssuerURL :: string
  op_ClientID :: string
  op_ClientSecretEnc :: string
  op_Scopes :: "string list"
  op_EmailClaim :: string
  op_DisplayNameClaim :: string
  op_GroupsClaim :: string
  op_AutoProvision :: bool
  op_DefaultRole :: string

record TenantPurgeRequest =
  pq_ID :: uuid
  pq_TenantID :: uuid
  pq_Status :: string
  pq_RequestedBy :: uuid
  pq_RequestedAt :: time
  pq_RequestReason :: string
  pq_ApprovedBy :: "uuid option"
  pq_ApprovedAt :: "time option"
  pq_CancelledBy :: "uuid option"
  pq_CancelledAt :: "time option"
  pq_ExecutedAt :: "time option"
  pq_FailureReason :: "string option"
  pq_TenantName :: string
  pq_TenantSlug :: string

record Invitation =
  iv_ID :: uuid
  iv_TenantID :: uuid
  iv_Email :: string
  iv_RoleID :: "uuid option"
  iv_Token :: string
  iv_Status :: string
  iv_InvitedBy :: uuid
  iv_ExpiresAt :: time
  iv_CreatedAt :: time

text \<open>The sentinels of \<^verbatim>\<open>services/iam/errors.go\<close> and \<^verbatim>\<open>pkg/auth/errors.go\<close>.\<close>

datatype iam_sentinel =
  ErrNotPlatformAdmin | ErrTenantNotFound | ErrUserNotFound | ErrNotDeactivated | ErrUserAlreadyExists | ErrRoleNotFound
  | ErrInvitationNotFound | ErrInvitationExpired | ErrInvitationAccepted | ErrTenantSlugTaken | ErrTenantNameTaken
  | ErrInvalidPlan | ErrRoleNotProjectScoped | ErrAmbiguousEmail | ErrCountryRequired | ErrUnknownCountry
  | ErrTenantNotHoldable | ErrTenantHoldExists | ErrHoldUntilInPast | ErrHoldNarrowsIndefinite
  | ErrTenantNotPurgeable | ErrPurgeRequestExists | ErrPurgeRequestNotFound | ErrSelfApproval | ErrPurgeRequestNotApproved
  | ErrOIDCKeyNotConfigured
  | ErrInvalidCredentials | ErrAccountDeactivated | ErrAccountInvited | ErrTenantSuspended | ErrTenantInactive
  | ErrAccessTokenExpired | ErrAccessTokenInvalid | ErrRefreshTokenNotFound | ErrSessionRevoked
  | ErrOIDCConfigMissing | ErrOIDCTokenExchange | ErrOIDCClaimMapping

type_synonym iam_err = "iam_sentinel goerr"

section \<open>Rows and tables\<close>

record tenant_row =
  tr_id :: uuid
  tr_name :: string
  tr_slug :: string
  tr_plan :: string
  tr_status :: string
  tr_created :: time
  tr_demo :: bool
  tr_address1 :: "string option"
  tr_address2 :: "string option"
  tr_city :: "string option"
  tr_country :: string
  tr_postal :: "string option"
  tr_currency :: string
  tr_suspended :: "time option"
  tr_deactivated :: "time option"
  tr_hold_until :: "time option"
  tr_freeze_reason :: "string option"
  tr_purged :: "time option"

record auth_config_row =
  ag_tenant :: uuid
  ag_method :: string
  ag_issuer :: string
  ag_client :: string
  ag_secret :: string
  ag_scopes :: "string list"
  ag_email_claim :: string
  ag_display_claim :: string
  ag_groups_claim :: "string option"
  ag_auto_provision :: bool
  ag_default_role :: string

text \<open>
  The payload of a refresh token (\<^verbatim>\<open>pkg/auth/jwt.go\<close>) and an audit event
  (\<^verbatim>\<open>pkg/audit/types.go\<close>).
\<close>

record refreshPayload =
  rp_UserID :: uuid
  rp_TenantID :: uuid
  rp_Email :: string
  rp_Roles :: "string list"
  rp_Permissions :: "string list"
  rp_AuthMethod :: string
  rp_Generation :: int
  rp_TenantGeneration :: int

record AuditEvent =
  ev_ID :: uuid
  ev_TenantID :: uuid
  ev_ActorID :: uuid
  ev_ActorEmail :: string
  ev_ActorIP :: string
  ev_Action :: string
  ev_ResourceType :: string
  ev_ResourceID :: uuid
  ev_OldState :: "json option"
  ev_NewState :: "json option"
  ev_Metadata :: "json option"
  ev_OccurredAt :: time

text \<open>A key of Redis holds a value until a time.\<close>

record iam_db = io +
  tenants :: "tenant_row list"
  users :: "User list"
  roles :: "Role list"
  user_roles :: "UserRole list"
  invitations :: "Invitation list"
  auth_configs :: "auth_config_row list"
  purge_requests :: "TenantPurgeRequest list"
  schemas :: "uuid list"
  refresh_keys :: "(string \<times> refreshPayload \<times> time) list"
  usergen :: "(uuid \<times> int \<times> time) list"
  tenantgen :: "(uuid \<times> int \<times> time) list"
  audit_ch :: "AuditEvent list"
  audit_log :: "AuditEvent list"

definition empty_iam :: iam_db where
  "empty_iam = \<lparr>tick = 0, tenants = [], users = [], roles = [], user_roles = [], invitations = [], auth_configs = [],
     purge_requests = [], schemas = [], refresh_keys = [], usergen = [], tenantgen = [], audit_ch = [], audit_log = []\<rparr>"

abbreviation (input) set_tenants :: "tenant_row list \<Rightarrow> iam_db \<Rightarrow> iam_db" where
  "set_tenants rs w \<equiv> w\<lparr>tenants := rs\<rparr>"

abbreviation (input) set_users :: "User list \<Rightarrow> iam_db \<Rightarrow> iam_db" where
  "set_users rs w \<equiv> w\<lparr>users := rs\<rparr>"

abbreviation (input) set_purges :: "TenantPurgeRequest list \<Rightarrow> iam_db \<Rightarrow> iam_db" where
  "set_purges rs w \<equiv> w\<lparr>purge_requests := rs\<rparr>"

text \<open>The text of a \<^verbatim>\<open>PgError\<close> for a unique index: the SQLSTATE and the name of the index.\<close>

definition unique_on :: "string \<Rightarrow> db_error" where
  "unique_on c = PgError (''23505 '' @ c)"

definition isUniqueViolationOn :: "db_error \<Rightarrow> string \<Rightarrow> bool" where
  "isUniqueViolationOn err c \<longleftrightarrow> err = unique_on c"

definition tenant_plans :: "string list" where
  "tenant_plans = [''starter'', ''professional'', ''enterprise'']"

definition tenant_statuses :: "string list" where
  "tenant_statuses = [''active'', ''suspended'', ''grace'', ''deactivated'', ''purge_eligible'', ''purged'']"

definition user_statuses :: "string list" where
  "user_statuses = [''active'', ''invited'', ''deactivated'']"

definition tenant_check :: "tenant_row \<Rightarrow> bool" where
  "tenant_check r \<longleftrightarrow> tr_plan r \<in> set tenant_plans \<and> tr_status r \<in> set tenant_statuses
     \<and> capital_letters 2 (tr_country r) \<and> capital_letters 3 (tr_currency r)"

section \<open>Conversions\<close>

definition pgTextFromString :: "string \<Rightarrow> string option" where
  "pgTextFromString s = (if s = '''' then None else Some s)"

definition pgTextToString :: "string option \<Rightarrow> string" where
  "pgTextToString t = (case t of None \<Rightarrow> '''' | Some s \<Rightarrow> s)"

definition dbTenantToDomain :: "tenant_row \<Rightarrow> Tenant" where
  "dbTenantToDomain t =
     \<lparr>tn_ID = tr_id t, tn_Name = tr_name t, tn_Slug = tr_slug t, tn_Plan = tr_plan t, tn_Status = tr_status t,
      tn_IsDemo = tr_demo t, tn_CreatedAt = tr_created t, tn_AddressLine1 = pgTextToString (tr_address1 t),
      tn_AddressLine2 = pgTextToString (tr_address2 t), tn_City = pgTextToString (tr_city t),
      tn_CountryCode = tr_country t, tn_PostalCode = pgTextToString (tr_postal t),
      tn_PrimaryCurrencyCode = tr_currency t, tn_SuspendedAt = tr_suspended t, tn_DeactivatedAt = tr_deactivated t,
      tn_HoldUntil = tr_hold_until t, tn_FreezeReason = tr_freeze_reason t\<rparr>"

section \<open>Statements\<close>

subsection \<open>Tenants\<close>

definition q_CreateTenant :: "env \<Rightarrow> tenant_row \<Rightarrow> (iam_db, db_error, tenant_row) op" where
  "q_CreateTenant en r0 = query en (\<lambda>now w.
     case char_col 2 (tr_country r0) of Inl e \<Rightarrow> (Inl e, w) | Inr country \<Rightarrow>
     case char_col 3 (tr_currency r0) of Inl e \<Rightarrow> (Inl e, w) | Inr currency \<Rightarrow>
       let r = r0\<lparr>tr_created := now, tr_demo := False, tr_country := country, tr_currency := currency, tr_suspended := None,
                  tr_deactivated := None, tr_hold_until := None, tr_freeze_reason := None, tr_purged := None\<rparr> in
       if \<not> tenant_check r then (Inl check_violation, w)
       else if \<exists>t \<in> set (tenants w). tr_slug t = tr_slug r then (Inl ErrNoRows, w)
       else if \<exists>t \<in> set (tenants w). tr_id t = tr_id r then (Inl (unique_on ''tenants_pkey''), w)
       else if \<exists>t \<in> set (tenants w). normalized_name (tr_name t) = normalized_name (tr_name r)
         then (Inl (unique_on ''tenants_name_ci_unique''), w)
       else (Inr r, w\<lparr>tenants := tenants w @ [r]\<rparr>))"

definition q_UpdateTenantAddress ::
  "env \<Rightarrow> uuid \<Rightarrow> string option \<Rightarrow> string option \<Rightarrow> string option \<Rightarrow> string \<Rightarrow> string option \<Rightarrow> string \<Rightarrow> (iam_db, db_error, tenant_row) op" where
  "q_UpdateTenantAddress en i a1 a2 city country0 postal currency0 = query en (\<lambda>_ w.
     case char_col 2 country0 of Inl e \<Rightarrow> (Inl e, w) | Inr country \<Rightarrow>
     case char_col 3 currency0 of Inl e \<Rightarrow> (Inl e, w) | Inr currency \<Rightarrow>
       update_one (\<lambda>r. tr_id r = i)
         (\<lambda>r. r\<lparr>tr_address1 := a1, tr_address2 := a2, tr_city := city, tr_country := country, tr_postal := postal, tr_currency := currency\<rparr>)
         tenant_check tenants set_tenants w)"

definition q_GetTenant :: "env \<Rightarrow> uuid \<Rightarrow> (iam_db, db_error, tenant_row) op" where
  "q_GetTenant en i = query en (\<lambda>_ w. (row_by (\<lambda>r. tr_id r = i) (tenants w), w))"

definition q_FindTenantByNormalizedName :: "env \<Rightarrow> string \<Rightarrow> (iam_db, db_error, tenant_row) op" where
  "q_FindTenantByNormalizedName en name = query en (\<lambda>_ w.
     (row_by (\<lambda>r. normalized_name (tr_name r) = normalized_name name) (tenants w), w))"

text \<open>The clocks start at the first entry into a status.\<close>

definition enter_status :: "string \<Rightarrow> time \<Rightarrow> tenant_row \<Rightarrow> tenant_row" where
  "enter_status st now r = r\<lparr>tr_status := st,
     tr_suspended := (if st = ''suspended'' \<and> tr_suspended r = None then Some now else tr_suspended r),
     tr_deactivated := (if st = ''deactivated'' \<and> tr_deactivated r = None then Some now else tr_deactivated r)\<rparr>"

definition q_UpdateTenantStatus ::
  "env \<Rightarrow> uuid \<Rightarrow> string \<Rightarrow> time option \<Rightarrow> string option \<Rightarrow> (iam_db, db_error, tenant_row) op" where
  "q_UpdateTenantStatus en i st hold reason = query en (\<lambda>now.
     update_one (\<lambda>r. tr_id r = i)
       (\<lambda>r. (enter_status st now r)\<lparr>tr_hold_until := (if hold = None then tr_hold_until r else hold),
              tr_freeze_reason := (if reason = None then tr_freeze_reason r else reason)\<rparr>)
       tenant_check tenants set_tenants)"

definition q_CountTenantsOnHold :: "env \<Rightarrow> (iam_db, db_error, int) op" where
  "q_CountTenantsOnHold en = query en (\<lambda>_ w. (Inr (int (length (filter (\<lambda>r. tr_freeze_reason r \<noteq> None) (tenants w)))), w))"

definition q_ClearTenantLegalHold :: "env \<Rightarrow> uuid \<Rightarrow> (iam_db, db_error, tenant_row) op" where
  "q_ClearTenantLegalHold en i = query en (\<lambda>_.
     update_one (\<lambda>r. tr_id r = i) (\<lambda>r. r\<lparr>tr_hold_until := None, tr_freeze_reason := None\<rparr>) tenant_check tenants set_tenants)"

definition q_SetTenantLegalHold :: "env \<Rightarrow> uuid \<Rightarrow> time option \<Rightarrow> string option \<Rightarrow> (iam_db, db_error, tenant_row) op" where
  "q_SetTenantLegalHold en i hold reason = query en (\<lambda>_.
     update_one (\<lambda>r. tr_id r = i) (\<lambda>r. r\<lparr>tr_hold_until := hold, tr_freeze_reason := reason\<rparr>) tenant_check tenants set_tenants)"

definition q_TransitionTenantStatus :: "env \<Rightarrow> uuid \<Rightarrow> string \<Rightarrow> string \<Rightarrow> (iam_db, db_error, tenant_row) op" where
  "q_TransitionTenantStatus en i from_status to_status = query en (\<lambda>now.
     update_one (\<lambda>r. tr_id r = i \<and> tr_status r = from_status) (enter_status to_status now) tenant_check tenants set_tenants)"

definition days :: "int \<Rightarrow> time" where
  "days n = n * 86400"

text \<open>A comparison with a null time does not hold.\<close>

definition due_since :: "time option \<Rightarrow> time \<Rightarrow> bool" where
  "due_since t limit \<longleftrightarrow> (case t of None \<Rightarrow> False | Some x \<Rightarrow> x \<le> limit)"

definition due_row :: "time \<Rightarrow> tenant_row \<Rightarrow> bool" where
  "due_row now r \<longleftrightarrow>
     ((tr_status r = ''suspended'' \<and> due_since (tr_suspended r) (now - days 30))
      \<or> (tr_status r = ''grace'' \<and> due_since (tr_suspended r) (now - days 90))
      \<or> (tr_status r = ''deactivated'' \<and> due_since (tr_deactivated r) (now - days 180)))
     \<and> (tr_freeze_reason r = None \<or> due_since (tr_hold_until r) now)"

definition clock_of :: "tenant_row \<Rightarrow> time" where
  "clock_of r = (case tr_deactivated r of Some d \<Rightarrow> d | None \<Rightarrow> (case tr_suspended r of Some s \<Rightarrow> s | None \<Rightarrow> 0))"

definition q_ListTenantsDueForLifecycle :: "env \<Rightarrow> time \<Rightarrow> int \<Rightarrow> (iam_db, db_error, tenant_row list) op" where
  "q_ListTenantsDueForLifecycle en now l = query en (\<lambda>_ w.
     (page l 0 (sort_key clock_of (filter (due_row now) (tenants w))), w))"

subsection \<open>Users\<close>

definition q_CreateUser :: "env \<Rightarrow> User \<Rightarrow> (iam_db, db_error, User) op" where
  "q_CreateUser en u0 = query en (\<lambda>now w.
     let u = u0\<lparr>us_CreatedAt := now\<rparr> in
     if us_Status u \<notin> set user_statuses then (Inl check_violation, w)
     else if \<exists>x \<in> set (users w). us_TenantID x = us_TenantID u \<and> us_Email x = us_Email u then (Inl ErrNoRows, w)
     else if \<exists>x \<in> set (users w). us_ID x = us_ID u then (Inl (unique_on ''users_pkey''), w)
     else if \<forall>t \<in> set (tenants w). tr_id t \<noteq> us_TenantID u then (Inl fk_violation, w)
     else (Inr u, w\<lparr>users := users w @ [u]\<rparr>))"

definition q_GetUser :: "env \<Rightarrow> uuid \<Rightarrow> uuid \<Rightarrow> (iam_db, db_error, User) op" where
  "q_GetUser en i t = query en (\<lambda>_ w. (row_by (\<lambda>u. us_ID u = i \<and> us_TenantID u = t) (users w), w))"

definition q_GetUserByEmail :: "env \<Rightarrow> uuid \<Rightarrow> string \<Rightarrow> (iam_db, db_error, User) op" where
  "q_GetUserByEmail en t email = query en (\<lambda>_ w. (row_by (\<lambda>u. us_TenantID u = t \<and> us_Email u = email) (users w), w))"

definition q_FindTenantByEmail :: "env \<Rightarrow> string \<Rightarrow> (iam_db, db_error, uuid list) op" where
  "q_FindTenantByEmail en email = query en (\<lambda>_ w.
     (Inr (map us_TenantID (take 2 (filter (\<lambda>u. us_Email u = email) (users w)))), w))"

definition q_ListUsers :: "env \<Rightarrow> uuid \<Rightarrow> string \<Rightarrow> int \<Rightarrow> int \<Rightarrow> (iam_db, db_error, User list) op" where
  "q_ListUsers en t st l ofs = query en (\<lambda>_ w.
     (page l ofs (sort_key us_DisplayName (filter (\<lambda>u. us_TenantID u = t \<and> (st = '''' \<or> us_Status u = st)) (users w))), w))"

text \<open>An \<^verbatim>\<open>UPDATE\<close> without \<^verbatim>\<open>RETURNING\<close> answers with the number of rows.\<close>

definition update_count ::
  "('r \<Rightarrow> bool) \<Rightarrow> ('r \<Rightarrow> 'r) \<Rightarrow> ('r \<Rightarrow> bool) \<Rightarrow> ('w \<Rightarrow> 'r list) \<Rightarrow> ('r list \<Rightarrow> 'w \<Rightarrow> 'w) \<Rightarrow> ('w, db_error, nat) op" where
  "update_count p f ok tab put w =
     (let hits = filter p (tab w) in
      if \<exists>r \<in> set hits. \<not> ok (f r) then (Inl check_violation, w)
      else (Inr (length hits), put (update_rows p f (tab w)) w))"

abbreviation user_check :: "User \<Rightarrow> bool" where
  "user_check u \<equiv> us_Status u \<in> set user_statuses"

abbreviation own_user :: "uuid \<Rightarrow> uuid \<Rightarrow> User \<Rightarrow> bool" where
  "own_user t i u \<equiv> us_ID u = i \<and> us_TenantID u = t"

definition q_UpdateUser :: "env \<Rightarrow> uuid \<Rightarrow> string \<Rightarrow> string \<Rightarrow> uuid \<Rightarrow> (iam_db, db_error, nat) op" where
  "q_UpdateUser en i name st t = query en (\<lambda>_.
     update_count (own_user t i) (\<lambda>u. u\<lparr>us_DisplayName := name, us_Status := (if st = '''' then us_Status u else st)\<rparr>)
       user_check users set_users)"

definition q_UpdateUserStatus :: "env \<Rightarrow> uuid \<Rightarrow> string \<Rightarrow> uuid \<Rightarrow> (iam_db, db_error, User) op" where
  "q_UpdateUserStatus en i st t = query en (\<lambda>_. update_one (own_user t i) (\<lambda>u. u\<lparr>us_Status := st\<rparr>) user_check users set_users)"

definition q_ReactivateUser :: "env \<Rightarrow> uuid \<Rightarrow> uuid \<Rightarrow> (iam_db, db_error, User) op" where
  "q_ReactivateUser en i t = query en (\<lambda>_.
     update_one (\<lambda>u. own_user t i u \<and> us_Status u = ''deactivated'') (\<lambda>u. u\<lparr>us_Status := ''active''\<rparr>) user_check users set_users)"

definition q_UpdateUserPasswordHash :: "env \<Rightarrow> uuid \<Rightarrow> string \<Rightarrow> uuid \<Rightarrow> (iam_db, db_error, nat) op" where
  "q_UpdateUserPasswordHash en i hash t = query en (\<lambda>_.
     update_count (own_user t i) (\<lambda>u. u\<lparr>us_PasswordHash := hash\<rparr>) user_check users set_users)"

subsection \<open>Roles and their assignment\<close>

definition q_CreateRole :: "env \<Rightarrow> Role \<Rightarrow> (iam_db, db_error, Role) op" where
  "q_CreateRole en r = query en (\<lambda>_ w.
     if \<exists>x \<in> set (roles w). ro_TenantID x = ro_TenantID r \<and> ro_Name x = ro_Name r then (Inl ErrNoRows, w)
     else if \<exists>x \<in> set (roles w). ro_ID x = ro_ID r then (Inl (unique_on ''roles_pkey''), w)
     else if \<forall>t \<in> set (tenants w). tr_id t \<noteq> ro_TenantID r then (Inl fk_violation, w)
     else (Inr r, w\<lparr>roles := roles w @ [r]\<rparr>))"

definition q_GetRoleByID :: "env \<Rightarrow> uuid \<Rightarrow> uuid \<Rightarrow> (iam_db, db_error, Role) op" where
  "q_GetRoleByID en t i = query en (\<lambda>_ w. (row_by (\<lambda>r. ro_TenantID r = t \<and> ro_ID r = i) (roles w), w))"

definition q_ListRoles :: "env \<Rightarrow> uuid \<Rightarrow> (iam_db, db_error, Role list) op" where
  "q_ListRoles en t = query en (\<lambda>_ w. (Inr (sort_key ro_Name (filter (\<lambda>r. ro_TenantID r = t) (roles w))), w))"

text \<open>
  The trigger of migration 012: of the system roles, the project supervisor needs a project and the
  others must not have one.
\<close>

definition tenant_wide_roles :: "string list" where
  "tenant_wide_roles = [''super_admin'', ''manager'', ''coordinator'', ''accountant'', ''inventory_manager'', ''member'']"

definition scope_violation :: "Role list \<Rightarrow> uuid \<Rightarrow> uuid option \<Rightarrow> bool" where
  "scope_violation rs role project = (case List.find (\<lambda>r. ro_ID r = role) rs of
       None \<Rightarrow> False
     | Some r \<Rightarrow> ro_IsSystem r \<and> ((ro_Name r = ''project_supervisor'' \<and> project = None)
         \<or> (ro_Name r \<in> set tenant_wide_roles \<and> project \<noteq> None)))"

definition project_key :: "uuid option \<Rightarrow> uuid" where
  "project_key p = (case p of None \<Rightarrow> uuid_Nil | Some i \<Rightarrow> i)"

definition q_AssignRole :: "env \<Rightarrow> uuid \<Rightarrow> uuid \<Rightarrow> uuid option \<Rightarrow> uuid \<Rightarrow> (iam_db, db_error, unit) op" where
  "q_AssignRole en user role project assigner = query en (\<lambda>now w.
     if scope_violation (roles w) role project then (Inl check_violation, w)
     else if \<exists>x \<in> set (user_roles w). ur_UserID x = user \<and> ur_RoleID x = role \<and> project_key (ur_ProjectID x) = project_key project
       then (Inr (), w)
     else if (\<forall>u \<in> set (users w). us_ID u \<noteq> user) \<or> (\<forall>r \<in> set (roles w). ro_ID r \<noteq> role) \<or> (\<forall>u \<in> set (users w). us_ID u \<noteq> assigner)
       then (Inl fk_violation, w)
     else (Inr (), w\<lparr>user_roles := user_roles w @
            [\<lparr>ur_UserID = user, ur_RoleID = role, ur_ProjectID = project, ur_AssignedBy = assigner, ur_AssignedAt = now\<rparr>]\<rparr>))"

definition q_RevokeRole :: "env \<Rightarrow> uuid \<Rightarrow> uuid \<Rightarrow> (iam_db, db_error, unit) op" where
  "q_RevokeRole en user role = query en (\<lambda>_ w.
     (Inr (), w\<lparr>user_roles := filter (\<lambda>x. \<not> (ur_UserID x = user \<and> ur_RoleID x = role)) (user_roles w)\<rparr>))"

definition join_roles :: "Role list \<Rightarrow> UserRole list \<Rightarrow> Role list" where
  "join_roles rs urs = concat (map (\<lambda>ur. filter (\<lambda>r. ro_ID r = ur_RoleID ur) rs) urs)"

definition q_ListUserRoles :: "env \<Rightarrow> uuid \<Rightarrow> (iam_db, db_error, Role list) op" where
  "q_ListUserRoles en user = query en (\<lambda>_ w. (Inr (join_roles (roles w) (filter (\<lambda>x. ur_UserID x = user) (user_roles w))), w))"

definition q_GetUserPermissions :: "env \<Rightarrow> uuid \<Rightarrow> uuid option \<Rightarrow> (iam_db, db_error, string list list) op" where
  "q_GetUserPermissions en user project = query en (\<lambda>_ w.
     (Inr (map ro_Permissions (join_roles (roles w)
        (filter (\<lambda>x. ur_UserID x = user \<and> (ur_ProjectID x = None \<or> (project \<noteq> None \<and> ur_ProjectID x = project))) (user_roles w)))), w))"

subsection \<open>Invitations\<close>

definition q_CreateInvitation :: "env \<Rightarrow> Invitation \<Rightarrow> (iam_db, db_error, Invitation) op" where
  "q_CreateInvitation en v0 = query en (\<lambda>now w.
     let v = v0\<lparr>iv_Status := ''pending'', iv_CreatedAt := now\<rparr>;
         same_mail = (\<lambda>x. iv_TenantID x = iv_TenantID v \<and> iv_Email x = iv_Email v) in
     case List.find same_mail (invitations w) of
       Some old \<Rightarrow>
         let new = old\<lparr>iv_Token := iv_Token v, iv_ExpiresAt := iv_ExpiresAt v, iv_Status := ''pending'', iv_RoleID := iv_RoleID v\<rparr> in
         if \<exists>x \<in> set (invitations w). \<not> same_mail x \<and> iv_Token x = iv_Token v then (Inl (unique_on ''invitations_token_key''), w)
         else if (case iv_RoleID v of None \<Rightarrow> False | Some i \<Rightarrow> \<forall>r \<in> set (roles w). ro_ID r \<noteq> i) then (Inl fk_violation, w)
         else (Inr new, w\<lparr>invitations := update_rows same_mail (\<lambda>_. new) (invitations w)\<rparr>)
     | None \<Rightarrow>
         if \<exists>x \<in> set (invitations w). iv_ID x = iv_ID v then (Inl (unique_on ''invitations_pkey''), w)
         else if \<exists>x \<in> set (invitations w). iv_Token x = iv_Token v then (Inl (unique_on ''invitations_token_key''), w)
         else if (\<forall>t \<in> set (tenants w). tr_id t \<noteq> iv_TenantID v) \<or> (\<forall>u \<in> set (users w). us_ID u \<noteq> iv_InvitedBy v)
           \<or> (case iv_RoleID v of None \<Rightarrow> False | Some i \<Rightarrow> \<forall>r \<in> set (roles w). ro_ID r \<noteq> i) then (Inl fk_violation, w)
         else (Inr v, w\<lparr>invitations := invitations w @ [v]\<rparr>))"

definition q_GetInvitationByToken :: "env \<Rightarrow> string \<Rightarrow> (iam_db, db_error, Invitation) op" where
  "q_GetInvitationByToken en token = query en (\<lambda>now w.
     (row_by (\<lambda>v. iv_Token v = token \<and> iv_Status v = ''pending'' \<and> iv_ExpiresAt v > now) (invitations w), w))"

definition q_AcceptInvitation :: "env \<Rightarrow> uuid \<Rightarrow> (iam_db, db_error, unit) op" where
  "q_AcceptInvitation en i = query en (\<lambda>_ w.
     (Inr (), w\<lparr>invitations := update_rows (\<lambda>v. iv_ID v = i) (\<lambda>v. v\<lparr>iv_Status := ''accepted''\<rparr>) (invitations w)\<rparr>))"

subsection \<open>Purge requests\<close>

abbreviation open_request :: "TenantPurgeRequest \<Rightarrow> bool" where
  "open_request r \<equiv> pq_Status r = ''pending'' \<or> pq_Status r = ''approved''"

definition q_CreateTenantPurgeRequest ::
  "env \<Rightarrow> uuid \<Rightarrow> uuid \<Rightarrow> uuid \<Rightarrow> string \<Rightarrow> string \<Rightarrow> string \<Rightarrow> (iam_db, db_error, TenantPurgeRequest) op" where
  "q_CreateTenantPurgeRequest en i t requester reason name slug = query en (\<lambda>now w.
     let r = \<lparr>pq_ID = i, pq_TenantID = t, pq_Status = ''pending'', pq_RequestedBy = requester, pq_RequestedAt = now,
              pq_RequestReason = reason, pq_ApprovedBy = None, pq_ApprovedAt = None, pq_CancelledBy = None, pq_CancelledAt = None,
              pq_ExecutedAt = None, pq_FailureReason = None, pq_TenantName = name, pq_TenantSlug = slug\<rparr> in
     if \<exists>x \<in> set (purge_requests w). pq_ID x = i then (Inl (unique_on ''tenant_purge_requests_pkey''), w)
     else if \<exists>x \<in> set (purge_requests w). pq_TenantID x = t \<and> open_request x then (Inl (unique_on ''tenant_purge_requests_one_open''), w)
     else (Inr r, w\<lparr>purge_requests := purge_requests w @ [r]\<rparr>))"

definition q_GetOpenTenantPurgeRequest :: "env \<Rightarrow> uuid \<Rightarrow> (iam_db, db_error, TenantPurgeRequest) op" where
  "q_GetOpenTenantPurgeRequest en t = query en (\<lambda>_ w. (row_by (\<lambda>r. pq_TenantID r = t \<and> open_request r) (purge_requests w), w))"

definition q_ApproveTenantPurgeRequest :: "env \<Rightarrow> uuid \<Rightarrow> uuid \<Rightarrow> uuid \<Rightarrow> (iam_db, db_error, TenantPurgeRequest) op" where
  "q_ApproveTenantPurgeRequest en i approver t = query en (\<lambda>now.
     update_one (\<lambda>r. pq_ID r = i \<and> pq_Status r = ''pending'' \<and> pq_TenantID r = t)
       (\<lambda>r. r\<lparr>pq_Status := ''approved'', pq_ApprovedBy := Some approver, pq_ApprovedAt := Some now\<rparr>) (\<lambda>_. True) purge_requests set_purges)"

definition q_CancelTenantPurgeRequest :: "env \<Rightarrow> uuid \<Rightarrow> uuid \<Rightarrow> uuid \<Rightarrow> (iam_db, db_error, TenantPurgeRequest) op" where
  "q_CancelTenantPurgeRequest en i canceller t = query en (\<lambda>now.
     update_one (\<lambda>r. pq_ID r = i \<and> open_request r \<and> pq_TenantID r = t)
       (\<lambda>r. r\<lparr>pq_Status := ''cancelled'', pq_CancelledBy := Some canceller, pq_CancelledAt := Some now\<rparr>) (\<lambda>_. True) purge_requests set_purges)"

definition approved_at :: "TenantPurgeRequest \<Rightarrow> time" where
  "approved_at r = (case pq_ApprovedAt r of None \<Rightarrow> 0 | Some t \<Rightarrow> t)"

definition q_ListApprovedTenantPurgeRequests :: "env \<Rightarrow> int \<Rightarrow> (iam_db, db_error, TenantPurgeRequest list) op" where
  "q_ListApprovedTenantPurgeRequests en l = query en (\<lambda>_ w.
     (page l 0 (sort_key approved_at (filter (\<lambda>r. pq_Status r = ''approved'') (purge_requests w))), w))"

definition q_MarkTenantPurgeRequestFailed :: "env \<Rightarrow> uuid \<Rightarrow> string option \<Rightarrow> (iam_db, db_error, TenantPurgeRequest) op" where
  "q_MarkTenantPurgeRequestFailed en i reason = query en (\<lambda>_.
     update_one (\<lambda>r. pq_ID r = i \<and> pq_Status r = ''approved'')
       (\<lambda>r. r\<lparr>pq_Status := ''failed'', pq_FailureReason := reason\<rparr>) (\<lambda>_. True) purge_requests set_purges)"

text \<open>The three statements of the purge.\<close>

definition q_ClaimPurge :: "env \<Rightarrow> uuid \<Rightarrow> (iam_db, db_error, nat) op" where
  "q_ClaimPurge en i = query en (\<lambda>now.
     update_count (\<lambda>r. pq_ID r = i \<and> pq_Status r = ''approved'')
       (\<lambda>r. r\<lparr>pq_Status := ''executed'', pq_ExecutedAt := Some now\<rparr>) (\<lambda>_. True) purge_requests set_purges)"

definition q_DropSchema :: "env \<Rightarrow> uuid \<Rightarrow> (iam_db, db_error, unit) op" where
  "q_DropSchema en t = query en (\<lambda>_ w. (Inr (), w\<lparr>schemas := filter (\<lambda>s. s \<noteq> t) (schemas w)\<rparr>))"

definition tombstone :: "string \<Rightarrow> time \<Rightarrow> tenant_row \<Rightarrow> tenant_row" where
  "tombstone idtext now r = r\<lparr>tr_status := ''purged'', tr_name := ''purged-'' @ idtext, tr_address1 := None, tr_address2 := None,
     tr_city := None, tr_postal := None, tr_purged := Some now\<rparr>"

definition q_Tombstone :: "env \<Rightarrow> (uuid \<Rightarrow> string) \<Rightarrow> uuid \<Rightarrow> (iam_db, db_error, nat) op" where
  "q_Tombstone en idtext t = query en (\<lambda>now w.
     if (\<exists>r \<in> set (tenants w). tr_id r = t \<and> tr_status r = ''purge_eligible'')
        \<and> (\<exists>r \<in> set (tenants w). tr_id r \<noteq> t \<and> normalized_name (tr_name r) = normalized_name (''purged-'' @ idtext t))
     then (Inl (unique_on ''tenants_name_ci_unique''), w)
     else update_count (\<lambda>r. tr_id r = t \<and> tr_status r = ''purge_eligible'') (tombstone (idtext t) now) tenant_check tenants set_tenants w)"

subsection \<open>Authentication settings\<close>

definition q_GetOIDCConfig :: "env \<Rightarrow> uuid \<Rightarrow> (iam_db, db_error, auth_config_row) op" where
  "q_GetOIDCConfig en t = query en (\<lambda>_ w. (row_by (\<lambda>r. ag_tenant r = t \<and> ag_method r = ''oidc'') (auth_configs w), w))"

definition q_UpsertOIDCConfig :: "env \<Rightarrow> auth_config_row \<Rightarrow> (iam_db, db_error, unit) op" where
  "q_UpsertOIDCConfig en r = query en (\<lambda>_ w.
     if \<exists>x \<in> set (auth_configs w). ag_tenant x = ag_tenant r
     then (Inr (), w\<lparr>auth_configs := update_rows (\<lambda>x. ag_tenant x = ag_tenant r) (\<lambda>_. r) (auth_configs w)\<rparr>)
     else if \<forall>t \<in> set (tenants w). tr_id t \<noteq> ag_tenant r then (Inl fk_violation, w)
     else (Inr (), w\<lparr>auth_configs := auth_configs w @ [r]\<rparr>))"

end
