(* ===== verification/IamSession.thy ===== *)
theory IamSession
  imports IamDb Interceptor
begin

text \<open>
  The token issuer (\<^verbatim>\<open>pkg/auth/jwt.go\<close>) and the verifier that the services share
  (\<^verbatim>\<open>pkg/auth/verifier.go\<close>). A refresh token is a key of Redis whose payload carries the generations
  of its user and its tenant; raising a counter revokes every token of an older generation. The
  library of JSON web tokens, the random source and the forms of a \<^verbatim>\<open>uuid.UUID\<close> are arguments. A
  round trip to Redis fails without an effect or takes place; a payload is stored as it is, since its
  JSON form is read back unchanged.
\<close>

section \<open>Library functions and settings of the issuer\<close>

record jwtClaims =
  jc_Subject :: string
  jc_IssuedAt :: "time option"
  jc_ExpiresAt :: "time option"
  jc_TenantID :: string
  jc_Email :: string
  jc_Roles :: "string list"
  jc_Permissions :: "string list"
  jc_AuthMethod :: string

text \<open>
  \<open>tl_Sign\<close> is \<^verbatim>\<open>SignedString\<close>; \<open>tl_ParseJWT\<close> is \<^verbatim>\<open>ParseWithClaims\<close> at a time: the
  claims, or an error that says whether the token has expired. \<open>tl_rand\<close> gives the bytes that
  \<^verbatim>\<open>crypto/rand\<close> returns at a tick.
\<close>

record token_lib =
  tl_String :: "uuid \<Rightarrow> string"
  tl_Parse :: "string \<Rightarrow> uuid option"
  tl_rand :: "nat \<Rightarrow> nat \<Rightarrow> string option"
  tl_Sign :: "jwtClaims \<Rightarrow> string option"
  tl_ParseJWT :: "time \<Rightarrow> string \<Rightarrow> bool + jwtClaims"
  tl_accessTTL :: time
  tl_refreshTTL :: time

definition DefaultAccessTTL :: time where "DefaultAccessTTL = 15 * 60"
definition DefaultRefreshTTL :: time where "DefaultRefreshTTL = days 7"

definition ProviderLocal :: string where "ProviderLocal = ''local''"
definition ProviderOIDC :: string where "ProviderOIDC = ''oidc''"

record AuthResult =
  ar_UserID :: uuid
  ar_TenantID :: uuid
  ar_Email :: string
  ar_DisplayName :: string
  ar_Roles :: "string list"
  ar_Permissions :: "string list"
  ar_AuthMethod :: string
  ar_IsNewUser :: bool

record TokenPair =
  tp_AccessToken :: string
  tp_RefreshToken :: string
  tp_TokenType :: string
  tp_ExpiresIn :: int
  tp_ExpiresAt :: time

record generations =
  gn_User :: int
  gn_Tenant :: int

section \<open>Keys of Redis\<close>

definition redis_find :: "'k \<Rightarrow> time \<Rightarrow> ('k \<times> 'v \<times> time) list \<Rightarrow> 'v option" where
  "redis_find k now xs = (case List.find (\<lambda>(k', v, e). k' = k \<and> now < e) xs of None \<Rightarrow> None | Some (_, v, _) \<Rightarrow> Some v)"

definition redis_del :: "'k \<Rightarrow> ('k \<times> 'v \<times> time) list \<Rightarrow> ('k \<times> 'v \<times> time) list" where
  "redis_del k xs = filter (\<lambda>(k', v, e). k' \<noteq> k) xs"

definition redis_put :: "'k \<Rightarrow> 'v \<Rightarrow> time \<Rightarrow> ('k \<times> 'v \<times> time) list \<Rightarrow> ('k \<times> 'v \<times> time) list" where
  "redis_put k v e xs = (k, v, e) # redis_del k xs"

text \<open>A counter that is absent counts from 0.\<close>

definition redis_count :: "'k \<Rightarrow> time \<Rightarrow> ('k \<times> int \<times> time) list \<Rightarrow> int" where
  "redis_count k now xs = (case redis_find k now xs of None \<Rightarrow> 0 | Some g \<Rightarrow> g)"

section \<open>Tokens\<close>

definition hex_digit :: "nat \<Rightarrow> char" where
  "hex_digit n = (if n < 10 then char_of (48 + n) else char_of (87 + n))"

definition hex :: "string \<Rightarrow> string" where
  "hex bytes = concat (map (\<lambda>c. let n = of_char c :: nat in [hex_digit (n div 16), hex_digit (n mod 16)]) bytes)"

text \<open>\<^verbatim>\<open>rand.Read\<close> into 32 bytes, as hexadecimal digits.\<close>

definition generateToken :: "token_lib \<Rightarrow> (iam_db, iam_err, string) op" where
  "generateToken lib w =
     (case tl_rand lib (tick w) 32 of None \<Rightarrow> (Inl (Opaque ''rand''), w\<lparr>tick := Suc (tick w)\<rparr>)
      | Some b \<Rightarrow> (Inr (hex b), w\<lparr>tick := Suc (tick w)\<rparr>))"

definition currentGeneration :: "env \<Rightarrow> uuid \<Rightarrow> (iam_db, iam_err, int) op" where
  "currentGeneration en user = onErr (wrapDb ''auth: jwt: read token generation'')
     (query en (\<lambda>now w. (Inr (redis_count user now (usergen w)), w)))"

definition currentTenantGeneration :: "env \<Rightarrow> uuid \<Rightarrow> (iam_db, iam_err, int) op" where
  "currentTenantGeneration en tenant = onErr (wrapDb ''auth: jwt: read tenant generation'')
     (query en (\<lambda>now w. (Inr (redis_count tenant now (tenantgen w)), w)))"

definition issueRefreshToken :: "env \<Rightarrow> token_lib \<Rightarrow> refreshPayload \<Rightarrow> (iam_db, iam_err, string) op" where
  "issueRefreshToken en lib payload =
     andThen (onErr (Wrap ''auth: jwt: generate refresh token'') (generateToken lib))
       (\<lambda>token. andThen (onErr (wrapDb ''auth: jwt: store refresh token'')
          (query en (\<lambda>now w. (Inr (), w\<lparr>refresh_keys := redis_put token payload (now + tl_refreshTTL lib) (refresh_keys w)\<rparr>))))
       (\<lambda>_. ret token))"

definition issueWithGeneration :: "env \<Rightarrow> token_lib \<Rightarrow> AuthResult \<Rightarrow> generations \<Rightarrow> (iam_db, iam_err, TokenPair) op" where
  "issueWithGeneration en lib result gens =
     andThen (time_Now en) (\<lambda>now.
       let accessExp = now + tl_accessTTL lib;
           claims = \<lparr>jc_Subject = tl_String lib (ar_UserID result), jc_IssuedAt = Some now, jc_ExpiresAt = Some accessExp,
                     jc_TenantID = tl_String lib (ar_TenantID result), jc_Email = ar_Email result, jc_Roles = ar_Roles result,
                     jc_Permissions = ar_Permissions result, jc_AuthMethod = ar_AuthMethod result\<rparr>
       in case tl_Sign lib claims of
            None \<Rightarrow> fail (Opaque ''auth: jwt: sign access token'')
          | Some accessToken \<Rightarrow>
              andThen (issueRefreshToken en lib
                \<lparr>rp_UserID = ar_UserID result, rp_TenantID = ar_TenantID result, rp_Email = ar_Email result, rp_Roles = ar_Roles result,
                 rp_Permissions = ar_Permissions result, rp_AuthMethod = ar_AuthMethod result, rp_Generation = gn_User gens,
                 rp_TenantGeneration = gn_Tenant gens\<rparr>)
              (\<lambda>refreshToken. ret \<lparr>tp_AccessToken = accessToken, tp_RefreshToken = refreshToken, tp_TokenType = ''Bearer'',
                                 tp_ExpiresIn = tl_accessTTL lib, tp_ExpiresAt = accessExp\<rparr>))"

definition Issue :: "env \<Rightarrow> token_lib \<Rightarrow> AuthResult \<Rightarrow> (iam_db, iam_err, TokenPair) op" where
  "Issue en lib result =
     andThen (currentGeneration en (ar_UserID result)) (\<lambda>userGen.
     andThen (currentTenantGeneration en (ar_TenantID result)) (\<lambda>tenantGen.
       issueWithGeneration en lib result \<lparr>gn_User = userGen, gn_Tenant = tenantGen\<rparr>))"

text \<open>The token is read and deleted in one pipeline.\<close>

definition consumeRefreshToken :: "env \<Rightarrow> string \<Rightarrow> (iam_db, iam_err, refreshPayload) op" where
  "consumeRefreshToken en token =
     andThen (onErr (wrapDb ''auth: jwt: consume refresh token'')
       (query en (\<lambda>now w. (Inr (redis_find token now (refresh_keys w)), w\<lparr>refresh_keys := redis_del token (refresh_keys w)\<rparr>))))
     (\<lambda>r. case r of None \<Rightarrow> fail (Sentinel ErrRefreshTokenNotFound) | Some payload \<Rightarrow> ret payload)"

definition result_of :: "refreshPayload \<Rightarrow> AuthResult" where
  "result_of p = \<lparr>ar_UserID = rp_UserID p, ar_TenantID = rp_TenantID p, ar_Email = rp_Email p, ar_DisplayName = '''',
     ar_Roles = rp_Roles p, ar_Permissions = rp_Permissions p, ar_AuthMethod = rp_AuthMethod p, ar_IsNewUser = False\<rparr>"

definition Refresh :: "env \<Rightarrow> token_lib \<Rightarrow> string \<Rightarrow> (iam_db, iam_err, TokenPair) op" where
  "Refresh en lib refreshToken =
     andThen (consumeRefreshToken en refreshToken) (\<lambda>payload.
     andThen (currentGeneration en (rp_UserID payload)) (\<lambda>userGen.
     andThen (currentTenantGeneration en (rp_TenantID payload)) (\<lambda>tenantGen.
       if rp_Generation payload \<noteq> userGen \<or> rp_TenantGeneration payload \<noteq> tenantGen then fail (Sentinel ErrSessionRevoked)
       else issueWithGeneration en lib (result_of payload) \<lparr>gn_User = userGen, gn_Tenant = tenantGen\<rparr>)))"

definition Revoke :: "env \<Rightarrow> string \<Rightarrow> (iam_db, iam_err, unit) op" where
  "Revoke en refreshToken =
     andThen (onErr (wrapDb ''auth: jwt: revoke refresh token'')
       (query en (\<lambda>now w. (Inr (redis_find refreshToken now (refresh_keys w) \<noteq> None),
                          w\<lparr>refresh_keys := redis_del refreshToken (refresh_keys w)\<rparr>))))
     (\<lambda>deleted. if \<not> deleted then fail (Sentinel ErrRefreshTokenNotFound) else ret ())"

definition RevokeAllForUser :: "env \<Rightarrow> token_lib \<Rightarrow> uuid \<Rightarrow> (iam_db, iam_err, unit) op" where
  "RevokeAllForUser en lib user = onErr (wrapDb ''auth: jwt: revoke all sessions'')
     (query en (\<lambda>now w. (Inr (), w\<lparr>usergen := redis_put user (redis_count user now (usergen w) + 1) (now + tl_refreshTTL lib * 2) (usergen w)\<rparr>)))"

definition RevokeAllForTenant :: "env \<Rightarrow> token_lib \<Rightarrow> uuid \<Rightarrow> (iam_db, iam_err, unit) op" where
  "RevokeAllForTenant en lib tenant = onErr (wrapDb ''auth: jwt: revoke all tenant sessions'')
     (query en (\<lambda>now w. (Inr (), w\<lparr>tenantgen := redis_put tenant (redis_count tenant now (tenantgen w) + 1) (now + tl_refreshTTL lib * 2) (tenantgen w)\<rparr>)))"

text \<open>
  \<^verbatim>\<open>Verify\<close> of the services' verifier and \<^verbatim>\<open>Validate\<close> of the issuer run the same checks with
  the two halves of one key.
\<close>

definition Verify :: "token_lib \<Rightarrow> time \<Rightarrow> string \<Rightarrow> auth_error + Claims" where
  "Verify lib now accessToken =
     (case tl_ParseJWT lib now accessToken of
        Inl expired \<Rightarrow> Inl (if expired then ErrTokenExpired else ErrTokenInvalid)
      | Inr c \<Rightarrow> (case tl_Parse lib (jc_Subject c) of None \<Rightarrow> Inl ErrTokenInvalid | Some userID \<Rightarrow>
                 (case tl_Parse lib (jc_TenantID c) of None \<Rightarrow> Inl ErrTokenInvalid | Some tenantID \<Rightarrow>
                   Inr \<lparr>Subject = userID, ClaimsTenantID = tenantID, ClaimsEmail = jc_Email c, ClaimsRoles = jc_Roles c,
                        ClaimsPermissions = jc_Permissions c\<rparr>)))"

definition Validate :: "env \<Rightarrow> token_lib \<Rightarrow> string \<Rightarrow> (iam_db, iam_err, Claims) op" where
  "Validate en lib accessToken =
     andThen (time_Now en) (\<lambda>now. case Verify lib now accessToken of
        Inl ErrTokenExpired \<Rightarrow> fail (Sentinel ErrAccessTokenExpired)
      | Inl ErrTokenInvalid \<Rightarrow> fail (Sentinel ErrAccessTokenInvalid)
      | Inr c \<Rightarrow> ret c)"

end
