(* ===== verification/IamRepo.thy ===== *)
theory IamRepo
  imports IamSession
begin

text \<open>
  The repository of identity and access (\<^verbatim>\<open>services/iam/db/postgres.go\<close>). A method that fills the
  struct of its caller returns the struct. \<^verbatim>\<open>WithTx\<close> is the transaction of the prelude: begin wraps
  its error, commit does not.
\<close>

section \<open>Users\<close>

record UserRecord =
  ud_ID :: uuid
  ud_TenantID :: uuid
  ud_Email :: string
  ud_DisplayName :: string
  ud_PasswordHash :: string
  ud_Status :: string
  ud_Roles :: "string list"
  ud_Permissions :: "string list"

definition WithTx :: "env \<Rightarrow> (iam_db, iam_err, 'a) op \<Rightarrow> (iam_db, iam_err, 'a) op" where
  "WithTx en body = transact en (wrapDb ''iam/db: begin tx'') DbErr body"

text \<open>
  The loop over the rows does not ask \<^verbatim>\<open>rows.Err()\<close>: a result that is cut off after its start,
  which would be taken for a shorter one, is outside the model.
\<close>

definition pg_FindTenantByEmail :: "env \<Rightarrow> string \<Rightarrow> (iam_db, iam_err, uuid) op" where
  "pg_FindTenantByEmail en email =
     andThen (onErr (wrapDb ''iam/db: find tenant by email'') (q_FindTenantByEmail en email))
       (\<lambda>ts. case ts of [] \<Rightarrow> fail (Sentinel ErrUserNotFound) | [t] \<Rightarrow> ret t | _ \<Rightarrow> fail (Sentinel ErrAmbiguousEmail))"

text \<open>The permissions are collected in a map; the order in which a map is read is not fixed, so a list stands for a set.\<close>

definition loadRolesAndPerms :: "env \<Rightarrow> uuid \<Rightarrow> (iam_db, iam_err, string list \<times> string list) op" where
  "loadRolesAndPerms en user =
     andThen (onErr (wrapDb ''iam/db: load roles for user'') (q_ListUserRoles en user))
       (\<lambda>rs. ret (map ro_Name rs, remdups (concat (map ro_Permissions rs))))"

definition record_of :: "User \<Rightarrow> string list \<times> string list \<Rightarrow> UserRecord" where
  "record_of u rp = \<lparr>ud_ID = us_ID u, ud_TenantID = us_TenantID u, ud_Email = us_Email u, ud_DisplayName = us_DisplayName u,
     ud_PasswordHash = us_PasswordHash u, ud_Status = us_Status u, ud_Roles = fst rp, ud_Permissions = snd rp\<rparr>"

definition pg_GetUserByEmail :: "env \<Rightarrow> uuid \<Rightarrow> string \<Rightarrow> (iam_db, iam_err, UserRecord) op" where
  "pg_GetUserByEmail en t email =
     andThen (onErr (noRows ErrInvalidCredentials ''iam/db: get user by email'') (q_GetUserByEmail en t email))
       (\<lambda>u. andThen (loadRolesAndPerms en (us_ID u)) (\<lambda>rp. ret (record_of u rp)))"

definition pg_GetUserByID :: "env \<Rightarrow> uuid \<Rightarrow> uuid \<Rightarrow> (iam_db, iam_err, UserRecord) op" where
  "pg_GetUserByID en t user =
     andThen (onErr (noRows ErrUserNotFound ''iam/db: get user by id'') (q_GetUser en user t))
       (\<lambda>u. andThen (loadRolesAndPerms en (us_ID u)) (\<lambda>rp. ret (record_of u rp)))"

definition pg_CreateOIDCUser :: "env \<Rightarrow> uuid \<Rightarrow> string \<Rightarrow> string \<Rightarrow> (iam_db, iam_err, UserRecord) op" where
  "pg_CreateOIDCUser en t email name =
     andThen (uuid_New en) (\<lambda>i.
     andThen (onErr (wrapDb ''iam/db: create oidc user'')
       (q_CreateUser en \<lparr>us_ID = i, us_TenantID = t, us_Email = email, us_DisplayName = name, us_PasswordHash = '''', us_Status = ''active'', us_CreatedAt = 0\<rparr>))
     (\<lambda>u. ret \<lparr>ud_ID = us_ID u, ud_TenantID = us_TenantID u, ud_Email = us_Email u, ud_DisplayName = us_DisplayName u,
              ud_PasswordHash = '''', ud_Status = us_Status u, ud_Roles = [], ud_Permissions = []\<rparr>))"

definition pg_GetTenantStatus :: "env \<Rightarrow> uuid \<Rightarrow> (iam_db, iam_err, string) op" where
  "pg_GetTenantStatus en t =
     andThen (onErr (noRows ErrTenantNotFound ''iam/db: get tenant status'') (q_GetTenant en t)) (\<lambda>r. ret (tr_status r))"

definition pg_CreateUser :: "env \<Rightarrow> User \<Rightarrow> (iam_db, iam_err, User) op" where
  "pg_CreateUser en u =
     andThen (onErr (wrapDb ''iam/db: create user'') (q_CreateUser en u))
       (\<lambda>row. if us_ID row = uuid_Nil then fail (Sentinel ErrUserAlreadyExists) else ret (u\<lparr>us_CreatedAt := us_CreatedAt row\<rparr>))"

definition pg_GetUser :: "env \<Rightarrow> uuid \<Rightarrow> uuid \<Rightarrow> (iam_db, iam_err, User) op" where
  "pg_GetUser en t i =
     andThen (onErr (noRows ErrUserNotFound ''iam/db: get user'') (q_GetUser en i t))
       (\<lambda>row. if us_TenantID row \<noteq> t then fail (Sentinel ErrUserNotFound) else ret row)"

definition pg_ListUsers :: "env \<Rightarrow> uuid \<Rightarrow> string \<Rightarrow> int \<Rightarrow> int \<Rightarrow> (iam_db, iam_err, User list) op" where
  "pg_ListUsers en t st limit ofs = onErr (wrapDb ''iam/db: list users'') (q_ListUsers en t st (int32 limit) (int32 ofs))"

definition pg_UpdateUser :: "env \<Rightarrow> User \<Rightarrow> (iam_db, iam_err, unit) op" where
  "pg_UpdateUser en u =
     andThen (onErr (wrapDb ''iam/db: update user'') (q_UpdateUser en (us_ID u) (us_DisplayName u) (us_Status u) (us_TenantID u)))
       (\<lambda>n. if n = 0 then fail (Sentinel ErrUserNotFound) else ret ())"

definition pg_UpdatePasswordHash :: "env \<Rightarrow> uuid \<Rightarrow> uuid \<Rightarrow> string \<Rightarrow> (iam_db, iam_err, unit) op" where
  "pg_UpdatePasswordHash en t user hash =
     andThen (onErr (wrapDb ''iam/db: update password hash'') (q_UpdateUserPasswordHash en user hash t))
       (\<lambda>n. if n = 0 then fail (Sentinel ErrUserNotFound) else ret ())"

definition pg_DeactivateUser :: "env \<Rightarrow> uuid \<Rightarrow> uuid \<Rightarrow> (iam_db, iam_err, unit) op" where
  "pg_DeactivateUser en t i =
     andThen (onErr (wrapDb ''iam/db: deactivate user'') (q_UpdateUserStatus en i ''deactivated'' t))
       (\<lambda>row. if us_ID row = uuid_Nil then fail (Sentinel ErrUserNotFound) else ret ())"

definition pg_ActivateUser :: "env \<Rightarrow> uuid \<Rightarrow> uuid \<Rightarrow> (iam_db, iam_err, unit) op" where
  "pg_ActivateUser en t i =
     inspect (q_ReactivateUser en i t) (\<lambda>r. case r of Inr _ \<Rightarrow> ret ()
       | Inl err \<Rightarrow> if err \<noteq> ErrNoRows then fail (wrapDb ''iam/db: activate user'' err)
           else andThen (onErr (noRows ErrUserNotFound ''iam/db: activate user'') (q_GetUser en i t))
                  (\<lambda>_. fail (Sentinel ErrNotDeactivated)))"

section \<open>Tenants\<close>

definition pg_FindTenantByNormalizedName :: "env \<Rightarrow> string \<Rightarrow> (iam_db, iam_err, Tenant option) op" where
  "pg_FindTenantByNormalizedName en name =
     inspect (q_FindTenantByNormalizedName en name) (\<lambda>r. case r of Inr row \<Rightarrow> ret (Some (dbTenantToDomain row))
       | Inl err \<Rightarrow> if err = ErrNoRows then ret None else fail (wrapDb ''iam/db: find tenant by name'' err))"

definition TenantNameTakenErr :: iam_err where
  "TenantNameTakenErr = Wrap ''existing tenant'' (Sentinel ErrTenantNameTaken)"

definition pg_CreateTenant :: "env \<Rightarrow> Tenant \<Rightarrow> (iam_db, iam_err, Tenant) op" where
  "pg_CreateTenant en t =
     inspect (q_CreateTenant en
       \<lparr>tr_id = tn_ID t, tr_name = tn_Name t, tr_slug = tn_Slug t, tr_plan = tn_Plan t, tr_status = tn_Status t, tr_created = 0, tr_demo = False,
        tr_address1 = pgTextFromString (tn_AddressLine1 t), tr_address2 = pgTextFromString (tn_AddressLine2 t),
        tr_city = pgTextFromString (tn_City t), tr_country = tn_CountryCode t, tr_postal = pgTextFromString (tn_PostalCode t),
        tr_currency = tn_PrimaryCurrencyCode t, tr_suspended = None, tr_deactivated = None, tr_hold_until = None, tr_freeze_reason = None, tr_purged = None\<rparr>)
     (\<lambda>r. case r of
        Inr row \<Rightarrow> if tr_id row = uuid_Nil then fail (Sentinel ErrTenantSlugTaken)
                   else ret (t\<lparr>tn_CreatedAt := tr_created row, tn_IsDemo := tr_demo row\<rparr>)
      | Inl err \<Rightarrow> if isUniqueViolationOn err ''tenants_name_ci_unique''
          then inspect (pg_FindTenantByNormalizedName en (tn_Name t)) (\<lambda>l. case l of
                 Inr (Some existing) \<Rightarrow> fail TenantNameTakenErr | _ \<Rightarrow> fail (Sentinel ErrTenantNameTaken))
          else fail (wrapDb ''iam/db: create tenant'' err))"

definition pg_UpdateTenantAddress :: "env \<Rightarrow> Tenant \<Rightarrow> (iam_db, iam_err, Tenant) op" where
  "pg_UpdateTenantAddress en t =
     andThen (onErr (noRows ErrTenantNotFound ''iam/db: update tenant address'')
       (q_UpdateTenantAddress en (tn_ID t) (pgTextFromString (tn_AddressLine1 t)) (pgTextFromString (tn_AddressLine2 t))
          (pgTextFromString (tn_City t)) (tn_CountryCode t) (pgTextFromString (tn_PostalCode t)) (tn_PrimaryCurrencyCode t)))
     (\<lambda>row. ret (dbTenantToDomain row))"

definition pg_GetTenant :: "env \<Rightarrow> uuid \<Rightarrow> (iam_db, iam_err, Tenant) op" where
  "pg_GetTenant en i = andThen (onErr (noRows ErrTenantNotFound ''iam/db: get tenant'') (q_GetTenant en i)) (\<lambda>row. ret (dbTenantToDomain row))"

definition pg_UpdateTenantStatus :: "env \<Rightarrow> uuid \<Rightarrow> string \<Rightarrow> time option \<Rightarrow> string option \<Rightarrow> (iam_db, iam_err, unit) op" where
  "pg_UpdateTenantStatus en i st hold reason =
     andThen (onErr (noRows ErrTenantNotFound ''iam/db: update tenant status'') (q_UpdateTenantStatus en i st hold reason)) (\<lambda>_. ret ())"

definition pg_CountTenantsOnHold :: "env \<Rightarrow> (iam_db, iam_err, int) op" where
  "pg_CountTenantsOnHold en = onErr (wrapDb ''iam/db: count tenants on hold'') (q_CountTenantsOnHold en)"

definition pg_ClearTenantLegalHold :: "env \<Rightarrow> uuid \<Rightarrow> (iam_db, iam_err, Tenant) op" where
  "pg_ClearTenantLegalHold en i =
     andThen (onErr (noRows ErrTenantNotFound ''iam/db: clear tenant legal hold'') (q_ClearTenantLegalHold en i)) (\<lambda>row. ret (dbTenantToDomain row))"

definition pg_SetTenantLegalHold :: "env \<Rightarrow> uuid \<Rightarrow> time option \<Rightarrow> string \<Rightarrow> (iam_db, iam_err, Tenant) op" where
  "pg_SetTenantLegalHold en i hold reason =
     andThen (onErr (noRows ErrTenantNotFound ''iam/db: set tenant legal hold'') (q_SetTenantLegalHold en i hold (Some reason)))
       (\<lambda>row. ret (dbTenantToDomain row))"

text \<open>No row means that another has moved the tenant.\<close>

definition pg_TransitionTenantStatus :: "env \<Rightarrow> uuid \<Rightarrow> string \<Rightarrow> string \<Rightarrow> (iam_db, iam_err, Tenant option) op" where
  "pg_TransitionTenantStatus en i from_status to_status =
     inspect (q_TransitionTenantStatus en i from_status to_status) (\<lambda>r. case r of Inr row \<Rightarrow> ret (Some (dbTenantToDomain row))
       | Inl err \<Rightarrow> if err = ErrNoRows then ret None else fail (wrapDb ''iam/db: transition tenant status'' err))"

definition pg_ListTenantsDueForLifecycle :: "env \<Rightarrow> time \<Rightarrow> int \<Rightarrow> (iam_db, iam_err, Tenant list) op" where
  "pg_ListTenantsDueForLifecycle en now limit =
     andThen (onErr (wrapDb ''iam/db: list due-for-lifecycle'') (q_ListTenantsDueForLifecycle en now (int32 limit)))
       (\<lambda>rows. ret (map dbTenantToDomain rows))"

section \<open>Roles\<close>

definition pg_CreateRole :: "env \<Rightarrow> Role \<Rightarrow> (iam_db, iam_err, unit) op" where
  "pg_CreateRole en r = andThen (onErr (wrapDb ''iam/db: create role'') (q_CreateRole en r)) (\<lambda>_. ret ())"

definition pg_GetRoleByID :: "env \<Rightarrow> uuid \<Rightarrow> uuid \<Rightarrow> (iam_db, iam_err, Role) op" where
  "pg_GetRoleByID en t i = onErr (noRows ErrRoleNotFound ''iam/db: get role by id'') (q_GetRoleByID en t i)"

definition pg_ListRoles :: "env \<Rightarrow> uuid \<Rightarrow> (iam_db, iam_err, Role list) op" where
  "pg_ListRoles en t = onErr (wrapDb ''iam/db: list roles'') (q_ListRoles en t)"

definition pg_AssignRole :: "env \<Rightarrow> UserRole \<Rightarrow> (iam_db, iam_err, unit) op" where
  "pg_AssignRole en ur =
     onErr (wrapDb ''iam/db: assign role'') (q_AssignRole en (ur_UserID ur) (ur_RoleID ur) (ur_ProjectID ur) (ur_AssignedBy ur))"

definition pg_RevokeRole :: "env \<Rightarrow> uuid \<Rightarrow> uuid \<Rightarrow> (iam_db, iam_err, unit) op" where
  "pg_RevokeRole en user role = onErr (wrapDb ''iam/db: revoke role'') (q_RevokeRole en user role)"

definition pg_GetUserPermissions :: "env \<Rightarrow> uuid \<Rightarrow> uuid option \<Rightarrow> (iam_db, iam_err, string list) op" where
  "pg_GetUserPermissions en user project =
     andThen (onErr (wrapDb ''iam/db: get user permissions'') (q_GetUserPermissions en user project)) (\<lambda>ps. ret (remdups (concat ps)))"

section \<open>Invitations\<close>

definition pg_CreateInvitation :: "env \<Rightarrow> Invitation \<Rightarrow> (iam_db, iam_err, Invitation) op" where
  "pg_CreateInvitation en v =
     andThen (onErr (wrapDb ''iam/db: create invitation'') (q_CreateInvitation en v)) (\<lambda>row. ret (v\<lparr>iv_CreatedAt := iv_CreatedAt row\<rparr>))"

definition pg_GetInvitationByToken :: "env \<Rightarrow> string \<Rightarrow> (iam_db, iam_err, Invitation) op" where
  "pg_GetInvitationByToken en token = onErr (noRows ErrInvitationNotFound ''iam/db: get invitation by token'') (q_GetInvitationByToken en token)"

definition pg_MarkInvitationAccepted :: "env \<Rightarrow> uuid \<Rightarrow> (iam_db, iam_err, unit) op" where
  "pg_MarkInvitationAccepted en i = onErr (wrapDb ''iam/db: mark invitation accepted'') (q_AcceptInvitation en i)"

section \<open>Authentication settings\<close>

record OIDCConfig =
  oc_TenantID :: uuid
  oc_IssuerURL :: string
  oc_ClientID :: string
  oc_ClientSecret :: string
  oc_Scopes :: "string list"
  oc_EmailClaim :: string
  oc_DisplayNameClaim :: string
  oc_GroupsClaim :: string
  oc_AutoProvision :: bool
  oc_DefaultRole :: string

definition pg_GetOIDCConfig :: "env \<Rightarrow> uuid \<Rightarrow> (iam_db, iam_err, OIDCConfig) op" where
  "pg_GetOIDCConfig en t =
     andThen (onErr (noRows ErrOIDCConfigMissing ''iam/db: get oidc config'') (q_GetOIDCConfig en t))
       (\<lambda>r. ret \<lparr>oc_TenantID = t, oc_IssuerURL = ag_issuer r, oc_ClientID = ag_client r, oc_ClientSecret = ag_secret r, oc_Scopes = ag_scopes r,
                 oc_EmailClaim = ag_email_claim r, oc_DisplayNameClaim = ag_display_claim r, oc_GroupsClaim = pgTextToString (ag_groups_claim r),
                 oc_AutoProvision = ag_auto_provision r, oc_DefaultRole = ag_default_role r\<rparr>)"

definition default_to :: "string \<Rightarrow> string \<Rightarrow> string" where
  "default_to d s = (if s = '''' then d else s)"

definition pg_UpsertOIDCConfig :: "env \<Rightarrow> (string \<Rightarrow> uuid option) \<Rightarrow> OIDCConfigParams \<Rightarrow> (iam_db, iam_err, unit) op" where
  "pg_UpsertOIDCConfig en parse p =
     (let scopes = (if op_Scopes p = [] then [''openid'', ''email'', ''profile''] else op_Scopes p);
          emailClaim = default_to ''email'' (op_EmailClaim p);
          displayClaim = default_to ''name'' (op_DisplayNameClaim p);
          defaultRole = default_to ''member'' (op_DefaultRole p)
      in case parse (op_TenantID p) of
           None \<Rightarrow> fail (Opaque ''iam/db: upsert oidc config: invalid tenant_id'')
         | Some t \<Rightarrow> onErr (wrapDb ''iam/db: upsert oidc config for tenant'') (q_UpsertOIDCConfig en
             \<lparr>ag_tenant = t, ag_method = ''oidc'', ag_issuer = op_IssuerURL p, ag_client = op_ClientID p, ag_secret = op_ClientSecretEnc p,
              ag_scopes = scopes, ag_email_claim = emailClaim, ag_display_claim = displayClaim,
              ag_groups_claim = (if op_GroupsClaim p = '''' then None else Some (op_GroupsClaim p)),
              ag_auto_provision = op_AutoProvision p, ag_default_role = defaultRole\<rparr>))"

section \<open>Purge requests\<close>

definition pg_CreateTenantPurgeRequest :: "env \<Rightarrow> TenantPurgeRequest \<Rightarrow> (iam_db, iam_err, TenantPurgeRequest) op" where
  "pg_CreateTenantPurgeRequest en r =
     onErr (\<lambda>err. if isUniqueViolationOn err ''tenant_purge_requests_one_open'' then Sentinel ErrPurgeRequestExists
                  else wrapDb ''iam/db: create purge request'' err)
       (q_CreateTenantPurgeRequest en (pq_ID r) (pq_TenantID r) (pq_RequestedBy r) (pq_RequestReason r) (pq_TenantName r) (pq_TenantSlug r))"

definition pg_GetOpenTenantPurgeRequest :: "env \<Rightarrow> uuid \<Rightarrow> (iam_db, iam_err, TenantPurgeRequest) op" where
  "pg_GetOpenTenantPurgeRequest en t = onErr (noRows ErrPurgeRequestNotFound ''iam/db: get open purge request'') (q_GetOpenTenantPurgeRequest en t)"

definition pg_ApproveTenantPurgeRequest :: "env \<Rightarrow> uuid \<Rightarrow> uuid \<Rightarrow> uuid \<Rightarrow> (iam_db, iam_err, TenantPurgeRequest) op" where
  "pg_ApproveTenantPurgeRequest en t i approver =
     onErr (noRows ErrPurgeRequestNotFound ''iam/db: approve purge request'') (q_ApproveTenantPurgeRequest en i approver t)"

definition pg_CancelTenantPurgeRequest :: "env \<Rightarrow> uuid \<Rightarrow> uuid \<Rightarrow> uuid \<Rightarrow> (iam_db, iam_err, TenantPurgeRequest) op" where
  "pg_CancelTenantPurgeRequest en t i canceller =
     onErr (noRows ErrPurgeRequestNotFound ''iam/db: cancel purge request'') (q_CancelTenantPurgeRequest en i canceller t)"

definition pg_ListApprovedTenantPurgeRequests :: "env \<Rightarrow> int \<Rightarrow> (iam_db, iam_err, TenantPurgeRequest list) op" where
  "pg_ListApprovedTenantPurgeRequests en limit =
     onErr (wrapDb ''iam/db: list approved purge requests'') (q_ListApprovedTenantPurgeRequests en (int32 limit))"

definition pg_MarkTenantPurgeRequestFailed :: "env \<Rightarrow> uuid \<Rightarrow> string \<Rightarrow> (iam_db, iam_err, TenantPurgeRequest) op" where
  "pg_MarkTenantPurgeRequestFailed en i reason =
     onErr (noRows ErrPurgeRequestNotFound ''iam/db: mark purge request failed'') (q_MarkTenantPurgeRequestFailed en i (pgTextFromString reason))"

definition pg_PurgeTenantSchemaAndTombstone :: "env \<Rightarrow> (uuid \<Rightarrow> string) \<Rightarrow> uuid \<Rightarrow> uuid \<Rightarrow> (iam_db, iam_err, unit) op" where
  "pg_PurgeTenantSchemaAndTombstone en idtext t i =
     transact en (wrapDb ''iam/db: purge begin tx'') DbErr
       (andThen (onErr (wrapDb ''iam/db: claim purge request'') (q_ClaimPurge en i))
         (\<lambda>claimed. if claimed = 0 then fail (Sentinel ErrPurgeRequestNotApproved)
          else andThen (onErr (wrapDb ''iam/db: drop schema'') (q_DropSchema en t))
         (\<lambda>_. andThen (onErr (wrapDb ''iam/db: tombstone tenant'') (q_Tombstone en idtext t))
         (\<lambda>n. if n = 0 then fail (Sentinel ErrTenantNotPurgeable) else ret ()))))"

end
