(* ===== verification/IamAuth.thy ===== *)
theory IamAuth
  imports IamRepo
begin

text \<open>
  Authentication (\<^verbatim>\<open>pkg/auth\<close>): password hashes with their format, the local provider, the
  provider for an external identity provider and the choice between them; the encryption of client
  secrets (\<^verbatim>\<open>pkg/crypto\<close>) and the store that decrypts them (\<^verbatim>\<open>cmd/iam/main.go\<close>). The
  cryptographic primitives, Base64, the scans of \<^verbatim>\<open>fmt.Sscanf\<close> and the exchange of an authorization
  code with the provider over HTTP are arguments.
\<close>

record OIDCClaims =
  od_Subject :: string
  od_Email :: string
  od_DisplayName :: string
  od_Groups :: "string list"

record auth_lib =
  al_IDKey :: "string \<Rightarrow> string \<Rightarrow> nat \<Rightarrow> nat \<Rightarrow> nat \<Rightarrow> nat \<Rightarrow> string"
  al_bcrypt :: "string \<Rightarrow> string \<Rightarrow> bool"
  al_b64 :: "string \<Rightarrow> string"
  al_unb64 :: "string \<Rightarrow> string option"
  al_scan_version :: "string \<Rightarrow> int option"
  al_scan_params :: "string \<Rightarrow> (nat \<times> nat \<times> nat) option"
  al_seal :: "string \<Rightarrow> string \<Rightarrow> string \<Rightarrow> string"
  al_open :: "string \<Rightarrow> string \<Rightarrow> string \<Rightarrow> string option"
  al_b64url :: "string \<Rightarrow> string"
  al_unb64url :: "string \<Rightarrow> string option"
  al_exchange :: "nat \<Rightarrow> OIDCConfig \<Rightarrow> string \<Rightarrow> string \<Rightarrow> string \<Rightarrow> OIDCClaims option"

text \<open>Bytes from the random source.\<close>

definition rand_bytes :: "token_lib \<Rightarrow> nat \<Rightarrow> 's goerr \<Rightarrow> (iam_db, 's goerr, string) op" where
  "rand_bytes lib n err w =
     ((case tl_rand lib (tick w) n of None \<Rightarrow> Inl err | Some b \<Rightarrow> Inr b), w\<lparr>tick := Suc (tick w)\<rparr>)"

section \<open>Passwords\<close>

definition argon2idPrefix :: string where "argon2idPrefix = ''$argon2id$''"
definition bcryptPrefixes :: "string list" where "bcryptPrefixes = [''$2a$'', ''$2b$'', ''$2y$'', ''$2x$'']"

definition HasPrefix :: "string \<Rightarrow> string \<Rightarrow> bool" where
  "HasPrefix s p \<longleftrightarrow> take (length p) s = p"

record Argon2idParams =
  a2_Time :: nat
  a2_Memory :: nat
  a2_Threads :: nat
  a2_KeyLen :: nat
  a2_SaltLen :: nat

definition DefaultArgon2idParams :: Argon2idParams where
  "DefaultArgon2idParams = \<lparr>a2_Time = 2, a2_Memory = 64 * 1024, a2_Threads = 4, a2_KeyLen = 32, a2_SaltLen = 16\<rparr>"

definition argon2_Version :: nat where "argon2_Version = 19"

definition encodeArgon2id :: "auth_lib \<Rightarrow> string \<Rightarrow> string \<Rightarrow> Argon2idParams \<Rightarrow> string" where
  "encodeArgon2id al hash salt p =
     ''$argon2id$v='' @ itoa argon2_Version @ ''$m='' @ itoa (a2_Memory p) @ '',t='' @ itoa (a2_Time p) @ '',p='' @ itoa (a2_Threads p)
       @ ''$'' @ al_b64 al salt @ ''$'' @ al_b64 al hash"

definition Hash :: "token_lib \<Rightarrow> auth_lib \<Rightarrow> string \<Rightarrow> (iam_db, iam_err, string) op" where
  "Hash lib al password =
     (let p = DefaultArgon2idParams in
      andThen (rand_bytes lib (a2_SaltLen p) (Opaque ''auth: argon2id: generate salt''))
        (\<lambda>salt. let hash = al_IDKey al password salt (a2_Time p) (a2_Memory p) (a2_Threads p) (a2_KeyLen p) in
           ret (encodeArgon2id al hash salt p)))"

fun split_at :: "char \<Rightarrow> string \<Rightarrow> string list" where
  "split_at d [] = [[]]"
| "split_at d (c # s) = (if c = d then [] # split_at d s else (case split_at d s of [] \<Rightarrow> [[c]] | f # fs \<Rightarrow> (c # f) # fs))"

definition decodeArgon2id :: "auth_lib \<Rightarrow> string \<Rightarrow> (string \<times> string \<times> Argon2idParams) option" where
  "decodeArgon2id al encoded =
     (let parts = split_at (CHR ''$'') encoded in
      if length parts \<noteq> 6 then None
      else (case al_scan_version al (parts ! 2) of None \<Rightarrow> None | Some version \<Rightarrow>
        if version \<noteq> int argon2_Version then None
        else (case al_scan_params al (parts ! 3) of None \<Rightarrow> None | Some (mem, t, p) \<Rightarrow>
          (case al_unb64 al (parts ! 4) of None \<Rightarrow> None | Some salt \<Rightarrow>
            (case al_unb64 al (parts ! 5) of None \<Rightarrow> None | Some hash \<Rightarrow>
              Some (hash, salt, \<lparr>a2_Time = t, a2_Memory = mem, a2_Threads = p, a2_KeyLen = length hash, a2_SaltLen = length salt\<rparr>))))))"

definition isBcryptHash :: "string \<Rightarrow> bool" where
  "isBcryptHash hash \<longleftrightarrow> (\<exists>prefix \<in> set bcryptPrefixes. HasPrefix hash prefix)"

definition verifyArgon2id :: "auth_lib \<Rightarrow> string \<Rightarrow> string \<Rightarrow> bool" where
  "verifyArgon2id al password encoded =
     (case decodeArgon2id al encoded of None \<Rightarrow> False
      | Some (hash, salt, p) \<Rightarrow> al_IDKey al password salt (a2_Time p) (a2_Memory p) (a2_Threads p) (a2_KeyLen p) = hash)"

text \<open>\<^verbatim>\<open>DualVerifier.Verify\<close>: whether the password matches.\<close>

definition verify_password :: "auth_lib \<Rightarrow> string \<Rightarrow> string \<Rightarrow> bool" where
  "verify_password al password hash =
     (if HasPrefix hash argon2idPrefix then verifyArgon2id al password hash
      else if isBcryptHash hash then al_bcrypt al hash password
      else False)"

definition NeedsRehash :: "auth_lib \<Rightarrow> string \<Rightarrow> bool" where
  "NeedsRehash al hash =
     (if isBcryptHash hash then True
      else if \<not> HasPrefix hash argon2idPrefix then False
      else (case decodeArgon2id al hash of None \<Rightarrow> False
        | Some (_, _, p) \<Rightarrow> let d = DefaultArgon2idParams in
            a2_Time p < a2_Time d \<or> a2_Memory p < a2_Memory d \<or> a2_Threads p < a2_Threads d))"

section \<open>Client secrets\<close>

definition keyLen :: nat where "keyLen = 32"
definition nonceLen :: nat where "nonceLen = 12"

definition Encrypt :: "token_lib \<Rightarrow> auth_lib \<Rightarrow> string \<Rightarrow> string \<Rightarrow> (iam_db, iam_err, string) op" where
  "Encrypt lib al key plaintext =
     (if length key \<noteq> keyLen then fail (Opaque ''crypto: key must be exactly 32 bytes (AES-256)'')
      else andThen (rand_bytes lib nonceLen (Opaque ''crypto: generate nonce''))
        (\<lambda>nonce. ret (al_b64url al (nonce @ al_seal al key nonce plaintext))))"

definition Decrypt :: "auth_lib \<Rightarrow> string \<Rightarrow> string \<Rightarrow> string option" where
  "Decrypt al key encoded =
     (if length key \<noteq> keyLen then None
      else (case al_unb64url al encoded of None \<Rightarrow> None | Some d \<Rightarrow>
        if length d < nonceLen + 16 then None
        else al_open al key (take nonceLen d) (drop nonceLen d)))"

definition decrypting_GetOIDCConfig :: "env \<Rightarrow> auth_lib \<Rightarrow> string \<Rightarrow> uuid \<Rightarrow> (iam_db, iam_err, OIDCConfig) op" where
  "decrypting_GetOIDCConfig en al key t =
     andThen (pg_GetOIDCConfig en t) (\<lambda>cfg. case Decrypt al key (oc_ClientSecret cfg) of
        None \<Rightarrow> fail (Wrap ''iam: decrypt client secret for tenant'' (Opaque ''crypto: decryption failed''))
      | Some plaintext \<Rightarrow> ret (cfg\<lparr>oc_ClientSecret := plaintext\<rparr>))"

section \<open>Providers\<close>

record AuthRequest =
  aq_TenantID :: uuid
  aq_Email :: string
  aq_Password :: string
  aq_AuthorizationCode :: string
  aq_RedirectURI :: string
  aq_CodeVerifier :: string

definition tenantStatusError :: "string \<Rightarrow> iam_sentinel option" where
  "tenantStatusError st = (if st = ''active'' then None else if st = ''suspended'' then Some ErrTenantSuspended else Some ErrTenantInactive)"

definition check_tenant :: "env \<Rightarrow> uuid \<Rightarrow> (iam_db, iam_err, unit) op" where
  "check_tenant en t =
     andThen (onErr (Wrap ''auth: check tenant'') (pg_GetTenantStatus en t))
       (\<lambda>st. case tenantStatusError st of Some e \<Rightarrow> fail (Sentinel e) | None \<Rightarrow> ret ())"

definition result_for :: "string \<Rightarrow> bool \<Rightarrow> UserRecord \<Rightarrow> AuthResult" where
  "result_for how is_new u = \<lparr>ar_UserID = ud_ID u, ar_TenantID = ud_TenantID u, ar_Email = ud_Email u, ar_DisplayName = ud_DisplayName u,
     ar_Roles = ud_Roles u, ar_Permissions = ud_Permissions u, ar_AuthMethod = how, ar_IsNewUser = is_new\<rparr>"

definition local_Authenticate :: "env \<Rightarrow> auth_lib \<Rightarrow> AuthRequest \<Rightarrow> (iam_db, iam_err, AuthResult) op" where
  "local_Authenticate en al req =
     andThen (check_tenant en (aq_TenantID req)) (\<lambda>_.
     andThen (onErr (\<lambda>_. Sentinel ErrInvalidCredentials) (pg_GetUserByEmail en (aq_TenantID req) (aq_Email req))) (\<lambda>user.
       if ud_Status user = ''deactivated'' then fail (Sentinel ErrAccountDeactivated)
       else if ud_Status user = ''invited'' then fail (Sentinel ErrAccountInvited)
       else if ud_PasswordHash user = '''' then fail (Sentinel ErrInvalidCredentials)
       else if \<not> verify_password al (aq_Password req) (ud_PasswordHash user) then fail (Sentinel ErrInvalidCredentials)
       else ret (result_for ProviderLocal False user)))"

definition exchange :: "auth_lib \<Rightarrow> OIDCConfig \<Rightarrow> AuthRequest \<Rightarrow> (iam_db, iam_err, OIDCClaims) op" where
  "exchange al cfg req w =
     ((case al_exchange al (tick w) cfg (aq_AuthorizationCode req) (aq_RedirectURI req) (aq_CodeVerifier req) of
         None \<Rightarrow> Inl (Sentinel ErrOIDCTokenExchange) | Some c \<Rightarrow> Inr c), w\<lparr>tick := Suc (tick w)\<rparr>)"

definition oidc_Authenticate :: "env \<Rightarrow> auth_lib \<Rightarrow> string \<Rightarrow> AuthRequest \<Rightarrow> (iam_db, iam_err, AuthResult) op" where
  "oidc_Authenticate en al key req =
     andThen (check_tenant en (aq_TenantID req)) (\<lambda>_.
     andThen (onErr (\<lambda>_. Wrap '''' (Sentinel ErrOIDCConfigMissing)) (decrypting_GetOIDCConfig en al key (aq_TenantID req))) (\<lambda>cfg.
     andThen (onErr (Wrap '''') (exchange al cfg req)) (\<lambda>claims.
       if od_Email claims = '''' then fail (Wrap ''email claim is empty'' (Sentinel ErrOIDCClaimMapping))
       else inspect (pg_GetUserByEmail en (aq_TenantID req) (od_Email claims)) (\<lambda>r. case r of
           Inl _ \<Rightarrow>
             if \<not> oc_AutoProvision cfg then fail (Sentinel ErrInvalidCredentials)
             else let name = (if od_DisplayName claims = '''' then od_Email claims else od_DisplayName claims) in
               andThen (onErr (Wrap ''auth: JIT provision user'') (pg_CreateOIDCUser en (aq_TenantID req) (od_Email claims) name))
                 (\<lambda>user. ret (result_for ProviderOIDC True user))
         | Inr user \<Rightarrow>
             if ud_Status user = ''deactivated'' then fail (Sentinel ErrAccountDeactivated)
             else ret (result_for ProviderOIDC False user)))))"

text \<open>
  The choice of the provider, with an external provider wired: any error of the store selects the
  local one.
\<close>

definition Resolve :: "env \<Rightarrow> auth_lib \<Rightarrow> string \<Rightarrow> uuid \<Rightarrow> (iam_db, iam_err, bool) op" where
  "Resolve en al key t = inspect (decrypting_GetOIDCConfig en al key t) (\<lambda>r. case r of Inr _ \<Rightarrow> ret True | Inl _ \<Rightarrow> ret False)"

definition Authenticate :: "env \<Rightarrow> auth_lib \<Rightarrow> string \<Rightarrow> AuthRequest \<Rightarrow> (iam_db, iam_err, AuthResult) op" where
  "Authenticate en al key req =
     (if aq_AuthorizationCode req \<noteq> '''' then oidc_Authenticate en al key req
      else andThen (Resolve en al key (aq_TenantID req))
        (\<lambda>oidc. if oidc then oidc_Authenticate en al key req else local_Authenticate en al req))"

end
