(* ===== verification/IamService.thy ===== *)
theory IamService
  imports IamAuth
begin

text \<open>
  The service of identity and access (\<^verbatim>\<open>services/iam/service.go\<close>): sessions, users, roles, tenants,
  invitations and the settings of an external identity provider. The record of the service holds what
  \<^verbatim>\<open>NewService\<close> and the \<^verbatim>\<open>With...\<close> methods put there; the migrator of tenant schemas, an
  interface of the service, takes the schemas that exist and says whether it succeeded and which exist
  then. A login starts \<open>svc_rehashIfNeeded\<close> in the background: it is an operation of its own
  that may run at any time after.
\<close>

section \<open>The service\<close>

record iam_service =
  sv_env :: env
  sv_tok :: token_lib
  sv_lib :: auth_lib
  sv_oidcKey :: string
  sv_migrator :: "(uuid \<Rightarrow> uuid list \<Rightarrow> bool \<times> uuid list) option"
  sv_audit :: bool
  sv_Error :: "iam_err \<Rightarrow> string"

definition permUserManage :: string where "permUserManage = ''user:manage''"
definition permLedgerRead :: string where "permLedgerRead = ''ledger:read''"
definition permLedgerWrite :: string where "permLedgerWrite = ''ledger:write''"
definition permLedgerPost :: string where "permLedgerPost = ''ledger:post''"
definition permLedgerAdmin :: string where "permLedgerAdmin = ''ledger:admin''"

definition systemRoles :: "(string \<times> string list) list" where
  "systemRoles =
     [(''super_admin'',
         [''production:read'', ''production:write'', ''budget:read'', ''budget:write'', ''budget:approve'', ''expense:read'', ''expense:submit'',
          ''expense:approve'', ''inventory:read'', ''inventory:checkout'', ''report:read'', permLedgerRead, permLedgerWrite, permLedgerPost,
          permLedgerAdmin, permUserManage, ''billing:read'', ''billing:manage'', ''document:read'', ''document:write'', ''document:delete'',
          ''notifications:read'', ''notifications:manage'']),
      (''manager'',
         [''production:read'', ''production:write'', ''budget:read'', ''budget:approve'', ''expense:read'', ''expense:approve'',
          ''inventory:read'', ''inventory:checkout'', ''report:read'', permLedgerRead, ''billing:read'', ''billing:manage'',
          ''document:read'', ''document:write'', ''document:delete'', ''notifications:read'', ''notifications:manage'']),
      (''coordinator'',
         [''production:read'', ''production:write'', ''budget:read'', ''budget:write'', ''expense:read'', ''expense:approve'',
          ''inventory:read'', ''inventory:checkout'', ''report:read'', permLedgerRead, ''document:read'', ''document:write'']),
      (''accountant'',
         [''budget:read'', ''expense:read'', ''expense:submit'', ''expense:approve'', ''report:read'', permLedgerRead, permLedgerWrite,
          permLedgerPost, ''billing:read'', ''document:read'', ''document:write'']),
      (''member'', [''production:read'', ''expense:submit'', ''document:read'']),
      (''inventory_manager'',
         [''inventory:read'', ''inventory:write'', ''inventory:checkout'', ''inventory:retire'', ''document:read'']),
      (''project_supervisor'',
         [''production:read'', ''budget:read'', ''expense:read'', ''expense:submit'', ''expense:approve'', ''resource:manage'',
          ''inventory:read'', ''inventory:checkout'', ''document:read'', ''document:write''])]"

section \<open>Audit events\<close>

text \<open>
  \<^verbatim>\<open>Logger.Log\<close>: the event goes into a channel of 1000 places or, when that is full, is dropped.
  The background writer takes events from the channel in order and writes them as a batch; a batch that
  the store refuses is lost.
\<close>

definition audit_buffer :: nat where "audit_buffer = 1000"

definition audit_Log :: "env \<Rightarrow> AuditEvent \<Rightarrow> (iam_db, iam_err, unit) op" where
  "audit_Log en ev =
     andThen (id_or_New en (ev_ID ev)) (\<lambda>i.
       modify (\<lambda>w. if length (audit_ch w) < audit_buffer then w\<lparr>audit_ch := audit_ch w @ [ev\<lparr>ev_ID := i\<rparr>]\<rparr> else w))"

definition audit_flush :: "env \<Rightarrow> nat \<Rightarrow> (iam_db, iam_err, unit) op" where
  "audit_flush en n =
     andThen (gets (\<lambda>w. take n (audit_ch w))) (\<lambda>batch.
     andThen (modify (\<lambda>w. w\<lparr>audit_ch := drop n (audit_ch w)\<rparr>)) (\<lambda>_.
       inspect (query en (\<lambda>_ w. (Inr (), w\<lparr>audit_log := audit_log w @ batch\<rparr>))) (\<lambda>_. ret ())))"

definition ActorFromContext :: "ctx \<Rightarrow> ActorInfo" where
  "ActorFromContext ctx = (case ctx_actor ctx of None \<Rightarrow> \<lparr>actor_user = uuid_Nil, actor_email = '''', actor_ip = ''''\<rparr> | Some a \<Rightarrow> a)"

definition tenant_event ::
  "uuid \<Rightarrow> ActorInfo \<Rightarrow> string \<Rightarrow> json option \<Rightarrow> json option \<Rightarrow> json option \<Rightarrow> time \<Rightarrow> AuditEvent" where
  "tenant_event t a action before after meta now =
     \<lparr>ev_ID = uuid_Nil, ev_TenantID = t, ev_ActorID = actor_user a, ev_ActorEmail = actor_email a, ev_ActorIP = actor_ip a, ev_Action = action,
      ev_ResourceType = ''tenant'', ev_ResourceID = t, ev_OldState = before, ev_NewState = after, ev_Metadata = meta, ev_OccurredAt = now\<rparr>"

definition mustMarshalHoldState :: "Tenant \<Rightarrow> json" where
  "mustMarshalHoldState t = JObj
     ((case tn_FreezeReason t of None \<Rightarrow> [] | Some r \<Rightarrow> [(''freeze_reason'', JStr r)])
      @ (case tn_HoldUntil t of None \<Rightarrow> [] | Some h \<Rightarrow> [(''hold_until'', JStr (format_RFC3339 h))])
      @ [(''status'', JStr (tn_Status t))])"

definition mustMarshalClearReason :: "string \<Rightarrow> json" where
  "mustMarshalClearReason reason = (if reason = '''' then JObj [] else JObj [(''reason'', JStr reason)])"

section \<open>Sessions\<close>

definition svc_Login :: "iam_service \<Rightarrow> uuid \<Rightarrow> string \<Rightarrow> string \<Rightarrow> (iam_db, iam_err, TokenPair) op" where
  "svc_Login s tenantID0 email password =
     andThen (if tenantID0 = uuid_Nil then onErr (Wrap ''iam: resolve tenant'') (pg_FindTenantByEmail (sv_env s) email) else ret tenantID0)
       (\<lambda>tenantID. andThen (onErr (Wrap ''iam: login'') (Authenticate (sv_env s) (sv_lib s) (sv_oidcKey s)
          \<lparr>aq_TenantID = tenantID, aq_Email = email, aq_Password = password, aq_AuthorizationCode = '''', aq_RedirectURI = '''', aq_CodeVerifier = ''''\<rparr>))
       (\<lambda>result. onErr (Wrap ''iam: issue token'') (Issue (sv_env s) (sv_tok s) result)))"

definition svc_rehashIfNeeded :: "iam_service \<Rightarrow> uuid \<Rightarrow> string \<Rightarrow> string \<Rightarrow> (iam_db, iam_err, unit) op" where
  "svc_rehashIfNeeded s tenantID email password =
     inspect (pg_GetUserByEmail (sv_env s) tenantID email) (\<lambda>r. case r of Inl _ \<Rightarrow> ret ()
       | Inr u \<Rightarrow> if \<not> NeedsRehash (sv_lib s) (ud_PasswordHash u) then ret ()
           else inspect (Hash (sv_tok s) (sv_lib s) password) (\<lambda>h. case h of Inl _ \<Rightarrow> ret ()
             | Inr newHash \<Rightarrow> inspect (pg_UpdatePasswordHash (sv_env s) tenantID (ud_ID u) newHash) (\<lambda>_. ret ())))"

definition svc_RefreshToken :: "iam_service \<Rightarrow> string \<Rightarrow> (iam_db, iam_err, TokenPair) op" where
  "svc_RefreshToken s token = onErr (Wrap ''iam: refresh token'') (Refresh (sv_env s) (sv_tok s) token)"

definition svc_Logout :: "iam_service \<Rightarrow> string \<Rightarrow> (iam_db, iam_err, unit) op" where
  "svc_Logout s token = onErr (Wrap ''iam: logout'') (Revoke (sv_env s) token)"

definition svc_GetCurrentUser :: "iam_service \<Rightarrow> string \<Rightarrow> (iam_db, iam_err, User \<times> Tenant) op" where
  "svc_GetCurrentUser s accessToken =
     andThen (onErr (Wrap ''iam: validate token'') (Validate (sv_env s) (sv_tok s) accessToken)) (\<lambda>claims.
     andThen (onErr (Wrap ''iam: get user'') (pg_GetUser (sv_env s) (ClaimsTenantID claims) (Subject claims))) (\<lambda>user.
     andThen (onErr (Wrap ''iam: get tenant'') (pg_GetTenant (sv_env s) (ClaimsTenantID claims))) (\<lambda>tenant. ret (user, tenant))))"

section \<open>Users\<close>

definition prepareNewUser :: "iam_service \<Rightarrow> User \<Rightarrow> string \<Rightarrow> (iam_db, iam_err, User) op" where
  "prepareNewUser s u plainPassword =
     andThen (id_or_New (sv_env s) (us_ID u)) (\<lambda>i.
       let st = (if us_Status u = '''' then ''active'' else us_Status u) in
       andThen (onErr (Wrap ''iam: hash password'') (Hash (sv_tok s) (sv_lib s) plainPassword))
         (\<lambda>hash. ret (u\<lparr>us_ID := i, us_Status := st, us_PasswordHash := hash\<rparr>)))"

definition svc_CreateUser :: "iam_service \<Rightarrow> User \<Rightarrow> string \<Rightarrow> (iam_db, iam_err, User) op" where
  "svc_CreateUser s u plainPassword =
     andThen (prepareNewUser s u plainPassword) (\<lambda>u'. onErr (Wrap ''iam: create user'') (pg_CreateUser (sv_env s) u'))"

definition svc_GetUser :: "iam_service \<Rightarrow> uuid \<Rightarrow> uuid \<Rightarrow> (iam_db, iam_err, User) op" where
  "svc_GetUser s t i = onErr (Wrap ''iam: get user'') (pg_GetUser (sv_env s) t i)"

definition svc_ListUsers :: "iam_service \<Rightarrow> uuid \<Rightarrow> string \<Rightarrow> int \<Rightarrow> int \<Rightarrow> (iam_db, iam_err, User list) op" where
  "svc_ListUsers s t st limit ofs =
     (let limit' = (if limit \<le> 0 \<or> limit > 100 then 20 else limit) in
      onErr (Wrap ''iam: list users'') (pg_ListUsers (sv_env s) t st limit' ofs))"

definition svc_UpdateUser :: "iam_service \<Rightarrow> User \<Rightarrow> (iam_db, iam_err, User) op" where
  "svc_UpdateUser s u = andThen (onErr (Wrap ''iam: update user'') (pg_UpdateUser (sv_env s) u)) (\<lambda>_. ret u)"

definition svc_DeactivateUser :: "iam_service \<Rightarrow> uuid \<Rightarrow> uuid \<Rightarrow> (iam_db, iam_err, unit) op" where
  "svc_DeactivateUser s t i =
     andThen (onErr (Wrap ''iam: deactivate user'') (pg_DeactivateUser (sv_env s) t i))
       (\<lambda>_. onErr (Wrap ''iam: deactivate user: revoke sessions'') (RevokeAllForUser (sv_env s) (sv_tok s) i))"

definition svc_ActivateUser :: "iam_service \<Rightarrow> uuid \<Rightarrow> uuid \<Rightarrow> (iam_db, iam_err, unit) op" where
  "svc_ActivateUser s t i = onErr (Wrap ''iam: activate user'') (pg_ActivateUser (sv_env s) t i)"

definition svc_ChangePassword :: "iam_service \<Rightarrow> uuid \<Rightarrow> uuid \<Rightarrow> string \<Rightarrow> string \<Rightarrow> (iam_db, iam_err, unit) op" where
  "svc_ChangePassword s t user oldPassword newPassword =
     andThen (onErr (Wrap ''iam: get user for password change'') (pg_GetUserByID (sv_env s) t user)) (\<lambda>u.
       if \<not> verify_password (sv_lib s) oldPassword (ud_PasswordHash u) then fail (Sentinel ErrInvalidCredentials)
       else andThen (onErr (Wrap ''iam: hash new password'') (Hash (sv_tok s) (sv_lib s) newPassword)) (\<lambda>hash.
         andThen (onErr (Wrap ''iam: update password hash'') (pg_UpdatePasswordHash (sv_env s) t user hash))
         (\<lambda>_. onErr (Wrap ''iam: change password: revoke sessions'') (RevokeAllForUser (sv_env s) (sv_tok s) user))))"

section \<open>Roles and permissions\<close>

definition svc_AssignRole :: "iam_service \<Rightarrow> uuid \<Rightarrow> uuid \<Rightarrow> uuid \<Rightarrow> uuid \<Rightarrow> (iam_db, iam_err, unit) op" where
  "svc_AssignRole s t user role assigner =
     andThen (pg_GetRoleByID (sv_env s) t role) (\<lambda>_.
     andThen (pg_GetUser (sv_env s) t user) (\<lambda>_.
     andThen (time_Now (sv_env s)) (\<lambda>now.
       onErr (Wrap ''iam: assign role'') (pg_AssignRole (sv_env s)
         \<lparr>ur_UserID = user, ur_RoleID = role, ur_ProjectID = None, ur_AssignedBy = assigner, ur_AssignedAt = now\<rparr>))))"

definition svc_RevokeRole :: "iam_service \<Rightarrow> uuid \<Rightarrow> uuid \<Rightarrow> uuid \<Rightarrow> (iam_db, iam_err, unit) op" where
  "svc_RevokeRole s t user role =
     andThen (pg_GetRoleByID (sv_env s) t role) (\<lambda>_.
     andThen (pg_GetUser (sv_env s) t user) (\<lambda>_.
     andThen (onErr (Wrap ''iam: revoke role'') (pg_RevokeRole (sv_env s) user role)) (\<lambda>_.
       onErr (Wrap ''iam: revoke role: revoke sessions'') (RevokeAllForUser (sv_env s) (sv_tok s) user))))"

definition svc_ListRoles :: "iam_service \<Rightarrow> uuid \<Rightarrow> (iam_db, iam_err, Role list) op" where
  "svc_ListRoles s t = andThen (onErr (Wrap ''iam: list roles'') (pg_ListRoles (sv_env s) t)) (\<lambda>rs. ret (take 200 rs))"

fun holds :: "string list \<Rightarrow> string \<Rightarrow> bool" where
  "holds [] permission = False"
| "holds (p # ps) permission = (if p = permission then True else holds ps permission)"

definition svc_CheckPermission :: "iam_service \<Rightarrow> uuid \<Rightarrow> string \<Rightarrow> uuid option \<Rightarrow> (iam_db, iam_err, bool) op" where
  "svc_CheckPermission s user permission project =
     andThen (onErr (Wrap ''iam: get permissions for user'') (pg_GetUserPermissions (sv_env s) user project)) (\<lambda>perms. ret (holds perms permission))"

definition projectScopedRoles :: "string list" where
  "projectScopedRoles = [''project_supervisor'']"

definition svc_AssignProjectRole :: "iam_service \<Rightarrow> uuid \<Rightarrow> uuid \<Rightarrow> uuid \<Rightarrow> uuid \<Rightarrow> uuid \<Rightarrow> (iam_db, iam_err, unit) op" where
  "svc_AssignProjectRole s t user role project assigner =
     andThen (onErr (Wrap ''iam: lookup role'') (pg_GetRoleByID (sv_env s) t role)) (\<lambda>r.
       if ro_IsSystem r \<and> ro_Name r \<notin> set projectScopedRoles then fail (Sentinel ErrRoleNotProjectScoped)
       else andThen (pg_GetUser (sv_env s) t user) (\<lambda>_.
         andThen (time_Now (sv_env s)) (\<lambda>now.
           onErr (Wrap ''iam: assign project role'') (pg_AssignRole (sv_env s)
             \<lparr>ur_UserID = user, ur_RoleID = role, ur_ProjectID = Some project, ur_AssignedBy = assigner, ur_AssignedAt = now\<rparr>))))"

section \<open>Tenants\<close>

text \<open>The country and the currency of a tenant, in capitals, the currency by default that of the country.\<close>

definition locate :: "string \<Rightarrow> Tenant \<Rightarrow> iam_err + Tenant" where
  "locate what t =
     (if tn_CountryCode t = '''' then Inl (Sentinel ErrCountryRequired)
      else let country = ToUpper (tn_CountryCode t); t1 = t\<lparr>tn_CountryCode := country\<rparr> in
        if \<not> IsKnownCountry country then Inl (Wrap what (Sentinel ErrUnknownCountry))
        else if tn_PrimaryCurrencyCode t = ''''
        then (case CurrencyForCountry country of
                Inl e \<Rightarrow> Inl (Wrap ''iam: derive currency'' (Opaque e))
              | Inr currency \<Rightarrow> Inr (t1\<lparr>tn_PrimaryCurrencyCode := currency\<rparr>))
        else Inr (t1\<lparr>tn_PrimaryCurrencyCode := ToUpper (tn_PrimaryCurrencyCode t)\<rparr>))"

definition svc_SetTenantAddress :: "iam_service \<Rightarrow> Tenant \<Rightarrow> (iam_db, iam_err, Tenant) op" where
  "svc_SetTenantAddress s t =
     andThen (liftR (locate ''iam: set tenant address'' t))
       (\<lambda>t'. onErr (Wrap ''iam: update tenant address'') (pg_UpdateTenantAddress (sv_env s) t'))"

definition isValidPlan :: "string \<Rightarrow> bool" where
  "isValidPlan plan \<longleftrightarrow> plan = ''starter'' \<or> plan = ''professional'' \<or> plan = ''enterprise''"

definition seed_role :: "iam_service \<Rightarrow> uuid \<Rightarrow> string \<times> string list \<Rightarrow> (iam_db, iam_err, unit) op" where
  "seed_role s t sr =
     andThen (uuid_New (sv_env s)) (\<lambda>i. onErr (Wrap ''seed role'') (pg_CreateRole (sv_env s)
       \<lparr>ro_ID = i, ro_TenantID = t, ro_Name = fst sr, ro_Permissions = snd sr, ro_IsSystem = True\<rparr>))"

definition seedSystemRoles :: "iam_service \<Rightarrow> uuid \<Rightarrow> (iam_db, iam_err, unit) op" where
  "seedSystemRoles s t = andThen (forEach (seed_role s t) systemRoles) (\<lambda>_. ret ())"

definition migrate_schema :: "iam_service \<Rightarrow> uuid \<Rightarrow> (iam_db, iam_err, unit) op" where
  "migrate_schema s t = (case sv_migrator s of None \<Rightarrow> ret ()
     | Some m \<Rightarrow> (\<lambda>w. case m t (schemas w) of (ok, names) \<Rightarrow>
         ((if ok then Inr () else Inl (Wrap ''iam: migrate schema for tenant'' (Opaque ''migrate''))), w\<lparr>schemas := names\<rparr>)))"

definition default_tenant :: "uuid \<Rightarrow> Tenant \<Rightarrow> Tenant" where
  "default_tenant i t = t\<lparr>tn_ID := i, tn_Slug := (if tn_Slug t = '''' then Slugify (tn_Name t) else tn_Slug t),
     tn_Status := (if tn_Status t = '''' then ''active'' else tn_Status t), tn_Plan := (if tn_Plan t = '''' then ''starter'' else tn_Plan t)\<rparr>"

definition svc_CreateTenant :: "iam_service \<Rightarrow> Tenant \<Rightarrow> (iam_db, iam_err, Tenant) op" where
  "svc_CreateTenant s t0 =
     (let t1 = t0\<lparr>tn_Name := join_space (Fields (tn_Name t0))\<rparr> in
      andThen (onErr (Wrap ''iam: create tenant'') (pg_FindTenantByNormalizedName (sv_env s) (tn_Name t1))) (\<lambda>existing.
        case existing of Some _ \<Rightarrow> fail TenantNameTakenErr | None \<Rightarrow>
        andThen (id_or_New (sv_env s) (tn_ID t1)) (\<lambda>i.
          let t2 = default_tenant i t1 in
          if \<not> isValidPlan (tn_Plan t2) then fail (Sentinel ErrInvalidPlan)
          else andThen (liftR (locate ''iam: create tenant'' t2)) (\<lambda>t3.
            andThen (onErr (Wrap ''iam: create tenant'') (pg_CreateTenant (sv_env s) t3)) (\<lambda>t4.
            andThen (onErr (Wrap ''iam: seed system roles for tenant'') (seedSystemRoles s (tn_ID t4))) (\<lambda>_.
            andThen (migrate_schema s (tn_ID t4)) (\<lambda>_. ret t4)))))))"

definition svc_GetTenant :: "iam_service \<Rightarrow> uuid \<Rightarrow> (iam_db, iam_err, Tenant) op" where
  "svc_GetTenant s i = onErr (Wrap ''iam: get tenant'') (pg_GetTenant (sv_env s) i)"

text \<open>Status, then sessions, then the record that is returned; a hold is audited.\<close>

definition svc_SuspendTenant :: "iam_service \<Rightarrow> ctx \<Rightarrow> uuid \<Rightarrow> time option \<Rightarrow> string option \<Rightarrow> (iam_db, iam_err, Tenant) op" where
  "svc_SuspendTenant s ctx i holdUntil freezeReason =
     andThen (if freezeReason \<noteq> None \<and> sv_audit s
              then andThen (onErr (Wrap ''iam: suspend tenant'') (pg_GetTenant (sv_env s) i)) (\<lambda>t. ret (Some t)) else ret None) (\<lambda>before.
     andThen (onErr (Wrap ''iam: suspend tenant'') (pg_UpdateTenantStatus (sv_env s) i ''suspended'' holdUntil freezeReason)) (\<lambda>_.
     andThen (onErr (Wrap ''iam: suspend tenant: revoke sessions'') (RevokeAllForTenant (sv_env s) (sv_tok s) i)) (\<lambda>_.
     andThen (onErr (Wrap ''iam: suspend tenant'') (pg_GetTenant (sv_env s) i)) (\<lambda>after.
       case before of None \<Rightarrow> ret after
       | Some b \<Rightarrow> andThen (time_Now (sv_env s)) (\<lambda>now.
           andThen (audit_Log (sv_env s) (tenant_event i (ActorFromContext ctx) ''legal_hold_applied''
             (Some (mustMarshalHoldState b)) (Some (mustMarshalHoldState after)) None now)) (\<lambda>_. ret after))))))"

definition svc_ClearTenantLegalHold :: "iam_service \<Rightarrow> ctx \<Rightarrow> uuid \<Rightarrow> string \<Rightarrow> (iam_db, iam_err, Tenant) op" where
  "svc_ClearTenantLegalHold s ctx i reason =
     andThen (onErr (Wrap ''iam: clear legal hold'') (pg_GetTenant (sv_env s) i)) (\<lambda>before.
     andThen (onErr (Wrap ''iam: clear legal hold'') (pg_ClearTenantLegalHold (sv_env s) i)) (\<lambda>after.
       if tn_FreezeReason before \<noteq> None \<and> sv_audit s
       then andThen (time_Now (sv_env s)) (\<lambda>now.
           andThen (audit_Log (sv_env s) (tenant_event i (ActorFromContext ctx) ''legal_hold_cleared''
             (Some (mustMarshalHoldState before)) (Some (mustMarshalHoldState after)) (Some (mustMarshalClearReason reason)) now)) (\<lambda>_. ret after))
       else ret after))"

section \<open>Invitations\<close>

definition svc_InviteUser :: "iam_service \<Rightarrow> Invitation \<Rightarrow> (iam_db, iam_err, Invitation) op" where
  "svc_InviteUser s v =
     andThen (case iv_RoleID v of None \<Rightarrow> ret () | Some r \<Rightarrow> andThen (pg_GetRoleByID (sv_env s) (iv_TenantID v) r) (\<lambda>_. ret ())) (\<lambda>_.
     andThen (id_or_New (sv_env s) (iv_ID v)) (\<lambda>i.
     andThen (onErr (Wrap ''iam: generate invitation token'') (generateToken (sv_tok s))) (\<lambda>token.
     andThen (time_Now (sv_env s)) (\<lambda>now.
       onErr (Wrap ''iam: create invitation'') (pg_CreateInvitation (sv_env s)
         (v\<lparr>iv_ID := i, iv_Token := token, iv_Status := ''pending'', iv_ExpiresAt := now + days 7\<rparr>))))))"

definition accept_writes :: "iam_service \<Rightarrow> Invitation \<Rightarrow> User \<Rightarrow> (iam_db, iam_err, unit) op" where
  "accept_writes s v u =
     andThen (onErr (Wrap ''iam: create user'') (pg_CreateUser (sv_env s) u)) (\<lambda>_.
     andThen (case iv_RoleID v of None \<Rightarrow> ret ()
       | Some r \<Rightarrow> andThen (pg_GetRoleByID (sv_env s) (iv_TenantID v) r) (\<lambda>_.
           andThen (time_Now (sv_env s)) (\<lambda>now.
           onErr (Wrap ''iam: assign role'') (pg_AssignRole (sv_env s)
             \<lparr>ur_UserID = us_ID u, ur_RoleID = r, ur_ProjectID = None, ur_AssignedBy = iv_InvitedBy v, ur_AssignedAt = now\<rparr>)))) (\<lambda>_.
       pg_MarkInvitationAccepted (sv_env s) (iv_ID v)))"

definition svc_AcceptInvitation :: "iam_service \<Rightarrow> string \<Rightarrow> string \<Rightarrow> (iam_db, iam_err, TokenPair) op" where
  "svc_AcceptInvitation s token plainPassword =
     andThen (onErr (\<lambda>_. Sentinel ErrInvitationNotFound) (pg_GetInvitationByToken (sv_env s) token)) (\<lambda>v.
       if iv_Status v = ''accepted'' then fail (Sentinel ErrInvitationAccepted)
       else andThen (time_Now (sv_env s)) (\<lambda>now.
         if now > iv_ExpiresAt v then fail (Sentinel ErrInvitationExpired)
         else andThen (onErr (Wrap ''iam: accept invitation: prepare user'') (prepareNewUser s
             \<lparr>us_ID = uuid_Nil, us_TenantID = iv_TenantID v, us_Email = iv_Email v, us_DisplayName = takeWhile (\<lambda>c. c \<noteq> CHR ''@'') (iv_Email v),
              us_PasswordHash = '''', us_Status = ''active'', us_CreatedAt = 0\<rparr> plainPassword)) (\<lambda>u.
           andThen (WithTx (sv_env s) (accept_writes s v u)) (\<lambda>_.
             onErr (Wrap ''iam: issue token after invitation'') (Issue (sv_env s) (sv_tok s)
               \<lparr>ar_UserID = us_ID u, ar_TenantID = us_TenantID u, ar_Email = us_Email u, ar_DisplayName = us_DisplayName u, ar_Roles = [],
                ar_Permissions = [], ar_AuthMethod = ProviderLocal, ar_IsNewUser = False\<rparr>)))))"

section \<open>Settings of an external identity provider\<close>

definition svc_SetOIDCConfig :: "iam_service \<Rightarrow> OIDCConfigParams \<Rightarrow> (iam_db, iam_err, unit) op" where
  "svc_SetOIDCConfig s p =
     (if length (sv_oidcKey s) = 0 then fail (Sentinel ErrOIDCKeyNotConfigured)
      else andThen (onErr (Wrap ''iam: encrypt client secret'') (Encrypt (sv_tok s) (sv_lib s) (sv_oidcKey s) (op_ClientSecretEnc p)))
        (\<lambda>enc. onErr (Wrap ''iam: upsert oidc config'') (pg_UpsertOIDCConfig (sv_env s) (tl_Parse (sv_tok s)) (p\<lparr>op_ClientSecretEnc := enc\<rparr>))))"

end
