(* ===== verification/IamLifecycle.thy ===== *)
theory IamLifecycle
  imports IamService
begin

text \<open>
  The end of a tenant's life: the transitions of the retention policy
  (\<^verbatim>\<open>services/iam/lifecycle.go\<close>), legal holds (\<^verbatim>\<open>retention_override.go\<close>), the purge that two
  people decide (\<^verbatim>\<open>purge.go\<close>), the consumer of billing events (\<^verbatim>\<open>billing_consumer.go\<close>), and the
  loops of the two batch programs \<^verbatim>\<open>cmd/retention-sweeper\<close> and \<^verbatim>\<open>cmd/purge-worker\<close> without
  their logs and metrics.
\<close>

section \<open>Transitions\<close>

definition SuspensionGracePeriod :: time where "SuspensionGracePeriod = days 30"
definition GraceToDeactivatedDuration :: time where "GraceToDeactivatedDuration = days 90"
definition DeactivatedToPurgeDuration :: time where "DeactivatedToPurgeDuration = days 180"

definition TenantStatusActive :: string where "TenantStatusActive = ''active''"
definition TenantStatusSuspended :: string where "TenantStatusSuspended = ''suspended''"
definition TenantStatusGrace :: string where "TenantStatusGrace = ''grace''"
definition TenantStatusDeactivated :: string where "TenantStatusDeactivated = ''deactivated''"
definition TenantStatusPurgeEligible :: string where "TenantStatusPurgeEligible = ''purge_eligible''"

lemmas tenant_status_defs = TenantStatusActive_def TenantStatusSuspended_def TenantStatusGrace_def TenantStatusDeactivated_def
  TenantStatusPurgeEligible_def

record LifecycleTransition =
  lt_TenantID :: uuid
  lt_TenantName :: string
  lt_FromStatus :: string
  lt_ToStatus :: string
  lt_OccurredAt :: time

definition elapsed :: "time option \<Rightarrow> time \<Rightarrow> time \<Rightarrow> bool" where
  "elapsed since now d = (case since of None \<Rightarrow> False | Some t \<Rightarrow> \<not> now - t < d)"

definition nextLifecycleStatus :: "Tenant \<Rightarrow> time \<Rightarrow> string option" where
  "nextLifecycleStatus t now =
     (if tn_Status t = TenantStatusSuspended
      then (if elapsed (tn_SuspendedAt t) now SuspensionGracePeriod then Some TenantStatusGrace else None)
      else if tn_Status t = TenantStatusGrace
      then (if elapsed (tn_SuspendedAt t) now GraceToDeactivatedDuration then Some TenantStatusDeactivated else None)
      else if tn_Status t = TenantStatusDeactivated
      then (if elapsed (tn_DeactivatedAt t) now DeactivatedToPurgeDuration then Some TenantStatusPurgeEligible else None)
      else None)"

definition mustMarshalStatus :: "string \<Rightarrow> json" where
  "mustMarshalStatus st = JObj [(''status'', JStr st)]"

definition system_actor :: "string \<Rightarrow> ActorInfo" where
  "system_actor email = \<lparr>actor_user = uuid_Nil, actor_email = email, actor_ip = ''''\<rparr>"

definition SystemActorRetentionSweeper :: string where "SystemActorRetentionSweeper = ''system:retention-sweeper''"
definition SystemActorPurgeWorker :: string where "SystemActorPurgeWorker = ''system:purge-worker''"

definition svc_AdvanceTenantLifecycle :: "iam_service \<Rightarrow> uuid \<Rightarrow> time \<Rightarrow> (iam_db, iam_err, LifecycleTransition option) op" where
  "svc_AdvanceTenantLifecycle s i now =
     andThen (onErr (Wrap ''iam: advance lifecycle'') (pg_GetTenant (sv_env s) i)) (\<lambda>t.
       case nextLifecycleStatus t now of None \<Rightarrow> ret None | Some nextStatus \<Rightarrow>
       andThen (onErr (Wrap ''iam: transition'') (pg_TransitionTenantStatus (sv_env s) i (tn_Status t) nextStatus)) (\<lambda>r.
         case r of None \<Rightarrow> ret None | Some updated \<Rightarrow>
         let transition = \<lparr>lt_TenantID = tn_ID updated, lt_TenantName = tn_Name updated, lt_FromStatus = tn_Status t,
                           lt_ToStatus = tn_Status updated, lt_OccurredAt = now\<rparr> in
         andThen (if sv_audit s then audit_Log (sv_env s) (tenant_event i (system_actor SystemActorRetentionSweeper) ''status_changed''
                    (Some (mustMarshalStatus (tn_Status t))) (Some (mustMarshalStatus (tn_Status updated))) None now) else ret ())
           (\<lambda>_. ret (Some transition))))"

definition svc_ListTenantsDueForLifecycle :: "iam_service \<Rightarrow> time \<Rightarrow> int \<Rightarrow> (iam_db, iam_err, Tenant list) op" where
  "svc_ListTenantsDueForLifecycle s now limit = pg_ListTenantsDueForLifecycle (sv_env s) now (if limit \<le> 0 then 500 else limit)"

definition svc_CountTenantsOnHold :: "iam_service \<Rightarrow> (iam_db, iam_err, int) op" where
  "svc_CountTenantsOnHold s = pg_CountTenantsOnHold (sv_env s)"

section \<open>Legal holds\<close>

definition isHoldableStatus :: "string \<Rightarrow> bool" where
  "isHoldableStatus st \<longleftrightarrow> st = TenantStatusSuspended \<or> st = TenantStatusGrace \<or> st = TenantStatusDeactivated"

definition mustMarshalRetentionMeta :: "bool \<Rightarrow> string option \<Rightarrow> json" where
  "mustMarshalRetentionMeta overwrote previous = JObj ((''overwrote_previous'', JBool overwrote)
     # (case previous of None \<Rightarrow> [] | Some r \<Rightarrow> [(''previous_reason'', JStr r)]))"

definition held_for_reason :: "Tenant \<Rightarrow> bool" where
  "held_for_reason t \<longleftrightarrow> (case tn_FreezeReason t of None \<Rightarrow> False | Some r \<Rightarrow> r \<noteq> '''')"

definition svc_SetTenantRetention ::
  "iam_service \<Rightarrow> ctx \<Rightarrow> uuid \<Rightarrow> time option \<Rightarrow> string \<Rightarrow> bool \<Rightarrow> (iam_db, iam_err, Tenant) op" where
  "svc_SetTenantRetention s ctx i holdUntil freezeReason overwrite =
     andThen (onErr (Wrap ''iam: set tenant retention'') (pg_GetTenant (sv_env s) i)) (\<lambda>before.
       if \<not> isHoldableStatus (tn_Status before) then fail (Wrap ''iam: set tenant retention'' (Sentinel ErrTenantNotHoldable))
       else andThen (case holdUntil of None \<Rightarrow> ret () | Some h \<Rightarrow> andThen (time_Now (sv_env s)) (\<lambda>now.
              if \<not> h > now then fail (Wrap ''iam: set tenant retention'' (Sentinel ErrHoldUntilInPast)) else ret ())) (\<lambda>_.
         let overwrote = held_for_reason before; indefinite = held_for_reason before \<and> tn_HoldUntil before = None in
         if overwrote \<and> \<not> overwrite then fail (Wrap ''iam: set tenant retention'' (Sentinel ErrTenantHoldExists))
         else if indefinite \<and> holdUntil \<noteq> None then fail (Wrap ''iam: set tenant retention'' (Sentinel ErrHoldNarrowsIndefinite))
         else andThen (onErr (Wrap ''iam: set tenant retention'') (pg_SetTenantLegalHold (sv_env s) i holdUntil freezeReason)) (\<lambda>after.
           if sv_audit s
           then andThen (time_Now (sv_env s)) (\<lambda>now. andThen (audit_Log (sv_env s) (tenant_event i (ActorFromContext ctx) ''legal_hold_applied''
                  (Some (mustMarshalHoldState before)) (Some (mustMarshalHoldState after))
                  (Some (mustMarshalRetentionMeta overwrote (if overwrote then tn_FreezeReason before else None))) now)) (\<lambda>_. ret after))
           else ret after)))"

section \<open>Purge by two people\<close>

definition auditPurge :: "iam_service \<Rightarrow> string \<Rightarrow> uuid \<Rightarrow> ActorInfo \<Rightarrow> string \<Rightarrow> (iam_db, iam_err, unit) op" where
  "auditPurge s action t actor reason =
     (if \<not> sv_audit s then ret ()
      else andThen (time_Now (sv_env s)) (\<lambda>now.
        audit_Log (sv_env s) (tenant_event t actor action None None (Some (mustMarshalClearReason reason)) now)))"

definition svc_RequestTenantPurge :: "iam_service \<Rightarrow> ctx \<Rightarrow> uuid \<Rightarrow> string \<Rightarrow> (iam_db, iam_err, TenantPurgeRequest) op" where
  "svc_RequestTenantPurge s ctx t reason =
     andThen (onErr (Wrap ''iam: request tenant purge'') (pg_GetTenant (sv_env s) t)) (\<lambda>tenant.
       if tn_Status tenant \<noteq> TenantStatusPurgeEligible then fail (Wrap ''iam: request tenant purge'' (Sentinel ErrTenantNotPurgeable))
       else let actor = ActorFromContext ctx in
         andThen (uuid_New (sv_env s)) (\<lambda>i.
         andThen (onErr (Wrap ''iam: request tenant purge'') (pg_CreateTenantPurgeRequest (sv_env s)
           \<lparr>pq_ID = i, pq_TenantID = t, pq_Status = ''pending'', pq_RequestedBy = actor_user actor, pq_RequestedAt = 0, pq_RequestReason = reason,
            pq_ApprovedBy = None, pq_ApprovedAt = None, pq_CancelledBy = None, pq_CancelledAt = None, pq_ExecutedAt = None, pq_FailureReason = None,
            pq_TenantName = tn_Name tenant, pq_TenantSlug = tn_Slug tenant\<rparr>)) (\<lambda>req.
         andThen (auditPurge s ''purge_requested'' t actor reason) (\<lambda>_. ret req))))"

definition svc_ApproveTenantPurge :: "iam_service \<Rightarrow> ctx \<Rightarrow> uuid \<Rightarrow> string \<Rightarrow> (iam_db, iam_err, TenantPurgeRequest) op" where
  "svc_ApproveTenantPurge s ctx t reason =
     andThen (onErr (Wrap ''iam: approve tenant purge'') (pg_GetOpenTenantPurgeRequest (sv_env s) t)) (\<lambda>req.
       if pq_Status req \<noteq> ''pending'' then fail (Wrap ''iam: approve tenant purge'' (Sentinel ErrPurgeRequestNotFound))
       else let actor = ActorFromContext ctx in
         if actor_user actor = pq_RequestedBy req then fail (Wrap ''iam: approve tenant purge'' (Sentinel ErrSelfApproval))
         else andThen (onErr (Wrap ''iam: approve tenant purge'') (pg_GetTenant (sv_env s) t)) (\<lambda>tenant.
           if tn_Status tenant \<noteq> TenantStatusPurgeEligible then fail (Wrap ''iam: approve tenant purge'' (Sentinel ErrTenantNotPurgeable))
           else andThen (onErr (Wrap ''iam: approve tenant purge'')
                  (pg_ApproveTenantPurgeRequest (sv_env s) t (pq_ID req) (actor_user actor))) (\<lambda>approved.
             andThen (auditPurge s ''purge_approved'' t actor reason) (\<lambda>_. ret approved))))"

definition svc_CancelTenantPurge :: "iam_service \<Rightarrow> ctx \<Rightarrow> uuid \<Rightarrow> string \<Rightarrow> (iam_db, iam_err, TenantPurgeRequest) op" where
  "svc_CancelTenantPurge s ctx t reason =
     andThen (onErr (Wrap ''iam: cancel tenant purge'') (pg_GetOpenTenantPurgeRequest (sv_env s) t)) (\<lambda>req.
       let actor = ActorFromContext ctx in
       andThen (onErr (Wrap ''iam: cancel tenant purge'') (pg_CancelTenantPurgeRequest (sv_env s) t (pq_ID req) (actor_user actor))) (\<lambda>cancelled.
         andThen (auditPurge s ''purge_cancelled'' t actor reason) (\<lambda>_. ret cancelled)))"

text \<open>A failed purge marks its request as failed; a request that is no longer approved needs no mark.\<close>

definition svc_PurgeApprovedTenant :: "iam_service \<Rightarrow> TenantPurgeRequest \<Rightarrow> (iam_db, iam_err, unit) op" where
  "svc_PurgeApprovedTenant s req =
     inspect (pg_PurgeTenantSchemaAndTombstone (sv_env s) (tl_String (sv_tok s)) (pq_TenantID req) (pq_ID req)) (\<lambda>r. case r of
       Inl err \<Rightarrow> inspect (pg_MarkTenantPurgeRequestFailed (sv_env s) (pq_ID req) (sv_Error s err)) (\<lambda>f. case f of
           Inl ferr \<Rightarrow> if errors_Is ferr ErrPurgeRequestNotFound then ret () else fail (Wrap ''iam: purge failed and mark-failed errored'' ferr)
         | Inr _ \<Rightarrow> fail (Wrap ''iam: purge'' err))
     | Inr _ \<Rightarrow> if sv_audit s
         then andThen (time_Now (sv_env s)) (\<lambda>now. audit_Log (sv_env s)
                (tenant_event (pq_TenantID req) (system_actor SystemActorPurgeWorker) ''tenant_purged'' None None None now))
         else ret ())"

definition svc_ListApprovedPurges :: "iam_service \<Rightarrow> int \<Rightarrow> (iam_db, iam_err, TenantPurgeRequest list) op" where
  "svc_ListApprovedPurges s limit = pg_ListApprovedTenantPurgeRequests (sv_env s) limit"

section \<open>Billing events\<close>

definition SubjectBillingSubscriptionSuspended :: string where
  "SubjectBillingSubscriptionSuspended = ''thittam.billing.subscription.suspended''"

definition billing_Handle :: "iam_service \<Rightarrow> ctx \<Rightarrow> string \<Rightarrow> uuid \<Rightarrow> (iam_db, iam_err, unit) op" where
  "billing_Handle s ctx event_type t =
     (if event_type \<noteq> SubjectBillingSubscriptionSuspended then ret ()
      else andThen (svc_GetTenant s t) (\<lambda>tenant.
        if tn_Status tenant \<noteq> TenantStatusActive then ret ()
        else andThen (svc_SuspendTenant s ctx t None None) (\<lambda>_. ret ())))"

section \<open>The batch programs\<close>

text \<open>A loop that goes on after an error: it answers whether every pass succeeded.\<close>

fun eachOne :: "('a \<Rightarrow> ('w, 'e, 'b) op) \<Rightarrow> 'a list \<Rightarrow> ('w, 'f, bool) op" where
  "eachOne f [] = ret True"
| "eachOne f (x # xs) = inspect (f x) (\<lambda>r. andThen (eachOne f xs) (\<lambda>ok. ret (ok \<and> (case r of Inl _ \<Rightarrow> False | Inr _ \<Rightarrow> True))))"

definition runPurge :: "iam_service \<Rightarrow> int \<Rightarrow> (iam_db, iam_err, unit) op" where
  "runPurge s batchSize =
     andThen (onErr (Wrap ''list approved purges'') (svc_ListApprovedPurges s batchSize)) (\<lambda>reqs.
     andThen (eachOne (svc_PurgeApprovedTenant s) reqs) (\<lambda>_. ret ()))"

text \<open>At most \<open>maxBatches\<close> passes; the last is the one that finds fewer tenants than a batch holds.\<close>

fun sweep_batches :: "iam_service \<Rightarrow> time \<Rightarrow> int \<Rightarrow> nat \<Rightarrow> (iam_db, iam_err, bool) op" where
  "sweep_batches s now batchSize 0 = ret True"
| "sweep_batches s now batchSize (Suc n) =
     andThen (onErr (Wrap ''list due tenants'') (svc_ListTenantsDueForLifecycle s now batchSize)) (\<lambda>due.
       if due = [] then ret True
       else andThen (eachOne (\<lambda>t. svc_AdvanceTenantLifecycle s (tn_ID t) now) due) (\<lambda>ok.
         if int (length due) < batchSize then ret ok
         else andThen (sweep_batches s now batchSize n) (\<lambda>ok'. ret (ok \<and> ok'))))"

definition runSweep :: "iam_service \<Rightarrow> int \<Rightarrow> nat \<Rightarrow> (iam_db, iam_err, unit) op" where
  "runSweep s batchSize maxBatches =
     andThen (time_Now (sv_env s)) (\<lambda>now.
       inspect (svc_CountTenantsOnHold s) (\<lambda>_.
       andThen (sweep_batches s now batchSize maxBatches) (\<lambda>ok.
         if ok then ret () else fail (Opaque ''one or more tenants failed to advance (see earlier logs)''))))"

end
