(* ===== verification/IamHandler.thy ===== *)
theory IamHandler
  imports IamLifecycle
begin

text \<open>
  The RPCs of \<^verbatim>\<open>services/iam/handler.go\<close>: who may call, what is parsed, and the status that an
  error becomes. The handler holds the service alone; it answers the check of \<^verbatim>\<open>user:manage\<close> from
  its own tables.
\<close>

section \<open>Messages\<close>

record pbUser =
  pu_Id :: string
  pu_TenantId :: string
  pu_Email :: string
  pu_DisplayName :: string
  pu_Status :: string
  pu_CreatedAt :: time
  pu_Roles :: "string list"
  pu_Permissions :: "string list"

record pbTenant =
  pt_Id :: string
  pt_Name :: string
  pt_Slug :: string
  pt_Plan :: string
  pt_Status :: string
  pt_IsDemo :: bool
  pt_CreatedAt :: time
  pt_AddressLine1 :: string
  pt_AddressLine2 :: string
  pt_City :: string
  pt_CountryCode :: string
  pt_PostalCode :: string
  pt_PrimaryCurrencyCode :: string

record pbPurgeRequest =
  pp_Id :: string
  pp_TenantId :: string
  pp_Status :: string
  pp_RequestedBy :: string
  pp_RequestedAt :: time
  pp_RequestReason :: string
  pp_ApprovedBy :: string
  pp_ApprovedAt :: "time option"
  pp_ExecutedAt :: "time option"
  pp_FailureReason :: string

record pbRole =
  pr_Id :: string
  pr_TenantId :: string
  pr_Name :: string
  pr_Permissions :: "string list"
  pr_IsSystem :: bool

record pbInvitation =
  pi_Id :: string
  pi_TenantId :: string
  pi_Email :: string
  pi_Status :: string
  pi_InvitedBy :: string
  pi_ExpiresAt :: time
  pi_CreatedAt :: time
  pi_RoleId :: string

text \<open>The fields that a request for a new tenant and one for a new address share.\<close>

record TenantRequest =
  tq_Name :: string
  tq_Plan :: string
  tq_IsDemo :: bool
  tq_AddressLine1 :: string
  tq_AddressLine2 :: string
  tq_City :: string
  tq_CountryCode :: string
  tq_PostalCode :: string
  tq_PrimaryCurrencyCode :: string

definition userToProto :: "iam_service \<Rightarrow> User \<Rightarrow> pbUser" where
  "userToProto s u = \<lparr>pu_Id = tl_String (sv_tok s) (us_ID u), pu_TenantId = tl_String (sv_tok s) (us_TenantID u), pu_Email = us_Email u,
     pu_DisplayName = us_DisplayName u, pu_Status = us_Status u, pu_CreatedAt = us_CreatedAt u, pu_Roles = [], pu_Permissions = []\<rparr>"

definition tenantToProto :: "iam_service \<Rightarrow> Tenant \<Rightarrow> pbTenant" where
  "tenantToProto s t = \<lparr>pt_Id = tl_String (sv_tok s) (tn_ID t), pt_Name = tn_Name t, pt_Slug = tn_Slug t, pt_Plan = tn_Plan t,
     pt_Status = tn_Status t, pt_IsDemo = tn_IsDemo t, pt_CreatedAt = tn_CreatedAt t, pt_AddressLine1 = tn_AddressLine1 t,
     pt_AddressLine2 = tn_AddressLine2 t, pt_City = tn_City t, pt_CountryCode = tn_CountryCode t, pt_PostalCode = tn_PostalCode t,
     pt_PrimaryCurrencyCode = tn_PrimaryCurrencyCode t\<rparr>"

definition purgeRequestToProto :: "iam_service \<Rightarrow> TenantPurgeRequest \<Rightarrow> pbPurgeRequest" where
  "purgeRequestToProto s r = \<lparr>pp_Id = tl_String (sv_tok s) (pq_ID r), pp_TenantId = tl_String (sv_tok s) (pq_TenantID r), pp_Status = pq_Status r,
     pp_RequestedBy = tl_String (sv_tok s) (pq_RequestedBy r), pp_RequestedAt = pq_RequestedAt r, pp_RequestReason = pq_RequestReason r,
     pp_ApprovedBy = (case pq_ApprovedBy r of None \<Rightarrow> '''' | Some i \<Rightarrow> tl_String (sv_tok s) i), pp_ApprovedAt = pq_ApprovedAt r,
     pp_ExecutedAt = pq_ExecutedAt r, pp_FailureReason = (case pq_FailureReason r of None \<Rightarrow> '''' | Some f \<Rightarrow> f)\<rparr>"

definition roleToProto :: "iam_service \<Rightarrow> Role \<Rightarrow> pbRole" where
  "roleToProto s r = \<lparr>pr_Id = tl_String (sv_tok s) (ro_ID r), pr_TenantId = tl_String (sv_tok s) (ro_TenantID r), pr_Name = ro_Name r,
     pr_Permissions = ro_Permissions r, pr_IsSystem = ro_IsSystem r\<rparr>"

definition invitationToProto :: "iam_service \<Rightarrow> Invitation \<Rightarrow> pbInvitation" where
  "invitationToProto s v = \<lparr>pi_Id = tl_String (sv_tok s) (iv_ID v), pi_TenantId = tl_String (sv_tok s) (iv_TenantID v), pi_Email = iv_Email v,
     pi_Status = iv_Status v, pi_InvitedBy = tl_String (sv_tok s) (iv_InvitedBy v), pi_ExpiresAt = iv_ExpiresAt v, pi_CreatedAt = iv_CreatedAt v,
     pi_RoleId = (case iv_RoleID v of None \<Rightarrow> '''' | Some i \<Rightarrow> tl_String (sv_tok s) i)\<rparr>"

definition tokenPairToProto :: "TokenPair \<Rightarrow> TokenPair" where
  "tokenPairToProto p = p\<lparr>tp_ExpiresIn := int32 (tp_ExpiresIn p)\<rparr>"

section \<open>Errors\<close>

definition sentinel_code :: "iam_sentinel \<Rightarrow> code" where
  "sentinel_code e =
     (if e \<in> {ErrUserNotFound, ErrTenantNotFound, ErrRoleNotFound, ErrInvitationNotFound} then NotFound
      else if e \<in> {ErrUserAlreadyExists, ErrTenantSlugTaken, ErrTenantNameTaken} then AlreadyExists
      else if e \<in> {ErrInvitationExpired, ErrInvitationAccepted} then FailedPrecondition
      else if e \<in> {ErrInvalidPlan, ErrRoleNotProjectScoped, ErrHoldUntilInPast, ErrCountryRequired, ErrUnknownCountry, ErrAmbiguousEmail}
        then InvalidArgument
      else if e \<in> {ErrTenantNotHoldable, ErrTenantHoldExists, ErrHoldNarrowsIndefinite, ErrNotDeactivated} then FailedPrecondition
      else if e \<in> {ErrTenantNotPurgeable, ErrSelfApproval, ErrPurgeRequestNotApproved} then FailedPrecondition
      else if e = ErrPurgeRequestExists then AlreadyExists
      else if e = ErrPurgeRequestNotFound then NotFound
      else if e \<in> {ErrInvalidCredentials, ErrAccessTokenExpired, ErrAccessTokenInvalid, ErrSessionRevoked, ErrRefreshTokenNotFound}
        then Unauthenticated
      else if e \<in> {ErrTenantSuspended, ErrTenantInactive, ErrAccountDeactivated, ErrNotPlatformAdmin} then PermissionDenied
      else if e = ErrAccountInvited then FailedPrecondition
      else Internal)"

text \<open>The message of a known error is its text; an unknown error says nothing of itself.\<close>

definition grpcError :: "iam_service \<Rightarrow> iam_err \<Rightarrow> status" where
  "grpcError s err =
     (case sentinel_of err of None \<Rightarrow> Status Internal ''internal error''
      | Some e \<Rightarrow> if sentinel_code e = Internal then Status Internal ''internal error'' else Status (sentinel_code e) (sv_Error s err))"

section \<open>Checks\<close>

definition parseID :: "iam_service \<Rightarrow> string \<Rightarrow> string \<Rightarrow> ('w, status, uuid) op" where
  "parseID s txt msg = liftR (case tl_Parse (sv_tok s) txt of None \<Rightarrow> Inl (Status InvalidArgument msg) | Some i \<Rightarrow> Inr i)"

definition tenantFor :: "iam_service \<Rightarrow> ctx \<Rightarrow> string \<Rightarrow> ('w, status, uuid) op" where
  "tenantFor s ctx txt = liftR (TenantFromRequest (tl_Parse (sv_tok s)) ctx txt)"

definition callerOf :: "ctx \<Rightarrow> ('w, status, CallerInfo) op" where
  "callerOf ctx = liftR (case CallerFromContext ctx of
     None \<Rightarrow> Inl (Status Unauthenticated ''caller identity not present in context'') | Some c \<Rightarrow> Inr c)"

definition platformAdmin :: "ctx \<Rightarrow> ('w, status, unit) op" where
  "platformAdmin ctx = liftR (RequireRole ctx RolePlatformAdmin)"

definition requireUserManage :: "iam_service \<Rightarrow> ctx \<Rightarrow> (iam_db, status, unit) op" where
  "requireUserManage s ctx =
     andThen (callerOf ctx) (\<lambda>caller.
     andThen (onErr (\<lambda>_. Status Internal ''permission check failed'') (svc_CheckPermission s (UserID caller) permUserManage None)) (\<lambda>allowed.
       if \<not> allowed then fail (Status PermissionDenied ''requires permission'') else ret ()))"

definition bearerTokenFromContext :: "ctx \<Rightarrow> ('w, status, string) op" where
  "bearerTokenFromContext ctx = liftR (case ctx_incoming ctx ''authorization'' of
     [] \<Rightarrow> Inl (Status Unauthenticated ''missing authorization header'')
   | v # _ \<Rightarrow> let prefix = ''Bearer '' in
       if length v \<le> length prefix \<or> \<not> EqualFold (take (length prefix) v) prefix
       then Inl (Status Unauthenticated (''authorization header must be '' @ [CHR 0x27] @ ''Bearer <token>'' @ [CHR 0x27]))
       else Inr (drop (length prefix) v))"

definition reason_given :: "string \<Rightarrow> string \<Rightarrow> ('w, status, unit) op" where
  "reason_given reason msg = (if TrimSpace reason = '''' then fail (Status InvalidArgument msg) else ret ())"

section \<open>Sessions\<close>

definition rpc_Login :: "iam_service \<Rightarrow> string \<Rightarrow> string \<Rightarrow> string \<Rightarrow> (iam_db, status, TokenPair) op" where
  "rpc_Login s tenant_id email password =
     andThen (if tenant_id \<noteq> '''' then parseID s tenant_id ''invalid tenant_id'' else ret uuid_Nil) (\<lambda>t.
     andThen (onErr (grpcError s) (svc_Login s t email password)) (\<lambda>pair. ret (tokenPairToProto pair)))"

definition rpc_RefreshToken :: "iam_service \<Rightarrow> string \<Rightarrow> (iam_db, status, TokenPair) op" where
  "rpc_RefreshToken s token = andThen (onErr (grpcError s) (svc_RefreshToken s token)) (\<lambda>pair. ret (tokenPairToProto pair))"

definition rpc_Logout :: "iam_service \<Rightarrow> string \<Rightarrow> (iam_db, status, unit) op" where
  "rpc_Logout s token = onErr (grpcError s) (svc_Logout s token)"

definition rpc_ValidateToken :: "(iam_db, status, unit) op" where
  "rpc_ValidateToken = fail (Status Unimplemented ''ValidateToken is retired; verify tokens in-process against the JWT public key'')"

definition rpc_GetCurrentUser :: "iam_service \<Rightarrow> ctx \<Rightarrow> (iam_db, status, pbUser \<times> pbTenant) op" where
  "rpc_GetCurrentUser s ctx =
     andThen (bearerTokenFromContext ctx) (\<lambda>token.
     andThen (onErr (grpcError s) (svc_GetCurrentUser s token)) (\<lambda>(user, tenant).
     andThen (onErr (grpcError s) (Validate (sv_env s) (sv_tok s) token)) (\<lambda>claims.
       ret ((userToProto s user)\<lparr>pu_Roles := ClaimsRoles claims, pu_Permissions := ClaimsPermissions claims\<rparr>, tenantToProto s tenant))))"

section \<open>Users\<close>

definition rpc_CreateUser :: "iam_service \<Rightarrow> ctx \<Rightarrow> string \<Rightarrow> string \<Rightarrow> string \<Rightarrow> string \<Rightarrow> (iam_db, status, pbUser) op" where
  "rpc_CreateUser s ctx tenant_id email name password =
     andThen (tenantFor s ctx tenant_id) (\<lambda>t. andThen (requireUserManage s ctx) (\<lambda>_.
     andThen (onErr (grpcError s) (svc_CreateUser s
       \<lparr>us_ID = uuid_Nil, us_TenantID = t, us_Email = email, us_DisplayName = name, us_PasswordHash = '''', us_Status = '''', us_CreatedAt = 0\<rparr> password))
     (\<lambda>u. ret (userToProto s u))))"

definition rpc_GetUser :: "iam_service \<Rightarrow> ctx \<Rightarrow> string \<Rightarrow> string \<Rightarrow> (iam_db, status, pbUser) op" where
  "rpc_GetUser s ctx tenant_id user_id =
     andThen (tenantFor s ctx tenant_id) (\<lambda>t. andThen (parseID s user_id ''invalid id'') (\<lambda>i.
     andThen (onErr (grpcError s) (svc_GetUser s t i)) (\<lambda>u. ret (userToProto s u))))"

definition rpc_ListUsers :: "iam_service \<Rightarrow> ctx \<Rightarrow> string \<Rightarrow> string \<Rightarrow> int \<Rightarrow> int \<Rightarrow> (iam_db, status, pbUser list) op" where
  "rpc_ListUsers s ctx tenant_id st limit ofs =
     andThen (tenantFor s ctx tenant_id) (\<lambda>t. andThen (requireUserManage s ctx) (\<lambda>_.
     andThen (onErr (grpcError s) (svc_ListUsers s t st limit ofs)) (\<lambda>us. ret (map (userToProto s) us))))"

definition rpc_UpdateUser :: "iam_service \<Rightarrow> ctx \<Rightarrow> string \<Rightarrow> string \<Rightarrow> string \<Rightarrow> (iam_db, status, pbUser) op" where
  "rpc_UpdateUser s ctx tenant_id user_id name =
     andThen (tenantFor s ctx tenant_id) (\<lambda>t. andThen (requireUserManage s ctx) (\<lambda>_. andThen (parseID s user_id ''invalid id'') (\<lambda>i.
     andThen (onErr (grpcError s) (svc_UpdateUser s
       \<lparr>us_ID = i, us_TenantID = t, us_Email = '''', us_DisplayName = name, us_PasswordHash = '''', us_Status = '''', us_CreatedAt = 0\<rparr>))
     (\<lambda>u. ret (userToProto s u)))))"

definition rpc_DeactivateUser :: "iam_service \<Rightarrow> ctx \<Rightarrow> string \<Rightarrow> string \<Rightarrow> (iam_db, status, unit) op" where
  "rpc_DeactivateUser s ctx tenant_id user_id =
     andThen (platformAdmin ctx) (\<lambda>_. andThen (parseID s tenant_id ''invalid tenant_id'') (\<lambda>t. andThen (parseID s user_id ''invalid id'') (\<lambda>i.
       onErr (grpcError s) (svc_DeactivateUser s t i))))"

definition rpc_ActivateUser :: "iam_service \<Rightarrow> ctx \<Rightarrow> string \<Rightarrow> string \<Rightarrow> (iam_db, status, unit) op" where
  "rpc_ActivateUser s ctx tenant_id user_id =
     andThen (platformAdmin ctx) (\<lambda>_. andThen (parseID s tenant_id ''invalid tenant_id'') (\<lambda>t. andThen (parseID s user_id ''invalid id'') (\<lambda>i.
       onErr (grpcError s) (svc_ActivateUser s t i))))"

definition rpc_ChangePassword :: "iam_service \<Rightarrow> ctx \<Rightarrow> string \<Rightarrow> string \<Rightarrow> string \<Rightarrow> (iam_db, status, unit) op" where
  "rpc_ChangePassword s ctx user_id oldPassword newPassword =
     andThen (liftR (ActorFromRequest (tl_Parse (sv_tok s)) ctx user_id)) (\<lambda>user.
       case CallerFromContext ctx of None \<Rightarrow> fail (Status Unauthenticated ''caller tenant not present in context'')
       | Some caller \<Rightarrow> if TenantID caller = uuid_Nil then fail (Status Unauthenticated ''caller tenant not present in context'')
           else onErr (grpcError s) (svc_ChangePassword s (TenantID caller) user oldPassword newPassword))"

section \<open>Roles and permissions\<close>

definition rpc_AssignRole :: "iam_service \<Rightarrow> ctx \<Rightarrow> string \<Rightarrow> string \<Rightarrow> string \<Rightarrow> (iam_db, status, unit) op" where
  "rpc_AssignRole s ctx tenant_id user_id role_id =
     andThen (tenantFor s ctx tenant_id) (\<lambda>t. andThen (parseID s user_id ''invalid user_id'') (\<lambda>u. andThen (parseID s role_id ''invalid role_id'') (\<lambda>r.
     andThen (callerOf ctx) (\<lambda>caller. andThen (requireUserManage s ctx) (\<lambda>_.
       onErr (grpcError s) (svc_AssignRole s t u r (UserID caller)))))))"

definition rpc_RevokeRole :: "iam_service \<Rightarrow> ctx \<Rightarrow> string \<Rightarrow> string \<Rightarrow> (iam_db, status, unit) op" where
  "rpc_RevokeRole s ctx user_id role_id =
     andThen (parseID s user_id ''invalid user_id'') (\<lambda>u. andThen (parseID s role_id ''invalid role_id'') (\<lambda>r.
     andThen (callerOf ctx) (\<lambda>caller. andThen (requireUserManage s ctx) (\<lambda>_.
       onErr (grpcError s) (svc_RevokeRole s (TenantID caller) u r)))))"

definition rpc_ListRoles :: "iam_service \<Rightarrow> ctx \<Rightarrow> string \<Rightarrow> (iam_db, status, pbRole list) op" where
  "rpc_ListRoles s ctx tenant_id =
     andThen (tenantFor s ctx tenant_id) (\<lambda>t. andThen (onErr (grpcError s) (svc_ListRoles s t)) (\<lambda>rs. ret (map (roleToProto s) rs)))"

definition rpc_CheckPermission :: "iam_service \<Rightarrow> ctx \<Rightarrow> string \<Rightarrow> string \<Rightarrow> string \<Rightarrow> (iam_db, status, bool) op" where
  "rpc_CheckPermission s ctx user_id permission project_id =
     andThen (parseID s user_id ''invalid user_id'') (\<lambda>u.
     andThen (if project_id \<noteq> '''' then andThen (parseID s project_id ''invalid project_id'') (\<lambda>p. ret (Some p)) else ret None) (\<lambda>project.
       case CallerFromContext ctx of None \<Rightarrow> fail (Status Unauthenticated ''caller identity not present in context'')
       | Some caller \<Rightarrow> if UserID caller = uuid_Nil then fail (Status Unauthenticated ''caller identity not present in context'')
           else if u \<noteq> UserID caller then fail (Status PermissionDenied ''user_id does not match the authenticated caller'')
           else onErr (grpcError s) (svc_CheckPermission s u permission project)))"

definition rpc_AssignProjectRole :: "iam_service \<Rightarrow> ctx \<Rightarrow> string \<Rightarrow> string \<Rightarrow> string \<Rightarrow> string \<Rightarrow> (iam_db, status, unit) op" where
  "rpc_AssignProjectRole s ctx tenant_id user_id role_id project_id =
     andThen (tenantFor s ctx tenant_id) (\<lambda>t. andThen (parseID s user_id ''invalid user_id'') (\<lambda>u. andThen (parseID s role_id ''invalid role_id'') (\<lambda>r.
     andThen (parseID s project_id ''invalid project_id'') (\<lambda>p. andThen (callerOf ctx) (\<lambda>caller. andThen (requireUserManage s ctx) (\<lambda>_.
       onErr (grpcError s) (svc_AssignProjectRole s t u r p (UserID caller))))))))"

section \<open>Tenants\<close>

definition tenant_of_request :: "uuid \<Rightarrow> TenantRequest \<Rightarrow> Tenant" where
  "tenant_of_request i q = \<lparr>tn_ID = i, tn_Name = tq_Name q, tn_Slug = '''', tn_Plan = tq_Plan q, tn_Status = '''', tn_IsDemo = tq_IsDemo q,
     tn_CreatedAt = 0, tn_AddressLine1 = tq_AddressLine1 q, tn_AddressLine2 = tq_AddressLine2 q, tn_City = tq_City q,
     tn_CountryCode = tq_CountryCode q, tn_PostalCode = tq_PostalCode q, tn_PrimaryCurrencyCode = tq_PrimaryCurrencyCode q,
     tn_SuspendedAt = None, tn_DeactivatedAt = None, tn_HoldUntil = None, tn_FreezeReason = None\<rparr>"

definition rpc_CreateTenant :: "iam_service \<Rightarrow> ctx \<Rightarrow> TenantRequest \<Rightarrow> (iam_db, status, pbTenant) op" where
  "rpc_CreateTenant s ctx q =
     andThen (platformAdmin ctx) (\<lambda>_. andThen (onErr (grpcError s) (svc_CreateTenant s (tenant_of_request uuid_Nil q))) (\<lambda>t. ret (tenantToProto s t)))"

definition rpc_SetTenantAddress :: "iam_service \<Rightarrow> ctx \<Rightarrow> string \<Rightarrow> TenantRequest \<Rightarrow> (iam_db, status, pbTenant) op" where
  "rpc_SetTenantAddress s ctx tenant_id q =
     andThen (tenantFor s ctx tenant_id) (\<lambda>i. andThen (requireUserManage s ctx) (\<lambda>_.
     andThen (onErr (grpcError s) (svc_SetTenantAddress s (tenant_of_request i (q\<lparr>tq_Name := '''', tq_Plan := '''', tq_IsDemo := False\<rparr>))))
       (\<lambda>t. ret (tenantToProto s t))))"

definition rpc_GetTenant :: "iam_service \<Rightarrow> ctx \<Rightarrow> string \<Rightarrow> (iam_db, status, pbTenant) op" where
  "rpc_GetTenant s ctx tenant_id =
     andThen (tenantFor s ctx tenant_id) (\<lambda>i. andThen (onErr (grpcError s) (svc_GetTenant s i)) (\<lambda>t. ret (tenantToProto s t)))"

definition rpc_SuspendTenant :: "iam_service \<Rightarrow> ctx \<Rightarrow> string \<Rightarrow> time option \<Rightarrow> string option \<Rightarrow> (iam_db, status, pbTenant) op" where
  "rpc_SuspendTenant s ctx tenant_id holdUntil freezeReason =
     andThen (platformAdmin ctx) (\<lambda>_. andThen (parseID s tenant_id ''invalid id'') (\<lambda>i.
     andThen (onErr (grpcError s) (svc_SuspendTenant s ctx i holdUntil freezeReason)) (\<lambda>t. ret (tenantToProto s t))))"

definition rpc_ClearTenantLegalHold :: "iam_service \<Rightarrow> ctx \<Rightarrow> string \<Rightarrow> string \<Rightarrow> (iam_db, status, pbTenant) op" where
  "rpc_ClearTenantLegalHold s ctx tenant_id reason =
     andThen (platformAdmin ctx) (\<lambda>_. andThen (parseID s tenant_id ''invalid id'') (\<lambda>i.
     andThen (onErr (grpcError s) (svc_ClearTenantLegalHold s ctx i reason)) (\<lambda>t. ret (tenantToProto s t))))"

definition rpc_SetTenantRetention :: "iam_service \<Rightarrow> ctx \<Rightarrow> string \<Rightarrow> time option \<Rightarrow> string \<Rightarrow> bool \<Rightarrow> (iam_db, status, pbTenant) op" where
  "rpc_SetTenantRetention s ctx tenant_id holdUntil freezeReason overwrite =
     andThen (platformAdmin ctx) (\<lambda>_. andThen (parseID s tenant_id ''invalid id'') (\<lambda>i.
     andThen (reason_given freezeReason ''freeze_reason is required'') (\<lambda>_.
     andThen (onErr (grpcError s) (svc_SetTenantRetention s ctx i holdUntil freezeReason overwrite)) (\<lambda>t. ret (tenantToProto s t)))))"

definition purge_rpc ::
  "iam_service \<Rightarrow> ctx \<Rightarrow> string \<Rightarrow> string \<Rightarrow> (uuid \<Rightarrow> (iam_db, iam_err, TenantPurgeRequest) op) \<Rightarrow> (iam_db, status, pbPurgeRequest) op" where
  "purge_rpc s ctx tenant_id reason f =
     andThen (platformAdmin ctx) (\<lambda>_. andThen (parseID s tenant_id ''invalid tenant_id'') (\<lambda>i.
     andThen (reason_given reason ''reason is required'') (\<lambda>_.
     andThen (onErr (grpcError s) (f i)) (\<lambda>r. ret (purgeRequestToProto s r)))))"

definition rpc_RequestTenantPurge :: "iam_service \<Rightarrow> ctx \<Rightarrow> string \<Rightarrow> string \<Rightarrow> (iam_db, status, pbPurgeRequest) op" where
  "rpc_RequestTenantPurge s ctx tenant_id reason = purge_rpc s ctx tenant_id reason (\<lambda>i. svc_RequestTenantPurge s ctx i reason)"

definition rpc_ApproveTenantPurge :: "iam_service \<Rightarrow> ctx \<Rightarrow> string \<Rightarrow> string \<Rightarrow> (iam_db, status, pbPurgeRequest) op" where
  "rpc_ApproveTenantPurge s ctx tenant_id reason = purge_rpc s ctx tenant_id reason (\<lambda>i. svc_ApproveTenantPurge s ctx i reason)"

definition rpc_CancelTenantPurge :: "iam_service \<Rightarrow> ctx \<Rightarrow> string \<Rightarrow> string \<Rightarrow> (iam_db, status, pbPurgeRequest) op" where
  "rpc_CancelTenantPurge s ctx tenant_id reason = purge_rpc s ctx tenant_id reason (\<lambda>i. svc_CancelTenantPurge s ctx i reason)"

section \<open>Invitations and settings\<close>

definition rpc_InviteUser :: "iam_service \<Rightarrow> ctx \<Rightarrow> string \<Rightarrow> string \<Rightarrow> string \<Rightarrow> (iam_db, status, pbInvitation) op" where
  "rpc_InviteUser s ctx tenant_id email role_id =
     andThen (tenantFor s ctx tenant_id) (\<lambda>t.
     andThen (if role_id \<noteq> '''' then andThen (parseID s role_id ''invalid role_id'') (\<lambda>r. ret (Some r)) else ret None) (\<lambda>role.
     andThen (callerOf ctx) (\<lambda>caller. andThen (requireUserManage s ctx) (\<lambda>_.
     andThen (onErr (grpcError s) (svc_InviteUser s
       \<lparr>iv_ID = uuid_Nil, iv_TenantID = t, iv_Email = email, iv_RoleID = role, iv_Token = '''', iv_Status = '''', iv_InvitedBy = UserID caller,
        iv_ExpiresAt = 0, iv_CreatedAt = 0\<rparr>)) (\<lambda>v. ret (invitationToProto s v))))))"

definition rpc_AcceptInvitation :: "iam_service \<Rightarrow> string \<Rightarrow> string \<Rightarrow> (iam_db, status, TokenPair) op" where
  "rpc_AcceptInvitation s token password =
     andThen (onErr (grpcError s) (svc_AcceptInvitation s token password)) (\<lambda>pair. ret (tokenPairToProto pair))"

definition rpc_Impersonation :: "(iam_db, status, unit) op" where
  "rpc_Impersonation = fail (Status Unimplemented ''impersonation is retired (#139)'')"

definition rpc_SetOIDCConfig :: "iam_service \<Rightarrow> ctx \<Rightarrow> OIDCConfigParams \<Rightarrow> (iam_db, status, unit) op" where
  "rpc_SetOIDCConfig s ctx p = andThen (platformAdmin ctx) (\<lambda>_. onErr (grpcError s) (svc_SetOIDCConfig s p))"

end
