(* ===== verification/IamInv.thy ===== *)
theory IamInv
  imports IamHandler Service_Spec
begin

text \<open>
  The invariant of identity and access and that every operation keeps it: identifiers are unique, a role is
  held only by users of its own tenant, a purge that was approved, executed or failed has an approver other
  than the one who asked for it, a tenant has at most one open request, and a purged tenant has an executed
  one.
\<close>

section \<open>The invariant\<close>

definition two_people :: "TenantPurgeRequest \<Rightarrow> bool" where
  "two_people q \<longleftrightarrow> (\<exists>a. pq_ApprovedBy q = Some a \<and> a \<noteq> pq_RequestedBy q)"

lemma two_people_updates [simp]:
  "two_people (q\<lparr>pq_Status := s\<rparr>) = two_people q" "two_people (q\<lparr>pq_ExecutedAt := x\<rparr>) = two_people q"
  "two_people (q\<lparr>pq_FailureReason := y\<rparr>) = two_people q"
  by (simp_all add: two_people_def)

definition keys_ok :: "iam_db \<Rightarrow> bool" where
  "keys_ok w \<longleftrightarrow> distinct (map tr_id (tenants w)) \<and> distinct (map us_ID (users w)) \<and> distinct (map ro_ID (roles w))
     \<and> distinct (map pq_ID (purge_requests w))"

definition roles_ok :: "iam_db \<Rightarrow> bool" where
  "roles_ok w \<longleftrightarrow> (\<forall>ur \<in> set (user_roles w). \<exists>u \<in> set (users w). \<exists>r \<in> set (roles w).
     us_ID u = ur_UserID ur \<and> ro_ID r = ur_RoleID ur \<and> us_TenantID u = ro_TenantID r)"

definition decided_ok :: "TenantPurgeRequest list \<Rightarrow> bool" where
  "decided_ok qs \<longleftrightarrow> (\<forall>q \<in> set qs. pq_Status q \<in> {''approved'', ''executed'', ''failed''} \<longrightarrow> two_people q)"

definition one_open :: "TenantPurgeRequest list \<Rightarrow> bool" where
  "one_open qs \<longleftrightarrow> (\<forall>q \<in> set qs. \<forall>q' \<in> set qs. open_request q \<and> open_request q' \<and> pq_TenantID q = pq_TenantID q' \<longrightarrow> q = q')"

definition executed_for :: "TenantPurgeRequest list \<Rightarrow> uuid \<Rightarrow> bool" where
  "executed_for qs t \<longleftrightarrow> (\<exists>q \<in> set qs. pq_TenantID q = t \<and> pq_Status q = ''executed'')"

definition purged_ok :: "iam_db \<Rightarrow> bool" where
  "purged_ok w \<longleftrightarrow> (\<forall>t \<in> set (tenants w). tr_status t = ''purged'' \<longrightarrow> executed_for (purge_requests w) (tr_id t))"

definition iam_inv :: "iam_db \<Rightarrow> bool" where
  "iam_inv w \<longleftrightarrow> keys_ok w \<and> roles_ok w \<and> decided_ok (purge_requests w) \<and> one_open (purge_requests w) \<and> purged_ok w"

lemmas iam_inv_defs = iam_inv_def keys_ok_def roles_ok_def purged_ok_def

lemma tickless_iam_inv: "tickless iam_inv"
  by (simp add: tickless_def iam_inv_defs)

lemma iam_inv_empty: "iam_inv empty_iam"
  by (simp add: iam_inv_defs decided_ok_def one_open_def empty_iam_def)

text \<open>Operations on Redis, the audit channel, the schemas, the invitations and the settings do not touch it.\<close>

definition core :: "iam_db \<Rightarrow> tenant_row list \<times> User list \<times> Role list \<times> UserRole list \<times> TenantPurgeRequest list" where
  "core w = (tenants w, users w, roles w, user_roles w, purge_requests w)"

lemma tickless_core: "tickless_view core"
  by (simp add: tickless_view_def core_def)

lemma keeps_of_core: "same core m \<Longrightarrow> keeps iam_inv m"
  by (erule same_keeps) (simp add: core_def iam_inv_defs)

lemma same_core_read: "same untick m \<Longrightarrow> same core m"
  by (rule same_of_untick [OF tickless_core])

lemma same_core_query: "(\<And>t. same core (q t)) \<Longrightarrow> same core (query en q)"
  by (rule same_query_view [OF tickless_core])

section \<open>Operations that leave the tables alone\<close>

lemma core_ticks [simp]: "core (w\<lparr>tick := n\<rparr>) = core w"
  by (simp add: core_def)

lemma same_core_basic [same_intros]:
  "same core (uuid_New en)" "same core (time_Now en)" "same core (id_or_New en i)" "same core (rand_bytes lib n e)" "same core (generateToken lib)"
  by (auto simp: same_def uuid_New_def time_Now_def id_or_New_def rand_bytes_def generateToken_def split: option.split)

lemma same_core_reads [same_intros]:
  "same core (q_GetTenant en i)" "same core (q_FindTenantByNormalizedName en name)" "same core (q_CountTenantsOnHold en)"
  "same core (q_ListTenantsDueForLifecycle en now l)" "same core (q_GetUser en i t)" "same core (q_GetUserByEmail en t email)"
  "same core (q_FindTenantByEmail en email)" "same core (q_ListUsers en t st l ofs)" "same core (q_GetRoleByID en t i)"
  "same core (q_ListRoles en t)" "same core (q_ListUserRoles en u)" "same core (q_GetUserPermissions en u p)"
  "same core (q_GetInvitationByToken en token)" "same core (q_GetOpenTenantPurgeRequest en t)"
  "same core (q_ListApprovedTenantPurgeRequests en l)" "same core (q_GetOIDCConfig en t)"
  unfolding q_GetTenant_def q_FindTenantByNormalizedName_def q_CountTenantsOnHold_def q_ListTenantsDueForLifecycle_def q_GetUser_def
    q_GetUserByEmail_def q_FindTenantByEmail_def q_ListUsers_def q_GetRoleByID_def q_ListRoles_def q_ListUserRoles_def
    q_GetUserPermissions_def q_GetInvitationByToken_def q_GetOpenTenantPurgeRequest_def q_ListApprovedTenantPurgeRequests_def q_GetOIDCConfig_def
  by (rule same_core_query, simp add: same_def)+

lemma same_core_outside [same_intros]:
  "same core (q_CreateInvitation en v)" "same core (q_AcceptInvitation en i)" "same core (q_DropSchema en t)" "same core (q_UpsertOIDCConfig en r)"
  unfolding q_CreateInvitation_def q_AcceptInvitation_def q_DropSchema_def q_UpsertOIDCConfig_def
  by (rule same_core_query, simp add: same_def core_def Let_def split: option.split)+

lemma same_core_tokens [same_intros]:
  "same core (currentGeneration en u)" "same core (currentTenantGeneration en u)" "same core (issueRefreshToken en lib p)"
  "same core (consumeRefreshToken en tok)" "same core (Revoke en tok)" "same core (RevokeAllForUser en lib u)" "same core (RevokeAllForTenant en lib u)"
  unfolding currentGeneration_def currentTenantGeneration_def issueRefreshToken_def consumeRefreshToken_def Revoke_def RevokeAllForUser_def
    RevokeAllForTenant_def
  by (intro same_intros same_core_query | simp add: same_def core_def)+

lemma same_core_issue [same_intros]: "same core (issueWithGeneration en lib r g)"
  unfolding issueWithGeneration_def Let_def by (intro same_intros)

lemma same_core_sessions [same_intros]: "same core (Issue en lib r)" "same core (Refresh en lib tok)"
  unfolding Issue_def Refresh_def by (intro same_intros)+

lemma same_core_Validate [same_intros]: "same core (Validate en lib tok)"
  unfolding Validate_def by (intro same_intros) (auto intro: same_intros split: auth_error.split)

lemma same_core_modify: "(\<And>w. core (f w) = core w) \<Longrightarrow> same core (modify f)"
  by (simp add: same_def)

lemma same_core_audit [same_intros]: "same core (audit_Log en ev)" "same core (audit_flush en n)"
  unfolding audit_Log_def audit_flush_def
  by (intro same_intros same_core_modify same_core_query | simp add: same_def core_def)+

lemma same_core_migrate [same_intros]: "same core (migrate_schema s t)"
  unfolding migrate_schema_def by (auto simp: same_def core_def split: option.split prod.split)

lemma same_core_pg [same_intros]:
  "same core (pg_FindTenantByEmail en email)" "same core (loadRolesAndPerms en u)" "same core (pg_GetTenantStatus en t)" "same core (pg_GetUser en t i)"
  "same core (pg_ListUsers en t st l ofs)" "same core (pg_FindTenantByNormalizedName en name)" "same core (pg_GetTenant en i)"
  "same core (pg_CountTenantsOnHold en)" "same core (pg_ListTenantsDueForLifecycle en now l)" "same core (pg_GetRoleByID en t i)" "same core (pg_ListRoles en t)"
  "same core (pg_GetUserPermissions en u p)" "same core (pg_CreateInvitation en v)" "same core (pg_GetInvitationByToken en token)"
  "same core (pg_MarkInvitationAccepted en i)" "same core (pg_GetOIDCConfig en t)" "same core (pg_GetOpenTenantPurgeRequest en t)"
  "same core (pg_ListApprovedTenantPurgeRequests en l)"
  unfolding pg_FindTenantByEmail_def loadRolesAndPerms_def pg_GetTenantStatus_def pg_GetUser_def pg_ListUsers_def pg_FindTenantByNormalizedName_def
    pg_GetTenant_def pg_CountTenantsOnHold_def pg_ListTenantsDueForLifecycle_def pg_GetRoleByID_def pg_ListRoles_def pg_GetUserPermissions_def
    pg_CreateInvitation_def pg_GetInvitationByToken_def pg_MarkInvitationAccepted_def pg_GetOIDCConfig_def pg_GetOpenTenantPurgeRequest_def
    pg_ListApprovedTenantPurgeRequests_def
  by (intro same_intros | auto intro!: same_intros split: list.split)+

lemma same_core_pg2 [same_intros]: "same core (pg_GetUserByEmail en t email)" "same core (pg_GetUserByID en t i)" "same core (pg_UpsertOIDCConfig en parse p)"
  unfolding pg_GetUserByEmail_def pg_GetUserByID_def pg_UpsertOIDCConfig_def Let_def by (intro same_intros)+

lemma same_core_Hash [same_intros]: "same core (Hash lib al p)" "same core (Encrypt lib al key p)" "same core (exchange al cfg req)"
  unfolding Hash_def Encrypt_def Let_def by (intro same_intros | simp add: same_def exchange_def)+

section \<open>Updates of the tables\<close>

lemma inv_users:
  assumes "iam_inv w" and "\<And>u. us_ID (f u) = us_ID u" and "\<And>u. us_TenantID (f u) = us_TenantID u"
  shows "iam_inv (w\<lparr>users := update_rows p f (users w)\<rparr>)"
proof -
  have "\<exists>u' \<in> set (update_rows p f (users w)). us_ID u' = us_ID u \<and> us_TenantID u' = us_TenantID u" if "u \<in> set (users w)" for u
    using updated_row [OF that, of p f] assms(2,3) by metis
  then have "roles_ok (w\<lparr>users := update_rows p f (users w)\<rparr>)"
    using assms(1) unfolding iam_inv_def roles_ok_def by (auto 0 3) metis
  then show ?thesis using assms by (simp add: iam_inv_def keys_ok_def purged_ok_def map_update_rows)
qed

lemma inv_tenants:
  assumes "iam_inv w" and "\<And>t. tr_id (f t) = tr_id t"
    and "\<And>t. t \<in> set (tenants w) \<Longrightarrow> p t \<Longrightarrow> tr_status (f t) = ''purged'' \<Longrightarrow>
      tr_status t = ''purged'' \<or> executed_for (purge_requests w) (tr_id t)"
  shows "iam_inv (w\<lparr>tenants := update_rows p f (tenants w)\<rparr>)"
proof -
  have "purged_ok (w\<lparr>tenants := update_rows p f (tenants w)\<rparr>)"
    using assms unfolding iam_inv_def purged_ok_def by (fastforce simp: set_update_rows)
  then show ?thesis using assms by (simp add: iam_inv_def keys_ok_def roles_ok_def map_update_rows)
qed

lemma one_open_update:
  assumes "one_open qs" and "\<And>q. pq_TenantID (f q) = pq_TenantID q" and "\<And>q. p q \<Longrightarrow> open_request q"
  shows "one_open (update_rows p f qs)"
  unfolding one_open_def
proof (intro ballI impI)
  fix q q'
  assume q: "q \<in> set (update_rows p f qs)" "q' \<in> set (update_rows p f qs)" "open_request q \<and> open_request q' \<and> pq_TenantID q = pq_TenantID q'"
  have origin: "\<exists>q0 \<in> set qs. q = (if p q0 then f q0 else q0) \<and> open_request q0 \<and> pq_TenantID q0 = pq_TenantID q"
    if upd: "q \<in> set (update_rows p f qs)" "open_request q" for q
  proof -
    obtain q0 where "q0 \<in> set qs" "q = (if p q0 then f q0 else q0)" using upd(1) unfolding update_rows_def set_map by blast
    then show ?thesis using assms(2,3) upd(2) by (metis (full_types))
  qed
  obtain q0 where q0: "q0 \<in> set qs" "q = (if p q0 then f q0 else q0)" "open_request q0" "pq_TenantID q0 = pq_TenantID q"
    using origin [OF q(1) conjunct1 [OF q(3)]] by (elim bexE conjE) (rule that)
  obtain q1 where q1: "q1 \<in> set qs" "q' = (if p q1 then f q1 else q1)" "open_request q1" "pq_TenantID q1 = pq_TenantID q'"
    using origin [OF q(2) conjunct1 [OF conjunct2 [OF q(3)]]] by (elim bexE conjE) (rule that)
  have "open_request q0 \<and> open_request q1 \<and> pq_TenantID q0 = pq_TenantID q1"
    using q0(3,4) q1(3,4) q(3) by argo
  then have "q0 = q1" using assms(1) q0(1) q1(1) unfolding one_open_def by blast
  then show "q = q'" using q0(2) q1(2) by simp
qed

lemma inv_purges:
  assumes "iam_inv w" and "\<And>q. pq_ID (f q) = pq_ID q" and "\<And>q. pq_TenantID (f q) = pq_TenantID q"
    and "\<And>q. p q \<Longrightarrow> open_request q"
    and "\<And>q. q \<in> set (purge_requests w) \<Longrightarrow> p q \<Longrightarrow> pq_Status (f q) \<in> {''approved'', ''executed'', ''failed''} \<Longrightarrow> two_people (f q)"
  shows "iam_inv (w\<lparr>purge_requests := update_rows p f (purge_requests w)\<rparr>)"
proof -
  let ?qs = "update_rows p f (purge_requests w)"
  have "decided_ok ?qs"
    using assms(1,5) unfolding decided_ok_def iam_inv_def by (auto simp: set_update_rows)
  moreover have "one_open ?qs"
    using assms(1) by (intro one_open_update assms(3,4)) (simp_all add: iam_inv_def)
  moreover have "executed_for ?qs t" if "executed_for (purge_requests w) t" for t
    using that assms(4) unfolding executed_for_def by (fastforce simp: set_update_rows)
  ultimately show ?thesis using assms(1,2) by (simp add: iam_inv_def keys_ok_def roles_ok_def purged_ok_def map_update_rows)
qed

section \<open>Statements\<close>

lemma keeps_iam_query: "(\<And>t. keeps iam_inv (q t)) \<Longrightarrow> keeps iam_inv (query en q)"
  by (rule keeps_query [OF tickless_iam_inv])

lemma inv_enter:
  "iam_inv w \<Longrightarrow> (\<And>t. tr_id (f t) = tr_id t) \<Longrightarrow> (\<And>t. p t \<Longrightarrow> tr_status (f t) = ''purged'' \<Longrightarrow> tr_status t = ''purged'') \<Longrightarrow>
    iam_inv (snd (update_one p f ok tenants set_tenants w))"
  using inv_tenants [of w f p] by (auto simp: update_one_def split: sum.split)

lemma keeps_tenant_updates [keeps_intros]:
  "keeps iam_inv (q_UpdateTenantAddress en i a1 a2 city c postal cu)" "keeps iam_inv (q_ClearTenantLegalHold en i)"
  "keeps iam_inv (q_SetTenantLegalHold en i hold reason)"
  unfolding q_UpdateTenantAddress_def q_ClearTenantLegalHold_def q_SetTenantLegalHold_def
  by (rule keeps_iam_query, rule keepsI, auto intro!: inv_enter split: sum.split)+

lemma keeps_tenant_status:
  "st \<noteq> ''purged'' \<Longrightarrow> keeps iam_inv (q_UpdateTenantStatus en i st hold reason)"
  "st \<noteq> ''purged'' \<Longrightarrow> keeps iam_inv (q_TransitionTenantStatus en i st0 st)"
  unfolding q_UpdateTenantStatus_def q_TransitionTenantStatus_def
  by (rule keeps_iam_query, rule keepsI, rule inv_enter; simp add: enter_status_def)+

lemma keeps_CreateTenant:
  assumes "tr_status r \<noteq> ''purged''" shows "keeps iam_inv (q_CreateTenant en r)"
proof -
  have "iam_inv (w\<lparr>tenants := tenants w @ [t]\<rparr>)"
    if "iam_inv w" "\<not> (\<exists>x \<in> set (tenants w). tr_id x = tr_id t)" "tr_status t \<noteq> ''purged''" for w t
    using that by (auto simp: iam_inv_defs)
  then show ?thesis unfolding q_CreateTenant_def
    using assms by (intro keeps_iam_query keepsI) (simp add: Let_def split: sum.split)
qed

lemma keeps_user_updates [keeps_intros]:
  "keeps iam_inv (q_UpdateUser en i name st t)" "keeps iam_inv (q_UpdateUserStatus en i st t)" "keeps iam_inv (q_ReactivateUser en i t)"
  "keeps iam_inv (q_UpdateUserPasswordHash en i hash t)"
  unfolding q_UpdateUser_def q_UpdateUserStatus_def q_ReactivateUser_def q_UpdateUserPasswordHash_def
  by (rule keeps_iam_query, rule keepsI, simp add: update_one_def update_count_def inv_users split: sum.split)+

lemma keeps_CreateUser [keeps_intros]: "keeps iam_inv (q_CreateUser en u)"
proof -
  have "iam_inv (w\<lparr>users := users w @ [x]\<rparr>)" if "iam_inv w" "\<not> (\<exists>y \<in> set (users w). us_ID y = us_ID x)" for w x
    using that by (auto simp: iam_inv_def keys_ok_def roles_ok_def purged_ok_def)
  then show ?thesis unfolding q_CreateUser_def by (intro keeps_iam_query keepsI) (simp add: Let_def)
qed

lemma keeps_CreateRole [keeps_intros]: "keeps iam_inv (q_CreateRole en r)"
proof -
  have "iam_inv (w\<lparr>roles := roles w @ [r]\<rparr>)" if "iam_inv w" "\<not> (\<exists>y \<in> set (roles w). ro_ID y = ro_ID r)" for w
    using that by (auto simp: iam_inv_def keys_ok_def roles_ok_def purged_ok_def) metis
  then show ?thesis unfolding q_CreateRole_def by (intro keeps_iam_query keepsI) simp
qed

lemma keeps_RevokeRole [keeps_intros]: "keeps iam_inv (q_RevokeRole en user role)"
  unfolding q_RevokeRole_def by (intro keeps_iam_query keepsI) (simp add: iam_inv_defs)

lemma keeps_CreatePurge [keeps_intros]: "keeps iam_inv (q_CreateTenantPurgeRequest en i t requester reason name slug)"
  unfolding q_CreateTenantPurgeRequest_def
  by (rule keeps_iam_query, rule keepsI)
    (auto simp: iam_inv_def keys_ok_def roles_ok_def purged_ok_def decided_ok_def one_open_def executed_for_def Let_def)

lemma keeps_purge_updates [keeps_intros]:
  "keeps iam_inv (q_CancelTenantPurgeRequest en i c t)" "keeps iam_inv (q_MarkTenantPurgeRequestFailed en i reason)" "keeps iam_inv (q_ClaimPurge en i)"
proof -
  have approved: "two_people q" if "iam_inv w" "q \<in> set (purge_requests w)" "pq_Status q = ''approved''" for w q
    using that by (auto simp: iam_inv_def decided_ok_def)
  show "keeps iam_inv (q_CancelTenantPurgeRequest en i c t)" unfolding q_CancelTenantPurgeRequest_def
    by (rule keeps_iam_query, rule keepsI) (auto simp: update_one_def intro!: inv_purges split: sum.split)
  show "keeps iam_inv (q_MarkTenantPurgeRequestFailed en i reason)" unfolding q_MarkTenantPurgeRequestFailed_def
    by (rule keeps_iam_query, rule keepsI) (auto simp: update_one_def intro!: inv_purges intro: approved split: sum.split)
  show "keeps iam_inv (q_ClaimPurge en i)" unfolding q_ClaimPurge_def
    by (rule keeps_iam_query, rule keepsI) (auto simp: update_count_def intro!: inv_purges intro: approved split: sum.split)
qed

end
