(* ===== verification/IamRun.thy ===== *)
theory IamRun
  imports IamInv
begin

text \<open>
  Every call of identity and access, every pass of its batch programs and every billing event keeps the
  invariant. Where an operation writes on the strength of what it has read, the fact read is carried to
  the write: \<open>learns Q m\<close> says that \<open>m\<close> keeps the invariant and that its answer satisfies
  \<open>Q\<close>, and \<open>firm\<close> facts survive the operations in between.
\<close>

section \<open>Facts that are read\<close>

definition learns :: "(iam_db \<Rightarrow> bool) \<Rightarrow> ('a \<Rightarrow> iam_db \<Rightarrow> bool) \<Rightarrow> (iam_db, 'e, 'a) op \<Rightarrow> bool" where
  "learns P Q m \<longleftrightarrow> (\<forall>w. iam_inv w \<and> P w \<longrightarrow> iam_inv (snd (m w)) \<and> (\<forall>x. fst (m w) = Inr x \<longrightarrow> Q x (snd (m w))))"

lemma learnsI:
  "keeps iam_inv m \<Longrightarrow> (\<And>w x. iam_inv w \<Longrightarrow> P w \<Longrightarrow> fst (m w) = Inr x \<Longrightarrow> Q x (snd (m w))) \<Longrightarrow> learns P Q m"
  by (simp add: learns_def keeps_def)

lemma keeps_learns: "keeps iam_inv m \<longleftrightarrow> learns (\<lambda>_. True) (\<lambda>_ _. True) m"
  by (simp add: keeps_def learns_def)

lemma fst_andThen_Inr: "fst (andThen m k w) = Inr y \<longleftrightarrow> (\<exists>x. fst (m w) = Inr x \<and> fst (k x (snd (m w))) = Inr y)"
  by (simp add: andThen_def split: prod.split sum.split)

lemma learns_andThen: "learns P Q m \<Longrightarrow> (\<And>x. learns (Q x) R (k x)) \<Longrightarrow> learns P R (andThen m k)"
  unfolding learns_def by (auto simp: snd_andThen fst_andThen_Inr split: sum.split)

lemma learns_onErr: "learns P Q m \<Longrightarrow> learns P Q (onErr f m)"
  unfolding learns_def by (auto simp: onErr_def split: prod.split sum.split)

lemma learns_weaken: "learns P Q m \<Longrightarrow> (\<And>w. P' w \<Longrightarrow> P w) \<Longrightarrow> (\<And>x w. Q x w \<Longrightarrow> Q' x w) \<Longrightarrow> learns P' Q' m"
  by (simp add: learns_def)

lemma learns_keeps: "keeps iam_inv m \<Longrightarrow> learns P (\<lambda>_ _. True) m"
  by (simp add: learns_def keeps_def)

lemma learns_ret: "(\<And>w. P w \<Longrightarrow> Q x w) \<Longrightarrow> learns P Q (ret x)"
  by (simp add: learns_def)

lemma learns_fail: "learns P Q (fail e)"
  by (simp add: learns_def)

lemma learns_if: "(b \<Longrightarrow> learns P Q m) \<Longrightarrow> (\<not> b \<Longrightarrow> learns P Q n) \<Longrightarrow> learns P Q (if b then m else n)"
  by simp

text \<open>A fact about the tables survives what leaves the tables alone.\<close>

definition firm :: "(iam_db \<Rightarrow> bool) \<Rightarrow> bool" where
  "firm P \<longleftrightarrow> (\<forall>w w'. core w = core w' \<longrightarrow> P w = P w')"

lemma learns_same: "same core m \<Longrightarrow> firm P \<Longrightarrow> learns P (\<lambda>_. P) m"
  using keeps_of_core unfolding learns_def keeps_def same_def firm_def by blast

lemma learns_read: "learns P Q m \<Longrightarrow> same core m \<Longrightarrow> firm P \<Longrightarrow> learns P (\<lambda>x w. P w \<and> Q x w) m"
  using learns_same [of m P] by (simp add: learns_def)

definition has_role :: "uuid \<Rightarrow> uuid \<Rightarrow> iam_db \<Rightarrow> bool" where
  "has_role t i w \<longleftrightarrow> (\<exists>r \<in> set (roles w). ro_ID r = i \<and> ro_TenantID r = t)"

definition has_user :: "uuid \<Rightarrow> uuid \<Rightarrow> iam_db \<Rightarrow> bool" where
  "has_user t i w \<longleftrightarrow> (\<exists>u \<in> set (users w). us_ID u = i \<and> us_TenantID u = t)"

definition has_request :: "uuid \<Rightarrow> uuid \<Rightarrow> uuid \<Rightarrow> iam_db \<Rightarrow> bool" where
  "has_request t i r w \<longleftrightarrow> (\<exists>q \<in> set (purge_requests w). pq_ID q = i \<and> pq_TenantID q = t \<and> pq_RequestedBy q = r)"

lemma firm_facts: "firm (has_role t i)" "firm (has_user t i)" "firm (has_request t i r)"
  by (simp_all add: firm_def core_def has_role_def has_user_def has_request_def)

lemma firm_conj: "firm P \<Longrightarrow> firm Q \<Longrightarrow> firm (\<lambda>w. P w \<and> Q w)"
  unfolding firm_def by blast

lemma query_row:
  assumes "fst (onErr f (query en (\<lambda>_ w. (row_by p (tab w), w))) w) = Inr x" and "\<And>w n. tab (w\<lparr>tick := n\<rparr>) = tab w"
  shows "x \<in> set (tab (snd (onErr f (query en (\<lambda>_ w. (row_by p (tab w), w))) w))) \<and> p x"
  using assms by (auto simp: query_def onErr_def Let_def split: if_splits sum.splits prod.splits dest: row_by_Inr)

lemma learns_GetRoleByID: "learns P (\<lambda>_. has_role t i) (pg_GetRoleByID en t i)"
proof (rule learnsI)
  show "keeps iam_inv (pg_GetRoleByID en t i)" by (intro keeps_of_core same_intros)
next
  fix w x assume "fst (pg_GetRoleByID en t i w) = Inr x"
  then show "has_role t i (snd (pg_GetRoleByID en t i w))"
    unfolding pg_GetRoleByID_def q_GetRoleByID_def using query_row [where tab = roles] by (fastforce simp: has_role_def)
qed

lemma learns_GetUser: "learns P (\<lambda>_. has_user t i) (pg_GetUser en t i)"
proof (rule learnsI)
  show "keeps iam_inv (pg_GetUser en t i)" by (intro keeps_of_core same_intros)
next
  fix w x assume "fst (pg_GetUser en t i w) = Inr x"
  then obtain y where "fst (onErr (noRows ErrUserNotFound ''iam/db: get user'') (q_GetUser en i t) w) = Inr y"
    unfolding pg_GetUser_def by (auto simp: fst_andThen_Inr)
  then have "has_user t i (snd (onErr (noRows ErrUserNotFound ''iam/db: get user'') (q_GetUser en i t) w))"
    unfolding q_GetUser_def using query_row [where tab = users] by (fastforce simp: has_user_def)
  moreover have "same core (q_GetUser en i t)" "same core (pg_GetUser en t i)" by (intro same_intros)+
  ultimately show "has_user t i (snd (pg_GetUser en t i w))"
    using firm_facts(2) unfolding firm_def same_def snd_onErr by metis
qed

section \<open>Writes\<close>

lemmas inv_reads [keeps_intros] = same_core_basic [THEN keeps_of_core] same_core_outside [THEN keeps_of_core] same_core_tokens [THEN keeps_of_core]
  same_core_sessions [THEN keeps_of_core] same_core_Validate [THEN keeps_of_core] same_core_audit [THEN keeps_of_core]
  same_core_migrate [THEN keeps_of_core] same_core_pg [THEN keeps_of_core] same_core_pg2 [THEN keeps_of_core] same_core_Hash [THEN keeps_of_core]
  same_core_reads [THEN keeps_of_core]

lemma learns_AssignRole:
  "learns (\<lambda>w. has_role t (ur_RoleID ur) w \<and> has_user t (ur_UserID ur) w) (\<lambda>_ _. True) (pg_AssignRole en ur)"
proof -
  have "iam_inv (w\<lparr>tick := n, user_roles := user_roles w @ [x]\<rparr>)"
    if "iam_inv w" "has_role t (ur_RoleID x) w" "has_user t (ur_UserID x) w" for w x n
    using that by (auto simp: iam_inv_defs has_role_def has_user_def)
  moreover have "iam_inv (w\<lparr>tick := n\<rparr>) = iam_inv w" "has_role t i (w\<lparr>tick := n\<rparr>) = has_role t i w" "has_user t i (w\<lparr>tick := n\<rparr>) = has_user t i w"
    for w n i by (simp_all add: tickless_iam_inv ticklessD has_role_def has_user_def)
  ultimately show ?thesis
    by (simp add: learns_def pg_AssignRole_def q_AssignRole_def query_def Let_def)
qed

lemma keeps_svc_AssignRole [keeps_intros]: "keeps iam_inv (svc_AssignRole s t u r a)"
  unfolding svc_AssignRole_def keeps_learns
  apply (rule learns_andThen [OF learns_GetRoleByID])
  apply (rule learns_andThen [OF learns_read [OF learns_GetUser]], intro same_intros, rule firm_facts)
  apply (rule learns_andThen [OF learns_same], intro same_intros, intro firm_conj firm_facts)
  by (rule learns_onErr, rule learns_weaken [OF learns_AssignRole]) simp_all

lemma keeps_svc_AssignProjectRole [keeps_intros]: "keeps iam_inv (svc_AssignProjectRole s t u r p a)"
  unfolding svc_AssignProjectRole_def keeps_learns
  apply (rule learns_andThen [OF learns_onErr [OF learns_GetRoleByID]])
  apply (rule learns_if, rule learns_fail)
  apply (rule learns_andThen [OF learns_read [OF learns_GetUser]], intro same_intros, rule firm_facts)
  apply (rule learns_andThen [OF learns_same], intro same_intros, intro firm_conj firm_facts)
  by (rule learns_onErr, rule learns_weaken [OF learns_AssignRole]) simp_all

lemma learns_CreateUser: "learns P (\<lambda>_. has_user (us_TenantID u) (us_ID u)) (pg_CreateUser en u)"
proof (rule learnsI)
  show "keeps iam_inv (pg_CreateUser en u)" unfolding pg_CreateUser_def by (intro keeps_intros)
qed (auto simp: pg_CreateUser_def q_CreateUser_def query_def andThen_def onErr_def Let_def has_user_def split: if_splits sum.splits prod.splits)

lemma learns_case_option: "learns P Q m \<Longrightarrow> (\<And>x. learns P Q (k x)) \<Longrightarrow> learns P Q (case r of None \<Rightarrow> m | Some x \<Rightarrow> k x)"
  by (cases r) auto

lemma keeps_accept_writes:
  assumes "us_TenantID u = iv_TenantID v" shows "keeps iam_inv (accept_writes s v u)"
  unfolding accept_writes_def keeps_learns
  apply (rule learns_andThen [OF learns_onErr [OF learns_CreateUser]])
  apply (rule learns_andThen [where Q = "\<lambda>_ _. True"])
   apply (rule learns_case_option, rule learns_ret, simp)
   apply (rule learns_andThen [OF learns_read [OF learns_GetRoleByID]], intro same_intros, rule firm_facts)
   apply (rule learns_andThen [OF learns_same], intro same_intros, intro firm_conj firm_facts)
   apply (rule learns_onErr, rule learns_weaken [OF learns_AssignRole [where t = "iv_TenantID v"]])
    apply (use assms in simp_all)
  by (rule learns_keeps) (intro keeps_intros)

lemma keeps_prepareNewUser [keeps_intros]: "keeps iam_inv (prepareNewUser s u p)"
  unfolding prepareNewUser_def Let_def by (intro keeps_intros)

lemma prepareNewUser_tenant: "fst (prepareNewUser s u p w) = Inr u' \<Longrightarrow> us_TenantID u' = us_TenantID u"
  unfolding prepareNewUser_def Let_def by (auto simp: fst_andThen_Inr)

lemma learns_prepareNewUser: "learns P (\<lambda>u' _. us_TenantID u' = us_TenantID u) (prepareNewUser s u p)"
  by (rule learnsI [OF keeps_prepareNewUser]) (rule prepareNewUser_tenant)

lemma keeps_svc_AcceptInvitation [keeps_intros]: "keeps iam_inv (svc_AcceptInvitation s token p)"
proof -
  have "keeps iam_inv (WithTx (sv_env s) (accept_writes s v u))" if "us_TenantID u = iv_TenantID v" for v u
    unfolding WithTx_def by (intro keeps_transact tickless_iam_inv keeps_accept_writes that)
  then have tx: "learns (\<lambda>_. us_TenantID u = iv_TenantID v) (\<lambda>_ _. True) (WithTx (sv_env s) (accept_writes s v u))" for v u
    by (auto simp: learns_def keeps_def)
  show ?thesis
    unfolding svc_AcceptInvitation_def keeps_learns
    apply (rule learns_andThen [OF learns_keeps], intro keeps_intros)
    apply (rule learns_if, rule learns_fail)
    apply (rule learns_andThen [OF learns_keeps], intro keeps_intros)
    apply (rule learns_if, rule learns_fail)
    apply (rule learns_andThen [OF learns_onErr [OF learns_prepareNewUser]])
    apply (rule learns_andThen [where Q = "\<lambda>_ _. True"], use tx in simp)
    by (intro learns_onErr learns_keeps keeps_intros)
qed

section \<open>The service\<close>

lemma keeps_eachOne [keeps_intros]: "(\<And>x. keeps P (f x)) \<Longrightarrow> keeps P (eachOne f xs)"
  by (induction xs) (auto intro!: keeps_intros)

lemma keeps_pg [keeps_intros]:
  "keeps iam_inv (pg_CreateOIDCUser en t email name)" "keeps iam_inv (pg_CreateUser en u)" "keeps iam_inv (pg_UpdateUser en u)"
  "keeps iam_inv (pg_UpdatePasswordHash en t i hash)" "keeps iam_inv (pg_DeactivateUser en t i)" "keeps iam_inv (pg_ActivateUser en t i)"
  "keeps iam_inv (pg_UpdateTenantAddress en tn)" "keeps iam_inv (pg_ClearTenantLegalHold en t)" "keeps iam_inv (pg_SetTenantLegalHold en t hold reason)"
  "keeps iam_inv (pg_CreateRole en r)" "keeps iam_inv (pg_RevokeRole en i j)" "keeps iam_inv (pg_CreateTenantPurgeRequest en q)"
  "keeps iam_inv (pg_CancelTenantPurgeRequest en t i a)" "keeps iam_inv (pg_MarkTenantPurgeRequestFailed en i txt)"
  unfolding pg_CreateOIDCUser_def pg_CreateUser_def pg_UpdateUser_def pg_UpdatePasswordHash_def pg_DeactivateUser_def pg_ActivateUser_def
    pg_UpdateTenantAddress_def pg_ClearTenantLegalHold_def pg_SetTenantLegalHold_def pg_CreateRole_def pg_RevokeRole_def
    pg_CreateTenantPurgeRequest_def pg_CancelTenantPurgeRequest_def pg_MarkTenantPurgeRequestFailed_def
  by (intro keeps_intros)+

lemma keeps_pg_status:
  "st \<noteq> ''purged'' \<Longrightarrow> keeps iam_inv (pg_UpdateTenantStatus en i st hold reason)"
  "st \<noteq> ''purged'' \<Longrightarrow> keeps iam_inv (pg_TransitionTenantStatus en i st0 st)"
  "tn_Status t \<noteq> ''purged'' \<Longrightarrow> keeps iam_inv (pg_CreateTenant en t)"
  unfolding pg_UpdateTenantStatus_def pg_TransitionTenantStatus_def pg_CreateTenant_def
  by (intro keeps_intros keeps_tenant_status keeps_CreateTenant | simp split: option.split)+

lemma keeps_decrypting [keeps_intros]: "keeps iam_inv (decrypting_GetOIDCConfig en al key t)" "keeps iam_inv (check_tenant en t)"
  unfolding decrypting_GetOIDCConfig_def check_tenant_def by (intro keeps_intros)+

lemma keeps_providers [keeps_intros]: "keeps iam_inv (local_Authenticate en al req)" "keeps iam_inv (oidc_Authenticate en al key req)" "keeps iam_inv (Resolve en al key t)"
  unfolding local_Authenticate_def oidc_Authenticate_def Resolve_def Let_def by (intro keeps_intros)+

lemma keeps_Authenticate [keeps_intros]: "keeps iam_inv (Authenticate en al key req)"
  unfolding Authenticate_def by (intro keeps_intros)

lemma keeps_svc_users [keeps_intros]:
  "keeps iam_inv (svc_Login s t email p)" "keeps iam_inv (svc_rehashIfNeeded s t email p)" "keeps iam_inv (svc_RefreshToken s token)"
  "keeps iam_inv (svc_Logout s token)" "keeps iam_inv (svc_GetCurrentUser s token)" "keeps iam_inv (svc_CreateUser s u p)"
  "keeps iam_inv (svc_GetUser s t i)" "keeps iam_inv (svc_ListUsers s t st l ofs)" "keeps iam_inv (svc_UpdateUser s u)"
  "keeps iam_inv (svc_DeactivateUser s t i)" "keeps iam_inv (svc_ActivateUser s t i)" "keeps iam_inv (svc_ChangePassword s t i p q)"
  "keeps iam_inv (svc_RevokeRole s t i j)" "keeps iam_inv (svc_ListRoles s t)" "keeps iam_inv (svc_CheckPermission s i perm proj)"
  unfolding svc_Login_def svc_rehashIfNeeded_def svc_RefreshToken_def svc_Logout_def svc_GetCurrentUser_def svc_CreateUser_def svc_GetUser_def
    svc_ListUsers_def svc_UpdateUser_def svc_DeactivateUser_def svc_ActivateUser_def svc_ChangePassword_def svc_RevokeRole_def svc_ListRoles_def
    svc_CheckPermission_def Let_def
  by (intro keeps_intros)+

lemma keeps_seed [keeps_intros]: "keeps iam_inv (seedSystemRoles s t)"
  unfolding seedSystemRoles_def seed_role_def by (intro keeps_intros)

lemma locate_status: "locate what t = Inr t' \<Longrightarrow> tn_Status t' = tn_Status t"
  by (auto simp: locate_def Let_def split: if_splits sum.splits)

lemma keeps_svc_CreateTenant: "tn_Status t \<noteq> ''purged'' \<Longrightarrow> keeps iam_inv (svc_CreateTenant s t)"
proof -
  assume new: "tn_Status t \<noteq> ''purged''"
  have located: "keeps iam_inv (andThen (liftR (locate what u)) k)"
    if "tn_Status u \<noteq> ''purged''" "\<And>u'. tn_Status u' \<noteq> ''purged'' \<Longrightarrow> keeps iam_inv (k u')" for what u k
    using that locate_status [of what u] by (cases "locate what u") (auto simp: keeps_def snd_andThen liftR_def)
  show ?thesis unfolding svc_CreateTenant_def Let_def
    by (intro keeps_intros located keeps_pg_status) (use new in \<open>auto simp: default_tenant_def\<close>)
qed

lemma keeps_svc_tenants [keeps_intros]:
  "keeps iam_inv (svc_SetTenantAddress s t)" "keeps iam_inv (svc_GetTenant s i)" "keeps iam_inv (svc_SuspendTenant s ctx i hold reason)"
  "keeps iam_inv (svc_ClearTenantLegalHold s ctx i txt)" "keeps iam_inv (svc_InviteUser s v)" "keeps iam_inv (svc_SetOIDCConfig s p)"
  unfolding svc_SetTenantAddress_def svc_GetTenant_def svc_SuspendTenant_def svc_ClearTenantLegalHold_def svc_InviteUser_def svc_SetOIDCConfig_def
  by (intro keeps_intros keeps_pg_status | simp)+

section \<open>Purge\<close>

lemma learns_GetOpen: "learns P (\<lambda>q. has_request t (pq_ID q) (pq_RequestedBy q)) (pg_GetOpenTenantPurgeRequest en t)"
proof (rule learnsI)
  show "keeps iam_inv (pg_GetOpenTenantPurgeRequest en t)" by (intro keeps_intros)
next
  fix w x assume "fst (pg_GetOpenTenantPurgeRequest en t w) = Inr x"
  then show "has_request t (pq_ID x) (pq_RequestedBy x) (snd (pg_GetOpenTenantPurgeRequest en t w))"
    unfolding pg_GetOpenTenantPurgeRequest_def q_GetOpenTenantPurgeRequest_def using query_row [where tab = purge_requests]
    by (fastforce simp: has_request_def)
qed

lemma same_request:
  "iam_inv w \<Longrightarrow> has_request t i r w \<Longrightarrow> q \<in> set (purge_requests w) \<Longrightarrow> pq_ID q = i \<Longrightarrow> pq_RequestedBy q = r \<and> pq_TenantID q = t"
  unfolding has_request_def iam_inv_def keys_ok_def by (metis distinct_key_unique)

lemma learns_Approve:
  assumes "a \<noteq> r" shows "learns (has_request t i r) (\<lambda>_ _. True) (pg_ApproveTenantPurgeRequest en t i a)"
proof -
  have "iam_inv (snd (query en (\<lambda>now. update_one (\<lambda>r. pq_ID r = i \<and> pq_Status r = ''pending'' \<and> pq_TenantID r = t)
       (\<lambda>r. r\<lparr>pq_Status := ''approved'', pq_ApprovedBy := Some a, pq_ApprovedAt := Some now\<rparr>) (\<lambda>_. True) purge_requests set_purges) w))"
    if "iam_inv w" "has_request t i r w" for w
  proof -
    let ?w = "w\<lparr>tick := Suc (tick w)\<rparr>"
    have "iam_inv ?w" "has_request t i r ?w" using that by (simp_all add: tickless_iam_inv ticklessD has_request_def)
    then have "iam_inv (?w\<lparr>purge_requests := update_rows (\<lambda>r. pq_ID r = i \<and> pq_Status r = ''pending'' \<and> pq_TenantID r = t)
       (\<lambda>r. r\<lparr>pq_Status := ''approved'', pq_ApprovedBy := Some a, pq_ApprovedAt := Some now\<rparr>) (purge_requests ?w)\<rparr>)" for now
      by (intro inv_purges) (use assms same_request in \<open>auto simp: two_people_def\<close>)
    then show ?thesis using \<open>iam_inv ?w\<close> by (simp add: query_def Let_def update_one_def split: sum.split)
  qed
  then show ?thesis unfolding pg_ApproveTenantPurgeRequest_def q_ApproveTenantPurgeRequest_def learns_def by simp
qed

lemma keeps_audits [keeps_intros]: "keeps iam_inv (auditPurge s action t actor reason)"
  unfolding auditPurge_def by (intro keeps_intros)

lemma keeps_svc_Approve [keeps_intros]: "keeps iam_inv (svc_ApproveTenantPurge s ctx t reason)"
  unfolding svc_ApproveTenantPurge_def keeps_learns Let_def
  apply (rule learns_andThen [OF learns_onErr [OF learns_GetOpen]])
  apply (rule learns_if, rule learns_fail)
  apply (rule learns_if, rule learns_fail)
  apply (rule learns_andThen [OF learns_same], intro same_intros, rule firm_facts)
  apply (rule learns_if, rule learns_fail)
  apply (rule learns_andThen [OF learns_onErr [OF learns_Approve]], simp)
  by (intro learns_keeps keeps_intros)

text \<open>A request that is listed stays known, with its tenant, while the list is worked off.\<close>

definition request_keys :: "iam_db \<Rightarrow> (uuid \<times> uuid \<times> uuid) list" where
  "request_keys w = map (\<lambda>q. (pq_TenantID q, pq_ID q, pq_RequestedBy q)) (purge_requests w)"

lemma has_request_keys: "has_request t i r w \<longleftrightarrow> (t, i, r) \<in> set (request_keys w)"
  by (force simp: has_request_def request_keys_def)

lemma tickless_request_keys: "tickless_view request_keys"
  by (simp add: tickless_view_def request_keys_def)

lemma same_request_keys: "same core m \<Longrightarrow> same request_keys m"
  by (simp add: same_def core_def request_keys_def)

lemma same_keys_update:
  assumes "\<And>q. pq_TenantID (f q) = pq_TenantID q" "\<And>q. pq_ID (f q) = pq_ID q" "\<And>q. pq_RequestedBy (f q) = pq_RequestedBy q"
  shows "same request_keys (update_one p f ok purge_requests set_purges)" "same request_keys (update_count p f ok purge_requests set_purges)"
proof -
  have "map (\<lambda>q. (pq_TenantID q, pq_ID q, pq_RequestedBy q)) (update_rows p f qs) = map (\<lambda>q. (pq_TenantID q, pq_ID q, pq_RequestedBy q)) qs" for qs
    by (simp add: assms map_update_rows)
  then show "same request_keys (update_one p f ok purge_requests set_purges)" "same request_keys (update_count p f ok purge_requests set_purges)"
    by (simp_all add: same_def request_keys_def update_one_def update_count_def Let_def split: sum.split)
qed

lemma same_keys_purge:
  "same request_keys (q_ClaimPurge en i)" "same request_keys (q_MarkTenantPurgeRequestFailed en i reason)" "same request_keys (q_Tombstone en f t)"
  unfolding q_ClaimPurge_def q_MarkTenantPurgeRequestFailed_def q_Tombstone_def
    apply (rule same_query_view [OF tickless_request_keys], simp add: same_keys_update)
   apply (rule same_query_view [OF tickless_request_keys], simp add: same_keys_update)
  by (rule same_query_view [OF tickless_request_keys], simp add: same_def request_keys_def update_count_def Let_def)

lemma same_keys_PurgeTenant: "same request_keys (pg_PurgeTenantSchemaAndTombstone en f t i)"
  unfolding pg_PurgeTenantSchemaAndTombstone_def
  by (intro same_transact_view tickless_request_keys same_intros same_keys_purge same_request_keys same_core_outside)

lemma learns_transact:
  assumes "learns P Q body" and "\<And>w n. P (w\<lparr>tick := n\<rparr>) = P w"
  shows "learns P (\<lambda>_ _. True) (transact en eb ec body)"
proof -
  have "iam_inv (w\<lparr>tick := n\<rparr>) = iam_inv w" for w n by (rule ticklessD [OF tickless_iam_inv])
  then show ?thesis using assms unfolding learns_def transact_def query_def Let_def
    by (auto split: sum.splits prod.splits) (metis snd_conv)+
qed

lemma learns_Claim: "learns (has_request t i r) (\<lambda>n w. n \<noteq> 0 \<longrightarrow> executed_for (purge_requests w) t) (q_ClaimPurge en i)"
proof (rule learnsI)
  fix w n assume w: "iam_inv w" "has_request t i r w" "fst (q_ClaimPurge en i w) = Inr n"
  show "n \<noteq> 0 \<longrightarrow> executed_for (purge_requests (snd (q_ClaimPurge en i w))) t"
  proof
    assume "n \<noteq> 0"
    then obtain q where "q \<in> set (purge_requests w)" "pq_ID q = i" "pq_Status q = ''approved''" "\<not> env_fail en (tick w)"
      using w(3) by (auto simp: q_ClaimPurge_def query_def update_count_def Let_def filter_empty_conv split: if_splits)
    moreover from this have "pq_TenantID q = t" using same_request w(1,2) by blast
    ultimately show "executed_for (purge_requests (snd (q_ClaimPurge en i w))) t"
      using updated_row [of q "purge_requests w" "\<lambda>r. pq_ID r = i \<and> pq_Status r = ''approved''"
        "\<lambda>r. r\<lparr>pq_Status := ''executed'', pq_ExecutedAt := Some (env_now en (tick w))\<rparr>"]
      by (simp add: q_ClaimPurge_def query_def update_count_def Let_def executed_for_def) (erule bexI [rotated], simp)
  qed
qed (intro keeps_intros)

lemma learns_Tombstone: "learns (\<lambda>w. executed_for (purge_requests w) t) (\<lambda>_ _. True) (q_Tombstone en f t)"
proof -
  have "iam_inv (w\<lparr>tick := n, tenants := update_rows (\<lambda>r. tr_id r = t \<and> tr_status r = ''purge_eligible'') (tombstone (f t) now) (tenants w)\<rparr>)"
    if "iam_inv w" "executed_for (purge_requests w) t" for w n now
    using inv_tenants [of "w\<lparr>tick := n\<rparr>" "tombstone (f t) now" "\<lambda>r. tr_id r = t \<and> tr_status r = ''purge_eligible''"] that
    by (auto simp: tombstone_def ticklessD [OF tickless_iam_inv])
  then show ?thesis
    by (simp add: learns_def q_Tombstone_def query_def update_count_def Let_def ticklessD [OF tickless_iam_inv])
qed

lemma learns_PurgeTenant: "learns (has_request t i r) (\<lambda>_ _. True) (pg_PurgeTenantSchemaAndTombstone en f t i)"
  unfolding pg_PurgeTenantSchemaAndTombstone_def
  apply (rule learns_transact [where Q = "\<lambda>_ _. True"])
   apply (rule learns_andThen [OF learns_onErr [OF learns_Claim]])
   apply (rule learns_if, rule learns_fail)
   apply (rule learns_weaken [where P = "\<lambda>w. executed_for (purge_requests w) t" and Q = "\<lambda>_ _. True"])
     apply (rule learns_andThen [OF learns_same], intro same_intros, simp add: firm_def core_def)
     apply (rule learns_andThen [OF learns_onErr [OF learns_Tombstone]])
  by (intro learns_keeps keeps_intros) (simp_all add: has_request_def)

definition known :: "TenantPurgeRequest list \<Rightarrow> iam_db \<Rightarrow> bool" where
  "known qs w \<longleftrightarrow> iam_inv w \<and> (\<forall>q \<in> set qs. has_request (pq_TenantID q) (pq_ID q) (pq_RequestedBy q) w)"

lemma keeps_known:
  assumes "same request_keys m" and "\<And>w. known qs w \<Longrightarrow> iam_inv (snd (m w))"
  shows "keeps (known qs) m"
  using assms unfolding keeps_def same_def known_def has_request_keys by simp

lemma keeps_known_core: "same core m \<Longrightarrow> keeps (known qs) m"
  using keeps_of_core by (intro keeps_known same_request_keys) (auto simp: known_def keeps_def)

lemma keeps_known_Purge: "q \<in> set qs \<Longrightarrow> keeps (known qs) (svc_PurgeApprovedTenant s q)"
proof -
  assume q: "q \<in> set qs"
  have purge: "keeps (known qs) (pg_PurgeTenantSchemaAndTombstone (sv_env s) f (pq_TenantID q) (pq_ID q))" for f
    using learns_PurgeTenant [of "pq_TenantID q" "pq_ID q" "pq_RequestedBy q"] q
    by (intro keeps_known same_keys_PurgeTenant) (auto simp: known_def learns_def)
  have mark: "keeps (known qs) (pg_MarkTenantPurgeRequestFailed (sv_env s) i msg)" for i msg
    unfolding pg_MarkTenantPurgeRequestFailed_def using keeps_purge_updates(2) same_keys_purge(2)
    by (intro keeps_known same_intros) (auto simp: known_def keeps_def)
  have audit: "keeps (known qs) (time_Now en)" "keeps (known qs) (audit_Log en ev)" for en ev
    by (intro keeps_known_core same_core_basic same_core_audit)+
  show ?thesis unfolding svc_PurgeApprovedTenant_def by (intro keeps_intros purge mark audit)
qed

lemma keeps_eachOne_listed: "(\<And>x. x \<in> set xs \<Longrightarrow> keeps P (f x)) \<Longrightarrow> keeps P (eachOne f xs)"
  by (induction xs) (auto intro!: keeps_intros)

lemma learns_approved: "learns (\<lambda>_. True) (\<lambda>qs. known qs) (svc_ListApprovedPurges s l)"
proof (rule learnsI)
  show "keeps iam_inv (svc_ListApprovedPurges s l)" unfolding svc_ListApprovedPurges_def by (intro keeps_intros)
next
  fix w qs assume w: "iam_inv w" "fst (svc_ListApprovedPurges s l w) = Inr qs"
  have "keeps iam_inv (svc_ListApprovedPurges s l)" unfolding svc_ListApprovedPurges_def by (intro keeps_intros)
  moreover have "q \<in> set (purge_requests (snd (svc_ListApprovedPurges s l w)))" if "q \<in> set qs" for q
    using w(2) that by (auto simp: svc_ListApprovedPurges_def pg_ListApprovedTenantPurgeRequests_def q_ListApprovedTenantPurgeRequests_def
      query_def onErr_def Let_def dest!: page_Inr split: if_splits sum.splits prod.splits)
  ultimately show "known qs (snd (svc_ListApprovedPurges s l w))"
    using w(1) unfolding known_def keeps_def has_request_def by blast
qed

lemma keeps_runPurge [keeps_intros]: "keeps iam_inv (runPurge s n)"
  unfolding runPurge_def keeps_learns
  apply (rule learns_andThen [OF learns_onErr [OF learns_approved]])
  apply (rule learns_andThen [where Q = "\<lambda>_ _. True"])
   apply (use keeps_eachOne_listed [OF keeps_known_Purge] in \<open>force simp: learns_def keeps_def known_def\<close>)
  by (intro learns_keeps keeps_intros)

section \<open>Lifecycle\<close>

lemma nextLifecycleStatus_cases:
  "nextLifecycleStatus t now = Some st \<Longrightarrow> st \<in> {TenantStatusGrace, TenantStatusDeactivated, TenantStatusPurgeEligible}"
  by (auto simp: nextLifecycleStatus_def split: if_splits)

lemma keeps_Advance [keeps_intros]: "keeps iam_inv (svc_AdvanceTenantLifecycle s i now)"
proof -
  have moved: "keeps iam_inv (case nextLifecycleStatus t now of None \<Rightarrow> ret None | Some st \<Rightarrow> k st)"
    if "\<And>st. st \<noteq> ''purged'' \<Longrightarrow> keeps iam_inv (k st)" for k :: "string \<Rightarrow> (iam_db, iam_err, LifecycleTransition option) op" and t
    using that nextLifecycleStatus_cases [of t now]
    by (cases "nextLifecycleStatus t now") (fastforce simp: tenant_status_defs intro: keeps_intros)+
  show ?thesis unfolding svc_AdvanceTenantLifecycle_def Let_def
    by (rule keeps_andThen, intro keeps_intros, rule moved) (intro keeps_intros keeps_pg_status)
qed

lemma keeps_svc_lifecycle [keeps_intros]:
  "keeps iam_inv (svc_ListTenantsDueForLifecycle s now l)" "keeps iam_inv (svc_CountTenantsOnHold s)"
  "keeps iam_inv (svc_SetTenantRetention s ctx i hold reason ow)" "keeps iam_inv (svc_RequestTenantPurge s ctx i reason)"
  "keeps iam_inv (svc_CancelTenantPurge s ctx i reason)" "keeps iam_inv (billing_Handle s ctx e i)"
  unfolding svc_ListTenantsDueForLifecycle_def svc_CountTenantsOnHold_def svc_SetTenantRetention_def svc_RequestTenantPurge_def
    svc_CancelTenantPurge_def billing_Handle_def Let_def
  by (intro keeps_intros)+

lemma keeps_sweep [keeps_intros]: "keeps iam_inv (sweep_batches s now b n)"
proof (induction n)
  case 0
  show ?case unfolding sweep_batches.simps by (intro keeps_intros)
next
  case (Suc n)
  show ?case unfolding sweep_batches.simps by (intro keeps_intros Suc)
qed

lemma keeps_runSweep [keeps_intros]: "keeps iam_inv (runSweep s b n)"
  unfolding runSweep_def by (intro keeps_intros)

section \<open>Requests\<close>

text \<open>What the service and its batch programs are asked to do, each with the context of its caller.\<close>

datatype iam_request =
    Login string string string
  | RefreshToken string
  | Logout string
  | GetCurrentUser ctx
  | CreateUser ctx string string string string
  | GetUser ctx string string
  | ListUsers ctx string string int int
  | UpdateUser ctx string string string
  | DeactivateUser ctx string string
  | ActivateUser ctx string string
  | ChangePassword ctx string string string
  | AssignRole ctx string string string
  | RevokeRole ctx string string
  | ListRoles ctx string
  | CheckPermission ctx string string string
  | AssignProjectRole ctx string string string string
  | CreateTenant ctx TenantRequest
  | SetTenantAddress ctx string TenantRequest
  | GetTenant ctx string
  | SuspendTenant ctx string "time option" "string option"
  | ClearTenantLegalHold ctx string string
  | SetTenantRetention ctx string "time option" string bool
  | RequestTenantPurge ctx string string
  | ApproveTenantPurge ctx string string
  | CancelTenantPurge ctx string string
  | InviteUser ctx string string string
  | AcceptInvitation string string
  | SetOIDCConfig ctx OIDCConfigParams
  | Rehash uuid string string
  | BillingEvent ctx string uuid
  | Sweep int nat
  | Purge int
  | AuditFlush nat

fun iam_exec :: "iam_service \<Rightarrow> iam_request \<Rightarrow> iam_db \<Rightarrow> iam_db" where
  "iam_exec s (Login t e p) w = snd (rpc_Login s t e p w)"
| "iam_exec s (RefreshToken tok) w = snd (rpc_RefreshToken s tok w)"
| "iam_exec s (Logout tok) w = snd (rpc_Logout s tok w)"
| "iam_exec s (GetCurrentUser c) w = snd (rpc_GetCurrentUser s c w)"
| "iam_exec s (CreateUser c t e n p) w = snd (rpc_CreateUser s c t e n p w)"
| "iam_exec s (GetUser c t u) w = snd (rpc_GetUser s c t u w)"
| "iam_exec s (ListUsers c t st l ofs) w = snd (rpc_ListUsers s c t st l ofs w)"
| "iam_exec s (UpdateUser c t u n) w = snd (rpc_UpdateUser s c t u n w)"
| "iam_exec s (DeactivateUser c t u) w = snd (rpc_DeactivateUser s c t u w)"
| "iam_exec s (ActivateUser c t u) w = snd (rpc_ActivateUser s c t u w)"
| "iam_exec s (ChangePassword c u p q) w = snd (rpc_ChangePassword s c u p q w)"
| "iam_exec s (AssignRole c t u r) w = snd (rpc_AssignRole s c t u r w)"
| "iam_exec s (RevokeRole c u r) w = snd (rpc_RevokeRole s c u r w)"
| "iam_exec s (ListRoles c t) w = snd (rpc_ListRoles s c t w)"
| "iam_exec s (CheckPermission c u p j) w = snd (rpc_CheckPermission s c u p j w)"
| "iam_exec s (AssignProjectRole c t u r j) w = snd (rpc_AssignProjectRole s c t u r j w)"
| "iam_exec s (CreateTenant c q) w = snd (rpc_CreateTenant s c q w)"
| "iam_exec s (SetTenantAddress c t q) w = snd (rpc_SetTenantAddress s c t q w)"
| "iam_exec s (GetTenant c t) w = snd (rpc_GetTenant s c t w)"
| "iam_exec s (SuspendTenant c t h f) w = snd (rpc_SuspendTenant s c t h f w)"
| "iam_exec s (ClearTenantLegalHold c t x) w = snd (rpc_ClearTenantLegalHold s c t x w)"
| "iam_exec s (SetTenantRetention c t h f ow) w = snd (rpc_SetTenantRetention s c t h f ow w)"
| "iam_exec s (RequestTenantPurge c t x) w = snd (rpc_RequestTenantPurge s c t x w)"
| "iam_exec s (ApproveTenantPurge c t x) w = snd (rpc_ApproveTenantPurge s c t x w)"
| "iam_exec s (CancelTenantPurge c t x) w = snd (rpc_CancelTenantPurge s c t x w)"
| "iam_exec s (InviteUser c t e r) w = snd (rpc_InviteUser s c t e r w)"
| "iam_exec s (AcceptInvitation tok p) w = snd (rpc_AcceptInvitation s tok p w)"
| "iam_exec s (SetOIDCConfig c p) w = snd (rpc_SetOIDCConfig s c p w)"
| "iam_exec s (Rehash t e p) w = snd (svc_rehashIfNeeded s t e p w)"
| "iam_exec s (BillingEvent c e t) w = snd (billing_Handle s c e t w)"
| "iam_exec s (Sweep b n) w = snd (runSweep s b n w)"
| "iam_exec s (Purge b) w = snd (runPurge s b w)"
| "iam_exec s (AuditFlush n) w = snd (audit_flush (sv_env s) n w :: (iam_err + unit) \<times> iam_db)"

lemma keeps_checks [keeps_intros]:
  "keeps P (parseID s x msg)" "keeps P (tenantFor s c x)" "keeps P (callerOf c)" "keeps P (platformAdmin c)" "keeps P (bearerTokenFromContext c)"
  "keeps P (reason_given x msg)" "keeps iam_inv (requireUserManage s c)"
  unfolding parseID_def tenantFor_def callerOf_def platformAdmin_def bearerTokenFromContext_def reason_given_def requireUserManage_def
  by (intro keeps_intros | simp only: parseID_def callerOf_def)+

lemma keeps_case_prod [keeps_intros]: "(\<And>a b. keeps P (f a b)) \<Longrightarrow> keeps P (case x of (a, b) \<Rightarrow> f a b)"
  by (cases x) simp

lemma keeps_rpc_users:
  "keeps iam_inv (rpc_Login s x e p)" "keeps iam_inv (rpc_RefreshToken s x)" "keeps iam_inv (rpc_Logout s x)" "keeps iam_inv (rpc_GetCurrentUser s c)"
  "keeps iam_inv (rpc_CreateUser s c x e n p)" "keeps iam_inv (rpc_GetUser s c x i)" "keeps iam_inv (rpc_ListUsers s c x st l ofs)"
  "keeps iam_inv (rpc_UpdateUser s c x i n)" "keeps iam_inv (rpc_DeactivateUser s c x i)" "keeps iam_inv (rpc_ActivateUser s c x i)"
  "keeps iam_inv (rpc_ChangePassword s c i p q)" "keeps iam_inv (rpc_AssignRole s c x i j)" "keeps iam_inv (rpc_RevokeRole s c i j)"
  "keeps iam_inv (rpc_ListRoles s c x)" "keeps iam_inv (rpc_CheckPermission s c i y z)" "keeps iam_inv (rpc_AssignProjectRole s c x i j z)"
  unfolding rpc_Login_def rpc_RefreshToken_def rpc_Logout_def rpc_GetCurrentUser_def rpc_CreateUser_def rpc_GetUser_def rpc_ListUsers_def
    rpc_UpdateUser_def rpc_DeactivateUser_def rpc_ActivateUser_def rpc_ChangePassword_def rpc_AssignRole_def rpc_RevokeRole_def rpc_ListRoles_def
    rpc_CheckPermission_def rpc_AssignProjectRole_def
  by (intro keeps_intros)+

lemma keeps_rpc_tenants:
  "keeps iam_inv (rpc_CreateTenant s c tq)" "keeps iam_inv (rpc_SetTenantAddress s c x tq)" "keeps iam_inv (rpc_GetTenant s c x)"
  "keeps iam_inv (rpc_SuspendTenant s c x h f)" "keeps iam_inv (rpc_ClearTenantLegalHold s c x y)" "keeps iam_inv (rpc_SetTenantRetention s c x h y ow)"
  "keeps iam_inv (rpc_RequestTenantPurge s c x y)" "keeps iam_inv (rpc_ApproveTenantPurge s c x y)" "keeps iam_inv (rpc_CancelTenantPurge s c x y)"
  "keeps iam_inv (rpc_InviteUser s c x e j)" "keeps iam_inv (rpc_AcceptInvitation s x p)" "keeps iam_inv (rpc_SetOIDCConfig s c op)"
  unfolding rpc_CreateTenant_def rpc_SetTenantAddress_def rpc_GetTenant_def rpc_SuspendTenant_def rpc_ClearTenantLegalHold_def
    rpc_SetTenantRetention_def rpc_RequestTenantPurge_def rpc_ApproveTenantPurge_def rpc_CancelTenantPurge_def rpc_InviteUser_def
    rpc_AcceptInvitation_def rpc_SetOIDCConfig_def purge_rpc_def
  by (intro keeps_intros keeps_svc_CreateTenant | simp add: tenant_of_request_def)+

lemma iam_exec_inv: "iam_inv w \<Longrightarrow> iam_inv (iam_exec s r w)"
  by (cases r) (simp_all add: keeps_rpc_users [THEN keepsD] keeps_rpc_tenants [THEN keepsD] keeps_svc_users [THEN keepsD]
    keeps_svc_lifecycle [THEN keepsD] keeps_runSweep [THEN keepsD] keeps_runPurge [THEN keepsD] same_core_audit [THEN keeps_of_core, THEN keepsD])

text \<open>A run interleaves requests to servers of any configuration.\<close>

interpretation iam: service "\<lambda>(s, r). iam_exec s r" iam_inv empty_iam
  by unfold_locales (auto intro: iam_inv_empty iam_exec_inv)

end
