(* ===== verification/IamRace.thy ===== *)
theory IamRace
  imports IamSession
begin

text \<open>
  Sessions under concurrency. A login and a refresh are threads that make one round trip to Redis at a
  time, in any order with one another and with revocations; run alone, a thread is the function of
  \<open>IamSession\<close>. Raising the counter of a user or of a tenant revokes its sessions, whatever
  threads are under way, for as long as the counter is kept. A counter that Redis has dropped counts
  from zero again, and then a revocation can bring an old session back.
\<close>

section \<open>Threads\<close>

datatype thread =
    IssueStart AuthResult
  | IssueUser AuthResult int
  | Issuing AuthResult generations
  | RefreshStart string
  | RefreshRead refreshPayload
  | RefreshUser refreshPayload int
  | Finished TokenPair
  | Broken iam_err

definition advance :: "(iam_db, iam_err, 'a) op \<Rightarrow> ('a \<Rightarrow> thread) \<Rightarrow> iam_db \<Rightarrow> thread \<times> iam_db" where
  "advance m k w = (case m w of (Inl e, w') \<Rightarrow> (Broken e, w') | (Inr x, w') \<Rightarrow> (k x, w'))"

fun thread_step :: "env \<Rightarrow> token_lib \<Rightarrow> thread \<Rightarrow> iam_db \<Rightarrow> thread \<times> iam_db" where
  "thread_step en lib (IssueStart r) w = advance (currentGeneration en (ar_UserID r)) (IssueUser r) w"
| "thread_step en lib (IssueUser r g) w =
     advance (currentTenantGeneration en (ar_TenantID r)) (\<lambda>tg. Issuing r \<lparr>gn_User = g, gn_Tenant = tg\<rparr>) w"
| "thread_step en lib (Issuing r gens) w = advance (issueWithGeneration en lib r gens) Finished w"
| "thread_step en lib (RefreshStart tok) w = advance (consumeRefreshToken en tok) RefreshRead w"
| "thread_step en lib (RefreshRead p) w = advance (currentGeneration en (rp_UserID p)) (RefreshUser p) w"
| "thread_step en lib (RefreshUser p g) w =
     advance (currentTenantGeneration en (rp_TenantID p))
       (\<lambda>tg. if rp_Generation p \<noteq> g \<or> rp_TenantGeneration p \<noteq> tg then Broken (Sentinel ErrSessionRevoked)
             else Issuing (result_of p) \<lparr>gn_User = g, gn_Tenant = tg\<rparr>) w"
| "thread_step en lib (Finished p) w = (Finished p, w)"
| "thread_step en lib (Broken e) w = (Broken e, w)"

fun thread_run :: "env \<Rightarrow> token_lib \<Rightarrow> nat \<Rightarrow> thread \<Rightarrow> iam_db \<Rightarrow> thread \<times> iam_db" where
  "thread_run en lib 0 th w = (th, w)"
| "thread_run en lib (Suc n) th w = (case thread_step en lib th w of (th', w') \<Rightarrow> thread_run en lib n th' w')"

definition thread_of :: "iam_err + TokenPair \<Rightarrow> thread" where
  "thread_of r = (case r of Inl e \<Rightarrow> Broken e | Inr p \<Rightarrow> Finished p)"

lemma thread_run_end [simp]:
  "thread_run en lib n (Finished p) w = (Finished p, w)" "thread_run en lib n (Broken e) w = (Broken e, w)"
  by (induction n) simp_all

text \<open>A thread that runs alone does what the function does.\<close>

lemma Issue_as_thread: "thread_run en lib 3 (IssueStart r) w = (thread_of (fst (Issue en lib r w)), snd (Issue en lib r w))"
  by (simp add: numeral_3_eq_3 Issue_def advance_def andThen_def thread_of_def split: prod.split sum.split)

lemma Refresh_as_thread:
  "thread_run en lib 4 (RefreshStart tok) w = (thread_of (fst (Refresh en lib tok w)), snd (Refresh en lib tok w))"
  by (simp add: eval_nat_numeral Refresh_def advance_def andThen_def thread_of_def split: prod.split sum.split)

section \<open>Interleavings\<close>

datatype race_event = Spawn thread | Step nat | RaiseUser uuid | RaiseTenant uuid | Logout string

type_synonym race_state = "thread list \<times> iam_db"

fun race_exec :: "env \<Rightarrow> token_lib \<Rightarrow> race_event \<Rightarrow> race_state \<Rightarrow> race_state" where
  "race_exec en lib (Spawn th) (ths, w) = (ths @ [th], w)"
| "race_exec en lib (Step i) (ths, w) =
     (if i < length ths then (case thread_step en lib (ths ! i) w of (th, w') \<Rightarrow> (ths[i := th], w')) else (ths, w))"
| "race_exec en lib (RaiseUser u) (ths, w) = (ths, snd (RevokeAllForUser en lib u w))"
| "race_exec en lib (RaiseTenant t) (ths, w) = (ths, snd (RevokeAllForTenant en lib t w))"
| "race_exec en lib (Logout tok) (ths, w) = (ths, snd (Revoke en tok w))"

text \<open>Only the beginning of a login or of a refresh is spawned.\<close>

fun spawnable :: "race_event \<Rightarrow> bool" where
  "spawnable (Spawn (IssueStart r)) = True"
| "spawnable (Spawn (RefreshStart tok)) = True"
| "spawnable (Spawn th) = False"
| "spawnable ev = True"

section \<open>Keys of Redis\<close>

lemma redis_find_put: "now < e \<Longrightarrow> redis_find k now (redis_put k v e xs) = Some v"
  by (simp add: redis_find_def redis_put_def)

lemma redis_find_put_other: "k' \<noteq> k \<Longrightarrow> redis_find k' now (redis_put k v e xs) = redis_find k' now xs"
  by (induction xs) (auto simp: redis_find_def redis_put_def redis_del_def)

lemma redis_count_put: "now < e \<Longrightarrow> redis_count k now (redis_put k v e xs) = v"
  by (simp add: redis_count_def redis_find_put)

lemma redis_count_put_other: "k' \<noteq> k \<Longrightarrow> redis_count k' now (redis_put k v e xs) = redis_count k' now xs"
  by (simp add: redis_count_def redis_find_put_other)

lemma redis_find_member: "redis_find k now xs = Some v \<Longrightarrow> \<exists>e. (k, v, e) \<in> set xs \<and> now < e"
  by (induction xs) (auto simp: redis_find_def split: if_splits prod.splits option.splits)

lemma set_redis_del: "set (redis_del k xs) \<subseteq> set xs"
  by (auto simp: redis_del_def)

lemma set_redis_put: "set (redis_put k v e xs) \<subseteq> insert (k, v, e) (set xs)"
  using set_redis_del by (force simp: redis_put_def)

text \<open>From a tick on, no counter that is raised is dropped any more: time passes by less than its life.\<close>

definition counters_last :: "env \<Rightarrow> token_lib \<Rightarrow> nat \<Rightarrow> bool" where
  "counters_last en lib n0 \<longleftrightarrow> (\<forall>m n. n0 \<le> m \<longrightarrow> m \<le> n \<longrightarrow> env_now en n < env_now en m + tl_refreshTTL lib * 2)"

section \<open>What a counter promises\<close>

text \<open>
  One of the two counters: \<open>cnt\<close> is its table, \<open>powner\<close> and \<open>pgen\<close> what a payload says of it, \<open>carried\<close>
  the owner and generation that a thread has in hand, \<open>fresh\<close> the owner of a thread that has yet to
  read it for a login, and \<open>raised\<close> the owner whose counter an event raises. The laws: a thread
  stores only what it carries; what it carries it has read from the counter for a login or found
  in the payload of a stored token; and a token whose generation is not the counter's is refused.
\<close>

locale session_counter =
  fixes cnt :: "iam_db \<Rightarrow> (uuid \<times> int \<times> time) list"
    and powner :: "refreshPayload \<Rightarrow> uuid"
    and pgen :: "refreshPayload \<Rightarrow> int"
    and carried :: "thread \<Rightarrow> (uuid \<times> int) option"
    and fresh :: "thread \<Rightarrow> uuid option"
    and raised :: "race_event \<Rightarrow> uuid option"
  assumes step_cnt: "thread_step en lib th w = (th', w') \<Longrightarrow> cnt w' = cnt w \<and> tick w \<le> tick w'"
    and step_keys: "thread_step en lib th w = (th', w') \<Longrightarrow> (k, p, e) \<in> set (refresh_keys w') \<Longrightarrow>
      (k, p, e) \<in> set (refresh_keys w) \<or> carried th = Some (powner p, pgen p)"
    and step_carried: "thread_step en lib th w = (th', w') \<Longrightarrow> carried th' = Some (v, g) \<Longrightarrow>
      carried th = Some (v, g) \<or> (fresh th = Some v \<and> g = redis_count v (env_now en (tick w)) (cnt w))
      \<or> (\<exists>k p e. (k, p, e) \<in> set (refresh_keys w) \<and> v = powner p \<and> g = pgen p)"
    and step_fresh: "thread_step en lib th w = (th', w') \<Longrightarrow> fresh th' = Some v \<Longrightarrow> fresh th = Some v"
    and spawn_carried: "spawnable (Spawn th) \<Longrightarrow> carried th = None"
    and other_event: "(\<And>th. ev \<noteq> Spawn th) \<Longrightarrow> (\<And>i. ev \<noteq> Step i) \<Longrightarrow> race_exec en lib ev (ths, w) = (ths', w') \<Longrightarrow>
      ths' = ths \<and> set (refresh_keys w') \<subseteq> set (refresh_keys w) \<and> tick w' = Suc (tick w)
      \<and> (cnt w' = cnt w \<or> (\<exists>v. raised ev = Some v \<and> cnt w' = redis_put v (redis_count v (env_now en (tick w)) (cnt w) + 1)
           (env_now en (tick w) + tl_refreshTTL lib * 2) (cnt w)))"
    and refused: "redis_find tok (env_now en (tick w)) (refresh_keys w) = Some p \<Longrightarrow>
      (\<And>n. tick w \<le> n \<Longrightarrow> redis_count (powner p) (env_now en n) (cnt w) \<noteq> pgen p) \<Longrightarrow> \<exists>err. fst (Refresh en lib tok w) = Inl err"
begin

text \<open>
  The counter of an owner stands at \<open>c\<close> from now on, and no token or thread of the owner carries a
  generation above \<open>b\<close>.
\<close>

definition bounded :: "env \<Rightarrow> uuid \<Rightarrow> int \<Rightarrow> int \<Rightarrow> race_state \<Rightarrow> bool" where
  "bounded en u b c s \<longleftrightarrow> (case s of (ths, w) \<Rightarrow>
     (\<forall>n \<ge> tick w. redis_count u (env_now en n) (cnt w) = c)
     \<and> (\<forall>k p e. (k, p, e) \<in> set (refresh_keys w) \<longrightarrow> powner p = u \<longrightarrow> pgen p \<le> b)
     \<and> (\<forall>th \<in> set ths. \<forall>g. carried th = Some (u, g) \<longrightarrow> g \<le> b))"

definition no_login :: "uuid \<Rightarrow> thread list \<Rightarrow> bool" where
  "no_login u ths \<longleftrightarrow> (\<forall>th \<in> set ths. fresh th \<noteq> Some u)"

lemma boundedI:
  assumes "\<And>n. tick w \<le> n \<Longrightarrow> redis_count u (env_now en n) (cnt w) = c"
    and "\<And>k p e. (k, p, e) \<in> set (refresh_keys w) \<Longrightarrow> powner p = u \<Longrightarrow> pgen p \<le> b"
    and "\<And>th g. th \<in> set ths \<Longrightarrow> carried th = Some (u, g) \<Longrightarrow> g \<le> b"
  shows "bounded en u b c (ths, w)"
  using assms by (auto simp: bounded_def)

lemma boundedD:
  assumes "bounded en u b c (ths, w)"
  shows "tick w \<le> n \<Longrightarrow> redis_count u (env_now en n) (cnt w) = c"
    and "(k, p, e) \<in> set (refresh_keys w) \<Longrightarrow> powner p = u \<Longrightarrow> pgen p \<le> b"
    and "th \<in> set ths \<Longrightarrow> carried th = Some (u, g) \<Longrightarrow> g \<le> b"
  using assms by (auto simp: bounded_def)

text \<open>A step of a thread keeps the bound, if the counter is not above it or the thread is no login.\<close>

lemma bounded_step:
  assumes bd: "bounded en u b c (ths, w)" and i: "i < length ths" and run: "thread_step en lib (ths ! i) w = (th', w')"
    and new: "c \<le> b \<or> fresh (ths ! i) \<noteq> Some u"
  shows "bounded en u b c (ths[i := th'], w')"
proof (rule boundedI)
  note d = boundedD [OF bd]
  have mem: "ths ! i \<in> set ths" using i by simp
  show "redis_count u (env_now en n) (cnt w') = c" if "tick w' \<le> n" for n
    using d(1) [of n] step_cnt [OF run] that by simp
  show "pgen p \<le> b" if "(k, p, e) \<in> set (refresh_keys w')" "powner p = u" for k p e
    using step_keys [OF run that(1)] that(2) d(2) d(3) [OF mem] by blast
  show "g \<le> b" if "th \<in> set (ths[i := th'])" "carried th = Some (u, g)" for th g
  proof (cases "th = th'")
    case True
    with that(2) step_carried [OF run, of u g] consider "carried (ths ! i) = Some (u, g)"
      | "fresh (ths ! i) = Some u" "g = redis_count u (env_now en (tick w)) (cnt w)"
      | k p e where "(k, p, e) \<in> set (refresh_keys w)" "u = powner p" "g = pgen p" by blast
    then show ?thesis using d(1) [of "tick w"] d(2) d(3) [OF mem] new by cases auto
  next
    case False
    then have "th \<in> set ths" using that(1) set_update_subset_insert [of ths i th'] by auto
    then show ?thesis using d(3) that(2) by blast
  qed
qed

lemma raise_count:
  assumes "counters_last en lib n0" "n0 \<le> tick w" "tick w \<le> n"
  shows "redis_count v (env_now en n) (redis_put v c (env_now en (tick w) + tl_refreshTTL lib * 2) xs) = c"
  using assms by (intro redis_count_put) (simp add: counters_last_def)

lemma bounded_other:
  assumes bd: "bounded en u b c (ths, w)" and la: "counters_last en lib n0" "n0 \<le> tick w"
    and ev: "\<And>th. ev \<noteq> Spawn th" "\<And>i. ev \<noteq> Step i" and run: "race_exec en lib ev (ths, w) = (ths', w')"
  shows "ths' = ths" "bounded en u b (if cnt w' = cnt w \<or> raised ev \<noteq> Some u then c else c + 1) (ths, w')" "tick w \<le> tick w'"
proof -
  note d = boundedD [OF bd]
  have ot: "ths' = ths" "set (refresh_keys w') \<subseteq> set (refresh_keys w)" "tick w' = Suc (tick w)"
    "cnt w' = cnt w \<or> (\<exists>v. raised ev = Some v \<and> cnt w' = redis_put v (redis_count v (env_now en (tick w)) (cnt w) + 1)
           (env_now en (tick w) + tl_refreshTTL lib * 2) (cnt w))"
    using other_event [OF ev run] by auto
  show "ths' = ths" "tick w \<le> tick w'" using ot by auto
  show "bounded en u b (if cnt w' = cnt w \<or> raised ev \<noteq> Some u then c else c + 1) (ths, w')"
  proof (rule boundedI)
    fix n assume n: "tick w' \<le> n"
    show "redis_count u (env_now en n) (cnt w') = (if cnt w' = cnt w \<or> raised ev \<noteq> Some u then c else c + 1)"
    proof (cases "cnt w' = cnt w")
      case False
      then obtain v where v: "raised ev = Some v" "cnt w' = redis_put v (redis_count v (env_now en (tick w)) (cnt w) + 1)
           (env_now en (tick w) + tl_refreshTTL lib * 2) (cnt w)" using ot(4) by blast
      show ?thesis
      proof (cases "v = u")
        case True
        then show ?thesis using v False raise_count [OF la, of n u] n ot(3) d(1) [of "tick w"] by simp
      next
        case False
        then show ?thesis using v n ot(3) d(1) [of n] by (simp add: redis_count_put_other)
      qed
    qed (use n ot(3) d(1) [of n] in simp)
  qed (use ot(2) d(2,3) in blast)+
qed

lemma exec_bounded:
  assumes bd: "bounded en u b c (ths, w)" and la: "counters_last en lib n0" "n0 \<le> tick w" and sp: "spawnable ev"
    and run: "race_exec en lib ev (ths, w) = (ths', w')"
    and new: "c \<le> b \<or> (no_login u ths \<and> (\<forall>th. ev = Spawn th \<longrightarrow> fresh th \<noteq> Some u))"
  shows "(\<exists>c' \<ge> c. bounded en u b c' (ths', w')) \<and> n0 \<le> tick w' \<and> (no_login u ths \<longrightarrow> (\<forall>th. ev = Spawn th \<longrightarrow> fresh th \<noteq> Some u) \<longrightarrow> no_login u ths')"
proof (cases ev)
  case (Spawn th)
  then have "ths' = ths @ [th]" "w' = w" using run by auto
  then show ?thesis using Spawn sp bd la spawn_carried by (auto simp: bounded_def no_login_def intro!: exI [of _ c])
next
  case (Step i)
  show ?thesis
  proof (cases "i < length ths")
    case True
    then obtain th where th: "thread_step en lib (ths ! i) w = (th, w')" "ths' = ths[i := th]"
      using Step run by (auto split: prod.splits)
    have "c \<le> b \<or> fresh (ths ! i) \<noteq> Some u" using new True by (auto simp: no_login_def)
    then have "bounded en u b c (ths', w')" using bounded_step [OF bd True th(1)] th(2) by simp
    moreover have "no_login u ths \<longrightarrow> no_login u ths'" unfolding no_login_def th(2)
      by (metis True in_set_conv_nth length_list_update nth_list_update nth_mem step_fresh [OF th(1)])
    ultimately show ?thesis using step_cnt [OF th(1)] la by auto
  next
    case False
    then show ?thesis using Step run bd la by auto
  qed
qed (use bounded_other [OF bd la _ _ run] la in \<open>auto intro: exI [of _ c] exI [of _ "c + 1"] split: if_splits\<close>)+

end

context session_counter
begin

lemma bounded_mono: "bounded en u b c s \<Longrightarrow> b \<le> b' \<Longrightarrow> bounded en u b' c s"
  unfolding bounded_def by (fastforce split: prod.splits)

text \<open>From a store without keys, no token ever carries more than the counter, as long as counters last.\<close>

lemma run_bounded:
  assumes "counters_last en lib n0" and "\<forall>ev \<in> set evs. spawnable ev"
    and "bounded en u c c (ths, w)" "n0 \<le> tick w" "fold (race_exec en lib) evs (ths, w) = (ths', w')"
  shows "\<exists>c'. bounded en u c' c' (ths', w') \<and> n0 \<le> tick w'"
  using assms(2-)
proof (induction evs arbitrary: ths w c)
  case (Cons ev evs)
  obtain ths1 w1 where run: "race_exec en lib ev (ths, w) = (ths1, w1)" by fastforce
  obtain c' where c': "c \<le> c'" "bounded en u c c' (ths1, w1)" "n0 \<le> tick w1"
    using exec_bounded [OF Cons.prems(2) assms(1) Cons.prems(3) _ run] Cons.prems(1) by auto
  then have "bounded en u c' c' (ths1, w1)" by (auto intro: bounded_mono)
  from Cons.IH [OF _ this c'(3)] Cons.prems(1,4) show ?case by (simp add: run)
qed auto

text \<open>With the counter above every generation in hand, and no new login, it stays above.\<close>

lemma run_above:
  assumes "counters_last en lib n0" and "\<forall>ev \<in> set evs. spawnable ev \<and> (\<forall>th. ev = Spawn th \<longrightarrow> fresh th \<noteq> Some u)"
    and "bounded en u b c (ths, w)" "b < c" "no_login u ths" "n0 \<le> tick w"
  shows "\<exists>c'. b < c' \<and> bounded en u b c' (fold (race_exec en lib) evs (ths, w))"
  using assms(2-)
proof (induction evs arbitrary: ths w c)
  case (Cons ev evs)
  obtain ths' w' where run: "race_exec en lib ev (ths, w) = (ths', w')" by fastforce
  obtain c' where c': "c \<le> c'" "bounded en u b c' (ths', w')" "n0 \<le> tick w'" "no_login u ths'"
    using exec_bounded [OF Cons.prems(2) assms(1) Cons.prems(5) _ run] Cons.prems(1,4) by auto
  from Cons.IH [OF _ c'(2) _ c'(4,3)] Cons.prems(1,3) c'(1) show ?case by (simp add: run)
qed auto

lemma raise_above:
  assumes "bounded en u b c (ths, w)" "counters_last en lib n0" "n0 \<le> tick w"
    and w': "cnt w' = redis_put u (redis_count u (env_now en (tick w)) (cnt w) + 1) (env_now en (tick w) + tl_refreshTTL lib * 2) (cnt w)"
      "refresh_keys w' = refresh_keys w" "tick w' = Suc (tick w)"
  shows "bounded en u b (c + 1) (ths, w')"
proof (rule boundedI)
  note d = boundedD [OF assms(1)]
  show "redis_count u (env_now en n) (cnt w') = c + 1" if "tick w' \<le> n" for n
    using raise_count [OF assms(2,3), of n] d(1) [of "tick w"] that w' by simp
qed (use boundedD [OF assms(1)] w'(2) in auto)

text \<open>
  Whatever has gone before from a store without keys: once the counter of \<open>u\<close> is raised, no token of \<open>u\<close> is
  exchanged any more, whatever threads were under way and whatever happens but a new login of \<open>u\<close>.
\<close>

lemma revoked:
  assumes la: "counters_last en lib (tick w0)" and w0: "refresh_keys w0 = []" "cnt w0 = []"
    and before: "\<forall>ev \<in> set evs. spawnable ev" "fold (race_exec en lib) evs ([], w0) = (ths, w)"
    and raise: "cnt w1 = redis_put u (redis_count u (env_now en (tick w)) (cnt w) + 1) (env_now en (tick w) + tl_refreshTTL lib * 2) (cnt w)"
      "refresh_keys w1 = refresh_keys w" "tick w1 = Suc (tick w)"
    and after: "no_login u ths" "\<forall>ev \<in> set evs'. spawnable ev \<and> (\<forall>th. ev = Spawn th \<longrightarrow> fresh th \<noteq> Some u)"
      "fold (race_exec en lib) evs' (ths, w1) = (ths', w2)"
    and tok: "redis_find tok (env_now en (tick w2)) (refresh_keys w2) = Some p" "powner p = u"
  shows "\<exists>err. fst (Refresh en lib tok w2) = Inl err"
proof -
  have "bounded en u 0 0 ([], w0)" using w0 by (auto simp: bounded_def redis_count_def redis_find_def)
  from run_bounded [OF la before(1) this _ before(2)] obtain c where c: "bounded en u c c (ths, w)" "tick w0 \<le> tick w" by auto
  have "bounded en u c (c + 1) (ths, w1)" by (rule raise_above [OF c(1) la c(2) raise])
  from run_above [OF la after(2) this _ after(1)] obtain c' where c': "c < c'" "bounded en u c c' (ths', w2)"
    using after(3) c(2) raise(3) by auto
  obtain e where "(tok, p, e) \<in> set (refresh_keys w2)" using redis_find_member [OF tok(1)] by blast
  then have "pgen p \<le> c" using boundedD(2) [OF c'(2)] tok(2) by blast
  then show ?thesis using refused [OF tok(1)] boundedD(1) [OF c'(2)] tok(2) c'(1) by force
qed

end

section \<open>The counters of users and of tenants\<close>

fun user_carried :: "thread \<Rightarrow> (uuid \<times> int) option" where
  "user_carried (IssueUser r g) = Some (ar_UserID r, g)"
| "user_carried (Issuing r gens) = Some (ar_UserID r, gn_User gens)"
| "user_carried (RefreshRead p) = Some (rp_UserID p, rp_Generation p)"
| "user_carried (RefreshUser p g) = Some (rp_UserID p, rp_Generation p)"
| "user_carried _ = None"

fun user_fresh :: "thread \<Rightarrow> uuid option" where
  "user_fresh (IssueStart r) = Some (ar_UserID r)"
| "user_fresh _ = None"

fun user_raised :: "race_event \<Rightarrow> uuid option" where
  "user_raised (RaiseUser u) = Some u"
| "user_raised _ = None"

fun tenant_carried :: "thread \<Rightarrow> (uuid \<times> int) option" where
  "tenant_carried (Issuing r gens) = Some (ar_TenantID r, gn_Tenant gens)"
| "tenant_carried (RefreshRead p) = Some (rp_TenantID p, rp_TenantGeneration p)"
| "tenant_carried (RefreshUser p g) = Some (rp_TenantID p, rp_TenantGeneration p)"
| "tenant_carried _ = None"

fun tenant_fresh :: "thread \<Rightarrow> uuid option" where
  "tenant_fresh (IssueStart r) = Some (ar_TenantID r)"
| "tenant_fresh (IssueUser r g) = Some (ar_TenantID r)"
| "tenant_fresh _ = None"

fun tenant_raised :: "race_event \<Rightarrow> uuid option" where
  "tenant_raised (RaiseTenant t) = Some t"
| "tenant_raised _ = None"

lemma generation_read:
  assumes "currentGeneration en u w = (r, w')"
  shows "w' = w\<lparr>tick := Suc (tick w)\<rparr>" "r = Inr g \<Longrightarrow> g = redis_count u (env_now en (tick w)) (usergen w)"
  using assms by (auto simp: currentGeneration_def onErr_def query_def Let_def split: if_splits)

lemma tenant_generation_read:
  assumes "currentTenantGeneration en u w = (r, w')"
  shows "w' = w\<lparr>tick := Suc (tick w)\<rparr>" "r = Inr g \<Longrightarrow> g = redis_count u (env_now en (tick w)) (tenantgen w)"
  using assms by (auto simp: currentTenantGeneration_def onErr_def query_def Let_def split: if_splits)

lemma consume_effect:
  assumes "consumeRefreshToken en tok w = (r, w')"
  shows "usergen w' = usergen w" "tenantgen w' = tenantgen w" "tick w' = Suc (tick w)"
    "set (refresh_keys w') \<subseteq> set (refresh_keys w)"
    "r = Inr p \<Longrightarrow> redis_find tok (env_now en (tick w)) (refresh_keys w) = Some p"
  using assms set_redis_del [of tok "refresh_keys w"]
  by (auto simp: consumeRefreshToken_def andThen_def onErr_def query_def Let_def split: if_splits option.splits)

definition stored_by :: "AuthResult \<Rightarrow> generations \<Rightarrow> refreshPayload \<Rightarrow> bool" where
  "stored_by r gens p \<longleftrightarrow> rp_UserID p = ar_UserID r \<and> rp_TenantID p = ar_TenantID r
     \<and> rp_Generation p = gn_User gens \<and> rp_TenantGeneration p = gn_Tenant gens"

lemma issue_effect:
  assumes "issueWithGeneration en lib r gens w = (x, w')"
  shows "usergen w' = usergen w" "tenantgen w' = tenantgen w" "tick w \<le> tick w'"
    "(k, p, e) \<in> set (refresh_keys w') \<Longrightarrow> (k, p, e) \<in> set (refresh_keys w) \<or> stored_by r gens p"
  using assms set_redis_put
  by (force simp: issueWithGeneration_def issueRefreshToken_def generateToken_def andThen_def onErr_def query_def Let_def time_Now_def stored_by_def
      split: if_splits option.splits)+

lemma result_of_simps [simp]: "ar_UserID (result_of p) = rp_UserID p" "ar_TenantID (result_of p) = rp_TenantID p"
  by (simp_all add: result_of_def)

lemma step_tables:
  assumes "thread_step en lib th w = (th', w')"
  shows "usergen w' = usergen w" "tenantgen w' = tenantgen w" "tick w \<le> tick w'"
  using assms
  by (cases th; auto simp: advance_def dest: generation_read(1) tenant_generation_read(1) consume_effect(1-3) issue_effect(1-3)
      split: prod.splits sum.splits if_splits)+

lemma step_stores:
  assumes "thread_step en lib th w = (th', w')" "(k, p, e) \<in> set (refresh_keys w')"
  shows "(k, p, e) \<in> set (refresh_keys w) \<or> (\<exists>r gens. th = Issuing r gens \<and> stored_by r gens p)"
  using assms
  by (cases th; auto simp: advance_def dest!: generation_read(1) tenant_generation_read(1) consume_effect(4) dest: issue_effect(4)
      split: prod.splits sum.splits if_splits)

text \<open>What a thread has in hand after a step.\<close>

lemma step_results:
  assumes "thread_step en lib th w = (th', w')"
  shows "th = IssueStart r \<Longrightarrow> th' = IssueUser r (redis_count (ar_UserID r) (env_now en (tick w)) (usergen w)) \<or> (\<exists>e. th' = Broken e)"
    and "th = IssueUser r g \<Longrightarrow>
      th' = Issuing r \<lparr>gn_User = g, gn_Tenant = redis_count (ar_TenantID r) (env_now en (tick w)) (tenantgen w)\<rparr> \<or> (\<exists>e. th' = Broken e)"
    and "th = Issuing r gens \<Longrightarrow> (\<exists>pair. th' = Finished pair) \<or> (\<exists>e. th' = Broken e)"
    and "th = RefreshStart tok \<Longrightarrow>
      (\<exists>p. th' = RefreshRead p \<and> redis_find tok (env_now en (tick w)) (refresh_keys w) = Some p) \<or> (\<exists>e. th' = Broken e)"
    and "th = RefreshRead p \<Longrightarrow> (\<exists>g. th' = RefreshUser p g) \<or> (\<exists>e. th' = Broken e)"
    and "th = RefreshUser p g \<Longrightarrow>
      th' = Issuing (result_of p) \<lparr>gn_User = rp_Generation p, gn_Tenant = rp_TenantGeneration p\<rparr> \<or> (\<exists>e. th' = Broken e)"
  using assms
  by (auto simp: advance_def dest: generation_read(2) tenant_generation_read(2) consume_effect(5)
      split: prod.splits sum.splits if_splits)

lemma Refresh_refused:
  assumes found: "redis_find tok (env_now en (tick w)) (refresh_keys w) = Some p"
    and differs: "(\<forall>n \<ge> tick w. redis_count (rp_UserID p) (env_now en n) (usergen w) \<noteq> rp_Generation p)
      \<or> (\<forall>n \<ge> tick w. redis_count (rp_TenantID p) (env_now en n) (tenantgen w) \<noteq> rp_TenantGeneration p)"
  shows "\<exists>err. fst (Refresh en lib tok w) = Inl err"
proof -
  obtain r1 w1 where c: "consumeRefreshToken en tok w = (r1, w1)" by fastforce
  show ?thesis
  proof (cases r1)
    case (Inr p1)
    then have p1: "p1 = p" using consume_effect(5) [OF c] found by simp
    obtain r2 w2 where g: "currentGeneration en (rp_UserID p) w1 = (r2, w2)" by fastforce
    obtain r3 w3 where t: "currentTenantGeneration en (rp_TenantID p) w2 = (r3, w3)" by fastforce
    show ?thesis
    proof (cases r2; cases r3)
      fix ug tg assume r: "r2 = Inr ug" "r3 = Inr tg"
      have "rp_Generation p \<noteq> ug \<or> rp_TenantGeneration p \<noteq> tg"
        using differs generation_read(2) [OF g r(1)] tenant_generation_read(2) [OF t r(2)] generation_read(1) [OF g] consume_effect(1-3) [OF c]
        by (auto dest: spec [of _ "tick w1"] spec [of _ "tick w2"])
      then show ?thesis using c g t Inr p1 r by (auto simp: Refresh_def andThen_def)
    qed (use c g t Inr p1 in \<open>auto simp: Refresh_def andThen_def\<close>)
  qed (use c in \<open>simp add: Refresh_def andThen_def\<close>)
qed

lemma raise_effect:
  assumes "race_exec en lib ev (ths, w) = (ths', w')" "\<And>th. ev \<noteq> Spawn th" "\<And>i. ev \<noteq> Step i"
  shows "ths' = ths" "set (refresh_keys w') \<subseteq> set (refresh_keys w)" "tick w' = Suc (tick w)"
    "usergen w' = usergen w \<or> (\<exists>u. user_raised ev = Some u \<and> usergen w' = redis_put u (redis_count u (env_now en (tick w)) (usergen w) + 1)
       (env_now en (tick w) + tl_refreshTTL lib * 2) (usergen w))"
    "tenantgen w' = tenantgen w \<or> (\<exists>t. tenant_raised ev = Some t \<and> tenantgen w' = redis_put t (redis_count t (env_now en (tick w)) (tenantgen w) + 1)
       (env_now en (tick w) + tl_refreshTTL lib * 2) (tenantgen w))"
  using assms set_redis_del
  by (cases ev; force simp: RevokeAllForUser_def RevokeAllForTenant_def Revoke_def andThen_def onErr_def query_def Let_def split: if_splits)+

interpretation user_sessions: session_counter usergen rp_UserID rp_Generation user_carried user_fresh user_raised
proof (unfold_locales, goal_cases)
  case (1 en lib th w th' w') then show ?case using step_tables by blast
next
  case (2 en lib th w th' w' k p e) then show ?case using step_stores [OF 2] by (auto simp: stored_by_def)
next
  case (3 en lib th w th' w' v g)
  then show ?case using step_results [OF 3(1)] redis_find_member by (cases th) fastforce+
next
  case (4 en lib th w th' w' v) then show ?case using step_results [OF 4(1)] 4(1) by (cases th) fastforce+
next
  case (5 th) then show ?case by (cases th) auto
next
  case (6 ev en lib ths w ths' w') then show ?case using raise_effect [OF 6(3,1,2)] by blast
next
  case (7 tok en w p lib) then show ?case using Refresh_refused by blast
qed

interpretation tenant_sessions: session_counter tenantgen rp_TenantID rp_TenantGeneration tenant_carried tenant_fresh tenant_raised
proof (unfold_locales, goal_cases)
  case (1 en lib th w th' w') then show ?case using step_tables by blast
next
  case (2 en lib th w th' w' k p e) then show ?case using step_stores [OF 2] by (auto simp: stored_by_def)
next
  case (3 en lib th w th' w' v g)
  then show ?case using step_results [OF 3(1)] redis_find_member by (cases th) fastforce+
next
  case (4 en lib th w th' w' v) then show ?case using step_results [OF 4(1)] 4(1) by (cases th) fastforce+
next
  case (5 th) then show ?case by (cases th) auto
next
  case (6 ev en lib ths w ths' w') then show ?case using raise_effect [OF 6(3,1,2)] by blast
next
  case (7 tok en w p lib) then show ?case using Refresh_refused by blast
qed

section \<open>Revocation\<close>

lemma RevokeAllForUser_Inr:
  "RevokeAllForUser en lib u w = (Inr (), w') \<Longrightarrow>
     usergen w' = redis_put u (redis_count u (env_now en (tick w)) (usergen w) + 1) (env_now en (tick w) + tl_refreshTTL lib * 2) (usergen w)
     \<and> refresh_keys w' = refresh_keys w \<and> tick w' = Suc (tick w)"
  by (auto simp: RevokeAllForUser_def onErr_def query_def Let_def split: if_splits)

lemma RevokeAllForTenant_Inr:
  "RevokeAllForTenant en lib t w = (Inr (), w') \<Longrightarrow>
     tenantgen w' = redis_put t (redis_count t (env_now en (tick w)) (tenantgen w) + 1) (env_now en (tick w) + tl_refreshTTL lib * 2) (tenantgen w)
     \<and> refresh_keys w' = refresh_keys w \<and> tick w' = Suc (tick w)"
  by (auto simp: RevokeAllForTenant_def onErr_def query_def Let_def split: if_splits)


text \<open>The same for all sessions of a tenant.\<close>

lemma revoked_tenant_sessions:
  assumes "counters_last en lib (tick w0)" and "refresh_keys w0 = []" "tenantgen w0 = []"
    and "\<forall>ev \<in> set evs. spawnable ev" "fold (race_exec en lib) evs ([], w0) = (ths, w)"
    and "RevokeAllForTenant en lib t w = (Inr (), w1)"
    and "\<forall>th \<in> set ths. tenant_fresh th \<noteq> Some t"
    and "\<forall>ev \<in> set evs'. spawnable ev \<and> (\<forall>th. ev = Spawn th \<longrightarrow> tenant_fresh th \<noteq> Some t)"
    and "fold (race_exec en lib) evs' (ths, w1) = (ths', w2)"
    and "redis_find tok (env_now en (tick w2)) (refresh_keys w2) = Some p" "rp_TenantID p = t"
  shows "\<exists>err. fst (Refresh en lib tok w2) = Inl err"
  using tenant_sessions.revoked [OF assms(1-5) _ _ _ _ assms(8-11)] RevokeAllForTenant_Inr [OF assms(6)] assms(7)
  by (auto simp: tenant_sessions.no_login_def)

section \<open>Examples\<close>

text \<open>An issuer whose tokens are told apart by the tick at which they are made.\<close>

definition demo_lib :: token_lib where
  "demo_lib = \<lparr>tl_String = (\<lambda>i. itoa i), tl_Parse = (\<lambda>s. Some (atoi s)), tl_rand = (\<lambda>n k. Some [char_of n]),
     tl_Sign = (\<lambda>c. Some (jc_Subject c)), tl_ParseJWT = (\<lambda>now s. Inl False),
     tl_accessTTL = DefaultAccessTTL, tl_refreshTTL = DefaultRefreshTTL\<rparr>"

definition demo_env :: "(nat \<Rightarrow> time) \<Rightarrow> env" where
  "demo_env clock = \<lparr>env_uuid = (\<lambda>n. Suc n), env_now = clock, env_fail = (\<lambda>_. False)\<rparr>"

definition demo_login :: AuthResult where
  "demo_login = \<lparr>ar_UserID = 7, ar_TenantID = 3, ar_Email = ''a@b'', ar_DisplayName = '''', ar_Roles = [], ar_Permissions = [],
     ar_AuthMethod = ProviderLocal, ar_IsNewUser = False\<rparr>"

text \<open>A login has read both counters when the revocation comes; the token it then stores is dead.\<close>

definition demo_still :: env where
  "demo_still = demo_env (\<lambda>_. 0)"

definition demo_under_way :: race_state where
  "demo_under_way = fold (race_exec demo_still demo_lib) [Spawn (IssueStart demo_login), Step 0, Step 0] ([], empty_iam)"

definition demo_revoked :: iam_db where
  "demo_revoked = snd (RevokeAllForUser demo_still demo_lib 7 (snd demo_under_way))"

definition demo_stored :: race_state where
  "demo_stored = fold (race_exec demo_still demo_lib) [Step 0] (fst demo_under_way, demo_revoked)"

definition demo_payload :: refreshPayload where
  "demo_payload = \<lparr>rp_UserID = 7, rp_TenantID = 3, rp_Email = ''a@b'', rp_Roles = [], rp_Permissions = [], rp_AuthMethod = ''local'',
     rp_Generation = 0, rp_TenantGeneration = 0\<rparr>"

lemmas session_defs = currentGeneration_def currentTenantGeneration_def issueRefreshToken_def issueWithGeneration_def Issue_def
  consumeRefreshToken_def Refresh_def RevokeAllForUser_def generateToken_def advance_def result_of_def time_Now_def andThen_def onErr_def
  query_def Let_def redis_count_def redis_find_def redis_put_def redis_del_def

lemmas demo_defs = demo_lib_def demo_env_def demo_login_def empty_iam_def DefaultAccessTTL_def DefaultRefreshTTL_def days_def ProviderLocal_def

lemma demo_hex: "hex [char_of (4 :: nat)] = ''04''" "hex [char_of (Suc (Suc (Suc (Suc 0))))] = ''04''"
  "hex [char_of (Suc (Suc (Suc (Suc (Suc (Suc (Suc (Suc (Suc (Suc (Suc 0)))))))))))] = ''0b''"
  by code_simp+

lemma demo_race_facts:
  "RevokeAllForUser demo_still demo_lib 7 (snd demo_under_way) = (Inr (), demo_revoked)"
  "redis_find ''04'' (env_now demo_still (tick (snd demo_stored))) (refresh_keys (snd demo_stored)) = Some demo_payload"
  "\<forall>th \<in> set (fst demo_under_way). user_fresh th \<noteq> Some 7"
  by (simp_all add: session_defs demo_defs demo_hex demo_still_def demo_under_way_def demo_revoked_def demo_stored_def demo_payload_def)


text \<open>
  A counter lives for twice the life of a refresh token after it was last raised. A session of
  generation 1 that is opened shortly before the counter is dropped outlives it; the next revocation
  then raises the counter from nothing to 1, and the session that it was to end is refreshed.
\<close>

definition demo_fortnight :: env where
  "demo_fortnight = demo_env (\<lambda>n. if n < 1 then 0 else if n < 6 then days 13 else if n < 7 then days 15 else days 16)"

lemma revocation_revives_session:
  "let w0 = snd (RevokeAllForUser demo_fortnight demo_lib 7 empty_iam);
       w1 = snd (Issue demo_fortnight demo_lib demo_login w0);
       w2 = snd (RevokeAllForUser demo_fortnight demo_lib 7 w1)
   in fst (RevokeAllForUser demo_fortnight demo_lib 7 w1) = Inr ()
     \<and> fst (Refresh demo_fortnight demo_lib ''04'' w2) \<noteq> Inl (Sentinel ErrSessionRevoked)
     \<and> redis_find ''0b'' (days 16) (refresh_keys (snd (Refresh demo_fortnight demo_lib ''04'' w2))) \<noteq> None"
  by (simp add: session_defs demo_defs demo_hex demo_fortnight_def)

end
