(* ===== verification/IamProps.thy ===== *)
theory IamProps
  imports IamRun IamRace
begin

text \<open>
  Properties of identity and access: the decision on a permission from the call in another service to
  the tables, what a login needs, and that an issued token identifies its user. The theory also holds
  the client through which the other services ask (\<^verbatim>\<open>pkg/iamclient/permission.go\<close>).
\<close>

section \<open>Permissions\<close>

text \<open>
  The adapter that the other services call: its answer is that of the handler behind the interceptor
  of the service of identity, to which the forwarding interceptor sends the caller's token.
\<close>

definition checkPermissionMethod :: string where
  "checkPermissionMethod = ''/thittam.iam.v1.IAMService/CheckPermission''"

definition received :: "ctx \<Rightarrow> ctx" where
  "received ctx = \<lparr>ctx_caller = None, ctx_tenant = None, ctx_actor = None, ctx_vertical = None,
     ctx_incoming = ctx_outgoing (ForwardAuth ctx), ctx_outgoing = (\<lambda>_. [])\<rparr>"

definition client_CheckPermission :: "iam_service \<Rightarrow> time \<Rightarrow> iam_db \<Rightarrow> ctx \<Rightarrow> checker" where
  "client_CheckPermission s now w ctx user permission project =
     (case fst (UnaryAuthInterceptor (tl_Parse (sv_tok s)) (Verify (sv_tok s) now) PublicMethods (received ctx) checkPermissionMethod
        (\<lambda>c. rpc_CheckPermission s c (tl_String (sv_tok s) user) permission
           (case project of None \<Rightarrow> '''' | Some p \<Rightarrow> tl_String (sv_tok s) p)) w) of
        Inl _ \<Rightarrow> Inl () | Inr allowed \<Rightarrow> Inr allowed)"

text \<open>A user holds a permission through a role of its own tenant, assigned for the tenant or for the project.\<close>

definition permits :: "iam_db \<Rightarrow> uuid \<Rightarrow> string \<Rightarrow> uuid option \<Rightarrow> bool" where
  "permits w user p project \<longleftrightarrow> (\<exists>ur \<in> set (user_roles w). \<exists>r \<in> set (roles w). \<exists>u \<in> set (users w).
     ur_UserID ur = user \<and> ro_ID r = ur_RoleID ur \<and> us_ID u = user \<and> us_TenantID u = ro_TenantID r
     \<and> (ur_ProjectID ur = None \<or> (project \<noteq> None \<and> ur_ProjectID ur = project)) \<and> p \<in> set (ro_Permissions r))"

lemma holds_iff: "holds ps p \<longleftrightarrow> p \<in> set ps"
  by (induction ps) auto

lemma set_join_roles: "r \<in> set (join_roles rs urs) \<longleftrightarrow> r \<in> set rs \<and> (\<exists>ur \<in> set urs. ro_ID r = ur_RoleID ur)"
  by (auto simp: join_roles_def)

lemma join_roles_filter:
  "(\<exists>r \<in> set (join_roles rs (filter q urs)). Z r) \<longleftrightarrow> (\<exists>ur \<in> set urs. \<exists>r \<in> set rs. q ur \<and> ro_ID r = ur_RoleID ur \<and> Z r)"
  by (simp add: Bex_def set_join_roles) blast

lemma svc_CheckPermission_answer:
  assumes "iam_inv w" and "\<not> env_fail (sv_env s) (tick w)"
  shows "fst (svc_CheckPermission s user p project w) = Inr (permits w user p project)"
proof -
  have "\<exists>u \<in> set (users w). us_ID u = ur_UserID ur \<and> us_TenantID u = ro_TenantID r"
    if held: "ur \<in> set (user_roles w)" "r \<in> set (roles w)" "ro_ID r = ur_RoleID ur" for ur r
  proof -
    obtain u r' where "u \<in> set (users w)" "r' \<in> set (roles w)" "us_ID u = ur_UserID ur" "ro_ID r' = ur_RoleID ur" "us_TenantID u = ro_TenantID r'"
      using assms(1) held(1) unfolding iam_inv_def roles_ok_def by blast
    moreover from this have "r' = r" using assms(1) held(2,3) unfolding iam_inv_def keys_ok_def by (metis distinct_key_unique)
    ultimately show ?thesis by blast
  qed
  then have "permits w user p project \<longleftrightarrow> (\<exists>r \<in> set (join_roles (roles w) (filter (\<lambda>x. ur_UserID x = user
      \<and> (ur_ProjectID x = None \<or> (project \<noteq> None \<and> ur_ProjectID x = project))) (user_roles w))). p \<in> set (ro_Permissions r))"
    unfolding permits_def join_roles_filter by blast
  then show ?thesis using assms(2)
    by (simp add: svc_CheckPermission_def pg_GetUserPermissions_def q_GetUserPermissions_def andThen_def onErr_def query_def Let_def holds_iff)
qed

lemma rpc_CheckPermission_answer:
  assumes "iam_inv w" and "\<not> env_fail (sv_env s) (tick w)" and "CallerFromContext ctx = Some caller" and "UserID caller \<noteq> uuid_Nil"
    and "tl_Parse (sv_tok s) utxt = Some (UserID caller)"
    and "case project of None \<Rightarrow> ptxt = '''' | Some p \<Rightarrow> ptxt \<noteq> '''' \<and> tl_Parse (sv_tok s) ptxt = Some p"
  shows "fst (rpc_CheckPermission s ctx utxt permission ptxt w) = Inr (permits w (UserID caller) permission project)"
  using assms(3-) svc_CheckPermission_answer [OF assms(1,2), of "UserID caller" permission project]
  by (auto simp: rpc_CheckPermission_def parseID_def liftR_def andThen_def onErr_def split: option.splits sum.splits prod.splits)

lemma received_token: "ctx_outgoing ctx ''authorization'' = [] \<Longrightarrow>
    firstMD (ctx_incoming (received ctx)) ''authorization'' = firstMD (ctx_incoming ctx) ''authorization''"
  by (auto simp: received_def ForwardAuth_def append_md_def firstMD_def Let_def split: list.split)

text \<open>An authenticated context carries the identity of the token that the call sent.\<close>

lemma authenticate_token:
  assumes "authenticate parse ctx0 method verify public = Inr ctx" and "method \<notin> set public"
  obtains raw claims caller where "raw = firstMD (ctx_incoming ctx0) ''authorization''" and "raw \<noteq> ''''" and "length bearerPrefix < length raw"
    and "EqualFold (take (length bearerPrefix) raw) bearerPrefix" and "verify (drop (length bearerPrefix) raw) = Inr claims"
    and "CallerFromContext ctx = Some caller" and "UserID caller = Subject claims" and "TenantID caller = ClaimsTenantID claims"
    and "Roles caller = ClaimsRoles claims" and "Permissions caller = ClaimsPermissions claims" and "Email caller = ClaimsEmail claims"
    and "ctx_incoming ctx = ctx_incoming ctx0" and "ctx_outgoing ctx = ctx_outgoing ctx0"
  using assms by (auto simp: authenticate_def Let_def WithCaller_def WithID_def CallerFromContext_def split: if_splits sum.splits)

lemma authenticate_accepts:
  assumes "method \<notin> set public" and "raw = firstMD (ctx_incoming ctx0) ''authorization''" and "length bearerPrefix < length raw"
    and "EqualFold (take (length bearerPrefix) raw) bearerPrefix" and "verify (drop (length bearerPrefix) raw) = Inr claims"
  shows "\<exists>ctx caller. authenticate parse ctx0 method verify public = Inr ctx \<and> CallerFromContext ctx = Some caller
    \<and> UserID caller = Subject claims \<and> TenantID caller = ClaimsTenantID claims \<and> Roles caller = ClaimsRoles claims
    \<and> Permissions caller = ClaimsPermissions claims \<and> Email caller = ClaimsEmail claims"
  using assms by (auto simp: authenticate_def Let_def WithCaller_def WithID_def CallerFromContext_def)

text \<open>
  C37: A service that is asked for an operation grants a permission exactly when the user of the token
  holds it in the tables of identity and access: through a role of its own tenant that is assigned to
  it for the whole tenant or, where project scoping is switched on, for the project that the call
  names. The token is forwarded, verified again and answered by the handler of the other service;
  assumed are that the identifiers print and parse back, that the token is still valid when it
  arrives and that the database answers.
\<close>

theorem permission_decision_end_to_end:
  assumes inv: "iam_inv w"
    and auth: "authenticate (tl_Parse (sv_tok s)) ctx0 method (Verify (sv_tok s) now0) PublicMethods = Inr ctx"
    and nonpublic: "method \<notin> set PublicMethods"
    and client: "ctx_outgoing ctx0 ''authorization'' = []"
    and valid: "\<And>k. Verify (sv_tok s) now0 (drop (length bearerPrefix) (firstMD (ctx_incoming ctx0) ''authorization'')) = Inr k \<Longrightarrow>
      Verify (sv_tok s) now (drop (length bearerPrefix) (firstMD (ctx_incoming ctx0) ''authorization'')) = Inr k"
    and uuids: "\<And>i. i \<in> {UserID c, ProjectID c} \<Longrightarrow> tl_Parse (sv_tok s) (tl_String (sv_tok s) i) = Some i \<and> tl_String (sv_tok s) i \<noteq> ''''"
    and db: "\<not> env_fail (sv_env s) (tick w)"
    and caller: "CallerFromContext ctx = Some c" "UserID c \<noteq> uuid_Nil"
  shows "RequirePermission flag ctx (Some (client_CheckPermission s now w ctx)) p = Inr () \<longleftrightarrow>
    permits w (UserID c) p (if ProjectScopedRBACEnabled flag \<and> ProjectID c \<noteq> uuid_Nil then Some (ProjectID c) else None)"
proof -
  let ?project = "if ProjectScopedRBACEnabled flag \<and> ProjectID c \<noteq> uuid_Nil then Some (ProjectID c) else None"
  obtain raw claims where raw: "raw = firstMD (ctx_incoming ctx0) ''authorization''" "length bearerPrefix < length raw"
      "EqualFold (take (length bearerPrefix) raw) bearerPrefix" "Verify (sv_tok s) now0 (drop (length bearerPrefix) raw) = Inr claims"
      "UserID c = Subject claims" "ctx_incoming ctx = ctx_incoming ctx0" "ctx_outgoing ctx = ctx_outgoing ctx0"
    by (rule authenticate_token [OF auth nonpublic]) (use caller in simp)
  have again: "Verify (sv_tok s) now (drop (length bearerPrefix) raw) = Inr claims" using valid raw(1,4) by simp
  have "raw = firstMD (ctx_incoming (received ctx)) ''authorization''"
    using received_token [of ctx] raw(1,6,7) client by simp
  moreover have "checkPermissionMethod \<notin> set PublicMethods" by (simp add: checkPermissionMethod_def PublicMethods_def)
  ultimately obtain ctx' c' where there: "authenticate (tl_Parse (sv_tok s)) (received ctx) checkPermissionMethod (Verify (sv_tok s) now) PublicMethods = Inr ctx'"
      "CallerFromContext ctx' = Some c'" "UserID c' = UserID c"
    using authenticate_accepts raw(2,3,5) again by metis
  have "client_CheckPermission s now w ctx (UserID c) p ?project = Inr (permits w (UserID c) p ?project)"
    unfolding client_CheckPermission_def UnaryAuthInterceptor_def
    using rpc_CheckPermission_answer [OF inv db there(2), where utxt = "tl_String (sv_tok s) (UserID c)" and project = ?project
      and ptxt = "case ?project of None \<Rightarrow> '''' | Some q \<Rightarrow> tl_String (sv_tok s) q" and permission = p] there caller(2) uuids
    by (simp split: option.split)
  then show ?thesis using caller by (simp add: RequirePermission_Inr_iff CallerFromContext_def)
qed

text \<open>A server for the witnesses: identifiers are written in unary and one token is known.\<close>

definition pdemo_claims :: jwtClaims where
  "pdemo_claims = \<lparr>jc_Subject = ''xxx'', jc_IssuedAt = Some 6, jc_ExpiresAt = Some 1006, jc_TenantID = ''xx'', jc_Email = ''a@b'',
     jc_Roles = [''member''], jc_Permissions = [''ledger:read''], jc_AuthMethod = ''local''\<rparr>"

definition pdemo_lib :: token_lib where
  "pdemo_lib = \<lparr>tl_String = (\<lambda>i. replicate (Suc i) CHR ''x''), tl_Parse = (\<lambda>x. if x = '''' then None else Some (length x - 1)),
     tl_rand = (\<lambda>t n. Some (replicate n (char_of t))), tl_Sign = (\<lambda>c. if c = pdemo_claims then Some ''jwtxxx'' else None),
     tl_ParseJWT = (\<lambda>now x. if x = ''jwtxxx'' then (if now < 1006 then Inr pdemo_claims else Inl True) else Inl False),
     tl_accessTTL = 1000, tl_refreshTTL = 5000\<rparr>"

definition pdemo_auth :: auth_lib where
  "pdemo_auth = \<lparr>al_IDKey = (\<lambda>p salt t mem th k. rev p), al_bcrypt = (\<lambda>h p. h = ''$2a$'' @ p), al_b64 = id, al_unb64 = Some,
     al_scan_version = (\<lambda>_. Some 19), al_scan_params = (\<lambda>_. Some (65536, 2, 4)), al_seal = (\<lambda>k n p. p @ replicate 16 CHR ''t''),
     al_open = (\<lambda>k n c. Some (take (length c - 16) c)), al_b64url = id, al_unb64url = Some, al_exchange = (\<lambda>t cfg code uri v. None)\<rparr>"

definition pdemo_env :: env where
  "pdemo_env = \<lparr>env_uuid = (\<lambda>t. 100 + t), env_now = (\<lambda>t. int t), env_fail = (\<lambda>_. False)\<rparr>"

definition pdemo :: iam_service where
  "pdemo = \<lparr>sv_env = pdemo_env, sv_tok = pdemo_lib, sv_lib = pdemo_auth, sv_oidcKey = '''', sv_migrator = None, sv_audit = False,
     sv_Error = (\<lambda>_. ''error'')\<rparr>"

definition pdemo_tenant :: tenant_row where
  "pdemo_tenant = \<lparr>tr_id = 1, tr_name = ''Acme'', tr_slug = ''acme'', tr_plan = ''starter'', tr_status = ''active'', tr_created = 0, tr_demo = False,
     tr_address1 = None, tr_address2 = None, tr_city = None, tr_country = ''DE'', tr_postal = None, tr_currency = ''EUR'', tr_suspended = None,
     tr_deactivated = None, tr_hold_until = None, tr_freeze_reason = None, tr_purged = None\<rparr>"

definition pdemo_db :: iam_db where
  "pdemo_db = empty_iam\<lparr>tenants := [pdemo_tenant],
     users := [\<lparr>us_ID = 2, us_TenantID = 1, us_Email = ''a@b'', us_DisplayName = ''A'', us_PasswordHash = ''$2a$pw'', us_Status = ''active'', us_CreatedAt = 0\<rparr>],
     roles := [\<lparr>ro_ID = 7, ro_TenantID = 1, ro_Name = ''member'', ro_Permissions = [''ledger:read''], ro_IsSystem = True\<rparr>],
     user_roles := [\<lparr>ur_UserID = 2, ur_RoleID = 7, ur_ProjectID = None, ur_AssignedBy = 2, ur_AssignedAt = 0\<rparr>]\<rparr>"

definition pdemo_call :: ctx where
  "pdemo_call = \<lparr>ctx_caller = None, ctx_tenant = None, ctx_actor = None, ctx_vertical = None,
     ctx_incoming = (\<lambda>k. if k = ''authorization'' then [''bearer jwtxxx''] else []), ctx_outgoing = (\<lambda>_. [])\<rparr>"

lemmas pdemo_defs = pdemo_def pdemo_claims_def pdemo_lib_def pdemo_auth_def pdemo_env_def pdemo_tenant_def pdemo_db_def pdemo_call_def empty_iam_def

lemma pdemo_inv: "iam_inv pdemo_db"
  by (simp add: pdemo_defs iam_inv_defs decided_ok_def one_open_def)

definition pdemo_ctx :: ctx where
  "pdemo_ctx = (case authenticate (tl_Parse pdemo_lib) pdemo_call ''/ledger/Get'' (Verify pdemo_lib 5) PublicMethods of Inr c \<Rightarrow> c | Inl _ \<Rightarrow> pdemo_call)"

lemma pdemo_authenticated:
  "authenticate (tl_Parse pdemo_lib) pdemo_call ''/ledger/Get'' (Verify pdemo_lib 5) PublicMethods = Inr pdemo_ctx"
  "\<exists>c. CallerFromContext pdemo_ctx = Some c \<and> UserID c = 2 \<and> ProjectID c = 0"
  by (simp_all add: pdemo_ctx_def authenticate_def pdemo_call_def pdemo_lib_def pdemo_claims_def PublicMethods_def firstMD_def bearerPrefix_def EqualFold_def
      ascii_lower_def Verify_def Let_def WithCaller_def WithID_def CallerFromContext_def uuidFromMD_def)

theorem permission_decision_end_to_end_witness:
  "RequirePermission '''' pdemo_ctx (Some (client_CheckPermission pdemo 9 pdemo_db pdemo_ctx)) ''ledger:read'' = Inr ()
   \<and> RequirePermission '''' pdemo_ctx (Some (client_CheckPermission pdemo 9 pdemo_db pdemo_ctx)) ''ledger:post'' \<noteq> Inr ()"
proof -
  obtain c where c: "CallerFromContext pdemo_ctx = Some c" "UserID c = 2" "ProjectID c = 0"
    using pdemo_authenticated(2) by blast
  have "Verify (sv_tok pdemo) 9 x = Inr k" if "Verify (sv_tok pdemo) 5 x = Inr k" for x k
    using that by (cases "x = ''jwtxxx''") (simp_all add: Verify_def pdemo_defs)
  then have "RequirePermission '''' pdemo_ctx (Some (client_CheckPermission pdemo 9 pdemo_db pdemo_ctx)) p = Inr () \<longleftrightarrow> permits pdemo_db 2 p None" for p
    using permission_decision_end_to_end [OF pdemo_inv, of pdemo pdemo_call "''/ledger/Get''" 5 pdemo_ctx 9 c "''''" p] c pdemo_authenticated(1)
    by (simp add: pdemo_defs PublicMethods_def)
  then show ?thesis by (simp add: permits_def pdemo_defs)
qed

section \<open>Login\<close>

text \<open>The roles that a user holds.\<close>

definition held_roles :: "iam_db \<Rightarrow> User \<Rightarrow> Role list" where
  "held_roles w u = join_roles (roles w) (filter (\<lambda>x. ur_UserID x = us_ID u) (user_roles w))"

lemma query_Inr: "query en q w = (Inr x, w') \<longleftrightarrow> \<not> env_fail en (tick w) \<and> q (env_now en (tick w)) (w\<lparr>tick := Suc (tick w)\<rparr>) = (Inr x, w')"
  by (simp add: query_def Let_def)

lemma check_tenant_Inr:
  "check_tenant en t w = (Inr u, w') \<Longrightarrow> (\<exists>n. w' = w\<lparr>tick := n\<rparr>) \<and> (\<exists>r \<in> set (tenants w). tr_id r = t \<and> tr_status r = ''active'')"
  by (auto simp: check_tenant_def pg_GetTenantStatus_def q_GetTenant_def onErr_InrD query_Inr tenantStatusError_def elim!: andThen_InrE dest!: row_by_Inr split: if_splits) blast+

lemma pg_GetUserByEmail_Inr:
  "pg_GetUserByEmail en t email w = (Inr rec, w') \<Longrightarrow> (\<exists>n. w' = w\<lparr>tick := n\<rparr>) \<and>
    (\<exists>u \<in> set (users w). us_TenantID u = t \<and> us_Email u = email
       \<and> (let rs = held_roles w u
          in rec = record_of u (map ro_Name rs, remdups (concat (map ro_Permissions rs)))))"
  by (auto simp: pg_GetUserByEmail_def q_GetUserByEmail_def loadRolesAndPerms_def q_ListUserRoles_def held_roles_def onErr_InrD query_Inr Let_def
      elim!: andThen_InrE dest!: row_by_Inr)

lemma local_Authenticate_Inr:
  assumes "local_Authenticate en al req w = (Inr res, w')"
  shows "(\<exists>n. w' = w\<lparr>tick := n\<rparr>) \<and> (\<exists>t \<in> set (tenants w). tr_id t = aq_TenantID req \<and> tr_status t = ''active'')
    \<and> (\<exists>u \<in> set (users w). us_TenantID u = aq_TenantID req \<and> us_Email u = aq_Email req \<and> us_Status u \<notin> {''deactivated'', ''invited''}
        \<and> us_PasswordHash u \<noteq> '''' \<and> verify_password al (aq_Password req) (us_PasswordHash u) \<and> ar_UserID res = us_ID u \<and> ar_TenantID res = us_TenantID u
        \<and> ar_Email res = us_Email u
        \<and> ar_Roles res = map ro_Name (held_roles w u)
        \<and> set (ar_Permissions res) = (\<Union>r \<in> set (held_roles w u). set (ro_Permissions r)))"
proof -
  obtain w1 rec where "check_tenant en (aq_TenantID req) w = (Inr (), w1)" and rec: "pg_GetUserByEmail en (aq_TenantID req) (aq_Email req) w1 = (Inr rec, w')"
    and ok: "ud_Status rec \<notin> {''deactivated'', ''invited''}" "ud_PasswordHash rec \<noteq> ''''" "verify_password al (aq_Password req) (ud_PasswordHash rec)"
      "res = result_for ProviderLocal False rec"
    using assms by (auto simp: local_Authenticate_def onErr_InrD elim!: andThen_InrE split: if_splits)
  from check_tenant_Inr [OF this(1)] obtain n where w1: "w1 = w\<lparr>tick := n\<rparr>" "\<exists>t \<in> set (tenants w). tr_id t = aq_TenantID req \<and> tr_status t = ''active''"
    by blast
  from pg_GetUserByEmail_Inr [OF rec] obtain m u where "w' = w1\<lparr>tick := m\<rparr>" "u \<in> set (users w1)" "us_TenantID u = aq_TenantID req" "us_Email u = aq_Email req"
      "rec = record_of u (map ro_Name (held_roles w1 u), remdups (concat (map ro_Permissions (held_roles w1 u))))"
    unfolding Let_def by blast
  moreover have "held_roles w1 u = held_roles w u" by (simp add: held_roles_def w1(1))
  ultimately show ?thesis using w1 ok by (intro conjI bexI [of _ u]) (auto simp: record_of_def result_for_def)
qed

lemma oidc_Authenticate_Inr: "oidc_Authenticate en al key req w = (Inr res, w') \<Longrightarrow>
    (\<exists>t \<in> set (tenants w). tr_id t = aq_TenantID req \<and> tr_status t = ''active'') \<and> (\<exists>r \<in> set (auth_configs w). ag_tenant r = aq_TenantID req \<and> ag_method r = ''oidc'')"
  by (auto simp: oidc_Authenticate_def decrypting_GetOIDCConfig_def pg_GetOIDCConfig_def q_GetOIDCConfig_def onErr_InrD query_Inr
      elim!: andThen_InrE dest!: check_tenant_Inr row_by_Inr split: option.splits) blast+

lemma Resolve_Inr: "Resolve en al key t w = (Inr b, w') \<Longrightarrow> \<exists>n. w' = w\<lparr>tick := n\<rparr>"
  by (auto simp: Resolve_def inspect_def decrypting_GetOIDCConfig_def pg_GetOIDCConfig_def q_GetOIDCConfig_def andThen_def onErr_def query_def Let_def
      split: prod.splits sum.splits option.splits if_splits)

lemma take_two_single: "take 2 xs = [x] \<Longrightarrow> xs = [x]"
  by (cases xs; cases "tl xs") auto

lemma pg_FindTenantByEmail_Inr: "pg_FindTenantByEmail en email w = (Inr t, w') \<Longrightarrow> (\<exists>n. w' = w\<lparr>tick := n\<rparr>)
    \<and> (\<exists>u. filter (\<lambda>u. us_Email u = email) (users w) = [u] \<and> us_TenantID u = t)"
  by (auto simp: pg_FindTenantByEmail_def q_FindTenantByEmail_def onErr_InrD query_Inr map_eq_Cons_conv elim!: andThen_InrE dest!: take_two_single
      split: list.splits)

lemma same_tick: "\<exists>n. (w :: iam_db) = w\<lparr>tick := n\<rparr>"
  by (rule exI [of _ "tick w"]) simp

lemma Issue_token:
  assumes "Issue en lib res w = (Inr pair, w')"
  obtains now where "tl_Sign lib \<lparr>jc_Subject = tl_String lib (ar_UserID res), jc_IssuedAt = Some now, jc_ExpiresAt = Some (now + tl_accessTTL lib),
      jc_TenantID = tl_String lib (ar_TenantID res), jc_Email = ar_Email res, jc_Roles = ar_Roles res, jc_Permissions = ar_Permissions res,
      jc_AuthMethod = ar_AuthMethod res\<rparr> = Some (tp_AccessToken pair)" and "tp_ExpiresAt pair = now + tl_accessTTL lib"
  using assms by (auto simp: Issue_def issueWithGeneration_def Let_def onErr_InrD elim!: andThen_InrE split: option.splits)

lemma local_login:
  assumes run: "local_Authenticate en al req (w\<lparr>tick := n\<rparr>) = (Inr res, w2)" and issue: "Issue en lib res w2 = (Inr pair, w')"
  shows "\<exists>r \<in> set (tenants w). tr_id r = aq_TenantID req \<and> tr_status r = ''active''"
    and "\<exists>u \<in> set (users w). us_TenantID u = aq_TenantID req \<and> us_Email u = aq_Email req \<and> us_Status u \<notin> {''deactivated'', ''invited''}
      \<and> us_PasswordHash u \<noteq> '''' \<and> verify_password al (aq_Password req) (us_PasswordHash u)
      \<and> (\<exists>c. tl_Sign lib c = Some (tp_AccessToken pair) \<and> jc_Subject c = tl_String lib (us_ID u)
           \<and> jc_TenantID c = tl_String lib (aq_TenantID req) \<and> jc_Email c = aq_Email req \<and> jc_Roles c = map ro_Name (held_roles w u)
           \<and> set (jc_Permissions c) = (\<Union>r \<in> set (held_roles w u). set (ro_Permissions r)))" (is ?token)
proof -
  obtain c where "tl_Sign lib c = Some (tp_AccessToken pair)" "jc_Subject c = tl_String lib (ar_UserID res)"
    "jc_TenantID c = tl_String lib (ar_TenantID res)" "jc_Email c = ar_Email res" "jc_Roles c = ar_Roles res"
    "jc_Permissions c = ar_Permissions res"
    using Issue_token [OF issue] by (metis jwtClaims.select_convs(1,4,5,6,7))
  moreover obtain u where "u \<in> set (users w)" "us_TenantID u = aq_TenantID req" "us_Email u = aq_Email req" "us_Status u \<notin> {''deactivated'', ''invited''}"
    "us_PasswordHash u \<noteq> ''''" "verify_password al (aq_Password req) (us_PasswordHash u)" "ar_UserID res = us_ID u" "ar_TenantID res = us_TenantID u"
    "ar_Email res = us_Email u" "ar_Roles res = map ro_Name (held_roles w u)"
    "set (ar_Permissions res) = (\<Union>r \<in> set (held_roles w u). set (ro_Permissions r))"
    and active: "\<exists>r \<in> set (tenants w). tr_id r = aq_TenantID req \<and> tr_status r = ''active''"
    using local_Authenticate_Inr [OF run] by (auto simp: held_roles_def)
  ultimately show ?token by (intro bexI [of _ u] conjI exI [of _ c]) simp_all
  from active show "\<exists>r \<in> set (tenants w). tr_id r = aq_TenantID req \<and> tr_status r = ''active''" .
qed

text \<open>
  C38: A login that succeeds was for a tenant that is active: the one named or, where none is named, the
  one of the only user with that address. Unless the settings of the tenant name an external identity
  provider, there is a user of the tenant with the address, neither deactivated nor only invited, with a
  stored hash that the password verifies; and the access token that is returned is the signature over
  the identity and address of this user with the names of exactly the roles it holds and the permissions
  of these roles.
\<close>

theorem Login_authenticates:
  assumes "svc_Login s tenantID email password w = (Inr pair, w')"
  shows "\<exists>t. (if tenantID = uuid_Nil then \<exists>u. filter (\<lambda>u. us_Email u = email) (users w) = [u] \<and> us_TenantID u = t else t = tenantID)
    \<and> (\<exists>r \<in> set (tenants w). tr_id r = t \<and> tr_status r = ''active'')
    \<and> ((\<exists>cfg \<in> set (auth_configs w). ag_tenant cfg = t \<and> ag_method cfg = ''oidc'')
      \<or> (\<exists>u \<in> set (users w). us_TenantID u = t \<and> us_Email u = email \<and> us_Status u \<notin> {''deactivated'', ''invited''}
          \<and> us_PasswordHash u \<noteq> '''' \<and> verify_password (sv_lib s) password (us_PasswordHash u)
          \<and> (\<exists>c. tl_Sign (sv_tok s) c = Some (tp_AccessToken pair) \<and> jc_Subject c = tl_String (sv_tok s) (us_ID u)
               \<and> jc_TenantID c = tl_String (sv_tok s) t \<and> jc_Email c = email
               \<and> jc_Roles c = map ro_Name (held_roles w u)
               \<and> set (jc_Permissions c)
                   = (\<Union>r \<in> set (held_roles w u). set (ro_Permissions r)))))"
proof -
  define req where "req = (\<lambda>t. \<lparr>aq_TenantID = t, aq_Email = email, aq_Password = password, aq_AuthorizationCode = '''', aq_RedirectURI = '''',
    aq_CodeVerifier = ''''\<rparr>)"
  have code: "aq_AuthorizationCode (req t) = ''''" "aq_TenantID (req t) = t" for t by (simp_all add: req_def)
  obtain t w1 res w2 where start: "(if tenantID = uuid_Nil then onErr (Wrap ''iam: resolve tenant'') (pg_FindTenantByEmail (sv_env s) email) else ret tenantID) w
      = (Inr t, w1)"
    and auth1: "Authenticate (sv_env s) (sv_lib s) (sv_oidcKey s) (req t) w1 = (Inr res, w2)"
    and issue: "Issue (sv_env s) (sv_tok s) res w2 = (Inr pair, w')"
    using assms unfolding svc_Login_def req_def by (elim andThen_InrE) (simp only: onErr_InrD)
  have "\<exists>n. w1 = w\<lparr>tick := n\<rparr>"
    and t: "if tenantID = uuid_Nil then \<exists>u. filter (\<lambda>u. us_Email u = email) (users w) = [u] \<and> us_TenantID u = t else t = tenantID"
    using start pg_FindTenantByEmail_Inr [of "sv_env s" email w t w1] same_tick [of w] by (auto simp: onErr_InrD split: if_splits)
  then obtain n1 where auth: "Authenticate (sv_env s) (sv_lib s) (sv_oidcKey s) (req t) (w\<lparr>tick := n1\<rparr>) = (Inr res, w2)"
    using auth1 by blast
  obtain b w3 where resolved: "Resolve (sv_env s) (sv_lib s) (sv_oidcKey s) t (w\<lparr>tick := n1\<rparr>) = (Inr b, w3)"
    and w3: "(if b then oidc_Authenticate (sv_env s) (sv_lib s) (sv_oidcKey s) (req t) else local_Authenticate (sv_env s) (sv_lib s) (req t)) w3
      = (Inr res, w2)"
  proof -
    have "andThen (Resolve (sv_env s) (sv_lib s) (sv_oidcKey s) t) (\<lambda>oidc. if oidc then oidc_Authenticate (sv_env s) (sv_lib s) (sv_oidcKey s) (req t)
        else local_Authenticate (sv_env s) (sv_lib s) (req t)) (w\<lparr>tick := n1\<rparr>) = (Inr res, w2)"
      using auth code by (simp add: Authenticate_def)
    then show ?thesis by (elim andThen_InrE) (rule that)
  qed
  then obtain n2 where chosen: "(if b then oidc_Authenticate (sv_env s) (sv_lib s) (sv_oidcKey s) (req t)
      else local_Authenticate (sv_env s) (sv_lib s) (req t)) (w\<lparr>tick := n2\<rparr>) = (Inr res, w2)"
    using Resolve_Inr [OF resolved] by auto
  show ?thesis
  proof (cases b)
    case True
    with chosen have "oidc_Authenticate (sv_env s) (sv_lib s) (sv_oidcKey s) (req t) (w\<lparr>tick := n2\<rparr>) = (Inr res, w2)" by simp
    from oidc_Authenticate_Inr [OF this] have "\<exists>r \<in> set (tenants w). tr_id r = t \<and> tr_status r = ''active''"
      "\<exists>cfg \<in> set (auth_configs w). ag_tenant cfg = t \<and> ag_method cfg = ''oidc''" by (simp_all add: code)
    then show ?thesis using t by blast
  next
    case False
    with chosen have run: "local_Authenticate (sv_env s) (sv_lib s) (req t) (w\<lparr>tick := n2\<rparr>) = (Inr res, w2)" by simp
    have req: "aq_TenantID (req t) = t" "aq_Email (req t) = email" "aq_Password (req t) = password" by (simp_all add: req_def)
    show ?thesis using t local_login [OF run issue, unfolded req] by blast
  qed
qed

definition pdemo_pair :: TokenPair where
  "pdemo_pair = (case fst (svc_Login pdemo 1 ''a@b'' ''pw'' pdemo_db) of Inr p \<Rightarrow> p
     | Inl _ \<Rightarrow> \<lparr>tp_AccessToken = '''', tp_RefreshToken = '''', tp_TokenType = '''', tp_ExpiresIn = 0, tp_ExpiresAt = 0\<rparr>)"

lemmas login_defs = svc_Login_def Authenticate_def Resolve_def decrypting_GetOIDCConfig_def pg_GetOIDCConfig_def q_GetOIDCConfig_def
  local_Authenticate_def check_tenant_def pg_GetTenantStatus_def q_GetTenant_def tenantStatusError_def pg_GetUserByEmail_def q_GetUserByEmail_def
  loadRolesAndPerms_def q_ListUserRoles_def join_roles_def record_of_def result_for_def verify_password_def HasPrefix_def argon2idPrefix_def
  isBcryptHash_def bcryptPrefixes_def row_by_def inspect_def onErr_def query_def Let_def andThen_def

lemmas issue_defs = Issue_def currentGeneration_def currentTenantGeneration_def issueWithGeneration_def issueRefreshToken_def generateToken_def
  redis_count_def redis_find_def redis_put_def redis_del_def time_Now_def

lemma pdemo_login:
  "fst (svc_Login pdemo 1 ''a@b'' ''pw'' pdemo_db) = Inr pdemo_pair" "tp_AccessToken pdemo_pair = ''jwtxxx''" "tp_ExpiresAt pdemo_pair = 1006"
  unfolding pdemo_pair_def by (simp_all add: login_defs issue_defs pdemo_defs ProviderLocal_def numeral_2_eq_2)

theorem Login_authenticates_witness:
  "\<exists>u \<in> set (users pdemo_db). us_TenantID u = 1 \<and> us_Email u = ''a@b'' \<and> verify_password pdemo_auth ''pw'' (us_PasswordHash u)"
  using Login_authenticates [of pdemo 1 "''a@b''" "''pw''" pdemo_db pdemo_pair "snd (svc_Login pdemo 1 ''a@b'' ''pw'' pdemo_db)"] pdemo_login(1)
  by (force simp: prod_eq_iff pdemo_def pdemo_db_def empty_iam_def)

section \<open>Tokens\<close>

lemma EqualFold_bearer: "EqualFold ''Bearer '' bearerPrefix" "EqualFold ''bearer '' bearerPrefix"
  by code_simp+

text \<open>
  The access token that was issued for the result of an authentication identifies, as long as it
  has not expired, that user at every service: on every method that is not public the interceptor
  accepts it as a bearer token, with or without a capital, and the caller it puts into the context has
  the user, tenant, address, roles and permissions of the result. Of the library it is assumed that a
  signed token parses back to its claims until they expire and that identifiers print and parse back.
\<close>

lemma issued_token_identifies_user:
  assumes issued: "Issue en lib res w = (Inr pair, w')"
    and parses: "\<And>c x t. tl_Sign lib c = Some x \<Longrightarrow> jc_ExpiresAt c = Some t \<Longrightarrow> now < t \<Longrightarrow> tl_ParseJWT lib now x = Inr c"
    and uuids: "\<And>i. tl_Parse lib (tl_String lib i) = Some i"
    and fresh: "now < tp_ExpiresAt pair" and sent: "firstMD (ctx_incoming ctx0) ''authorization'' = bearer @ tp_AccessToken pair"
    and bearer: "bearer \<in> {''Bearer '', ''bearer ''}" "tp_AccessToken pair \<noteq> ''''" and nonpublic: "method \<notin> set PublicMethods"
  shows "\<exists>ctx caller. authenticate (tl_Parse lib) ctx0 method (Verify lib now) PublicMethods = Inr ctx \<and> CallerFromContext ctx = Some caller
    \<and> UserID caller = ar_UserID res \<and> TenantID caller = ar_TenantID res \<and> Email caller = ar_Email res
    \<and> Roles caller = ar_Roles res \<and> Permissions caller = ar_Permissions res"
proof -
  obtain at_time where "tl_Sign lib \<lparr>jc_Subject = tl_String lib (ar_UserID res), jc_IssuedAt = Some at_time, jc_ExpiresAt = Some (tp_ExpiresAt pair),
      jc_TenantID = tl_String lib (ar_TenantID res), jc_Email = ar_Email res, jc_Roles = ar_Roles res, jc_Permissions = ar_Permissions res,
      jc_AuthMethod = ar_AuthMethod res\<rparr> = Some (tp_AccessToken pair)"
    using Issue_token [OF issued] by metis
  then have verified: "Verify lib now (tp_AccessToken pair) = Inr \<lparr>Subject = ar_UserID res, ClaimsTenantID = ar_TenantID res, ClaimsEmail = ar_Email res,
      ClaimsRoles = ar_Roles res, ClaimsPermissions = ar_Permissions res\<rparr>"
    using parses fresh uuids by (simp add: Verify_def)
  have "length bearer = length bearerPrefix" using bearer(1) by (auto simp: bearerPrefix_def)
  moreover have "EqualFold bearer bearerPrefix"
    using bearer(1) EqualFold_bearer by blast
  ultimately show ?thesis
    using authenticate_accepts [OF nonpublic sent [symmetric], of "Verify lib now" _ "tl_Parse lib"] bearer(2) verified by fastforce
qed

end
