(* ===== verification/IamLifeProps.thy ===== *)
theory IamLifeProps
  imports IamProps
begin

text \<open>
  The invariant of every run of identity and access and what follows from it: a purge takes two people.
\<close>

section \<open>Every run\<close>

text \<open>
  After any sequence of calls, batch runs and billing events, with any failures of the database
  and of Redis, the tables of identity and access satisfy their invariant: identifiers are unique,
  every role is held by a user of the role's own tenant, every purge request that was approved,
  executed or failed was approved by someone other than who asked for it, a tenant has at most one
  open request, and a tenant that was purged has an executed one.
\<close>

lemma iam_runs_keep_invariant: "iam_inv (fold (\<lambda>(s, r). iam_exec s r) rs empty_iam)"
  by (rule iam.inv_run)

section \<open>Purge\<close>

text \<open>
  C39: However calls, batch runs and billing events are ordered and whatever fails, from the empty tables
  or any others that satisfy the invariant: a tenant that is purged at the end has an executed purge
  request that one person made and another approved.
\<close>

theorem purge_takes_two_people:
  assumes "iam_inv w0" and "t \<in> set (tenants (fold (\<lambda>(s, r). iam_exec s r) rs w0))" and "tr_status t = ''purged''"
  shows "\<exists>q \<in> set (purge_requests (fold (\<lambda>(s, r). iam_exec s r) rs w0)). pq_TenantID q = tr_id t \<and> pq_Status q = ''executed''
    \<and> (\<exists>a. pq_ApprovedBy q = Some a \<and> a \<noteq> pq_RequestedBy q)"
proof -
  let ?w = "fold (\<lambda>(s, r). iam_exec s r) rs w0"
  have "iam_inv ?w" using iam.inv_fold [OF assms(1)] .
  then have "executed_for (purge_requests ?w) (tr_id t)" "decided_ok (purge_requests ?w)"
    using assms(2,3) by (auto simp: iam_inv_def purged_ok_def)
  then show ?thesis unfolding executed_for_def decided_ok_def two_people_def by auto
qed

definition ldemo_admin :: "uuid \<Rightarrow> ctx" where
  "ldemo_admin i = \<lparr>ctx_caller = Some \<lparr>UserID = i, TenantID = 9, ProjectID = 0, Email = '''', Roles = [''platform_admin''], Permissions = [], IP = ''''\<rparr>,
     ctx_tenant = None, ctx_actor = Some \<lparr>actor_user = i, actor_email = '''', actor_ip = ''''\<rparr>, ctx_vertical = None, ctx_incoming = (\<lambda>_. []), ctx_outgoing = (\<lambda>_. [])\<rparr>"

definition ldemo_db :: iam_db where
  "ldemo_db = empty_iam\<lparr>tenants := [pdemo_tenant\<lparr>tr_status := ''purge_eligible''\<rparr>]\<rparr>"

definition ldemo_request :: TenantPurgeRequest where
  "ldemo_request = \<lparr>pq_ID = 101, pq_TenantID = 1, pq_Status = ''pending'', pq_RequestedBy = 5,
    pq_RequestedAt = 2, pq_RequestReason = ''r'', pq_ApprovedBy = None, pq_ApprovedAt = None, pq_CancelledBy = None, pq_CancelledAt = None,
    pq_ExecutedAt = None, pq_FailureReason = None, pq_TenantName = ''Acme'', pq_TenantSlug = ''acme''\<rparr>"

definition ldemo_approval :: TenantPurgeRequest where
  "ldemo_approval = ldemo_request\<lparr>pq_Status := ''approved'', pq_ApprovedBy := Some 6, pq_ApprovedAt := Some 5\<rparr>"

definition ldemo_end :: iam_db where
  "ldemo_end = fold (\<lambda>(s, r). iam_exec s r) [(pdemo, RequestTenantPurge (ldemo_admin 5) ''xx'' ''r''),
     (pdemo, ApproveTenantPurge (ldemo_admin 6) ''xx'' ''r''), (pdemo, Purge 10)] ldemo_db"

lemmas purge_defs = rpc_RequestTenantPurge_def rpc_ApproveTenantPurge_def purge_rpc_def platformAdmin_def RequireRole_def CallerFromContext_def
  HasRole_def RolePlatformAdmin_def parseID_def reason_given_def liftR_def svc_RequestTenantPurge_def svc_ApproveTenantPurge_def pg_GetTenant_def
  q_GetTenant_def dbTenantToDomain_def tenant_status_defs ActorFromContext_def pg_CreateTenantPurgeRequest_def q_CreateTenantPurgeRequest_def
  pg_GetOpenTenantPurgeRequest_def q_GetOpenTenantPurgeRequest_def pg_ApproveTenantPurgeRequest_def q_ApproveTenantPurgeRequest_def auditPurge_def
  uuid_New_def update_one_def update_rows_def row_by_def onErr_def query_def Let_def andThen_def

lemmas execute_defs = runPurge_def svc_ListApprovedPurges_def pg_ListApprovedTenantPurgeRequests_def q_ListApprovedTenantPurgeRequests_def
  svc_PurgeApprovedTenant_def pg_PurgeTenantSchemaAndTombstone_def q_ClaimPurge_def q_DropSchema_def q_Tombstone_def tombstone_def transact_def
  inspect_def update_count_def update_rows_def page_def int32_def onErr_def query_def Let_def andThen_def

lemma trim_r: "TrimSpace ''r'' = ''r''" and capitals: "capital_letters 2 ''DE''" "capital_letters 3 ''EUR''"
  by code_simp+

lemma ldemo_requests:
  "iam_exec pdemo (RequestTenantPurge (ldemo_admin 5) ''xx'' ''r'') ldemo_db = ldemo_db\<lparr>tick := 3, purge_requests := [ldemo_request]\<rparr>"
  by (simp add: ldemo_request_def ldemo_db_def ldemo_admin_def pdemo_defs purge_defs trim_r)

lemma ldemo_approves:
  "iam_exec pdemo (ApproveTenantPurge (ldemo_admin 6) ''xx'' ''r'') (ldemo_db\<lparr>tick := 3, purge_requests := [ldemo_request]\<rparr>)
    = ldemo_db\<lparr>tick := 6, purge_requests := [ldemo_approval]\<rparr>"
  by (simp add: ldemo_request_def ldemo_approval_def ldemo_db_def ldemo_admin_def pdemo_defs purge_defs trim_r)

lemma ldemo_purges:
  "map tr_status (tenants (iam_exec pdemo (Purge 10) (ldemo_db\<lparr>tick := 6, purge_requests := [ldemo_approval]\<rparr>))) = [''purged'']"
  by (simp add: ldemo_request_def ldemo_approval_def ldemo_db_def pdemo_defs execute_defs tenant_check_def tenant_plans_def tenant_statuses_def capitals)

theorem purge_takes_two_people_witness: "\<exists>q \<in> set (purge_requests ldemo_end). pq_Status q = ''executed'' \<and> pq_ApprovedBy q \<noteq> Some (pq_RequestedBy q)"
proof -
  have "iam_inv ldemo_db" by (simp add: ldemo_db_def pdemo_defs iam_inv_defs decided_ok_def one_open_def)
  moreover have "map tr_status (tenants ldemo_end) = [''purged'']"
    unfolding ldemo_end_def by (simp del: iam_exec.simps add: ldemo_requests ldemo_approves ldemo_purges)
  then obtain t where "t \<in> set (tenants ldemo_end)" "tr_status t = ''purged''" by (cases "tenants ldemo_end") auto
  ultimately show ?thesis using purge_takes_two_people unfolding ldemo_end_def by fastforce
qed

end
