(* ===== verification/Spec2Isabelle.thy ===== *)
theory Spec2Isabelle
  imports LedgerAccounts LedgerProps LedgerReports LedgerPeriods LedgerParties LedgerJournal LedgerApi
    BoundaryProps ExpenseApi VerticalProps ProjectProps BudgetApi InventoryApi System VerticalCache IamLifeProps
begin

text \<open>
  \<^bold>\<open>Thittam: a verification of its services.\<close>

  Thittam is a multi-tenant back office: a set of gRPC services (ledger, expenses, projects, budgets,
  inventory, identity, billing, ...), each a handler over a service over a PostgreSQL repository, behind
  interceptors that authenticate a call and bind its tenant, and parametrised by a \<^emph>\<open>vertical\<close>, a
  configuration of an industry (phases, categories, approval limits) that a loader reads and a tenant
  may override. The services ask the service of identity and access whether a caller has a permission.

  \<^bold>\<open>How the code is modelled.\<close> An effectful Go function is a state transformer
  \<open>('w, 'e, 'a) op\<close> (theory \<open>Prelude\<close>) that returns an error value or a result: \<open>andThen\<close> is the early
  return on an error, \<open>onErr\<close> the wrapping of one, \<open>inspect\<close> a look at the outcome, \<open>goerr\<close> the chain of
  wrapped errors that \<^verbatim>\<open>errors.Is\<close> looks through. The state of a service is the record of its
  tables, lists of rows, with the constraints of the migrations (primary keys, unique and foreign keys,
  checks, \<^verbatim>\<open>NUMERIC(14,2)\<close>) written into the statements. The environment \<open>env\<close> answers
  \<^verbatim>\<open>uuid.New\<close>, \<^verbatim>\<open>time.Now\<close> and decides for every database round trip
  whether it fails; each answer advances the counter \<open>tick\<close>, and \<open>untick\<close> compares states without it.
  A transaction (\<open>transact\<close>) restores the tables when its body fails. Requests run one after another,
  except where a theory says otherwise: the loader of configurations and the sessions of users are
  followed through every interleaving. A panic is represented by the error that the recovery
  interceptor turns it into. What is outside the repository (\<^verbatim>\<open>uuid.Parse\<close>,
  \<^verbatim>\<open>decimal.NewFromString\<close>, \<^verbatim>\<open>mail.ParseAddress\<close>, printers, signing, hashing,
  ciphers, the HTTP exchange with an identity provider) is a parameter: a field of a record or an argument.

  \<^bold>\<open>Assumptions of the model.\<close> A round trip that fails has no effect: a statement that is committed while
  its acknowledgement is lost is outside the model, as is a result that is cut off while it is read.
  Texts are ordered by their bytes and folded as in the C locale, and the local time zone of a server
  is UTC. A JSON text stands for its value; texts that are not valid UTF-8 are replaced as Go does.

  \<^bold>\<open>Theories.\<close>

  \<^item> \<open>Prelude\<close>, \<open>GoText\<close>, \<open>Json\<close>: the above, the text functions of Go's library that the code uses
    (\<^verbatim>\<open>strings.TrimSpace\<close>, \<^verbatim>\<open>ToUpper\<close>, numbers, dates), and
    \<^verbatim>\<open>encoding/json\<close> with the round trip of a struct.
  \<^item> \<open>Service_Spec\<close>: the contracts as locales. \<open>service\<close> keeps an invariant, \<open>tenant_service\<close> leaves other
    tenants alone, \<open>guarded_service\<close> is a surface of calls that does nothing without permission;
    \<open>step_service\<close> derives the contract of a tenant service from a step relation and \<open>call_service\<close> that of
    its calls. They are interpreted on the ledger, expenses, projects, budgets, inventory and their RPCs,
    on identity and access, and on the whole in \<open>System\<close>.
  \<^item> \<open>Interceptor\<close>, \<open>Rpc\<close>, \<open>BoundaryProps\<close>: \<^verbatim>\<open>pkg/interceptor\<close>, \<^verbatim>\<open>pkg/tenant\<close>;
    the identity of a call is that of a verified token, the tenant of a request that of the caller, a
    permission is the answer of the permission service. \<open>Demo\<close> has the handler of the witnesses.
  \<^item> \<open>LedgerDb\<close>, \<open>LedgerRepo\<close>, \<open>LedgerService\<close>, \<open>LedgerHandler\<close>: \<^verbatim>\<open>services/ledger\<close> with one
    definition \<open>q_\<close> per SQL statement, \<open>pg_\<close> per repository method, \<open>svc_\<close> per service method and \<open>rpc_\<close>
    per RPC, as in every service below. \<open>LedgerInv\<close> (the invariant), \<open>LedgerEffects\<close> (what a success did),
    \<open>LedgerRun\<close> (requests and the interpretation), \<open>LedgerJournal\<close>, \<open>LedgerPeriods\<close>, \<open>LedgerReports\<close>,
    \<open>LedgerParties\<close>, \<open>LedgerAccounts\<close>, \<open>LedgerProps\<close>, \<open>LedgerApi\<close> hold the properties: posted entries
    balance, posting meets its specification, a void is an exact reversal that leaves the rest alone, the
    journal is append-only, a closed period freezes its entries, reports equal their reference, a bank
    account keeps four digits of its number, tenants are isolated. \<open>LedgerDemo\<close> has the states the
    witnesses run on. The retry of a bank account's code is a recursion over its three attempts.
  \<^item> \<open>ExpenseDb\<close>, \<open>ExpenseService\<close>, \<open>ExpenseHandler\<close>: \<^verbatim>\<open>services/expense\<close>. \<open>ExpenseRun\<close>,
    \<open>ExpenseInv\<close> reduce every request to at most one step of an inductive step relation; \<open>ExpenseProps\<close>,
    \<open>ExpenseApi\<close> show approvals, settlement, finality, isolation and who may read.
  \<^item> \<open>ProjectDb\<close>, \<open>ProjectService\<close>, \<open>ProjectHandler\<close>: \<^verbatim>\<open>services/project\<close>, productions, phases,
    crew. \<open>ProjectInv\<close> has the step relation and the invariant, \<open>ProjectProps\<close> the outcome of a phase
    transition and that the column's check refuses every type of phase.
  \<^item> \<open>BudgetDb\<close>, \<open>BudgetService\<close>, \<open>BudgetHandler\<close>: \<^verbatim>\<open>services/budget\<close>. \<open>BudgetInv\<close>, \<open>BudgetProps\<close>,
    \<open>BudgetTotals\<close>, \<open>BudgetApi\<close>: decisions on a budget, what a line has available, budgets from templates,
    and that the total is the sum of the lines.
  \<^item> \<open>InventoryDb\<close>, \<open>InventoryService\<close>, \<open>InventoryHandler\<close>: \<^verbatim>\<open>services/inventory\<close>. \<open>InventoryInv\<close>,
    \<open>InventoryProps\<close>, \<open>InventoryApi\<close>: check-outs, their finality, and that an asset is in one hand.
  \<^item> \<open>System\<close>: messages over these five services behind the interceptor; isolation of tenants and that
    nothing happens without the permission.
  \<^item> \<open>Vertical\<close>, \<open>VerticalValidator\<close>, \<open>VerticalProps\<close>: the configuration, its look-ups and the validator of
    \<^verbatim>\<open>pkg/vertical\<close>. The depth-first search runs with fuel; as many nested calls as there are
    phases are shown to be enough and the search to be exact. The verdict of the validator is given in
    declarative terms, which are not those of the schema's documentation.
  \<^item> \<open>VerticalJson\<close>, \<open>VerticalMerge\<close>, \<open>VerticalLoader\<close>, \<open>VerticalCache\<close>: the JSON of a configuration, the merge
    of overrides, the tables, store, loader, cache and interceptor. Printing and reading is a round
    trip, the merge meets a reference where identifiers are distinct and kept, and in every interleaving
    the loader returns what the tables gave for that tenant.
  \<^item> \<open>IamText\<close>, \<open>IamDb\<close>, \<open>IamRepo\<close>, \<open>IamSession\<close>, \<open>IamAuth\<close>, \<open>IamService\<close>, \<open>IamLifecycle\<close>, \<open>IamHandler\<close>:
    \<^verbatim>\<open>services/iam\<close> with \<^verbatim>\<open>pkg/auth\<close>, \<^verbatim>\<open>pkg/crypto\<close>, \<^verbatim>\<open>pkg/locale\<close>,
    the slugs of \<^verbatim>\<open>pkg/registration\<close>, the logger of \<^verbatim>\<open>pkg/audit\<close>, the client
    \<^verbatim>\<open>pkg/iamclient\<close> and the loops of \<^verbatim>\<open>cmd/retention-sweeper\<close> and
    \<^verbatim>\<open>cmd/purge-worker\<close>. \<open>IamInv\<close>, \<open>IamRun\<close> show the invariant of every run. \<open>IamProps\<close> follows a
    permission from the call in another service to the tables, which discharges the parameter of the
    boundary, and says what a login needs; \<open>IamLifeProps\<close> that a purge takes two people. In \<open>IamRace\<close>
    logins and refreshes are threads of single round trips; the locale \<open>session_counter\<close>, interpreted for
    the counters of users and of tenants, gives that a revocation holds under every interleaving.
    The sweeper's batches are a recursion over their maximal number, as in the code.

  \<^bold>\<open>Not modelled.\<close> Billing and its payment provider; documents (object storage), notifications (mail and
  SMS gateways), reporting (read-only projections); the registration saga; queries and store of the audit
  log; message broker clients; key loading and secret stores; connection pools and migrations, whose
  constraints are part of the statements; main functions, server start-up, metrics, demo data; generated
  gateway code; the web client.
\<close>

end
